(* ===== verification/Steadq_Prelude.thy ===== *)
theory Steadq_Prelude
  imports Main "HOL-Library.Word"
begin

text \<open>
  Shared vocabulary of the development: the machine integers of the Rust code as words of
  their width, byte strings, the standard-library operations the crates call (checked and
  saturating arithmetic, big-endian conversions, string splitting), results as sums, and
  the generic lemmas every component theory uses.

  A Rust string is modelled by its UTF-8 bytes: a \<^typ>\<open>string\<close> is a list of 8-bit
  characters, \<open>as_bytes\<close> reads it as bytes. A fixed array \<^verbatim>\<open>[u8; N]\<close> is the type
  \<open>N byte_array\<close>, whose values are the byte lists of length N; a slice or a vector is a
  byte list. SHA-256 comes from the third-party crate \<^verbatim>\<open>sha2\<close>: it is an argument of every
  definition that hashes, of type \<open>sha256\<close>, applied to the concatenation of the updates.
\<close>

unbundle bit_operations_syntax

named_theorems bytes_simps \<open>lengths and round trips of byte conversions\<close>
named_theorems result_simps \<open>unfolding the result combinators\<close>
named_theorems checked_simps \<open>checked arithmetic in terms of natural numbers\<close>

type_synonym u8 = "8 word"
type_synonym u16 = "16 word"
type_synonym u32 = "32 word"
type_synonym u64 = "64 word"
type_synonym bytes = "u8 list"

subsection \<open>Results\<close>

abbreviation Ok :: "'a \<Rightarrow> 'e + 'a" where "Ok \<equiv> Inr"
abbreviation Err :: "'e \<Rightarrow> 'e + 'a" where "Err \<equiv> Inl"

text \<open>The \<^verbatim>\<open>?\<close> operator, \<^verbatim>\<open>ok_or\<close>, and an early return guarded by a condition.\<close>

definition res_bind :: "'e + 'a \<Rightarrow> ('a \<Rightarrow> 'e + 'b) \<Rightarrow> 'e + 'b" where
  "res_bind r f = (case r of Inl e \<Rightarrow> Inl e | Inr x \<Rightarrow> f x)"

definition ok_or :: "'a option \<Rightarrow> 'e \<Rightarrow> 'e + 'a" where
  "ok_or x e = (case x of None \<Rightarrow> Inl e | Some v \<Rightarrow> Inr v)"

definition map_err :: "('e \<Rightarrow> 'f) \<Rightarrow> 'e + 'a \<Rightarrow> 'f + 'a" where
  "map_err f r = (case r of Inl e \<Rightarrow> Inl (f e) | Inr x \<Rightarrow> Inr x)"

definition is_ok :: "'e + 'a \<Rightarrow> bool" where
  "is_ok r = (case r of Inl _ \<Rightarrow> False | Inr _ \<Rightarrow> True)"

subsection \<open>Checked and saturating arithmetic\<close>

definition checked_add :: "'a::len word \<Rightarrow> 'a word \<Rightarrow> 'a word option" where
  "checked_add a b = (if unat a + unat b < 2 ^ LENGTH('a) then Some (a + b) else None)"

definition checked_mul :: "'a::len word \<Rightarrow> 'a word \<Rightarrow> 'a word option" where
  "checked_mul a b = (if unat a * unat b < 2 ^ LENGTH('a) then Some (a * b) else None)"

definition saturating_sub :: "'a::len word \<Rightarrow> 'a word \<Rightarrow> 'a word" where
  "saturating_sub a b = (if b \<le> a then a - b else 0)"

definition saturating_add :: "'a::len word \<Rightarrow> 'a word \<Rightarrow> 'a word" where
  "saturating_add a b = (if unat a + unat b < 2 ^ LENGTH('a) then a + b else - 1)"

definition u64_MAX :: u64 where "u64_MAX = - 1"
definition i64_MAX_as_u64 :: u64 where "i64_MAX_as_u64 = 0x7FFFFFFFFFFFFFFF"

definition is_power_of_two :: "u32 \<Rightarrow> bool" where
  "is_power_of_two w = (w \<noteq> 0 \<and> w AND (w - 1) = 0)"

definition is_multiple_of :: "u64 \<Rightarrow> u64 \<Rightarrow> bool" where
  "is_multiple_of a b = (if b = 0 then a = 0 else a mod b = 0)"

subsection \<open>Bytes, big-endian integers and strings\<close>

fun be_bytes :: "nat \<Rightarrow> nat \<Rightarrow> bytes" where
  "be_bytes 0 v = []"
| "be_bytes (Suc n) v = be_bytes n (v div 256) @ [word_of_nat (v mod 256)]"

definition of_be :: "bytes \<Rightarrow> nat" where
  "of_be bs = foldl (\<lambda>a b. a * 256 + unat b) 0 bs"

definition u16_to_be_bytes :: "u16 \<Rightarrow> bytes" where "u16_to_be_bytes w = be_bytes 2 (unat w)"
definition u32_to_be_bytes :: "u32 \<Rightarrow> bytes" where "u32_to_be_bytes w = be_bytes 4 (unat w)"
definition u64_to_be_bytes :: "u64 \<Rightarrow> bytes" where "u64_to_be_bytes w = be_bytes 8 (unat w)"

definition u16_from_be_bytes :: "bytes \<Rightarrow> u16" where "u16_from_be_bytes bs = word_of_nat (of_be bs)"
definition u32_from_be_bytes :: "bytes \<Rightarrow> u32" where "u32_from_be_bytes bs = word_of_nat (of_be bs)"
definition u64_from_be_bytes :: "bytes \<Rightarrow> u64" where "u64_from_be_bytes bs = word_of_nat (of_be bs)"

text \<open>\<^verbatim>\<open>buf[i..j]\<close> of a byte buffer.\<close>

definition slice :: "nat \<Rightarrow> nat \<Rightarrow> 'a list \<Rightarrow> 'a list" where
  "slice i j xs = take (j - i) (drop i xs)"

text \<open>\<^verbatim>\<open>buf[i..].copy_from_slice(bs)\<close> on a range of the length of \<open>bs\<close>.\<close>

definition copy_at :: "nat \<Rightarrow> bytes \<Rightarrow> bytes \<Rightarrow> bytes" where
  "copy_at i bs buf = take i buf @ bs @ drop (i + length bs) buf"

text \<open>A buffer of \<open>n\<close> bytes that starts with \<open>pre\<close> and is zero after it.\<close>

definition padded :: "nat \<Rightarrow> bytes \<Rightarrow> bytes" where
  "padded n pre = pre @ replicate (n - length pre) 0"

definition char_byte :: "char \<Rightarrow> u8" where
  "char_byte c = word_of_nat (of_char c)"

definition byte_char :: "u8 \<Rightarrow> char" where
  "byte_char b = char_of (unat b)"

definition as_bytes :: "string \<Rightarrow> bytes" where
  "as_bytes s = map char_byte s"

definition from_bytes :: "bytes \<Rightarrow> string" where
  "from_bytes bs = map byte_char bs"

text \<open>\<^verbatim>\<open>str::split(c)\<close> collected, \<^verbatim>\<open>str::strip_suffix\<close>, and the inverse of splitting.\<close>

fun split_on :: "char \<Rightarrow> string \<Rightarrow> string list" where
  "split_on c [] = [[]]"
| "split_on c (x # xs) =
     (if x = c then [] # split_on c xs
      else (case split_on c xs of [] \<Rightarrow> [[x]] | p # ps \<Rightarrow> (x # p) # ps))"

fun join_with :: "char \<Rightarrow> string list \<Rightarrow> string" where
  "join_with c [] = []"
| "join_with c [p] = p"
| "join_with c (p # q # ps) = p @ c # join_with c (q # ps)"

definition strip_suffix :: "string \<Rightarrow> string \<Rightarrow> string option" where
  "strip_suffix suf s =
     (if length suf \<le> length s \<and> drop (length s - length suf) s = suf
      then Some (take (length s - length suf) s) else None)"

definition strip_prefix :: "string \<Rightarrow> string \<Rightarrow> string option" where
  "strip_prefix pre s = (if take (length pre) s = pre then Some (drop (length pre) s) else None)"

text \<open>\<^verbatim>\<open>str::rsplit_once(c)\<close>: split at the last occurrence.\<close>

definition rsplit_once :: "char \<Rightarrow> string \<Rightarrow> (string \<times> string) option" where
  "rsplit_once c s =
     (if c \<in> set s
      then Some (rev (tl (dropWhile (\<lambda>x. x \<noteq> c) (rev s))), rev (takeWhile (\<lambda>x. x \<noteq> c) (rev s)))
      else None)"

text \<open>\<^verbatim>\<open>format!("{}", n)\<close> of an unsigned integer.\<close>

fun decimal :: "nat \<Rightarrow> string" where
  "decimal n = (if n < 10 then [char_of (48 + n)] else decimal (n div 10) @ [char_of (48 + n mod 10)])"

declare decimal.simps [simp del]

subsection \<open>Fixed byte arrays\<close>

typedef (overloaded) 'n byte_array = "{bs :: bytes. length bs = LENGTH('n::len)}"
  morphisms arr_bytes Abs_byte_array
  by (rule exI [where x = "replicate LENGTH('n) 0"]) simp

text \<open>\<^verbatim>\<open>slice.try_into().unwrap()\<close> on a slice of the array's length.\<close>

definition arr_of :: "bytes \<Rightarrow> 'n::len byte_array" where
  "arr_of bs = Abs_byte_array (take LENGTH('n) (bs @ replicate LENGTH('n) 0))"

instantiation byte_array :: (len) equal
begin

definition equal_byte_array :: "'a byte_array \<Rightarrow> 'a byte_array \<Rightarrow> bool" where
  "equal_byte_array a b = (arr_bytes a = arr_bytes b)"

instance
  by standard (simp add: equal_byte_array_def arr_bytes_inject)

end

type_synonym id128 = "16 byte_array"
type_synonym digest = "32 byte_array"
type_synonym sha256 = "bytes \<Rightarrow> digest"

subsection \<open>Lemmas on results\<close>

lemma res_bind_simps [simp, result_simps]:
  "res_bind (Inl e) f = Inl e" "res_bind (Inr x) f = f x"
  by (simp_all add: res_bind_def)

lemma ok_or_simps [simp, result_simps]:
  "ok_or None e = Inl e" "ok_or (Some v) e = Inr v"
  by (simp_all add: ok_or_def)

lemma map_err_simps [simp, result_simps]:
  "map_err f (Inl e) = Inl (f e)" "map_err f (Inr x) = Inr x"
  by (simp_all add: map_err_def)

lemma is_ok_simps [simp, result_simps]:
  "\<not> is_ok (Inl e)" "is_ok (Inr x)"
  by (simp_all add: is_ok_def)

lemma res_bind_eq_Ok_iff [result_simps]:
  "res_bind r f = Inr y \<longleftrightarrow> (\<exists>x. r = Inr x \<and> f x = Inr y)"
  by (cases r) auto

lemma ok_or_eq_Ok_iff [result_simps]: "ok_or x e = Inr v \<longleftrightarrow> x = Some v"
  by (cases x) auto

lemma map_err_eq_Ok_iff [result_simps]: "map_err f r = Inr v \<longleftrightarrow> r = Inr v"
  by (cases r) auto

lemma is_ok_iff: "is_ok r \<longleftrightarrow> (\<exists>x. r = Inr x)"
  by (cases r) auto

subsection \<open>Lemmas on checked arithmetic\<close>

lemma checked_add_eq_Some_iff [checked_simps]:
  "checked_add a b = Some c \<longleftrightarrow> unat c = unat a + unat b"
proof
  assume "checked_add a b = Some c"
  then show "unat c = unat a + unat b"
    by (auto simp: checked_add_def unat_word_ariths split: if_splits)
next
  assume c: "unat c = unat a + unat b"
  then have "unat a + unat b < 2 ^ LENGTH('a)" by (metis unsigned_less)
  moreover from this have "unat (a + b) = unat c" by (simp add: c unat_word_ariths)
  ultimately show "checked_add a b = Some c"
    by (simp add: checked_add_def unsigned_word_eqI)
qed

lemma checked_mul_eq_Some_iff [checked_simps]:
  "checked_mul a b = Some c \<longleftrightarrow> unat c = unat a * unat b"
proof
  assume "checked_mul a b = Some c"
  then show "unat c = unat a * unat b"
    by (auto simp: checked_mul_def unat_word_ariths split: if_splits)
next
  assume c: "unat c = unat a * unat b"
  then have "unat a * unat b < 2 ^ LENGTH('a)" by (metis unsigned_less)
  moreover from this have "unat (a * b) = unat c" by (simp add: c unat_word_ariths)
  ultimately show "checked_mul a b = Some c"
    by (simp add: checked_mul_def unsigned_word_eqI)
qed

lemma checked_add_eq_None_iff [checked_simps]:
  fixes a b :: "'a::len word"
  shows "checked_add a b = None \<longleftrightarrow> 2 ^ LENGTH('a) \<le> unat a + unat b"
  by (simp add: checked_add_def not_less)

lemma checked_mul_eq_None_iff [checked_simps]:
  fixes a b :: "'a::len word"
  shows "checked_mul a b = None \<longleftrightarrow> 2 ^ LENGTH('a) \<le> unat a * unat b"
  by (simp add: checked_mul_def not_less)

lemma unat_saturating_sub: "unat (saturating_sub a b) = unat a - unat b"
  by (auto simp: saturating_sub_def unat_sub word_le_nat_alt)

subsection \<open>Lemmas on bytes and big-endian integers\<close>

lemma length_be_bytes [simp, bytes_simps]: "length (be_bytes n v) = n"
  by (induction n arbitrary: v) auto

lemma of_be_Nil [simp]: "of_be [] = 0"
  by (simp add: of_be_def)

lemma of_be_snoc [simp]: "of_be (bs @ [b]) = of_be bs * 256 + unat b"
  by (simp add: of_be_def)

lemma unat_byte_of_nat [simp]: "unat (word_of_nat (v mod 256) :: u8) = v mod 256"
  by (simp add: unat_of_nat)

lemma of_be_be_bytes [bytes_simps]: "of_be (be_bytes n v) = v mod 256 ^ n"
proof (induction n arbitrary: v)
  case 0
  then show ?case by simp
next
  case (Suc n)
  have "of_be (be_bytes (Suc n) v) = (v div 256 mod 256 ^ n) * 256 + v mod 256"
    by (simp add: Suc.IH)
  also have "\<dots> = v mod (256 * 256 ^ n)"
    by (simp add: mod_mult2_eq)
  finally show ?case by simp
qed

lemma of_be_less: "of_be bs < 256 ^ length bs"
proof (induction bs rule: rev_induct)
  case Nil
  then show ?case by simp
next
  case (snoc b bs)
  have "unat b < 256" using unsigned_less [of b, where 'a = nat] by simp
  with snoc show ?case by simp
qed

lemma be_bytes_of_be [bytes_simps]: "be_bytes (length bs) (of_be bs) = bs"
proof (induction bs rule: rev_induct)
  case Nil
  then show ?case by simp
next
  case (snoc b bs)
  have b: "unat b < 256" using unsigned_less [of b, where 'a = nat] by simp
  then have "(of_be bs * 256 + unat b) div 256 = of_be bs"
    "(of_be bs * 256 + unat b) mod 256 = unat b" by simp_all
  with snoc show ?case by simp
qed

lemma be_bytes_of_be' : "length bs = n \<Longrightarrow> be_bytes n (of_be bs) = bs"
  using be_bytes_of_be by blast

lemma length_to_be_bytes [simp, bytes_simps]:
  "length (u16_to_be_bytes a) = 2" "length (u32_to_be_bytes b) = 4" "length (u64_to_be_bytes c) = 8"
  by (simp_all add: u16_to_be_bytes_def u32_to_be_bytes_def u64_to_be_bytes_def)

lemma unat_less_256_power:
  "unat (a :: u16) < 256 ^ 2" "unat (b :: u32) < 256 ^ 4" "unat (c :: u64) < 256 ^ 8"
  using unsigned_less [of a, where 'a = nat] unsigned_less [of b, where 'a = nat]
    unsigned_less [of c, where 'a = nat] by simp_all

lemma from_to_be_bytes [simp, bytes_simps]:
  "u16_from_be_bytes (u16_to_be_bytes a) = a"
  "u32_from_be_bytes (u32_to_be_bytes b) = b"
  "u64_from_be_bytes (u64_to_be_bytes c) = c"
  using unat_less_256_power(1) [of a] unat_less_256_power(2) [of b] unat_less_256_power(3) [of c]
  by (simp_all add: u16_to_be_bytes_def u32_to_be_bytes_def u64_to_be_bytes_def
      u16_from_be_bytes_def u32_from_be_bytes_def u64_from_be_bytes_def of_be_be_bytes)

lemma to_from_be_bytes [bytes_simps]:
  "length bs = 2 \<Longrightarrow> u16_to_be_bytes (u16_from_be_bytes bs) = bs"
  "length bs = 4 \<Longrightarrow> u32_to_be_bytes (u32_from_be_bytes bs) = bs"
  "length bs = 8 \<Longrightarrow> u64_to_be_bytes (u64_from_be_bytes bs) = bs"
  using of_be_less [of bs]
  by (simp_all add: u16_to_be_bytes_def u32_to_be_bytes_def u64_to_be_bytes_def
      u16_from_be_bytes_def u32_from_be_bytes_def u64_from_be_bytes_def unat_of_nat be_bytes_of_be')

subsection \<open>Lemmas on strings\<close>

lemma from_be_bytes_zero [simp]:
  "u16_from_be_bytes (replicate n 0) = 0" "u32_from_be_bytes (replicate n 0) = 0"
  "u64_from_be_bytes (replicate n 0) = 0"
proof -
  have "of_be (replicate n 0) = 0"
    by (induction n) (simp_all add: replicate_append_same [symmetric] del: replicate.simps(2) add: replicate_Suc)
  then show "u16_from_be_bytes (replicate n 0) = 0" "u32_from_be_bytes (replicate n 0) = 0"
    "u64_from_be_bytes (replicate n 0) = 0"
    by (simp_all add: u16_from_be_bytes_def u32_from_be_bytes_def u64_from_be_bytes_def)
qed

lemma of_char_less_256: "(of_char c :: nat) < 256"
  by (metis nat_of_char_less_256)

lemma byte_char_char_byte [simp]: "byte_char (char_byte c) = c"
  using of_char_less_256 [of c] by (simp add: byte_char_def char_byte_def unat_of_nat)

lemma char_byte_byte_char [simp]: "char_byte (byte_char b) = b"
proof -
  have "unat b < 256" using unsigned_less [of b, where 'a = nat] by simp
  then show ?thesis by (simp add: byte_char_def char_byte_def of_char_of)
qed

lemma char_byte_inject [simp]: "char_byte a = char_byte b \<longleftrightarrow> a = b"
  by (metis byte_char_char_byte)

lemma byte_char_inject [simp]: "byte_char a = byte_char b \<longleftrightarrow> a = b"
  by (metis char_byte_byte_char)

lemma length_as_bytes [simp, bytes_simps]: "length (as_bytes s) = length s"
  by (simp add: as_bytes_def)

lemma length_from_bytes [simp, bytes_simps]: "length (from_bytes bs) = length bs"
  by (simp add: from_bytes_def)

lemma as_bytes_from_bytes [simp, bytes_simps]: "as_bytes (from_bytes bs) = bs"
  by (simp add: as_bytes_def from_bytes_def comp_def)

lemma from_bytes_as_bytes [simp, bytes_simps]: "from_bytes (as_bytes s) = s"
  by (simp add: as_bytes_def from_bytes_def comp_def)

lemma as_bytes_append [simp]: "as_bytes (s @ t) = as_bytes s @ as_bytes t"
  by (simp add: as_bytes_def)

lemma as_bytes_Cons: "as_bytes (c # s) = char_byte c # as_bytes s"
  by (simp add: as_bytes_def)

lemma as_bytes_inject [simp]: "as_bytes s = as_bytes t \<longleftrightarrow> s = t"
  by (metis from_bytes_as_bytes)

lemma split_on_not_Nil [simp]: "split_on c s \<noteq> []"
  by (induction s) (auto split: list.split)

lemma split_on_no_sep [simp]: "c \<notin> set p \<Longrightarrow> split_on c p = [p]"
  by (induction p) auto

lemma split_on_append_sep [simp]:
  "c \<notin> set p \<Longrightarrow> split_on c (p @ c # rest) = p # split_on c rest"
  by (induction p) auto

lemma join_with_split_on [simp]: "join_with c (split_on c s) = s"
proof (induction s)
  case Nil
  then show ?case by simp
next
  case (Cons x xs)
  obtain p ps where "split_on c xs = p # ps" by (cases "split_on c xs") auto
  with Cons show ?case by (cases ps) auto
qed

lemma split_on_join_with:
  "ps \<noteq> [] \<Longrightarrow> \<forall>p \<in> set ps. c \<notin> set p \<Longrightarrow> split_on c (join_with c ps) = ps"
  by (induction c ps rule: join_with.induct) auto

lemma split_on_parts_no_sep: "p \<in> set (split_on c s) \<Longrightarrow> c \<notin> set p"
proof (induction s arbitrary: p)
  case Nil
  then show ?case by simp
next
  case (Cons x xs)
  obtain q qs where q: "split_on c xs = q # qs" by (cases "split_on c xs") auto
  have "c \<notin> set q" "\<And>r. r \<in> set qs \<Longrightarrow> c \<notin> set r" using Cons.IH q by auto
  with Cons.prems q show ?case by (auto split: if_splits)
qed

lemma strip_suffix_append [simp]: "strip_suffix suf (s @ suf) = Some s"
  by (simp add: strip_suffix_def)

lemma strip_suffix_eq_Some_iff: "strip_suffix suf s = Some r \<longleftrightarrow> s = r @ suf"
proof
  assume "strip_suffix suf s = Some r"
  then have "r = take (length s - length suf) s" "drop (length s - length suf) s = suf"
    by (auto simp: strip_suffix_def split: if_splits)
  then show "s = r @ suf" by (metis append_take_drop_id)
next
  assume "s = r @ suf"
  then show "strip_suffix suf s = Some r" by simp
qed

lemma takeWhile_sep: "c \<notin> set p \<Longrightarrow> takeWhile (\<lambda>x. x \<noteq> c) (p @ c # q) = p"
  by (induction p) auto

lemma dropWhile_sep: "c \<notin> set p \<Longrightarrow> dropWhile (\<lambda>x. x \<noteq> c) (p @ c # q) = c # q"
  by (induction p) auto

lemma rsplit_once_append [simp]:
  "c \<notin> set b \<Longrightarrow> rsplit_once c (a @ c # b) = Some (a, b)"
  by (simp add: rsplit_once_def takeWhile_sep dropWhile_sep)

subsection \<open>Lemmas on slices\<close>

lemma length_slice [simp, bytes_simps]: "length (slice i j xs) = min (j - i) (length xs - i)"
  by (simp add: slice_def)

lemma slice_append_left [bytes_simps]:
  "j \<le> length xs \<Longrightarrow> slice i j (xs @ ys) = slice i j xs"
  by (simp add: slice_def)

lemma slice_append_right [bytes_simps]:
  "length xs \<le> i \<Longrightarrow> slice i j (xs @ ys) = slice (i - length xs) (j - length xs) ys"
  by (cases "i \<le> j") (simp_all add: slice_def)

lemma slice_all [bytes_simps]: "j = length xs \<Longrightarrow> slice 0 j xs = xs"
  by (simp add: slice_def)

lemma slice_split: "i \<le> j \<Longrightarrow> j \<le> k \<Longrightarrow> slice i k xs = slice i j xs @ slice j k xs"
proof -
  assume le: "i \<le> j" "j \<le> k"
  then have "k - i = (j - i) + (k - j)" by simp
  with le show ?thesis by (simp only: slice_def take_add drop_drop) simp
qed

lemma slice_single: "j < length xs \<Longrightarrow> slice j (Suc j) xs = [xs ! j]"
  by (simp add: slice_def take_Suc_conv_app_nth hd_drop_conv_nth take_Suc)

lemma slice_map_nth: "j \<le> length xs \<Longrightarrow> slice i j xs = map ((!) xs) [i..<j]"
  by (rule nth_equalityI) (auto simp: slice_def)

subsection \<open>Lemmas on fixed byte arrays\<close>

lemma length_arr_bytes [simp, bytes_simps]: "length (arr_bytes (a :: 'n::len byte_array)) = LENGTH('n)"
  using arr_bytes [of a] by simp

lemma Abs_byte_array_code [code abstype]: "Abs_byte_array (arr_bytes a) = a"
  by (rule arr_bytes_inverse)

lemma arr_bytes_arr_of_code [code abstract]:
  "arr_bytes (arr_of bs :: 'n::len byte_array) = take LENGTH('n) (bs @ replicate LENGTH('n) 0)"
  by (simp add: arr_of_def Abs_byte_array_inverse)

lemma arr_bytes_arr_of [simp, bytes_simps]:
  "length bs = LENGTH('n::len) \<Longrightarrow> arr_bytes (arr_of bs :: 'n byte_array) = bs"
  by (simp add: arr_bytes_arr_of_code)

lemma arr_of_arr_bytes [simp, bytes_simps]: "arr_of (arr_bytes a) = a"
  by (simp add: arr_of_def arr_bytes_inverse)

lemma arr_bytes_eq_iff [simp]: "arr_bytes a = arr_bytes b \<longleftrightarrow> a = b"
  by (rule arr_bytes_inject)

lemma arr_bytes_neq_Nil [simp]: "arr_bytes (a :: 'n::len byte_array) \<noteq> []"
  using length_arr_bytes [of a] by (metis len_not_eq_0 list.size(3))

lemma arr_of_eq_iff:
  "length bs = LENGTH('n::len) \<Longrightarrow> (arr_of bs :: 'n byte_array) = a \<longleftrightarrow> bs = arr_bytes a"
  by (metis arr_bytes_arr_of arr_of_arr_bytes)

subsection \<open>The contracts of encodings\<close>

text \<open>An encoding whose decoder accepts whatever the encoder writes for a valid value, and
  returns only valid values; the decoder may accept other spellings of the same value.\<close>

locale round_trip =
  fixes valid :: "'v \<Rightarrow> bool" and printer :: "'v \<Rightarrow> 't" and parser :: "'t \<Rightarrow> 'e + 'v"
  assumes parse_valid_print: "valid v \<Longrightarrow> parser (printer v) = Ok v"
    and parse_valid: "parser t = Ok v \<Longrightarrow> valid v"
begin

lemma valid_iff_reparses: "valid v \<longleftrightarrow> parser (printer v) = Ok v"
  using parse_valid_print parse_valid by blast

lemma normalise: "parser t = Ok v \<Longrightarrow> parser (printer v) = Ok v"
  using parse_valid_print parse_valid by blast

lemma printer_inject_valid: "valid v \<Longrightarrow> valid w \<Longrightarrow> printer v = printer w \<longleftrightarrow> v = w"
  by (metis parse_valid_print sum.inject(2))

end

text \<open>A canonical encoding: moreover only printed text parses. Filenames and paths promise this.\<close>

locale codec =
  fixes printer :: "'v \<Rightarrow> 't" and parser :: "'t \<Rightarrow> 'e + 'v"
  assumes parse_print: "parser (printer v) = Ok v"
    and print_parse: "parser t = Ok v \<Longrightarrow> printer v = t"
begin

lemma parser_eq_Ok_iff: "parser t = Ok v \<longleftrightarrow> t = printer v"
  using parse_print print_parse by blast

lemma printer_inject: "printer v = printer w \<longleftrightarrow> v = w"
  by (metis parse_print sum.inject(2))

lemma accepted_iff: "is_ok (parser t) \<longleftrightarrow> t \<in> range printer"
  by (auto simp: is_ok_iff parser_eq_Ok_iff)

lemma parser_inject: "parser t = Ok v \<Longrightarrow> parser u = Ok v \<Longrightarrow> t = u"
  by (simp add: parser_eq_Ok_iff)

end

sublocale codec \<subseteq> round_trip "\<lambda>_. True" printer parser
  by unfold_locales (simp_all add: parse_print)

lemma codecI: "(\<And>t v. parser t = Ok v \<longleftrightarrow> t = printer v) \<Longrightarrow> codec printer parser"
  by unfold_locales auto

subsection \<open>Writing into a fixed buffer\<close>

lemma length_copy_at [simp, bytes_simps]:
  "i + length bs \<le> length buf \<Longrightarrow> length (copy_at i bs buf) = length buf"
  by (simp add: copy_at_def)

lemma replicate_padded: "replicate n 0 = padded n []"
  by (simp add: padded_def)

lemma copy_at_padded:
  "length pre \<le> i \<Longrightarrow> i + length bs \<le> n \<Longrightarrow>
     copy_at i bs (padded n pre) = padded n (pre @ replicate (i - length pre) 0 @ bs)"
  by (simp add: copy_at_def padded_def)

lemma length_padded: "length pre \<le> n \<Longrightarrow> length (padded n pre) = n"
  by (simp add: padded_def)

lemma slice_append_cover: "length xs \<le> j \<Longrightarrow> slice 0 j (xs @ ys) = xs @ slice 0 (j - length xs) ys"
  by (simp add: slice_def)

lemma slice_Cons_skip: "0 < i \<Longrightarrow> slice i j (x # xs) = slice (i - 1) (j - 1) xs"
  by (cases i; cases j) (simp_all add: slice_def)

lemma slice_Cons_take: "0 < j \<Longrightarrow> slice 0 j (x # xs) = x # slice 0 (j - 1) xs"
  by (cases j) (simp_all add: slice_def)

lemma slice_0_0 [simp]: "slice i i xs = []"
  by (simp add: slice_def)

lemma slice_replicate [simp, bytes_simps]:
  "slice i j (replicate n x) = replicate (min (j - i) (n - i)) x"
  by (simp add: slice_def)

end
