(* ===== verification/Steadq_Math.thy ===== *)
theory Steadq_Math
  imports Steadq_Prelude
begin

text \<open>
  The crate \<^verbatim>\<open>steadq-math\<close>: bucket arithmetic on nanosecond timestamps, the eligibility
  bucket of a delayed job, the retry policy with its deterministic jitter, the retry deadline
  and the effective wall floor. All integers keep their width; the lemmas restate each
  function over the natural numbers its words denote.
\<close>

section \<open>Definitions\<close>

definition checked_add_u64 :: "u64 \<Rightarrow> u64 \<Rightarrow> u64 option" where
  "checked_add_u64 a b = checked_add a b"

definition checked_mul_u64 :: "u64 \<Rightarrow> u64 \<Rightarrow> u64 option" where
  "checked_mul_u64 a b = checked_mul a b"

definition bucket_number :: "u64 \<Rightarrow> u64 \<Rightarrow> u64 option" where
  "bucket_number timestamp_ns bucket_width_ns =
     (if bucket_width_ns = 0 then None else Some (timestamp_ns div bucket_width_ns))"

definition ceiling_bucket :: "u64 \<Rightarrow> u64 \<Rightarrow> u64 option" where
  "ceiling_bucket timestamp_ns bucket_width_ns =
     (if bucket_width_ns = 0 then None
      else let q = timestamp_ns div bucket_width_ns; r = timestamp_ns mod bucket_width_ns
           in if r \<noteq> 0 then checked_add_u64 q 1 else Some q)"

definition eligibility_bucket_and_ns :: "u64 \<Rightarrow> u64 \<Rightarrow> (u64 \<times> u64) option" where
  "eligibility_bucket_and_ns requested_ns bucket_width_ns =
     (case ceiling_bucket requested_ns bucket_width_ns of
        None \<Rightarrow> None
      | Some bucket \<Rightarrow>
          (case checked_mul_u64 bucket bucket_width_ns of
             None \<Rightarrow> None
           | Some ns \<Rightarrow> Some (bucket, ns)))"

definition bucket_start_ns :: "u64 \<Rightarrow> u64 \<Rightarrow> u64 option" where
  "bucket_start_ns bucket bucket_width_ns = checked_mul_u64 bucket bucket_width_ns"

definition bucket_end_ns :: "u64 \<Rightarrow> u64 \<Rightarrow> u64 option" where
  "bucket_end_ns bucket bucket_width_ns =
     (case bucket_start_ns bucket bucket_width_ns of
        None \<Rightarrow> None
      | Some start \<Rightarrow> checked_add_u64 start bucket_width_ns)"

definition lease_bucket :: "u64 \<Rightarrow> u64 \<Rightarrow> u64 option" where
  "lease_bucket boottime_deadline_ns lease_bucket_width_ns =
     bucket_number boottime_deadline_ns lease_bucket_width_ns"

subsection \<open>Retry policy and jitter\<close>

record RetryPolicy =
  base_ms :: u64
  cap_ms :: u64
  use_jitter :: bool
  max_delay_ms :: "u64 option"

datatype RetryError = ZeroBase | CapTooSmall | Overflow

definition effective_cap_ms :: "RetryPolicy \<Rightarrow> u64" where
  "effective_cap_ms p =
     (case max_delay_ms p of Some m \<Rightarrow> min (cap_ms p) m | None \<Rightarrow> cap_ms p)"

definition retry_policy_validate :: "RetryPolicy \<Rightarrow> RetryError + unit" where
  "retry_policy_validate p =
     (if base_ms p = 0 then Err ZeroBase
      else let effective_cap = effective_cap_ms p
           in if effective_cap < base_ms p then Err CapTooSmall else Ok ())"

definition retry_policy_new ::
    "u64 \<Rightarrow> u64 \<Rightarrow> bool \<Rightarrow> u64 option \<Rightarrow> RetryError + RetryPolicy" where
  "retry_policy_new base cap jitter max_delay =
     (let policy = \<lparr>base_ms = base, cap_ms = cap, use_jitter = jitter, max_delay_ms = max_delay\<rparr>
      in res_bind (retry_policy_validate policy) (\<lambda>_. Ok policy))"

definition saturating_double :: "u64 \<Rightarrow> u32 \<Rightarrow> u64" where
  "saturating_double base exp =
     (if exp = 0 \<or> base = 0 then base
      else if 64 < exp then u64_MAX
      else let shift = exp - 1
           in if 64 \<le> shift \<or> drop_bit (unat shift) u64_MAX < base then u64_MAX
              else push_bit (unat shift) base)"

definition span_midpoint :: "u64 \<Rightarrow> u64 \<Rightarrow> u64" where
  "span_midpoint lower span = lower + span div 2"

text \<open>\<^verbatim>\<open>u64::div_ceil\<close> of the standard library.\<close>

definition div_ceil :: "u64 \<Rightarrow> u64 \<Rightarrow> u64" where
  "div_ceil a b = (let d = a div b; r = a mod b in if 0 < r then d + 1 else d)"

definition jitter_threshold :: "u64 \<Rightarrow> u64" where
  "jitter_threshold span = (- span) mod span"

definition jitter_sample :: "sha256 \<Rightarrow> id128 \<Rightarrow> id128 \<Rightarrow> u32 \<Rightarrow> u32 \<Rightarrow> u64" where
  "jitter_sample sha queue_id job_id attempt counter =
     u64_from_be_bytes (take 8 (arr_bytes (sha (as_bytes ''SteadQ-1-jitter'' @ [0]
       @ arr_bytes queue_id @ arr_bytes job_id
       @ u32_to_be_bytes attempt @ u32_to_be_bytes counter))))"

fun jitter_loop ::
    "sha256 \<Rightarrow> id128 \<Rightarrow> id128 \<Rightarrow> u32 \<Rightarrow> u64 \<Rightarrow> u64 \<Rightarrow> u64 \<Rightarrow> u32 list \<Rightarrow> u64" where
  "jitter_loop sha queue_id job_id attempt lower span threshold [] = span_midpoint lower span"
| "jitter_loop sha queue_id job_id attempt lower span threshold (counter # counters) =
     (let x = jitter_sample sha queue_id job_id attempt counter
      in if threshold \<le> x then lower + x mod span
         else jitter_loop sha queue_id job_id attempt lower span threshold counters)"

definition retry_delay_ms ::
    "sha256 \<Rightarrow> id128 \<Rightarrow> id128 \<Rightarrow> u32 \<Rightarrow> RetryPolicy \<Rightarrow> RetryError + u64" where
  "retry_delay_ms sha queue_id job_id attempt policy =
     res_bind (retry_policy_validate policy) (\<lambda>_.
       if attempt = 0 then Ok 0
       else let cap = effective_cap_ms policy;
                ceiling = min cap (saturating_double (base_ms policy) attempt)
            in if \<not> use_jitter policy then Ok ceiling
               else let lower = div_ceil ceiling 2;
                        span = ceiling - lower + 1;
                        threshold = jitter_threshold span
                    in Ok (jitter_loop sha queue_id job_id attempt lower span threshold
                             (map word_of_nat [0..<64])))"

definition retry_wall_deadline :: "u64 \<Rightarrow> u64 \<Rightarrow> u64 option" where
  "retry_wall_deadline effective_wall_floor_ns delay_ns =
     (case checked_add_u64 effective_wall_floor_ns delay_ns of
        None \<Rightarrow> None
      | Some deadline \<Rightarrow> if i64_MAX_as_u64 < deadline then None else Some deadline)"

definition effective_wall_floor :: "u64 \<Rightarrow> u64 \<Rightarrow> u64 \<Rightarrow> u64 option" where
  "effective_wall_floor clock_realtime_ns stored_bucket bucket_width_ns =
     (if bucket_width_ns = 0 then None
      else case checked_mul_u64 stored_bucket bucket_width_ns of
             None \<Rightarrow> None
           | Some watermark_ns \<Rightarrow> Some (max clock_realtime_ns watermark_ns))"

subsection \<open>The reference ceiling of a retry delay\<close>

definition backoff_ceiling :: "RetryPolicy \<Rightarrow> u32 \<Rightarrow> nat" where
  "backoff_ceiling p attempt =
     min (unat (effective_cap_ms p)) (unat (base_ms p) * 2 ^ (unat attempt - 1))"


section \<open>Lemmas\<close>

lemmas math_checked = checked_add_u64_def checked_mul_u64_def checked_simps

lemma u64_MAX_nat: "unat u64_MAX = 2 ^ 64 - 1"
  by (simp add: u64_MAX_def unsigned_minus_1_eq_mask mask_eq_exp_minus_1)

lemma unat_u64_less: "unat (a :: u64) < 2 ^ 64"
  using unsigned_less [of a, where 'a = nat] by simp

lemma unat_div_u64: "unat (a div b :: u64) = unat a div unat b"
  by (rule unat_div)

lemma unat_mod_u64: "unat (a mod b :: u64) = unat a mod unat b"
  by (rule unat_mod)

lemma u64_eq_iff: "(a :: u64) = b \<longleftrightarrow> unat a = unat b"
  by (rule word_unat_eq_iff)

lemma bucket_number_eq_Some_iff:
  "bucket_number t w = Some b \<longleftrightarrow> w \<noteq> 0 \<and> unat b = unat t div unat w"
  by (auto simp: bucket_number_def u64_eq_iff unat_div_u64)

lemma bucket_number_eq_None_iff: "bucket_number t w = None \<longleftrightarrow> w = 0"
  by (simp add: bucket_number_def)

lemma ceiling_bucket_eq_Some_iff:
  "ceiling_bucket t w = Some b \<longleftrightarrow>
     w \<noteq> 0 \<and> unat b = unat t div unat w + (if unat t mod unat w = 0 then 0 else 1)"
  by (auto simp: ceiling_bucket_def Let_def math_checked u64_eq_iff unat_div_u64 unat_mod_u64)

lemma ceiling_bucket_total: "w \<noteq> 0 \<Longrightarrow> \<exists>b. ceiling_bucket t w = Some b"
proof -
  assume w: "w \<noteq> 0"
  show ?thesis
  proof (cases "t mod w = 0")
    case True
    with w show ?thesis by (simp add: ceiling_bucket_def Let_def)
  next
    case False
    then have "unat t mod unat w \<noteq> 0" by (simp add: u64_eq_iff unat_mod_u64)
    then have "unat w \<noteq> 1" by (metis mod_by_1)
    with w have "2 \<le> unat w" by (simp add: u64_eq_iff)
    then have "unat t div unat w \<le> unat t div 2" by (rule div_le_mono2 [rotated]) simp
    with unat_u64_less [of t] have "unat (t div w) + 1 < 2 ^ 64" by (simp add: unat_div_u64)
    with w False show ?thesis
      by (simp add: ceiling_bucket_def Let_def checked_add_u64_def checked_add_def)
  qed
qed

lemma ceiling_nat_bounds:
  fixes t w :: nat
  assumes "0 < w" and "b = t div w + (if t mod w = 0 then 0 else 1)"
  shows "t \<le> b * w" and "b * w < t + w"
proof -
  define q r where "q = t div w" and "r = t mod w"
  have t: "t = q * w + r" by (simp add: q_def r_def)
  have r: "r < w" using assms(1) by (simp add: r_def)
  have b: "b = q + (if r = 0 then 0 else 1)" using assms(2) by (simp add: q_def r_def)
  show "t \<le> b * w" and "b * w < t + w"
    using r unfolding t b by (auto simp: algebra_simps)
qed

lemma eligibility_eq_Some_iff:
  "eligibility_bucket_and_ns r w = Some (b, ns) \<longleftrightarrow>
     ceiling_bucket r w = Some b \<and> unat ns = unat b * unat w"
  using unat_u64_less [of ns]
  by (cases "ceiling_bucket r w"; cases "checked_mul_u64 b w")
    (auto simp: eligibility_bucket_and_ns_def math_checked u64_eq_iff split: option.splits)

text \<open>C9. A delayed job is never scheduled early and less than one bucket width late: when
  \<open>eligibility_bucket_and_ns\<close> returns a bucket and a time, the time is the start of that
  bucket, is at or after the requested time, and exceeds it by less than the width.\<close>

theorem eligibility_never_early:
  assumes "eligibility_bucket_and_ns requested w = Some (b, ns)"
  shows "requested \<le> ns \<and> unat ns < unat requested + unat w
    \<and> bucket_start_ns b w = Some ns \<and> bucket_number ns w = Some b"
proof -
  from assms have w: "w \<noteq> 0" and ns: "unat ns = unat b * unat w"
    and b: "unat b = unat requested div unat w + (if unat requested mod unat w = 0 then 0 else 1)"
    by (auto simp: eligibility_eq_Some_iff ceiling_bucket_eq_Some_iff)
  have w0: "0 < unat w" using w by (simp add: unat_gt_0)
  have "bucket_start_ns b w = Some ns" by (simp add: bucket_start_ns_def math_checked ns)
  moreover have "bucket_number ns w = Some b"
    using w w0 by (simp add: bucket_number_eq_Some_iff ns)
  ultimately show ?thesis
    using ceiling_nat_bounds [OF w0 b] by (simp add: ns word_le_nat_alt)
qed

theorem eligibility_never_early_witness:
  "eligibility_bucket_and_ns 10000000001 10000000000 = Some (2, 20000000000)
    \<and> (10000000001 :: u64) \<le> 20000000000"
proof -
  have "eligibility_bucket_and_ns 10000000001 10000000000 = Some (2, 20000000000)"
    by (simp add: eligibility_eq_Some_iff ceiling_bucket_eq_Some_iff)
  with eligibility_never_early [OF this] show ?thesis by blast
qed

lemma eligibility_None_iff:
  "eligibility_bucket_and_ns r w = None \<longleftrightarrow>
     w = 0 \<or> (\<exists>b. ceiling_bucket r w = Some b \<and> 2 ^ 64 \<le> unat b * unat w)"
proof (cases "w = 0")
  case True
  then show ?thesis by (simp add: eligibility_bucket_and_ns_def ceiling_bucket_def)
next
  case False
  then obtain b where "ceiling_bucket r w = Some b" using ceiling_bucket_total by blast
  with False show ?thesis
    by (auto simp: eligibility_bucket_and_ns_def checked_mul_u64_def checked_mul_def)
qed

text \<open>The interval of a bucket: a timestamp lies in the half-open interval of its bucket.\<close>

lemma bucket_interval:
  assumes "bucket_number t w = Some b" and "bucket_end_ns b w = Some e"
  shows "unat b * unat w \<le> unat t \<and> unat t < unat e"
proof -
  from assms(1) have w: "0 < unat w" and b: "unat b = unat t div unat w"
    by (auto simp: bucket_number_eq_Some_iff unat_gt_0)
  from assms(2) have e: "unat e = unat b * unat w + unat w"
    by (auto simp: bucket_end_ns_def bucket_start_ns_def math_checked split: option.splits)
  show ?thesis using dividend_less_div_times [OF w, of "unat t"] by (simp add: b e add.commute)
qed

subsection \<open>Retry delays\<close>

lemma div_max_less_iff:
  fixes b k :: nat
  assumes "k < 64"
  shows "(2 ^ 64 - 1) div 2 ^ k < b \<longleftrightarrow> 2 ^ 64 \<le> b * 2 ^ k"
proof -
  have "(2 ^ 64 - 1) div 2 ^ k < b \<longleftrightarrow> (2 ^ 64 - 1 :: nat) < b * 2 ^ k"
    by (rule div_less_iff_less_mult) simp
  also have "\<dots> \<longleftrightarrow> 2 ^ 64 \<le> b * 2 ^ k"
    by (simp add: less_eq_Suc_le)
  finally show ?thesis .
qed

lemma saturating_double_nat:
  assumes "exp \<noteq> 0"
  shows "unat (saturating_double base exp) = min (2 ^ 64 - 1) (unat base * 2 ^ (unat exp - 1))"
proof (cases "base = 0 \<or> 64 < exp")
  case True
  show ?thesis
  proof (cases "base = 0")
    case True
    then show ?thesis by (simp add: saturating_double_def)
  next
    case False
    with True have e: "64 < unat exp" by (simp add: word_less_nat_alt)
    have "(2 :: nat) ^ 64 \<le> 2 ^ (unat exp - 1)" by (rule power_increasing) (use e in auto)
    moreover have "1 \<le> unat base" using False by (simp add: Suc_leI unat_gt_0)
    ultimately have "2 ^ 64 * 1 \<le> 2 ^ (unat exp - 1) * unat base" by (rule mult_le_mono)
    then show ?thesis using True False assms
      by (simp add: saturating_double_def u64_MAX_nat mult.commute)
  qed
next
  case False
  then have b: "base \<noteq> 0" and e: "unat exp \<le> 64" by (auto simp: word_less_nat_alt)
  define k where "k = unat exp - 1"
  have k: "k < 64" "unat (exp - 1) = k"
    using e assms by (auto simp: k_def unat_minus_one unat_gt_0)
  have c: "drop_bit k u64_MAX < base \<longleftrightarrow> 2 ^ 64 \<le> unat base * 2 ^ k"
    using div_max_less_iff [OF k(1), of "unat base"]
    by (simp add: word_less_nat_alt unsigned_drop_bit_eq drop_bit_eq_div [where 'a = nat] u64_MAX_nat)
  have sd: "saturating_double base exp = (if 2 ^ 64 \<le> unat base * 2 ^ k then u64_MAX else push_bit k base)"
    using b False assms k c by (auto simp: saturating_double_def Let_def word_le_nat_alt)
  have "unat (push_bit k base) = unat base * 2 ^ k" if "unat base * 2 ^ k < 2 ^ 64"
    using that by (simp add: unsigned_push_bit_eq push_bit_eq_mult [where 'a = nat] take_bit_eq_mod)
  then show ?thesis unfolding sd k_def [symmetric] by (auto simp: u64_MAX_nat min_def)
qed

lemma unat_div_ceil_2: "unat (div_ceil c 2) = (unat c + 1) div 2"
proof -
  have "unat (c div 2 + 1) = unat c div 2 + 1"
    using unat_u64_less [of c] by (subst unat_add_lem [THEN iffD1]) (simp_all add: unat_div_u64)
  then show ?thesis
    by (simp add: div_ceil_def Let_def word_less_nat_alt unat_div_u64 unat_mod_u64) presburger
qed

lemma jitter_loop_bounds:
  assumes "span \<noteq> 0" and "unat lower + unat span \<le> 2 ^ 64"
  shows "lower \<le> jitter_loop sha q j a lower span t cs
    \<and> unat (jitter_loop sha q j a lower span t cs) < unat lower + unat span"
proof -
  have off: "lower \<le> lower + d \<and> unat (lower + d) < unat lower + unat span" if "unat d < unat span" for d
  proof -
    from that assms(2) have "unat (lower + d) = unat lower + unat d"
      by (intro unat_add_lem [THEN iffD1]) simp
    with that show ?thesis by (simp add: word_le_nat_alt)
  qed
  have s: "0 < unat span" using assms(1) by (simp add: unat_gt_0)
  show ?thesis
  proof (induction cs)
    case Nil
    have "unat (span div 2) < unat span" using s by (simp add: unat_div_u64)
    from off [OF this] show ?case by (simp add: span_midpoint_def)
  next
    case (Cons c cs)
    have "unat (x mod span) < unat span" for x using s by (simp add: unat_mod_u64)
    from off [OF this] Cons.IH show ?case by (simp add: Let_def)
  qed
qed

lemma retry_span:
  assumes "c \<noteq> (0 :: u64)"
  shows "unat (c - div_ceil c 2 + 1) = unat c div 2 + 1"
    and "unat (div_ceil c 2) + unat (c - div_ceil c 2 + 1) = unat c + 1"
proof -
  have c: "0 < unat c" "unat c < 2 ^ 64" using assms unat_u64_less [of c] by (simp_all add: unat_gt_0)
  have l: "unat (div_ceil c 2) = (unat c + 1) div 2" by (rule unat_div_ceil_2)
  have "div_ceil c 2 \<le> c" using c by (simp add: word_le_nat_alt l)
  then have d: "unat (c - div_ceil c 2) = unat c div 2" by (simp add: unat_sub l)
  show s: "unat (c - div_ceil c 2 + 1) = unat c div 2 + 1"
    using c by (subst unat_add_lem [THEN iffD1]) (simp_all add: d)
  show "unat (div_ceil c 2) + unat (c - div_ceil c 2 + 1) = unat c + 1" by (simp add: s l)
qed

lemma retry_policy_validate_Ok_iff:
  "retry_policy_validate p = Ok () \<longleftrightarrow> base_ms p \<noteq> 0 \<and> base_ms p \<le> effective_cap_ms p"
  by (auto simp: retry_policy_validate_def Let_def)

text \<open>C10. A retry delay always exists for a valid policy and lies in the upper half of the
  exponential backoff: for attempt \<open>n \<ge> 1\<close> the ceiling is the exact minimum of the effective cap
  and \<open>base * 2 ^ (n - 1)\<close> (no wrap-around from the shift), the delay is at least half of it
  rounded up and at most all of it, whatever the hash returns, and without jitter it is the
  ceiling itself.\<close>

theorem retry_delay_within_backoff:
  assumes "retry_policy_validate p = Ok ()" and "attempt \<noteq> 0"
  shows "\<exists>d. retry_delay_ms sha q j attempt p = Ok d
    \<and> (backoff_ceiling p attempt + 1) div 2 \<le> unat d \<and> unat d \<le> backoff_ceiling p attempt
    \<and> (\<not> use_jitter p \<longrightarrow> unat d = backoff_ceiling p attempt)"
proof -
  define c where "c = backoff_ceiling p attempt"
  define ceiling where "ceiling = min (effective_cap_ms p) (saturating_double (base_ms p) attempt)"
  have "unat ceiling = min (unat (effective_cap_ms p)) (unat (saturating_double (base_ms p) attempt))"
    by (simp add: ceiling_def min_def word_le_nat_alt)
  then have c: "unat ceiling = c"
    using unat_u64_less [of "effective_cap_ms p"] assms(2)
    by (simp add: saturating_double_nat c_def backoff_ceiling_def min_def)
  have c0: "ceiling \<noteq> 0"
    using assms(1,2) by (auto simp: retry_policy_validate_Ok_iff u64_eq_iff c c_def backoff_ceiling_def word_le_nat_alt)
  define lower span where "lower = div_ceil ceiling 2" and "span = ceiling - lower + 1"
  have s: "span \<noteq> 0" "unat lower + unat span = unat ceiling + 1" "unat lower = (c + 1) div 2"
    using retry_span [OF c0] unat_div_ceil_2 [of ceiling]
    by (auto simp: lower_def span_def u64_eq_iff c)
  define d where "d = (if use_jitter p
    then jitter_loop sha q j attempt lower span (jitter_threshold span) (map word_of_nat [0..<64])
    else ceiling)"
  have "retry_delay_ms sha q j attempt p = Ok d"
    using assms(1,2) by (simp add: retry_delay_ms_def Let_def d_def ceiling_def lower_def span_def)
  moreover have "(c + 1) div 2 \<le> unat d \<and> unat d \<le> c"
  proof -
    have "unat lower + unat span \<le> 2 ^ 64" using s(2) unat_u64_less [of ceiling] by simp
    from jitter_loop_bounds [OF s(1) this, of sha q j attempt "jitter_threshold span"
        "map word_of_nat [0..<64]"] show ?thesis
      using s c by (auto simp: d_def word_le_nat_alt)
  qed
  moreover have "\<not> use_jitter p \<longrightarrow> unat d = c" by (simp add: d_def c)
  ultimately show ?thesis unfolding c_def by blast
qed

lemma unat_jitter_threshold:
  assumes "span \<noteq> 0"
  shows "unat (jitter_threshold span) = 2 ^ 64 mod unat span"
proof -
  have "unat (- span) = 2 ^ 64 - unat span" using unat_sub_if' [of 0 span] assms
    by (simp add: unat_gt_0)
  moreover have "(2 ^ 64 - unat span) mod unat span = 2 ^ 64 mod unat span"
    using unat_u64_less [of span] by (simp add: le_mod_geq [symmetric])
  ultimately show ?thesis by (simp add: jitter_threshold_def unat_mod_u64)
qed

lemma card_residue_class:
  fixes s N r :: nat
  assumes s: "0 < s" and r: "r < s"
  shows "card {n. N mod s \<le> n \<and> n < N \<and> n mod s = r} = N div s"
proof -
  define t e where "t = N mod s" and "e = (r + (s - t)) mod s"
  have t: "t < s" and e: "e < s" using s by (simp_all add: t_def e_def)
  have N: "N = t + s * (N div s)" by (simp add: t_def)
  have te: "(t + f) mod s = r \<longleftrightarrow> f = e" if "f < s" for f
    using that t r by (auto simp: e_def mod_if)
  have "{n. N mod s \<le> n \<and> n < N \<and> n mod s = r} = (\<lambda>i. t + e + s * i) ` {..<N div s}" (is "?A = ?B")
  proof (intro equalityI subsetI)
    fix n assume n: "n \<in> ?A"
    define i f where "i = (n - t) div s" and "f = (n - t) mod s"
    have nf: "n = t + f + s * i" using n by (simp add: i_def f_def t_def)
    then have "(t + f) mod s = r" using n by simp
    then have "f = e" using te s by (simp add: f_def)
    moreover have "s * i < s * (N div s)" using CollectD [OF n] nf N by linarith
    ultimately show "n \<in> ?B" using nf by auto
  next
    fix n assume "n \<in> ?B"
    then obtain i where i: "i < N div s" "n = t + e + s * i" by auto
    have "s * Suc i \<le> s * (N div s)" using i(1) by (intro mult_le_mono2) simp
    then have "n < N" using N e i(2) by simp
    then show "n \<in> ?A" using i(2) te [OF e] by (simp add: t_def)
  qed
  moreover have "inj_on (\<lambda>i. t + e + s * i) {..<N div s}" using s by (auto intro: inj_onI)
  ultimately show ?thesis by (simp add: card_image)
qed

lemma card_u64_Collect: "card {x :: u64. P (unat x)} = card {n. n < 2 ^ 64 \<and> P n}"
proof -
  have "unat ` {x :: u64. P (unat x)} = {n. n < 2 ^ 64 \<and> P n}"
  proof (intro equalityI subsetI)
    fix n assume "n \<in> {n. n < 2 ^ 64 \<and> P n}"
    then have "unat (word_of_nat n :: u64) = n" "P n" by (simp_all add: unsigned_of_nat take_bit_eq_mod)
    then show "n \<in> unat ` {x :: u64. P (unat x)}" by (metis (mono_tags) image_eqI mem_Collect_eq)
  qed (use unat_u64_less in auto)
  moreover have "card (unat ` {x :: u64. P (unat x)}) = card {x :: u64. P (unat x)}"
    by (rule card_image) (simp add: inj_on_def u64_eq_iff)
  ultimately show ?thesis by simp
qed

text \<open>The rejection sampling is unbiased: every offset below the span is produced by exactly
  the same number of accepted 64-bit samples, namely \<open>2 ^ 64 div span\<close>.\<close>

theorem jitter_unbiased:
  assumes "offset < span"
  shows "card {x. jitter_threshold span \<le> x \<and> x mod span = offset} = 2 ^ 64 div unat span"
proof -
  have s: "span \<noteq> 0" "0 < unat span" "unat offset < unat span"
    using assms by (auto simp: word_less_nat_alt unat_gt_0)
  have "card {x. jitter_threshold span \<le> x \<and> x mod span = offset}
      = card {n. n < 2 ^ 64 \<and> (2 ^ 64 mod unat span \<le> n \<and> n mod unat span = unat offset)}"
    using card_u64_Collect [of "\<lambda>n. 2 ^ 64 mod unat span \<le> n \<and> n mod unat span = unat offset"] s(1)
    by (simp add: word_le_nat_alt u64_eq_iff unat_mod_u64 unat_jitter_threshold)
  also have "\<dots> = card {n. 2 ^ 64 mod unat span \<le> n \<and> n < 2 ^ 64 \<and> n mod unat span = unat offset}"
    by (rule arg_cong [where f = card]) blast
  also have "\<dots> = 2 ^ 64 div unat span" by (rule card_residue_class [OF s(2,3)])
  finally show ?thesis .
qed

theorem retry_delay_within_backoff_witness:
  "retry_policy_validate \<lparr>base_ms = 1000, cap_ms = 60000, use_jitter = True, max_delay_ms = None\<rparr> = Ok ()
    \<and> (\<exists>d. retry_delay_ms (\<lambda>_. arr_of (replicate 32 0)) (arr_of (replicate 16 1)) (arr_of (replicate 16 2)) 3
           \<lparr>base_ms = 1000, cap_ms = 60000, use_jitter = True, max_delay_ms = None\<rparr> = Ok d
         \<and> 2000 \<le> unat d \<and> unat d \<le> 4000)"
proof -
  let ?p = "\<lparr>base_ms = 1000, cap_ms = 60000, use_jitter = True, max_delay_ms = None\<rparr>"
  have v: "retry_policy_validate ?p = Ok ()"
    by (simp add: retry_policy_validate_Ok_iff effective_cap_ms_def)
  have b: "backoff_ceiling ?p 3 = 4000" by (simp add: backoff_ceiling_def effective_cap_ms_def)
  show ?thesis
    using v retry_delay_within_backoff [OF v, of 3 "\<lambda>_. arr_of (replicate 32 0)"
      "arr_of (replicate 16 1)" "arr_of (replicate 16 2)"] by (auto simp: b)
qed

theorem jitter_unbiased_witness:
  "(2 :: u64) < 3 \<and> card {x :: u64. jitter_threshold 3 \<le> x \<and> x mod 3 = 2} = 6148914691236517205"
proof -
  have "(2 :: u64) < 3" by simp
  from this jitter_unbiased [OF this] show ?thesis by simp
qed

lemma retry_wall_deadline_eq_Some_iff:
  "retry_wall_deadline f d = Some t \<longleftrightarrow> unat t = unat f + unat d \<and> unat t < 2 ^ 63"
  using unat_u64_less [of t]
  by (auto simp: retry_wall_deadline_def math_checked i64_MAX_as_u64_def word_less_nat_alt u64_eq_iff
      split: option.splits if_splits)

lemma effective_wall_floor_eq_Some_iff:
  "effective_wall_floor c b w = Some f \<longleftrightarrow>
     w \<noteq> 0 \<and> unat b * unat w < 2 ^ 64 \<and> unat f = max (unat c) (unat b * unat w)"
  by (auto simp: effective_wall_floor_def checked_mul_u64_def checked_mul_def max_def word_le_nat_alt u64_eq_iff unat_mult_lem [THEN iffD1]
      split: option.splits if_splits)

end
