(* ===== verification/Steadq_Hex.thy ===== *)
theory Steadq_Hex
  imports Steadq_Prelude
begin

text \<open>
  The hexadecimal layer of the crate \<^verbatim>\<open>steadq-names\<close>: lowercase encoding and strict decoding of
  byte arrays and integers, Rust's zero-padded \<^verbatim>\<open>{:0wx}\<close> formatting, bucket directory names and
  boot identifiers. The main lemmas say that each decoder accepts exactly the text its
  encoder prints.
\<close>

section \<open>Hexadecimal text\<close>

definition DIGITS :: string where "DIGITS = ''0123456789abcdef''"

definition hex_char :: "u8 \<Rightarrow> char" where "hex_char d = DIGITS ! unat d"

fun push_hex :: "string \<Rightarrow> bytes \<Rightarrow> string" where
  "push_hex encoded [] = encoded"
| "push_hex encoded (byte # bytes) =
     push_hex (encoded @ [DIGITS ! unat (drop_bit 4 byte), DIGITS ! unat (byte AND 0x0f)]) bytes"

definition hex_encode :: "bytes \<Rightarrow> string" where
  "hex_encode bytes = push_hex [] bytes"

definition from_hex_digit_lower :: "u8 \<Rightarrow> u8 option" where
  "from_hex_digit_lower b =
     (if 0x30 \<le> b \<and> b \<le> 0x39 then Some (b - 0x30)
      else if 0x61 \<le> b \<and> b \<le> 0x66 then Some (b - 0x61 + 10)
      else None)"

definition from_hex_pair_lower :: "u8 \<Rightarrow> u8 \<Rightarrow> u8 option" where
  "from_hex_pair_lower c0 c1 =
     (case from_hex_digit_lower c0 of
        None \<Rightarrow> None
      | Some hi \<Rightarrow>
          (case from_hex_digit_lower c1 of
             None \<Rightarrow> None
           | Some lo \<Rightarrow> Some (push_bit 4 hi OR lo)))"

text \<open>The loop over \<^verbatim>\<open>chunks(2)\<close>; an odd rest cannot occur after the length check.\<close>

fun hex_decode_chunks :: "bytes \<Rightarrow> bytes option" where
  "hex_decode_chunks [] = Some []"
| "hex_decode_chunks [c] = None"
| "hex_decode_chunks (c0 # c1 # rest) =
     (case from_hex_pair_lower c0 c1 of
        None \<Rightarrow> None
      | Some byte \<Rightarrow> map_option ((#) byte) (hex_decode_chunks rest))"

definition hex_decode_array :: "string \<Rightarrow> 'n::len byte_array option" where
  "hex_decode_array s =
     (if length s \<noteq> 2 * LENGTH('n) then None
      else map_option arr_of (hex_decode_chunks (as_bytes s)))"

definition hex_decode_16 :: "string \<Rightarrow> id128 option" where
  "hex_decode_16 s = hex_decode_array s"

definition hex_decode_32 :: "string \<Rightarrow> digest option" where
  "hex_decode_32 s = hex_decode_array s"

definition hex_decode_u64 :: "string \<Rightarrow> u64 option" where
  "hex_decode_u64 s =
     map_option (\<lambda>a :: 8 byte_array. u64_from_be_bytes (arr_bytes a)) (hex_decode_array s)"

definition hex_decode_u32 :: "string \<Rightarrow> u32 option" where
  "hex_decode_u32 s =
     map_option (\<lambda>a :: 4 byte_array. u32_from_be_bytes (arr_bytes a)) (hex_decode_array s)"

definition hex_decode_u16 :: "string \<Rightarrow> u16 option" where
  "hex_decode_u16 s =
     map_option (\<lambda>a :: 2 byte_array. u16_from_be_bytes (arr_bytes a)) (hex_decode_array s)"

text \<open>The formatting directive \<^verbatim>\<open>{:0wx}\<close>: the shortest lowercase hexadecimal numeral, padded
  with zeros to at least \<open>w\<close> digits and never truncated.\<close>

fun hex_numeral :: "nat \<Rightarrow> string" where
  "hex_numeral n =
     (if n < 16 then [DIGITS ! n] else hex_numeral (n div 16) @ [DIGITS ! (n mod 16)])"

declare hex_numeral.simps [simp del]

definition fmt_hex :: "nat \<Rightarrow> nat \<Rightarrow> string" where
  "fmt_hex w n = replicate (w - length (hex_numeral n)) (CHR ''0'') @ hex_numeral n"

definition hex_u64 :: "u64 \<Rightarrow> string" where "hex_u64 v = fmt_hex 16 (unat v)"
definition hex_u16 :: "u16 \<Rightarrow> string" where "hex_u16 v = fmt_hex 4 (unat v)"

definition bucket_hex :: "u64 \<Rightarrow> string" where "bucket_hex bucket = fmt_hex 16 (unat bucket)"

definition bucket_from_hex :: "string \<Rightarrow> u64 option" where
  "bucket_from_hex s = (if length s \<noteq> 16 then None else hex_decode_u64 s)"

section \<open>Boot identifiers\<close>

definition format_boot_id :: "id128 \<Rightarrow> string" where
  "format_boot_id bytes =
     (let x = (\<lambda>i. fmt_hex 2 (unat (arr_bytes bytes ! i)))
      in x 0 @ x 1 @ x 2 @ x 3 @ ''-'' @ x 4 @ x 5 @ ''-'' @ x 6 @ x 7 @ ''-'' @ x 8 @ x 9
         @ ''-'' @ x 10 @ x 11 @ x 12 @ x 13 @ x 14 @ x 15)"

fun boot_id_loop :: "nat \<Rightarrow> nat \<Rightarrow> bytes \<Rightarrow> bytes \<Rightarrow> bytes option" where
  "boot_id_loop index nibble_index [] decoded = Some decoded"
| "boot_id_loop index nibble_index (byte # bytes) decoded =
     (if index \<in> {8, 13, 18, 23} then boot_id_loop (index + 1) nibble_index bytes decoded
      else case from_hex_digit_lower byte of
             None \<Rightarrow> None
           | Some nibble \<Rightarrow>
               boot_id_loop (index + 1) (nibble_index + 1) bytes
                 (decoded[nibble_index div 2 :=
                    if nibble_index mod 2 = 0 then push_bit 4 nibble
                    else decoded ! (nibble_index div 2) OR nibble]))"

definition boot_id_bytes :: "string \<Rightarrow> id128 option" where
  "boot_id_bytes s =
     (if length s \<noteq> 36 then None
      else let bytes = as_bytes s
           in if list_ex (\<lambda>pos. bytes ! pos \<noteq> 0x2d) [8, 13, 18, 23] then None
              else map_option arr_of (boot_id_loop 0 0 bytes (replicate 16 0)))"

text \<open>A reference for the padded numeral: exactly \<open>w\<close> digits.\<close>

fun hex_fixed :: "nat \<Rightarrow> nat \<Rightarrow> string" where
  "hex_fixed 0 n = []"
| "hex_fixed (Suc w) n = hex_fixed w (n div 16) @ [DIGITS ! (n mod 16)]"

text \<open>The number a hexadecimal numeral denotes.\<close>

definition digit_value :: "char \<Rightarrow> nat" where
  "digit_value c = length (takeWhile (\<lambda>x. x \<noteq> c) DIGITS)"

definition hex_value :: "string \<Rightarrow> nat" where
  "hex_value s = foldl (\<lambda>a c. a * 16 + digit_value c) 0 s"

named_theorems hex_iff \<open>a decoder accepts exactly the text its encoder prints\<close>

section \<open>Lemmas\<close>

subsection \<open>Digits\<close>

lemma nibble_cases:
  assumes "(d :: u8) < 16"
  shows "d \<in> {0, 1, 2, 3, 4, 5, 6, 7, 8, 9, 10, 11, 12, 13, 14, 15}"
proof -
  have "unat d < 16" using assms by (simp add: word_less_nat_alt)
  then have "unat d \<in> set [0..<16]" by simp
  then have "(word_of_nat (unat d) :: u8) \<in> word_of_nat ` set [0..<16]" by (rule imageI)
  then show ?thesis by (simp add: upt_conv_Cons)
qed

lemma from_hex_digit_hex_char: "d < 16 \<Longrightarrow> from_hex_digit_lower (char_byte (hex_char d)) = Some d"
  by (drule nibble_cases) (auto simp: hex_char_def DIGITS_def char_byte_def from_hex_digit_lower_def)

lemma from_hex_digit_lower_eq_Some_iff:
  "from_hex_digit_lower c = Some d \<longleftrightarrow> d < 16 \<and> c = char_byte (hex_char d)"
proof
  assume "from_hex_digit_lower c = Some d"
  then have "0x30 \<le> c \<and> c \<le> 0x39 \<and> d = c - 0x30 \<or> 0x61 \<le> c \<and> c \<le> 0x66 \<and> d = c - 0x61 + 10"
    by (auto simp: from_hex_digit_lower_def split: if_splits)
  then have "d < 16 \<and> (d < 10 \<and> c = d + 0x30 \<or> 10 \<le> d \<and> c = d + 0x57)"
    by (auto simp: word_le_nat_alt word_less_nat_alt unat_sub unat_word_ariths)
  then show "d < 16 \<and> c = char_byte (hex_char d)"
    using nibble_cases [of d] by (auto simp: hex_char_def DIGITS_def char_byte_def word_le_nat_alt)
next
  assume "d < 16 \<and> c = char_byte (hex_char d)"
  then show "from_hex_digit_lower c = Some d" by (simp add: from_hex_digit_hex_char)
qed

lemma byte_and_15: "(b :: u8) AND 15 = take_bit 4 b"
  by (simp add: take_bit_eq_mask mask_eq_exp_minus_1)

lemma nibble_join: "push_bit 4 (drop_bit 4 b) OR (b AND 15) = (b :: u8)"
  unfolding byte_and_15 by (rule bit_word_eqI) (auto simp: bit_simps)

lemma nibble_less: "drop_bit 4 (b :: u8) < 16" "(b :: u8) AND 15 < 16"
proof -
  have "unat b < 256" using unsigned_less [of b, where 'a = nat] by simp
  then show "drop_bit 4 b < 16" by (simp add: word_less_nat_alt drop_bit_eq_div unat_div)
  show "b AND 15 < 16"
    unfolding byte_and_15 by (simp add: word_less_nat_alt take_bit_eq_mod unat_mod)
qed

lemma nibble_small: "(d :: u8) < 16 \<Longrightarrow> take_bit 4 d = d"
  by (simp add: word_less_nat_alt word_unat_eq_iff take_bit_eq_mod unat_mod)

lemma nibble_split:
  assumes "h < 16" and "l < (16 :: u8)"
  shows "drop_bit 4 (push_bit 4 h OR l) = h" and "(push_bit 4 h OR l) AND 15 = l"
proof -
  have h: "bit h n \<Longrightarrow> n < 4" and l: "bit l n \<Longrightarrow> n < 4" for n
    using nibble_small [OF assms(1)] nibble_small [OF assms(2)] by (metis bit_take_bit_iff)+
  show "drop_bit 4 (push_bit 4 h OR l) = h"
    by (rule bit_word_eqI) (use h l [of "n + 4" for n] in \<open>fastforce simp: bit_simps add.commute\<close>)
  show "(push_bit 4 h OR l) AND 15 = l"
    unfolding byte_and_15 by (rule bit_word_eqI) (use l in \<open>auto simp: bit_simps\<close>)
qed

lemma from_hex_pair_lower_eq_Some_iff:
  "from_hex_pair_lower c0 c1 = Some b \<longleftrightarrow>
     c0 = char_byte (hex_char (drop_bit 4 b)) \<and> c1 = char_byte (hex_char (b AND 15))"
proof
  assume "from_hex_pair_lower c0 c1 = Some b"
  then obtain h l where "h < 16" "l < 16" "c0 = char_byte (hex_char h)" "c1 = char_byte (hex_char l)"
    and "b = push_bit 4 h OR l"
    by (auto simp: from_hex_pair_lower_def from_hex_digit_lower_eq_Some_iff split: option.splits)
  then show "c0 = char_byte (hex_char (drop_bit 4 b)) \<and> c1 = char_byte (hex_char (b AND 15))"
    by (simp only: nibble_split)
next
  assume "c0 = char_byte (hex_char (drop_bit 4 b)) \<and> c1 = char_byte (hex_char (b AND 15))"
  then show "from_hex_pair_lower c0 c1 = Some b"
    by (simp add: from_hex_pair_lower_def from_hex_digit_hex_char nibble_less nibble_join)
qed

subsection \<open>Byte arrays as hexadecimal text\<close>

lemma push_hex_append: "push_hex enc bs = enc @ push_hex [] bs"
proof (induction bs arbitrary: enc)
  case (Cons b bs)
  show ?case by (simp only: push_hex.simps) (metis Cons append.assoc append_Nil)
qed simp

lemma hex_encode_Nil [simp]: "hex_encode [] = []"
  by (simp add: hex_encode_def)

lemma hex_encode_Cons [simp]:
  "hex_encode (b # bs) = hex_char (drop_bit 4 b) # hex_char (b AND 15) # hex_encode bs"
  by (simp add: hex_encode_def hex_char_def push_hex_append [where enc = "[_, _]"])

lemma hex_encode_append [simp]: "hex_encode (xs @ ys) = hex_encode xs @ hex_encode ys"
  by (induction xs) auto

lemma length_hex_encode [simp, bytes_simps]: "length (hex_encode bs) = 2 * length bs"
  by (induction bs) auto

lemma push_hex_hex_encode: "push_hex enc bs = enc @ hex_encode bs"
  unfolding hex_encode_def by (rule push_hex_append)

lemma hex_char_in_DIGITS: "d < 16 \<Longrightarrow> hex_char d \<in> set DIGITS"
  by (drule nibble_cases) (auto simp: hex_char_def DIGITS_def)

lemma set_hex_encode: "set (hex_encode bs) \<subseteq> set DIGITS"
  by (induction bs) (auto simp: nibble_less hex_char_in_DIGITS)

lemma hex_decode_chunks_eq_Some_iff:
  "hex_decode_chunks cs = Some bs \<longleftrightarrow> cs = as_bytes (hex_encode bs)"
proof (induction cs arbitrary: bs rule: hex_decode_chunks.induct)
  case 1
  then show ?case by (cases bs) (auto simp: as_bytes_def)
next
  case (2 c)
  then show ?case by (cases bs) (auto simp: as_bytes_def)
next
  case (3 c0 c1 rest)
  show ?case
  proof (cases bs)
    case Nil
    then show ?thesis by (auto simp: as_bytes_def split: option.splits)
  next
    case (Cons b bs')
    show ?thesis
      using 3 [of b bs'] from_hex_pair_lower_eq_Some_iff [of c0 c1 b]
      by (auto simp: Cons as_bytes_def split: option.splits)
  qed
qed

lemma hex_decode_array_eq_Some_iff [hex_iff]:
  "hex_decode_array s = Some (a :: 'n::len byte_array) \<longleftrightarrow> s = hex_encode (arr_bytes a)"
proof
  assume "hex_decode_array s = Some a"
  then obtain bs where "length s = 2 * LENGTH('n)" "hex_decode_chunks (as_bytes s) = Some bs" "a = arr_of bs"
    by (auto simp: hex_decode_array_def split: if_splits)
  then show "s = hex_encode (arr_bytes a)" by (simp add: hex_decode_chunks_eq_Some_iff)
next
  assume "s = hex_encode (arr_bytes a)"
  then show "hex_decode_array s = Some a"
    using hex_decode_chunks_eq_Some_iff [of "as_bytes s" "arr_bytes a"] by (simp add: hex_decode_array_def)
qed

subsection \<open>Zero-padded integers\<close>

lemma length_hex_fixed [simp]: "length (hex_fixed w n) = w"
  by (induction w arbitrary: n) auto

lemma hex_fixed_zero: "hex_fixed w 0 = replicate w (CHR ''0'')"
  by (induction w) (auto simp: DIGITS_def replicate_append_same)

lemma fmt_hex_fixed: "n < 16 ^ Suc w \<Longrightarrow> fmt_hex (Suc w) n = hex_fixed (Suc w) n"
proof (induction w arbitrary: n)
  case 0
  then show ?case by (simp add: fmt_hex_def hex_numeral.simps [of n])
next
  case (Suc w)
  show ?case
  proof (cases "n < 16")
    case True
    then show ?thesis
      by (simp add: fmt_hex_def hex_numeral.simps [of n] hex_fixed_zero DIGITS_def replicate_append_same)
  next
    case False
    have "n div 16 < 16 ^ Suc w" using Suc.prems by (simp add: div_less_iff_less_mult)
    from Suc.IH [OF this] False show ?thesis by (simp add: fmt_hex_def hex_numeral.simps [of n])
  qed
qed

lemma hex_fixed_be_bytes: "hex_fixed (2 * k) n = hex_encode (be_bytes k n)"
proof (induction k arbitrary: n)
  case (Suc k)
  define b where "b = (word_of_nat (n mod 256) :: u8)"
  have b: "unat b = n mod 256" by (simp add: b_def)
  have "n mod 256 div 16 = n div 16 mod 16" using mod_mult2_eq [of n 16 16] by simp
  then have hi: "hex_char (drop_bit 4 b) = DIGITS ! (n div 16 mod 16)"
    by (simp add: hex_char_def drop_bit_eq_div unat_div b)
  have lo: "hex_char (b AND 15) = DIGITS ! (n mod 16)"
    by (simp add: hex_char_def byte_and_15 take_bit_eq_mod unat_mod b mod_mod_cancel)
  have "n div 16 div 16 = n div 256" by (simp add: div_mult2_eq [symmetric])
  then show ?case using hi lo Suc.IH [of "n div 256"] by (simp add: b_def)
qed simp

lemma fmt_hex_be_bytes:
  assumes "0 < k" and "n < 256 ^ k"
  shows "fmt_hex (2 * k) n = hex_encode (be_bytes k n)"
proof -
  obtain w where w: "2 * k = Suc w" using assms(1) by (cases "2 * k") auto
  have "(256 :: nat) ^ k = 16 ^ (2 * k)" by (simp add: power_mult)
  then show ?thesis using fmt_hex_fixed [of n w] hex_fixed_be_bytes [of k n] assms(2) w by simp
qed

lemma hex_u64_eq [hex_iff]: "fmt_hex 16 (unat v) = hex_encode (u64_to_be_bytes (v :: u64))"
proof -
  have "fmt_hex (2 * 8) (unat v) = hex_encode (be_bytes 8 (unat v))"
    by (rule fmt_hex_be_bytes) (simp, rule unat_less_256_power)
  then show ?thesis by (simp add: u64_to_be_bytes_def)
qed

lemma hex_u32_eq [hex_iff]: "fmt_hex 8 (unat v) = hex_encode (u32_to_be_bytes (v :: u32))"
proof -
  have "fmt_hex (2 * 4) (unat v) = hex_encode (be_bytes 4 (unat v))"
    by (rule fmt_hex_be_bytes) (simp, rule unat_less_256_power)
  then show ?thesis by (simp add: u32_to_be_bytes_def)
qed

lemma hex_u16_eq [hex_iff]: "fmt_hex 4 (unat v) = hex_encode (u16_to_be_bytes (v :: u16))"
proof -
  have "fmt_hex (2 * 2) (unat v) = hex_encode (be_bytes 2 (unat v))"
    by (rule fmt_hex_be_bytes) (simp, rule unat_less_256_power)
  then show ?thesis by (simp add: u16_to_be_bytes_def)
qed

lemma hex_u8_eq [hex_iff]: "fmt_hex 2 (unat b) = hex_encode [b :: u8]"
proof -
  have "unat b < 256" using unsigned_less [of b, where 'a = nat] by simp
  then have "fmt_hex (2 * 1) (unat b) = hex_encode (be_bytes 1 (unat b))"
    by (intro fmt_hex_be_bytes) simp_all
  with \<open>unat b < 256\<close> show ?thesis by simp
qed

lemma hex_decode_16_eq_Some_iff [hex_iff]: "hex_decode_16 s = Some a \<longleftrightarrow> s = hex_encode (arr_bytes a)"
  unfolding hex_decode_16_def by (rule hex_decode_array_eq_Some_iff)

lemma hex_decode_32_eq_Some_iff [hex_iff]: "hex_decode_32 s = Some a \<longleftrightarrow> s = hex_encode (arr_bytes a)"
  unfolding hex_decode_32_def by (rule hex_decode_array_eq_Some_iff)

lemma hex_decode_word:
  assumes "\<And>bs. length bs = LENGTH('n::len) \<Longrightarrow> enc (dec bs) = bs"
    and "\<And>v. dec (enc v) = v" and "length (enc v) = LENGTH('n)"
  shows "map_option (\<lambda>a :: 'n byte_array. dec (arr_bytes a)) (hex_decode_array s) = Some v
    \<longleftrightarrow> s = hex_encode (enc v)"
proof
  assume "map_option (\<lambda>a :: 'n byte_array. dec (arr_bytes a)) (hex_decode_array s) = Some v"
  then obtain a :: "'n byte_array" where "hex_decode_array s = Some a" "v = dec (arr_bytes a)" by auto
  then show "s = hex_encode (enc v)" by (simp add: assms(1) hex_decode_array_eq_Some_iff)
next
  assume "s = hex_encode (enc v)"
  then have "hex_decode_array s = Some (arr_of (enc v) :: 'n byte_array)"
    using assms(3) by (simp add: hex_decode_array_eq_Some_iff)
  then show "map_option (\<lambda>a :: 'n byte_array. dec (arr_bytes a)) (hex_decode_array s) = Some v"
    using assms(2,3) by simp
qed

lemma hex_decode_u64_eq_Some_iff [hex_iff]: "hex_decode_u64 s = Some v \<longleftrightarrow> s = fmt_hex 16 (unat v)"
  unfolding hex_decode_u64_def hex_u64_eq
  by (rule hex_decode_word [where enc = u64_to_be_bytes and dec = u64_from_be_bytes]) (simp_all add: to_from_be_bytes)

lemma hex_decode_u32_eq_Some_iff [hex_iff]: "hex_decode_u32 s = Some v \<longleftrightarrow> s = fmt_hex 8 (unat v)"
  unfolding hex_decode_u32_def hex_u32_eq
  by (rule hex_decode_word [where enc = u32_to_be_bytes and dec = u32_from_be_bytes]) (simp_all add: to_from_be_bytes)

lemma hex_decode_u16_eq_Some_iff [hex_iff]: "hex_decode_u16 s = Some v \<longleftrightarrow> s = fmt_hex 4 (unat v)"
  unfolding hex_decode_u16_def hex_u16_eq
  by (rule hex_decode_word [where enc = u16_to_be_bytes and dec = u16_from_be_bytes]) (simp_all add: to_from_be_bytes)

lemma bucket_from_hex_eq_Some_iff [hex_iff]: "bucket_from_hex s = Some b \<longleftrightarrow> s = bucket_hex b"
proof -
  have "length (bucket_hex b) = 16" unfolding bucket_hex_def hex_u64_eq length_hex_encode length_to_be_bytes by simp
  then show ?thesis
    unfolding bucket_from_hex_def by (auto simp: hex_decode_u64_eq_Some_iff bucket_hex_def)
qed

subsection \<open>Boot identifiers\<close>

lemma boot_id_loop_segment:
  assumes "even (length seg)" and "\<forall>j < length seg. i + j \<notin> {8, 13, 18, 23}"
    and "2 * k + length seg \<le> 2 * length dec"
  shows "boot_id_loop i (2 * k) (seg @ rest) dec =
    (case hex_decode_chunks seg of
       None \<Rightarrow> None
     | Some xs \<Rightarrow> boot_id_loop (i + length seg) (2 * (k + length xs)) rest
                    (take k dec @ xs @ drop (k + length xs) dec))"
  using assms
proof (induction seg arbitrary: i k dec rule: hex_decode_chunks.induct)
  case (3 c0 c1 seg)
  have k: "k < length dec" using "3.prems"(3) by simp
  have i: "i \<notin> {8, 13, 18, 23}" "Suc i \<notin> {8, 13, 18, 23}"
    using "3.prems"(2) [THEN spec, of 0] "3.prems"(2) [THEN spec, of 1] by auto
  have odd: "Suc (2 * k) div 2 = k" by simp
  show ?case
  proof (cases "from_hex_pair_lower c0 c1")
    case None
    with i k show ?thesis
      by (auto simp: from_hex_pair_lower_def odd split: option.splits)
  next
    case (Some x)
    have step: "boot_id_loop i (2 * k) (c0 # c1 # seg @ rest) dec =
        boot_id_loop (i + 2) (2 * (k + 1)) (seg @ rest) (dec[k := x])"
      using Some i k by (auto simp: from_hex_pair_lower_def odd split: option.splits)
    have IH: "boot_id_loop (i + 2) (2 * (k + 1)) (seg @ rest) (dec[k := x]) =
      (case hex_decode_chunks seg of
         None \<Rightarrow> None
       | Some xs \<Rightarrow> boot_id_loop (i + 2 + length seg) (2 * (k + 1 + length xs)) rest
                      (take (k + 1) (dec[k := x]) @ xs @ drop (k + 1 + length xs) (dec[k := x])))"
    proof (rule "3.IH" [OF Some])
      show "\<forall>j < length seg. i + 2 + j \<notin> {8, 13, 18, 23}"
      proof (intro allI impI)
        fix j assume "j < length seg"
        then show "i + 2 + j \<notin> {8, 13, 18, 23}" using "3.prems"(2) [THEN spec, of "j + 2"] by (simp add: ac_simps)
      qed
    qed (use "3.prems" in auto)
    have "take (k + 1) (dec[k := x]) = take k dec @ [x]"
      using k by (simp add: take_Suc_conv_app_nth)
    with step IH Some show ?thesis
      by (cases "hex_decode_chunks seg") simp_all
  qed
qed auto

lemma format_boot_id_segments:
  "format_boot_id b = (let bs = arr_bytes b in
     hex_encode (slice 0 4 bs) @ ''-'' @ hex_encode (slice 4 6 bs) @ ''-'' @ hex_encode (slice 6 8 bs)
       @ ''-'' @ hex_encode (slice 8 10 bs) @ ''-'' @ hex_encode (slice 10 16 bs))"
proof -
  have "[0..<4] = [0, 1, 2, 3]" by (simp add: numeral_eq_Suc)
  then show ?thesis by (simp add: format_boot_id_def Let_def hex_u8_eq slice_map_nth)
qed

lemma hex_decode_chunks_append:
  "even (length xs) \<Longrightarrow> hex_decode_chunks (xs @ ys) =
     (case hex_decode_chunks xs of None \<Rightarrow> None | Some a \<Rightarrow> map_option (\<lambda>r. a @ r) (hex_decode_chunks ys))"
  by (induction xs rule: hex_decode_chunks.induct; cases "hex_decode_chunks ys") (auto split: option.splits)

lemma hex_decode_chunks_length: "hex_decode_chunks s = Some x \<Longrightarrow> length s = 2 * length x"
  by (simp add: hex_decode_chunks_eq_Some_iff)

lemma boot_id_loop_dash:
  assumes "even (length seg)" and "\<forall>j < length seg. i + j \<notin> {8, 13, 18, 23}"
    and "i + length seg \<in> {8, 13, 18, 23}" and "length seg \<le> 2 * n"
    and "\<And>x. length seg = 2 * length x \<Longrightarrow>
      boot_id_loop (i + length seg + 1) (2 * length (dn @ x)) rest ((dn @ x) @ replicate (n - length x) 0)
        = map_option (\<lambda>r. (dn @ x) @ r) (hex_decode_chunks tail)"
  shows "boot_id_loop i (2 * length dn) (seg @ d # rest) (dn @ replicate n 0)
    = map_option (\<lambda>r. dn @ r) (hex_decode_chunks (seg @ tail))"
proof (cases "hex_decode_chunks seg")
  case None
  with boot_id_loop_segment [OF assms(1,2), of "length dn" "dn @ replicate n 0" "d # rest"] assms(4)
  show ?thesis by (simp add: hex_decode_chunks_append assms(1))
next
  case (Some x)
  then have "length seg = 2 * length x" by (rule hex_decode_chunks_length)
  from assms(5) [OF this] Some assms(1,3,4)
    boot_id_loop_segment [OF assms(1,2), of "length dn" "dn @ replicate n 0" "d # rest"]
  show ?thesis by (simp add: hex_decode_chunks_append option.map_comp comp_def)
qed

lemma boot_id_loop_last:
  assumes "length seg = 2 * n" and "\<forall>j < length seg. i + j \<notin> {8, 13, 18, 23}"
  shows "boot_id_loop i (2 * length dn) seg (dn @ replicate n 0)
    = map_option (\<lambda>r. dn @ r) (hex_decode_chunks seg)"
  using boot_id_loop_segment [of seg i "length dn" "dn @ replicate n 0" "[]"] assms
  by (auto split: option.splits dest: hex_decode_chunks_length)

lemma boot_id_loop_eq:
  assumes "length s1 = 8" "length s2 = 4" "length s3 = 4" "length s4 = 4" "length s5 = 12"
  shows "boot_id_loop 0 0 (s1 @ d1 # s2 @ d2 # s3 @ d3 # s4 @ d4 # s5) (replicate 16 0)
    = hex_decode_chunks (s1 @ s2 @ s3 @ s4 @ s5)"
proof -
  have "boot_id_loop 0 (2 * length ([] :: bytes)) (s1 @ d1 # s2 @ d2 # s3 @ d3 # s4 @ d4 # s5)
      ([] @ replicate 16 0) = map_option (\<lambda>r. [] @ r) (hex_decode_chunks (s1 @ s2 @ s3 @ s4 @ s5))"
    by (intro boot_id_loop_dash boot_id_loop_last) (use assms in auto)
  then show ?thesis by (simp add: option.map_ident)
qed

lemma char_byte_dash: "char_byte c = 0x2d \<longleftrightarrow> c = CHR ''-''"
proof -
  have "char_byte (CHR ''-'') = 0x2d" by (simp add: char_byte_def)
  then show ?thesis using char_byte_inject [of c "CHR ''-''"] by simp
qed

lemma boot_id_split:
  assumes "length s = 36"
  shows "s = slice 0 8 s @ s ! 8 # slice 9 13 s @ s ! 13 # slice 14 18 s @ s ! 18 # slice 19 23 s
    @ s ! 23 # slice 24 36 s"
proof -
  have "s = slice 0 36 s" using assms by (simp add: slice_def)
  also have "\<dots> = slice 0 8 s @ slice 8 (Suc 8) s @ slice 9 13 s @ slice 13 (Suc 13) s @ slice 14 18 s
      @ slice 18 (Suc 18) s @ slice 19 23 s @ slice 23 (Suc 23) s @ slice 24 36 s"
    by (simp add: slice_split [of 0 8 36] slice_split [of 8 9 36] slice_split [of 9 13 36] slice_split [of 13 14 36]
      slice_split [of 14 18 36] slice_split [of 18 19 36] slice_split [of 19 23 36] slice_split [of 23 24 36])
  finally show ?thesis using assms by (simp only: slice_single) simp
qed

lemma hex_encode_boot_segments:
  "length bs = 16 \<Longrightarrow> hex_encode bs = hex_encode (slice 0 4 bs) @ hex_encode (slice 4 6 bs)
      @ hex_encode (slice 6 8 bs) @ hex_encode (slice 8 10 bs) @ hex_encode (slice 10 16 bs)"
  using slice_all [of 16 bs] slice_split [of 0 4 16 bs] slice_split [of 4 6 16 bs]
    slice_split [of 6 8 16 bs] slice_split [of 8 10 16 bs] by (simp flip: hex_encode_append)

lemma boot_id_bytes_eq_Some_iff [hex_iff]: "boot_id_bytes s = Some b \<longleftrightarrow> s = format_boot_id b"
proof
  assume b: "boot_id_bytes s = Some b"
  then obtain bs where len: "length s = 36"
    and dash: "s ! 8 = CHR ''-''" "s ! 13 = CHR ''-''" "s ! 18 = CHR ''-''" "s ! 23 = CHR ''-''"
    and loop: "boot_id_loop 0 0 (as_bytes s) (replicate 16 0) = Some bs" and arr: "b = arr_of bs"
    by (auto simp: boot_id_bytes_def Let_def as_bytes_def char_byte_dash split: if_splits)
  let ?c = "slice 0 8 s @ slice 9 13 s @ slice 14 18 s @ slice 19 23 s @ slice 24 36 s"
  have "as_bytes s = as_bytes (slice 0 8 s) @ char_byte (s ! 8) # as_bytes (slice 9 13 s)
      @ char_byte (s ! 13) # as_bytes (slice 14 18 s) @ char_byte (s ! 18) # as_bytes (slice 19 23 s)
      @ char_byte (s ! 23) # as_bytes (slice 24 36 s)"
    using arg_cong [OF boot_id_split [OF len], of as_bytes] by (simp add: as_bytes_def)
  with loop have "hex_decode_chunks (as_bytes ?c) = Some bs"
    using len by (simp add: boot_id_loop_eq)
  then have c: "?c = hex_encode bs" by (simp add: hex_decode_chunks_eq_Some_iff del: as_bytes_append)
  have "length ?c = 32" using len by simp
  then have bs: "length bs = 16" unfolding c by simp
  then have "hex_encode bs = hex_encode (slice 0 4 bs) @ hex_encode (slice 4 6 bs)
      @ hex_encode (slice 6 8 bs) @ hex_encode (slice 8 10 bs) @ hex_encode (slice 10 16 bs)"
    by (rule hex_encode_boot_segments)
  with c len bs have "slice 0 8 s = hex_encode (slice 0 4 bs)" "slice 9 13 s = hex_encode (slice 4 6 bs)"
    "slice 14 18 s = hex_encode (slice 6 8 bs)" "slice 19 23 s = hex_encode (slice 8 10 bs)"
    "slice 24 36 s = hex_encode (slice 10 16 bs)"
    by (simp_all add: append_eq_append_conv)
  with boot_id_split [OF len] dash bs arr show "s = format_boot_id b"
    by (simp add: format_boot_id_segments Let_def)
next
  let ?bs = "arr_bytes b"
  assume s: "s = format_boot_id b"
  have "boot_id_loop 0 0 (as_bytes s) (replicate 16 0) = hex_decode_chunks (as_bytes (hex_encode ?bs))"
    unfolding s format_boot_id_segments Let_def hex_encode_boot_segments [of ?bs, simplified]
    by (simp add: boot_id_loop_eq as_bytes_Cons)
  then have "boot_id_loop 0 0 (as_bytes s) (replicate 16 0) = Some ?bs"
    by (simp add: hex_decode_chunks_eq_Some_iff)
  moreover have "length s = 36" "list_all (\<lambda>pos. as_bytes s ! pos = 0x2d) [8, 13, 18, 23]"
    by (simp_all add: s format_boot_id_segments Let_def nth_append as_bytes_def char_byte_dash)
  ultimately show "boot_id_bytes s = Some b"
    by (simp add: boot_id_bytes_def)
qed

subsection \<open>Injectivity of padded numerals\<close>

lemma digit_value_nth: "n < 16 \<Longrightarrow> digit_value (DIGITS ! n) = n"
proof -
  assume "n < 16"
  then have "n \<in> set [0..<16]" by simp
  then show ?thesis by (simp add: upt_conv_Cons digit_value_def DIGITS_def) (elim disjE; simp)
qed

lemma hex_value_numeral: "hex_value (hex_numeral n) = n"
proof (induction n rule: hex_numeral.induct)
  case (1 n)
  show ?case
    by (subst hex_numeral.simps) (use 1 in \<open>simp add: hex_value_def digit_value_nth\<close>)
qed

lemma hex_value_zeros: "hex_value (replicate k (CHR ''0'') @ s) = hex_value s"
proof -
  have "digit_value (CHR ''0'') = 0" by (simp add: digit_value_def DIGITS_def)
  then show ?thesis by (induction k) (simp_all add: hex_value_def)
qed

lemma fmt_hex_inject [simp]: "fmt_hex w m = fmt_hex w n \<longleftrightarrow> m = n"
  by (metis fmt_hex_def hex_value_numeral hex_value_zeros)

lemma format_boot_id_inject [simp]: "format_boot_id a = format_boot_id b \<longleftrightarrow> a = b"
  by (metis boot_id_bytes_eq_Some_iff option.inject)

end
