(* ===== verification/Steadq_Shards.thy ===== *)
theory Steadq_Shards
  imports Steadq_Hex
begin

text \<open>
  The shard arithmetic of the crate \<^verbatim>\<open>steadq-names\<close>: the shard of a job and the order in which
  a worker scans the shards of a queue.

  The functions are only called with the shard count of a validated format record, a power
  of two; at zero the Rust arithmetic panics, the total functions below return a meaningless
  word, and no lemma speaks about that case.
\<close>

section \<open>Definitions\<close>

definition trailing_zeros :: "u32 \<Rightarrow> nat" where
  "trailing_zeros w = length (takeWhile (\<lambda>i. \<not> bit w i) [0..<32])"

definition compute_shard :: "sha256 \<Rightarrow> id128 \<Rightarrow> id128 \<Rightarrow> u32 \<Rightarrow> u32" where
  "compute_shard sha queue_id job_id shard_count =
     (let result = sha (as_bytes ''SteadQ-1-shard'' @ [0] @ arr_bytes queue_id @ arr_bytes job_id);
          k = trailing_zeros shard_count;
          val = u32_from_be_bytes (take 4 (arr_bytes result))
      in val AND (push_bit k 1 - 1))"

definition shard_hex :: "u32 \<Rightarrow> string" where "shard_hex shard = fmt_hex 4 (unat shard)"

definition shard_from_hex :: "string \<Rightarrow> u32 option" where
  "shard_from_hex s = map_option ucast (hex_decode_u16 s)"

definition shard_scan_params ::
    "sha256 \<Rightarrow> id128 \<Rightarrow> id128 \<Rightarrow> id128 \<Rightarrow> u64 \<Rightarrow> u32 \<Rightarrow> u32 \<times> u32" where
  "shard_scan_params sha queue_id boot_id worker_nonce scan_round shard_count =
     (let result = arr_bytes (sha (as_bytes ''SteadQ-1-scan'' @ [0] @ arr_bytes queue_id
            @ arr_bytes boot_id @ arr_bytes worker_nonce @ u64_to_be_bytes scan_round));
          mask = shard_count - 1;
          start = u64_from_be_bytes (take 8 result) AND ucast mask;
          stride = (u64_from_be_bytes (slice 8 16 result) OR 1) AND ucast mask;
          stride = (if stride = 0 then 1 else stride)
      in (ucast start, ucast stride))"

definition shard_at :: "u32 \<Rightarrow> u32 \<Rightarrow> u32 \<Rightarrow> u32 \<Rightarrow> u32" where
  "shard_at start stride i shard_count =
     (let mask = shard_count - 1 in (start + stride * i) AND mask)"

section \<open>Lemmas\<close>

lemma unat_and_mask: "unat (x AND (2 ^ k - 1) :: 'a::len word) = unat x mod 2 ^ k"
proof -
  have "(2 ^ k - 1 :: 'a word) = mask k" by (simp add: mask_eq_exp_minus_1)
  then have "x AND (2 ^ k - 1) = take_bit k x" by (simp only: take_bit_eq_mask)
  then show ?thesis by (simp add: unsigned_take_bit_eq take_bit_eq_mod [where 'a = nat])
qed

lemma trailing_zeros_pow2: "k < 32 \<Longrightarrow> trailing_zeros (2 ^ k) = k"
proof -
  assume k: "k < 32"
  have "bit (2 ^ k :: u32) i \<longleftrightarrow> i = k" if "i < 32" for i using that k by (auto simp: bit_exp_iff)
  then have "takeWhile (\<lambda>i. \<not> bit (2 ^ k :: u32) i) [0..<32] = takeWhile (\<lambda>i. i \<noteq> k) [0..<32]"
    by (intro takeWhile_cong) auto
  moreover have u: "[0..<32] = [0..<k] @ k # [Suc k..<32]"
    using k upt_add_eq_append [of 0 k "32 - k"] by (simp add: upt_conv_Cons)
  moreover have "takeWhile (\<lambda>i. i \<noteq> k) ([0..<k] @ k # [Suc k..<32]) = [0..<k]" by (rule takeWhile_sep) simp
  ultimately show ?thesis by (simp add: trailing_zeros_def)
qed

lemma unat_pow2_u32: "k < 32 \<Longrightarrow> unat (2 ^ k :: u32) = 2 ^ k"
proof -
  assume "k < 32"
  then have "(2 :: nat) ^ k < 2 ^ 32" by (intro power_strict_increasing) auto
  then have "unat (word_of_nat (2 ^ k) :: u32) = 2 ^ k" by (subst unat_of_nat) simp
  then show ?thesis by simp
qed

lemma pow2_bracket: "0 < (n :: nat) \<Longrightarrow> \<exists>h. 2 ^ h \<le> n \<and> n < 2 ^ Suc h"
proof (induction n rule: less_induct)
  case (less n)
  show ?case
  proof (cases "n = 1")
    case True
    then show ?thesis by (intro exI [of _ 0]) simp
  next
    case False
    with less.prems have "0 < n div 2" "n div 2 < n" by auto
    from less.IH [OF this(2,1)] obtain h where "2 ^ h \<le> n div 2" "n div 2 < 2 ^ Suc h" by blast
    then show ?thesis by (intro exI [of _ "Suc h"]) auto
  qed
qed

lemma top_bit: "2 ^ h \<le> (m :: nat) \<Longrightarrow> m < 2 ^ Suc h \<Longrightarrow> bit m h"
proof -
  assume "2 ^ h \<le> m" "m < 2 ^ Suc h"
  then have "m div 2 ^ h = 1" by (intro div_nat_eqI) auto
  then show ?thesis by (simp add: bit_iff_odd)
qed

lemma is_power_of_two_iff: "is_power_of_two w \<longleftrightarrow> (\<exists>k < 32. w = 2 ^ k)"
proof
  assume p: "is_power_of_two w"
  then have "0 < unat w" by (simp add: is_power_of_two_def unat_gt_0)
  then obtain h where h: "2 ^ h \<le> unat w" "unat w < 2 ^ Suc h" using pow2_bracket by blast
  have h32: "h < 32"
  proof -
    have "(2 :: nat) ^ h < 2 ^ 32" using h(1) unsigned_less [of w, where 'a = nat] by simp
    then show ?thesis by (rule power_less_imp_less_exp [rotated]) simp
  qed
  have "unat w = 2 ^ h"
  proof (rule ccontr)
    assume ne: "unat w \<noteq> 2 ^ h"
    have "w \<noteq> 0" using p by (simp add: is_power_of_two_def)
    then have "unat (w - 1) = unat w - 1" by (rule unat_minus_one)
    with h ne have "bit (unat w) h" "bit (unat (w - 1)) h" by (auto intro!: top_bit)
    then have "bit (w AND (w - 1)) h" by (simp add: bit_unsigned_iff bit_and_iff)
    then show False using p by (simp add: is_power_of_two_def)
  qed
  then show "\<exists>k < 32. w = 2 ^ k" using h32 by (auto simp: word_unat_eq_iff unat_pow2_u32)
next
  assume "\<exists>k < 32. w = 2 ^ k"
  then obtain k where k: "k < 32" "w = 2 ^ k" by blast
  have "unat (w AND (w - 1)) = 0" unfolding k(2) using k(1) by (simp add: unat_and_mask unat_pow2_u32)
  moreover have "w \<noteq> 0" using k by (simp add: word_unat_eq_iff unat_pow2_u32)
  ultimately show "is_power_of_two w" by (simp add: is_power_of_two_def unat_eq_0)
qed

lemma compute_shard_less:
  assumes "is_power_of_two n"
  shows "compute_shard sha q j n < n"
proof -
  obtain k where k: "k < 32" "n = 2 ^ k" using assms by (auto simp: is_power_of_two_iff)
  show ?thesis
    using k by (simp add: compute_shard_def Let_def trailing_zeros_pow2 word_less_nat_alt unat_and_mask unat_pow2_u32)
qed

lemma unat_shard_at:
  assumes "k < 32"
  shows "unat (shard_at start stride i (2 ^ k)) = (unat start + unat stride * unat i) mod 2 ^ k"
proof -
  have d: "(2 :: nat) ^ k dvd 2 ^ 32" using assms by (intro le_imp_power_dvd) simp
  have "unat (start + stride * i) mod 2 ^ k = (unat start + unat stride * unat i) mod 2 ^ k"
  proof -
    have "unat (start + stride * i) mod 2 ^ k = (unat start + unat stride * unat i mod 2 ^ 32) mod 2 ^ k"
      by (simp add: unat_word_ariths mod_mod_cancel [OF d, simplified])
    also have "\<dots> = (unat start + (unat stride * unat i mod 2 ^ 32) mod 2 ^ k) mod 2 ^ k"
      by (rule mod_add_right_eq [symmetric])
    also have "\<dots> = (unat start + unat stride * unat i) mod 2 ^ k"
      unfolding mod_mod_cancel [OF d] by (rule mod_add_right_eq)
    finally show ?thesis .
  qed
  then show ?thesis by (simp add: shard_at_def Let_def unat_and_mask)
qed

lemma residues_inject:
  fixes a s i j k :: nat
  assumes "(a + s * i) mod 2 ^ k = (a + s * j) mod 2 ^ k" and "odd s" and "i < 2 ^ k" and "j < 2 ^ k"
  shows "i = j"
proof -
  have "int (a + s * i) mod 2 ^ k = int (a + s * j) mod 2 ^ k"
    using assms(1) by (metis of_nat_mod of_nat_numeral of_nat_power)
  then have "2 ^ k dvd int (a + s * i) - int (a + s * j)" by (simp add: mod_eq_dvd_iff)
  then have "2 ^ k dvd int s * (int i - int j)" by (simp add: algebra_simps)
  moreover have "coprime (2 ^ k) (int s)" using assms(2) by simp
  ultimately have "2 ^ k dvd int i - int j" by (simp add: coprime_dvd_mult_right_iff)
  moreover have "\<bar>int i - int j\<bar> < 2 ^ k"
  proof -
    have "int i < 2 ^ k" "int j < 2 ^ k" using assms(3,4) by simp_all
    then show ?thesis by linarith
  qed
  ultimately show ?thesis using zdvd_imp_le [of "2 ^ k" "\<bar>int i - int j\<bar>"] by auto
qed

lemma odd_stride:
  assumes "is_power_of_two n"
  shows "odd (unat (snd (shard_scan_params sha q b w r n)))"
proof -
  obtain k where k: "k < 32" "n = 2 ^ k" using assms by (auto simp: is_power_of_two_iff)
  define x where "x = (u64_from_be_bytes (slice 8 16 (arr_bytes (sha (as_bytes ''SteadQ-1-scan'' @ [0]
    @ arr_bytes q @ arr_bytes b @ arr_bytes w @ u64_to_be_bytes r)))) OR 1) AND ucast (n - 1)"
  have s: "snd (shard_scan_params sha q b w r n) = ucast (if x = 0 then 1 else x)"
    by (simp add: shard_scan_params_def Let_def x_def)
  have "odd x" if "x \<noteq> 0"
  proof -
    have "x = 0" if "k = 0" using that by (simp add: x_def k(2))
    then have "k \<noteq> 0" using that by blast
    then have "odd (n - 1)" using k by simp
    then have "bit (n - 1) 0" unfolding bit_0 .
    then have "bit (ucast (n - 1) :: u64) 0" unfolding bit_unsigned_iff by simp
    then have "bit x 0" unfolding x_def bit_and_iff bit_or_iff by (simp add: bit_0)
    then show ?thesis unfolding bit_0 .
  qed
  then have "odd (if x = 0 then 1 else x)" by simp
  then have "bit (if x = 0 then 1 else x) 0" unfolding bit_0 .
  then have "bit (unat (ucast (if x = 0 then 1 else x) :: u32)) 0" unfolding bit_unsigned_iff by simp
  then show ?thesis unfolding s bit_0 .
qed

text \<open>C8. A worker's scan visits every shard exactly once per round: for a power-of-two shard count
  the shards at positions \<open>0, \<dots>, n - 1\<close> of the order given by \<open>shard_scan_params\<close> are a permutation
  of all shards, whatever the hash returns.\<close>

theorem shard_scan_permutation:
  assumes "is_power_of_two n" and "shard_scan_params sha q b w r n = (start, stride)"
  shows "bij_betw (\<lambda>i. shard_at start stride i n) {i. i < n} {s. s < n}"
proof -
  obtain k where k: "k < 32" "n = 2 ^ k" using assms(1) by (auto simp: is_power_of_two_iff)
  have o: "odd (unat stride)" using odd_stride [OF assms(1)] assms(2) by (metis snd_conv)
  have n: "x < n \<longleftrightarrow> unat x < 2 ^ k" for x using k by (simp add: word_less_nat_alt unat_pow2_u32)
  have "inj_on (\<lambda>i. shard_at start stride i n) {i. i < n}"
  proof (rule inj_onI)
    fix i j assume "i \<in> {i. i < n}" "j \<in> {i. i < n}" "shard_at start stride i n = shard_at start stride j n"
    then have "unat i < 2 ^ k" "unat j < 2 ^ k"
      and "(unat start + unat stride * unat i) mod 2 ^ k = (unat start + unat stride * unat j) mod 2 ^ k"
      by (simp_all add: n unat_shard_at [OF k(1), symmetric] k(2) [symmetric])
    with o have "unat i = unat j" by (blast intro: residues_inject)
    then show "i = j" by (simp add: word_unat_eq_iff)
  qed
  moreover have "(\<lambda>i. shard_at start stride i n) ` {i. i < n} \<subseteq> {i. i < n}"
    by (auto simp: n unat_shard_at [OF k(1), folded k(2)])
  ultimately show ?thesis by (simp add: bij_betw_def endo_inj_surj)
qed

theorem shard_scan_permutation_witness:
  "is_power_of_two 8 \<and> bij_betw (\<lambda>i. shard_at 0 1 i 8) {i. i < 8} {s. s < 8}"
proof -
  have p: "is_power_of_two 8" by (simp add: is_power_of_two_def)
  define z where "z = (\<lambda>_ :: bytes. arr_of (replicate 32 0) :: digest)"
  have "u64_from_be_bytes (replicate 8 0) = 0"
    by (simp add: u64_from_be_bytes_def of_be_def numeral_eq_Suc)
  then have "shard_scan_params z q b w r 8 = (0, 1)" for q b w r
    by (simp add: shard_scan_params_def Let_def z_def slice_def)
  from p shard_scan_permutation [OF p this] show ?thesis by blast
qed

end
