(* ===== verification/Steadq_Names.thy ===== *)
theory Steadq_Names
  imports Steadq_Shards
begin

text \<open>
  The filenames of the crate \<^verbatim>\<open>steadq-names\<close>: the canonical names of the five job states and of
  temporary and quarantined objects, their parsers, and the truncated SHA-256 name tag with
  the location context it covers. The interface \<open>codec\<close> states the contract of a
  printer/parser pair and is interpreted for each kind of name.
\<close>

section \<open>States and name tags\<close>

datatype State = Ready | Leased | Delayed | Receipt | Dead | Quarantine

primrec dir_name :: "State \<Rightarrow> string" where
  "dir_name Ready = ''ready''"
| "dir_name Leased = ''leased''"
| "dir_name Delayed = ''delayed''"
| "dir_name Receipt = ''receipts''"
| "dir_name Dead = ''dead''"
| "dir_name Quarantine = ''quarantine''"

type_synonym name_tag = "8 byte_array"

definition name_tag_message :: "id128 \<Rightarrow> string list \<Rightarrow> bytes" where
  "name_tag_message queue_id context_parts =
     as_bytes ''SteadQ-1-name'' @ [0] @ arr_bytes queue_id @ concat (map as_bytes context_parts)"

definition compute_name_tag_parts :: "sha256 \<Rightarrow> id128 \<Rightarrow> string list \<Rightarrow> name_tag" where
  "compute_name_tag_parts sha queue_id context_parts =
     arr_of (take 8 (arr_bytes (sha (name_tag_message queue_id context_parts))))"

definition compute_name_tag :: "sha256 \<Rightarrow> id128 \<Rightarrow> string \<Rightarrow> name_tag" where
  "compute_name_tag sha queue_id canonical_context =
     compute_name_tag_parts sha queue_id [canonical_context]"

section \<open>Names\<close>

record CommonFields =
  job_id :: id128
  generation :: u64
  attempt :: u32
  maximum_attempts :: u32

definition base_name :: "CommonFields \<Rightarrow> string" where
  "base_name c =
     push_hex [] (arr_bytes (job_id c))
     @ ''.g'' @ fmt_hex 16 (unat (generation c))
     @ ''.a'' @ fmt_hex 8 (unat (attempt c))
     @ ''.m'' @ fmt_hex 8 (unat (maximum_attempts c))"

text \<open>The fields of the name structures carry a prefix, because several structures share a
  field name.\<close>

record ReadyName =
  rd_common :: CommonFields
  rd_tag :: name_tag

record DelayedName =
  dl_common :: CommonFields
  dl_not_before_ns :: u64
  dl_tag :: name_tag

record DeadName =
  dd_common :: CommonFields
  dd_reason :: u16
  dd_tag :: name_tag

record ReceiptName =
  rc_common :: CommonFields
  rc_token :: id128
  rc_tag :: name_tag

record LeasedName =
  ls_common :: CommonFields
  ls_boot_id :: id128
  ls_boottime_deadline_ns :: u64
  ls_wall_deadline_ns :: u64
  ls_token :: id128
  ls_tag :: name_tag

record TempName =
  tm_created_boottime_ns :: u64
  tm_random :: id128

record QuarantineName =
  qn_quarantine_id :: id128
  qn_reason :: u16

subsection \<open>Canonical contexts\<close>

definition ready_context :: "string \<Rightarrow> string \<Rightarrow> string" where
  "ready_context shard base = ''ready/-/-/'' @ shard @ ''/'' @ base"

definition leased_context :: "string \<Rightarrow> string \<Rightarrow> string \<Rightarrow> string \<Rightarrow> string" where
  "leased_context boot bucket shard base =
     ''leased/'' @ boot @ ''/'' @ bucket @ ''/'' @ shard @ ''/'' @ base"

definition delayed_context :: "string \<Rightarrow> string \<Rightarrow> string \<Rightarrow> string" where
  "delayed_context bucket shard base = ''delayed/-/'' @ bucket @ ''/'' @ shard @ ''/'' @ base"

definition terminal_context :: "State \<Rightarrow> string \<Rightarrow> string \<Rightarrow> string \<Rightarrow> string" where
  "terminal_context state bucket shard base =
     dir_name state @ ''/-/'' @ bucket @ ''/'' @ shard @ ''/'' @ base"

definition leased_base :: "LeasedName \<Rightarrow> string" where
  "leased_base n =
     push_hex (base_name (ls_common n) @ ''.o'') (arr_bytes (ls_boot_id n))
     @ ''.b'' @ fmt_hex 16 (unat (ls_boottime_deadline_ns n))
     @ ''.w'' @ fmt_hex 16 (unat (ls_wall_deadline_ns n))
     @ ''.t'' @ push_hex [] (arr_bytes (ls_token n))"

definition delayed_base :: "DelayedName \<Rightarrow> string" where
  "delayed_base n = base_name (dl_common n) @ ''.d'' @ fmt_hex 16 (unat (dl_not_before_ns n))"

definition dead_base :: "DeadName \<Rightarrow> string" where
  "dead_base n = base_name (dd_common n) @ ''.x'' @ fmt_hex 4 (unat (dd_reason n))"

definition receipt_base :: "ReceiptName \<Rightarrow> string" where
  "receipt_base n = push_hex (base_name (rc_common n) @ ''.t'') (arr_bytes (rc_token n))"

definition ready_canonical_context :: "ReadyName \<Rightarrow> string \<Rightarrow> string" where
  "ready_canonical_context n shard = ready_context shard (base_name (rd_common n))"

definition leased_canonical_context :: "LeasedName \<Rightarrow> string \<Rightarrow> string \<Rightarrow> string \<Rightarrow> string" where
  "leased_canonical_context n boot bucket shard = leased_context boot bucket shard (leased_base n)"

definition delayed_canonical_context :: "DelayedName \<Rightarrow> string \<Rightarrow> string \<Rightarrow> string" where
  "delayed_canonical_context n bucket shard = delayed_context bucket shard (delayed_base n)"

definition dead_canonical_context :: "DeadName \<Rightarrow> string \<Rightarrow> string \<Rightarrow> string" where
  "dead_canonical_context n bucket shard = terminal_context Dead bucket shard (dead_base n)"

definition receipt_canonical_context :: "ReceiptName \<Rightarrow> string \<Rightarrow> string \<Rightarrow> string" where
  "receipt_canonical_context n bucket shard = terminal_context Receipt bucket shard (receipt_base n)"

definition ready_authenticate_tag :: "sha256 \<Rightarrow> ReadyName \<Rightarrow> id128 \<Rightarrow> string \<Rightarrow> bool" where
  "ready_authenticate_tag sha n queue_id shard =
     (compute_name_tag_parts sha queue_id [''ready/-/-/'', shard, ''/'', base_name (rd_common n)]
        = rd_tag n)"

definition leased_authenticate_tag ::
    "sha256 \<Rightarrow> LeasedName \<Rightarrow> id128 \<Rightarrow> string \<Rightarrow> string \<Rightarrow> string \<Rightarrow> bool" where
  "leased_authenticate_tag sha n queue_id boot bucket shard =
     (compute_name_tag_parts sha queue_id
        [''leased/'', boot, ''/'', bucket, ''/'', shard, ''/'', leased_base n] = ls_tag n)"

definition delayed_authenticate_tag ::
    "sha256 \<Rightarrow> DelayedName \<Rightarrow> id128 \<Rightarrow> string \<Rightarrow> string \<Rightarrow> bool" where
  "delayed_authenticate_tag sha n queue_id bucket shard =
     (compute_name_tag_parts sha queue_id
        [''delayed/-/'', bucket, ''/'', shard, ''/'', delayed_base n] = dl_tag n)"

definition dead_authenticate_tag ::
    "sha256 \<Rightarrow> DeadName \<Rightarrow> id128 \<Rightarrow> string \<Rightarrow> string \<Rightarrow> bool" where
  "dead_authenticate_tag sha n queue_id bucket shard =
     (compute_name_tag_parts sha queue_id
        [dir_name Dead, ''/-/'', bucket, ''/'', shard, ''/'', dead_base n] = dd_tag n)"

definition receipt_authenticate_tag ::
    "sha256 \<Rightarrow> ReceiptName \<Rightarrow> id128 \<Rightarrow> string \<Rightarrow> string \<Rightarrow> bool" where
  "receipt_authenticate_tag sha n queue_id bucket shard =
     (compute_name_tag_parts sha queue_id
        [dir_name Receipt, ''/-/'', bucket, ''/'', shard, ''/'', receipt_base n] = rc_tag n)"

subsection \<open>Printing\<close>

definition tagged_filename :: "string \<Rightarrow> name_tag \<Rightarrow> string \<Rightarrow> string" where
  "tagged_filename base tag extension =
     push_hex (base @ ''.k'') (arr_bytes tag) @ extension"

definition ready_filename :: "CommonFields \<Rightarrow> name_tag \<Rightarrow> string" where
  "ready_filename common tag = tagged_filename (base_name common) tag ''.sqj''"

definition delayed_filename :: "CommonFields \<Rightarrow> u64 \<Rightarrow> name_tag \<Rightarrow> string" where
  "delayed_filename common not_before_ns tag =
     tagged_filename (base_name common @ ''.d'' @ fmt_hex 16 (unat not_before_ns)) tag ''.sqj''"

definition dead_filename :: "CommonFields \<Rightarrow> u16 \<Rightarrow> name_tag \<Rightarrow> string" where
  "dead_filename common reason tag =
     tagged_filename (base_name common @ ''.x'' @ fmt_hex 4 (unat reason)) tag ''.sqj''"

definition receipt_filename :: "CommonFields \<Rightarrow> id128 \<Rightarrow> name_tag \<Rightarrow> string" where
  "receipt_filename common token tag =
     tagged_filename (push_hex (base_name common @ ''.t'') (arr_bytes token)) tag ''.rct''"

definition leased_filename ::
    "CommonFields \<Rightarrow> id128 \<Rightarrow> u64 \<Rightarrow> u64 \<Rightarrow> id128 \<Rightarrow> name_tag \<Rightarrow> string" where
  "leased_filename common boot boottime_deadline_ns wall_deadline_ns token tag =
     tagged_filename
       (push_hex (base_name common @ ''.o'') (arr_bytes boot)
        @ ''.b'' @ fmt_hex 16 (unat boottime_deadline_ns)
        @ ''.w'' @ fmt_hex 16 (unat wall_deadline_ns)
        @ ''.t'' @ push_hex [] (arr_bytes token)) tag ''.sqj''"

definition temp_filename :: "u64 \<Rightarrow> id128 \<Rightarrow> string" where
  "temp_filename created_boottime_ns random =
     hex_u64 created_boottime_ns @ ''.'' @ hex_encode (arr_bytes random) @ ''.tmp''"

definition quarantine_filename :: "id128 \<Rightarrow> u16 \<Rightarrow> string" where
  "quarantine_filename quarantine_id reason =
     ''q'' @ hex_encode (arr_bytes quarantine_id) @ ''.x'' @ hex_u16 reason @ ''.raw''"

definition make_ready_name :: "sha256 \<Rightarrow> id128 \<Rightarrow> string \<Rightarrow> CommonFields \<Rightarrow> string" where
  "make_ready_name sha queue_id shard common =
     (let base = base_name common;
          tag = compute_name_tag_parts sha queue_id [''ready/-/-/'', shard, ''/'', base]
      in tagged_filename base tag ''.sqj'')"

definition make_delayed_name ::
    "sha256 \<Rightarrow> id128 \<Rightarrow> string \<Rightarrow> string \<Rightarrow> CommonFields \<Rightarrow> u64 \<Rightarrow> string" where
  "make_delayed_name sha queue_id bucket shard common not_before_ns =
     (let base = base_name common @ ''.d'' @ fmt_hex 16 (unat not_before_ns);
          tag = compute_name_tag_parts sha queue_id
                  [''delayed/-/'', bucket, ''/'', shard, ''/'', base]
      in tagged_filename base tag ''.sqj'')"

definition make_leased_name ::
    "sha256 \<Rightarrow> id128 \<Rightarrow> string \<Rightarrow> string \<Rightarrow> string \<Rightarrow> CommonFields \<Rightarrow> u64 \<Rightarrow> u64 \<Rightarrow> id128
      \<Rightarrow> string option" where
  "make_leased_name sha queue_id boot bucket shard common boottime_deadline_ns wall_deadline_ns token =
     (case boot_id_bytes boot of
        None \<Rightarrow> None
      | Some boot_bytes \<Rightarrow>
          (let base = push_hex (base_name common @ ''.o'') (arr_bytes boot_bytes)
                 @ ''.b'' @ fmt_hex 16 (unat boottime_deadline_ns)
                 @ ''.w'' @ fmt_hex 16 (unat wall_deadline_ns)
                 @ ''.t'' @ push_hex [] (arr_bytes token);
               tag = compute_name_tag_parts sha queue_id
                 [''leased/'', boot, ''/'', bucket, ''/'', shard, ''/'', base]
           in Some (tagged_filename base tag ''.sqj'')))"

definition make_receipt_name ::
    "sha256 \<Rightarrow> id128 \<Rightarrow> string \<Rightarrow> string \<Rightarrow> CommonFields \<Rightarrow> id128 \<Rightarrow> string" where
  "make_receipt_name sha queue_id bucket shard common token =
     (let base = push_hex (base_name common @ ''.t'') (arr_bytes token);
          tag = compute_name_tag_parts sha queue_id
                  [dir_name Receipt, ''/-/'', bucket, ''/'', shard, ''/'', base]
      in tagged_filename base tag ''.rct'')"

definition make_dead_name ::
    "sha256 \<Rightarrow> id128 \<Rightarrow> string \<Rightarrow> string \<Rightarrow> CommonFields \<Rightarrow> u16 \<Rightarrow> string" where
  "make_dead_name sha queue_id bucket shard common reason =
     (let base = base_name common @ ''.x'' @ fmt_hex 4 (unat reason);
          tag = compute_name_tag_parts sha queue_id
                  [dir_name Dead, ''/-/'', bucket, ''/'', shard, ''/'', base]
      in tagged_filename base tag ''.sqj'')"

subsection \<open>Parsing\<close>

datatype ParseError = BadExtension | MissingField string | BadHex string | Malformed | NonAscii

definition assert_ascii :: "string \<Rightarrow> ParseError + unit" where
  "assert_ascii s =
     (if list_all (\<lambda>c. char_byte c < 128) s \<and> \<not> list_ex (\<lambda>c. char_byte c = 0) s
      then Ok () else Err NonAscii)"

definition strip_tag :: "string \<Rightarrow> char \<Rightarrow> ParseError + string" where
  "strip_tag part prefix =
     (case part of
        first # rest \<Rightarrow> if first = prefix \<and> rest \<noteq> [] then Ok rest else Err Malformed
      | [] \<Rightarrow> Err Malformed)"

definition parse_tagged_hex_u64 :: "string \<Rightarrow> char \<Rightarrow> ParseError + u64" where
  "parse_tagged_hex_u64 part prefix =
     res_bind (strip_tag part prefix) (\<lambda>s. ok_or (hex_decode_u64 s) (BadHex ''u64''))"

definition parse_tagged_hex_u32 :: "string \<Rightarrow> char \<Rightarrow> ParseError + u32" where
  "parse_tagged_hex_u32 part prefix =
     res_bind (strip_tag part prefix) (\<lambda>s. ok_or (hex_decode_u32 s) (BadHex ''u32''))"

definition parse_tagged_hex_u16 :: "string \<Rightarrow> char \<Rightarrow> ParseError + u16" where
  "parse_tagged_hex_u16 part prefix =
     res_bind (strip_tag part prefix) (\<lambda>s. ok_or (hex_decode_u16 s) (BadHex ''u16''))"

definition parse_tagged_hex_16 :: "string \<Rightarrow> char \<Rightarrow> ParseError + id128" where
  "parse_tagged_hex_16 part prefix =
     res_bind (strip_tag part prefix) (\<lambda>s. ok_or (hex_decode_16 s) (BadHex ''16''))"

definition parse_tag :: "string \<Rightarrow> ParseError + name_tag" where
  "parse_tag part =
     res_bind (strip_tag part (CHR ''k'')) (\<lambda>s. ok_or (hex_decode_array s) (BadHex ''k''))"

definition parse_common_strict :: "string list \<Rightarrow> ParseError + CommonFields \<times> string list" where
  "parse_common_strict parts =
     (if length parts < 4 then Err Malformed
      else
        res_bind (ok_or (hex_decode_16 (parts ! 0)) (BadHex ''job_id'')) (\<lambda>job.
        res_bind (parse_tagged_hex_u64 (parts ! 1) (CHR ''g'')) (\<lambda>gen.
        res_bind (parse_tagged_hex_u32 (parts ! 2) (CHR ''a'')) (\<lambda>att.
        res_bind (parse_tagged_hex_u32 (parts ! 3) (CHR ''m'')) (\<lambda>mx.
          Ok (\<lparr>job_id = job, generation = gen, attempt = att, maximum_attempts = mx\<rparr>,
              drop 4 parts))))))"

definition parse_ready :: "string \<Rightarrow> ParseError + ReadyName" where
  "parse_ready filename =
     res_bind (assert_ascii filename) (\<lambda>_.
     res_bind (ok_or (strip_suffix ''.sqj'' filename) BadExtension) (\<lambda>filename.
       let parts = split_on (CHR ''.'') filename
       in if length parts \<noteq> 5 then Err Malformed
          else res_bind (parse_common_strict parts) (\<lambda>(common, rest).
            if length rest \<noteq> 1 then Err Malformed
            else res_bind (parse_tag (rest ! 0)) (\<lambda>tag.
              Ok \<lparr>rd_common = common, rd_tag = tag\<rparr>))))"

definition parse_delayed :: "string \<Rightarrow> ParseError + DelayedName" where
  "parse_delayed filename =
     res_bind (assert_ascii filename) (\<lambda>_.
     res_bind (ok_or (strip_suffix ''.sqj'' filename) BadExtension) (\<lambda>filename.
       let parts = split_on (CHR ''.'') filename
       in if length parts \<noteq> 6 then Err Malformed
          else res_bind (parse_common_strict parts) (\<lambda>(common, rest).
            if length rest \<noteq> 2 then Err Malformed
            else res_bind (parse_tagged_hex_u64 (rest ! 0) (CHR ''d'')) (\<lambda>not_before_ns.
                 res_bind (parse_tag (rest ! 1)) (\<lambda>tag.
              Ok \<lparr>dl_common = common, dl_not_before_ns = not_before_ns, dl_tag = tag\<rparr>)))))"

definition parse_dead :: "string \<Rightarrow> ParseError + DeadName" where
  "parse_dead filename =
     res_bind (assert_ascii filename) (\<lambda>_.
     res_bind (ok_or (strip_suffix ''.sqj'' filename) BadExtension) (\<lambda>filename.
       let parts = split_on (CHR ''.'') filename
       in if length parts \<noteq> 6 then Err Malformed
          else res_bind (parse_common_strict parts) (\<lambda>(common, rest).
            if length rest \<noteq> 2 then Err Malformed
            else res_bind (parse_tagged_hex_u16 (rest ! 0) (CHR ''x'')) (\<lambda>reason.
                 res_bind (parse_tag (rest ! 1)) (\<lambda>tag.
              Ok \<lparr>dd_common = common, dd_reason = reason, dd_tag = tag\<rparr>)))))"

definition parse_receipt :: "string \<Rightarrow> ParseError + ReceiptName" where
  "parse_receipt filename =
     res_bind (assert_ascii filename) (\<lambda>_.
     res_bind (ok_or (strip_suffix ''.rct'' filename) BadExtension) (\<lambda>filename.
       let parts = split_on (CHR ''.'') filename
       in if length parts \<noteq> 6 then Err Malformed
          else res_bind (parse_common_strict parts) (\<lambda>(common, rest).
            if length rest \<noteq> 2 then Err Malformed
            else res_bind (parse_tagged_hex_16 (rest ! 0) (CHR ''t'')) (\<lambda>token.
                 res_bind (parse_tag (rest ! 1)) (\<lambda>tag.
              Ok \<lparr>rc_common = common, rc_token = token, rc_tag = tag\<rparr>)))))"

definition parse_leased :: "string \<Rightarrow> ParseError + LeasedName" where
  "parse_leased filename =
     res_bind (assert_ascii filename) (\<lambda>_.
     res_bind (ok_or (strip_suffix ''.sqj'' filename) BadExtension) (\<lambda>filename.
       let parts = split_on (CHR ''.'') filename
       in if length parts \<noteq> 9 then Err Malformed
          else res_bind (parse_common_strict parts) (\<lambda>(common, rest).
            if length rest \<noteq> 5 then Err Malformed
            else res_bind (parse_tagged_hex_16 (rest ! 0) (CHR ''o'')) (\<lambda>boot.
                 res_bind (parse_tagged_hex_u64 (rest ! 1) (CHR ''b'')) (\<lambda>boottime_deadline_ns.
                 res_bind (parse_tagged_hex_u64 (rest ! 2) (CHR ''w'')) (\<lambda>wall_deadline_ns.
                 res_bind (parse_tagged_hex_16 (rest ! 3) (CHR ''t'')) (\<lambda>token.
                 res_bind (parse_tag (rest ! 4)) (\<lambda>tag.
              Ok \<lparr>ls_common = common, ls_boot_id = boot,
                  ls_boottime_deadline_ns = boottime_deadline_ns,
                  ls_wall_deadline_ns = wall_deadline_ns, ls_token = token, ls_tag = tag\<rparr>))))))))"

definition parse_temp :: "string \<Rightarrow> ParseError + TempName" where
  "parse_temp filename =
     res_bind (assert_ascii filename) (\<lambda>_.
     res_bind (ok_or (strip_suffix ''.tmp'' filename) BadExtension) (\<lambda>filename.
       let parts = split_on (CHR ''.'') filename
       in if length parts \<noteq> 2 then Err Malformed
          else res_bind (ok_or (hex_decode_u64 (parts ! 0)) (BadHex ''boottime'')) (\<lambda>created.
               res_bind (ok_or (hex_decode_16 (parts ! 1)) (BadHex ''random'')) (\<lambda>random.
            Ok \<lparr>tm_created_boottime_ns = created, tm_random = random\<rparr>))))"

text \<open>The conversion of the identifier bytes back to text cannot fail after the ASCII check.\<close>

definition parse_quarantine :: "string \<Rightarrow> ParseError + QuarantineName" where
  "parse_quarantine filename =
     res_bind (assert_ascii filename) (\<lambda>_.
     res_bind (ok_or (strip_suffix ''.raw'' filename) BadExtension) (\<lambda>filename.
       let parts = split_on (CHR ''.'') filename
       in if length parts \<noteq> 2 then Err Malformed
          else if length (parts ! 0) \<noteq> 33 \<or> parts ! 0 ! 0 \<noteq> CHR ''q'' then Err Malformed
          else res_bind (ok_or (hex_decode_16 (drop 1 (parts ! 0))) (BadHex ''id'')) (\<lambda>quarantine_id.
               res_bind (parse_tagged_hex_u16 (parts ! 1) (CHR ''x'')) (\<lambda>reason.
            Ok \<lparr>qn_quarantine_id = quarantine_id, qn_reason = reason\<rparr>))))"

subsection \<open>The parts a name is made of\<close>

definition common_parts :: "CommonFields \<Rightarrow> string list" where
  "common_parts c =
     [hex_encode (arr_bytes (job_id c)), CHR ''g'' # fmt_hex 16 (unat (generation c)),
      CHR ''a'' # fmt_hex 8 (unat (attempt c)), CHR ''m'' # fmt_hex 8 (unat (maximum_attempts c))]"

text \<open>Text without zero bytes and bytes outside ASCII, and the same without dots.\<close>

definition ascii_char :: "char \<Rightarrow> bool" where
  "ascii_char c = (char_byte c < 128 \<and> char_byte c \<noteq> 0)"

definition plain :: "string \<Rightarrow> bool" where
  "plain s = list_all (\<lambda>c. c \<noteq> CHR ''.'' \<and> ascii_char c) s"

subsection \<open>Names at their location\<close>

text \<open>A tagged name together with the directory it belongs in: the shard, for a lease the boot
  and the bucket of its deadline, for the other timed states the bucket.\<close>

datatype placed_name =
    PlacedReady ReadyName u32
  | PlacedLeased LeasedName id128 u64 u32
  | PlacedDelayed DelayedName u64 u32
  | PlacedDead DeadName u64 u32
  | PlacedReceipt ReceiptName u64 u32

primrec placed_context :: "placed_name \<Rightarrow> string" where
  "placed_context (PlacedReady n sh) = ready_canonical_context n (shard_hex sh)"
| "placed_context (PlacedLeased n boot b sh) =
     leased_canonical_context n (format_boot_id boot) (bucket_hex b) (shard_hex sh)"
| "placed_context (PlacedDelayed n b sh) = delayed_canonical_context n (bucket_hex b) (shard_hex sh)"
| "placed_context (PlacedDead n b sh) = dead_canonical_context n (bucket_hex b) (shard_hex sh)"
| "placed_context (PlacedReceipt n b sh) = receipt_canonical_context n (bucket_hex b) (shard_hex sh)"

primrec placed_tag :: "placed_name \<Rightarrow> name_tag" where
  "placed_tag (PlacedReady n sh) = rd_tag n"
| "placed_tag (PlacedLeased n boot b sh) = ls_tag n"
| "placed_tag (PlacedDelayed n b sh) = dl_tag n"
| "placed_tag (PlacedDead n b sh) = dd_tag n"
| "placed_tag (PlacedReceipt n b sh) = rc_tag n"

primrec placed_authentic :: "sha256 \<Rightarrow> id128 \<Rightarrow> placed_name \<Rightarrow> bool" where
  "placed_authentic sha q (PlacedReady n sh) = ready_authenticate_tag sha n q (shard_hex sh)"
| "placed_authentic sha q (PlacedLeased n boot b sh) =
     leased_authenticate_tag sha n q (format_boot_id boot) (bucket_hex b) (shard_hex sh)"
| "placed_authentic sha q (PlacedDelayed n b sh) =
     delayed_authenticate_tag sha n q (bucket_hex b) (shard_hex sh)"
| "placed_authentic sha q (PlacedDead n b sh) =
     dead_authenticate_tag sha n q (bucket_hex b) (shard_hex sh)"
| "placed_authentic sha q (PlacedReceipt n b sh) =
     receipt_authenticate_tag sha n q (bucket_hex b) (shard_hex sh)"

primrec placed_parts :: "placed_name \<Rightarrow> string list" where
  "placed_parts (PlacedReady n sh) =
     [dir_name Ready, ''-'', ''-'', shard_hex sh, base_name (rd_common n)]"
| "placed_parts (PlacedLeased n boot b sh) =
     [dir_name Leased, format_boot_id boot, bucket_hex b, shard_hex sh, leased_base n]"
| "placed_parts (PlacedDelayed n b sh) =
     [dir_name Delayed, ''-'', bucket_hex b, shard_hex sh, delayed_base n]"
| "placed_parts (PlacedDead n b sh) =
     [dir_name Dead, ''-'', bucket_hex b, shard_hex sh, dead_base n]"
| "placed_parts (PlacedReceipt n b sh) =
     [dir_name Receipt, ''-'', bucket_hex b, shard_hex sh, receipt_base n]"

section \<open>Lemmas\<close>

subsection \<open>Parts of a filename\<close>

lemma strip_tag_eq_Ok_iff: "strip_tag part c = Ok s \<longleftrightarrow> part = c # s \<and> s \<noteq> []"
  by (auto simp: strip_tag_def split: list.splits if_splits)

lemma hex_text_not_Nil [simp]:
  "fmt_hex w n \<noteq> []" "hex_encode (arr_bytes (a :: 'n::len byte_array)) \<noteq> []"
proof -
  show "fmt_hex w n \<noteq> []" by (simp add: fmt_hex_def hex_numeral.simps [of n])
  show "hex_encode (arr_bytes a) \<noteq> []" by (cases "arr_bytes a") auto
qed

lemmas parse_iff =
  res_bind_eq_Ok_iff ok_or_eq_Ok_iff strip_tag_eq_Ok_iff hex_decode_16_eq_Some_iff
  hex_decode_u64_eq_Some_iff hex_decode_u32_eq_Some_iff hex_decode_u16_eq_Some_iff
  hex_decode_array_eq_Some_iff

lemma parse_tagged_eq_Ok_iff:
  "parse_tagged_hex_u64 part c = Ok v \<longleftrightarrow> part = c # fmt_hex 16 (unat v)"
  "parse_tagged_hex_u32 part c = Ok v32 \<longleftrightarrow> part = c # fmt_hex 8 (unat v32)"
  "parse_tagged_hex_u16 part c = Ok v16 \<longleftrightarrow> part = c # fmt_hex 4 (unat v16)"
  "parse_tagged_hex_16 part c = Ok i \<longleftrightarrow> part = c # hex_encode (arr_bytes i)"
  "parse_tag part = Ok t \<longleftrightarrow> part = CHR ''k'' # hex_encode (arr_bytes t)"
  by (auto simp: parse_iff parse_tagged_hex_u64_def parse_tagged_hex_u32_def
      parse_tagged_hex_u16_def parse_tagged_hex_16_def parse_tag_def)

lemma parse_common_strict_eq_Ok_iff:
  "parse_common_strict parts = Ok (c, rest) \<longleftrightarrow> parts = common_parts c @ rest"
proof (cases "length parts < 4")
  case True
  then show ?thesis by (auto simp: parse_common_strict_def common_parts_def)
next
  case False
  then obtain p0 p1 p2 p3 ps where p: "parts = p0 # p1 # p2 # p3 # ps"
    by (auto simp: not_less numeral_eq_Suc Suc_le_length_iff)
  show ?thesis
    by (cases c) (auto simp: p parse_common_strict_def common_parts_def parse_iff parse_tagged_eq_Ok_iff numeral_eq_Suc)
qed

lemma plain_DIGITS: "plain DIGITS"
  by (simp add: plain_def DIGITS_def ascii_char_def char_byte_def)

lemma plain_hex [simp]: "plain (hex_encode bs)"
  using plain_DIGITS set_hex_encode [of bs] by (auto simp: plain_def list_all_iff)

lemma plain_fmt_hex [simp]:
  "plain (fmt_hex 16 (unat (v :: u64)))" "plain (fmt_hex 8 (unat (w :: u32)))"
  "plain (fmt_hex 4 (unat (x :: u16)))"
  unfolding hex_u64_eq hex_u32_eq hex_u16_eq by (rule plain_hex)+

lemma plain_Cons: "plain (c # s) \<longleftrightarrow> c \<noteq> CHR ''.'' \<and> ascii_char c \<and> plain s"
  by (simp add: plain_def)

lemma plain_common_parts [simp]: "list_all plain (common_parts c)"
  by (simp add: common_parts_def plain_Cons ascii_char_def char_byte_def)

lemma assert_ascii_eq_Ok_iff: "assert_ascii s = Ok () \<longleftrightarrow> list_all ascii_char s"
  by (auto simp: assert_ascii_def list_all_iff list_ex_iff ascii_char_def)

lemma join_with_Cons: "join_with c (p # ps) = p @ concat (map ((#) c) ps)"
  by (induction ps arbitrary: p) auto

lemma plain_ascii: "plain p \<Longrightarrow> list_all ascii_char p"
  by (simp add: plain_def list_all_iff)

lemma ascii_concat_parts: "list_all plain ps \<Longrightarrow> list_all ascii_char (concat (map ((#) (CHR ''.'')) ps))"
proof (induction ps)
  case (Cons p ps)
  have "ascii_char (CHR ''.'')" by (simp add: ascii_char_def char_byte_def)
  with Cons show ?case by (simp add: plain_ascii)
qed simp

lemma assert_ascii_join:
  assumes "list_all plain parts" and "assert_ascii ext = Ok ()"
  shows "assert_ascii (join_with (CHR ''.'') parts @ ext) = Ok ()"
proof (cases parts)
  case Nil
  with assms show ?thesis by simp
next
  case (Cons p ps)
  then have "list_all ascii_char p" "list_all plain ps"
    using assms(1) plain_ascii by simp_all
  with ascii_concat_parts [of ps] assms(2) Cons show ?thesis
    by (simp add: assert_ascii_eq_Ok_iff join_with_Cons)
qed

text \<open>The shape shared by the parsers: the ASCII check, the extension and the dotted parts hold
  together exactly for the joined text.\<close>

lemma name_text_iff:
  assumes "list_all plain parts" and "parts \<noteq> []" and "assert_ascii ext = Ok ()"
  shows "assert_ascii s = Ok () \<and> (\<exists>f. strip_suffix ext s = Some f \<and> split_on (CHR ''.'') f = parts)
    \<longleftrightarrow> s = join_with (CHR ''.'') parts @ ext"
proof
  assume "assert_ascii s = Ok () \<and> (\<exists>f. strip_suffix ext s = Some f \<and> split_on (CHR ''.'') f = parts)"
  then show "s = join_with (CHR ''.'') parts @ ext"
    using join_with_split_on by (auto simp: strip_suffix_eq_Some_iff)
next
  assume s: "s = join_with (CHR ''.'') parts @ ext"
  have "\<forall>p \<in> set parts. CHR ''.'' \<notin> set p"
    using assms(1) by (auto simp: list_all_iff plain_def)
  then have "split_on (CHR ''.'') (join_with (CHR ''.'') parts) = parts"
    by (rule split_on_join_with [OF assms(2)])
  then show "assert_ascii s = Ok () \<and> (\<exists>f. strip_suffix ext s = Some f \<and> split_on (CHR ''.'') f = parts)"
    using assert_ascii_join [OF assms(1,3)] s by simp
qed

lemma length_1_iff: "length xs = Suc 0 \<and> P (xs ! 0) \<longleftrightarrow> (\<exists>x. xs = [x] \<and> P x)"
  by (auto simp: length_Suc_conv)

subsection \<open>Each parser accepts exactly the printed names\<close>

lemma assert_ascii_ext:
  "assert_ascii ''.sqj'' = Ok ()" "assert_ascii ''.rct'' = Ok ()"
  "assert_ascii ''.tmp'' = Ok ()" "assert_ascii ''.raw'' = Ok ()"
  by (simp_all add: assert_ascii_eq_Ok_iff ascii_char_def char_byte_def)

lemma plain_prefix:
  "ascii_char (CHR ''k'')" "ascii_char (CHR ''d'')" "ascii_char (CHR ''x'')" "ascii_char (CHR ''t'')"
  "ascii_char (CHR ''o'')" "ascii_char (CHR ''b'')" "ascii_char (CHR ''w'')" "ascii_char (CHR ''q'')"
  by (simp_all add: ascii_char_def char_byte_def)

lemma join_common:
  "join_with (CHR ''.'') (common_parts c @ ps) = base_name c @ concat (map ((#) (CHR ''.'')) ps)"
  by (simp add: common_parts_def join_with_Cons base_name_def push_hex_hex_encode del: join_with.simps)

lemma common_parts_not_Nil [simp]: "common_parts c \<noteq> []"
  by (simp add: common_parts_def)

lemmas printer_simps = tagged_filename_def push_hex_hex_encode join_common hex_u64_def hex_u16_def

text \<open>The control flow shared by the parsers of the five job states.\<close>

lemma job_parser_iff:
  assumes "k = 4 + m" and g: "\<And>c rest. length rest = m \<Longrightarrow> g c rest = Ok n \<longleftrightarrow> c = c' \<and> rest = rest'"
    and "length rest' = m" and "list_all plain rest'" and "assert_ascii ext = Ok ()"
  shows "res_bind (assert_ascii s) (\<lambda>_. res_bind (ok_or (strip_suffix ext s) BadExtension) (\<lambda>f.
      let parts = split_on (CHR ''.'') f
      in if length parts \<noteq> k then Err Malformed
         else res_bind (parse_common_strict parts) (\<lambda>(c, rest).
           if length rest \<noteq> m then Err Malformed else g c rest))) = Ok n
    \<longleftrightarrow> s = base_name c' @ concat (map ((#) (CHR ''.'')) rest') @ ext" (is "?L = Ok n \<longleftrightarrow> _")
proof -
  have inner: "(if length parts \<noteq> k then Err Malformed
         else res_bind (parse_common_strict parts) (\<lambda>(c, rest).
           if length rest \<noteq> m then Err Malformed else g c rest)) = Ok n
      \<longleftrightarrow> parts = common_parts c' @ rest'" for parts
  proof (cases "parse_common_strict parts")
    case (Inl e)
    with parse_common_strict_eq_Ok_iff [of parts c' rest'] show ?thesis by auto
  next
    case (Inr p)
    obtain c rest where p: "p = (c, rest)" by (cases p)
    have parts: "parts = common_parts c @ rest"
      using Inr p parse_common_strict_eq_Ok_iff by simp
    have "parts = common_parts c' @ rest' \<longleftrightarrow> c = c' \<and> rest = rest'"
      using Inr p parse_common_strict_eq_Ok_iff [of parts c' rest'] by simp
    moreover have "length parts = 4 + length rest" by (simp add: parts common_parts_def)
    ultimately show ?thesis using Inr p g [of rest c] assms(1,3) by (cases "length rest = m") auto
  qed
  have "?L = Ok n \<longleftrightarrow> assert_ascii s = Ok () \<and>
      (\<exists>f. strip_suffix ext s = Some f \<and> split_on (CHR ''.'') f = common_parts c' @ rest')"
    unfolding res_bind_eq_Ok_iff [of "assert_ascii s"] res_bind_eq_Ok_iff [of "ok_or _ _"]
      ok_or_eq_Ok_iff Let_def inner by simp
  also have "\<dots> \<longleftrightarrow> s = join_with (CHR ''.'') (common_parts c' @ rest') @ ext"
    by (rule name_text_iff) (simp_all add: assms(4,5))
  finally show ?thesis by (simp add: join_common)
qed

lemma list_eq_nth:
  "length xs = Suc 0 \<Longrightarrow> xs = [a] \<longleftrightarrow> xs ! 0 = a"
  "length xs = 2 \<Longrightarrow> xs = [a, b] \<longleftrightarrow> xs ! 0 = a \<and> xs ! Suc 0 = b"
  "length xs = 5 \<Longrightarrow> xs = [a, b, c, d, e] \<longleftrightarrow>
     xs ! 0 = a \<and> xs ! Suc 0 = b \<and> xs ! 2 = c \<and> xs ! 3 = d \<and> xs ! 4 = e"
  by (auto simp: length_Suc_conv numeral_eq_Suc)

lemma hex_inject [simp]:
  "fmt_hex 16 (unat v) = fmt_hex 16 (unat v') \<longleftrightarrow> v = (v' :: u64)"
  "fmt_hex 8 (unat w) = fmt_hex 8 (unat w') \<longleftrightarrow> w = (w' :: u32)"
  "fmt_hex 4 (unat x) = fmt_hex 4 (unat x') \<longleftrightarrow> x = (x' :: u16)"
  "hex_encode (arr_bytes a) = hex_encode (arr_bytes a') \<longleftrightarrow> a = (a' :: 'n::len byte_array)"
  using hex_decode_u64_eq_Some_iff hex_decode_u32_eq_Some_iff hex_decode_u16_eq_Some_iff
    hex_decode_array_eq_Some_iff by (metis option.inject)+

lemmas parser_auto = assert_ascii_ext plain_Cons plain_prefix parse_iff parse_tagged_eq_Ok_iff

lemma parse_ready_eq_Ok_iff:
  "parse_ready s = Ok n \<longleftrightarrow> s = ready_filename (rd_common n) (rd_tag n)"
proof -
  have "parse_ready s = Ok n \<longleftrightarrow> s = base_name (rd_common n) @ concat (map ((#) (CHR ''.''))
      [CHR ''k'' # hex_encode (arr_bytes (rd_tag n))]) @ ''.sqj''"
    unfolding parse_ready_def
    by (rule job_parser_iff; (cases n)?) (auto simp: parser_auto list_eq_nth)
  then show ?thesis by (simp add: ready_filename_def printer_simps)
qed

lemma parse_delayed_eq_Ok_iff:
  "parse_delayed s = Ok n \<longleftrightarrow> s = delayed_filename (dl_common n) (dl_not_before_ns n) (dl_tag n)"
proof -
  have "parse_delayed s = Ok n \<longleftrightarrow> s = base_name (dl_common n) @ concat (map ((#) (CHR ''.''))
      [CHR ''d'' # fmt_hex 16 (unat (dl_not_before_ns n)), CHR ''k'' # hex_encode (arr_bytes (dl_tag n))]) @ ''.sqj''"
    unfolding parse_delayed_def
    by (rule job_parser_iff; (cases n)?) (auto simp: parser_auto list_eq_nth)
  then show ?thesis by (simp add: delayed_filename_def printer_simps)
qed

lemma parse_dead_eq_Ok_iff:
  "parse_dead s = Ok n \<longleftrightarrow> s = dead_filename (dd_common n) (dd_reason n) (dd_tag n)"
proof -
  have "parse_dead s = Ok n \<longleftrightarrow> s = base_name (dd_common n) @ concat (map ((#) (CHR ''.''))
      [CHR ''x'' # fmt_hex 4 (unat (dd_reason n)), CHR ''k'' # hex_encode (arr_bytes (dd_tag n))]) @ ''.sqj''"
    unfolding parse_dead_def
    by (rule job_parser_iff; (cases n)?) (auto simp: parser_auto list_eq_nth)
  then show ?thesis by (simp add: dead_filename_def printer_simps)
qed

lemma parse_receipt_eq_Ok_iff:
  "parse_receipt s = Ok n \<longleftrightarrow> s = receipt_filename (rc_common n) (rc_token n) (rc_tag n)"
proof -
  have "parse_receipt s = Ok n \<longleftrightarrow> s = base_name (rc_common n) @ concat (map ((#) (CHR ''.''))
      [CHR ''t'' # hex_encode (arr_bytes (rc_token n)), CHR ''k'' # hex_encode (arr_bytes (rc_tag n))]) @ ''.rct''"
    unfolding parse_receipt_def
    by (rule job_parser_iff; (cases n)?) (auto simp: parser_auto list_eq_nth)
  then show ?thesis by (simp add: receipt_filename_def printer_simps)
qed

lemma parse_leased_eq_Ok_iff:
  "parse_leased s = Ok n \<longleftrightarrow> s = leased_filename (ls_common n) (ls_boot_id n) (ls_boottime_deadline_ns n)
    (ls_wall_deadline_ns n) (ls_token n) (ls_tag n)"
proof -
  have "parse_leased s = Ok n \<longleftrightarrow> s = base_name (ls_common n) @ concat (map ((#) (CHR ''.''))
      [CHR ''o'' # hex_encode (arr_bytes (ls_boot_id n)),
       CHR ''b'' # fmt_hex 16 (unat (ls_boottime_deadline_ns n)),
       CHR ''w'' # fmt_hex 16 (unat (ls_wall_deadline_ns n)),
       CHR ''t'' # hex_encode (arr_bytes (ls_token n)), CHR ''k'' # hex_encode (arr_bytes (ls_tag n))]) @ ''.sqj''"
    unfolding parse_leased_def
    by (rule job_parser_iff; (cases n)?) (auto simp: parser_auto list_eq_nth)
  then show ?thesis by (simp add: leased_filename_def printer_simps)
qed

lemma pair_parser_iff:
  assumes "\<And>parts. length parts = 2 \<Longrightarrow> g parts = Ok n \<longleftrightarrow> parts = parts'"
    and "length parts' = 2" and "list_all plain parts'" and "assert_ascii ext = Ok ()"
  shows "res_bind (assert_ascii s) (\<lambda>_. res_bind (ok_or (strip_suffix ext s) BadExtension) (\<lambda>f.
      let parts = split_on (CHR ''.'') f
      in if length parts \<noteq> 2 then Err Malformed else g parts)) = Ok n
    \<longleftrightarrow> s = join_with (CHR ''.'') parts' @ ext" (is "?L = Ok n \<longleftrightarrow> _")
proof -
  have inner: "(if length parts \<noteq> 2 then Err Malformed else g parts) = Ok n \<longleftrightarrow> parts = parts'" for parts
    using assms(1) [of parts] assms(2) by auto
  have "?L = Ok n \<longleftrightarrow> assert_ascii s = Ok () \<and>
      (\<exists>f. strip_suffix ext s = Some f \<and> split_on (CHR ''.'') f = parts')"
    unfolding res_bind_eq_Ok_iff [of "assert_ascii s"] res_bind_eq_Ok_iff [of "ok_or _ _"]
      ok_or_eq_Ok_iff Let_def inner by simp
  also have "\<dots> \<longleftrightarrow> s = join_with (CHR ''.'') parts' @ ext"
    by (rule name_text_iff) (use assms(2-4) in auto)
  finally show ?thesis .
qed

lemma parse_temp_eq_Ok_iff:
  "parse_temp s = Ok n \<longleftrightarrow> s = temp_filename (tm_created_boottime_ns n) (tm_random n)"
proof -
  have "parse_temp s = Ok n \<longleftrightarrow> s = join_with (CHR ''.'')
      [fmt_hex 16 (unat (tm_created_boottime_ns n)), hex_encode (arr_bytes (tm_random n))] @ ''.tmp''"
    unfolding parse_temp_def
    by (rule pair_parser_iff; (cases n)?) (auto simp: parser_auto list_eq_nth)
  then show ?thesis by (simp add: temp_filename_def printer_simps)
qed

lemma parse_quarantine_eq_Ok_iff:
  "parse_quarantine s = Ok n \<longleftrightarrow> s = quarantine_filename (qn_quarantine_id n) (qn_reason n)"
proof -
  have q: "p = CHR ''q'' # hex_encode (arr_bytes i) \<longleftrightarrow>
      length p = 33 \<and> p ! 0 = CHR ''q'' \<and> drop 1 p = hex_encode (arr_bytes i)" for p and i :: id128
    by (cases p) auto
  have "parse_quarantine s = Ok n \<longleftrightarrow> s = join_with (CHR ''.'')
      [CHR ''q'' # hex_encode (arr_bytes (qn_quarantine_id n)), CHR ''x'' # fmt_hex 4 (unat (qn_reason n))]
      @ ''.raw''"
    unfolding parse_quarantine_def
    by (rule pair_parser_iff; (cases n)?) (auto simp: parser_auto list_eq_nth q)
  then show ?thesis by (simp add: quarantine_filename_def printer_simps)
qed

subsection \<open>Interpretations of the codec contract\<close>

interpretation ready_codec: codec "\<lambda>n. ready_filename (rd_common n) (rd_tag n)" parse_ready
  by (rule codecI) (rule parse_ready_eq_Ok_iff)

interpretation delayed_codec:
  codec "\<lambda>n. delayed_filename (dl_common n) (dl_not_before_ns n) (dl_tag n)" parse_delayed
  by (rule codecI) (rule parse_delayed_eq_Ok_iff)

interpretation dead_codec: codec "\<lambda>n. dead_filename (dd_common n) (dd_reason n) (dd_tag n)" parse_dead
  by (rule codecI) (rule parse_dead_eq_Ok_iff)

interpretation receipt_codec:
  codec "\<lambda>n. receipt_filename (rc_common n) (rc_token n) (rc_tag n)" parse_receipt
  by (rule codecI) (rule parse_receipt_eq_Ok_iff)

interpretation leased_codec:
  codec "\<lambda>n. leased_filename (ls_common n) (ls_boot_id n) (ls_boottime_deadline_ns n)
    (ls_wall_deadline_ns n) (ls_token n) (ls_tag n)" parse_leased
  by (rule codecI) (rule parse_leased_eq_Ok_iff)

interpretation temp_codec: codec "\<lambda>n. temp_filename (tm_created_boottime_ns n) (tm_random n)" parse_temp
  by (rule codecI) (rule parse_temp_eq_Ok_iff)

interpretation quarantine_codec:
  codec "\<lambda>n. quarantine_filename (qn_quarantine_id n) (qn_reason n)" parse_quarantine
  by (rule codecI) (rule parse_quarantine_eq_Ok_iff)

lemmas name_codecs =
  ready_codec.parser_eq_Ok_iff delayed_codec.parser_eq_Ok_iff dead_codec.parser_eq_Ok_iff
  receipt_codec.parser_eq_Ok_iff leased_codec.parser_eq_Ok_iff

text \<open>C5. Filenames are canonical: for each of the seven kinds of name the parser accepts exactly
  the text its printer produces, so that printing and parsing are inverse and one name has
  one spelling.\<close>

theorem filenames_canonical:
  "(parse_ready s = Ok n1 \<longleftrightarrow> s = ready_filename (rd_common n1) (rd_tag n1))
   \<and> (parse_delayed s = Ok n2 \<longleftrightarrow> s = delayed_filename (dl_common n2) (dl_not_before_ns n2) (dl_tag n2))
   \<and> (parse_dead s = Ok n3 \<longleftrightarrow> s = dead_filename (dd_common n3) (dd_reason n3) (dd_tag n3))
   \<and> (parse_receipt s = Ok n4 \<longleftrightarrow> s = receipt_filename (rc_common n4) (rc_token n4) (rc_tag n4))
   \<and> (parse_leased s = Ok n5 \<longleftrightarrow> s = leased_filename (ls_common n5) (ls_boot_id n5)
        (ls_boottime_deadline_ns n5) (ls_wall_deadline_ns n5) (ls_token n5) (ls_tag n5))
   \<and> (parse_temp s = Ok n6 \<longleftrightarrow> s = temp_filename (tm_created_boottime_ns n6) (tm_random n6))
   \<and> (parse_quarantine s = Ok n7 \<longleftrightarrow> s = quarantine_filename (qn_quarantine_id n7) (qn_reason n7))"
  by (intro conjI ready_codec.parser_eq_Ok_iff delayed_codec.parser_eq_Ok_iff
      dead_codec.parser_eq_Ok_iff receipt_codec.parser_eq_Ok_iff leased_codec.parser_eq_Ok_iff
      temp_codec.parser_eq_Ok_iff quarantine_codec.parser_eq_Ok_iff)

subsection \<open>Name tags\<close>

lemma authenticate_context:
  "ready_authenticate_tag sha n1 q shard \<longleftrightarrow>
     compute_name_tag sha q (ready_canonical_context n1 shard) = rd_tag n1"
  "leased_authenticate_tag sha n2 q boot bucket shard \<longleftrightarrow>
     compute_name_tag sha q (leased_canonical_context n2 boot bucket shard) = ls_tag n2"
  "delayed_authenticate_tag sha n3 q bucket shard \<longleftrightarrow>
     compute_name_tag sha q (delayed_canonical_context n3 bucket shard) = dl_tag n3"
  "dead_authenticate_tag sha n4 q bucket shard \<longleftrightarrow>
     compute_name_tag sha q (dead_canonical_context n4 bucket shard) = dd_tag n4"
  "receipt_authenticate_tag sha n5 q bucket shard \<longleftrightarrow>
     compute_name_tag sha q (receipt_canonical_context n5 bucket shard) = rc_tag n5"
  by (simp_all add: ready_authenticate_tag_def leased_authenticate_tag_def delayed_authenticate_tag_def
      dead_authenticate_tag_def receipt_authenticate_tag_def compute_name_tag_def
      compute_name_tag_parts_def name_tag_message_def ready_canonical_context_def
      leased_canonical_context_def delayed_canonical_context_def dead_canonical_context_def
      receipt_canonical_context_def ready_context_def leased_context_def delayed_context_def
      terminal_context_def as_bytes_def)

lemma make_ready_name_authentic:
  "\<exists>n. parse_ready (make_ready_name sha q shard c) = Ok n \<and> rd_common n = c
    \<and> ready_authenticate_tag sha n q shard"
  by (rule exI [of _ "\<lparr>rd_common = c, rd_tag = compute_name_tag_parts sha q
      [''ready/-/-/'', shard, ''/'', base_name c]\<rparr>"])
    (simp add: name_codecs make_ready_name_def Let_def ready_filename_def ready_authenticate_tag_def)

lemma make_delayed_name_authentic:
  "\<exists>n. parse_delayed (make_delayed_name sha q bucket shard c nb) = Ok n \<and> dl_common n = c
    \<and> dl_not_before_ns n = nb \<and> delayed_authenticate_tag sha n q bucket shard"
  by (rule exI [of _ "\<lparr>dl_common = c, dl_not_before_ns = nb, dl_tag = compute_name_tag_parts sha q
      [''delayed/-/'', bucket, ''/'', shard, ''/'', base_name c @ ''.d'' @ fmt_hex 16 (unat nb)]\<rparr>"])
    (simp add: name_codecs make_delayed_name_def Let_def delayed_filename_def
      delayed_authenticate_tag_def delayed_base_def)

lemma make_dead_name_authentic:
  "\<exists>n. parse_dead (make_dead_name sha q bucket shard c reason) = Ok n \<and> dd_common n = c
    \<and> dd_reason n = reason \<and> dead_authenticate_tag sha n q bucket shard"
  by (rule exI [of _ "\<lparr>dd_common = c, dd_reason = reason, dd_tag = compute_name_tag_parts sha q
      [dir_name Dead, ''/-/'', bucket, ''/'', shard, ''/'', base_name c @ ''.x'' @ fmt_hex 4 (unat reason)]\<rparr>"])
    (simp add: name_codecs make_dead_name_def Let_def dead_filename_def
      dead_authenticate_tag_def dead_base_def)

lemma make_receipt_name_authentic:
  "\<exists>n. parse_receipt (make_receipt_name sha q bucket shard c token) = Ok n \<and> rc_common n = c
    \<and> rc_token n = token \<and> receipt_authenticate_tag sha n q bucket shard"
  by (rule exI [of _ "\<lparr>rc_common = c, rc_token = token, rc_tag = compute_name_tag_parts sha q
      [dir_name Receipt, ''/-/'', bucket, ''/'', shard, ''/'', push_hex (base_name c @ ''.t'') (arr_bytes token)]\<rparr>"])
    (simp add: name_codecs make_receipt_name_def Let_def receipt_filename_def
      receipt_authenticate_tag_def receipt_base_def)

lemma make_leased_name_authentic:
  "\<exists>s n. make_leased_name sha q (format_boot_id boot) bucket shard c bd wd token = Some s
    \<and> parse_leased s = Ok n \<and> ls_common n = c \<and> ls_boot_id n = boot
    \<and> ls_boottime_deadline_ns n = bd \<and> ls_wall_deadline_ns n = wd \<and> ls_token n = token
    \<and> leased_authenticate_tag sha n q (format_boot_id boot) bucket shard"
  by (rule exI, rule exI [of _ "\<lparr>ls_common = c, ls_boot_id = boot, ls_boottime_deadline_ns = bd,
      ls_wall_deadline_ns = wd, ls_token = token, ls_tag = compute_name_tag_parts sha q
      [''leased/'', format_boot_id boot, ''/'', bucket, ''/'', shard, ''/'',
        push_hex (base_name c @ ''.o'') (arr_bytes boot) @ ''.b'' @ fmt_hex 16 (unat bd)
          @ ''.w'' @ fmt_hex 16 (unat wd) @ ''.t'' @ push_hex [] (arr_bytes token)]\<rparr>"])
    (simp add: name_codecs make_leased_name_def Let_def leased_filename_def
      leased_authenticate_tag_def leased_base_def boot_id_bytes_eq_Some_iff [THEN iffD2, OF refl])

text \<open>C6. Every name a writer builds parses to exactly the fields it was built from, and the
  parsed name passes authentication at the location it was built for.\<close>

theorem made_names_authenticate:
  "(\<exists>n. parse_ready (make_ready_name sha q shard c) = Ok n \<and> rd_common n = c
      \<and> ready_authenticate_tag sha n q shard)
   \<and> (\<exists>n. parse_delayed (make_delayed_name sha q bucket shard c nb) = Ok n \<and> dl_common n = c
      \<and> dl_not_before_ns n = nb \<and> delayed_authenticate_tag sha n q bucket shard)
   \<and> (\<exists>n. parse_dead (make_dead_name sha q bucket shard c reason) = Ok n \<and> dd_common n = c
      \<and> dd_reason n = reason \<and> dead_authenticate_tag sha n q bucket shard)
   \<and> (\<exists>n. parse_receipt (make_receipt_name sha q bucket shard c token) = Ok n \<and> rc_common n = c
      \<and> rc_token n = token \<and> receipt_authenticate_tag sha n q bucket shard)
   \<and> (\<exists>s n. make_leased_name sha q (format_boot_id boot) bucket shard c bd wd token = Some s
      \<and> parse_leased s = Ok n \<and> ls_common n = c \<and> ls_boot_id n = boot
      \<and> ls_boottime_deadline_ns n = bd \<and> ls_wall_deadline_ns n = wd \<and> ls_token n = token
      \<and> leased_authenticate_tag sha n q (format_boot_id boot) bucket shard)"
  by (intro conjI make_ready_name_authentic make_delayed_name_authentic make_dead_name_authentic
      make_receipt_name_authentic make_leased_name_authentic)

lemma placed_context_join: "placed_context p = join_with (CHR ''/'') (placed_parts p)"
  by (cases p) (simp_all add: ready_canonical_context_def leased_canonical_context_def
      delayed_canonical_context_def dead_canonical_context_def receipt_canonical_context_def
      ready_context_def leased_context_def delayed_context_def terminal_context_def)

lemma no_slash_hex [simp]:
  "CHR ''/'' \<notin> set (hex_encode bs)" "CHR ''/'' \<notin> set (fmt_hex w n)"
proof -
  have d: "CHR ''/'' \<notin> set DIGITS" by (simp add: DIGITS_def)
  then show "CHR ''/'' \<notin> set (hex_encode bs)" using set_hex_encode [of bs] by blast
  have "set (hex_numeral n) \<subseteq> set DIGITS"
  proof (induction n rule: hex_numeral.induct)
    case (1 n)
    have "n mod 16 < length DIGITS" "length DIGITS = 16" by (simp_all add: DIGITS_def)
    with 1 show ?case by (subst hex_numeral.simps) (simp add: nth_mem)
  qed
  with d show "CHR ''/'' \<notin> set (fmt_hex w n)" by (auto simp: fmt_hex_def)
qed

lemma no_slash_base [simp]: "CHR ''/'' \<notin> set (base_name c)"
  by (simp add: base_name_def push_hex_hex_encode)

lemma no_slash_parts: "\<forall>x \<in> set (placed_parts p). CHR ''/'' \<notin> set x"
  by (cases p) (simp_all add: leased_base_def delayed_base_def dead_base_def receipt_base_def
      push_hex_hex_encode shard_hex_def bucket_hex_def format_boot_id_segments Let_def)

lemma placed_context_eq_iff: "placed_context p = placed_context p' \<longleftrightarrow> placed_parts p = placed_parts p'"
proof
  have ne: "placed_parts r \<noteq> []" for r by (cases r) auto
  assume "placed_context p = placed_context p'"
  then have "split_on (CHR ''/'') (join_with (CHR ''/'') (placed_parts p)) =
      split_on (CHR ''/'') (join_with (CHR ''/'') (placed_parts p'))" by (simp add: placed_context_join)
  then show "placed_parts p = placed_parts p'"
    by (simp add: split_on_join_with [OF ne no_slash_parts])
qed (simp add: placed_context_join)

lemma ready_base_inject:
  "base_name (rd_common n) = base_name (rd_common n') \<Longrightarrow> rd_tag n = rd_tag n' \<Longrightarrow> n = (n' :: ReadyName)"
  by (rule ready_codec.printer_inject [THEN iffD1]) (simp add: ready_filename_def)

lemma leased_base_inject:
  "leased_base n = leased_base n' \<Longrightarrow> ls_tag n = ls_tag n' \<Longrightarrow> n = (n' :: LeasedName)"
  by (rule leased_codec.printer_inject [THEN iffD1]) (simp add: leased_filename_def leased_base_def)

lemma delayed_base_inject:
  "delayed_base n = delayed_base n' \<Longrightarrow> dl_tag n = dl_tag n' \<Longrightarrow> n = (n' :: DelayedName)"
  by (rule delayed_codec.printer_inject [THEN iffD1]) (simp add: delayed_filename_def delayed_base_def)

lemma dead_base_inject:
  "dead_base n = dead_base n' \<Longrightarrow> dd_tag n = dd_tag n' \<Longrightarrow> n = (n' :: DeadName)"
  by (rule dead_codec.printer_inject [THEN iffD1]) (simp add: dead_filename_def dead_base_def)

lemma receipt_base_inject:
  "receipt_base n = receipt_base n' \<Longrightarrow> rc_tag n = rc_tag n' \<Longrightarrow> n = (n' :: ReceiptName)"
  by (rule receipt_codec.printer_inject [THEN iffD1]) (simp add: receipt_filename_def receipt_base_def)

lemmas base_inject =
  ready_base_inject leased_base_inject delayed_base_inject dead_base_inject receipt_base_inject

lemma place_hex_inject [simp]:
  "shard_hex a = shard_hex b \<longleftrightarrow> a = b" "bucket_hex c = bucket_hex d \<longleftrightarrow> c = d"
  by (simp_all add: shard_hex_def bucket_hex_def word_unat_eq_iff)

lemma placed_inject:
  assumes "placed_context p = placed_context p'" and "placed_tag p = placed_tag p'"
  shows "p = p'"
  using assms unfolding placed_context_eq_iff
  by (cases p; cases p') (auto dest: base_inject)

lemma name_tag_message_inject:
  "name_tag_message q [c] = name_tag_message q' [c'] \<longleftrightarrow> q = q' \<and> c = c'"
  by (simp add: name_tag_message_def append_eq_append_conv)

lemma placed_authentic_tag:
  "placed_authentic sha q p \<longleftrightarrow> compute_name_tag sha q (placed_context p) = placed_tag p"
  by (cases p) (simp_all add: authenticate_context)

text \<open>C4. A tag pins a name to its queue and its place: when the same tag authenticates two
  different pairs of a queue and a placed name (another queue, state, boot, bucket, shard or
  field), the two tag messages differ and the first eight bytes of their SHA-256 digests
  collide.\<close>

theorem moved_name_needs_collision:
  assumes "placed_authentic sha q p" and "placed_authentic sha q' p'"
    and "placed_tag p = placed_tag p'" and "(q, p) \<noteq> (q', p')"
  shows "name_tag_message q [placed_context p] \<noteq> name_tag_message q' [placed_context p']
    \<and> take 8 (arr_bytes (sha (name_tag_message q [placed_context p])))
      = take 8 (arr_bytes (sha (name_tag_message q' [placed_context p'])))"
proof
  show "name_tag_message q [placed_context p] \<noteq> name_tag_message q' [placed_context p']"
    using assms(3,4) placed_inject by (auto simp: name_tag_message_inject)
  have "(arr_of (take 8 (arr_bytes (sha (name_tag_message q [placed_context p])))) :: name_tag)
      = arr_of (take 8 (arr_bytes (sha (name_tag_message q' [placed_context p']))))"
    using assms(1-3) by (simp add: placed_authentic_tag compute_name_tag_def compute_name_tag_parts_def)
  then show "take 8 (arr_bytes (sha (name_tag_message q [placed_context p])))
      = take 8 (arr_bytes (sha (name_tag_message q' [placed_context p'])))"
    by (simp add: arr_of_eq_iff)
qed

theorem moved_name_needs_collision_witness:
  "\<exists>sha q p p'. placed_authentic sha q p \<and> placed_authentic sha q p' \<and> placed_tag p = placed_tag p'
    \<and> name_tag_message q [placed_context p] \<noteq> name_tag_message q [placed_context p']"
proof -
  define z where "z = (\<lambda>_ :: bytes. arr_of (replicate 32 0) :: digest)"
  define c where "c = \<lparr>job_id = arr_of (replicate 16 1), generation = 1, attempt = 0, maximum_attempts = 3\<rparr>"
  define n where "n = \<lparr>rd_common = c, rd_tag = arr_of (replicate 8 0)\<rparr>"
  have "compute_name_tag z q x = arr_of (replicate 8 0)" for q x
    by (simp add: compute_name_tag_def compute_name_tag_parts_def z_def)
  then have a: "placed_authentic z q (PlacedReady n sh)" for q sh
    by (simp add: placed_authentic_tag n_def)
  have "placed_tag (PlacedReady n 0) = placed_tag (PlacedReady n 1)" by simp
  moreover have "(arr_of (replicate 16 2), PlacedReady n 0) \<noteq> (arr_of (replicate 16 2), PlacedReady n 1)" by simp
  ultimately show ?thesis using moved_name_needs_collision [OF a a] a by metis
qed

end
