(* ===== verification/Steadq_Format.thy ===== *)
theory Steadq_Format
  imports Steadq_Shards
begin

text \<open>
  The crate \<^verbatim>\<open>steadq-format\<close>: the binary records of a queue, their encoders and decoders, and
  the validation of a complete job envelope. A buffer is written field by field with
  \<open>copy_at\<close>, as the Rust code does, and read with \<open>slice\<close>. Lengths (\<^verbatim>\<open>usize\<close>) are natural
  numbers below \<open>2 ^ 64\<close> where they are added. The fields of the structures and the
  constructors of the error enumerations carry a prefix, because several share a name.
\<close>

section \<open>Constants\<close>

definition FORMAT_MAGIC :: bytes where "FORMAT_MAGIC = as_bytes ''SDQFMT1'' @ [0]"
definition JOB_MAGIC :: bytes where "JOB_MAGIC = as_bytes ''SDQJOB1'' @ [0]"
definition RECEIPT_MAGIC :: bytes where "RECEIPT_MAGIC = as_bytes ''SDQRCPT'' @ [0]"
definition WATERMARK_MAGIC :: bytes where "WATERMARK_MAGIC = as_bytes ''SDQWMR1'' @ [0]"

abbreviation (input) FORMAT_SIZE :: nat where "FORMAT_SIZE \<equiv> 160"
abbreviation (input) FIXED_HEADER_SIZE :: nat where "FIXED_HEADER_SIZE \<equiv> 128"
abbreviation (input) COMPACT_RECEIPT_SIZE :: nat where "COMPACT_RECEIPT_SIZE \<equiv> 128"
abbreviation (input) WATERMARK_SIZE :: nat where "WATERMARK_SIZE \<equiv> 64"

abbreviation (input) DIGEST_ALGORITHM_SHA256 :: u8 where "DIGEST_ALGORITHM_SHA256 \<equiv> 1"
abbreviation (input) NAME_TAG_BITS :: u8 where "NAME_TAG_BITS \<equiv> 64"
abbreviation (input) FORMAT_MAJOR :: u16 where "FORMAT_MAJOR \<equiv> 1"
abbreviation (input) FORMAT_MINOR :: u16 where "FORMAT_MINOR \<equiv> 1"
abbreviation (input) STRICT_COMPACT_RECEIPT_MINOR :: u16 where "STRICT_COMPACT_RECEIPT_MINOR \<equiv> 1"

definition MAX_PAYLOAD_LENGTH :: u64 where "MAX_PAYLOAD_LENGTH = push_bit 40 1 - 1"
definition MAX_EXTENSION_HEADER_LENGTH :: u64 where "MAX_EXTENSION_HEADER_LENGTH = 65536"

section \<open>The FORMAT record\<close>

record FormatRecord =
  fmt_queue_id :: id128
  fmt_created_at_unix_ns :: u64
  fmt_shard_count :: u32
  fmt_lease_bucket_width_ns :: u64
  fmt_delayed_bucket_width_ns :: u64
  fmt_terminal_bucket_width_ns :: u64
  fmt_max_payload_length :: u64

datatype FormatError =
    FE_BadMagic
  | FE_UnsupportedVersion u16 u16
  | FE_NonzeroFlags
  | FE_NonzeroReserved
  | FE_UnsupportedDigestAlgo u8
  | FE_InvalidNameTagBits u8
  | FE_InvalidShardCount u32
  | FE_InvalidBucketWidth
  | FE_PayloadLimitExceeded
  | FE_DigestMismatch
  | FE_NonzeroFeatureBits
  | FE_WrongSize nat nat

definition format_new ::
    "id128 \<Rightarrow> u64 \<Rightarrow> u32 \<Rightarrow> u64 \<Rightarrow> u64 \<Rightarrow> u64 \<Rightarrow> u64 \<Rightarrow> FormatError + FormatRecord" where
  "format_new queue_id created_at shard_count lease_width delayed_width terminal_width max_payload =
     (if shard_count = 0 \<or> \<not> is_power_of_two shard_count \<or> 4096 < shard_count
      then Err (FE_InvalidShardCount shard_count)
      else if lease_width = 0 \<or> delayed_width = 0 then Err FE_InvalidBucketWidth
      else if \<not> (60000000000 \<le> terminal_width \<and> terminal_width \<le> 86400000000000)
      then Err FE_InvalidBucketWidth
      else if \<not> is_multiple_of terminal_width delayed_width then Err FE_InvalidBucketWidth
      else if MAX_PAYLOAD_LENGTH < max_payload then Err FE_PayloadLimitExceeded
      else Ok \<lparr>fmt_queue_id = queue_id, fmt_created_at_unix_ns = created_at,
               fmt_shard_count = shard_count, fmt_lease_bucket_width_ns = lease_width,
               fmt_delayed_bucket_width_ns = delayed_width,
               fmt_terminal_bucket_width_ns = terminal_width,
               fmt_max_payload_length = max_payload\<rparr>)"

definition format_digest :: "sha256 \<Rightarrow> bytes \<Rightarrow> digest" where
  "format_digest sha header = sha (as_bytes ''SteadQ-1-format'' @ [0] @ header)"

definition format_encode :: "sha256 \<Rightarrow> FormatRecord \<Rightarrow> bytes" where
  "format_encode sha r =
     (let buf = replicate FORMAT_SIZE 0;
          buf = copy_at 0 FORMAT_MAGIC buf;
          buf = copy_at 8 (u16_to_be_bytes FORMAT_MAJOR) buf;
          buf = copy_at 10 (u16_to_be_bytes FORMAT_MINOR) buf;
          buf = copy_at 16 (arr_bytes (fmt_queue_id r)) buf;
          buf = copy_at 32 (u64_to_be_bytes (fmt_created_at_unix_ns r)) buf;
          buf = copy_at 40 (u32_to_be_bytes (fmt_shard_count r)) buf;
          buf = copy_at 48 (u64_to_be_bytes (fmt_lease_bucket_width_ns r)) buf;
          buf = copy_at 56 (u64_to_be_bytes (fmt_delayed_bucket_width_ns r)) buf;
          buf = copy_at 64 (u64_to_be_bytes (fmt_terminal_bucket_width_ns r)) buf;
          buf = copy_at 72 (u64_to_be_bytes (fmt_max_payload_length r)) buf;
          buf = copy_at 80 [DIGEST_ALGORITHM_SHA256] buf;
          buf = copy_at 81 [NAME_TAG_BITS] buf
      in copy_at 128 (arr_bytes (format_digest sha (slice 0 128 buf))) buf)"

definition format_decode :: "sha256 \<Rightarrow> bytes \<Rightarrow> FormatError + FormatRecord" where
  "format_decode sha buf =
     (if length buf \<noteq> FORMAT_SIZE then Err (FE_WrongSize FORMAT_SIZE (length buf))
      else if slice 0 8 buf \<noteq> FORMAT_MAGIC then Err FE_BadMagic
      else
        let major = u16_from_be_bytes (slice 8 10 buf); minor = u16_from_be_bytes (slice 10 12 buf)
        in if major \<noteq> FORMAT_MAJOR then Err (FE_UnsupportedVersion major minor)
      else if u32_from_be_bytes (slice 12 16 buf) \<noteq> 0 then Err FE_NonzeroFlags
      else
        let queue_id = arr_of (slice 16 32 buf);
            created_at = u64_from_be_bytes (slice 32 40 buf);
            shard_count = u32_from_be_bytes (slice 40 44 buf)
        in if u32_from_be_bytes (slice 44 48 buf) \<noteq> 0 then Err FE_NonzeroReserved
      else
        let lease_width = u64_from_be_bytes (slice 48 56 buf);
            delayed_width = u64_from_be_bytes (slice 56 64 buf);
            terminal_width = u64_from_be_bytes (slice 64 72 buf);
            max_payload = u64_from_be_bytes (slice 72 80 buf);
            digest_algo = buf ! 80;
            name_tag_bits = buf ! 81
        in if digest_algo \<noteq> DIGEST_ALGORITHM_SHA256 then Err (FE_UnsupportedDigestAlgo digest_algo)
      else if name_tag_bits \<noteq> NAME_TAG_BITS then Err (FE_InvalidNameTagBits name_tag_bits)
      else if list_ex (\<lambda>b. b \<noteq> 0) (slice 82 88 buf) \<or> list_ex (\<lambda>b. b \<noteq> 0) (slice 104 128 buf)
      then Err FE_NonzeroReserved
      else if u64_from_be_bytes (slice 88 96 buf) \<noteq> 0 \<or> u64_from_be_bytes (slice 96 104 buf) \<noteq> 0
      then Err FE_NonzeroFeatureBits
      else if format_digest sha (slice 0 128 buf) \<noteq> arr_of (slice 128 160 buf) then Err FE_DigestMismatch
      else if shard_count = 0 \<or> \<not> is_power_of_two shard_count \<or> 4096 < shard_count
      then Err (FE_InvalidShardCount shard_count)
      else if lease_width = 0 \<or> delayed_width = 0 then Err FE_InvalidBucketWidth
      else if \<not> (60000000000 \<le> terminal_width \<and> terminal_width \<le> 86400000000000)
      then Err FE_InvalidBucketWidth
      else if \<not> is_multiple_of terminal_width delayed_width then Err FE_InvalidBucketWidth
      else if MAX_PAYLOAD_LENGTH < max_payload then Err FE_PayloadLimitExceeded
      else Ok \<lparr>fmt_queue_id = queue_id, fmt_created_at_unix_ns = created_at,
               fmt_shard_count = shard_count, fmt_lease_bucket_width_ns = lease_width,
               fmt_delayed_bucket_width_ns = delayed_width,
               fmt_terminal_bucket_width_ns = terminal_width,
               fmt_max_payload_length = max_payload\<rparr>)"

section \<open>The fixed job header\<close>

record FixedHeader =
  hdr_format_minor :: u16
  hdr_extension_header_length :: u32
  hdr_payload_length :: u64
  hdr_flags :: u32
  hdr_digest_algorithm :: u8
  hdr_job_id :: id128
  hdr_maximum_attempts :: u32
  hdr_created_at_unix_ns :: u64
  hdr_payload_digest :: digest
  hdr_envelope_digest :: digest

datatype HeaderError =
    HE_BadMagic
  | HE_UnsupportedVersion u16 u16
  | HE_NonzeroFlags
  | HE_DigestAlgoMismatch u8
  | HE_NonzeroReserved
  | HE_WrongSize nat nat
  | HE_PayloadTooLarge
  | HE_ExtensionTooLarge
  | HE_ZeroMaxAttempts
  | HE_EnvelopeDigestMismatch
  | HE_ExtensionDigestMismatch
  | HE_ExtensionLengthMismatch

text \<open>The comparison of lengths truncates the length of the extension to 32 bits, as
  \<^verbatim>\<open>extension.len() as u32\<close> does.\<close>

definition header_encode :: "FixedHeader \<Rightarrow> bytes \<Rightarrow> HeaderError + bytes" where
  "header_encode h extension =
     (if (word_of_nat (length extension) :: u32) \<noteq> hdr_extension_header_length h
      then Err HE_ExtensionLengthMismatch
      else
        let buf = replicate FIXED_HEADER_SIZE 0;
            buf = copy_at 0 JOB_MAGIC buf;
            buf = copy_at 8 (u16_to_be_bytes FORMAT_MAJOR) buf;
            buf = copy_at 10 (u16_to_be_bytes (hdr_format_minor h)) buf;
            buf = copy_at 12 (u32_to_be_bytes (hdr_extension_header_length h)) buf;
            buf = copy_at 16 (u64_to_be_bytes (hdr_payload_length h)) buf;
            buf = copy_at 24 (u32_to_be_bytes (hdr_flags h)) buf;
            buf = copy_at 28 [hdr_digest_algorithm h] buf;
            buf = copy_at 32 (arr_bytes (hdr_job_id h)) buf;
            buf = copy_at 48 (u32_to_be_bytes (hdr_maximum_attempts h)) buf;
            buf = copy_at 56 (u64_to_be_bytes (hdr_created_at_unix_ns h)) buf;
            buf = copy_at 64 (arr_bytes (hdr_payload_digest h)) buf;
            buf = copy_at 96 (arr_bytes (hdr_envelope_digest h)) buf
        in Ok buf)"

definition header_decode :: "bytes \<Rightarrow> HeaderError + FixedHeader" where
  "header_decode buf =
     (if length buf \<noteq> FIXED_HEADER_SIZE then Err (HE_WrongSize FIXED_HEADER_SIZE (length buf))
      else if slice 0 8 buf \<noteq> JOB_MAGIC then Err HE_BadMagic
      else
        let major = u16_from_be_bytes (slice 8 10 buf); minor = u16_from_be_bytes (slice 10 12 buf)
        in if major \<noteq> FORMAT_MAJOR then Err (HE_UnsupportedVersion major minor)
      else
        let flags = u32_from_be_bytes (slice 24 28 buf)
        in if flags \<noteq> 0 then Err HE_NonzeroFlags
      else
        let digest_algorithm = buf ! 28
        in if digest_algorithm \<noteq> DIGEST_ALGORITHM_SHA256
           then Err (HE_DigestAlgoMismatch digest_algorithm)
      else if list_ex (\<lambda>b. b \<noteq> 0) (slice 29 32 buf) \<or> list_ex (\<lambda>b. b \<noteq> 0) (slice 52 56 buf)
      then Err HE_NonzeroReserved
      else
        let extension_header_length = u32_from_be_bytes (slice 12 16 buf);
            payload_length = u64_from_be_bytes (slice 16 24 buf);
            job = arr_of (slice 32 48 buf);
            max_att = u32_from_be_bytes (slice 48 52 buf);
            created_at = u64_from_be_bytes (slice 56 64 buf);
            pdig = arr_of (slice 64 96 buf);
            edig = arr_of (slice 96 128 buf)
        in if max_att = 0 then Err HE_ZeroMaxAttempts
      else if MAX_PAYLOAD_LENGTH < payload_length then Err HE_PayloadTooLarge
      else if MAX_EXTENSION_HEADER_LENGTH < ucast extension_header_length then Err HE_ExtensionTooLarge
      else Ok \<lparr>hdr_format_minor = minor, hdr_extension_header_length = extension_header_length,
               hdr_payload_length = payload_length, hdr_flags = flags,
               hdr_digest_algorithm = digest_algorithm, hdr_job_id = job,
               hdr_maximum_attempts = max_att, hdr_created_at_unix_ns = created_at,
               hdr_payload_digest = pdig, hdr_envelope_digest = edig\<rparr>)"

definition payload_digest :: "sha256 \<Rightarrow> bytes \<Rightarrow> digest" where
  "payload_digest sha payload = sha payload"

definition envelope_digest :: "sha256 \<Rightarrow> FixedHeader \<Rightarrow> bytes \<Rightarrow> digest option" where
  "envelope_digest sha h extension =
     (case header_encode h extension of
        Inl _ \<Rightarrow> None
      | Inr buf \<Rightarrow>
          (let header_with_zero_digest = copy_at 96 (replicate 32 0) buf
           in Some (sha (as_bytes ''SteadQ-1-envelope'' @ [0] @ header_with_zero_digest @ extension))))"

text \<open>The message the envelope digest covers, of an encoded header and an extension.\<close>

definition envelope_message :: "bytes \<Rightarrow> bytes \<Rightarrow> bytes" where
  "envelope_message hdr extension =
     as_bytes ''SteadQ-1-envelope'' @ [0] @ copy_at 96 (replicate 32 0) hdr @ extension"

definition verify_envelope_digest :: "sha256 \<Rightarrow> FixedHeader \<Rightarrow> bytes \<Rightarrow> bool" where
  "verify_envelope_digest sha h extension =
     (case envelope_digest sha h extension of
        Some computed \<Rightarrow> computed = hdr_envelope_digest h
      | None \<Rightarrow> False)"

section \<open>Compact receipts\<close>

record CompactReceipt =
  cr_job_id :: id128
  cr_envelope_digest :: digest
  cr_final_attempt :: u32
  cr_lease_token :: id128
  cr_receipt_bucket_start_unix_ns :: u64
  cr_original_payload_length :: u64

datatype ReceiptError =
    RE_BadMagic
  | RE_UnsupportedVersion u16 u16
  | RE_DigestMismatch
  | RE_WrongSize nat nat

definition receipt_digest :: "sha256 \<Rightarrow> bytes \<Rightarrow> digest" where
  "receipt_digest sha r = sha (as_bytes ''SteadQ-1-receipt'' @ [0] @ r)"

definition receipt_encode :: "sha256 \<Rightarrow> CompactReceipt \<Rightarrow> bytes" where
  "receipt_encode sha r =
     (let buf = replicate COMPACT_RECEIPT_SIZE 0;
          buf = copy_at 0 RECEIPT_MAGIC buf;
          buf = copy_at 8 (u16_to_be_bytes FORMAT_MAJOR) buf;
          buf = copy_at 10 (u16_to_be_bytes FORMAT_MINOR) buf;
          buf = copy_at 12 (arr_bytes (cr_job_id r)) buf;
          buf = copy_at 28 (arr_bytes (cr_envelope_digest r)) buf;
          buf = copy_at 60 (u32_to_be_bytes (cr_final_attempt r)) buf;
          buf = copy_at 64 (arr_bytes (cr_lease_token r)) buf;
          buf = copy_at 80 (u64_to_be_bytes (cr_receipt_bucket_start_unix_ns r)) buf;
          buf = copy_at 88 (u64_to_be_bytes (cr_original_payload_length r)) buf
      in copy_at 96 (arr_bytes (receipt_digest sha (slice 0 96 buf))) buf)"

definition receipt_decode :: "sha256 \<Rightarrow> bytes \<Rightarrow> ReceiptError + CompactReceipt" where
  "receipt_decode sha buf =
     (if length buf \<noteq> COMPACT_RECEIPT_SIZE then Err (RE_WrongSize COMPACT_RECEIPT_SIZE (length buf))
      else if slice 0 8 buf \<noteq> RECEIPT_MAGIC then Err RE_BadMagic
      else
        let major = u16_from_be_bytes (slice 8 10 buf); minor = u16_from_be_bytes (slice 10 12 buf)
        in if major \<noteq> FORMAT_MAJOR \<or> minor < STRICT_COMPACT_RECEIPT_MINOR
           then Err (RE_UnsupportedVersion major minor)
      else
        let job = arr_of (slice 12 28 buf);
            edig = arr_of (slice 28 60 buf);
            final = u32_from_be_bytes (slice 60 64 buf);
            token = arr_of (slice 64 80 buf);
            start = u64_from_be_bytes (slice 80 88 buf);
            plen = u64_from_be_bytes (slice 88 96 buf)
        in if receipt_digest sha (slice 0 96 buf) \<noteq> arr_of (slice 96 128 buf)
           then Err RE_DigestMismatch
      else Ok \<lparr>cr_job_id = job, cr_envelope_digest = edig, cr_final_attempt = final,
               cr_lease_token = token, cr_receipt_bucket_start_unix_ns = start,
               cr_original_payload_length = plen\<rparr>)"

section \<open>Wall watermark records\<close>

record WatermarkRecord =
  wm_highest_observed_bucket :: u64
  wm_sequence :: u64

datatype WatermarkError =
    WE_BadMagic
  | WE_UnsupportedVersion u16 u16
  | WE_NonzeroReserved
  | WE_DigestMismatch
  | WE_WrongSize nat nat

definition watermark_digest :: "sha256 \<Rightarrow> bytes \<Rightarrow> digest" where
  "watermark_digest sha r = sha (as_bytes ''SteadQ-1-wall-watermark'' @ [0] @ r)"

definition watermark_encode :: "sha256 \<Rightarrow> WatermarkRecord \<Rightarrow> bytes" where
  "watermark_encode sha r =
     (let buf = replicate WATERMARK_SIZE 0;
          buf = copy_at 0 WATERMARK_MAGIC buf;
          buf = copy_at 8 (u16_to_be_bytes FORMAT_MAJOR) buf;
          buf = copy_at 10 (u16_to_be_bytes FORMAT_MINOR) buf;
          buf = copy_at 16 (u64_to_be_bytes (wm_highest_observed_bucket r)) buf;
          buf = copy_at 24 (u64_to_be_bytes (wm_sequence r)) buf
      in copy_at 32 (arr_bytes (watermark_digest sha (slice 0 32 buf))) buf)"

definition watermark_decode :: "sha256 \<Rightarrow> bytes \<Rightarrow> WatermarkError + WatermarkRecord" where
  "watermark_decode sha buf =
     (if length buf \<noteq> WATERMARK_SIZE then Err (WE_WrongSize WATERMARK_SIZE (length buf))
      else if slice 0 8 buf \<noteq> WATERMARK_MAGIC then Err WE_BadMagic
      else
        let major = u16_from_be_bytes (slice 8 10 buf); minor = u16_from_be_bytes (slice 10 12 buf)
        in if major \<noteq> FORMAT_MAJOR then Err (WE_UnsupportedVersion major minor)
      else if u32_from_be_bytes (slice 12 16 buf) \<noteq> 0 then Err WE_NonzeroReserved
      else if watermark_digest sha (slice 0 32 buf) \<noteq> arr_of (slice 32 64 buf)
      then Err WE_DigestMismatch
      else Ok \<lparr>wm_highest_observed_bucket = u64_from_be_bytes (slice 16 24 buf),
               wm_sequence = u64_from_be_bytes (slice 24 32 buf)\<rparr>)"

section \<open>Job envelopes\<close>

datatype EnvelopeError =
    EE_Header HeaderError
  | EE_EnvelopeDigestMismatch
  | EE_PayloadDigestMismatch
  | EE_TooShort nat nat
  | EE_TrailingBytes
  | EE_Extension string
  | EE_Io string

record ValidatedEnvelope =
  ve_header :: FixedHeader
  ve_extension :: bytes
  ve_payload :: bytes

definition usize_checked_add :: "nat \<Rightarrow> nat \<Rightarrow> nat option" where
  "usize_checked_add a b = (if a + b < 2 ^ 64 then Some (a + b) else None)"

definition envelope_from_bytes :: "sha256 \<Rightarrow> bytes \<Rightarrow> bool \<Rightarrow> EnvelopeError + ValidatedEnvelope" where
  "envelope_from_bytes sha data verify_payload =
     (if length data < FIXED_HEADER_SIZE
      then Err (EE_TooShort FIXED_HEADER_SIZE (length data))
      else res_bind (map_err EE_Header (header_decode (slice 0 FIXED_HEADER_SIZE data))) (\<lambda>h.
        let ext_len = unat (hdr_extension_header_length h);
            payload_len = unat (hdr_payload_length h)
        in res_bind (ok_or (usize_checked_add FIXED_HEADER_SIZE ext_len) (EE_Io ''size overflow'')) (\<lambda>n.
           res_bind (ok_or (usize_checked_add n payload_len) (EE_Io ''size overflow'')) (\<lambda>expected_total.
        if length data \<noteq> expected_total
        then if expected_total < length data then Err EE_TrailingBytes
             else Err (EE_TooShort expected_total (length data))
        else
          let extension = slice FIXED_HEADER_SIZE (FIXED_HEADER_SIZE + ext_len) data;
              payload = drop (FIXED_HEADER_SIZE + ext_len) data
          in if \<not> verify_envelope_digest sha h extension then Err EE_EnvelopeDigestMismatch
        else if verify_payload \<and> payload_digest sha payload \<noteq> hdr_payload_digest h
        then Err EE_PayloadDigestMismatch
        else Ok \<lparr>ve_header = h, ve_extension = extension, ve_payload = payload\<rparr>))))"

section \<open>Valid records\<close>

text \<open>What the constructors and decoders guarantee of a record.\<close>

definition format_valid :: "FormatRecord \<Rightarrow> bool" where
  "format_valid r =
     (is_power_of_two (fmt_shard_count r) \<and> fmt_shard_count r \<le> 4096
      \<and> fmt_lease_bucket_width_ns r \<noteq> 0 \<and> fmt_delayed_bucket_width_ns r \<noteq> 0
      \<and> 60000000000 \<le> fmt_terminal_bucket_width_ns r
      \<and> fmt_terminal_bucket_width_ns r \<le> 86400000000000
      \<and> is_multiple_of (fmt_terminal_bucket_width_ns r) (fmt_delayed_bucket_width_ns r)
      \<and> unat (fmt_max_payload_length r) < 2 ^ 40)"

definition header_valid :: "FixedHeader \<Rightarrow> bool" where
  "header_valid h =
     (hdr_flags h = 0 \<and> hdr_digest_algorithm h = DIGEST_ALGORITHM_SHA256
      \<and> hdr_maximum_attempts h \<noteq> 0 \<and> unat (hdr_payload_length h) < 2 ^ 40
      \<and> hdr_extension_header_length h \<le> 65536)"

text \<open>A header for concrete examples.\<close>

definition sample_header :: FixedHeader where
  "sample_header = \<lparr>hdr_format_minor = 1, hdr_extension_header_length = 0, hdr_payload_length = 2,
     hdr_flags = 0, hdr_digest_algorithm = 1, hdr_job_id = arr_of (replicate 16 7),
     hdr_maximum_attempts = 3, hdr_created_at_unix_ns = 5,
     hdr_payload_digest = arr_of (replicate 32 0), hdr_envelope_digest = arr_of (replicate 32 0)\<rparr>"

section \<open>Lemmas\<close>

lemma length_magic [simp]:
  "length FORMAT_MAGIC = 8" "length JOB_MAGIC = 8" "length RECEIPT_MAGIC = 8" "length WATERMARK_MAGIC = 8"
  by (simp_all add: FORMAT_MAGIC_def JOB_MAGIC_def RECEIPT_MAGIC_def WATERMARK_MAGIC_def)

lemma format_encode_fields:
  "format_encode sha r =
    (let body = FORMAT_MAGIC @ u16_to_be_bytes FORMAT_MAJOR @ u16_to_be_bytes FORMAT_MINOR
       @ replicate 4 0 @ arr_bytes (fmt_queue_id r) @ u64_to_be_bytes (fmt_created_at_unix_ns r)
       @ u32_to_be_bytes (fmt_shard_count r) @ replicate 4 0
       @ u64_to_be_bytes (fmt_lease_bucket_width_ns r) @ u64_to_be_bytes (fmt_delayed_bucket_width_ns r)
       @ u64_to_be_bytes (fmt_terminal_bucket_width_ns r) @ u64_to_be_bytes (fmt_max_payload_length r)
       @ [DIGEST_ALGORITHM_SHA256, NAME_TAG_BITS] @ replicate 46 0
     in body @ arr_bytes (format_digest sha body))"
  unfolding format_encode_def Let_def replicate_padded
  by (simp add: copy_at_padded) (simp add: padded_def slice_def copy_at_def)

lemmas slice_fields = slice_append_left slice_append_right slice_append_cover slice_all
  slice_Cons_skip slice_Cons_take

lemma watermark_encode_fields:
  "watermark_encode sha r =
    (let body = WATERMARK_MAGIC @ u16_to_be_bytes FORMAT_MAJOR @ u16_to_be_bytes FORMAT_MINOR
       @ replicate 4 0 @ u64_to_be_bytes (wm_highest_observed_bucket r) @ u64_to_be_bytes (wm_sequence r)
     in body @ arr_bytes (watermark_digest sha body))"
  unfolding watermark_encode_def Let_def replicate_padded
  by (simp add: copy_at_padded) (simp add: padded_def slice_def copy_at_def)

lemma receipt_encode_fields:
  "receipt_encode sha r =
    (let body = RECEIPT_MAGIC @ u16_to_be_bytes FORMAT_MAJOR @ u16_to_be_bytes FORMAT_MINOR
       @ arr_bytes (cr_job_id r) @ arr_bytes (cr_envelope_digest r)
       @ u32_to_be_bytes (cr_final_attempt r) @ arr_bytes (cr_lease_token r)
       @ u64_to_be_bytes (cr_receipt_bucket_start_unix_ns r)
       @ u64_to_be_bytes (cr_original_payload_length r)
     in body @ arr_bytes (receipt_digest sha body))"
  unfolding receipt_encode_def Let_def replicate_padded
  by (simp add: copy_at_padded) (simp add: padded_def slice_def copy_at_def)

lemma header_encode_fields:
  "header_encode h ext =
    (if (word_of_nat (length ext) :: u32) \<noteq> hdr_extension_header_length h
     then Err HE_ExtensionLengthMismatch
     else Ok (JOB_MAGIC @ u16_to_be_bytes FORMAT_MAJOR @ u16_to_be_bytes (hdr_format_minor h)
       @ u32_to_be_bytes (hdr_extension_header_length h) @ u64_to_be_bytes (hdr_payload_length h)
       @ u32_to_be_bytes (hdr_flags h) @ [hdr_digest_algorithm h] @ replicate 3 0
       @ arr_bytes (hdr_job_id h) @ u32_to_be_bytes (hdr_maximum_attempts h) @ replicate 4 0
       @ u64_to_be_bytes (hdr_created_at_unix_ns h) @ arr_bytes (hdr_payload_digest h)
       @ arr_bytes (hdr_envelope_digest h)))"
  unfolding header_encode_def Let_def replicate_padded
  by (simp add: copy_at_padded) (simp add: padded_def slice_def copy_at_def)

lemma watermark_decode_encode: "watermark_decode sha (watermark_encode sha r) = Ok r"
  unfolding watermark_encode_fields Let_def
  by (simp add: watermark_decode_def Let_def slice_fields)

lemma receipt_decode_encode: "receipt_decode sha (receipt_encode sha r) = Ok r"
  unfolding receipt_encode_fields Let_def
  by (simp add: receipt_decode_def Let_def slice_fields)

lemma unat_MAX_PAYLOAD_LENGTH: "unat MAX_PAYLOAD_LENGTH = 2 ^ 40 - 1"
  by (simp add: MAX_PAYLOAD_LENGTH_def)

lemma max_payload_iff: "\<not> MAX_PAYLOAD_LENGTH < n \<longleftrightarrow> unat n < 2 ^ 40"
  by (auto simp: word_less_nat_alt unat_MAX_PAYLOAD_LENGTH)

lemma not_power_of_two_0 [simp]: "\<not> is_power_of_two 0"
  by (simp add: is_power_of_two_def)

lemma format_new_eq_Ok_iff:
  "format_new q c s l d t m = Ok r \<longleftrightarrow>
     r = \<lparr>fmt_queue_id = q, fmt_created_at_unix_ns = c, fmt_shard_count = s,
          fmt_lease_bucket_width_ns = l, fmt_delayed_bucket_width_ns = d,
          fmt_terminal_bucket_width_ns = t, fmt_max_payload_length = m\<rparr> \<and> format_valid r"
  using max_payload_iff [of m]
  by (auto simp: format_new_def format_valid_def not_less)

lemma format_decode_valid: "format_decode sha buf = Ok r \<Longrightarrow> format_valid r"
  using max_payload_iff [of "fmt_max_payload_length r"]
  by (auto simp: format_decode_def Let_def format_valid_def not_less split: if_splits)

lemma format_decode_encode:
  assumes "format_valid r"
  shows "format_decode sha (format_encode sha r) = Ok r"
proof -
  have "fmt_shard_count r \<noteq> 0" using assms by (auto simp: format_valid_def)
  then show ?thesis
    using assms max_payload_iff [of "fmt_max_payload_length r"]
    unfolding format_encode_fields Let_def
    by (simp add: format_decode_def Let_def slice_fields format_valid_def list_ex_iff not_less nth_append)
qed

lemma max_extension_iff: "\<not> MAX_EXTENSION_HEADER_LENGTH < ucast (n :: u32) \<longleftrightarrow> n \<le> 65536"
proof -
  have "unat (ucast n :: u64) = unat n"
    using unsigned_less [of n, where 'a = nat] by (simp add: unsigned_ucast_eq take_bit_nat_eq_self)
  then show ?thesis by (simp add: MAX_EXTENSION_HEADER_LENGTH_def not_less word_le_nat_alt)
qed

lemma header_decode_valid: "header_decode buf = Ok h \<Longrightarrow> header_valid h"
  using max_payload_iff [of "hdr_payload_length h"] max_extension_iff [of "hdr_extension_header_length h"]
  by (auto simp: header_decode_def Let_def header_valid_def not_less split: if_splits)

lemma header_decode_encode:
  assumes "header_valid h" and "header_encode h ext = Ok buf"
  shows "header_decode buf = Ok h"
proof -
  have "buf = JOB_MAGIC @ u16_to_be_bytes FORMAT_MAJOR @ u16_to_be_bytes (hdr_format_minor h)
       @ u32_to_be_bytes (hdr_extension_header_length h) @ u64_to_be_bytes (hdr_payload_length h)
       @ u32_to_be_bytes (hdr_flags h) @ [hdr_digest_algorithm h] @ replicate 3 0
       @ arr_bytes (hdr_job_id h) @ u32_to_be_bytes (hdr_maximum_attempts h) @ replicate 4 0
       @ u64_to_be_bytes (hdr_created_at_unix_ns h) @ arr_bytes (hdr_payload_digest h)
       @ arr_bytes (hdr_envelope_digest h)"
    using assms(2) by (simp add: header_encode_fields split: if_splits)
  moreover have "\<not> MAX_EXTENSION_HEADER_LENGTH < ucast (hdr_extension_header_length h)"
    using assms(1) by (simp add: header_valid_def max_extension_iff)
  ultimately show ?thesis
    using assms(1) max_payload_iff [of "hdr_payload_length h"]
    by (simp add: header_decode_def Let_def slice_fields header_valid_def list_ex_iff nth_append)
qed

lemma header_buffer_split:
  assumes "length buf = 128"
  shows "buf = slice 0 8 buf @ slice 8 10 buf @ slice 10 12 buf @ slice 12 16 buf @ slice 16 24 buf
    @ slice 24 28 buf @ [buf ! 28] @ slice 29 32 buf @ slice 32 48 buf @ slice 48 52 buf
    @ slice 52 56 buf @ slice 56 64 buf @ slice 64 96 buf @ slice 96 128 buf"
proof -
  have "buf = slice 0 128 buf" using assms by (simp add: slice_def)
  also have "\<dots> = slice 0 8 buf @ slice 8 10 buf @ slice 10 12 buf @ slice 12 16 buf @ slice 16 24 buf
    @ slice 24 28 buf @ slice 28 29 buf @ slice 29 32 buf @ slice 32 48 buf @ slice 48 52 buf
    @ slice 52 56 buf @ slice 56 64 buf @ slice 64 96 buf @ slice 96 128 buf"
    by (simp add: slice_split [of 0 8 128] slice_split [of 8 10 128] slice_split [of 10 12 128]
        slice_split [of 12 16 128] slice_split [of 16 24 128] slice_split [of 24 28 128]
        slice_split [of 28 29 128] slice_split [of 29 32 128] slice_split [of 32 48 128]
        slice_split [of 48 52 128] slice_split [of 52 56 128] slice_split [of 56 64 128]
        slice_split [of 64 96 128])
  finally show ?thesis using assms slice_single [of 28 buf] by simp
qed

lemma zero_bytes: "\<not> list_ex (\<lambda>b. b \<noteq> 0) bs \<Longrightarrow> bs = replicate (length bs) 0"
  by (induction bs) auto

lemma header_encode_decode:
  assumes "header_decode buf = Ok h" and "word_of_nat (length ext) = hdr_extension_header_length h"
  shows "header_encode h ext = Ok buf"
proof -
  from assms(1) have len: "length buf = 128" and m: "slice 0 8 buf = JOB_MAGIC"
    and v: "u16_from_be_bytes (slice 8 10 buf) = FORMAT_MAJOR"
    and z: "\<not> list_ex (\<lambda>b. b \<noteq> 0) (slice 29 32 buf)" "\<not> list_ex (\<lambda>b. b \<noteq> 0) (slice 52 56 buf)"
    and h: "h = \<lparr>hdr_format_minor = u16_from_be_bytes (slice 10 12 buf),
      hdr_extension_header_length = u32_from_be_bytes (slice 12 16 buf),
      hdr_payload_length = u64_from_be_bytes (slice 16 24 buf),
      hdr_flags = u32_from_be_bytes (slice 24 28 buf), hdr_digest_algorithm = buf ! 28,
      hdr_job_id = arr_of (slice 32 48 buf), hdr_maximum_attempts = u32_from_be_bytes (slice 48 52 buf),
      hdr_created_at_unix_ns = u64_from_be_bytes (slice 56 64 buf),
      hdr_payload_digest = arr_of (slice 64 96 buf), hdr_envelope_digest = arr_of (slice 96 128 buf)\<rparr>"
    by (auto simp: header_decode_def Let_def split: if_splits)
  have "u16_to_be_bytes FORMAT_MAJOR = slice 8 10 buf"
    using to_from_be_bytes(1) [of "slice 8 10 buf"] v len by simp
  moreover have "replicate 3 0 = slice 29 32 buf" "replicate 4 0 = slice 52 56 buf"
    using zero_bytes [OF z(1)] zero_bytes [OF z(2)] len by simp_all
  moreover have "header_encode h ext = Ok (slice 0 8 buf @ u16_to_be_bytes FORMAT_MAJOR @ slice 10 12 buf
    @ slice 12 16 buf @ slice 16 24 buf @ slice 24 28 buf @ [buf ! 28] @ replicate 3 0 @ slice 32 48 buf
    @ slice 48 52 buf @ replicate 4 0 @ slice 56 64 buf @ slice 64 96 buf @ slice 96 128 buf)"
    using assms(2) len by (simp add: header_encode_fields h m to_from_be_bytes)
  ultimately show ?thesis using header_buffer_split [OF len] by simp
qed

lemma length_header_encode: "header_encode h ext = Ok buf \<Longrightarrow> length buf = 128"
  by (auto simp: header_encode_fields split: if_splits)

interpretation watermark_records: round_trip "\<lambda>_. True" "watermark_encode sha" "watermark_decode sha"
  for sha
  by unfold_locales (simp_all add: watermark_decode_encode)

interpretation receipt_records: round_trip "\<lambda>_. True" "receipt_encode sha" "receipt_decode sha"
  for sha
  by unfold_locales (simp_all add: receipt_decode_encode)

interpretation format_records: round_trip format_valid "format_encode sha" "format_decode sha"
  for sha
  by unfold_locales (simp_all add: format_decode_encode format_decode_valid)

lemma envelope_from_bytes_eq_Ok_iff:
  "envelope_from_bytes sha data vp = Ok v \<longleftrightarrow>
     header_valid (ve_header v)
     \<and> length (ve_extension v) = unat (hdr_extension_header_length (ve_header v))
     \<and> length (ve_payload v) = unat (hdr_payload_length (ve_header v))
     \<and> verify_envelope_digest sha (ve_header v) (ve_extension v)
     \<and> (vp \<longrightarrow> payload_digest sha (ve_payload v) = hdr_payload_digest (ve_header v))
     \<and> (\<exists>hdr. header_encode (ve_header v) (ve_extension v) = Ok hdr
          \<and> data = hdr @ ve_extension v @ ve_payload v)" (is "?L \<longleftrightarrow> ?R")
proof
  assume ?L
  then obtain h where h: "header_decode (slice 0 128 data) = Ok h" and vh: "ve_header v = h"
    and ge: "128 \<le> length data"
    and len: "length data = 128 + unat (hdr_extension_header_length h) + unat (hdr_payload_length h)"
    and e: "ve_extension v = slice 128 (128 + unat (hdr_extension_header_length h)) data"
    and p: "ve_payload v = drop (128 + unat (hdr_extension_header_length h)) data"
    and d: "verify_envelope_digest sha h (ve_extension v)"
      "vp \<longrightarrow> payload_digest sha (ve_payload v) = hdr_payload_digest h"
    by (auto simp: envelope_from_bytes_def res_bind_eq_Ok_iff map_err_eq_Ok_iff ok_or_eq_Ok_iff
        usize_checked_add_def Let_def split: if_splits)
  have le: "length (ve_extension v) = unat (hdr_extension_header_length h)" using len by (simp add: e)
  then have "header_encode h (ve_extension v) = Ok (slice 0 128 data)"
    by (intro header_encode_decode [OF h]) simp
  moreover have "data = slice 0 128 data @ ve_extension v @ ve_payload v"
    by (simp add: e p slice_def) (metis append_take_drop_id add.commute drop_drop)
  ultimately show ?R using header_decode_valid [OF h] d len le by (auto simp: vh p)
next
  assume ?R
  then obtain hdr where r: "header_valid (ve_header v)"
    "length (ve_extension v) = unat (hdr_extension_header_length (ve_header v))"
    "length (ve_payload v) = unat (hdr_payload_length (ve_header v))"
    "verify_envelope_digest sha (ve_header v) (ve_extension v)"
    "vp \<longrightarrow> payload_digest sha (ve_payload v) = hdr_payload_digest (ve_header v)"
    and hdr: "header_encode (ve_header v) (ve_extension v) = Ok hdr"
    and data: "data = hdr @ ve_extension v @ ve_payload v" by blast
  have lh: "length hdr = 128" by (rule length_header_encode [OF hdr])
  have dec: "header_decode (slice 0 128 data) = Ok (ve_header v)"
    using header_decode_encode [OF r(1) hdr] lh by (simp add: data slice_def)
  have "unat (hdr_extension_header_length (ve_header v)) \<le> 65536"
    "unat (hdr_payload_length (ve_header v)) < 2 ^ 40"
    using r(1) by (simp_all add: header_valid_def word_le_nat_alt)
  then show ?L
    using dec r lh by (cases v)
      (auto simp: envelope_from_bytes_def data usize_checked_add_def slice_append_left slice_append_right slice_all)
qed

section \<open>Properties\<close>

text \<open>C11. The FORMAT record: the decoder returns exactly the records the constructor can build, which
  are the valid ones (a power-of-two shard count of at most 4096, nonzero lease and delayed
  widths, a terminal width between a minute and a day that is a multiple of the delayed
  width, a payload limit below \<open>2 ^ 40\<close>), and encoding such a record and decoding it gives it back.\<close>

theorem format_record_round_trip:
  "{r. \<exists>buf. format_decode sha buf = Ok r} = {r. \<exists>q c s l d t m. format_new q c s l d t m = Ok r}
   \<and> (format_decode sha (format_encode sha r) = Ok r \<longleftrightarrow> format_valid r)
   \<and> length (format_encode sha r) = FORMAT_SIZE"
proof -
  have "(\<exists>buf. format_decode sha buf = Ok r) \<longleftrightarrow> format_valid r" for r
    using format_records.valid_iff_reparses format_records.parse_valid by blast
  moreover have "(\<exists>q c s l d t m. format_new q c s l d t m = Ok r) \<longleftrightarrow> format_valid r" for r
    by (cases r) (auto simp: format_new_eq_Ok_iff)
  moreover have "length (format_encode sha r) = FORMAT_SIZE"
    by (simp add: format_encode_fields Let_def)
  ultimately show ?thesis using format_records.valid_iff_reparses by blast
qed

text \<open>C12. Compact receipts and wall watermarks survive the disk: encoding either record gives a
  buffer of its fixed size that decodes to the same record.\<close>

theorem small_records_round_trip:
  "receipt_decode sha (receipt_encode sha r) = Ok r
   \<and> length (receipt_encode sha r) = COMPACT_RECEIPT_SIZE
   \<and> watermark_decode sha (watermark_encode sha w) = Ok w
   \<and> length (watermark_encode sha w) = WATERMARK_SIZE"
  using receipt_records.parse_valid_print watermark_records.parse_valid_print
  by (simp add: receipt_encode_fields watermark_encode_fields Let_def)

text \<open>C2. A job file is accepted exactly when it is the concatenation of an encoded valid header, an
  extension and a payload of the lengths the header states, nothing before or after, whose
  envelope digest (and, when asked, payload digest) is the one in the header.\<close>

theorem envelope_accepted_iff:
  "envelope_from_bytes sha data vp = Ok v \<longleftrightarrow>
     header_valid (ve_header v)
     \<and> length (ve_extension v) = unat (hdr_extension_header_length (ve_header v))
     \<and> length (ve_payload v) = unat (hdr_payload_length (ve_header v))
     \<and> verify_envelope_digest sha (ve_header v) (ve_extension v)
     \<and> (vp \<longrightarrow> payload_digest sha (ve_payload v) = hdr_payload_digest (ve_header v))
     \<and> (\<exists>hdr. header_encode (ve_header v) (ve_extension v) = Ok hdr
          \<and> data = hdr @ ve_extension v @ ve_payload v)"
  by (rule envelope_from_bytes_eq_Ok_iff)

theorem envelope_accepted_iff_witness:
  "\<exists>hdr. header_encode sample_header [] = Ok hdr
    \<and> envelope_from_bytes (\<lambda>_. arr_of (replicate 32 0)) (hdr @ [1, 2]) True
      = Ok \<lparr>ve_header = sample_header, ve_extension = [], ve_payload = [1, 2]\<rparr>"
proof -
  obtain hdr where hdr: "header_encode sample_header [] = Ok hdr"
    by (simp add: header_encode_fields sample_header_def)
  moreover have "envelope_from_bytes (\<lambda>_. arr_of (replicate 32 0)) (hdr @ [1, 2]) True
      = Ok \<lparr>ve_header = sample_header, ve_extension = [], ve_payload = [1, 2]\<rparr>"
    unfolding envelope_accepted_iff using hdr
    by (simp add: verify_envelope_digest_def envelope_digest_def)
      (simp add: sample_header_def header_valid_def payload_digest_def)
  ultimately show ?thesis by blast
qed

lemma zeroed_header:
  assumes "header_encode h ext = Ok hdr"
  shows "copy_at 96 (replicate 32 0) hdr = take 96 hdr @ replicate 32 0"
    and "hdr = take 96 hdr @ arr_bytes (hdr_envelope_digest h)"
  using assms by (auto simp: copy_at_def header_encode_fields split: if_splits)

text \<open>C3. The digests bind the whole file: two different accepted files with the same envelope digest
  exhibit a SHA-256 collision, either of the two envelope messages or of the two payloads.\<close>

theorem envelope_binding:
  assumes "envelope_from_bytes sha data True = Ok v" and "envelope_from_bytes sha data' True = Ok v'"
    and "hdr_envelope_digest (ve_header v) = hdr_envelope_digest (ve_header v')" and "data \<noteq> data'"
  shows "(\<exists>hdr hdr'. header_encode (ve_header v) (ve_extension v) = Ok hdr
      \<and> header_encode (ve_header v') (ve_extension v') = Ok hdr'
      \<and> envelope_message hdr (ve_extension v) \<noteq> envelope_message hdr' (ve_extension v')
      \<and> sha (envelope_message hdr (ve_extension v)) = sha (envelope_message hdr' (ve_extension v')))
    \<or> (ve_payload v \<noteq> ve_payload v' \<and> sha (ve_payload v) = sha (ve_payload v'))"
proof -
  obtain hdr hdr' where
    h: "header_encode (ve_header v) (ve_extension v) = Ok hdr" "data = hdr @ ve_extension v @ ve_payload v"
    and h': "header_encode (ve_header v') (ve_extension v') = Ok hdr'" "data' = hdr' @ ve_extension v' @ ve_payload v'"
    and d: "sha (envelope_message hdr (ve_extension v)) = hdr_envelope_digest (ve_header v)"
      "sha (envelope_message hdr' (ve_extension v')) = hdr_envelope_digest (ve_header v')"
    and p: "sha (ve_payload v) = hdr_payload_digest (ve_header v)"
      "sha (ve_payload v') = hdr_payload_digest (ve_header v')"
    and valid: "header_valid (ve_header v)" "header_valid (ve_header v')"
    using assms(1,2) by (auto simp: envelope_from_bytes_eq_Ok_iff payload_digest_def envelope_message_def
        verify_envelope_digest_def envelope_digest_def Let_def split: option.splits sum.splits)
  show ?thesis
  proof (cases "envelope_message hdr (ve_extension v) = envelope_message hdr' (ve_extension v')")
    case True
    have len: "length hdr = 128" "length hdr' = 128" using h(1) h'(1) length_header_encode by blast+
    with True have "take 96 hdr = take 96 hdr'" and e: "ve_extension v = ve_extension v'"
      by (auto simp: envelope_message_def zeroed_header(1) [OF h(1)] zeroed_header(1) [OF h'(1)])
    then have "hdr = hdr'" using assms(3) zeroed_header(2) [OF h(1)] zeroed_header(2) [OF h'(1)] by metis
    moreover from this have "ve_header v = ve_header v'"
      using header_decode_encode [OF valid(1) h(1)] header_decode_encode [OF valid(2) h'(1)] by simp
    ultimately show ?thesis using assms(4) h(2) h'(2) e p by auto
  next
    case False
    with h(1) h'(1) d assms(3) show ?thesis by auto
  qed
qed

theorem envelope_binding_witness:
  "\<exists>data data' v v'. data \<noteq> data'
    \<and> envelope_from_bytes (\<lambda>_. arr_of (replicate 32 0)) data True = Ok v
    \<and> envelope_from_bytes (\<lambda>_. arr_of (replicate 32 0)) data' True = Ok v'
    \<and> hdr_envelope_digest (ve_header v) = hdr_envelope_digest (ve_header v')
    \<and> ((\<exists>hdr hdr'. envelope_message hdr (ve_extension v) \<noteq> envelope_message hdr' (ve_extension v'))
         \<or> ve_payload v \<noteq> ve_payload v')"
proof -
  let ?z = "\<lambda>_ :: bytes. arr_of (replicate 32 0) :: digest"
  define v where "v p = \<lparr>ve_header = sample_header, ve_extension = [], ve_payload = p\<rparr>" for p
  obtain hdr where hdr: "header_encode sample_header [] = Ok hdr"
    by (simp add: header_encode_fields sample_header_def)
  have ok: "envelope_from_bytes ?z (hdr @ [1, b]) True = Ok (v [1, b])" for b
    unfolding envelope_from_bytes_eq_Ok_iff v_def using hdr
    by (simp add: verify_envelope_digest_def envelope_digest_def)
      (simp add: sample_header_def header_valid_def payload_digest_def)
  have d: "hdr_envelope_digest (ve_header (v [1, 2])) = hdr_envelope_digest (ve_header (v [1, 3]))"
    and ne: "hdr @ [1, 2 :: u8] \<noteq> hdr @ [1, 3]" by (simp_all add: v_def)
  have c: "(\<exists>hdr hdr'. envelope_message hdr (ve_extension (v [1, 2])) \<noteq> envelope_message hdr' (ve_extension (v [1, 3])))
      \<or> ve_payload (v [1, 2]) \<noteq> ve_payload (v [1, 3])"
    by (rule disjE [OF envelope_binding [OF ok [of 2] ok [of 3] d ne]])
      (elim exE conjE, intro disjI1 exI, assumption, elim conjE, rule disjI2, assumption)
  show ?thesis by (intro exI conjI) (rule ne ok [of 2] ok [of 3] d c)+
qed

end
