(* ===== verification/Steadq_Cbor.thy ===== *)
theory Steadq_Cbor
  imports Steadq_Format "HOL-Library.List_Lexorder"
begin

text \<open>
  The module \<^verbatim>\<open>steadq-format/src/cbor.rs\<close>: the deterministic CBOR encoding of a job's extension
  header and its strict decoder. The parser's cursor is the position in the input; the
  nesting depth, which the Rust parser raises on entering a map and lowers on leaving it, is
  an argument of the item reader. A \<^verbatim>\<open>BTreeMap<String, _>\<close> is its sequence of entries in
  ascending byte order of the keys; \<open>i64\<close> is a 64-bit word read with its sign. Text is
  accepted when it is well-formed UTF-8, the check of \<^verbatim>\<open>std::str::from_utf8\<close>.
\<close>

section \<open>Data\<close>

abbreviation (input) KEY_INITIAL_NOT_BEFORE :: u8 where "KEY_INITIAL_NOT_BEFORE \<equiv> 1"
abbreviation (input) KEY_CONTENT_TYPE :: u8 where "KEY_CONTENT_TYPE \<equiv> 2"
abbreviation (input) KEY_METADATA :: u8 where "KEY_METADATA \<equiv> 3"
abbreviation (input) KEY_PRODUCER_ID :: u8 where "KEY_PRODUCER_ID \<equiv> 4"
abbreviation (input) KEY_TRACE_CONTEXT :: u8 where "KEY_TRACE_CONTEXT \<equiv> 5"

abbreviation (input) MAX_EXTENSION_SIZE :: nat where "MAX_EXTENSION_SIZE \<equiv> 65536"
abbreviation (input) MAX_METADATA_ENTRIES :: nat where "MAX_METADATA_ENTRIES \<equiv> 256"
abbreviation (input) MAX_TEXT_VALUE :: nat where "MAX_TEXT_VALUE \<equiv> 4096"
abbreviation (input) MAX_BYTES_VALUE :: nat where "MAX_BYTES_VALUE \<equiv> 4096"
abbreviation (input) MAX_CONTENT_TYPE_LEN :: nat where "MAX_CONTENT_TYPE_LEN \<equiv> 255"
abbreviation (input) MAX_PRODUCER_ID_LEN :: nat where "MAX_PRODUCER_ID_LEN \<equiv> 255"
abbreviation (input) MAX_TRACE_CONTEXT_LEN :: nat where "MAX_TRACE_CONTEXT_LEN \<equiv> 1024"

type_synonym i64 = "64 word"

datatype MetadataValue =
    MBool bool
  | MI64 i64
  | MU64 u64
  | MText string
  | MBytes bytes

type_synonym 'v btree_map = "(string \<times> 'v) list"

record ExtensionHeader =
  initial_not_before_unix_ns :: "u64 option"
  content_type :: string
  metadata :: "MetadataValue btree_map"
  producer_id :: "string option"
  trace_context :: "bytes option"

definition extension_default :: ExtensionHeader where
  "extension_default =
     \<lparr>initial_not_before_unix_ns = None, content_type = [], metadata = [], producer_id = None,
      trace_context = None\<rparr>"

datatype CborError =
    TooLarge
  | TooManyEntries
  | ContentTypeTooLong
  | ProducerIdTooLong
  | TraceContextTooLong
  | TextTooLong
  | BytesTooLong
  | InvalidKey string
  | InvalidContentType
  | ProducerIdNul
  | Truncated
  | InvalidMajorType u8
  | InvalidSimpleValue u8
  | UnexpectedTag u8
  | IndefiniteLength
  | FloatNotAllowed
  | NullNotAllowed
  | UndefinedNotAllowed
  | NestingTooDeep
  | UnknownKey u64
  | DuplicateKey u64
  | MissingContentType
  | InvalidUtf8
  | TrailingBytes
  | IntOverflow

datatype CborItem =
    UInt u64
  | NInt u64
  | Bytes bytes
  | Text string
  | Bool bool
  | Map "(CborItem \<times> CborItem) list"

section \<open>Encoding\<close>

definition encode_header :: "bytes \<Rightarrow> u8 \<Rightarrow> u64 \<Rightarrow> bytes" where
  "encode_header buf major val =
     (if val < 24 then buf @ [push_bit 5 major OR ucast val]
      else if val < 256 then buf @ [push_bit 5 major OR 24] @ [ucast val]
      else if val < 65536 then buf @ [push_bit 5 major OR 25] @ u16_to_be_bytes (ucast val)
      else if val < 4294967296 then buf @ [push_bit 5 major OR 26] @ u32_to_be_bytes (ucast val)
      else buf @ [push_bit 5 major OR 27] @ u64_to_be_bytes val)"

definition encode_text_string :: "bytes \<Rightarrow> string \<Rightarrow> bytes" where
  "encode_text_string buf s = encode_header buf 3 (word_of_nat (length s)) @ as_bytes s"

definition encode_byte_string :: "bytes \<Rightarrow> bytes \<Rightarrow> bytes" where
  "encode_byte_string buf b = encode_header buf 2 (word_of_nat (length b)) @ b"

definition is_ascii_lowercase :: "u8 \<Rightarrow> bool" where "is_ascii_lowercase b = (0x61 \<le> b \<and> b \<le> 0x7a)"
definition is_ascii_digit :: "u8 \<Rightarrow> bool" where "is_ascii_digit b = (0x30 \<le> b \<and> b \<le> 0x39)"

definition validate_metadata_key :: "string \<Rightarrow> CborError + unit" where
  "validate_metadata_key key =
     (if key = [] \<or> 64 < length key then Err (InvalidKey key)
      else let bytes = as_bytes key; first = hd bytes
           in if \<not> is_ascii_lowercase first \<and> \<not> is_ascii_digit first then Err (InvalidKey key)
      else if list_ex (\<lambda>b. \<not> is_ascii_lowercase b \<and> \<not> is_ascii_digit b
                          \<and> b \<noteq> 0x2e \<and> b \<noteq> 0x5f \<and> b \<noteq> 0x2d) (tl bytes)
      then Err (InvalidKey key)
      else Ok ())"

definition validate_content_type :: "string \<Rightarrow> CborError + unit" where
  "validate_content_type s =
     (if s = [] \<or> MAX_CONTENT_TYPE_LEN < length s then Err ContentTypeTooLong
      else if list_ex (\<lambda>b. \<not> (0x20 \<le> b \<and> b \<le> 0x7e)) (as_bytes s) then Err InvalidContentType
      else Ok ())"

fun validate_entries :: "MetadataValue btree_map \<Rightarrow> CborError + unit" where
  "validate_entries [] = Ok ()"
| "validate_entries ((k, v) # entries) =
     res_bind (validate_metadata_key k) (\<lambda>_.
       case v of
         MText s \<Rightarrow> if MAX_TEXT_VALUE < length s then Err TextTooLong else validate_entries entries
       | MBytes b \<Rightarrow> if MAX_BYTES_VALUE < length b then Err BytesTooLong else validate_entries entries
       | _ \<Rightarrow> validate_entries entries)"

definition extension_validate :: "ExtensionHeader \<Rightarrow> CborError + unit" where
  "extension_validate e =
     res_bind (validate_content_type (content_type e)) (\<lambda>_.
     if MAX_METADATA_ENTRIES < length (metadata e) then Err TooManyEntries
     else res_bind (validate_entries (metadata e)) (\<lambda>_.
     res_bind (case producer_id e of
                 Some pid \<Rightarrow>
                   if MAX_PRODUCER_ID_LEN < length pid then Err ProducerIdTooLong
                   else if 0 \<in> set (as_bytes pid) then Err ProducerIdNul else Ok ()
               | None \<Rightarrow> Ok ()) (\<lambda>_.
     case trace_context e of
       Some tc \<Rightarrow> if MAX_TRACE_CONTEXT_LEN < length tc then Err TraceContextTooLong else Ok ()
     | None \<Rightarrow> Ok ())))"

definition encode_value :: "bytes \<Rightarrow> MetadataValue \<Rightarrow> bytes" where
  "encode_value buf v =
     (case v of
        MBool False \<Rightarrow> buf @ [0xf4]
      | MBool True \<Rightarrow> buf @ [0xf5]
      | MU64 n \<Rightarrow> encode_header buf 0 n
      | MI64 n \<Rightarrow> if 0 \<le> sint n then encode_header buf 0 n else encode_header buf 1 (NOT n)
      | MText s \<Rightarrow> encode_text_string buf s
      | MBytes b \<Rightarrow> encode_byte_string buf b)"

definition encode_metadata :: "bytes \<Rightarrow> MetadataValue btree_map \<Rightarrow> bytes" where
  "encode_metadata buf m =
     (let encoded_keys = map (\<lambda>(k, v). (encode_text_string [] k, k, v)) m;
          encoded_keys = sort_key fst encoded_keys
      in foldl (\<lambda>buf (_, k, v). encode_value (encode_text_string buf k) v) buf encoded_keys)"

definition entry_count :: "ExtensionHeader \<Rightarrow> u64" where
  "entry_count e =
     1 + (if initial_not_before_unix_ns e \<noteq> None then 1 else 0)
       + (if metadata e \<noteq> [] then 1 else 0)
       + (if producer_id e \<noteq> None then 1 else 0)
       + (if trace_context e \<noteq> None then 1 else 0)"

definition extension_encode :: "ExtensionHeader \<Rightarrow> CborError + bytes" where
  "extension_encode e =
     res_bind (extension_validate e) (\<lambda>_.
       let buf = encode_header [] 5 (entry_count e);
           buf = (case initial_not_before_unix_ns e of
                    Some ns \<Rightarrow> encode_header (encode_header buf 0 (ucast KEY_INITIAL_NOT_BEFORE)) 0 ns
                  | None \<Rightarrow> buf);
           buf = encode_text_string (encode_header buf 0 (ucast KEY_CONTENT_TYPE)) (content_type e);
           buf = (if metadata e \<noteq> []
                  then encode_metadata
                         (encode_header (encode_header buf 0 (ucast KEY_METADATA)) 5
                            (word_of_nat (length (metadata e)))) (metadata e)
                  else buf);
           buf = (case producer_id e of
                    Some pid \<Rightarrow> encode_text_string (encode_header buf 0 (ucast KEY_PRODUCER_ID)) pid
                  | None \<Rightarrow> buf);
           buf = (case trace_context e of
                    Some tc \<Rightarrow> encode_byte_string (encode_header buf 0 (ucast KEY_TRACE_CONTEXT)) tc
                  | None \<Rightarrow> buf)
       in if MAX_EXTENSION_SIZE < length buf then Err TooLarge else Ok buf)"

section \<open>Parsing\<close>

text \<open>Well-formed UTF-8, the table of the Unicode standard.\<close>

definition utf8_cont :: "u8 \<Rightarrow> bool" where "utf8_cont b = (0x80 \<le> b \<and> b \<le> 0xbf)"

fun utf8_valid :: "bytes \<Rightarrow> bool" where
  "utf8_valid [] = True"
| "utf8_valid (b0 # rest) =
     (if b0 < 0x80 then utf8_valid rest
      else case rest of
        [] \<Rightarrow> False
      | b1 # rest1 \<Rightarrow>
          if 0xc2 \<le> b0 \<and> b0 \<le> 0xdf then utf8_cont b1 \<and> utf8_valid rest1
          else (case rest1 of
            [] \<Rightarrow> False
          | b2 # rest2 \<Rightarrow>
              if 0xe0 \<le> b0 \<and> b0 \<le> 0xef
              then utf8_cont b1 \<and> (b0 = 0xe0 \<longrightarrow> 0xa0 \<le> b1) \<and> (b0 = 0xed \<longrightarrow> b1 \<le> 0x9f)
                   \<and> utf8_cont b2 \<and> utf8_valid rest2
              else (case rest2 of
                [] \<Rightarrow> False
              | b3 # rest3 \<Rightarrow>
                  0xf0 \<le> b0 \<and> b0 \<le> 0xf4 \<and> utf8_cont b1 \<and> (b0 = 0xf0 \<longrightarrow> 0x90 \<le> b1)
                  \<and> (b0 = 0xf4 \<longrightarrow> b1 \<le> 0x8f) \<and> utf8_cont b2 \<and> utf8_cont b3 \<and> utf8_valid rest3)))"

definition read_byte :: "bytes \<Rightarrow> nat \<Rightarrow> CborError + u8 \<times> nat" where
  "read_byte data pos =
     (if length data \<le> pos then Err Truncated else Ok (data ! pos, pos + 1))"

text \<open>The common part of the multi-byte arms of \<^verbatim>\<open>read_uint\<close>: advance by \<open>n\<close>, read the big-endian
  bytes passed over, and refuse a value that has a shorter spelling.\<close>

definition read_be :: "bytes \<Rightarrow> nat \<Rightarrow> nat \<Rightarrow> (bytes \<Rightarrow> u64) \<Rightarrow> u64 \<Rightarrow> CborError + u64 \<times> nat" where
  "read_be data pos n from_be least =
     res_bind (ok_or (usize_checked_add pos n) IntOverflow) (\<lambda>pos.
       if length data < pos then Err Truncated
       else let v = from_be (slice (pos - n) pos data)
            in if v < least then Err IntOverflow else Ok (v, pos))"

definition read_uint :: "bytes \<Rightarrow> nat \<Rightarrow> u8 \<Rightarrow> CborError + u64 \<times> nat" where
  "read_uint data pos additional =
     (if additional \<le> 23 then Ok (ucast additional, pos)
      else if additional = 24 then read_be data pos 1 (\<lambda>bs. ucast (hd bs)) 24
      else if additional = 25 then read_be data pos 2 (\<lambda>bs. ucast (u16_from_be_bytes bs)) 256
      else if additional = 26 then read_be data pos 4 (\<lambda>bs. ucast (u32_from_be_bytes bs)) 65536
      else if additional = 27 then read_be data pos 8 u64_from_be_bytes 4294967296
      else if additional \<le> 30 then Err (InvalidMajorType additional)
      else if additional = 31 then Err IndefiniteLength
      else Err (InvalidMajorType additional))"

text \<open>The string arms of \<^verbatim>\<open>read_item\<close>: a length and that many bytes.\<close>

definition read_string :: "bytes \<Rightarrow> nat \<Rightarrow> u8 \<Rightarrow> CborError + bytes \<times> nat" where
  "read_string data pos additional =
     res_bind (read_uint data pos additional) (\<lambda>(len, pos).
     res_bind (ok_or (usize_checked_add pos (unat len)) IntOverflow) (\<lambda>end'.
       if length data < end' then Err Truncated else Ok (slice pos end' data, end')))"

fun read_pairs ::
    "(nat \<Rightarrow> CborError + CborItem \<times> nat) \<Rightarrow> nat \<Rightarrow> nat
      \<Rightarrow> CborError + (CborItem \<times> CborItem) list \<times> nat" where
  "read_pairs item 0 pos = Ok ([], pos)"
| "read_pairs item (Suc n) pos =
     res_bind (item pos) (\<lambda>(key, pos).
     res_bind (item pos) (\<lambda>(val, pos).
     res_bind (read_pairs item n pos) (\<lambda>(items, pos).
       Ok ((key, val) # items, pos))))"

function read_item :: "bytes \<Rightarrow> nat \<Rightarrow> nat \<Rightarrow> CborError + CborItem \<times> nat" where
  "read_item data depth pos =
     (if 2 < depth then Err NestingTooDeep
      else res_bind (read_byte data pos) (\<lambda>(initial, pos).
        let major = drop_bit 5 initial; additional = initial AND 0x1f
        in if major = 0 then
             res_bind (read_uint data pos additional) (\<lambda>(v, pos). Ok (UInt v, pos))
           else if major = 1 then
             res_bind (read_uint data pos additional) (\<lambda>(v, pos).
               if i64_MAX_as_u64 < v then Err IntOverflow else Ok (NInt v, pos))
           else if major = 2 then
             res_bind (read_string data pos additional) (\<lambda>(b, pos). Ok (Bytes b, pos))
           else if major = 3 then
             res_bind (read_string data pos additional) (\<lambda>(b, pos).
               if \<not> utf8_valid b then Err InvalidUtf8 else Ok (Text (from_bytes b), pos))
           else if major = 5 then
             res_bind (read_uint data pos additional) (\<lambda>(len, pos).
               let max_possible = (length data - pos) div 2
               in if max_possible < unat len then Err Truncated
                  else if MAX_METADATA_ENTRIES * 8 < unat len then Err TooManyEntries
                  else res_bind (read_pairs (\<lambda>pos. read_item data (depth + 1) pos) (unat len) pos)
                         (\<lambda>(items, pos). Ok (Map items, pos)))
           else if major = 6 then Err (UnexpectedTag additional)
           else if major = 7 then
             (if additional = 20 then Ok (Bool False, pos)
              else if additional = 21 then Ok (Bool True, pos)
              else if additional = 22 then Err NullNotAllowed
              else if additional = 23 then Err UndefinedNotAllowed
              else if additional = 24 then
                res_bind (read_byte data pos) (\<lambda>(sv, pos). Err (InvalidSimpleValue sv))
              else if 25 \<le> additional \<and> additional \<le> 27 then Err FloatNotAllowed
              else Err (InvalidSimpleValue additional))
           else Err (InvalidMajorType major)))"
  by pat_completeness auto

termination
  by (relation "measure (\<lambda>(data, depth, pos). 3 - depth)") auto

declare read_item.simps [simp del]

section \<open>Decoding an extension header\<close>

fun btree_insert :: "string \<Rightarrow> 'v \<Rightarrow> 'v btree_map \<Rightarrow> 'v btree_map" where
  "btree_insert k v [] = [(k, v)]"
| "btree_insert k v ((k', v') # m) =
     (if as_bytes k < as_bytes k' then (k, v) # (k', v') # m
      else if k = k' then (k, v) # m
      else (k', v') # btree_insert k v m)"

text \<open>The three loops over the metadata map: collect the keys, check their order, convert and
  insert the values.\<close>

fun collect_meta ::
    "(CborItem \<times> CborItem) list \<Rightarrow> string list \<Rightarrow> CborError + (string \<times> CborItem) list" where
  "collect_meta [] seen = Ok []"
| "collect_meta ((mk_item, mv_item) # rest) seen =
     (case mk_item of
        Text mk \<Rightarrow>
          res_bind (validate_metadata_key mk) (\<lambda>_.
            if mk \<in> set seen then Err (InvalidKey (''duplicate metadata key: '' @ mk))
            else res_bind (collect_meta rest (mk # seen)) (\<lambda>items. Ok ((mk, mv_item) # items)))
      | _ \<Rightarrow> Err (InvalidKey ''non-string''))"

fun check_meta_order :: "(string \<times> CborItem) list \<Rightarrow> bytes option \<Rightarrow> CborError + unit" where
  "check_meta_order [] prev = Ok ()"
| "check_meta_order ((mk, mv) # rest) prev =
     (let key_buf = encode_text_string [] mk
      in if (case prev of Some pk \<Rightarrow> key_buf \<le> pk | None \<Rightarrow> False)
         then Err (InvalidKey (''metadata keys not in canonical order: '' @ mk))
         else check_meta_order rest (Some key_buf))"

definition meta_value :: "CborItem \<Rightarrow> CborError + MetadataValue" where
  "meta_value item =
     (case item of
        Bool b \<Rightarrow> Ok (MBool b)
      | UInt v \<Rightarrow> Ok (MU64 v)
      | NInt v \<Rightarrow> if i64_MAX_as_u64 < v then Err IntOverflow else Ok (MI64 (- 1 - v))
      | Text s \<Rightarrow> if MAX_TEXT_VALUE < length s then Err TextTooLong else Ok (MText s)
      | Bytes b \<Rightarrow> if MAX_BYTES_VALUE < length b then Err BytesTooLong else Ok (MBytes b)
      | Map _ \<Rightarrow> Err (InvalidMajorType 5))"

fun insert_meta ::
    "(string \<times> CborItem) list \<Rightarrow> MetadataValue btree_map \<Rightarrow> CborError + MetadataValue btree_map" where
  "insert_meta [] m = Ok m"
| "insert_meta ((mk, mv_item) # rest) m =
     res_bind (meta_value mv_item) (\<lambda>mv. insert_meta rest (btree_insert mk mv m))"

definition decode_metadata ::
    "(CborItem \<times> CborItem) list \<Rightarrow> MetadataValue btree_map \<Rightarrow> CborError + MetadataValue btree_map" where
  "decode_metadata meta_map m =
     (if MAX_METADATA_ENTRIES < length meta_map then Err TooManyEntries
      else res_bind (collect_meta meta_map []) (\<lambda>meta_items.
           res_bind (check_meta_order meta_items None) (\<lambda>_. insert_meta meta_items m)))"

definition decode_entry :: "u64 \<Rightarrow> CborItem \<Rightarrow> ExtensionHeader \<Rightarrow> CborError + ExtensionHeader" where
  "decode_entry key val_item ext =
     (if key = 1 then
        (case val_item of
           UInt v \<Rightarrow> Ok (ext\<lparr>initial_not_before_unix_ns := Some v\<rparr>)
         | _ \<Rightarrow> Err (InvalidMajorType 0))
      else if key = 2 then
        (case val_item of
           Text ct \<Rightarrow> res_bind (validate_content_type ct) (\<lambda>_. Ok (ext\<lparr>content_type := ct\<rparr>))
         | _ \<Rightarrow> Err (InvalidMajorType 0))
      else if key = 3 then
        (case val_item of
           Map meta_map \<Rightarrow>
             res_bind (decode_metadata meta_map (metadata ext)) (\<lambda>m. Ok (ext\<lparr>metadata := m\<rparr>))
         | _ \<Rightarrow> Err (InvalidMajorType 0))
      else if key = 4 then
        (case val_item of
           Text pid \<Rightarrow>
             if 0 \<in> set (as_bytes pid) then Err ProducerIdNul
             else if MAX_PRODUCER_ID_LEN < length pid then Err ProducerIdTooLong
             else Ok (ext\<lparr>producer_id := Some pid\<rparr>)
         | _ \<Rightarrow> Err (InvalidMajorType 0))
      else if key = 5 then
        (case val_item of
           Bytes tc \<Rightarrow>
             if MAX_TRACE_CONTEXT_LEN < length tc then Err TraceContextTooLong
             else Ok (ext\<lparr>trace_context := Some tc\<rparr>)
         | _ \<Rightarrow> Err (InvalidMajorType 0))
      else Err (UnknownKey key))"

fun decode_entries ::
    "(CborItem \<times> CborItem) list \<Rightarrow> u64 list \<Rightarrow> u64 option \<Rightarrow> ExtensionHeader
      \<Rightarrow> CborError + ExtensionHeader" where
  "decode_entries [] seen_keys prev_key ext = Ok ext"
| "decode_entries ((key_item, val_item) # rest) seen_keys prev_key ext =
     (case key_item of
        UInt key \<Rightarrow>
          if key \<in> set seen_keys then Err (DuplicateKey key)
          else if (case prev_key of Some pk \<Rightarrow> key < pk | None \<Rightarrow> False) then Err (DuplicateKey key)
          else res_bind (decode_entry key val_item ext)
                 (decode_entries rest (key # seen_keys) (Some key))
      | _ \<Rightarrow> Err (UnknownKey 0))"

definition decode_extension :: "bytes \<Rightarrow> CborError + ExtensionHeader \<times> nat" where
  "decode_extension data =
     res_bind (read_item data 0 0) (\<lambda>(top, pos).
       case top of
         Map map_items \<Rightarrow>
           res_bind (decode_entries map_items [] None extension_default) (\<lambda>ext.
             if content_type ext = [] then Err MissingContentType else Ok (ext, pos))
       | _ \<Rightarrow> Err (InvalidMajorType 0))"

definition extension_decode :: "bytes \<Rightarrow> CborError + ExtensionHeader" where
  "extension_decode input =
     (if MAX_EXTENSION_SIZE < length input then Err TooLarge
      else res_bind (decode_extension input) (\<lambda>(result, pos).
        if pos \<noteq> length input then Err TrailingBytes else Ok result))"

definition envelope_decode_extension :: "ValidatedEnvelope \<Rightarrow> CborError + ExtensionHeader" where
  "envelope_decode_extension v = extension_decode (ve_extension v)"

section \<open>The encoding of an item\<close>

text \<open>Reference encoder of parsed items, and the items the decoder can return at a depth.\<close>

function encode_item :: "CborItem \<Rightarrow> bytes" where
  "encode_item (UInt v) = encode_header [] 0 v"
| "encode_item (NInt v) = encode_header [] 1 v"
| "encode_item (Bytes b) = encode_byte_string [] b"
| "encode_item (Text s) = encode_text_string [] s"
| "encode_item (Bool b) = [if b then 0xf5 else 0xf4]"
| "encode_item (Map items) =
     encode_header [] 5 (word_of_nat (length items))
     @ concat (map (\<lambda>(k, v). encode_item k @ encode_item v) items)"
  by pat_completeness auto

termination
proof (relation "measure size")
  fix items z k v
  assume "z \<in> set items" "(k, v) = (z :: CborItem \<times> CborItem)"
  then have "size k + size v < size (Map items)"
    by (induction items) auto
  then show "(k, Map items) \<in> measure size" "(v, Map items) \<in> measure size" by auto
qed simp

definition encode_pairs :: "(CborItem \<times> CborItem) list \<Rightarrow> bytes" where
  "encode_pairs items = concat (map (\<lambda>p. encode_item (fst p) @ encode_item (snd p)) items)"

function wf_item :: "nat \<Rightarrow> CborItem \<Rightarrow> bool" where
  "wf_item d (UInt v) = (d \<le> 2)"
| "wf_item d (NInt v) = (d \<le> 2 \<and> v \<le> i64_MAX_as_u64)"
| "wf_item d (Bytes b) = (d \<le> 2 \<and> length b < 2 ^ 64)"
| "wf_item d (Text s) = (d \<le> 2 \<and> utf8_valid (as_bytes s) \<and> length s < 2 ^ 64)"
| "wf_item d (Bool b) = (d \<le> 2)"
| "wf_item d (Map items) =
     (d \<le> 2 \<and> length items \<le> 2048 \<and> list_all (\<lambda>(k, v). wf_item (d + 1) k \<and> wf_item (d + 1) v) items)"
  by pat_completeness auto

termination
proof (relation "measure (\<lambda>(d, i). size i)")
  fix d items z k v
  assume "z \<in> set items" "(k, v) = (z :: CborItem \<times> CborItem)"
  then have "size k + size v < size (Map items)"
    by (induction items) auto
  then show "((d + 1, k), (d, Map items)) \<in> measure (\<lambda>(d, i). size i)"
    "((d + 1, v), (d, Map items)) \<in> measure (\<lambda>(d, i). size i)" by auto
qed simp

subsection \<open>The items of an extension header\<close>

definition value_item :: "MetadataValue \<Rightarrow> CborItem" where
  "value_item v =
     (case v of
        MBool b \<Rightarrow> Bool b
      | MU64 n \<Rightarrow> UInt n
      | MI64 n \<Rightarrow> if 0 \<le> sint n then UInt n else NInt (NOT n)
      | MText s \<Rightarrow> Text s
      | MBytes b \<Rightarrow> Bytes b)"

definition meta_sorted :: "MetadataValue btree_map \<Rightarrow> (bytes \<times> string \<times> MetadataValue) list" where
  "meta_sorted m = sort_key fst (map (\<lambda>(k, v). (encode_text_string [] k, k, v)) m)"

definition meta_items :: "MetadataValue btree_map \<Rightarrow> (CborItem \<times> CborItem) list" where
  "meta_items m = map (\<lambda>(_, k, v). (Text k, value_item v)) (meta_sorted m)"

definition ext_items :: "ExtensionHeader \<Rightarrow> (CborItem \<times> CborItem) list" where
  "ext_items e =
     (case initial_not_before_unix_ns e of Some ns \<Rightarrow> [(UInt 1, UInt ns)] | None \<Rightarrow> [])
     @ [(UInt 2, Text (content_type e))]
     @ (if metadata e \<noteq> [] then [(UInt 3, Map (meta_items (metadata e)))] else [])
     @ (case producer_id e of Some pid \<Rightarrow> [(UInt 4, Text pid)] | None \<Rightarrow> [])
     @ (case trace_context e of Some tc \<Rightarrow> [(UInt 5, Bytes tc)] | None \<Rightarrow> [])"

text \<open>What the types of the Rust structure guarantee: the keys of the map ascend and every string
  is UTF-8.\<close>

definition btree_sorted :: "'v btree_map \<Rightarrow> bool" where
  "btree_sorted m = sorted_wrt (\<lambda>p q. as_bytes (fst p) < as_bytes (fst q)) m"

definition extension_typed :: "ExtensionHeader \<Rightarrow> bool" where
  "extension_typed e =
     (btree_sorted (metadata e)
      \<and> list_all (\<lambda>(k, v). case v of MText s \<Rightarrow> utf8_valid (as_bytes s) | _ \<Rightarrow> True) (metadata e)
      \<and> (case producer_id e of Some pid \<Rightarrow> utf8_valid (as_bytes pid) | None \<Rightarrow> True))"

text \<open>CBOR has one spelling for a non-negative integer, so a non-negative \<^verbatim>\<open>I64\<close> comes back as the
  \<^verbatim>\<open>U64\<close> of the same number.\<close>

definition normal_value :: "MetadataValue \<Rightarrow> MetadataValue" where
  "normal_value v = (case v of MI64 n \<Rightarrow> if 0 \<le> sint n then MU64 n else MI64 n | _ \<Rightarrow> v)"

definition normal_extension :: "ExtensionHeader \<Rightarrow> ExtensionHeader" where
  "normal_extension e = e\<lparr>metadata := map (\<lambda>(k, v). (k, normal_value v)) (metadata e)\<rparr>"

section \<open>Lemmas\<close>

subsection \<open>Item heads\<close>

lemma encode_header_append: "encode_header buf m v = buf @ encode_header [] m v"
  by (simp add: encode_header_def)

lemma encode_header_not_Nil [simp]: "encode_header [] m v \<noteq> []"
  by (simp add: encode_header_def)

lemma head_split:
  fixes m x :: u8
  assumes "m < 8" and "x < 32"
  shows "drop_bit 5 (push_bit 5 m OR x) = m" and "(push_bit 5 m OR x) AND 0x1f = x"
proof -
  have "take_bit 3 m = m" "take_bit 5 x = x"
    using assms by (simp_all add: word_less_nat_alt word_unat_eq_iff take_bit_eq_mod unat_mod)
  then have m: "bit m n \<Longrightarrow> n < 3" and x: "bit x n \<Longrightarrow> n < 5" for n by (metis bit_take_bit_iff)+
  show "drop_bit 5 (push_bit 5 m OR x) = m"
    by (rule bit_word_eqI) (use m x [of "n + 5" for n] in \<open>fastforce simp: bit_simps add.commute\<close>)
  have "y AND 0x1f = take_bit 5 y" for y :: u8 by (simp add: take_bit_eq_mask mask_eq_exp_minus_1)
  then have "(push_bit 5 m OR x) AND 0x1f = take_bit 5 (push_bit 5 m OR x)" by blast
  also have "\<dots> = x" by (rule bit_word_eqI) (use x in \<open>auto simp: bit_simps\<close>)
  finally show "(push_bit 5 m OR x) AND 0x1f = x" .
qed

lemma ucast_ucast_small:
  "v < 256 \<Longrightarrow> ucast (ucast v :: u8) = (v :: u64)"
  "v < 65536 \<Longrightarrow> ucast (ucast v :: u16) = (v :: u64)"
  "v < 4294967296 \<Longrightarrow> ucast (ucast v :: u32) = (v :: u64)"
  by (simp_all add: word_less_nat_alt word_unat_eq_iff unsigned_ucast_eq unsigned_take_bit_eq take_bit_nat_eq_self)

lemma read_byte_Cons [simp]: "read_byte (pre @ b # rest) (length pre) = Ok (b, Suc (length pre))"
  by (simp add: read_byte_def)

lemma read_be_append:
  assumes "length bs = n" and "length pre + n < 2 ^ 64" and "least \<le> f bs"
  shows "read_be (pre @ bs @ rest) (length pre) n f least = Ok (f bs, length pre + n)"
  using assms by (simp add: read_be_def usize_checked_add_def slice_append_right slice_append_left slice_all not_less Let_def)

lemma encode_header_read:
  assumes "m < 8" and "length pre + 9 < 2 ^ 64"
  shows "\<exists>b. read_byte (pre @ encode_header [] m v @ rest) (length pre) = Ok (b, Suc (length pre))
    \<and> drop_bit 5 b = m
    \<and> read_uint (pre @ encode_header [] m v @ rest) (Suc (length pre)) (b AND 0x1f)
        = Ok (v, length pre + length (encode_header [] m v))"
proof -
  have be: "read_be (pre @ b # bs @ rest) (Suc (length pre)) n f least = Ok (f bs, Suc (length pre) + n)"
    if "length bs = n" "n \<le> 8" "\<not> f bs < least" for b bs n f least
    using read_be_append [of bs n "pre @ [b]" least f rest] that assms(2) by (simp add: not_less)
  note h = head_split [OF assms(1)]
  consider "v < 24" | "\<not> v < 24" "v < 256" | "\<not> v < 24" "\<not> v < 256" "v < 65536"
    | "\<not> v < 24" "\<not> v < 256" "\<not> v < 65536" "v < 4294967296"
    | "\<not> v < 24" "\<not> v < 256" "\<not> v < 65536" "\<not> v < 4294967296" by blast
  then show ?thesis
  proof cases
    case 1
    then have "(ucast v :: u8) \<le> 23" "(ucast v :: u8) < 32" "v < 256"
      by (simp_all add: word_less_nat_alt word_le_nat_alt unsigned_ucast_eq take_bit_nat_eq_self)
    with 1 show ?thesis by (simp add: encode_header_def h read_uint_def ucast_ucast_small del: drop_bit_or)
  next
    case 2
    then show ?thesis
      using be [where bs = "[ucast v]" and n = 1 and least = 24 and f = "\<lambda>bs. ucast (hd bs)" and b = "push_bit 5 m OR 24"]
      by (simp add: encode_header_def h read_uint_def ucast_ucast_small del: drop_bit_or)
  next
    case 3
    then show ?thesis
      using be [where bs = "u16_to_be_bytes (ucast v)" and n = 2 and least = 256 and f = "\<lambda>bs. ucast (u16_from_be_bytes bs)" and b = "push_bit 5 m OR 25"]
      by (simp add: encode_header_def h read_uint_def ucast_ucast_small del: drop_bit_or)
  next
    case 4
    then show ?thesis
      using be [where bs = "u32_to_be_bytes (ucast v)" and n = 4 and least = 65536 and f = "\<lambda>bs. ucast (u32_from_be_bytes bs)" and b = "push_bit 5 m OR 26"]
      by (simp add: encode_header_def h read_uint_def ucast_ucast_small del: drop_bit_or)
  next
    case 5
    then show ?thesis
      using be [where bs = "u64_to_be_bytes v" and n = 8 and least = 4294967296 and f = u64_from_be_bytes and b = "push_bit 5 m OR 27"]
      by (simp add: encode_header_def h read_uint_def del: drop_bit_or)
  qed
qed

lemma read_string_encode:
  assumes "m < 8" and "length pre + length b + 9 < 2 ^ 64" and "length b < 2 ^ 64"
  shows "\<exists>i. read_byte (pre @ encode_header [] m (word_of_nat (length b)) @ b @ rest) (length pre) = Ok (i, Suc (length pre))
    \<and> drop_bit 5 i = m
    \<and> read_string (pre @ encode_header [] m (word_of_nat (length b)) @ b @ rest) (Suc (length pre)) (i AND 0x1f)
        = Ok (b, length pre + length (encode_header [] m (word_of_nat (length b))) + length b)"
proof -
  let ?h = "encode_header [] m (word_of_nat (length b))"
  have "length ?h \<le> 9" by (simp add: encode_header_def)
  moreover have "unat (word_of_nat (length b) :: u64) = length b" using assms(3) by (simp add: unat_of_nat)
  ultimately show ?thesis
    using encode_header_read [OF assms(1), of pre "word_of_nat (length b)" "b @ rest"] assms(2)
    by (auto simp: read_string_def usize_checked_add_def slice_append_right slice_append_left slice_all)
qed

lemma encode_item_not_Nil: "encode_item i \<noteq> []"
  by (cases i) (simp_all add: encode_byte_string_def encode_text_string_def)

lemma encode_pairs_simps [simp]:
  "encode_pairs [] = []" "encode_pairs ((k, v) # items) = encode_item k @ encode_item v @ encode_pairs items"
  by (simp_all add: encode_pairs_def)

lemma encode_item_Map:
  "encode_item (Map items) = encode_header [] 5 (word_of_nat (length items)) @ encode_pairs items"
  by (simp add: encode_pairs_def case_prod_beta')

lemma pairs_length: "2 * length items \<le> length (encode_pairs items)"
proof (induction items)
  case (Cons p items)
  obtain k v where p: "p = (k, v)" by (cases p)
  have "0 < length (encode_item k)" "0 < length (encode_item v)" by (simp_all add: encode_item_not_Nil)
  with Cons show ?case unfolding p by (simp del: length_greater_0_conv)
qed simp

lemma read_pairs_encode:
  assumes "\<And>i pre rest. (\<exists>p \<in> set items. i = fst p \<or> i = snd p) \<Longrightarrow> data = pre @ encode_item i @ rest
      \<Longrightarrow> f (length pre) = Ok (i, length pre + length (encode_item i))"
    and "data = pre @ encode_pairs items @ rest"
  shows "read_pairs f (length items) (length pre)
    = Ok (items, length pre + length (encode_pairs items))"
  using assms
proof (induction items arbitrary: pre)
  case (Cons p items)
  obtain k v where p: "p = (k, v)" by (cases p)
  let ?r = "encode_pairs items @ rest"
  have k: "f (length pre) = Ok (k, length pre + length (encode_item k))"
    by (rule Cons.prems(1) [of k pre "encode_item v @ ?r"]) (use Cons.prems(2) in \<open>auto simp: p\<close>)
  have v: "f (length (pre @ encode_item k)) = Ok (v, length (pre @ encode_item k) + length (encode_item v))"
    by (rule Cons.prems(1) [of v "pre @ encode_item k" ?r]) (use Cons.prems(2) in \<open>auto simp: p\<close>)
  have r: "read_pairs f (length items) (length (pre @ encode_item k @ encode_item v)) = Ok (items,
      length (pre @ encode_item k @ encode_item v) + length (encode_pairs items))"
    by (rule Cons.IH) (use Cons.prems in \<open>auto simp: p\<close>)
  show ?case using k v r by (simp add: p add.assoc)
qed simp

lemma read_item_encode:
  assumes "wf_item d it" and "data = pre @ encode_item it @ rest" and "length data + 9 < 2 ^ 64"
  shows "read_item data d (length pre) = Ok (it, length pre + length (encode_item it))"
  using assms
proof (induction "3 - d" arbitrary: d it pre rest rule: less_induct)
  case less
  have d: "\<not> 2 < d" using less.prems(1) by (cases it) auto
  show ?case
  proof (cases it)
    case (UInt v)
    then show ?thesis
      using encode_header_read [of 0 pre v rest] less.prems d by (auto simp: read_item.simps)
  next
    case (NInt v)
    then show ?thesis
      using encode_header_read [of 1 pre v rest] less.prems d by (auto simp: read_item.simps not_less)
  next
    case (Bytes b)
    then show ?thesis
      using read_string_encode [of 2 pre b rest] less.prems d
      by (auto simp: read_item.simps encode_byte_string_def)
  next
    case (Text s)
    then show ?thesis
      using read_string_encode [of 3 pre "as_bytes s" rest] less.prems d
      by (auto simp: read_item.simps encode_text_string_def)
  next
    case (Bool b)
    then show ?thesis
      using less.prems d by (simp add: read_item.simps Let_def)
  next
    case (Map items)
    let ?h = "encode_header [] 5 (word_of_nat (length items)) :: bytes"
    let ?c = "encode_pairs items"
    have "read_pairs (read_item data (d + 1)) (length items) (length (pre @ ?h)) = Ok (items, length (pre @ ?h) + length ?c)"
    proof (rule read_pairs_encode [where rest = rest])
      fix i pre rest
      assume "\<exists>p \<in> set items. i = fst p \<or> i = snd p" and data: "data = pre @ encode_item i @ rest"
      then have "wf_item (d + 1) i" using less.prems(1) by (auto simp: Map list_all_iff)
      then show "read_item data (d + 1) (length pre) = Ok (i, length pre + length (encode_item i))"
        using less.hyps [of "d + 1" i pre rest] data less.prems(3) d by simp
    qed (use less.prems(2) in \<open>simp add: Map encode_item_Map del: encode_item.simps(6)\<close>)
    moreover have "unat (word_of_nat (length items) :: u64) = length items"
      using less.prems(1) by (simp add: Map unat_of_nat)
    ultimately show ?thesis
      using encode_header_read [of 5 pre "word_of_nat (length items)" "?c @ rest"] less.prems d pairs_length [of items]
      by (auto simp: read_item.simps Map encode_item_Map not_less simp del: encode_item.simps(6))
  qed
qed

subsection \<open>Encoding produces the items\<close>

lemma encode_text_append: "encode_text_string buf s = buf @ encode_text_string [] s"
  unfolding encode_text_string_def by (subst encode_header_append) simp

lemma encode_byte_append: "encode_byte_string buf b = buf @ encode_byte_string [] b"
  unfolding encode_byte_string_def by (subst encode_header_append) simp

lemma encode_value_item: "encode_value buf v = buf @ encode_item (value_item v)"
proof (cases v)
  case (MBool b)
  then show ?thesis by (cases b) (simp_all add: encode_value_def value_item_def)
next
  case (MI64 n)
  have "encode_value buf v = (if 0 \<le> sint n then encode_header buf 0 n else encode_header buf 1 (NOT n))"
    by (simp only: MI64 encode_value_def MetadataValue.case)
  then show ?thesis
    unfolding MI64 value_item_def MetadataValue.case
    by (cases "0 \<le> sint n") (simp_all only: if_True if_False encode_item.simps encode_header_append [of buf])
next
  case (MU64 n)
  then show ?thesis by (simp only: encode_value_def value_item_def MetadataValue.case encode_item.simps encode_header_append [of buf])
next
  case (MText s)
  then show ?thesis by (simp only: encode_value_def value_item_def MetadataValue.case encode_item.simps encode_text_append [of buf])
next
  case (MBytes s)
  then show ?thesis by (simp only: encode_value_def value_item_def MetadataValue.case encode_item.simps encode_byte_append [of buf])
qed

lemma encode_metadata_items: "encode_metadata buf m = buf @ encode_pairs (meta_items m)"
proof -
  have "foldl (\<lambda>buf (x, k, v). encode_value (encode_text_string buf k) v) buf xs
      = buf @ encode_pairs (map (\<lambda>(x, k, v). (Text k, value_item v)) xs)"
    for xs :: "(bytes \<times> string \<times> MetadataValue) list"
  proof (induction xs arbitrary: buf)
    case (Cons p xs)
    obtain x k v where p: "p = (x, k, v)" by (cases p)
    show ?case
      using encode_text_append [of buf k] Cons.IH [of "encode_value (encode_text_string buf k) v"]
      by (simp add: p encode_value_item)
  qed simp
  then show ?thesis by (simp add: encode_metadata_def meta_items_def meta_sorted_def)
qed

lemma length_meta_sorted [simp]: "length (meta_sorted m) = length m"
  by (simp add: meta_sorted_def)

lemma extension_encode_items:
  assumes "extension_encode e = Ok buf"
  shows "buf = encode_item (Map (ext_items e))"
proof -
  have count: "entry_count e = word_of_nat (length (ext_items e))"
    by (simp add: entry_count_def ext_items_def split: option.splits)
  have a: "encode_header b 0 k = b @ encode_item (UInt k)" for b k
    by (subst encode_header_append) simp
  have t: "encode_text_string b s = b @ encode_item (Text s)"
    and y: "encode_byte_string b c = b @ encode_item (Bytes c)" for b s c
    by (subst encode_text_append encode_byte_append, simp)+
  have m: "encode_metadata (encode_header b 5 (word_of_nat (length (metadata e)))) (metadata e)
      = b @ encode_item (Map (meta_items (metadata e)))" for b
    by (subst encode_header_append) (simp add: encode_metadata_items encode_item_Map meta_items_def del: encode_item.simps)
  show ?thesis
    using assms unfolding extension_encode_def Let_def count a t y m encode_item_Map ext_items_def
    by (auto simp: res_bind_eq_Ok_iff encode_item_Map simp del: encode_item.simps split: if_splits option.splits)
qed

lemma utf8_ascii: "list_all (\<lambda>b. b < 0x80) bs \<Longrightarrow> utf8_valid bs"
  by (induction bs) auto

lemma key_byte_ascii:
  "is_ascii_lowercase b \<Longrightarrow> b < 0x80" "is_ascii_digit b \<Longrightarrow> b < 0x80" "b \<le> 0x7e \<Longrightarrow> b < (0x80 :: u8)"
  by (auto simp: is_ascii_lowercase_def is_ascii_digit_def word_less_nat_alt word_le_nat_alt)

lemma validate_metadata_key_Ok:
  assumes "validate_metadata_key k = Ok ()"
  shows "utf8_valid (as_bytes k)" and "length k \<le> 64" and "k \<noteq> []"
proof -
  show "length k \<le> 64" and k: "k \<noteq> []"
    using assms by (auto simp: validate_metadata_key_def split: if_splits)
  from k have "as_bytes k = hd (as_bytes k) # tl (as_bytes k)" by (simp add: as_bytes_def)
  moreover have "hd (as_bytes k) < 0x80"
    using assms key_byte_ascii by (auto simp: validate_metadata_key_def Let_def split: if_splits)
  moreover have "list_all (\<lambda>b. b < 0x80) (tl (as_bytes k))"
    using assms key_byte_ascii by (auto simp: validate_metadata_key_def Let_def list_ex_iff list_all_iff split: if_splits)
  ultimately have "list_all (\<lambda>b. b < 0x80) (as_bytes k)" by (metis list.pred_inject(2))
  then show "utf8_valid (as_bytes k)" by (rule utf8_ascii)
qed

lemma validate_content_type_Ok:
  assumes "validate_content_type s = Ok ()"
  shows "utf8_valid (as_bytes s)" and "length s \<le> 255" and "s \<noteq> []"
  using assms key_byte_ascii(3)
  by (auto simp: validate_content_type_def list_ex_iff list_all_iff intro!: utf8_ascii split: if_splits)

lemma validate_entries_Ok:
  assumes "validate_entries m = Ok ()" and "(k, v) \<in> set m"
  shows "validate_metadata_key k = Ok ()"
    and "v = MText s \<Longrightarrow> length s \<le> 4096" and "v = MBytes b \<Longrightarrow> length b \<le> 4096"
  using assms
  by (induction m rule: validate_entries.induct)
    (auto simp: res_bind_eq_Ok_iff split: MetadataValue.splits if_splits)

lemma extension_validate_Ok:
  assumes "extension_validate e = Ok ()"
  shows "validate_content_type (content_type e) = Ok ()" and "length (metadata e) \<le> 256"
    and "validate_entries (metadata e) = Ok ()"
    and "producer_id e = Some pid \<Longrightarrow> length pid \<le> 255 \<and> 0 \<notin> set (as_bytes pid)"
    and "trace_context e = Some tc \<Longrightarrow> length tc \<le> 1024"
  using assms by (auto simp: extension_validate_def res_bind_eq_Ok_iff split: if_splits)

lemma set_meta_sorted: "set (meta_sorted m) = (\<lambda>(k, v). (encode_text_string [] k, k, v)) ` set m"
  by (simp add: meta_sorted_def)

lemma not_negative_word: "0 \<le> sint (n :: i64) \<or> NOT n \<le> i64_MAX_as_u64"
proof (rule disjCI)
  assume "\<not> NOT n \<le> i64_MAX_as_u64"
  then have "2 ^ 63 \<le> unat (NOT n)" by (simp add: word_le_nat_alt i64_MAX_as_u64_def)
  moreover have "unat (NOT n) = 2 ^ 64 - 1 - unat n"
  proof -
    have "NOT n = - 1 - n" by (simp add: not_eq_complement)
    then have "unat (NOT n) = unat (- 1 :: u64) - unat n" by (simp only: unat_sub [OF word_order.extremum])
    then show ?thesis by (simp add: unsigned_minus_1_eq_mask mask_eq_exp_minus_1)
  qed
  ultimately have "unat n < 2 ^ 63" using unsigned_less [of n, where 'a = nat] by simp
  then have "int (unat n) < 2 ^ 63" by (simp only: of_nat_less_numeral_power_cancel_iff)
  then have "uint n < 2 ^ 63" by (simp only: uint_nat)
  then have "\<not> bit (uint n) 63" by (simp add: bit_iff_odd div_pos_pos_trivial)
  then show "0 \<le> sint n" by (simp add: sint_uint)
qed

lemma meta_items_wf:
  assumes "validate_entries m = Ok ()" and "length m \<le> 256"
    and "list_all (\<lambda>(k, v). case v of MText s \<Rightarrow> utf8_valid (as_bytes s) | _ \<Rightarrow> True) m"
  shows "wf_item 1 (Map (meta_items m))"
proof -
  have "wf_item (Suc (Suc 0)) (Text k) \<and> wf_item (Suc (Suc 0)) (value_item v)" if "(k, v) \<in> set m" for k v
  proof
    note ok = validate_entries_Ok [OF assms(1) that]
    show "wf_item (Suc (Suc 0)) (Text k)" using validate_metadata_key_Ok [OF ok(1)] by simp
    show "wf_item (Suc (Suc 0)) (value_item v)"
      using ok(2,3) assms(3) that not_negative_word
      by (cases v) (force simp: value_item_def list_all_iff)+
  qed
  then show ?thesis
    using assms(2) by (auto simp: meta_items_def list_all_iff set_meta_sorted)
qed

lemma ext_items_wf:
  assumes "extension_validate e = Ok ()" and "extension_typed e"
  shows "wf_item 0 (Map (ext_items e))"
proof -
  note ok = extension_validate_Ok [OF assms(1)]
  have "wf_item 1 (Map (meta_items (metadata e)))"
    by (rule meta_items_wf) (use ok(2,3) assms(2) in \<open>simp_all add: extension_typed_def\<close>)
  then show ?thesis
    using validate_content_type_Ok [OF ok(1)] ok(4,5) assms(2)
    by (auto simp: ext_items_def extension_typed_def split: option.splits simp del: wf_item.simps(6)
      simp add: wf_item.simps(6) [of 0])
qed

subsection \<open>Decoding the items\<close>

lemma meta_value_item:
  assumes "\<And>s. v = MText s \<Longrightarrow> length s \<le> 4096" and "\<And>b. v = MBytes b \<Longrightarrow> length b \<le> 4096"
  shows "meta_value (value_item v) = Ok (normal_value v)"
proof (cases v)
  case (MI64 n)
  have "- 1 - (NOT n) = n" by (simp add: not_eq_complement)
  then show ?thesis using not_negative_word [of n]
    by (auto simp: MI64 meta_value_def value_item_def normal_value_def not_less)
qed (use assms in \<open>auto simp: meta_value_def value_item_def normal_value_def\<close>)

lemma collect_meta_items:
  assumes "\<forall>(x, k, v) \<in> set xs. validate_metadata_key k = Ok ()"
    and "distinct (map (fst \<circ> snd) xs)" and "set (map (fst \<circ> snd) xs) \<inter> set seen = {}"
  shows "collect_meta (map (\<lambda>(x, k, v). (Text k, value_item v)) xs) seen
    = Ok (map (\<lambda>(x, k, v). (k, value_item v)) xs)"
  using assms by (induction xs arbitrary: seen) auto

lemma check_meta_order_sorted:
  assumes "\<forall>(x, k, v) \<in> set xs. x = encode_text_string [] k"
    and "sorted_wrt (<) (map fst xs)" and "\<forall>p. prev = Some p \<longrightarrow> (\<forall>x \<in> set (map fst xs). p < x)"
  shows "check_meta_order (map (\<lambda>(x, k, v). (k, value_item v)) xs) prev = Ok ()"
  using assms by (induction xs arbitrary: prev) (auto simp: Let_def not_le split: option.splits)

lemma insert_meta_fold:
  assumes "\<forall>(x, k, v) \<in> set xs. meta_value (value_item v) = Ok (normal_value v)"
  shows "insert_meta (map (\<lambda>(x, k, v). (k, value_item v)) xs) m
    = Ok (foldl (\<lambda>m (k, v). btree_insert k v m) m (map (\<lambda>(x, k, v). (k, normal_value v)) xs))"
  using assms by (induction xs arbitrary: m) auto

lemma btree_insert_set:
  "k \<notin> fst ` set m \<Longrightarrow> set (btree_insert k v m) = insert (k, v) (set m)"
  by (induction k v m rule: btree_insert.induct) auto

lemma btree_insert_sorted: "btree_sorted m \<Longrightarrow> btree_sorted (btree_insert k v m)"
proof (induction k v m rule: btree_insert.induct)
  case (2 k v k' v' m)
  note IH = 2(1) and s = 2(2)
  have keys: "fst ` set (btree_insert k v m) \<subseteq> insert k (fst ` set m)"
    by (induction k v m rule: btree_insert.induct) auto
  consider "as_bytes k < as_bytes k'" | "k = k'" | "as_bytes k' < as_bytes k" "k \<noteq> k'"
    using as_bytes_inject [of k k'] by (metis linorder_less_linear)
  then show ?case
  proof cases
    case 1
    with s show ?thesis by (auto simp: btree_sorted_def intro: less_trans)
  next
    case 2
    with s show ?thesis by (auto simp: btree_sorted_def)
  next
    case 3
    then have "\<not> as_bytes k < as_bytes k'" by (simp add: less_not_sym)
    with 3 s IH keys show ?thesis by (fastforce simp: btree_sorted_def)
  qed
qed (simp add: btree_sorted_def)

lemma btree_fold:
  assumes "btree_sorted m" and "distinct (map fst xs)" and "fst ` set xs \<inter> fst ` set m = {}"
  shows "btree_sorted (foldl (\<lambda>m (k, v). btree_insert k v m) m xs)
    \<and> set (foldl (\<lambda>m (k, v). btree_insert k v m) m xs) = set m \<union> set xs"
  using assms
proof (induction xs arbitrary: m)
  case (Cons p xs)
  obtain k v where p: "p = (k, v)" by (cases p)
  have k: "k \<notin> fst ` set m" using Cons.prems(3) by (auto simp: p)
  have "btree_sorted (btree_insert k v m)" by (rule btree_insert_sorted [OF Cons.prems(1)])
  moreover have "fst ` set xs \<inter> fst ` set (btree_insert k v m) = {}"
    using Cons.prems(2,3) by (auto simp: p btree_insert_set [OF k])
  ultimately show ?case using Cons.IH [of "btree_insert k v m"] Cons.prems(2)
    by (auto simp: p btree_insert_set [OF k])
qed simp

lemma btree_sorted_unique:
  assumes "btree_sorted xs" and "btree_sorted ys" and "set xs = set ys"
  shows "xs = ys"
  using assms
proof (induction xs arbitrary: ys)
  case (Cons x xs)
  then obtain y ys' where ys: "ys = y # ys'" by (cases ys) auto
  have "x = y"
  proof (rule ccontr)
    assume "x \<noteq> y"
    then have "x \<in> set ys'" "y \<in> set xs" using Cons.prems(3) by (auto simp: ys)
    then have "as_bytes (fst y) < as_bytes (fst x)" "as_bytes (fst x) < as_bytes (fst y)"
      using Cons.prems(1,2) by (auto simp: ys btree_sorted_def)
    then show False by (simp add: less_not_sym)
  qed
  moreover have "x \<notin> set xs" "y \<notin> set ys'" using Cons.prems(1,2) by (auto simp: ys btree_sorted_def)
  ultimately have "set xs = set ys'" using Cons.prems(3) insert_ident [of x "set xs" "set ys'"] by (simp add: ys)
  then show ?case using Cons.IH [of ys'] Cons.prems(1,2) \<open>x = y\<close> by (simp add: ys btree_sorted_def)
qed simp

lemma btree_sorted_distinct: "btree_sorted m \<Longrightarrow> distinct (map fst m)"
  by (induction m) (auto simp: btree_sorted_def)

lemma encode_text_inject:
  assumes "encode_text_string [] k = encode_text_string [] k'"
    and "utf8_valid (as_bytes k)" "utf8_valid (as_bytes k')" and "length k \<le> 64" "length k' \<le> 64"
  shows "k = k'"
proof -
  have "read_item (encode_text_string [] s) 0 0 = Ok (Text s, length (encode_text_string [] s))"
    if "utf8_valid (as_bytes s)" "length s \<le> 64" for s
  proof -
    have "length (encode_text_string [] s) < 100"
      using that(2) by (simp add: encode_text_string_def encode_header_def)
    then show ?thesis
      using read_item_encode [of 0 "Text s" "encode_text_string [] s" "[]" "[]"] that by simp
  qed
  from this [OF assms(2,4)] this [OF assms(3,5)] show ?thesis unfolding assms(1) by simp
qed

lemma meta_sorted_strict:
  assumes "validate_entries m = Ok ()" and "btree_sorted m"
  shows "sorted_wrt (<) (map fst (meta_sorted m))" and "distinct (map (fst \<circ> snd) (meta_sorted m))"
proof -
  have k: "utf8_valid (as_bytes k) \<and> length k \<le> 64" if "(k, v) \<in> set m" for k v
    using validate_entries_Ok(1) [OF assms(1) that] validate_metadata_key_Ok by blast
  have d: "distinct (map fst m)" by (rule btree_sorted_distinct [OF assms(2)])
  then have v: "v = v'" if "(k, v) \<in> set m" "(k, v') \<in> set m" for k v v'
    using that by (metis eq_key_imp_eq_value)
  have "distinct (map (\<lambda>(k, v). (encode_text_string [] k, k, v)) m)"
    using d by (auto simp: distinct_map inj_on_def)
  then have dm: "distinct (meta_sorted m)" by (simp add: meta_sorted_def)
  have "inj_on fst (set (meta_sorted m))"
  proof (rule inj_onI)
    fix p q assume "p \<in> set (meta_sorted m)" "q \<in> set (meta_sorted m)" "fst p = fst q"
    then obtain k1 v1 k2 v2 where "p = (encode_text_string [] k1, k1, v1)" "(k1, v1) \<in> set m"
      "q = (encode_text_string [] k2, k2, v2)" "(k2, v2) \<in> set m"
      "encode_text_string [] k1 = encode_text_string [] k2" by (auto simp: set_meta_sorted)
    moreover from this have "k1 = k2" using k encode_text_inject by blast
    ultimately show "p = q" using v by auto
  qed
  with dm have "distinct (map fst (meta_sorted m))" by (simp add: distinct_map)
  moreover have "sorted (map fst (meta_sorted m))" by (simp add: meta_sorted_def)
  ultimately show "sorted_wrt (<) (map fst (meta_sorted m))" by (simp add: strict_sorted_iff)
  have "inj_on (fst \<circ> snd) (set (meta_sorted m))"
    by (rule inj_onI) (use v in \<open>auto simp: set_meta_sorted\<close>)
  with dm show "distinct (map (fst \<circ> snd) (meta_sorted m))" by (simp add: distinct_map)
qed

lemma decode_metadata_items:
  assumes "validate_entries m = Ok ()" and "btree_sorted m" and "length m \<le> 256"
  shows "decode_metadata (meta_items m) [] = Ok (map (\<lambda>(k, v). (k, normal_value v)) m)"
proof -
  let ?xs = "meta_sorted m"
  let ?n = "map (\<lambda>(x, k, v). (k, normal_value v)) ?xs"
  have mem: "x = encode_text_string [] k \<and> (k, v) \<in> set m" if "(x, k, v) \<in> set ?xs" for x k v
    using that by (auto simp: set_meta_sorted)
  have keys: "\<forall>(x, k, v) \<in> set ?xs. validate_metadata_key k = Ok ()"
    using mem validate_entries_Ok(1) [OF assms(1)] by blast
  have vals: "\<forall>(x, k, v) \<in> set ?xs. meta_value (value_item v) = Ok (normal_value v)"
  proof (intro ballI, clarify)
    fix x k v assume "(x, k, v) \<in> set ?xs"
    then have "(k, v) \<in> set m" using mem by blast
    then show "meta_value (value_item v) = Ok (normal_value v)"
      using validate_entries_Ok(2,3) [OF assms(1)] by (intro meta_value_item) blast+
  qed
  have "collect_meta (meta_items m) [] = Ok (map (\<lambda>(x, k, v). (k, value_item v)) ?xs)"
    unfolding meta_items_def using keys meta_sorted_strict(2) [OF assms(1,2)] by (intro collect_meta_items) auto
  moreover have "check_meta_order (map (\<lambda>(x, k, v). (k, value_item v)) ?xs) None = Ok ()"
    using mem meta_sorted_strict(1) [OF assms(1,2)] by (intro check_meta_order_sorted) auto
  moreover have "foldl (\<lambda>m (k, v). btree_insert k v m) [] ?n = map (\<lambda>(k, v). (k, normal_value v)) m"
  proof (rule btree_sorted_unique)
    have "map fst ?n = map (fst \<circ> snd) ?xs" by (simp add: comp_def case_prod_beta')
    then have "distinct (map fst ?n)" using meta_sorted_strict(2) [OF assms(1,2)] by (simp only:)
    then have b: "btree_sorted (foldl (\<lambda>m (k, v). btree_insert k v m) [] ?n)
        \<and> set (foldl (\<lambda>m (k, v). btree_insert k v m) [] ?n) = set [] \<union> set ?n"
      by (intro btree_fold) (simp_all add: btree_sorted_def)
    then show "btree_sorted (foldl (\<lambda>m (k, v). btree_insert k v m) [] ?n)" by simp
    show "set (foldl (\<lambda>m (k, v). btree_insert k v m) [] ?n) = set (map (\<lambda>(k, v). (k, normal_value v)) m)"
      using b by (simp add: set_meta_sorted image_image case_prod_beta')
    show "btree_sorted (map (\<lambda>(k, v). (k, normal_value v)) m)"
      using assms(2) by (simp add: btree_sorted_def sorted_wrt_map case_prod_beta')
  qed
  ultimately show ?thesis
    using assms(3) by (simp add: decode_metadata_def meta_items_def insert_meta_fold [OF vals])
qed

lemma decode_entries_items:
  assumes "extension_validate e = Ok ()" and "extension_typed e"
  shows "decode_entries (ext_items e) [] None extension_default = Ok (normal_extension e)"
proof -
  note ok = extension_validate_Ok [OF assms(1)]
  have "decode_metadata (meta_items (metadata e)) [] = Ok (map (\<lambda>(k, v). (k, normal_value v)) (metadata e))"
    by (rule decode_metadata_items) (use ok assms(2) in \<open>simp_all add: extension_typed_def\<close>)
  then show ?thesis
    using ok(1,4,5)
    by (cases e) (auto simp: ext_items_def normal_extension_def decode_entry_def extension_default_def
        split: option.splits if_splits)
qed

section \<open>Properties\<close>

lemma extension_decode_encode:
  assumes "extension_encode e = Ok buf" and "extension_typed e"
  shows "extension_decode buf = Ok (normal_extension e)"
proof -
  have valid: "extension_validate e = Ok ()" and len: "length buf \<le> 65536"
    using assms(1) by (auto simp: extension_encode_def res_bind_eq_Ok_iff Let_def split: if_splits)
  have buf: "buf = encode_item (Map (ext_items e))" by (rule extension_encode_items [OF assms(1)])
  have "read_item buf 0 0 = Ok (Map (ext_items e), length buf)"
    using read_item_encode [OF ext_items_wf [OF valid assms(2)], of buf "[]" "[]"] len buf by simp
  moreover have "content_type (normal_extension e) \<noteq> []"
    using validate_content_type_Ok(3) [OF extension_validate_Ok(1) [OF valid]]
    by (simp add: normal_extension_def)
  ultimately show ?thesis
    using len decode_entries_items [OF valid assms(2)]
    by (simp add: extension_decode_def decode_extension_def)
qed

text \<open>C1. Extension headers survive the disk: whenever \<open>extension_encode\<close> accepts a header, decoding its
  output gives the header back, with non-negative \<^verbatim>\<open>I64\<close> metadata as the equal \<^verbatim>\<open>U64\<close> and
  everything else unchanged, metadata order included.\<close>

theorem extension_round_trip:
  assumes "extension_encode e = Ok buf" and "extension_typed e"
  shows "extension_decode buf = Ok (normal_extension e)"
  by (rule extension_decode_encode [OF assms])

theorem extension_round_trip_witness:
  "\<exists>buf. extension_encode \<lparr>initial_not_before_unix_ns = Some 7, content_type = ''a/b'',
       metadata = [(''k'', MI64 5)], producer_id = None, trace_context = Some [1, 2]\<rparr> = Ok buf
     \<and> extension_decode buf = Ok \<lparr>initial_not_before_unix_ns = Some 7, content_type = ''a/b'',
       metadata = [(''k'', MU64 5)], producer_id = None, trace_context = Some [1, 2]\<rparr>"
proof -
  let ?e = "\<lparr>initial_not_before_unix_ns = Some 7, content_type = ''a/b'',
    metadata = [(''k'', MI64 5)], producer_id = None, trace_context = Some [1, 2]\<rparr>"
  have v: "extension_validate ?e = Ok ()"
    by (simp add: extension_validate_def validate_content_type_def validate_metadata_key_def
        is_ascii_lowercase_def as_bytes_def char_byte_def)
  obtain buf where b: "extension_encode ?e = Ok buf"
    unfolding extension_encode_def v
    by (simp add: encode_metadata_def encode_value_def encode_text_string_def encode_byte_string_def
        encode_header_def entry_count_def)
  have t: "extension_typed ?e" by (simp add: extension_typed_def btree_sorted_def)
  from extension_round_trip [OF b t] b show ?thesis
    by (simp add: normal_extension_def normal_value_def)
qed

end
