(* ===== verification/Steadq_Io.thy ===== *)
theory Steadq_Io
  imports Steadq_Prelude
begin

text \<open>
  Effects. The Linux kernel and the C library are outside the repository: they are the argument
  \<open>k\<close> of type \<open>'s os\<close> of every definition that reaches a system call, a record of functions on an
  abstract kernel state \<open>'s\<close> that return the error number or the result. A procedure maps the
  whole state of the process' view of the world (the thread-local fault-injection state of
  \<^verbatim>\<open>steadq-fs-linux\<close> and the kernel state) to a result and a new state, or to \<^const>\<open>None\<close> when
  it never returns.

  \<^verbatim>\<open>std::io::Error\<close> is a record of the raw error number, the kind and the text. The kinds are
  the ones the crates name; every other kind of the standard library is \<open>Kind_Uncategorized\<close>,
  which no code compares with.
\<close>

named_theorems io_simps \<open>running composed procedures\<close>

subsection \<open>I/O errors\<close>

datatype ErrorKind =
    Kind_NotFound | Kind_PermissionDenied | Kind_AlreadyExists | Kind_WouldBlock
  | Kind_Interrupted | Kind_InvalidInput | Kind_InvalidData | Kind_WriteZero
  | Kind_UnexpectedEof | Kind_FileTooLarge | Kind_QuotaExceeded | Kind_StorageFull
  | Kind_Unsupported | Kind_BrokenPipe | Kind_Other | Kind_Uncategorized

record IoError =
  raw_os_error :: "int option"
  io_kind :: ErrorKind
  io_text :: string

definition EPERM :: int where "EPERM = 1"
definition ENOENT :: int where "ENOENT = 2"
definition EINTR :: int where "EINTR = 4"
definition EIO :: int where "EIO = 5"
definition EAGAIN :: int where "EAGAIN = 11"
definition EACCES :: int where "EACCES = 13"
definition EEXIST :: int where "EEXIST = 17"
definition EXDEV :: int where "EXDEV = 18"
definition ENOTDIR :: int where "ENOTDIR = 20"
definition EISDIR :: int where "EISDIR = 21"
definition EINVAL :: int where "EINVAL = 22"
definition EFBIG :: int where "EFBIG = 27"
definition ENOSPC :: int where "ENOSPC = 28"
definition EPIPE :: int where "EPIPE = 32"
definition ENOSYS :: int where "ENOSYS = 38"
definition ENOTEMPTY :: int where "ENOTEMPTY = 39"
definition ELOOP :: int where "ELOOP = 40"
definition EOPNOTSUPP :: int where "EOPNOTSUPP = 95"
definition EDQUOT :: int where "EDQUOT = 122"

lemmas errno_defs =
  EPERM_def ENOENT_def EINTR_def EIO_def EAGAIN_def EACCES_def EEXIST_def EXDEV_def ENOTDIR_def
  EISDIR_def EINVAL_def EFBIG_def ENOSPC_def EPIPE_def ENOSYS_def ENOTEMPTY_def ELOOP_def
  EOPNOTSUPP_def EDQUOT_def

definition decode_error_kind :: "int \<Rightarrow> ErrorKind" where
  "decode_error_kind errno =
     (if errno = ENOENT then Kind_NotFound
      else if errno = EACCES \<or> errno = EPERM then Kind_PermissionDenied
      else if errno = EEXIST then Kind_AlreadyExists
      else if errno = EAGAIN then Kind_WouldBlock
      else if errno = EINTR then Kind_Interrupted
      else if errno = EINVAL then Kind_InvalidInput
      else if errno = EFBIG then Kind_FileTooLarge
      else if errno = EDQUOT then Kind_QuotaExceeded
      else if errno = ENOSPC then Kind_StorageFull
      else if errno = ENOSYS \<or> errno = EOPNOTSUPP then Kind_Unsupported
      else if errno = EPIPE then Kind_BrokenPipe
      else Kind_Uncategorized)"

definition io_error_new :: "ErrorKind \<Rightarrow> string \<Rightarrow> IoError" where
  "io_error_new kind message = \<lparr>raw_os_error = None, io_kind = kind, io_text = message\<rparr>"

definition io_error_other :: "string \<Rightarrow> IoError" where
  "io_error_other message = io_error_new Kind_Other message"

subsection \<open>The kernel\<close>

record Stat =
  st_dev :: u64
  st_ino :: u64
  st_mode :: u32
  st_nlink :: u64
  st_size :: int

record Timespec =
  tv_sec :: int
  tv_nsec :: int

datatype ClockId = CLOCK_BOOTTIME | CLOCK_REALTIME | CLOCK_MONOTONIC

type_synonym fd = int

text \<open>Every service takes the kernel state last and returns the error number or the result. The
  bytes passed as a path are the bytes of the C string before its terminating zero.\<close>

record 's os =
  os_strerror :: "int \<Rightarrow> string"
  sys_open :: "bytes \<Rightarrow> int \<Rightarrow> 's \<Rightarrow> (int + fd) \<times> 's"
  sys_openat :: "fd \<Rightarrow> bytes \<Rightarrow> int \<Rightarrow> u32 \<Rightarrow> 's \<Rightarrow> (int + fd) \<times> 's"
  sys_openat2 :: "fd \<Rightarrow> bytes \<Rightarrow> u64 \<Rightarrow> u64 \<Rightarrow> u64 \<Rightarrow> 's \<Rightarrow> (int + fd) \<times> 's"
  sys_mkdirat :: "fd \<Rightarrow> bytes \<Rightarrow> u32 \<Rightarrow> 's \<Rightarrow> (int + unit) \<times> 's"
  sys_fsync :: "fd \<Rightarrow> 's \<Rightarrow> (int + unit) \<times> 's"
  sys_renameat2 :: "fd \<Rightarrow> bytes \<Rightarrow> fd \<Rightarrow> bytes \<Rightarrow> u32 \<Rightarrow> 's \<Rightarrow> (int + unit) \<times> 's"
  sys_renameat :: "fd \<Rightarrow> bytes \<Rightarrow> fd \<Rightarrow> bytes \<Rightarrow> 's \<Rightarrow> (int + unit) \<times> 's"
  sys_linkat :: "fd \<Rightarrow> bytes \<Rightarrow> fd \<Rightarrow> bytes \<Rightarrow> int \<Rightarrow> 's \<Rightarrow> (int + unit) \<times> 's"
  sys_unlinkat :: "fd \<Rightarrow> bytes \<Rightarrow> int \<Rightarrow> 's \<Rightarrow> (int + unit) \<times> 's"
  sys_fstatat :: "fd \<Rightarrow> bytes \<Rightarrow> int \<Rightarrow> 's \<Rightarrow> (int + Stat) \<times> 's"
  sys_fstat :: "fd \<Rightarrow> 's \<Rightarrow> (int + Stat) \<times> 's"
  sys_statfs_type :: "bytes \<Rightarrow> 's \<Rightarrow> (int + int) \<times> 's"
  sys_fchmodat :: "fd \<Rightarrow> bytes \<Rightarrow> u32 \<Rightarrow> 's \<Rightarrow> (int + unit) \<times> 's"
  sys_clock_gettime :: "ClockId \<Rightarrow> 's \<Rightarrow> (int + Timespec) \<times> 's"
  sys_getrandom :: "nat \<Rightarrow> 's \<Rightarrow> (int + bytes) \<times> 's"
  sys_write :: "fd \<Rightarrow> bytes \<Rightarrow> 's \<Rightarrow> (int + nat) \<times> 's"
  sys_writev :: "fd \<Rightarrow> bytes list \<Rightarrow> 's \<Rightarrow> (int + nat) \<times> 's"
  sys_pwrite :: "fd \<Rightarrow> bytes \<Rightarrow> u64 \<Rightarrow> 's \<Rightarrow> (int + nat) \<times> 's"
  sys_read :: "fd \<Rightarrow> nat \<Rightarrow> 's \<Rightarrow> (int + bytes) \<times> 's"
  sys_pread :: "fd \<Rightarrow> nat \<Rightarrow> u64 \<Rightarrow> 's \<Rightarrow> (int + bytes) \<times> 's"
  sys_fdopendir :: "fd \<Rightarrow> 's \<Rightarrow> (int + fd) \<times> 's"
  sys_readdir :: "fd \<Rightarrow> 's \<Rightarrow> (int + (bytes \<times> int) option) \<times> 's"
  sys_lseek :: "fd \<Rightarrow> int \<Rightarrow> 's \<Rightarrow> (int + unit) \<times> 's"
  sys_ofd_setlk :: "fd \<Rightarrow> bool \<Rightarrow> 's \<Rightarrow> (int + unit) \<times> 's"

definition from_raw_os_error :: "'s os \<Rightarrow> int \<Rightarrow> IoError" where
  "from_raw_os_error k errno =
     \<lparr>raw_os_error = Some errno, io_kind = decode_error_kind errno, io_text = os_strerror k errno\<rparr>"

subsection \<open>Procedures\<close>

type_synonym ('w, 'a) proc = "'w \<Rightarrow> ('a \<times> 'w) option"

definition io_return :: "'a \<Rightarrow> ('w, 'a) proc" where
  "io_return x = (\<lambda>w. Some (x, w))"

definition io_bind :: "('w, 'a) proc \<Rightarrow> ('a \<Rightarrow> ('w, 'b) proc) \<Rightarrow> ('w, 'b) proc" where
  "io_bind m f = (\<lambda>w. case m w of None \<Rightarrow> None | Some (x, w') \<Rightarrow> f x w')"

text \<open>The \<^verbatim>\<open>?\<close> operator on a procedure that returns a result, and \<^verbatim>\<open>map_err\<close> and \<^verbatim>\<open>map\<close> on one.\<close>

definition io_try :: "('w, 'e + 'a) proc \<Rightarrow> ('a \<Rightarrow> ('w, 'e + 'b) proc) \<Rightarrow> ('w, 'e + 'b) proc" where
  "io_try m f = io_bind m (\<lambda>r. case r of Inl e \<Rightarrow> io_return (Inl e) | Inr x \<Rightarrow> f x)"

definition io_map_err :: "('e \<Rightarrow> 'f) \<Rightarrow> ('w, 'e + 'a) proc \<Rightarrow> ('w, 'f + 'a) proc" where
  "io_map_err g m = io_bind m (\<lambda>r. io_return (map_err g r))"

definition io_map :: "('a \<Rightarrow> 'b) \<Rightarrow> ('w, 'a) proc \<Rightarrow> ('w, 'b) proc" where
  "io_map g m = io_bind m (\<lambda>x. io_return (g x))"

lemma io_return_apply [simp, io_simps]: "io_return x w = Some (x, w)"
  by (simp add: io_return_def)

lemma io_bind_eq_Some_iff [io_simps]:
  "io_bind m f w = Some (y, w'') \<longleftrightarrow> (\<exists>x w'. m w = Some (x, w') \<and> f x w' = Some (y, w''))"
  by (auto simp: io_bind_def split: option.splits)

lemma io_bind_Some [simp]: "m w = Some (x, w') \<Longrightarrow> io_bind m f w = f x w'"
  by (simp add: io_bind_def)

lemma io_bind_return [simp]: "io_bind (io_return x) f = f x"
  by (simp add: io_bind_def io_return_def)

lemma io_bind_assoc: "io_bind (io_bind m f) g = io_bind m (\<lambda>x. io_bind (f x) g)"
  by (auto simp: io_bind_def split: option.splits)

lemma io_try_eq_Some_iff [io_simps]:
  "io_try m f w = Some (r, w'') \<longleftrightarrow>
     (\<exists>e. m w = Some (Inl e, w'') \<and> r = Inl e)
     \<or> (\<exists>x w'. m w = Some (Inr x, w') \<and> f x w' = Some (r, w''))"
proof (cases "m w")
  case None
  then show ?thesis by (simp add: io_try_def io_bind_def)
next
  case (Some p)
  then show ?thesis by (cases p; cases "fst p") (auto simp: io_try_def io_bind_def)
qed

lemma io_try_Ok: "m w = Some (Inr x, w') \<Longrightarrow> io_try m f w = f x w'"
  by (simp add: io_try_def)

lemma io_try_Err: "m w = Some (Inl e, w') \<Longrightarrow> io_try m f w = Some (Inl e, w')"
  by (simp add: io_try_def)

lemma io_map_err_eq_Some_iff [io_simps]:
  "io_map_err g m w = Some (r, w') \<longleftrightarrow> (\<exists>r'. m w = Some (r', w') \<and> r = map_err g r')"
  by (auto simp: io_map_err_def io_bind_eq_Some_iff)

lemma io_map_eq_Some_iff [io_simps]:
  "io_map g m w = Some (y, w') \<longleftrightarrow> (\<exists>x. m w = Some (x, w') \<and> y = g x)"
  by (auto simp: io_map_def io_bind_eq_Some_iff)

text \<open>Case analysis on the run of a composed procedure.\<close>

lemma io_bindE:
  assumes "io_bind m f w = Some (r, w')"
  obtains x w1 where "m w = Some (x, w1)" and "f x w1 = Some (r, w')"
  using assms by (auto simp: io_bind_eq_Some_iff)

lemma io_tryE:
  assumes "io_try m f w = Some (r, w')"
  obtains (err) e where "m w = Some (Inl e, w')" and "r = Inl e"
  | (ok) x w1 where "m w = Some (Inr x, w1)" and "f x w1 = Some (r, w')"
  using assms by (auto simp: io_try_eq_Some_iff)

lemma io_map_errE:
  assumes "io_map_err g m w = Some (r, w')"
  obtains (err) e where "m w = Some (Inl e, w')" and "r = Inl (g e)"
  | (ok) x where "m w = Some (Inr x, w')" and "r = Inr x"
proof -
  from assms obtain r' where r': "m w = Some (r', w')" "r = map_err g r'"
    by (auto simp: io_map_err_eq_Some_iff)
  then show ?thesis by (cases r') (auto intro: err ok)
qed

lemma io_try_map_errE:
  assumes "io_try (io_map_err g m) f w = Some (r, w')"
  obtains (err) e where "m w = Some (Inl e, w')" and "r = Inl (g e)"
  | (ok) x w1 where "m w = Some (Inr x, w1)" and "f x w1 = Some (r, w')"
  using assms
proof (cases rule: io_tryE)
  case (err e)
  then show ?thesis by (cases rule: io_map_errE) (auto intro: that)
next
  case (ok x w1)
  from ok(1) show ?thesis by (cases rule: io_map_errE) (use ok(2) in \<open>auto intro: that\<close>)
qed

lemma io_mapE:
  assumes "io_map g m w = Some (y, w')"
  obtains x where "m w = Some (x, w')" and "y = g x"
  using assms by (auto simp: io_map_eq_Some_iff)

subsection \<open>Relations kept by a procedure\<close>

text \<open>
  \<open>keeps R m\<close>: whenever the procedure returns, its initial and final states are related. With a
  reflexive and transitive relation it composes, which is how frame conditions (this code does
  not change the namespace) are proved once per primitive and carried upwards.
\<close>

named_theorems keeps_intros \<open>composing procedures that keep a relation\<close>

definition keeps :: "('w \<Rightarrow> 'w \<Rightarrow> bool) \<Rightarrow> ('w, 'a) proc \<Rightarrow> bool" where
  "keeps R m \<longleftrightarrow> (\<forall>w x w'. m w = Some (x, w') \<longrightarrow> R w w')"

definition preorder_rel :: "('w \<Rightarrow> 'w \<Rightarrow> bool) \<Rightarrow> bool" where
  "preorder_rel R \<longleftrightarrow> (\<forall>w. R w w) \<and> (\<forall>u v w. R u v \<longrightarrow> R v w \<longrightarrow> R u w)"

lemma keepsD: "keeps R m \<Longrightarrow> m w = Some (x, w') \<Longrightarrow> R w w'"
  by (auto simp: keeps_def)

lemma keepsI: "(\<And>w x w'. m w = Some (x, w') \<Longrightarrow> R w w') \<Longrightarrow> keeps R m"
  by (auto simp: keeps_def)

lemma keeps_return [keeps_intros]: "preorder_rel R \<Longrightarrow> keeps R (io_return x)"
  by (simp add: keeps_def preorder_rel_def)

lemma keeps_bind [keeps_intros]:
  assumes "preorder_rel R" and "keeps R m" and "\<And>x. keeps R (f x)"
  shows "keeps R (io_bind m f)"
  using assms unfolding keeps_def preorder_rel_def io_bind_eq_Some_iff by blast

lemma keeps_try [keeps_intros]:
  assumes "preorder_rel R" and "keeps R m" and "\<And>x. keeps R (f x)"
  shows "keeps R (io_try m f)"
  unfolding io_try_def by (rule keeps_bind [OF assms(1,2)]) (auto intro: assms keeps_return split: sum.splits)

lemma keeps_map_err [keeps_intros]: "preorder_rel R \<Longrightarrow> keeps R m \<Longrightarrow> keeps R (io_map_err g m)"
  unfolding io_map_err_def by (rule keeps_bind) (auto intro: keeps_return)

lemma keeps_map [keeps_intros]: "preorder_rel R \<Longrightarrow> keeps R m \<Longrightarrow> keeps R (io_map g m)"
  unfolding io_map_def by (rule keeps_bind) (auto intro: keeps_return)

lemma keeps_if [keeps_intros]:
  "(b \<Longrightarrow> keeps R m) \<Longrightarrow> (\<not> b \<Longrightarrow> keeps R m') \<Longrightarrow> keeps R (if b then m else m')"
  by simp

lemma keeps_case_sum [keeps_intros]:
  "(\<And>e. r = Inl e \<Longrightarrow> keeps R (f e)) \<Longrightarrow> (\<And>x. r = Inr x \<Longrightarrow> keeps R (g x))
     \<Longrightarrow> keeps R (case r of Inl e \<Rightarrow> f e | Inr x \<Rightarrow> g x)"
  by (cases r) auto

lemma keeps_case_option [keeps_intros]:
  "(r = None \<Longrightarrow> keeps R f) \<Longrightarrow> (\<And>x. r = Some x \<Longrightarrow> keeps R (g x))
     \<Longrightarrow> keeps R (case r of None \<Rightarrow> f | Some x \<Rightarrow> g x)"
  by (cases r) auto

text \<open>Procedures that always return.\<close>

definition returns :: "('w, 'a) proc \<Rightarrow> bool" where
  "returns m \<longleftrightarrow> (\<forall>w. m w \<noteq> None)"

lemma returns_return [intro, simp]: "returns (io_return x)"
  by (simp add: returns_def)

lemma returns_bind [intro]: "returns m \<Longrightarrow> (\<And>x. returns (f x)) \<Longrightarrow> returns (io_bind m f)"
  by (auto simp: returns_def io_bind_def split: option.splits)

lemma returns_try [intro]: "returns m \<Longrightarrow> (\<And>x. returns (f x)) \<Longrightarrow> returns (io_try m f)"
  unfolding io_try_def by (rule returns_bind) (auto split: sum.splits)

lemma returns_map_err [intro]: "returns m \<Longrightarrow> returns (io_map_err g m)"
  unfolding io_map_err_def by (rule returns_bind) auto

lemma returns_map [intro]: "returns m \<Longrightarrow> returns (io_map g m)"
  unfolding io_map_def by (rule returns_bind) auto

lemma returnsE:
  assumes "returns m"
  obtains x w' where "m w = Some (x, w')"
proof -
  from assms have "m w \<noteq> None" unfolding returns_def by (rule spec)
  then obtain p where "m w = Some p" by (cases "m w") auto
  then show ?thesis using that by (cases p) simp
qed

end
