(* ===== verification/Steadq_Fault.thy ===== *)
theory Steadq_Fault
  imports Steadq_Io
begin

text \<open>
  The fault-injection module of \<^verbatim>\<open>src/crates/steadq-fs-linux/src/lib.rs\<close>. Every system-call wrapper
  consults it first, so its thread-local state is one half of the world of a procedure; the
  other half is the kernel state. While tracking is off the module is silent.

  A hash map is a partial function. Asserting the one-based count is a panic, the value
  \<^const>\<open>None\<close> of \<open>inject_errno\<close>.
\<close>

record Fault =
  flt_current :: u64
  flt_target :: u64
  flt_errno :: int

record NamedFault =
  nf_func_name :: string
  nf_name :: string
  nf_errno :: int

record FaultState =
  flt_tracking :: bool
  flt_faults :: "string \<Rightarrow> Fault option"
  flt_named_faults :: "NamedFault list"
  flt_counts :: "string \<Rightarrow> u64 option"
  flt_fd_identities :: "string \<Rightarrow> (u64 \<times> u64) list option"
  flt_readdir_rotation :: nat
  flt_readdir_reversed :: bool
  flt_realtime_ns :: "u64 option"
  flt_boottime_ns :: "u64 option"
  flt_pinned_realtime_ns :: "u64 option"

definition fault_state_new :: FaultState where
  "fault_state_new =
     \<lparr>flt_tracking = False, flt_faults = Map.empty, flt_named_faults = [],
      flt_counts = Map.empty, flt_fd_identities = Map.empty, flt_readdir_rotation = 0,
      flt_readdir_reversed = False, flt_realtime_ns = None, flt_boottime_ns = None,
      flt_pinned_realtime_ns = None\<rparr>"

definition fault_reset :: "FaultState \<Rightarrow> FaultState" where
  "fault_reset s =
     s\<lparr>flt_tracking := False, flt_faults := Map.empty, flt_named_faults := [],
       flt_counts := Map.empty, flt_fd_identities := Map.empty, flt_readdir_rotation := 0,
       flt_readdir_reversed := False, flt_realtime_ns := flt_pinned_realtime_ns s,
       flt_boottime_ns := None\<rparr>"

definition pin_clock_realtime_ns :: "u64 \<Rightarrow> FaultState \<Rightarrow> FaultState" where
  "pin_clock_realtime_ns unix_ns s =
     s\<lparr>flt_pinned_realtime_ns := Some unix_ns, flt_realtime_ns := Some unix_ns\<rparr>"

definition set_clock_realtime_ns :: "u64 \<Rightarrow> FaultState \<Rightarrow> FaultState" where
  "set_clock_realtime_ns unix_ns s = s\<lparr>flt_realtime_ns := Some unix_ns\<rparr>"

definition set_clock_boottime_ns :: "u64 \<Rightarrow> FaultState \<Rightarrow> FaultState" where
  "set_clock_boottime_ns boottime_ns s = s\<lparr>flt_boottime_ns := Some boottime_ns\<rparr>"

definition permute_readdir :: "nat \<Rightarrow> bool \<Rightarrow> FaultState \<Rightarrow> FaultState" where
  "permute_readdir rotation reversed s =
     s\<lparr>flt_readdir_rotation := rotation, flt_readdir_reversed := reversed\<rparr>"

definition permute_directory_entries :: "FaultState \<Rightarrow> 'a list \<Rightarrow> 'a list" where
  "permute_directory_entries s entries =
     (if entries = [] then entries
      else let rotated = rotate (flt_readdir_rotation s mod length entries) entries
           in if flt_readdir_reversed s then rev rotated else rotated)"

definition fault_track :: "FaultState \<Rightarrow> FaultState" where
  "fault_track s = s\<lparr>flt_tracking := True\<rparr>"

definition inject_errno :: "string \<Rightarrow> u64 \<Rightarrow> int \<Rightarrow> FaultState \<Rightarrow> FaultState option" where
  "inject_errno func_name at_count errno s =
     (if at_count \<ge> 1
      then Some (s\<lparr>flt_tracking := True,
                   flt_faults := (flt_faults s)(func_name \<mapsto>
                     \<lparr>flt_current = 0, flt_target = at_count, flt_errno = errno\<rparr>)\<rparr>)
      else None)"

definition fault_inject :: "string \<Rightarrow> u64 \<Rightarrow> FaultState \<Rightarrow> FaultState option" where
  "fault_inject func_name at_count s = inject_errno func_name at_count EIO s"

definition inject_errno_for :: "string \<Rightarrow> string \<Rightarrow> int \<Rightarrow> FaultState \<Rightarrow> FaultState" where
  "inject_errno_for func_name name errno s =
     s\<lparr>flt_tracking := True,
       flt_named_faults := flt_named_faults s
         @ [\<lparr>nf_func_name = func_name, nf_name = name, nf_errno = errno\<rparr>]\<rparr>"

definition call_count :: "string \<Rightarrow> FaultState \<Rightarrow> u64" where
  "call_count func_name s = (case flt_counts s func_name of None \<Rightarrow> 0 | Some n \<Rightarrow> n)"

definition fd_identities :: "string \<Rightarrow> FaultState \<Rightarrow> (u64 \<times> u64) list" where
  "fd_identities func_name s = (case flt_fd_identities s func_name of None \<Rightarrow> [] | Some xs \<Rightarrow> xs)"

text \<open>The first armed fault of that function on one of the names is removed and fires.\<close>

fun take_named_fault :: "NamedFault list \<Rightarrow> string \<Rightarrow> string list \<Rightarrow> (int \<times> NamedFault list) option" where
  "take_named_fault [] func_name names = None"
| "take_named_fault (f # fs) func_name names =
     (if nf_func_name f = func_name \<and> nf_name f \<in> set names then Some (nf_errno f, fs)
      else map_option (\<lambda>(e, rest). (e, f # rest)) (take_named_fault fs func_name names))"

definition count_call :: "string \<Rightarrow> FaultState \<Rightarrow> FaultState" where
  "count_call func_name s = s\<lparr>flt_counts := (flt_counts s)(func_name \<mapsto> call_count func_name s + 1)\<rparr>"

definition check_named :: "string \<Rightarrow> string list \<Rightarrow> FaultState \<Rightarrow> int option \<times> FaultState" where
  "check_named func_name names s =
     (case take_named_fault (flt_named_faults s) func_name names of
        None \<Rightarrow> (None, s)
      | Some (e, rest) \<Rightarrow> (Some e, s\<lparr>flt_named_faults := rest\<rparr>))"

definition check_names :: "string \<Rightarrow> string list \<Rightarrow> FaultState \<Rightarrow> int option \<times> FaultState" where
  "check_names func_name names s =
     (if \<not> flt_tracking s then (None, s)
      else let s1 = count_call func_name s in
        case flt_faults s1 func_name of
          None \<Rightarrow> check_named func_name names s1
        | Some f \<Rightarrow>
            let f' = f\<lparr>flt_current := flt_current f + 1\<rparr> in
            if flt_current f' = flt_target f'
            then (Some (flt_errno f'), s1\<lparr>flt_faults := (flt_faults s1)(func_name := None)\<rparr>)
            else check_named func_name names
                   (s1\<lparr>flt_faults := (flt_faults s1)(func_name \<mapsto> f')\<rparr>))"

subsection \<open>The world of a procedure\<close>

record 's world =
  fault_state :: FaultState
  os_state :: 's

type_synonym ('s, 'a) sysproc = "('s world, 'a) proc"

text \<open>A system call: an error number becomes the last operating-system error.\<close>

definition syscall :: "'s os \<Rightarrow> ('s \<Rightarrow> (int + 'a) \<times> 's) \<Rightarrow> ('s, IoError + 'a) sysproc" where
  "syscall k call =
     (\<lambda>w. let (r, s) = call (os_state w) in Some (map_err (from_raw_os_error k) r, w\<lparr>os_state := s\<rparr>))"

text \<open>The macro \<^verbatim>\<open>fault_check!\<close>: return early with the injected error, or go on.\<close>

definition fault_check ::
  "'s os \<Rightarrow> string \<Rightarrow> string list \<Rightarrow> ('s, IoError + 'a) sysproc \<Rightarrow> ('s, IoError + 'a) sysproc" where
  "fault_check k func_name names m =
     (\<lambda>w. case check_names func_name names (fault_state w) of
        (Some e, s) \<Rightarrow> Some (Err (from_raw_os_error k e), w\<lparr>fault_state := s\<rparr>)
      | (None, s) \<Rightarrow> m (w\<lparr>fault_state := s\<rparr>))"

definition record_fd_identity :: "'s os \<Rightarrow> string \<Rightarrow> fd \<Rightarrow> ('s, IoError + unit) sysproc" where
  "record_fd_identity k func_name fd =
     (\<lambda>w. if \<not> flt_tracking (fault_state w) then Some (Ok (), w)
          else io_try (syscall k (sys_fstat k fd))
            (\<lambda>st w. let fs = fault_state w in
               Some (Ok (), w\<lparr>fault_state := fs\<lparr>flt_fd_identities := (flt_fd_identities fs)
                 (func_name \<mapsto> fd_identities func_name fs @ [(st_dev st, st_ino st)])\<rparr>\<rparr>)) w)"

subsection \<open>Faults fire once, at their call\<close>

lemma check_names_idle: "\<not> flt_tracking s \<Longrightarrow> check_names func_name names s = (None, s)"
  by (simp add: check_names_def)

lemma check_named_frame:
  assumes "check_named func_name names s = (r, s')"
  shows "flt_tracking s' = flt_tracking s" and "flt_counts s' = flt_counts s"
    and "flt_faults s' = flt_faults s"
  using assms by (auto simp: check_named_def split: option.splits)

lemma check_names_counts:
  assumes "flt_tracking s" and "check_names func_name names s = (r, s')"
  shows "call_count func_name s' = call_count func_name s + 1" and "flt_tracking s'"
  using assms
  by (auto simp: check_names_def count_call_def call_count_def Let_def dest: check_named_frame
      split: option.splits if_splits)

fun check_many :: "string \<Rightarrow> nat \<Rightarrow> FaultState \<Rightarrow> int option list \<times> FaultState" where
  "check_many func_name 0 s = ([], s)"
| "check_many func_name (Suc n) s =
     (let (r, s1) = check_names func_name [] s; (rs, s2) = check_many func_name n s1 in (r # rs, s2))"

lemma take_named_fault_no_names: "take_named_fault fs func_name [] = None"
  by (induction fs) auto

lemma check_named_no_names [simp]: "check_named func_name [] s = (None, s)"
  by (simp add: check_named_def take_named_fault_no_names)

lemma check_many_no_fault:
  "flt_faults s func_name = None \<Longrightarrow> fst (check_many func_name n s) = replicate n None"
  by (induction n arbitrary: s)
    (auto simp: check_names_def count_call_def Let_def case_prod_beta)

lemma check_many_armed:
  assumes "flt_tracking s" and "flt_faults s func_name = Some f"
    and "unat (flt_target f) = unat (flt_current f) + Suc d"
  shows "fst (check_many func_name n s) =
    map (\<lambda>i. if i = d then Some (flt_errno f) else None) [0..<n]"
  using assms
proof (induction n arbitrary: s f d)
  case (Suc n)
  have inc: "unat (flt_current f + 1) = Suc (unat (flt_current f))"
    using Suc.prems(3) unsigned_less [of "flt_target f", where 'a = nat]
    by (simp add: unat_word_ariths)
  let ?s1 = "count_call func_name s"
  have ff: "flt_faults ?s1 func_name = Some f" and tr: "flt_tracking ?s1"
    using Suc.prems by (simp_all add: count_call_def)
  show ?case
  proof (cases d)
    case 0
    then have "flt_current f + 1 = flt_target f" using inc Suc.prems(3) by (simp add: word_unat_eq_iff)
    then have "check_names func_name [] s =
        (Some (flt_errno f), ?s1\<lparr>flt_faults := (flt_faults ?s1)(func_name := None)\<rparr>)"
      using Suc.prems(1) ff by (simp add: check_names_def Let_def)
    moreover have "fst (check_many func_name n (?s1\<lparr>flt_faults := (flt_faults ?s1)(func_name := None)\<rparr>))
        = replicate n None"
      by (rule check_many_no_fault) simp
    ultimately show ?thesis
      using 0 by (simp add: case_prod_beta upt_conv_Cons comp_def map_replicate_const del: upt_Suc
          flip: map_Suc_upt)
  next
    case (Suc d')
    let ?f = "f\<lparr>flt_current := flt_current f + 1\<rparr>"
    let ?s2 = "?s1\<lparr>flt_faults := (flt_faults ?s1)(func_name \<mapsto> ?f)\<rparr>"
    have "flt_current f + 1 \<noteq> flt_target f" using inc Suc.prems(3) Suc by auto
    then have "check_names func_name [] s = (None, ?s2)"
      using Suc.prems(1) ff by (simp add: check_names_def Let_def)
    moreover have "fst (check_many func_name n ?s2) =
        map (\<lambda>i. if i = d' then Some (flt_errno ?f) else None) [0..<n]"
      using Suc.prems inc Suc tr by (intro Suc.IH) auto
    ultimately show ?thesis
      using Suc by (simp add: case_prod_beta upt_conv_Cons del: upt_Suc flip: map_Suc_upt)
  qed
qed simp

text \<open>A fault armed for the n-th call of a function fires at exactly that call, once and with
  its error number; all other calls of the function pass, and while nothing is armed or
  tracked every call passes and the state does not change.\<close>

theorem injected_fault_fires_once:
  assumes "inject_errno func_name n errno s = Some s'"
  shows "fst (check_many func_name m s') = map (\<lambda>i. if Suc i = unat n then Some errno else None) [0..<m]
    \<and> check_many func_name m fault_state_new = (replicate m None, fault_state_new)"
proof
  obtain d where d: "unat n = Suc d" and s': "flt_tracking s'"
    "flt_faults s' func_name = Some \<lparr>flt_current = 0, flt_target = n, flt_errno = errno\<rparr>"
    using assms
    by (cases "unat n") (auto simp: inject_errno_def word_le_nat_alt split: if_splits)
  then show "fst (check_many func_name m s') = map (\<lambda>i. if Suc i = unat n then Some errno else None) [0..<m]"
    using check_many_armed [OF s', of d m] by simp
  show "check_many func_name m fault_state_new = (replicate m None, fault_state_new)"
    by (induction m) (simp_all add: check_names_idle fault_state_new_def)
qed

theorem injected_fault_fires_once_witness:
  "\<exists>s'. inject_errno ''fsync'' 2 EIO fault_state_new = Some s'
     \<and> fst (check_many ''fsync'' 3 s') = [None, Some EIO, None]"
proof -
  obtain s' where s': "inject_errno ''fsync'' 2 EIO fault_state_new = Some s'"
    by (simp add: inject_errno_def word_le_nat_alt)
  show ?thesis
    using injected_fault_fires_once [OF s', of 3] s' by (simp add: upt_rec)
qed

end
