(* ===== verification/Steadq_Fs.thy ===== *)
theory Steadq_Fs
  imports Steadq_Fault Steadq_Hex
begin

text \<open>
  The system-call wrappers of \<^verbatim>\<open>src/crates/steadq-fs-linux/src/lib.rs\<close>: path validation, C strings,
  one definition per wrapper (its fault check, its argument conversion, its system call and
  the classification of the result), the loops that finish partial reads and writes, and
  bounded directory enumeration. A loop that may retry for ever is a \<open>partial_function\<close> whose
  value is \<^const>\<open>None\<close> then. Descriptors are integers; closing them on drop is not modelled.
\<close>

subsection \<open>Constants\<close>

definition MAX_COMPONENT_BYTES :: nat where "MAX_COMPONENT_BYTES = 255"
definition MAX_RELATIVE_PATH_BYTES :: nat where "MAX_RELATIVE_PATH_BYTES = 4095"
definition INLINE_C_PATH_BYTES :: nat where "INLINE_C_PATH_BYTES = MAX_COMPONENT_BYTES + 1"

definition RESOLVE_NO_MAGICLINKS :: u64 where "RESOLVE_NO_MAGICLINKS = 0x02"
definition RESOLVE_NO_SYMLINKS :: u64 where "RESOLVE_NO_SYMLINKS = 0x04"
definition RESOLVE_BENEATH :: u64 where "RESOLVE_BENEATH = 0x08"
definition RESOLVER_RESOLVE_FLAGS :: u64 where
  "RESOLVER_RESOLVE_FLAGS = RESOLVE_NO_MAGICLINKS + RESOLVE_NO_SYMLINKS + RESOLVE_BENEATH"

text \<open>Linux open flags (x86-64).\<close>

definition O_RDONLY :: int where "O_RDONLY = 0"
definition O_RDWR :: int where "O_RDWR = 2"
definition O_CREAT :: int where "O_CREAT = 64"
definition O_EXCL :: int where "O_EXCL = 128"
definition O_NONBLOCK :: int where "O_NONBLOCK = 2048"
definition O_DIRECTORY :: int where "O_DIRECTORY = 65536"
definition O_NOFOLLOW :: int where "O_NOFOLLOW = 131072"
definition O_CLOEXEC :: int where "O_CLOEXEC = 524288"
definition O_TMPFILE :: int where "O_TMPFILE = 4259840"
definition AT_SYMLINK_NOFOLLOW :: int where "AT_SYMLINK_NOFOLLOW = 256"
definition AT_REMOVEDIR :: int where "AT_REMOVEDIR = 512"
definition AT_SYMLINK_FOLLOW :: int where "AT_SYMLINK_FOLLOW = 1024"
definition AT_EMPTY_PATH :: int where "AT_EMPTY_PATH = 4096"
definition AT_FDCWD :: int where "AT_FDCWD = - 100"
definition RENAME_NOREPLACE :: u32 where "RENAME_NOREPLACE = 1"

text \<open>The mode \<^verbatim>\<open>0o600\<close>.\<close>

definition MODE_0600 :: u32 where "MODE_0600 = 384"

definition resolver_open_flags :: int where "resolver_open_flags = O_DIRECTORY + O_CLOEXEC"

subsection \<open>Paths\<close>

definition is_ascii_graphic :: "char \<Rightarrow> bool" where
  "is_ascii_graphic c = (33 \<le> (of_char c :: nat) \<and> (of_char c :: nat) \<le> 126)"

definition validate_path_component :: "string \<Rightarrow> IoError + unit" where
  "validate_path_component component =
     (if component = [] then Err (io_error_new Kind_InvalidInput ''empty path component'')
      else if component = ''..'' \<or> component = ''.''
      then Err (io_error_new Kind_InvalidInput (''path component is '' @ CHR 0x27 # ''.'' @ CHR 0x27 # '' or ''
              @ CHR 0x27 # ''..'' @ [CHR 0x27]))
      else if CHR ''/'' \<in> set component
      then Err (io_error_new Kind_InvalidInput ''slash in path component'')
      else if CHR 0x00 \<in> set component
      then Err (io_error_new Kind_InvalidInput ''NUL byte in path component'')
      else if \<not> list_all is_ascii_graphic component
      then Err (io_error_new Kind_InvalidInput ''path component contains noncanonical ASCII'')
      else if length component > MAX_COMPONENT_BYTES
      then Err (io_error_new Kind_InvalidInput ''path component exceeds 255 bytes'')
      else Ok ())"

fun validate_components :: "string list \<Rightarrow> IoError + unit" where
  "validate_components [] = Ok ()"
| "validate_components (component # components) =
     (if component = []
      then Err (io_error_new Kind_InvalidInput ''empty path component in relative path'')
      else res_bind (validate_path_component component) (\<lambda>_. validate_components components))"

text \<open>A \<^verbatim>\<open>ValidatedRelativePath\<close> is the text it wraps.\<close>

definition validate_relative_path :: "string \<Rightarrow> IoError + string" where
  "validate_relative_path path =
     (if path \<noteq> [] \<and> hd path = CHR ''/''
      then Err (io_error_new Kind_InvalidInput ''absolute path not allowed'')
      else if path = [] then Err (io_error_new Kind_InvalidInput ''empty path'')
      else if length path > MAX_RELATIVE_PATH_BYTES
      then Err (io_error_new Kind_InvalidInput ''relative path exceeds 4095 bytes'')
      else res_bind (validate_components (split_on CHR ''/'' path)) (\<lambda>_. Ok path))"

definition path_components :: "string \<Rightarrow> string list" where
  "path_components path = split_on CHR ''/'' path"

datatype CPath = Inline bytes | Heap bytes

definition cpath_from_bytes :: "bytes \<Rightarrow> string \<Rightarrow> IoError + CPath" where
  "cpath_from_bytes bs nul_error =
     (if 0 \<in> set bs then Err (io_error_new Kind_InvalidInput nul_error)
      else if length bs < INLINE_C_PATH_BYTES
      then Ok (Inline (copy_at 0 bs (replicate INLINE_C_PATH_BYTES 0)))
      else Ok (Heap (bs @ [0])))"

text \<open>The bytes a system call reads through \<^verbatim>\<open>as_ptr\<close>: up to the first zero.\<close>

fun c_string :: "CPath \<Rightarrow> bytes" where
  "c_string (Inline bs) = takeWhile (\<lambda>b. b \<noteq> 0) bs"
| "c_string (Heap bs) = takeWhile (\<lambda>b. b \<noteq> 0) bs"

definition cstr_from_name :: "string \<Rightarrow> IoError + CPath" where
  "cstr_from_name name = cpath_from_bytes (as_bytes name) ''path component contains NUL byte''"

definition cstr_from_bytes :: "bytes \<Rightarrow> IoError + CPath" where
  "cstr_from_bytes bs = cpath_from_bytes bs ''path contains NUL byte''"

definition PROC_PREFIX :: bytes where "PROC_PREFIX = as_bytes ''/proc/self/fd/''"

text \<open>The largest power of ten not above the value (the loop starts with divisor one, and at
  most \<open>10 ^ 9\<close> is reached for a 32-bit value, so that the product does not wrap).\<close>

function find_divisor :: "nat \<Rightarrow> nat \<Rightarrow> nat" where
  "find_divisor value divisor =
     (if divisor = 0 then divisor
      else if value div divisor \<ge> 10 then find_divisor value (divisor * 10) else divisor)"
  by pat_completeness auto
termination
proof (relation "measure (\<lambda>(v, d). v - d)")
  fix v d :: nat
  assume "d \<noteq> 0" and "v div d \<ge> 10"
  then have "10 * d \<le> v" by (metis div_times_less_eq_dividend le_trans mult_le_mono1)
  then show "((v, d * 10), v, d) \<in> measure (\<lambda>(v, d). v - d)" using \<open>d \<noteq> 0\<close> by simp
qed simp

declare find_divisor.simps [simp del]

text \<open>The digit loop: \<^verbatim>\<open>divisor\<close> is a power of ten, so that it ends at one.\<close>

function write_digits :: "nat \<Rightarrow> nat \<Rightarrow> nat \<Rightarrow> bytes \<Rightarrow> bytes" where
  "write_digits value divisor offset path =
     (let path' = path[offset := 0x30 + word_of_nat ((value div divisor) mod 10)] in
      if divisor \<le> 1 then path' else write_digits value (divisor div 10) (offset + 1) path')"
  by pat_completeness auto
termination by (relation "measure (\<lambda>(v, d, p, bs). d)") auto

declare write_digits.simps [simp del]

definition proc_self_fd_path_raw :: "u32 \<Rightarrow> bytes" where
  "proc_self_fd_path_raw value =
     write_digits (unat value) (find_divisor (unat value) 1) (length PROC_PREFIX)
       (copy_at 0 PROC_PREFIX (replicate 32 0))"

definition proc_self_fd_path :: "fd \<Rightarrow> bytes" where
  "proc_self_fd_path fd = proc_self_fd_path_raw (word_of_int fd)"

text \<open>A name as the C string of a system call, with the error of the conversion.\<close>

definition with_name ::
  "string \<Rightarrow> (bytes \<Rightarrow> ('s, IoError + 'a) sysproc) \<Rightarrow> ('s, IoError + 'a) sysproc" where
  "with_name name f =
     (case cstr_from_name name of Err e \<Rightarrow> io_return (Err e) | Ok p \<Rightarrow> f (c_string p))"

subsection \<open>Descriptors and names\<close>

definition open_tmpfile :: "'s os \<Rightarrow> fd \<Rightarrow> ('s, IoError + fd) sysproc" where
  "open_tmpfile k dir_fd =
     fault_check k ''open_tmpfile'' []
       (syscall k (sys_openat k dir_fd (as_bytes ''.'') (O_TMPFILE OR O_RDWR OR O_CLOEXEC) MODE_0600))"

definition open_directory :: "'s os \<Rightarrow> fd \<Rightarrow> string \<Rightarrow> ('s, IoError + fd) sysproc" where
  "open_directory k dir_fd name =
     fault_check k ''open_directory'' [name] (with_name name (\<lambda>c_name.
       syscall k (sys_openat k dir_fd c_name (O_RDONLY OR O_DIRECTORY OR O_NOFOLLOW OR O_CLOEXEC) 0)))"

definition open_directory_beneath :: "'s os \<Rightarrow> fd \<Rightarrow> string \<Rightarrow> ('s, IoError + fd) sysproc" where
  "open_directory_beneath k root_fd relative =
     fault_check k ''openat2_beneath'' [] (with_name relative (\<lambda>path.
       syscall k (sys_openat2 k root_fd path (word_of_int resolver_open_flags) 0 RESOLVER_RESOLVE_FLAGS)))"

definition openat :: "'s os \<Rightarrow> fd \<Rightarrow> string \<Rightarrow> int \<Rightarrow> u32 \<Rightarrow> ('s, IoError + fd) sysproc" where
  "openat k dir_fd name flags mode =
     fault_check k ''openat'' [name] (with_name name (\<lambda>c_name.
       syscall k (sys_openat k dir_fd c_name flags mode)))"

definition mkdirat :: "'s os \<Rightarrow> fd \<Rightarrow> string \<Rightarrow> u32 \<Rightarrow> ('s, IoError + unit) sysproc" where
  "mkdirat k dir_fd name mode =
     fault_check k ''mkdirat'' [] (with_name name (\<lambda>c_name.
       syscall k (sys_mkdirat k dir_fd c_name mode)))"

definition mkdirat_eexist_ok :: "'s os \<Rightarrow> fd \<Rightarrow> string \<Rightarrow> u32 \<Rightarrow> ('s, IoError + bool) sysproc" where
  "mkdirat_eexist_ok k dir_fd name mode =
     io_map (\<lambda>r. case r of
         Ok _ \<Rightarrow> Ok True
       | Err e \<Rightarrow> if io_kind e = Kind_AlreadyExists then Ok False else Err e)
       (mkdirat k dir_fd name mode)"

definition fsync :: "'s os \<Rightarrow> fd \<Rightarrow> ('s, IoError + unit) sysproc" where
  "fsync k fd = fault_check k ''fsync'' [] (syscall k (sys_fsync k fd))"

definition fsync_dir :: "'s os \<Rightarrow> fd \<Rightarrow> string \<Rightarrow> ('s, IoError + unit) sysproc" where
  "fsync_dir k dir_fd name =
     fault_check k ''fsync_dir'' [] (io_try (open_directory k dir_fd name) (fsync k))"

definition fsync_dir_fd :: "'s os \<Rightarrow> fd \<Rightarrow> ('s, IoError + unit) sysproc" where
  "fsync_dir_fd k fd =
     io_try (record_fd_identity k ''fsync_dir_fd'' fd)
       (\<lambda>_. fault_check k ''fsync_dir_fd'' [] (fsync k fd))"

definition renameat2_noreplace ::
  "'s os \<Rightarrow> fd \<Rightarrow> string \<Rightarrow> fd \<Rightarrow> string \<Rightarrow> ('s, IoError + unit) sysproc" where
  "renameat2_noreplace k old_dir_fd old_name new_dir_fd new_name =
     fault_check k ''renameat2_noreplace'' [old_name, new_name]
       (with_name old_name (\<lambda>c_old. with_name new_name (\<lambda>c_new.
         syscall k (sys_renameat2 k old_dir_fd c_old new_dir_fd c_new RENAME_NOREPLACE))))"

definition renameat :: "'s os \<Rightarrow> fd \<Rightarrow> string \<Rightarrow> fd \<Rightarrow> string \<Rightarrow> ('s, IoError + unit) sysproc" where
  "renameat k old_dir_fd old_name new_dir_fd new_name =
     fault_check k ''renameat'' [old_name, new_name]
       (with_name old_name (\<lambda>c_old. with_name new_name (\<lambda>c_new.
         syscall k (sys_renameat k old_dir_fd c_old new_dir_fd c_new))))"

definition linkat_empty_path :: "'s os \<Rightarrow> fd \<Rightarrow> fd \<Rightarrow> string \<Rightarrow> ('s, IoError + unit) sysproc" where
  "linkat_empty_path k fd dest_dir_fd dest_name =
     fault_check k ''linkat_empty_path'' [] (with_name dest_name (\<lambda>c_dest.
       syscall k (sys_linkat k fd [] dest_dir_fd c_dest AT_EMPTY_PATH)))"

definition linkat_proc_self_fd :: "'s os \<Rightarrow> fd \<Rightarrow> fd \<Rightarrow> string \<Rightarrow> ('s, IoError + unit) sysproc" where
  "linkat_proc_self_fd k fd dest_dir_fd dest_name =
     fault_check k ''linkat_proc_self_fd'' [] (with_name dest_name (\<lambda>c_dest.
       syscall k (sys_linkat k AT_FDCWD (takeWhile (\<lambda>b. b \<noteq> 0) (proc_self_fd_path fd))
         dest_dir_fd c_dest AT_SYMLINK_FOLLOW)))"

definition unlinkat :: "'s os \<Rightarrow> fd \<Rightarrow> string \<Rightarrow> ('s, IoError + unit) sysproc" where
  "unlinkat k dir_fd name =
     fault_check k ''unlinkat'' [name] (with_name name (\<lambda>c_name.
       syscall k (sys_unlinkat k dir_fd c_name 0)))"

definition unlinkat_dir :: "'s os \<Rightarrow> fd \<Rightarrow> string \<Rightarrow> ('s, IoError + unit) sysproc" where
  "unlinkat_dir k dir_fd name =
     fault_check k ''unlinkat_dir'' [name] (with_name name (\<lambda>c_name.
       syscall k (sys_unlinkat k dir_fd c_name AT_REMOVEDIR)))"

definition fstatat :: "'s os \<Rightarrow> fd \<Rightarrow> string \<Rightarrow> ('s, IoError + Stat) sysproc" where
  "fstatat k dir_fd name =
     fault_check k ''fstatat'' [] (with_name name (\<lambda>c_name.
       syscall k (sys_fstatat k dir_fd c_name AT_SYMLINK_NOFOLLOW)))"

definition fstat :: "'s os \<Rightarrow> fd \<Rightarrow> ('s, IoError + Stat) sysproc" where
  "fstat k fd = fault_check k ''fstat'' [] (syscall k (sys_fstat k fd))"

definition with_bytes ::
  "bytes \<Rightarrow> (bytes \<Rightarrow> ('s, IoError + 'a) sysproc) \<Rightarrow> ('s, IoError + 'a) sysproc" where
  "with_bytes bs f =
     (case cstr_from_bytes bs of Err e \<Rightarrow> io_return (Err e) | Ok p \<Rightarrow> f (c_string p))"

definition fs_type_magic :: "'s os \<Rightarrow> bytes \<Rightarrow> ('s, IoError + int) sysproc" where
  "fs_type_magic k path = with_bytes path (\<lambda>c_path. syscall k (sys_statfs_type k c_path))"

definition open_dir_absolute :: "'s os \<Rightarrow> bytes \<Rightarrow> ('s, IoError + fd) sysproc" where
  "open_dir_absolute k path = with_bytes path (\<lambda>c_path.
     syscall k (sys_open k c_path (O_RDONLY OR O_DIRECTORY OR O_NOFOLLOW OR O_CLOEXEC)))"

definition create_exclusive :: "'s os \<Rightarrow> fd \<Rightarrow> string \<Rightarrow> u32 \<Rightarrow> ('s, IoError + fd) sysproc" where
  "create_exclusive k dir_fd name mode =
     openat k dir_fd name (O_RDWR OR O_CREAT OR O_EXCL OR O_NOFOLLOW OR O_CLOEXEC) mode"

definition fchmodat :: "'s os \<Rightarrow> fd \<Rightarrow> string \<Rightarrow> u32 \<Rightarrow> ('s, IoError + unit) sysproc" where
  "fchmodat k dir_fd name mode = with_name name (\<lambda>c_name. syscall k (sys_fchmodat k dir_fd c_name mode))"

subsection \<open>Clocks, randomness and locks\<close>

definition timespec_ns :: "Timespec \<Rightarrow> u64" where
  "timespec_ns ts = word_of_int (tv_sec ts) * 1000000000 + word_of_int (tv_nsec ts)"

definition clock_boottime_ns :: "'s os \<Rightarrow> ('s, IoError + u64) sysproc" where
  "clock_boottime_ns k =
     fault_check k ''clock_boottime_ns'' [] (\<lambda>w.
       case flt_boottime_ns (fault_state w) of
         Some ns \<Rightarrow> Some (Ok ns, w)
       | None \<Rightarrow> io_try (syscall k (sys_clock_gettime k CLOCK_BOOTTIME))
                   (\<lambda>ts. io_return (Ok (timespec_ns ts))) w)"

definition timespec_to_unix_ns :: "Timespec \<Rightarrow> IoError + u64" where
  "timespec_to_unix_ns ts =
     (if tv_sec ts < 0 \<or> tv_nsec ts < 0
      then Err (io_error_new Kind_InvalidInput ''clock before epoch'')
      else Ok (timespec_ns ts))"

definition clock_realtime_ns :: "'s os \<Rightarrow> ('s, IoError + u64) sysproc" where
  "clock_realtime_ns k =
     fault_check k ''clock_realtime_ns'' [] (\<lambda>w.
       case flt_realtime_ns (fault_state w) of
         Some ns \<Rightarrow> Some (Ok ns, w)
       | None \<Rightarrow> io_try (syscall k (sys_clock_gettime k CLOCK_REALTIME))
                   (\<lambda>ts. io_return (timespec_to_unix_ns ts)) w)"

definition clock_monotonic_ns :: "'s os \<Rightarrow> ('s, IoError + u64) sysproc" where
  "clock_monotonic_ns k =
     fault_check k ''clock_monotonic_ns'' []
       (io_try (syscall k (sys_clock_gettime k CLOCK_MONOTONIC)) (\<lambda>ts. io_return (Ok (timespec_ns ts))))"

definition is_interrupted :: "IoError \<Rightarrow> bool" where
  "is_interrupted e = (io_kind e = Kind_Interrupted)"

partial_function (option) random_loop :: "'s os \<Rightarrow> 's world \<Rightarrow> ((IoError + id128) \<times> 's world) option" where
  "random_loop k w =
     (case syscall k (sys_getrandom k 16) w of
        None \<Rightarrow> None
      | Some (Inl e, w') \<Rightarrow> if is_interrupted e then random_loop k w' else Some (Err e, w')
      | Some (Inr out, w') \<Rightarrow>
          if length out \<noteq> 16
          then Some (Err (io_error_new Kind_UnexpectedEof ''getrandom returned a short read''), w')
          else Some (Ok (arr_of out), w'))"

definition random_128bit :: "'s os \<Rightarrow> ('s, IoError + id128) sysproc" where
  "random_128bit k = fault_check k ''get_random'' [] (random_loop k)"

definition try_ofd_lock :: "'s os \<Rightarrow> string \<Rightarrow> bool \<Rightarrow> fd \<Rightarrow> ('s, IoError + bool) sysproc" where
  "try_ofd_lock k func_name exclusive fd =
     fault_check k func_name []
       (io_map (\<lambda>r. case r of
           Err e \<Rightarrow> if io_kind e = Kind_WouldBlock \<or> raw_os_error e = Some EAGAIN then Ok False else Err e
         | Ok _ \<Rightarrow> Ok True)
         (syscall k (sys_ofd_setlk k fd exclusive)))"

definition try_ofd_write_lock :: "'s os \<Rightarrow> fd \<Rightarrow> ('s, IoError + bool) sysproc" where
  "try_ofd_write_lock k fd = try_ofd_lock k ''try_ofd_write_lock'' True fd"

definition try_ofd_read_lock :: "'s os \<Rightarrow> fd \<Rightarrow> ('s, IoError + bool) sysproc" where
  "try_ofd_read_lock k fd = try_ofd_lock k ''try_ofd_read_lock'' False fd"

subsection \<open>Reading and writing\<close>

partial_function (option) write_loop ::
  "'s os \<Rightarrow> fd \<Rightarrow> bytes \<Rightarrow> nat \<Rightarrow> 's world \<Rightarrow> ((IoError + unit) \<times> 's world) option" where
  "write_loop k fd buf written w =
     (if written < length buf then
        (case syscall k (sys_write k fd (drop written buf)) w of
           None \<Rightarrow> None
         | Some (Inl e, w') \<Rightarrow>
             if io_kind e = Kind_Interrupted then write_loop k fd buf written w' else Some (Err e, w')
         | Some (Inr rc, w') \<Rightarrow>
             if rc = 0
             then Some (Err (io_error_new Kind_WriteZero ''write returned zero bytes (no progress)''), w')
             else write_loop k fd buf (written + rc) w')
      else Some (Ok (), w))"

definition write_all :: "'s os \<Rightarrow> fd \<Rightarrow> bytes \<Rightarrow> ('s, IoError + unit) sysproc" where
  "write_all k fd buf =
     (if buf = [] then io_return (Ok ())
      else fault_check k ''write_all'' [] (write_loop k fd buf 0))"

text \<open>Advancing the vector of buffers past the bytes written.\<close>

fun advance_iovs :: "nat \<Rightarrow> bytes list \<Rightarrow> bytes list" where
  "advance_iovs written [] = []"
| "advance_iovs written (b # bs) =
     (if written = 0 then b # bs
      else if written \<ge> length b then advance_iovs (written - length b) bs
      else drop written b # bs)"

partial_function (option) writev_loop ::
  "'s os \<Rightarrow> fd \<Rightarrow> bytes list \<Rightarrow> 's world \<Rightarrow> ((IoError + unit) \<times> 's world) option" where
  "writev_loop k fd iovs w =
     (if iovs = [] then Some (Ok (), w)
      else (case syscall k (sys_writev k fd iovs) w of
           None \<Rightarrow> None
         | Some (Inl e, w') \<Rightarrow>
             if io_kind e = Kind_Interrupted then writev_loop k fd iovs w' else Some (Err e, w')
         | Some (Inr rc, w') \<Rightarrow>
             if rc = 0
             then Some (Err (io_error_new Kind_WriteZero ''writev returned zero bytes (no progress)''), w')
             else writev_loop k fd (advance_iovs rc iovs) w'))"

definition writev_all :: "'s os \<Rightarrow> fd \<Rightarrow> bytes list \<Rightarrow> ('s, IoError + unit) sysproc" where
  "writev_all k fd bufs =
     (if list_all (\<lambda>b. b = []) bufs then io_return (Ok ())
      else fault_check k ''write_all'' [] (writev_loop k fd (filter (\<lambda>b. b \<noteq> []) bufs)))"

definition pwrite :: "'s os \<Rightarrow> fd \<Rightarrow> bytes \<Rightarrow> u64 \<Rightarrow> ('s, IoError + nat) sysproc" where
  "pwrite k fd buf offset = fault_check k ''pwrite'' [] (syscall k (sys_pwrite k fd buf offset))"

partial_function (option) pwrite_loop ::
  "'s os \<Rightarrow> fd \<Rightarrow> bytes \<Rightarrow> nat \<Rightarrow> u64 \<Rightarrow> 's world \<Rightarrow> ((IoError + unit) \<times> 's world) option" where
  "pwrite_loop k fd buf written current_offset w =
     (if written < length buf then
        (case pwrite k fd (drop written buf) current_offset w of
           None \<Rightarrow> None
         | Some (Inl e, w') \<Rightarrow> Some (Err e, w')
         | Some (Inr n, w') \<Rightarrow>
             if n = 0
             then Some (Err (io_error_new Kind_WriteZero ''pwrite returned zero bytes (no progress)''), w')
             else pwrite_loop k fd buf (written + n) (current_offset + word_of_nat n) w')
      else Some (Ok (), w))"

definition pwrite_all :: "'s os \<Rightarrow> fd \<Rightarrow> bytes \<Rightarrow> u64 \<Rightarrow> ('s, IoError + unit) sysproc" where
  "pwrite_all k fd buf offset = pwrite_loop k fd buf 0 offset"

text \<open>A read fills a buffer of the given length; the result is the bytes read.\<close>

partial_function (option) read ::
  "'s os \<Rightarrow> fd \<Rightarrow> nat \<Rightarrow> 's world \<Rightarrow> ((IoError + bytes) \<times> 's world) option" where
  "read k fd len w =
     (case syscall k (sys_read k fd len) w of
        None \<Rightarrow> None
      | Some (Inl e, w') \<Rightarrow> if io_kind e = Kind_Interrupted then read k fd len w' else Some (Err e, w')
      | Some (Inr bs, w') \<Rightarrow> Some (Ok bs, w'))"

partial_function (option) pread_loop ::
  "'s os \<Rightarrow> fd \<Rightarrow> nat \<Rightarrow> u64 \<Rightarrow> 's world \<Rightarrow> ((IoError + bytes) \<times> 's world) option" where
  "pread_loop k fd len offset w =
     (case syscall k (sys_pread k fd len offset) w of
        None \<Rightarrow> None
      | Some (Inl e, w') \<Rightarrow>
          if io_kind e = Kind_Interrupted then pread_loop k fd len offset w' else Some (Err e, w')
      | Some (Inr bs, w') \<Rightarrow> Some (Ok bs, w'))"

definition pread :: "'s os \<Rightarrow> fd \<Rightarrow> nat \<Rightarrow> u64 \<Rightarrow> ('s, IoError + bytes) sysproc" where
  "pread k fd len offset = fault_check k ''pread'' [] (pread_loop k fd len offset)"

partial_function (option) pread_exact_loop ::
  "'s os \<Rightarrow> fd \<Rightarrow> nat \<Rightarrow> bytes \<Rightarrow> u64 \<Rightarrow> 's world \<Rightarrow> ((IoError + bytes) \<times> 's world) option" where
  "pread_exact_loop k fd len filled cur w =
     (if length filled < len then
        (case pread k fd (len - length filled) cur w of
           None \<Rightarrow> None
         | Some (Inl e, w') \<Rightarrow> Some (Err e, w')
         | Some (Inr bs, w') \<Rightarrow>
             if bs = []
             then Some (Err (io_error_new Kind_UnexpectedEof ''pread hit EOF before filling buffer''), w')
             else pread_exact_loop k fd len (filled @ bs) (cur + word_of_nat (length bs)) w')
      else Some (Ok filled, w))"

definition pread_exact :: "'s os \<Rightarrow> fd \<Rightarrow> nat \<Rightarrow> u64 \<Rightarrow> ('s, IoError + bytes) sysproc" where
  "pread_exact k fd len offset = pread_exact_loop k fd len [] offset"

subsection \<open>Directory enumeration\<close>

type_synonym DirEntryName = bytes

definition entry_is_ascii :: "DirEntryName \<Rightarrow> bool" where
  "entry_is_ascii name = list_all (\<lambda>b. b < 128) name"

text \<open>ASCII bytes are valid UTF-8, so that the ASCII test decides the conversion.\<close>

definition as_ascii_str :: "DirEntryName \<Rightarrow> string option" where
  "as_ascii_str name = (if entry_is_ascii name then Some (from_bytes name) else None)"

record DirectoryEnumerationProgress =
  entries_read :: u64
  name_bytes_read :: u64

definition no_progress :: DirectoryEnumerationProgress where
  "no_progress = \<lparr>entries_read = 0, name_bytes_read = 0\<rparr>"

record DirectoryEnumeration =
  de_entries :: "DirEntryName list"
  de_progress :: DirectoryEnumerationProgress

datatype DirectoryEnumerationProgressError =
    Cancelled DirectoryEnumerationProgress
  | CancellationCheck IoError DirectoryEnumerationProgress
  | Enumeration_Io IoError DirectoryEnumerationProgress

fun enumeration_progress :: "DirectoryEnumerationProgressError \<Rightarrow> DirectoryEnumerationProgress" where
  "enumeration_progress (Cancelled p) = p"
| "enumeration_progress (CancellationCheck _ p) = p"
| "enumeration_progress (Enumeration_Io _ p) = p"

fun into_io_error :: "DirectoryEnumerationProgressError \<Rightarrow> IoError" where
  "into_io_error (Cancelled _) =
     io_error_new Kind_Interrupted ''directory enumeration cancelled unexpectedly''"
| "into_io_error (CancellationCheck e _) = e"
| "into_io_error (Enumeration_Io e _) = e"

definition is_dot :: "bytes \<Rightarrow> bool" where
  "is_dot name = (name = as_bytes ''.'' \<or> name = as_bytes ''..'')"

definition reopen_directory :: "'s os \<Rightarrow> fd \<Rightarrow> ('s, IoError + fd) sysproc" where
  "reopen_directory k dir_fd = open_directory k dir_fd ''.''"

definition next_raw :: "'s os \<Rightarrow> fd \<Rightarrow> ('s, IoError + (bytes \<times> int) option) sysproc" where
  "next_raw k dir = syscall k (sys_readdir k dir)"

text \<open>One entry that is not a dot entry: the bounds, the byte count and the progress.\<close>

definition accept_entry ::
  "u64 \<Rightarrow> u64 \<Rightarrow> DirEntryName list \<Rightarrow> u64 \<Rightarrow> DirectoryEnumerationProgress \<Rightarrow> DirEntryName
     \<Rightarrow> DirectoryEnumerationProgressError
        + DirEntryName list \<times> u64 \<times> DirectoryEnumerationProgress" where
  "accept_entry max_entries max_name_bytes entries bytes_read progress name =
     (let progress' = \<lparr>entries_read = saturating_add (entries_read progress) 1,
                       name_bytes_read = saturating_add (name_bytes_read progress)
                                           (word_of_nat (length name))\<rparr>
      in case checked_add bytes_read (word_of_nat (length name)) of
           None \<Rightarrow> Err (Enumeration_Io (io_error_new Kind_FileTooLarge
                     ''directory entry byte count overflow'') progress')
         | Some next_name_bytes \<Rightarrow>
             if word_of_nat (length entries) \<ge> max_entries \<or> next_name_bytes > max_name_bytes
             then Err (Enumeration_Io (io_error_new Kind_FileTooLarge
                    ''directory exceeds configured recovery scan bound'') progress')
             else Ok (entries @ [name], next_name_bytes, progress'))"

partial_function (option) enumerate_loop ::
  "'s os \<Rightarrow> ('s, IoError + bool) sysproc \<Rightarrow> u64 \<Rightarrow> u64 \<Rightarrow> fd \<Rightarrow> DirEntryName list \<Rightarrow> u64
     \<Rightarrow> DirectoryEnumerationProgress \<Rightarrow> 's world
     \<Rightarrow> ((DirectoryEnumerationProgressError + DirEntryName list \<times> DirectoryEnumerationProgress) \<times> 's world) option"
where
  "enumerate_loop k should_stop max_entries max_name_bytes dir entries bytes_read progress w =
     (case should_stop w of
        None \<Rightarrow> None
      | Some (Inl e, w1) \<Rightarrow> Some (Err (CancellationCheck e progress), w1)
      | Some (Inr stop, w1) \<Rightarrow>
        if stop then Some (Err (Cancelled progress), w1)
        else (case next_raw k dir w1 of
           None \<Rightarrow> None
         | Some (Inl e, w2) \<Rightarrow> Some (Err (Enumeration_Io e progress), w2)
         | Some (Inr None, w2) \<Rightarrow> Some (Ok (entries, progress), w2)
         | Some (Inr (Some (name, _)), w2) \<Rightarrow>
             if is_dot name
             then enumerate_loop k should_stop max_entries max_name_bytes dir entries bytes_read progress w2
             else (case accept_entry max_entries max_name_bytes entries bytes_read progress name of
                 Inl e \<Rightarrow> Some (Err e, w2)
               | Inr (entries', bytes_read', progress') \<Rightarrow>
                   enumerate_loop k should_stop max_entries max_name_bytes dir entries' bytes_read' progress' w2)))"

definition read_dir_entry_names_impl ::
  "'s os \<Rightarrow> fd \<Rightarrow> u64 \<Rightarrow> u64 \<Rightarrow> ('s, IoError + bool) sysproc
     \<Rightarrow> ('s, DirectoryEnumerationProgressError + DirectoryEnumeration) sysproc" where
  "read_dir_entry_names_impl k dir_fd max_entries max_name_bytes should_stop =
     io_try (io_map_err (\<lambda>e. Enumeration_Io e no_progress) (syscall k (sys_fdopendir k dir_fd)))
       (\<lambda>dir. io_try (enumerate_loop k should_stop max_entries max_name_bytes dir [] 0 no_progress)
         (\<lambda>(entries, progress) w.
            Some (Ok \<lparr>de_entries = permute_directory_entries (fault_state w) entries,
                     de_progress = progress\<rparr>, w)))"

definition read_dir_entries :: "'s os \<Rightarrow> fd \<Rightarrow> ('s, IoError + DirEntryName list) sysproc" where
  "read_dir_entries k dir_fd =
     io_try (reopen_directory k dir_fd) (\<lambda>reopened.
       io_map (\<lambda>r. case r of Err e \<Rightarrow> Err (into_io_error e) | Ok en \<Rightarrow> Ok (de_entries en))
         (read_dir_entry_names_impl k reopened u64_MAX u64_MAX (io_return (Ok False))))"

definition read_dir_entries_bounded_until_with_progress ::
  "'s os \<Rightarrow> fd \<Rightarrow> u64 \<Rightarrow> u64 \<Rightarrow> ('s, IoError + bool) sysproc
     \<Rightarrow> ('s, DirectoryEnumerationProgressError + DirectoryEnumeration) sysproc" where
  "read_dir_entries_bounded_until_with_progress k dir_fd max_entries max_name_bytes should_stop =
     io_try (io_map_err (\<lambda>e. Enumeration_Io e no_progress) (reopen_directory k dir_fd))
       (\<lambda>reopened. read_dir_entry_names_impl k reopened max_entries max_name_bytes should_stop)"

subsection \<open>Directory streams\<close>

record DirectoryStream =
  ds_dir :: fd
  ds_position :: int

definition stream_from_owned_at :: "'s os \<Rightarrow> fd \<Rightarrow> int \<Rightarrow> ('s, IoError + DirectoryStream) sysproc" where
  "stream_from_owned_at k fd position =
     io_try (syscall k (sys_fdopendir k fd)) (\<lambda>dir. io_return (Ok \<lparr>ds_dir = dir, ds_position = position\<rparr>))"

definition stream_open :: "'s os \<Rightarrow> fd \<Rightarrow> ('s, IoError + DirectoryStream) sysproc" where
  "stream_open k dir_fd = io_try (reopen_directory k dir_fd) (\<lambda>fd. stream_from_owned_at k fd 0)"

definition stream_open_at :: "'s os \<Rightarrow> fd \<Rightarrow> int \<Rightarrow> ('s, IoError + DirectoryStream) sysproc" where
  "stream_open_at k dir_fd position =
     io_try (reopen_directory k dir_fd) (\<lambda>fd.
       fault_check k ''directory_stream_seek'' []
         (io_try (syscall k (sys_lseek k fd position)) (\<lambda>_. stream_from_owned_at k fd position)))"

partial_function (option) next_entry_loop ::
  "'s os \<Rightarrow> DirectoryStream \<Rightarrow> 's world
     \<Rightarrow> ((IoError + bytes option \<times> DirectoryStream) \<times> 's world) option" where
  "next_entry_loop k stream w =
     (case next_raw k (ds_dir stream) w of
        None \<Rightarrow> None
      | Some (Inl e, w') \<Rightarrow> Some (Err e, w')
      | Some (Inr None, w') \<Rightarrow> Some (Ok (None, stream), w')
      | Some (Inr (Some (name, off)), w') \<Rightarrow>
          if is_dot name then next_entry_loop k (stream\<lparr>ds_position := off\<rparr>) w'
          else Some (Ok (Some name, stream\<lparr>ds_position := off\<rparr>), w'))"

definition next_entry ::
  "'s os \<Rightarrow> DirectoryStream \<Rightarrow> ('s, IoError + bytes option \<times> DirectoryStream) sysproc" where
  "next_entry k stream = fault_check k ''directory_stream_next'' [] (next_entry_loop k stream)"

subsection \<open>Filesystem support and probes\<close>

definition EXT4_SUPER_MAGIC :: int where "EXT4_SUPER_MAGIC = 0xEF53"
definition XFS_SUPER_MAGIC :: int where "XFS_SUPER_MAGIC = 0x58465342"
definition BTRFS_SUPER_MAGIC :: int where "BTRFS_SUPER_MAGIC = 0x9123683E"
definition F2FS_SUPER_MAGIC :: int where "F2FS_SUPER_MAGIC = 0xF00D"
definition F2FS_STATFS_MAGIC_ALT :: int where "F2FS_STATFS_MAGIC_ALT = 0xF2F52010"
definition ZFS_SUPER_MAGIC :: int where "ZFS_SUPER_MAGIC = 0x2fc12fc1"

definition supported_filesystem_name :: "int \<Rightarrow> string option" where
  "supported_filesystem_name magic =
     (if magic = EXT4_SUPER_MAGIC then Some ''ext4''
      else if magic = XFS_SUPER_MAGIC then Some ''xfs''
      else if magic = BTRFS_SUPER_MAGIC then Some ''btrfs''
      else if magic = F2FS_SUPER_MAGIC \<or> magic = F2FS_STATFS_MAGIC_ALT then Some ''f2fs''
      else if magic = ZFS_SUPER_MAGIC then Some ''zfs''
      else None)"

datatype PublicationMode = DirectAtEmptyPath | ProcSelfFd | NamedFallback

text \<open>The probe name is printed with a trailing zero that is trimmed before use.\<close>

definition probe_name :: "string \<Rightarrow> id128 \<Rightarrow> string" where
  "probe_name prefix rand = prefix @ hex_encode (arr_bytes rand)"

definition probe_publication_mode :: "'s os \<Rightarrow> fd \<Rightarrow> ('s, IoError + PublicationMode) sysproc" where
  "probe_publication_mode k dir_fd =
     io_bind (open_tmpfile k dir_fd) (\<lambda>r. case r of
       Err _ \<Rightarrow> io_return (Ok NamedFallback)
     | Ok tmp \<Rightarrow>
         io_try (write_all k tmp (as_bytes ''x'')) (\<lambda>_.
         io_try (random_128bit k) (\<lambda>rand.
           let name = probe_name ''.pubprobe-'' rand in
           io_bind (linkat_empty_path k tmp dir_fd name) (\<lambda>direct.
             if is_ok direct
             then io_bind (unlinkat k dir_fd name) (\<lambda>_. io_return (Ok DirectAtEmptyPath))
             else io_bind (linkat_proc_self_fd k tmp dir_fd name) (\<lambda>proc.
               if is_ok proc
               then io_bind (unlinkat k dir_fd name) (\<lambda>_. io_return (Ok ProcSelfFd))
               else io_return (Ok NamedFallback))))))"

definition probe_rename_noreplace :: "'s os \<Rightarrow> fd \<Rightarrow> ('s, IoError + bool) sysproc" where
  "probe_rename_noreplace k dir_fd =
     io_try (random_128bit k) (\<lambda>rand1. io_try (random_128bit k) (\<lambda>rand2.
       let n1 = probe_name ''.rnprobe1-'' rand1; n2 = probe_name ''.rnprobe2-'' rand2 in
       io_try (create_exclusive k dir_fd n1 MODE_0600) (\<lambda>_.
       io_bind (create_exclusive k dir_fd n2 MODE_0600) (\<lambda>f2. case f2 of
         Err error \<Rightarrow> io_bind (unlinkat k dir_fd n1) (\<lambda>_. io_return (Err error))
       | Ok _ \<Rightarrow>
         io_bind (renameat2_noreplace k dir_fd n1 dir_fd n2) (\<lambda>result.
           let works = (case result of Err e \<Rightarrow> raw_os_error e = Some EEXIST | Ok _ \<Rightarrow> False) in
           io_bind (unlinkat k dir_fd n1) (\<lambda>_. io_bind (unlinkat k dir_fd n2) (\<lambda>_.
             io_return (Ok works))))))))"

definition probe_dir_fsync :: "'s os \<Rightarrow> fd \<Rightarrow> ('s, IoError + bool) sysproc" where
  "probe_dir_fsync k dir_fd =
     io_map (\<lambda>r. case r of Ok _ \<Rightarrow> Ok True | Err _ \<Rightarrow> Ok False) (fsync_dir_fd k dir_fd)"

subsection \<open>Accepted paths\<close>

definition safe_component :: "string \<Rightarrow> bool" where
  "safe_component c \<longleftrightarrow> c \<noteq> [] \<and> c \<noteq> ''.'' \<and> c \<noteq> ''..'' \<and> length c \<le> 255
     \<and> (\<forall>x \<in> set c. is_ascii_graphic x \<and> x \<noteq> CHR ''/'')"

lemma not_graphic_NUL: "\<not> is_ascii_graphic (CHR 0x00)"
  by (simp add: is_ascii_graphic_def)

lemma validate_path_component_eq_Ok_iff: "validate_path_component c = Ok () \<longleftrightarrow> safe_component c"
  using not_graphic_NUL
  by (auto simp: validate_path_component_def safe_component_def MAX_COMPONENT_BYTES_def list_all_iff
      split: if_splits)

lemma validate_components_eq_Ok_iff: "validate_components cs = Ok () \<longleftrightarrow> list_all safe_component cs"
  by (induction cs) (auto simp: result_simps validate_path_component_eq_Ok_iff safe_component_def)

lemma relative_path_accepted:
  "validate_relative_path path = Ok p \<longleftrightarrow>
     p = path \<and> length path \<le> 4095
     \<and> (\<exists>cs. cs \<noteq> [] \<and> list_all safe_component cs \<and> path = join_with CHR ''/'' cs)"
proof -
  have join: "list_all safe_component (split_on CHR ''/'' path) \<longleftrightarrow>
      (\<exists>cs. cs \<noteq> [] \<and> list_all safe_component cs \<and> path = join_with CHR ''/'' cs)"
  proof
    assume "list_all safe_component (split_on CHR ''/'' path)"
    then show "\<exists>cs. cs \<noteq> [] \<and> list_all safe_component cs \<and> path = join_with CHR ''/'' cs"
      by (intro exI [where x = "split_on CHR ''/'' path"]) simp
  next
    assume "\<exists>cs. cs \<noteq> [] \<and> list_all safe_component cs \<and> path = join_with CHR ''/'' cs"
    then obtain cs where "cs \<noteq> []" "list_all safe_component cs" "path = join_with CHR ''/'' cs" by blast
    moreover from this have "\<forall>c \<in> set cs. CHR ''/'' \<notin> set c"
      by (auto simp: list_all_iff safe_component_def)
    ultimately show "list_all safe_component (split_on CHR ''/'' path)"
      using split_on_join_with [of cs] by (simp add: list_all_iff)
  qed
  moreover have "list_all safe_component (split_on CHR ''/'' path) \<Longrightarrow> path \<noteq> [] \<and> hd path \<noteq> CHR ''/''"
    by (cases path) (auto simp: safe_component_def split: if_splits list.splits)
  ultimately show ?thesis
    by (auto simp: validate_relative_path_def result_simps validate_components_eq_Ok_iff
        MAX_RELATIVE_PATH_BYTES_def split: if_splits)
qed

text \<open>C21. A relative path is accepted exactly when it is the joining by slashes of one or more
  safe components of at most 4095 bytes in all, each nonempty, at most 255 bytes of printable
  ASCII without slashes, and neither dot nor dot-dot, so that no accepted path is absolute
  or climbs out of its directory; the accepted path is returned unchanged.\<close>

theorem validate_relative_path_iff:
  "validate_relative_path path = Ok p \<longleftrightarrow>
     p = path \<and> length path \<le> 4095
     \<and> (\<exists>cs. cs \<noteq> [] \<and> list_all safe_component cs \<and> path = join_with CHR ''/'' cs)"
  by (rule relative_path_accepted)

subsection \<open>C strings\<close>

lemma takeWhile_nonzero_padded:
  "0 \<notin> set bs \<Longrightarrow> takeWhile (\<lambda>b :: u8. b \<noteq> 0) (bs @ replicate n 0) = bs"
  by (induction bs) (auto simp: takeWhile_replicate)

lemma c_string_of_cpath: "cpath_from_bytes bs e = Ok p \<Longrightarrow> c_string p = bs"
  using takeWhile_nonzero_padded [of bs] takeWhile_nonzero_padded [of bs 1]
  by (auto simp: cpath_from_bytes_def copy_at_def split: if_splits)

lemma cpath_from_bytes_eq_Ok_iff:
  "(\<exists>p. cpath_from_bytes bs e = Ok p) \<longleftrightarrow> 0 \<notin> set bs"
  by (auto simp: cpath_from_bytes_def)

subsection \<open>The path of a descriptor\<close>

text \<open>The digits of the decimal numeral from position \<open>k\<close> down to the unit.\<close>

fun digits_from :: "nat \<Rightarrow> nat \<Rightarrow> bytes" where
  "digits_from v 0 = [0x30 + word_of_nat (v mod 10)]"
| "digits_from v (Suc k) = (0x30 + word_of_nat ((v div 10 ^ Suc k) mod 10)) # digits_from v k"

lemma length_digits_from [simp]: "length (digits_from v k) = Suc k"
  by (induction k) auto

lemma digits_from_Suc: "digits_from v (Suc k) = digits_from (v div 10) k @ [0x30 + word_of_nat (v mod 10)]"
  by (induction k) (simp_all flip: div_mult2_eq)

lemma char_byte_digit: "d < 10 \<Longrightarrow> char_byte (char_of (48 + d)) = 0x30 + word_of_nat d"
  by (simp add: char_byte_def)

lemma as_bytes_decimal:
  "v < 10 ^ Suc k \<Longrightarrow> k = 0 \<or> 10 ^ k \<le> v \<Longrightarrow> as_bytes (decimal v) = digits_from v k"
proof (induction k arbitrary: v)
  case 0
  then show ?case by (simp add: decimal.simps [of v] as_bytes_def char_byte_digit)
next
  case (Suc k)
  have "(10 :: nat) \<le> 10 ^ Suc k" using power_increasing [of 1 "Suc k" "10 :: nat"] by simp
  moreover have "10 ^ Suc k \<le> v" using Suc.prems by simp
  ultimately have v: "10 \<le> v" by (rule le_trans)
  have "v div 10 < 10 ^ Suc k" and "10 ^ k \<le> v div 10"
    using Suc.prems by (simp_all add: less_mult_imp_div_less less_eq_div_iff_mult_less_eq mult.commute)
  then have "as_bytes (decimal (v div 10)) = digits_from (v div 10) k" by (intro Suc.IH) auto
  then show ?case
    using v unfolding digits_from_Suc decimal.simps [of v]
    by (simp add: as_bytes_def char_byte_digit)
qed

lemma find_divisor_power:
  assumes "10 ^ i \<le> v \<or> i = 0"
  shows "\<exists>k. find_divisor v (10 ^ i) = 10 ^ k \<and> v < 10 ^ Suc k \<and> (k = 0 \<or> 10 ^ k \<le> v)"
  using assms
proof (induction "v - 10 ^ i" arbitrary: i rule: less_induct)
  case less
  show ?case
  proof (cases "v div 10 ^ i \<ge> 10")
    case True
    then have le: "10 ^ Suc i \<le> v"
      by (simp add: less_eq_div_iff_mult_less_eq mult.commute)
    have "(10 :: nat) ^ i < 10 ^ Suc i" by simp
    then have "v - 10 ^ Suc i < v - 10 ^ i" using le by linarith
    then show ?thesis
      using less.hyps [of "Suc i"] le True by (simp add: find_divisor.simps [of v "10 ^ i"] mult.commute)
  next
    case False
    then have "v < 10 ^ Suc i" by (simp add: not_le div_less_iff_less_mult mult.commute)
    then show ?thesis using False less.prems by (auto simp: find_divisor.simps [of v "10 ^ i"])
  qed
qed

lemma write_digits_power:
  "offset + k < length path \<Longrightarrow> write_digits v (10 ^ k) offset path
     = take offset path @ digits_from v k @ drop (offset + Suc k) path"
proof (induction k arbitrary: offset path)
  case 0
  then show ?case by (simp add: write_digits.simps [of v "Suc 0"] upd_conv_take_nth_drop)
next
  case (Suc k)
  let ?p = "path[offset := 0x30 + word_of_nat ((v div 10 ^ Suc k) mod 10)]"
  have "\<not> (10 :: nat) ^ Suc k \<le> 1" using one_less_power [of "10 :: nat" "Suc k"] by linarith
  then have "write_digits v (10 ^ Suc k) offset path = write_digits v (10 ^ k) (Suc offset) ?p"
    unfolding write_digits.simps [of v "10 ^ Suc k"] Let_def by simp
  also have "\<dots> = take (Suc offset) ?p @ digits_from v k @ drop (Suc offset + Suc k) ?p"
    using Suc.prems by (intro Suc.IH) simp
  also have "take (Suc offset) ?p = take offset path @ [0x30 + word_of_nat ((v div 10 ^ Suc k) mod 10)]"
    using Suc.prems by (simp add: take_Suc_conv_app_nth)
  finally show ?case using Suc.prems by simp
qed

lemma digits_from_nonzero: "0 \<notin> set (digits_from v k)"
proof -
  have "0x30 + word_of_nat d \<noteq> (0 :: u8)" if "d < 10" for d
  proof -
    have "unat (0x30 + word_of_nat d :: u8) = 0x30 + d"
      using that by (simp add: unat_word_ariths unsigned_of_nat take_bit_nat_eq_self)
    then show ?thesis by (metis add_is_0 unat_0 zero_neq_numeral)
  qed
  then show ?thesis by (induction k) (auto dest: sym)
qed
lemma proc_path_decimal:
  "takeWhile (\<lambda>b. b \<noteq> 0) (proc_self_fd_path_raw v) = as_bytes (''/proc/self/fd/'' @ decimal (unat v))
   \<and> length (proc_self_fd_path_raw v) = 32 \<and> last (proc_self_fd_path_raw v) = 0"
proof -
  obtain k where k: "find_divisor (unat v) 1 = 10 ^ k" "unat v < 10 ^ Suc k" "k = 0 \<or> 10 ^ k \<le> unat v"
    using find_divisor_power [of 0 "unat v"] by auto
  have "k < 10"
  proof (rule ccontr)
    assume "\<not> k < 10"
    then have "(10 :: nat) ^ 10 \<le> 10 ^ k" by (intro power_increasing) auto
    then show False
      using k(3) \<open>\<not> k < 10\<close> unsigned_less [of v, where 'a = nat] by auto
  qed
  have len: "length PROC_PREFIX = 14" by (simp add: PROC_PREFIX_def as_bytes_def)
  have "proc_self_fd_path_raw v = PROC_PREFIX @ digits_from (unat v) k @ replicate (17 - k) 0"
    unfolding proc_self_fd_path_raw_def k(1)
    using \<open>k < 10\<close> len by (simp add: write_digits_power copy_at_def)
  then have e: "proc_self_fd_path_raw v =
      as_bytes (''/proc/self/fd/'' @ decimal (unat v)) @ replicate (17 - k) 0"
    using as_bytes_decimal [OF k(2,3)] by (simp add: PROC_PREFIX_def as_bytes_def)
  have "0 \<notin> set (as_bytes (''/proc/self/fd/'' @ decimal (unat v)))"
    using digits_from_nonzero [of "unat v" k] as_bytes_decimal [OF k(2,3)]
    by (auto simp: as_bytes_def char_byte_def)
  then have "takeWhile (\<lambda>b. b \<noteq> 0) (proc_self_fd_path_raw v) = as_bytes (''/proc/self/fd/'' @ decimal (unat v))"
    unfolding e by (rule takeWhile_nonzero_padded)
  moreover have "length (decimal (unat v)) = Suc k"
    using arg_cong [OF as_bytes_decimal [OF k(2,3)], of length] by (simp add: as_bytes_def)
  then have "length (proc_self_fd_path_raw v) = 32"
    using \<open>k < 10\<close> by (simp add: e as_bytes_append)
  moreover have "last (proc_self_fd_path_raw v) = 0"
    using \<open>k < 10\<close> unfolding e by simp
  ultimately show ?thesis by blast
qed

text \<open>The path handed to \<^verbatim>\<open>linkat\<close> for an unnamed file is \<^verbatim>\<open>/proc/self/fd/\<close> followed by the
  decimal numeral of the descriptor, for every 32-bit value, and fits its buffer with a
  terminating zero.\<close>

theorem proc_self_fd_path_decimal:
  "takeWhile (\<lambda>b. b \<noteq> 0) (proc_self_fd_path_raw v) = as_bytes (''/proc/self/fd/'' @ decimal (unat v))
   \<and> length (proc_self_fd_path_raw v) = 32 \<and> last (proc_self_fd_path_raw v) = 0"
  by (rule proc_path_decimal)

subsection \<open>Running a wrapper\<close>

lemma fault_check_idle: "\<not> flt_tracking (fault_state w) \<Longrightarrow> fault_check k f names m w = m w"
  by (simp add: fault_check_def check_names_idle)

lemma fault_check_cases:
  assumes "fault_check k f names m w = Some (r, w')"
  obtains (injected) e s where "r = Err (from_raw_os_error k e)" and "w' = w\<lparr>fault_state := s\<rparr>"
  | (passed) s where "m (w\<lparr>fault_state := s\<rparr>) = Some (r, w')"
  using assms by (auto simp: fault_check_def split: prod.splits option.splits)

lemma syscall_eq_Some_iff [io_simps]:
  "syscall k call w = Some (r, w') \<longleftrightarrow>
     (\<exists>r' s. call (os_state w) = (r', s) \<and> r = map_err (from_raw_os_error k) r' \<and> w' = w\<lparr>os_state := s\<rparr>)"
  by (auto simp: syscall_def Let_def split: prod.splits)

text \<open>Relations between kernel states, lifted to worlds.\<close>

definition os_rel :: "('s \<Rightarrow> 's \<Rightarrow> bool) \<Rightarrow> 's world \<Rightarrow> 's world \<Rightarrow> bool" where
  "os_rel Q w w' \<longleftrightarrow> Q (os_state w) (os_state w')"

lemma preorder_os_rel [intro]: "preorder_rel Q \<Longrightarrow> preorder_rel (os_rel Q)"
  unfolding preorder_rel_def os_rel_def by blast

lemma keeps_syscall:
  "(\<And>s r s'. call s = (r, s') \<Longrightarrow> Q s s') \<Longrightarrow> keeps (os_rel Q) (syscall k call)"
  by (auto simp: keeps_def io_simps os_rel_def)

lemma keeps_fault_check [keeps_intros]:
  assumes "preorder_rel Q" and "keeps (os_rel Q) m"
  shows "keeps (os_rel Q) (fault_check k f names m)"
proof (rule keepsI)
  fix w r w'
  assume "fault_check k f names m w = Some (r, w')"
  then show "os_rel Q w w'"
  proof (cases rule: fault_check_cases)
    case (injected e s)
    then show ?thesis using assms(1) by (simp add: os_rel_def preorder_rel_def)
  next
    case (passed s)
    then show ?thesis using keepsD [OF assms(2)] by (fastforce simp: os_rel_def)
  qed
qed

lemma keeps_with_name [keeps_intros]:
  "preorder_rel R \<Longrightarrow> (\<And>c. keeps R (f c)) \<Longrightarrow> keeps R (with_name name f)"
  unfolding with_name_def by (auto intro!: keeps_intros)

lemma keeps_record_fd_identity [keeps_intros]:
  assumes "preorder_rel Q" and "\<And>s r s'. sys_fstat k fd s = (r, s') \<Longrightarrow> Q s s'"
  shows "keeps (os_rel Q) (record_fd_identity k f fd)"
proof (rule keepsI)
  fix w r w'
  assume a: "record_fd_identity k f fd w = Some (r, w')"
  show "os_rel Q w w'"
  proof (cases "flt_tracking (fault_state w)")
    case False
    then show ?thesis using a assms(1) by (simp add: record_fd_identity_def os_rel_def preorder_rel_def)
  next
    case True
    then show ?thesis
      using a assms(2) [of "os_state w"]
      by (auto simp: record_fd_identity_def io_simps os_rel_def Let_def)
  qed
qed

lemma returns_syscall [intro, simp]: "returns (syscall k call)"
  by (simp add: returns_def syscall_def Let_def split: prod.splits)

lemma returns_fault_check [intro]: "returns m \<Longrightarrow> returns (fault_check k f names m)"
  by (simp add: returns_def fault_check_def split: prod.splits option.splits)

lemma returns_with_name [intro]: "(\<And>c. returns (f c)) \<Longrightarrow> returns (with_name name f)"
  by (simp add: with_name_def split: sum.splits)

lemma returns_record_fd_identity [intro, simp]: "returns (record_fd_identity k f fd)"
proof -
  have "returns (io_try (syscall k (sys_fstat k fd)) (\<lambda>st w. Some (Ok (), g st w)))" for g
    by (rule returns_try, rule returns_syscall) (simp add: returns_def)
  then show ?thesis unfolding record_fd_identity_def returns_def Let_def by simp
qed
subsection \<open>Writing everything\<close>

text \<open>
  What \<^verbatim>\<open>write(2)\<close> promises on a descriptor whose writes do not fail: it appends a nonempty prefix
  of the buffer to the output, or reports an interruption without effect, and interruptions
  do not go on for ever (\<open>pending\<close> bounds how many are still to come).
\<close>

definition writer_progress :: "'s os \<Rightarrow> fd \<Rightarrow> ('s \<Rightarrow> bytes) \<Rightarrow> ('s \<Rightarrow> nat) \<Rightarrow> bool" where
  "writer_progress k fd output pending \<longleftrightarrow>
     (\<forall>s b. b \<noteq> [] \<longrightarrow>
        (\<exists>n s'. sys_write k fd b s = (Inr n, s') \<and> 0 < n \<and> n \<le> length b \<and> output s' = output s @ take n b)
        \<or> (\<exists>s'. sys_write k fd b s = (Inl EINTR, s') \<and> output s' = output s \<and> pending s' < pending s))"

lemma writer_progressE:
  assumes "writer_progress k fd output pending" and "b \<noteq> []"
  obtains (wrote) n s' where "sys_write k fd b s = (Inr n, s')" and "0 < n" and "n \<le> length b"
      and "output s' = output s @ take n b"
  | (interrupted) s' where "sys_write k fd b s = (Inl EINTR, s')" and "output s' = output s"
      and "pending s' < pending s"
  using assms unfolding writer_progress_def by blast

lemma interrupted_kind [simp]: "io_kind (from_raw_os_error k EINTR) = Kind_Interrupted"
  by (simp add: from_raw_os_error_def decode_error_kind_def errno_defs)

lemma write_loop_completes:
  assumes "writer_progress k fd output pending"
  shows "\<exists>w'. write_loop k fd buf written w = Some (Ok (), w')
    \<and> output (os_state w') = output (os_state w) @ drop written buf \<and> fault_state w' = fault_state w"
proof (induction "(length buf - written, pending (os_state w))" arbitrary: written w
    rule: wf_induct_rule [OF wf_lex_prod [OF wf_less_than wf_less_than]])
  case less: 1
  show ?case
  proof (cases "written < length buf")
    case False
    then show ?thesis by (simp add: write_loop.simps)
  next
    case True
    then have "drop written buf \<noteq> []" by simp
    from assms this show ?thesis
    proof (cases rule: writer_progressE [where s = "os_state w"])
      case (wrote n s')
      let ?w = "w\<lparr>os_state := s'\<rparr>"
      have "\<exists>w'. write_loop k fd buf (written + n) ?w = Some (Ok (), w')
          \<and> output (os_state w') = output (os_state ?w) @ drop (written + n) buf \<and> fault_state w' = fault_state ?w"
        using wrote True by (intro less) auto
      moreover have "take n (drop written buf) @ drop (written + n) buf = drop written buf"
        by (metis add.commute append_take_drop_id drop_drop)
      ultimately show ?thesis
        using True wrote by (auto simp: write_loop.simps [of k fd buf written] syscall_def)
    next
      case (interrupted s')
      let ?w = "w\<lparr>os_state := s'\<rparr>"
      have "\<exists>w'. write_loop k fd buf written ?w = Some (Ok (), w')
          \<and> output (os_state w') = output (os_state ?w) @ drop written buf \<and> fault_state w' = fault_state ?w"
        using interrupted by (intro less) auto
      then show ?thesis
        using True interrupted by (auto simp: write_loop.simps [of k fd buf written] syscall_def)
    qed
  qed
qed

lemma write_all_run:
  assumes "writer_progress k fd output pending" and "\<not> flt_tracking (fault_state w)"
  shows "\<exists>w'. write_all k fd buf w = Some (Ok (), w') \<and> output (os_state w') = output (os_state w) @ buf
    \<and> fault_state w' = fault_state w"
  using write_loop_completes [OF assms(1), of buf 0 w] assms(2)
  by (auto simp: write_all_def fault_check_idle)

text \<open>C22. Partial writes and interruptions do not lose or duplicate bytes: on a descriptor whose
  writes make progress and whose interruptions are finitely many, \<open>write_all\<close> returns
  successfully and the output has grown by exactly the buffer.\<close>

theorem write_all_completes:
  assumes "writer_progress k fd output pending" and "\<not> flt_tracking (fault_state w)"
  shows "\<exists>w'. write_all k fd buf w = Some (Ok (), w')
    \<and> output (os_state w') = output (os_state w) @ buf"
  using write_all_run [OF assms] by blast

text \<open>A kernel that supports nothing, the base of the small kernels of the examples.\<close>

definition bare_os :: "'s os" where
  "bare_os = \<lparr>
     os_strerror = (\<lambda>_. []),
     sys_open = (\<lambda>_ _ s. (Inl ENOSYS, s)), sys_openat = (\<lambda>_ _ _ _ s. (Inl ENOSYS, s)),
     sys_openat2 = (\<lambda>_ _ _ _ _ s. (Inl ENOSYS, s)), sys_mkdirat = (\<lambda>_ _ _ s. (Inl ENOSYS, s)),
     sys_fsync = (\<lambda>_ s. (Inl ENOSYS, s)), sys_renameat2 = (\<lambda>_ _ _ _ _ s. (Inl ENOSYS, s)),
     sys_renameat = (\<lambda>_ _ _ _ s. (Inl ENOSYS, s)), sys_linkat = (\<lambda>_ _ _ _ _ s. (Inl ENOSYS, s)),
     sys_unlinkat = (\<lambda>_ _ _ s. (Inl ENOSYS, s)), sys_fstatat = (\<lambda>_ _ _ s. (Inl ENOSYS, s)),
     sys_fstat = (\<lambda>_ s. (Inl ENOSYS, s)), sys_statfs_type = (\<lambda>_ s. (Inl ENOSYS, s)),
     sys_fchmodat = (\<lambda>_ _ _ s. (Inl ENOSYS, s)), sys_clock_gettime = (\<lambda>_ s. (Inl ENOSYS, s)),
     sys_getrandom = (\<lambda>_ s. (Inl ENOSYS, s)), sys_write = (\<lambda>_ _ s. (Inl ENOSYS, s)),
     sys_writev = (\<lambda>_ _ s. (Inl ENOSYS, s)), sys_pwrite = (\<lambda>_ _ _ s. (Inl ENOSYS, s)),
     sys_read = (\<lambda>_ _ s. (Inl ENOSYS, s)), sys_pread = (\<lambda>_ _ _ s. (Inl ENOSYS, s)),
     sys_fdopendir = (\<lambda>_ s. (Inl ENOSYS, s)), sys_readdir = (\<lambda>_ s. (Inl ENOSYS, s)),
     sys_lseek = (\<lambda>_ _ s. (Inl ENOSYS, s)), sys_ofd_setlk = (\<lambda>_ _ s. (Inl ENOSYS, s))\<rparr>"

text \<open>It interrupts as often as the first component says, then writes byte by byte.\<close>

definition trickle_os :: "(nat \<times> bytes) os" where
  "trickle_os = bare_os\<lparr>sys_write := (\<lambda>_ b (p, out).
     if 0 < p then (Inl EINTR, (p - 1, out)) else (Inr 1, (p, out @ take 1 b)))\<rparr>"

definition idle_world :: "'s \<Rightarrow> 's world" where
  "idle_world s = \<lparr>fault_state = fault_state_new, os_state = s\<rparr>"

lemma idle_world_simps [simp]:
  "flt_tracking (fault_state (idle_world s)) = False" "os_state (idle_world s) = s"
  by (simp_all add: idle_world_def fault_state_new_def)

lemma trickle_progress: "writer_progress trickle_os fd snd fst"
  unfolding writer_progress_def trickle_os_def by (auto simp: Suc_le_eq)

theorem write_all_completes_witness:
  "writer_progress trickle_os 3 snd fst \<and> \<not> flt_tracking (fault_state (idle_world (2 :: nat, [7])))
   \<and> (\<exists>w'. write_all trickle_os 3 [1, 2, 3] (idle_world (2, [7])) = Some (Ok (), w')
        \<and> snd (os_state w') = [7, 1, 2, 3])"
  using write_all_completes [OF trickle_progress, of "idle_world (2, [7])" 3 "[1, 2, 3]"]
    trickle_progress [of 3] by simp

subsection \<open>Writing vectors, and writing over what is there\<close>

text \<open>The same for \<^verbatim>\<open>writev(2)\<close>, which appends a prefix of the buffers taken together, and for \<^verbatim>\<open>pwrite(2)\<close>
  within the file, which replaces bytes in place; its loop does not expect interruptions.\<close>

definition writev_progress :: "'s os \<Rightarrow> fd \<Rightarrow> ('s \<Rightarrow> bytes) \<Rightarrow> ('s \<Rightarrow> nat) \<Rightarrow> bool" where
  "writev_progress k fd output pending \<longleftrightarrow>
     (\<forall>s bs. concat bs \<noteq> [] \<longrightarrow>
        (\<exists>n s'. sys_writev k fd bs s = (Inr n, s') \<and> 0 < n \<and> n \<le> length (concat bs) \<and> output s' = output s @ take n (concat bs))
        \<or> (\<exists>s'. sys_writev k fd bs s = (Inl EINTR, s') \<and> output s' = output s \<and> pending s' < pending s))"

definition pwrite_progress :: "'s os \<Rightarrow> fd \<Rightarrow> ('s \<Rightarrow> bytes) \<Rightarrow> bool" where
  "pwrite_progress k fd output \<longleftrightarrow>
     (\<forall>s b off. b \<noteq> [] \<longrightarrow> unat off + length b \<le> length (output s) \<longrightarrow>
        (\<exists>n s'. sys_pwrite k fd b off s = (Inr n, s') \<and> 0 < n \<and> n \<le> length b
           \<and> output s' = take (unat off) (output s) @ take n b @ drop (unat off + n) (output s)))"

lemma u64_of_nat: "n < 2 ^ 64 \<Longrightarrow> unat (word_of_nat n :: u64) = n"
  by (simp add: unsigned_of_nat take_bit_nat_eq_self)

lemma concat_advance_iovs: "concat (advance_iovs n bs) = drop n (concat bs)"
  by (induction n bs rule: advance_iovs.induct) auto

lemma advance_iovs_nonempty: "[] \<notin> set bs \<Longrightarrow> [] \<notin> set (advance_iovs n bs)"
  by (induction n bs rule: advance_iovs.induct) auto

lemma concat_nonempty: "bs \<noteq> [] \<Longrightarrow> [] \<notin> set bs \<Longrightarrow> concat bs \<noteq> []"
  by (cases bs) auto

lemma writev_loop_completes:
  assumes "writev_progress k fd output pending" and "[] \<notin> set bs"
  shows "\<exists>w'. writev_loop k fd bs w = Some (Ok (), w')
    \<and> output (os_state w') = output (os_state w) @ concat bs \<and> fault_state w' = fault_state w"
  using assms(2)
proof (induction "(length (concat bs), pending (os_state w))" arbitrary: bs w
    rule: wf_induct_rule [OF wf_lex_prod [OF wf_less_than wf_less_than]])
  case less: 1
  show ?case
  proof (cases "bs = []")
    case True
    then show ?thesis by (simp add: writev_loop.simps)
  next
    case False
    then have ne: "concat bs \<noteq> []" using less.prems by (rule concat_nonempty)
    consider
      (wrote) n s' where "sys_writev k fd bs (os_state w) = (Inr n, s')" "0 < n" "n \<le> length (concat bs)"
        "output s' = output (os_state w) @ take n (concat bs)"
    | (interrupted) s' where "sys_writev k fd bs (os_state w) = (Inl EINTR, s')" "output s' = output (os_state w)"
        "pending s' < pending (os_state w)"
      using assms(1) ne unfolding writev_progress_def by blast
    then show ?thesis
    proof cases
      case (wrote n s')
      let ?w = "w\<lparr>os_state := s'\<rparr>" and ?bs = "advance_iovs n bs"
      have "\<exists>w'. writev_loop k fd ?bs ?w = Some (Ok (), w')
          \<and> output (os_state w') = output (os_state ?w) @ concat ?bs \<and> fault_state w' = fault_state ?w"
        by (rule less) (use wrote less.prems in \<open>auto simp: concat_advance_iovs advance_iovs_nonempty\<close>)
      then show ?thesis
        using False wrote by (auto simp: writev_loop.simps [of k fd bs] syscall_def concat_advance_iovs)
    next
      case (interrupted s')
      let ?w = "w\<lparr>os_state := s'\<rparr>"
      have "\<exists>w'. writev_loop k fd bs ?w = Some (Ok (), w')
          \<and> output (os_state w') = output (os_state ?w) @ concat bs \<and> fault_state w' = fault_state ?w"
        by (rule less) (use interrupted less.prems in auto)
      then show ?thesis
        using False interrupted by (auto simp: writev_loop.simps [of k fd bs] syscall_def)
    qed
  qed
qed

lemma concat_filter_nonempty: "concat (filter (\<lambda>b. b \<noteq> []) bs) = concat bs"
  by (induction bs) auto

lemma writev_all_run:
  assumes "writev_progress k fd output pending" and "\<not> flt_tracking (fault_state w)"
  shows "\<exists>w'. writev_all k fd bs w = Some (Ok (), w') \<and> output (os_state w') = output (os_state w) @ concat bs
    \<and> fault_state w' = fault_state w"
  using writev_loop_completes [OF assms(1), of "filter (\<lambda>b. b \<noteq> []) bs" w] assms(2)
  by (auto simp: writev_all_def fault_check_idle concat_filter_nonempty list_all_iff concat_eq_Nil_conv [THEN iffD2])

lemma pwrite_loop_completes:
  assumes "pwrite_progress k fd output" and "\<not> flt_tracking (fault_state w)" and "written \<le> length buf"
    and "start + length buf \<le> length (output (os_state w))" and "length (output (os_state w)) < 2 ^ 64"
  shows "\<exists>w'. pwrite_loop k fd buf written (word_of_nat (start + written)) w = Some (Ok (), w')
    \<and> output (os_state w') = take (start + written) (output (os_state w)) @ drop written buf
        @ drop (start + length buf) (output (os_state w)) \<and> fault_state w' = fault_state w"
  using assms(2-)
proof (induction "length buf - written" arbitrary: written w rule: less_induct)
  case less
  show ?case
  proof (cases "written < length buf")
    case False
    then show ?thesis using less.prems by (simp add: pwrite_loop.simps)
  next
    case True
    let ?out = "output (os_state w)" and ?off = "word_of_nat (start + written) :: u64"
    have off: "unat ?off = start + written"
      using less.prems True by (intro u64_of_nat) simp
    have "drop written buf \<noteq> []" "unat ?off + length (drop written buf) \<le> length ?out"
      unfolding off using less.prems True by simp_all
    with assms(1) obtain n s' where wrote: "sys_pwrite k fd (drop written buf) ?off (os_state w) = (Inr n, s')" "0 < n" "n \<le> length buf - written"
      "output s' = take (start + written) ?out @ take n (drop written buf) @ drop (start + written + n) ?out"
      unfolding pwrite_progress_def using off by (metis length_drop)
    let ?w = "w\<lparr>os_state := s'\<rparr>"
    have run: "pwrite k fd (drop written buf) ?off w = Some (Ok n, ?w)"
      using wrote(1) less.prems(1) by (simp add: pwrite_def fault_check_idle syscall_def)
    have len: "length (output s') = length ?out" using wrote less.prems True by simp
    have "\<exists>w'. pwrite_loop k fd buf (written + n) (word_of_nat (start + (written + n))) ?w = Some (Ok (), w')
        \<and> output (os_state w') = take (start + (written + n)) (output (os_state ?w)) @ drop (written + n) buf
            @ drop (start + length buf) (output (os_state ?w)) \<and> fault_state w' = fault_state ?w"
      by (rule less) (use wrote less.prems True len in auto)
    moreover have "take (start + (written + n)) (output s') = take (start + written) ?out @ take n (drop written buf)"
      using wrote less.prems True by simp
    moreover have "drop (start + length buf) (output s') = drop (start + length buf) ?out"
      using wrote less.prems True by (simp add: add.commute)
    moreover have "take n (drop written buf) @ drop (written + n) buf = drop written buf"
      by (metis add.commute append_take_drop_id drop_drop)
    ultimately show ?thesis
      using True run wrote(2) by (auto simp: pwrite_loop.simps [of k fd buf written] add.assoc)
  qed
qed

lemma pwrite_all_run:
  assumes "pwrite_progress k fd output" and "\<not> flt_tracking (fault_state w)"
    and "length buf \<le> length (output (os_state w))" and "length (output (os_state w)) < 2 ^ 64"
  shows "\<exists>w'. pwrite_all k fd buf 0 w = Some (Ok (), w')
    \<and> output (os_state w') = buf @ drop (length buf) (output (os_state w)) \<and> fault_state w' = fault_state w"
  using pwrite_loop_completes [OF assms(1,2), of 0 buf 0] assms(3,4) by (simp add: pwrite_all_def)

text \<open>A kernel that writes one byte at a time in each of these ways.\<close>

definition scribble_os :: "(nat \<times> bytes) os" where
  "scribble_os = trickle_os\<lparr>sys_writev := (\<lambda>_ bs (p, out).
       if 0 < p then (Inl EINTR, (p - 1, out)) else (Inr 1, (p, out @ take 1 (concat bs)))),
     sys_pwrite := (\<lambda>_ b off (p, out). (Inr 1, (p, take (unat off) out @ take 1 b @ drop (unat off + 1) out)))\<rparr>"

lemma scribble_progress:
  "writer_progress scribble_os fd snd fst" "writev_progress scribble_os fd snd fst" "pwrite_progress scribble_os fd snd"
  unfolding writer_progress_def writev_progress_def pwrite_progress_def scribble_os_def trickle_os_def
  by (auto simp: Suc_le_eq)

subsection \<open>Reading exactly\<close>

text \<open>
  What \<^verbatim>\<open>pread(2)\<close> promises on an unchanging file: a nonempty prefix of what was asked for, nothing
  only at or after the end, or an interruption, finitely often.
\<close>

definition reader_progress :: "'s os \<Rightarrow> fd \<Rightarrow> bytes \<Rightarrow> ('s \<Rightarrow> nat) \<Rightarrow> bool" where
  "reader_progress k fd data pending \<longleftrightarrow>
     (\<forall>s len off. 0 < len \<longrightarrow>
        (\<exists>n s'. sys_pread k fd len off s = (Inr (take n (drop (unat off) data)), s') \<and> 0 < n \<and> n \<le> len)
        \<or> (\<exists>s'. sys_pread k fd len off s = (Inl EINTR, s') \<and> pending s' < pending s))"

lemma reader_progressE:
  assumes "reader_progress k fd data pending" and "0 < len"
  obtains (got) n s' where "sys_pread k fd len off s = (Inr (take n (drop (unat off) data)), s')"
      and "0 < n" and "n \<le> len"
  | (interrupted) s' where "sys_pread k fd len off s = (Inl EINTR, s')" and "pending s' < pending s"
  using assms unfolding reader_progress_def by blast

lemma pread_loop_returns:
  assumes "reader_progress k fd data pending" and "0 < len"
  shows "\<exists>n s'. pread_loop k fd len off w = Some (Ok (take n (drop (unat off) data)), w\<lparr>os_state := s'\<rparr>)
    \<and> 0 < n \<and> n \<le> len"
proof (induction "pending (os_state w)" arbitrary: w rule: less_induct)
  case less
  from assms show ?case
  proof (cases rule: reader_progressE [where s = "os_state w" and off = off])
    case (got n s')
    then show ?thesis
      by (intro exI [where x = n] exI [where x = s']) (simp add: pread_loop.simps [of k fd len off w] syscall_def)
  next
    case (interrupted s')
    then obtain n s'' where "pread_loop k fd len off (w\<lparr>os_state := s'\<rparr>)
        = Some (Ok (take n (drop (unat off) data)), w\<lparr>os_state := s''\<rparr>)" "0 < n" "n \<le> len"
      using less [of "w\<lparr>os_state := s'\<rparr>"] by auto
    then show ?thesis
      using interrupted
      by (intro exI [where x = n] exI [where x = s'']) (simp add: pread_loop.simps [of k fd len off w] syscall_def)
  qed
qed

lemma pread_exact_loop_run:
  assumes r: "reader_progress k fd data pending" and "\<not> flt_tracking (fault_state w)"
    and "length filled \<le> len" and "unat cur + (len - length filled) < 2 ^ 64"
  shows "\<exists>s'. pread_exact_loop k fd len filled cur w =
    Some (if length filled < len \<and> length data < unat cur + (len - length filled)
          then Err (io_error_new Kind_UnexpectedEof ''pread hit EOF before filling buffer'')
          else Ok (filled @ take (len - length filled) (drop (unat cur) data)), w\<lparr>os_state := s'\<rparr>)"
  using assms(2-)
proof (induction "len - length filled" arbitrary: filled cur w rule: less_induct)
  case less
  show ?case
  proof (cases "length filled < len")
    case False
    then show ?thesis using less.prems by (auto simp: pread_exact_loop.simps intro!: exI [where x = "os_state w"])
  next
    case True
    let ?m = "len - length filled"
    from r True obtain n s' where p: "pread_loop k fd ?m cur w
        = Some (Ok (take n (drop (unat cur) data)), w\<lparr>os_state := s'\<rparr>)" and n: "0 < n" "n \<le> ?m"
      using pread_loop_returns [where len = ?m and w = w and off = cur] by (metis zero_less_diff)
    let ?bs = "take n (drop (unat cur) data)"
    have step: "pread k fd ?m cur w = Some (Ok ?bs, w\<lparr>os_state := s'\<rparr>)"
      using p less.prems(1) by (simp add: pread_def fault_check_idle)
    show ?thesis
    proof (cases "?bs = []")
      case bs: True
      then have "length data \<le> unat cur" using n by simp
      then show ?thesis
        using True bs step by (auto simp: pread_exact_loop.simps [of k fd len filled] intro!: exI [where x = s'])
    next
      case bs: False
      define l where "l = length ?bs"
      have l: "0 < l" "l \<le> ?m" using bs n unfolding l_def by auto
      have bs_l: "?bs = take l (drop (unat cur) data)"
        unfolding l_def by (simp add: min_def)
      have cur: "unat (cur + word_of_nat l) = unat cur + l"
        using less.prems(3) l by (simp add: unat_word_ariths unsigned_of_nat take_bit_nat_eq_self)
      have len: "length (filled @ ?bs) = length filled + l" by (simp add: l_def)
      have "len - length (filled @ ?bs) < ?m" "length (filled @ ?bs) \<le> len"
        "unat (cur + word_of_nat l) + (len - length (filled @ ?bs)) < 2 ^ 64"
        using less.prems l True unfolding len cur by auto
      from less.hyps [OF this(1) _ this(2,3), of "w\<lparr>os_state := s'\<rparr>"] less.prems(1)
      obtain s'' where ih: "pread_exact_loop k fd len (filled @ ?bs) (cur + word_of_nat l) (w\<lparr>os_state := s'\<rparr>) =
          Some (if length filled + l < len \<and> length data < unat cur + l + (len - (length filled + l))
                then Err (io_error_new Kind_UnexpectedEof ''pread hit EOF before filling buffer'')
                else Ok ((filled @ ?bs) @ take (len - (length filled + l)) (drop (unat cur + l) data)), w\<lparr>os_state := s''\<rparr>)"
        unfolding len cur by auto
      have m: "?m = l + (len - (length filled + l))" using l by simp
      have cat: "?bs @ take (len - (length filled + l)) (drop (unat cur + l) data) = take ?m (drop (unat cur) data)"
        unfolding m bs_l take_add by (simp add: add.commute)
      have "l \<le> length data - unat cur" unfolding l_def by simp
      then have cond: "length filled + l < len \<and> length data < unat cur + l + (len - (length filled + l))
          \<longleftrightarrow> length data < unat cur + ?m"
        using l True by auto
      have "pread_exact_loop k fd len filled cur w =
          pread_exact_loop k fd len (filled @ ?bs) (cur + word_of_nat l) (w\<lparr>os_state := s'\<rparr>)"
        using True bs step by (simp add: pread_exact_loop.simps [of k fd len filled] l_def)
      then show ?thesis
        using ih True cat cond by (simp only: append_assoc) auto
    qed
  qed
qed


lemma pread_exact_run:
  assumes "reader_progress k fd data pending" and "\<not> flt_tracking (fault_state w)"
    and "unat offset + len < 2 ^ 64"
  shows "\<exists>s'. pread_exact k fd len offset w =
    Some (if 0 < len \<and> length data < unat offset + len
          then Err (io_error_new Kind_UnexpectedEof ''pread hit EOF before filling buffer'')
          else Ok (take len (drop (unat offset) data)), w\<lparr>os_state := s'\<rparr>)"
proof -
  have "unat offset + (len - length []) < 2 ^ 64" using assms(3) by simp
  from pread_exact_loop_run [OF assms(1,2) _ this] show ?thesis
    unfolding pread_exact_def by (simp only: list.size minus_nat.diff_0 append_Nil)
qed

text \<open>C23. \<open>pread_exact\<close> returns exactly the requested range of the file however the kernel splits
  the reads, and the end-of-file error exactly when the range passes the end; it always
  returns if interruptions are finitely many.\<close>

theorem pread_exact_reads:
  assumes "reader_progress k fd data pending" and "\<not> flt_tracking (fault_state w)"
    and "unat offset + len < 2 ^ 64"
  shows "\<exists>w'. pread_exact k fd len offset w =
    Some (if 0 < len \<and> length data < unat offset + len
          then Err (io_error_new Kind_UnexpectedEof ''pread hit EOF before filling buffer'')
          else Ok (take len (drop (unat offset) data)), w')"
  using pread_exact_run [OF assms] by blast

definition byte_at_a_time_os :: "bytes \<Rightarrow> nat os" where
  "byte_at_a_time_os data = bare_os\<lparr>sys_pread := (\<lambda>_ len off p.
     if 0 < p then (Inl EINTR, p - 1) else (Inr (take 1 (drop (unat off) data)), p))\<rparr>"

lemma byte_at_a_time_progress: "reader_progress (byte_at_a_time_os data) fd data (\<lambda>p. p)"
  unfolding reader_progress_def byte_at_a_time_os_def by (auto simp: Suc_le_eq intro!: exI [where x = 1])

theorem pread_exact_reads_witness:
  "reader_progress (byte_at_a_time_os [5, 6, 7, 8]) 3 [5, 6, 7, 8] (\<lambda>p. p)
   \<and> (\<exists>w'. pread_exact (byte_at_a_time_os [5, 6, 7, 8]) 3 2 1 (idle_world 4) = Some (Ok [6, 7], w'))
   \<and> (\<exists>w'. pread_exact (byte_at_a_time_os [5, 6, 7, 8]) 3 4 2 (idle_world 0) =
         Some (Err (io_error_new Kind_UnexpectedEof ''pread hit EOF before filling buffer''), w'))"
  using pread_exact_reads [OF byte_at_a_time_progress, of "idle_world 4" 1 2 "[5, 6, 7, 8]" 3]
    pread_exact_reads [OF byte_at_a_time_progress, of "idle_world 0" 2 4 "[5, 6, 7, 8]" 3]
    byte_at_a_time_progress [of "[5, 6, 7, 8]" 3]
  by simp
subsection \<open>Enumerating a directory\<close>

text \<open>A directory stream delivers its entries one by one and then its end.\<close>

definition stream_law :: "'s os \<Rightarrow> fd \<Rightarrow> ('s \<Rightarrow> (bytes \<times> int) list) \<Rightarrow> bool" where
  "stream_law k dir rest \<longleftrightarrow>
     (\<forall>s. case rest s of
        [] \<Rightarrow> (\<exists>s'. sys_readdir k dir s = (Inr None, s'))
      | x # xs \<Rightarrow> (\<exists>s'. sys_readdir k dir s = (Inr (Some x), s') \<and> rest s' = xs))"

definition visible_names :: "(bytes \<times> int) list \<Rightarrow> DirEntryName list" where
  "visible_names xs = filter (\<lambda>n. \<not> is_dot n) (map fst xs)"

definition name_bytes :: "DirEntryName list \<Rightarrow> nat" where
  "name_bytes ns = sum_list (map length ns)"

definition progress_of :: "DirEntryName list \<Rightarrow> DirectoryEnumerationProgress" where
  "progress_of ns = \<lparr>entries_read = word_of_nat (length ns), name_bytes_read = word_of_nat (name_bytes ns)\<rparr>"

lemma visible_names_Cons [simp]:
  "visible_names ((n, off) # xs) = (if is_dot n then visible_names xs else n # visible_names xs)"
  by (simp add: visible_names_def)

lemma visible_names_Nil [simp]: "visible_names [] = []"
  by (simp add: visible_names_def)

lemma name_bytes_simps [simp]:
  "name_bytes [] = 0" "name_bytes (n # ns) = length n + name_bytes ns"
  "name_bytes (ns @ ms) = name_bytes ns + name_bytes ms"
  by (simp_all add: name_bytes_def)

lemma accept_entry_eq:
  assumes "length entries < 2 ^ 64 - 1" and "name_bytes entries + length name < 2 ^ 64"
  shows "accept_entry max_entries max_name_bytes entries (word_of_nat (name_bytes entries)) (progress_of entries) name =
    (if length entries < unat max_entries \<and> name_bytes entries + length name \<le> unat max_name_bytes
     then Ok (entries @ [name], word_of_nat (name_bytes (entries @ [name])), progress_of (entries @ [name]))
     else Err (Enumeration_Io (io_error_new Kind_FileTooLarge
            ''directory exceeds configured recovery scan bound'') (progress_of (entries @ [name]))))"
proof -
  have n: "unat (word_of_nat (name_bytes entries) :: u64) = name_bytes entries"
    "unat (word_of_nat (length name) :: u64) = length name"
    "unat (word_of_nat (length entries) :: u64) = length entries"
    "unat (word_of_nat (name_bytes entries + length name) :: u64) = name_bytes entries + length name"
    by (rule u64_of_nat, use assms in linarith)+
  have add: "checked_add (word_of_nat (name_bytes entries) :: u64) (word_of_nat (length name))
      = Some (word_of_nat (name_bytes entries + length name))"
    unfolding checked_add_eq_Some_iff n ..
  have full: "max_entries \<le> word_of_nat (length entries) \<longleftrightarrow> \<not> length entries < unat max_entries"
    by (simp only: word_le_nat_alt n not_less)
  have long: "max_name_bytes < word_of_nat (name_bytes entries + length name)
      \<longleftrightarrow> \<not> name_bytes entries + length name \<le> unat max_name_bytes"
    by (simp only: word_less_nat_alt n not_le)
  have p1: "saturating_add (word_of_nat (length entries) :: u64) 1 = word_of_nat (length entries + 1)"
    using assms(1) by (simp add: saturating_add_def n)
  have p2: "saturating_add (word_of_nat (name_bytes entries) :: u64) (word_of_nat (length name))
      = word_of_nat (name_bytes entries + length name)"
    using assms(2) by (simp add: saturating_add_def n)
  have "progress_of (entries @ [name]) =
      \<lparr>entries_read = word_of_nat (length entries + 1),
       name_bytes_read = word_of_nat (name_bytes entries + length name)\<rparr>"
    by (simp add: progress_of_def)
  moreover have "name_bytes (entries @ [name]) = name_bytes entries + length name" by simp
  ultimately show ?thesis
    unfolding accept_entry_def Let_def add option.case full long progress_of_def
      DirectoryEnumerationProgress.select_convs p1 p2
    by (simp only: de_Morgan_conj [symmetric] if_not_P if_P not_not split: if_split) blast
qed

lemma stream_law_Nil:
  assumes "stream_law k dir rest" and "rest s = []"
  obtains s' where "sys_readdir k dir s = (Inr None, s')"
  using assms(1) [unfolded stream_law_def, THEN spec, of s] assms(2) that by auto

lemma stream_law_Cons:
  assumes "stream_law k dir rest" and "rest s = x # xs"
  obtains s' where "sys_readdir k dir s = (Inr (Some x), s')" and "rest s' = xs"
  using assms(1) [unfolded stream_law_def, THEN spec, of s] assms(2) that by auto

lemma enumerate_loop_bounded:
  assumes "stream_law k dir rest"
    and "length entries + length (visible_names (rest (os_state w))) < 2 ^ 64"
    and "name_bytes entries + name_bytes (visible_names (rest (os_state w))) < 2 ^ 64"
    and "length entries \<le> unat max_entries" and "name_bytes entries \<le> unat max_name_bytes"
  shows "\<exists>r w'. enumerate_loop k (io_return (Ok False)) max_entries max_name_bytes dir entries
        (word_of_nat (name_bytes entries)) (progress_of entries) w = Some (r, w')
    \<and> (let all = entries @ visible_names (rest (os_state w)) in
       if length all \<le> unat max_entries \<and> name_bytes all \<le> unat max_name_bytes
       then r = Ok (all, progress_of all)
       else \<exists>p. r = Err (Enumeration_Io (io_error_new Kind_FileTooLarge
                   ''directory exceeds configured recovery scan bound'') p))"
  using assms(2-)
proof (induction "rest (os_state w)" arbitrary: entries w)
  case Nil
  obtain s' where "sys_readdir k dir (os_state w) = (Inr None, s')"
    using stream_law_Nil [OF assms(1) Nil.hyps [symmetric]] .
  then show ?case
    using Nil by (simp add: enumerate_loop.simps [of k] next_raw_def syscall_def flip: Nil.hyps)
next
  case (Cons x xs)
  obtain n off where x: "x = (n, off)" by (cases x)
  obtain s' where rd: "sys_readdir k dir (os_state w) = (Inr (Some x), s')" and rest: "rest s' = xs"
    using stream_law_Cons [OF assms(1) Cons.hyps(2) [symmetric]] .
  let ?w = "w\<lparr>os_state := s'\<rparr>"
  have xs: "xs = rest (os_state ?w)" using rest by simp
  have vis: "visible_names (rest (os_state w)) = (if is_dot n then visible_names xs else n # visible_names xs)"
    by (simp add: x flip: Cons.hyps(2))
  show ?case
  proof (cases "is_dot n")
    case True
    then show ?thesis
      using Cons.hyps(1) [OF xs, of entries] Cons.prems rd vis rest
      by (simp add: enumerate_loop.simps [of k _ _ _ _ _ _ _ w] next_raw_def syscall_def x)
  next
    case False
    have acc: "length entries < 2 ^ 64 - 1" "name_bytes entries + length n < 2 ^ 64"
      using Cons.prems False vis by auto
    show ?thesis
    proof (cases "length entries < unat max_entries \<and> name_bytes entries + length n \<le> unat max_name_bytes")
      case ok: True
      then show ?thesis
        using Cons.hyps(1) [OF xs, of "entries @ [n]"] Cons.prems rd vis rest False accept_entry_eq [OF acc, of max_entries max_name_bytes]
        by (simp add: enumerate_loop.simps [of k _ _ _ _ _ _ _ w] next_raw_def syscall_def x)
    next
      case bad: False
      then show ?thesis
        using Cons.prems rd vis rest False accept_entry_eq [OF acc, of max_entries max_name_bytes]
        by (auto simp add: enumerate_loop.simps [of k _ _ _ _ _ _ _ w] next_raw_def syscall_def x Let_def)
    qed
  qed
qed

text \<open>C24. A bounded enumeration is complete or says why not: over a stream that delivers a
  directory's entries it returns every entry but dot and dot-dot, in order and with exact
  progress counts, exactly when their number and their total length are within the bounds,
  and the file-too-large error otherwise.\<close>

theorem enumerate_bounded:
  assumes "stream_law k dir rest" and "names = visible_names (rest (os_state w))"
    and "length names < 2 ^ 64" and "name_bytes names < 2 ^ 64"
  shows "\<exists>r w'. enumerate_loop k (io_return (Ok False)) max_entries max_name_bytes dir [] 0 no_progress w
      = Some (r, w')
    \<and> (if length names \<le> unat max_entries \<and> name_bytes names \<le> unat max_name_bytes
       then r = Ok (names, \<lparr>entries_read = word_of_nat (length names),
                           name_bytes_read = word_of_nat (name_bytes names)\<rparr>)
       else \<exists>p. r = Err (Enumeration_Io (io_error_new Kind_FileTooLarge
                   ''directory exceeds configured recovery scan bound'') p))"
proof -
  have e: "progress_of [] = no_progress" "word_of_nat (name_bytes []) = (0 :: u64)"
    by (simp_all add: progress_of_def no_progress_def)
  have "length [] + length names < 2 ^ 64" "name_bytes [] + name_bytes names < 2 ^ 64"
    using assms(3,4) by simp_all
  from enumerate_loop_bounded [OF assms(1), of "[]" w max_entries max_name_bytes, folded assms(2),
      OF this] show ?thesis
    unfolding e append_Nil Let_def progress_of_def [of names] by simp
qed

definition listing_os :: "(bytes \<times> int) list os" where
  "listing_os = bare_os\<lparr>sys_readdir := (\<lambda>_ s. case s of [] \<Rightarrow> (Inr None, []) | x # xs \<Rightarrow> (Inr (Some x), xs))\<rparr>"

lemma listing_stream_law: "stream_law listing_os dir (\<lambda>s. s)"
  by (simp add: stream_law_def listing_os_def split: list.splits)

theorem enumerate_bounded_witness:
  "stream_law listing_os 9 (\<lambda>s. s)
   \<and> (\<exists>w'. enumerate_loop listing_os (io_return (Ok False)) 2 10 9 [] 0 no_progress
         (idle_world [([46], 1), ([46, 46], 2), ([97], 3), ([98, 99], 4)])
       = Some (Ok ([[97], [98, 99]], \<lparr>entries_read = 2, name_bytes_read = 3\<rparr>), w'))"
proof -
  have n: "visible_names [([46], 1), ([46, 46], 2), ([97], 3), ([98, 99], 4)] = [[97], [98, 99]]"
    by (simp add: is_dot_def as_bytes_def char_byte_def)
  show ?thesis
    using enumerate_bounded [OF listing_stream_law,
        of "[[97], [98, 99]]" "idle_world [([46], 1), ([46, 46], 2), ([97], 3), ([98, 99], 4)]" 2 10 9] n
      listing_stream_law [of 9]
    by simp
qed

end
