(* ===== verification/Steadq_Posix.thy ===== *)
theory Steadq_Posix
  imports Steadq_Fs
begin

text \<open>
  What the code relies on from the kernel, as the interface \<open>posix\<close>: a view of the kernel state
  (the object each directory entry names, the directory entries that are certain to survive a
  crash, and the object each descriptor refers to) and the documented effect of the calls on
  it. A call that fails changes nothing, except that a failed barrier may or may not have
  committed its directory as a whole. Objects are the pairs of device and inode numbers.

  The interface is interpreted for \<open>ref_os\<close>, an executable kernel over an explicit name table
  with a script of errors to inject, on which the examples of the later theories run.
\<close>

subsection \<open>Checked system calls\<close>

lemma fault_checked_syscall:
  assumes "fault_check k f ns (syscall k call) w = Some (r, w')"
  obtains (ok) x s' where "r = Ok x" and "call (os_state w) = (Inr x, s')" and "os_state w' = s'"
  | (err) e e' s' where "r = Err e" and "call (os_state w) = (Inl e', s')" and "os_state w' = s'"
  | (injected) e where "r = Err e" and "os_state w' = os_state w"
proof (cases rule: fault_check_cases [OF assms])
  case (1 e s)
  then show ?thesis by (intro injected) auto
next
  case (2 s)
  then obtain r' s' where "call (os_state w) = (r', s')" "r = map_err (from_raw_os_error k) r'"
    "os_state w' = s'"
    by (auto simp: io_simps)
  then show ?thesis by (cases r') (auto intro: ok err)
qed

lemma fault_checked_named:
  assumes "fault_check k f ns (with_name n m) w = Some (r, w')"
  obtains (run) s where "0 \<notin> set (as_bytes n)" and "m (as_bytes n) (w\<lparr>fault_state := s\<rparr>) = Some (r, w')"
  | (refused) e where "r = Err e" and "os_state w' = os_state w"
proof (cases rule: fault_check_cases [OF assms])
  case (1 e s)
  then show ?thesis by (intro refused) auto
next
  case (2 s)
  show ?thesis
  proof (cases "cstr_from_name n")
    case (Inl e)
    then show ?thesis using 2 by (auto simp: with_name_def intro: refused)
  next
    case (Inr p)
    then have "c_string p = as_bytes n" "0 \<notin> set (as_bytes n)"
      using c_string_of_cpath cpath_from_bytes_eq_Ok_iff unfolding cstr_from_name_def by blast+
    then show ?thesis using 2 Inr by (auto simp: with_name_def intro: run)
  qed
qed

type_synonym object_id = "u64 \<times> u64"
type_synonym namespace = "object_id \<times> bytes \<Rightarrow> object_id option"

text \<open>A directory committed: its entries become the visible ones.\<close>

definition commit_dir :: "object_id \<Rightarrow> namespace \<Rightarrow> namespace \<Rightarrow> namespace" where
  "commit_dir d visible committed = (\<lambda>p. if fst p = d then visible p else committed p)"

lemma commit_dir_same [simp]: "commit_dir d visible committed (d, n) = visible (d, n)"
  by (simp add: commit_dir_def)

lemma commit_dir_other [simp]: "d' \<noteq> d \<Longrightarrow> commit_dir d visible committed (d', n) = committed (d', n)"
  by (simp add: commit_dir_def)

locale posix =
  fixes k :: "'s os"
    and names :: "'s \<Rightarrow> namespace"
    and durable :: "'s \<Rightarrow> namespace"
    and obj_of :: "'s \<Rightarrow> fd \<Rightarrow> object_id option"
  assumes renameat2_ok:
      "sys_renameat2 k fd1 n1 fd2 n2 RENAME_NOREPLACE s = (Inr (), s') \<Longrightarrow>
         \<exists>d1 d2 ob. obj_of s fd1 = Some d1 \<and> obj_of s fd2 = Some d2
           \<and> names s (d1, n1) = Some ob \<and> names s (d2, n2) = None
           \<and> names s' = (names s)((d1, n1) := None, (d2, n2) := Some ob)
           \<and> durable s' = durable s \<and> obj_of s' = obj_of s"
    and renameat2_err:
      "sys_renameat2 k fd1 n1 fd2 n2 RENAME_NOREPLACE s = (Inl e, s') \<Longrightarrow>
         names s' = names s \<and> durable s' = durable s \<and> obj_of s' = obj_of s"
    and renameat_ok:
      "sys_renameat k fd1 n1 fd2 n2 s = (Inr (), s') \<Longrightarrow>
         \<exists>d1 d2 ob. obj_of s fd1 = Some d1 \<and> obj_of s fd2 = Some d2 \<and> names s (d1, n1) = Some ob
           \<and> (names s' = (names s)((d1, n1) := None, (d2, n2) := Some ob)
              \<or> names s (d2, n2) = Some ob \<and> names s' = names s)
           \<and> durable s' = durable s \<and> obj_of s' = obj_of s"
    and renameat_err:
      "sys_renameat k fd1 n1 fd2 n2 s = (Inl e, s') \<Longrightarrow>
         names s' = names s \<and> durable s' = durable s \<and> obj_of s' = obj_of s"
    and unlinkat_ok:
      "sys_unlinkat k fd n flags s = (Inr (), s') \<Longrightarrow>
         \<exists>d. obj_of s fd = Some d \<and> names s (d, n) \<noteq> None \<and> names s' = (names s)((d, n) := None)
           \<and> durable s' = durable s \<and> obj_of s' = obj_of s"
    and unlinkat_err:
      "sys_unlinkat k fd n flags s = (Inl e, s') \<Longrightarrow>
         names s' = names s \<and> durable s' = durable s \<and> obj_of s' = obj_of s"
    and linkat_ok:
      "sys_linkat k fd path dfd n flags s = (Inr (), s') \<Longrightarrow>
         \<exists>d ob. obj_of s dfd = Some d \<and> names s (d, n) = None
           \<and> (flags = AT_EMPTY_PATH \<longrightarrow> obj_of s fd = Some ob)
           \<and> (\<forall>fd'. flags = AT_SYMLINK_FOLLOW \<and> path = as_bytes (''/proc/self/fd/'' @ decimal fd')
                \<longrightarrow> obj_of s (int fd') = Some ob)
           \<and> names s' = (names s)((d, n) := Some ob)
           \<and> durable s' = durable s \<and> obj_of s' = obj_of s"
    and linkat_err:
      "sys_linkat k fd path dfd n flags s = (Inl e, s') \<Longrightarrow>
         names s' = names s \<and> durable s' = durable s \<and> obj_of s' = obj_of s"
    and fsync_ok:
      "sys_fsync k fd s = (Inr (), s') \<Longrightarrow>
         \<exists>d. obj_of s fd = Some d \<and> durable s' = commit_dir d (names s) (durable s)
           \<and> names s' = names s \<and> obj_of s' = obj_of s"
    and fsync_err:
      "sys_fsync k fd s = (Inl e, s') \<Longrightarrow>
         (durable s' = durable s
            \<or> (\<exists>d. obj_of s fd = Some d \<and> durable s' = commit_dir d (names s) (durable s)))
         \<and> names s' = names s \<and> obj_of s' = obj_of s"
    and fstat_frame:
      "sys_fstat k fd s = (r, s') \<Longrightarrow>
         names s' = names s \<and> durable s' = durable s \<and> obj_of s' = obj_of s"
    and fstat_ok:
      "sys_fstat k fd s = (Inr st, s') \<Longrightarrow> obj_of s fd = Some (st_dev st, st_ino st)"
    and fstatat_frame:
      "sys_fstatat k fd n flags s = (r, s') \<Longrightarrow>
         names s' = names s \<and> durable s' = durable s \<and> obj_of s' = obj_of s"
    and fstatat_ok:
      "sys_fstatat k fd n AT_SYMLINK_NOFOLLOW s = (Inr st, s') \<Longrightarrow>
         \<exists>d. obj_of s fd = Some d \<and> names s (d, n) = Some (st_dev st, st_ino st)"
begin

text \<open>The view of a world, and the frame relation: nothing the view shows has changed.\<close>

definition same_fs :: "'s \<Rightarrow> 's \<Rightarrow> bool" where
  "same_fs s s' \<longleftrightarrow> names s' = names s \<and> durable s' = durable s \<and> obj_of s' = obj_of s"

definition world_names :: "'s world \<Rightarrow> namespace" where "world_names w = names (os_state w)"
definition world_durable :: "'s world \<Rightarrow> namespace" where "world_durable w = durable (os_state w)"
definition world_obj :: "'s world \<Rightarrow> fd \<Rightarrow> object_id option" where "world_obj w = obj_of (os_state w)"

lemmas view_defs = world_names_def world_durable_def world_obj_def

lemma preorder_same_fs [intro, simp]: "preorder_rel same_fs"
  by (auto simp: preorder_rel_def same_fs_def)

lemma os_same_fsD:
  assumes "os_rel same_fs w w'"
  shows "world_names w' = world_names w" and "world_durable w' = world_durable w"
    and "world_obj w' = world_obj w"
  using assms by (auto simp: os_rel_def same_fs_def view_defs)

lemma keeps_fstat: "keeps (os_rel same_fs) (fstat k fd)"
  unfolding fstat_def by (intro keeps_intros keeps_syscall) (auto simp: same_fs_def dest: fstat_frame)

lemma keeps_fstatat: "keeps (os_rel same_fs) (fstatat k fd n)"
  unfolding fstatat_def
  by (intro keeps_intros keeps_syscall) (auto simp: same_fs_def dest: fstatat_frame intro!: preorder_os_rel)

lemma keeps_record: "keeps (os_rel same_fs) (record_fd_identity k f fd)"
  by (intro keeps_intros) (auto simp: same_fs_def dest: fstat_frame)

end


context posix
begin

lemma same_fs_refl [simp]: "same_fs s s"
  by (simp add: same_fs_def)

lemma renameat2_noreplace_cases:
  assumes "renameat2_noreplace k fd1 n1 fd2 n2 w = Some (r, w')"
  obtains (renamed) d1 d2 ob where "r = Ok ()" and "world_obj w fd1 = Some d1" and "world_obj w fd2 = Some d2"
      and "world_names w (d1, as_bytes n1) = Some ob" and "world_names w (d2, as_bytes n2) = None"
      and "world_names w' = (world_names w)((d1, as_bytes n1) := None, (d2, as_bytes n2) := Some ob)"
      and "world_durable w' = world_durable w" and "world_obj w' = world_obj w"
  | (failed) e where "r = Err e" and "os_rel same_fs w w'"
proof -
  from assms show ?thesis
    unfolding renameat2_noreplace_def
  proof (cases rule: fault_checked_named)
    case (run s)
    show ?thesis
    proof (cases "cstr_from_name n2")
      case (Inl e)
      then show ?thesis using run by (auto simp: with_name_def os_rel_def intro: failed)
    next
      case (Inr p)
      then have "c_string p = as_bytes n2" using c_string_of_cpath unfolding cstr_from_name_def by blast
      with run Inr obtain r' s' where
        call: "sys_renameat2 k fd1 (as_bytes n1) fd2 (as_bytes n2) RENAME_NOREPLACE (os_state w) = (r', s')"
        and r: "r = map_err (from_raw_os_error k) r'" and s': "os_state w' = s'"
        by (auto simp: with_name_def io_simps)
      show ?thesis
      proof (cases r')
        case (Inl e)
        then show ?thesis
          using renameat2_err [OF call [unfolded Inl]] r s'
          by (intro failed) (auto simp: os_rel_def same_fs_def)
      next
        case (Inr u)
        then show ?thesis
          using renameat2_ok [of fd1 "as_bytes n1" fd2 "as_bytes n2" "os_state w" s'] call r s'
          by (auto simp: view_defs intro: renamed)
      qed
    qed
  qed (auto simp: os_rel_def intro: failed)
qed

lemma fsync_cases:
  assumes "fsync k fd w = Some (r, w')"
  obtains (synced) d where "r = Ok ()" and "world_obj w fd = Some d" and "world_names w' = world_names w"
      and "world_obj w' = world_obj w" and "world_durable w' = commit_dir d (world_names w) (world_durable w)"
  | (unsynced) e where "r = Err e" and "world_names w' = world_names w" and "world_obj w' = world_obj w"
      and "world_durable w' = world_durable w
        \<or> (\<exists>d. world_obj w fd = Some d \<and> world_durable w' = commit_dir d (world_names w) (world_durable w))"
proof -
  from assms show ?thesis
    unfolding fsync_def
  proof (cases rule: fault_checked_syscall)
    case (ok x s')
    then show ?thesis using fsync_ok [of fd "os_state w" s'] by (auto simp: view_defs intro: synced)
  next
    case (err e e' s')
    then show ?thesis using fsync_err [of fd "os_state w" e' s'] by (auto simp: view_defs intro: unsynced)
  next
    case (injected e)
    then show ?thesis by (intro unsynced) (auto simp: view_defs)
  qed
qed

lemma fsync_dir_fd_cases:
  assumes "fsync_dir_fd k fd w = Some (r, w')"
  obtains (synced) d where "r = Ok ()" and "world_obj w fd = Some d" and "world_names w' = world_names w"
      and "world_obj w' = world_obj w" and "world_durable w' = commit_dir d (world_names w) (world_durable w)"
  | (unsynced) e where "r = Err e" and "world_names w' = world_names w" and "world_obj w' = world_obj w"
      and "world_durable w' = world_durable w
        \<or> (\<exists>d. world_obj w fd = Some d \<and> world_durable w' = commit_dir d (world_names w) (world_durable w))"
proof -
  from assms consider
    (rec) e where "record_fd_identity k ''fsync_dir_fd'' fd w = Some (Inl e, w')" "r = Err e"
    | (go) w1 where "record_fd_identity k ''fsync_dir_fd'' fd w = Some (Ok (), w1)"
        "fault_check k ''fsync_dir_fd'' [] (fsync k fd) w1 = Some (r, w')"
    by (auto simp: fsync_dir_fd_def io_simps)
  then show ?thesis
  proof cases
    case rec
    then show ?thesis using os_same_fsD [OF keepsD [OF keeps_record rec(1)]] by (intro unsynced) auto
  next
    case go
    note w1 = os_same_fsD [OF keepsD [OF keeps_record go(1)]]
    show ?thesis
    proof (cases rule: fault_check_cases [OF go(2)])
      case (1 e s)
      then show ?thesis using w1 by (intro unsynced) (auto simp: view_defs)
    next
      case (2 s)
      let ?w = "w1\<lparr>fault_state := s\<rparr>"
      have v: "world_names ?w = world_names w" "world_durable ?w = world_durable w" "world_obj ?w = world_obj w"
        using w1 by (simp_all add: view_defs)
      from 2 show ?thesis
        by (cases rule: fsync_cases) (use v in \<open>auto intro: synced unsynced\<close>)
    qed
  qed
qed

end

context posix
begin

lemma named_syscall_cases:
  assumes "fault_check k f ns (with_name n (\<lambda>c. syscall k (call c))) w = Some (r, w')"
  obtains (ok) x s' where "r = Ok x" and "call (as_bytes n) (os_state w) = (Inr x, s')" and "os_state w' = s'"
  | (err) e e' s' where "r = Err e" and "call (as_bytes n) (os_state w) = (Inl e', s')" and "os_state w' = s'"
  | (refused) e where "r = Err e" and "os_state w' = os_state w"
proof (cases rule: fault_checked_named [OF assms])
  case (1 s)
  then obtain r' s' where "call (as_bytes n) (os_state w) = (r', s')"
    "r = map_err (from_raw_os_error k) r'" "os_state w' = s'"
    by (auto simp: io_simps)
  then show ?thesis by (cases r') (auto intro: ok err)
next
  case (2 e)
  then show ?thesis by (rule refused)
qed

lemma unlinkat_cases:
  assumes "unlinkat k fd n w = Some (r, w') \<or> unlinkat_dir k fd n w = Some (r, w')"
  obtains (unlinked) d where "r = Ok ()" and "world_obj w fd = Some d"
      and "world_names w (d, as_bytes n) \<noteq> None"
      and "world_names w' = (world_names w)((d, as_bytes n) := None)"
      and "world_durable w' = world_durable w" and "world_obj w' = world_obj w"
  | (failed) e where "r = Err e" and "os_rel same_fs w w'"
proof -
  from assms obtain f flags where
    "fault_check k f [n] (with_name n (\<lambda>c. syscall k (sys_unlinkat k fd c flags))) w = Some (r, w')"
    unfolding unlinkat_def unlinkat_dir_def by blast
  then show ?thesis
  proof (cases rule: named_syscall_cases)
    case (ok x s')
    then show ?thesis
      using unlinkat_ok [of fd "as_bytes n" flags "os_state w" s'] by (auto simp: view_defs intro: unlinked)
  next
    case (err e e' s')
    then show ?thesis
      using unlinkat_err [of fd "as_bytes n" flags "os_state w" e' s']
      by (intro failed) (auto simp: os_rel_def same_fs_def)
  next
    case (refused e)
    then show ?thesis by (intro failed) (auto simp: os_rel_def)
  qed
qed

lemma fstat_objects:
  assumes "fstat k fd w = Some (Ok st, w')"
  shows "world_obj w fd = Some (st_dev st, st_ino st)"
  using assms unfolding fstat_def
  by (cases rule: fault_checked_syscall) (auto simp: view_defs dest: fstat_ok)

lemma fstatat_objects:
  assumes "fstatat k fd n w = Some (Ok st, w')"
  obtains d where "world_obj w fd = Some d" and "world_names w (d, as_bytes n) = Some (st_dev st, st_ino st)"
  using assms unfolding fstatat_def
  by (cases rule: named_syscall_cases) (auto simp: view_defs dest: fstatat_ok)

lemma linkat_empty_path_cases:
  assumes "linkat_empty_path k fd dfd n w = Some (r, w')"
  obtains (linked) d ob where "r = Ok ()" and "world_obj w dfd = Some d" and "world_obj w fd = Some ob"
      and "world_names w (d, as_bytes n) = None"
      and "world_names w' = (world_names w)((d, as_bytes n) := Some ob)"
      and "world_durable w' = world_durable w" and "world_obj w' = world_obj w"
  | (failed) e where "r = Err e" and "os_rel same_fs w w'"
proof -
  from assms show ?thesis
    unfolding linkat_empty_path_def
  proof (cases rule: named_syscall_cases)
    case (ok x s')
    then show ?thesis
      using linkat_ok [of fd "[]" dfd "as_bytes n" AT_EMPTY_PATH "os_state w" s']
      by (auto simp: view_defs intro: linked)
  next
    case (err e e' s')
    then show ?thesis
      using linkat_err [of fd "[]" dfd "as_bytes n" AT_EMPTY_PATH "os_state w" e' s']
      by (intro failed) (auto simp: os_rel_def same_fs_def)
  next
    case (refused e)
    then show ?thesis by (intro failed) (auto simp: os_rel_def)
  qed
qed

lemma linkat_proc_self_fd_cases:
  assumes "linkat_proc_self_fd k (int fd) dfd n w = Some (r, w')" and "fd < 2 ^ 32"
  obtains (linked) d ob where "r = Ok ()" and "world_obj w dfd = Some d" and "world_obj w (int fd) = Some ob"
      and "world_names w (d, as_bytes n) = None"
      and "world_names w' = (world_names w)((d, as_bytes n) := Some ob)"
      and "world_durable w' = world_durable w" and "world_obj w' = world_obj w"
  | (failed) e where "r = Err e" and "os_rel same_fs w w'"
proof -
  have "unat (word_of_int (int fd) :: u32) = fd"
    using assms(2) by (simp add: unsigned_of_nat take_bit_nat_eq_self)
  then have path: "takeWhile (\<lambda>b. b \<noteq> 0) (proc_self_fd_path (int fd)) = as_bytes (''/proc/self/fd/'' @ decimal fd)"
    using proc_path_decimal [THEN conjunct1, of "word_of_int (int fd)"] by (simp only: proc_self_fd_path_def)
  from assms(1) show ?thesis
    unfolding linkat_proc_self_fd_def path
  proof (cases rule: named_syscall_cases)
    case (ok x s')
    then show ?thesis
      using linkat_ok [of AT_FDCWD "as_bytes (''/proc/self/fd/'' @ decimal fd)" dfd "as_bytes n" AT_SYMLINK_FOLLOW "os_state w" s']
      by (auto simp: view_defs simp del: as_bytes_append intro: linked)
  next
    case (err e e' s')
    then show ?thesis
      using linkat_err [of AT_FDCWD "as_bytes (''/proc/self/fd/'' @ decimal fd)" dfd "as_bytes n" AT_SYMLINK_FOLLOW "os_state w" e' s']
      by (intro failed) (auto simp: os_rel_def same_fs_def)
  next
    case (refused e)
    then show ?thesis by (intro failed) (auto simp: os_rel_def)
  qed
qed

lemma renameat_cases:
  assumes "renameat k fd1 n1 fd2 n2 w = Some (r, w')"
  obtains (renamed) d1 d2 ob where "r = Ok ()" and "world_obj w fd1 = Some d1" and "world_obj w fd2 = Some d2"
      and "world_names w (d1, as_bytes n1) = Some ob"
      and "world_names w' = (world_names w)((d1, as_bytes n1) := None, (d2, as_bytes n2) := Some ob)
        \<or> world_names w (d2, as_bytes n2) = Some ob \<and> world_names w' = world_names w"
      and "world_durable w' = world_durable w" and "world_obj w' = world_obj w"
  | (failed) e where "r = Err e" and "os_rel same_fs w w'"
proof -
  from assms show ?thesis
    unfolding renameat_def
  proof (cases rule: fault_checked_named)
    case (run s)
    show ?thesis
    proof (cases "cstr_from_name n2")
      case (Inl e)
      then show ?thesis using run by (auto simp: with_name_def os_rel_def intro: failed)
    next
      case (Inr p)
      then have "c_string p = as_bytes n2" using c_string_of_cpath unfolding cstr_from_name_def by blast
      with run Inr obtain r' s' where
        call: "sys_renameat k fd1 (as_bytes n1) fd2 (as_bytes n2) (os_state w) = (r', s')"
        and r: "r = map_err (from_raw_os_error k) r'" and s': "os_state w' = s'"
        by (auto simp: with_name_def io_simps)
      show ?thesis
      proof (cases r')
        case (Inl e)
        then show ?thesis
          using renameat_err [OF call [unfolded Inl]] r s'
          by (intro failed) (auto simp: os_rel_def same_fs_def)
      next
        case (Inr u)
        then show ?thesis
          using renameat_ok [of fd1 "as_bytes n1" fd2 "as_bytes n2" "os_state w" s'] call r s'
          by (auto simp: view_defs intro: renamed)
      qed
    qed
  qed (auto simp: os_rel_def intro: failed)
qed

end

subsection \<open>A reference kernel\<close>

record RefFs =
  rf_objects :: "fd \<Rightarrow> object_id option"
  rf_names :: namespace
  rf_durable :: namespace
  rf_stat :: "object_id \<Rightarrow> Stat"
  rf_script :: "int option list"

definition EBADF :: int where "EBADF = 9"

text \<open>Every call consumes an entry of the script; an error number there makes it fail.\<close>

definition scripted :: "(RefFs \<Rightarrow> (int + 'a) \<times> RefFs) \<Rightarrow> RefFs \<Rightarrow> (int + 'a) \<times> RefFs" where
  "scripted call s =
     (case rf_script s of
        [] \<Rightarrow> call s
      | None # rest \<Rightarrow> call (s\<lparr>rf_script := rest\<rparr>)
      | Some e # rest \<Rightarrow> (Inl e, s\<lparr>rf_script := rest\<rparr>))"

definition ref_rename :: "bool \<Rightarrow> fd \<Rightarrow> bytes \<Rightarrow> fd \<Rightarrow> bytes \<Rightarrow> RefFs \<Rightarrow> (int + unit) \<times> RefFs" where
  "ref_rename noreplace fd1 n1 fd2 n2 s =
     (case (rf_objects s fd1, rf_objects s fd2) of
        (Some d1, Some d2) \<Rightarrow>
          (case rf_names s (d1, n1) of
             None \<Rightarrow> (Inl ENOENT, s)
           | Some ob \<Rightarrow>
               if noreplace \<and> rf_names s (d2, n2) \<noteq> None then (Inl EEXIST, s)
               else if rf_names s (d2, n2) = Some ob then (Inr (), s)
               else (Inr (), s\<lparr>rf_names := (rf_names s)((d1, n1) := None, (d2, n2) := Some ob)\<rparr>))
      | _ \<Rightarrow> (Inl EBADF, s))"

definition ref_unlink :: "fd \<Rightarrow> bytes \<Rightarrow> RefFs \<Rightarrow> (int + unit) \<times> RefFs" where
  "ref_unlink fd n s =
     (case rf_objects s fd of
        None \<Rightarrow> (Inl EBADF, s)
      | Some d \<Rightarrow> if rf_names s (d, n) = None then (Inl ENOENT, s)
                  else (Inr (), s\<lparr>rf_names := (rf_names s)((d, n) := None)\<rparr>))"

text \<open>Links from a descriptor; links through a path are not supported.\<close>

definition ref_link :: "fd \<Rightarrow> fd \<Rightarrow> bytes \<Rightarrow> int \<Rightarrow> RefFs \<Rightarrow> (int + unit) \<times> RefFs" where
  "ref_link fd dfd n flags s =
     (if flags \<noteq> AT_EMPTY_PATH then (Inl EOPNOTSUPP, s)
      else case (rf_objects s fd, rf_objects s dfd) of
        (Some ob, Some d) \<Rightarrow>
          if rf_names s (d, n) \<noteq> None then (Inl EEXIST, s)
          else (Inr (), s\<lparr>rf_names := (rf_names s)((d, n) := Some ob)\<rparr>)
      | _ \<Rightarrow> (Inl EBADF, s))"

definition ref_fsync :: "fd \<Rightarrow> RefFs \<Rightarrow> (int + unit) \<times> RefFs" where
  "ref_fsync fd s =
     (case rf_objects s fd of
        None \<Rightarrow> (Inl EBADF, s)
      | Some d \<Rightarrow> (Inr (), s\<lparr>rf_durable := commit_dir d (rf_names s) (rf_durable s)\<rparr>))"

definition ref_object_stat :: "object_id \<Rightarrow> RefFs \<Rightarrow> Stat" where
  "ref_object_stat ob s = (rf_stat s ob)\<lparr>st_dev := fst ob, st_ino := snd ob\<rparr>"

definition ref_fstat :: "fd \<Rightarrow> RefFs \<Rightarrow> (int + Stat) \<times> RefFs" where
  "ref_fstat fd s =
     (case rf_objects s fd of None \<Rightarrow> (Inl EBADF, s) | Some ob \<Rightarrow> (Inr (ref_object_stat ob s), s))"

definition ref_fstatat :: "fd \<Rightarrow> bytes \<Rightarrow> RefFs \<Rightarrow> (int + Stat) \<times> RefFs" where
  "ref_fstatat fd n s =
     (case rf_objects s fd of
        None \<Rightarrow> (Inl EBADF, s)
      | Some d \<Rightarrow> (case rf_names s (d, n) of
          None \<Rightarrow> (Inl ENOENT, s)
        | Some ob \<Rightarrow> (Inr (ref_object_stat ob s), s)))"

definition ref_os :: "RefFs os" where
  "ref_os = bare_os\<lparr>
     sys_renameat2 := (\<lambda>fd1 n1 fd2 n2 flags. scripted (ref_rename (flags = RENAME_NOREPLACE) fd1 n1 fd2 n2)),
     sys_renameat := (\<lambda>fd1 n1 fd2 n2. scripted (ref_rename False fd1 n1 fd2 n2)),
     sys_unlinkat := (\<lambda>fd n flags. scripted (ref_unlink fd n)),
     sys_linkat := (\<lambda>fd path dfd n flags. scripted (ref_link fd dfd n flags)),
     sys_fsync := (\<lambda>fd. scripted (ref_fsync fd)),
     sys_fstat := (\<lambda>fd. scripted (ref_fstat fd)),
     sys_fstatat := (\<lambda>fd n flags. scripted (ref_fstatat fd n))\<rparr>"

lemma ref_os_simps [simp]:
  "sys_renameat2 ref_os fd1 n1 fd2 n2 RENAME_NOREPLACE = scripted (ref_rename True fd1 n1 fd2 n2)"
  "sys_renameat ref_os fd1 n1 fd2 n2 = scripted (ref_rename False fd1 n1 fd2 n2)"
  "sys_unlinkat ref_os fd n flags = scripted (ref_unlink fd n)"
  "sys_linkat ref_os fd path dfd n flags = scripted (ref_link fd dfd n flags)"
  "sys_fsync ref_os fd = scripted (ref_fsync fd)"
  "sys_fstat ref_os fd = scripted (ref_fstat fd)"
  "sys_fstatat ref_os fd n flags = scripted (ref_fstatat fd n)"
  by (simp_all add: ref_os_def)

lemma scripted_cases:
  assumes "scripted call s = (r, s')"
  obtains (failed) e where "r = Inl e" and "\<exists>rest. s' = s\<lparr>rf_script := rest\<rparr>"
  | (called) rest where "call (s\<lparr>rf_script := rest\<rparr>) = (r, s')"
proof (cases "rf_script s")
  case Nil
  then have eq: "s\<lparr>rf_script := []\<rparr> = s" by (cases s) simp
  from assms Nil have "call s = (r, s')" by (simp add: scripted_def)
  then have "call (s\<lparr>rf_script := []\<rparr>) = (r, s')" unfolding eq .
  then show ?thesis by (rule called)
next
  case (Cons x rest)
  then show ?thesis
    using assms by (cases x) (auto simp: scripted_def intro: failed called)
qed

lemmas ref_defs =
  ref_rename_def ref_unlink_def ref_link_def ref_fsync_def ref_fstat_def ref_fstatat_def
  ref_object_stat_def

lemmas ref_splits = option.splits if_splits prod.splits

interpretation ref: posix ref_os rf_names rf_durable rf_objects
  by (unfold_locales; unfold ref_os_simps; erule scripted_cases;
      auto simp: ref_defs AT_EMPTY_PATH_def AT_SYMLINK_FOLLOW_def simp del: not_None_eq split: ref_splits)

end
