(* ===== verification/Steadq_State_Machine.thy ===== *)
theory Steadq_State_Machine
  imports Steadq_Prelude
begin

text \<open>
  The protocol table of \<^verbatim>\<open>src/crates/steadq-core/src/state_machine.rs\<close>: the enumerations, one
  definition per row of \<^verbatim>\<open>TRANSITIONS\<close>, \<^verbatim>\<open>EXCEPTIONS\<close>, \<^verbatim>\<open>UNLINKS\<close> and \<^verbatim>\<open>REENTRY\<close>, and the lookup
  functions over them. Constructors carry the prefix of their enumeration, because the
  source uses the same variant names (\<^verbatim>\<open>None\<close>, \<^verbatim>\<open>Quarantine\<close>, \<^verbatim>\<open>Zero\<close>) in several of them; the
  enumeration \<^verbatim>\<open>State\<close> is called \<open>ProtocolState\<close>, the alias \<^verbatim>\<open>errors.rs\<close> imports it under.

  The lemmas say that the table is indexed consistently, which moves it allows, and that
  every row fails before its linearization point as not committed and after it as unknown.
\<close>

datatype Operation =
    Op_EnqueueImmediate | Op_EnqueueDelayed | Op_Promote | Op_Claim | Op_ExhaustedReadyCleanup
  | Op_Renew | Op_Acknowledge | Op_RetryNow | Op_RetryLater | Op_Bury | Op_ReapExpiredToReady
  | Op_ReapExpiredToDead | Op_Quarantine

datatype ProtocolState =
    PS_Hidden | PS_Ready | PS_Leased | PS_Delayed | PS_Dead | PS_Receipt | PS_Quarantine
  | PS_Active

datatype ObjectKind =
    OK_FullJob | OK_FullReceipt | OK_CompactReceipt | OK_RawObject | OK_WatermarkRecord

datatype GenerationChange =
    Gen_Zero | Gen_Increment | Gen_IncrementOrSame

datatype AttemptChange =
    Att_Zero | Att_Increment | Att_Unchanged

datatype TokenChange =
    Tok_None | Tok_New | Tok_Same

datatype ReasonClass =
    RC_AttemptsExhausted | RC_ApplicationDefined | RC_Corruption

datatype ClockRequirement =
    Clk_None | Clk_AuthenticatedWallFloor | Clk_BoottimeAndAuthenticatedWallFloor
  | Clk_LeaseExpirationEvidence | Clk_LeaseExpirationEvidenceAndAuthenticatedWallFloor

datatype TransitionQualification =
    Ql_None | Ql_AttemptsRemaining | Ql_AttemptsExhausted | Ql_RawBytesPreserved
  | Ql_ReceiptBucketEndPlusRetentionNotAfterWallFloor

datatype ResolverProbeTopology =
    Probe_DestinationOnly | Probe_SourceAndDestination | Probe_ReceiptCandidatesAndSource
  | Probe_SourcePresence

datatype SyncStep =
    Sync_File | Sync_DestinationDirectory | Sync_SourceDirectory
  | Sync_SameOrDestinationDirectory | Sync_SourceDirectoryIfDistinct

datatype LinearizationPrimitive =
    Lin_PublishNoreplace | Lin_RenameNoreplace | Lin_RenameReplace | Lin_Unlink

datatype FailureOutcome =
    Fail_NotCommitted | Fail_OutcomeUnknown

datatype MutationClass =
    Mut_NoOverwriteMove | Mut_ReplacingMove | Mut_Publication | Mut_Unlink
  | Mut_InPlaceReadOnlyBarrier

datatype ExceptionName =
    Exc_ReceiptCompaction | Exc_WallWatermarkAdvancement

datatype UnlinkName =
    Unl_FullReceiptRetentionDeletion | Unl_CompactReceiptRetentionDeletion

datatype SourceAuthentication =
    Auth_None | Auth_StrictReceipt

datatype ReentryName =
    Re_RequeueDead | Re_RequeueQuarantine

record TransitionDef =
  td_operation :: Operation
  td_source :: ProtocolState
  td_source_object_kind :: ObjectKind
  td_destination :: ProtocolState
  td_destination_object_kind :: ObjectKind
  td_generation_change :: GenerationChange
  td_attempt_change :: AttemptChange
  td_token_change :: TokenChange
  td_reason_class :: "ReasonClass option"
  td_clock_requirement :: ClockRequirement
  td_required_syncs :: "SyncStep list"
  td_linearization :: LinearizationPrimitive
  td_before_linearization_failure :: FailureOutcome
  td_after_linearization_failure :: FailureOutcome
  td_resolver_probe_topology :: ResolverProbeTopology
  td_qualification :: TransitionQualification

record ExceptionDef =
  ed_name :: ExceptionName
  ed_description :: string
  ed_source_object_kind :: ObjectKind
  ed_destination_object_kind :: ObjectKind
  ed_clock_requirement :: ClockRequirement
  ed_mutation_class :: MutationClass
  ed_linearization :: LinearizationPrimitive
  ed_required_syncs :: "SyncStep list"
  ed_before_linearization_failure :: FailureOutcome
  ed_after_linearization_failure :: FailureOutcome

record UnlinkDef =
  ud_name :: UnlinkName
  ud_description :: string
  ud_source :: ProtocolState
  ud_source_object_kind :: ObjectKind
  ud_source_authentication :: SourceAuthentication
  ud_clock_requirement :: ClockRequirement
  ud_qualification :: TransitionQualification
  ud_mutation_class :: MutationClass
  ud_linearization :: LinearizationPrimitive
  ud_required_syncs :: "SyncStep list"
  ud_before_linearization_failure :: FailureOutcome
  ud_after_linearization_failure :: FailureOutcome
  ud_resolver_probe_topology :: ResolverProbeTopology

record ReentryDef =
  re_name :: ReentryName
  re_source :: ProtocolState
  re_description :: string
  re_creates_new_identity :: bool

definition transition_enqueue_immediate :: TransitionDef where
  "transition_enqueue_immediate =
    \<lparr>td_operation = Op_EnqueueImmediate,
      td_source = PS_Hidden,
      td_source_object_kind = OK_FullJob,
      td_destination = PS_Ready,
      td_destination_object_kind = OK_FullJob,
      td_generation_change = Gen_Zero,
      td_attempt_change = Att_Zero,
      td_token_change = Tok_None,
      td_reason_class = None,
      td_clock_requirement = Clk_AuthenticatedWallFloor,
      td_required_syncs = [Sync_File, Sync_DestinationDirectory],
      td_linearization = Lin_PublishNoreplace,
      td_before_linearization_failure = Fail_NotCommitted,
      td_after_linearization_failure = Fail_OutcomeUnknown,
      td_resolver_probe_topology = Probe_DestinationOnly,
      td_qualification = Ql_None\<rparr>"

definition transition_enqueue_delayed :: TransitionDef where
  "transition_enqueue_delayed =
    \<lparr>td_operation = Op_EnqueueDelayed,
      td_source = PS_Hidden,
      td_source_object_kind = OK_FullJob,
      td_destination = PS_Delayed,
      td_destination_object_kind = OK_FullJob,
      td_generation_change = Gen_Zero,
      td_attempt_change = Att_Zero,
      td_token_change = Tok_None,
      td_reason_class = None,
      td_clock_requirement = Clk_AuthenticatedWallFloor,
      td_required_syncs = [Sync_File, Sync_DestinationDirectory],
      td_linearization = Lin_PublishNoreplace,
      td_before_linearization_failure = Fail_NotCommitted,
      td_after_linearization_failure = Fail_OutcomeUnknown,
      td_resolver_probe_topology = Probe_DestinationOnly,
      td_qualification = Ql_None\<rparr>"

definition transition_promote :: TransitionDef where
  "transition_promote =
    \<lparr>td_operation = Op_Promote,
      td_source = PS_Delayed,
      td_source_object_kind = OK_FullJob,
      td_destination = PS_Ready,
      td_destination_object_kind = OK_FullJob,
      td_generation_change = Gen_Increment,
      td_attempt_change = Att_Unchanged,
      td_token_change = Tok_None,
      td_reason_class = None,
      td_clock_requirement = Clk_AuthenticatedWallFloor,
      td_required_syncs = [Sync_DestinationDirectory, Sync_SourceDirectory],
      td_linearization = Lin_RenameNoreplace,
      td_before_linearization_failure = Fail_NotCommitted,
      td_after_linearization_failure = Fail_OutcomeUnknown,
      td_resolver_probe_topology = Probe_SourceAndDestination,
      td_qualification = Ql_None\<rparr>"

definition transition_claim :: TransitionDef where
  "transition_claim =
    \<lparr>td_operation = Op_Claim,
      td_source = PS_Ready,
      td_source_object_kind = OK_FullJob,
      td_destination = PS_Leased,
      td_destination_object_kind = OK_FullJob,
      td_generation_change = Gen_Increment,
      td_attempt_change = Att_Increment,
      td_token_change = Tok_New,
      td_reason_class = None,
      td_clock_requirement = Clk_BoottimeAndAuthenticatedWallFloor,
      td_required_syncs = [Sync_DestinationDirectory, Sync_SourceDirectory],
      td_linearization = Lin_RenameNoreplace,
      td_before_linearization_failure = Fail_NotCommitted,
      td_after_linearization_failure = Fail_OutcomeUnknown,
      td_resolver_probe_topology = Probe_SourceAndDestination,
      td_qualification = Ql_None\<rparr>"

definition transition_exhausted_ready_cleanup :: TransitionDef where
  "transition_exhausted_ready_cleanup =
    \<lparr>td_operation = Op_ExhaustedReadyCleanup,
      td_source = PS_Ready,
      td_source_object_kind = OK_FullJob,
      td_destination = PS_Dead,
      td_destination_object_kind = OK_FullJob,
      td_generation_change = Gen_Increment,
      td_attempt_change = Att_Unchanged,
      td_token_change = Tok_None,
      td_reason_class = Some RC_AttemptsExhausted,
      td_clock_requirement = Clk_AuthenticatedWallFloor,
      td_required_syncs = [Sync_DestinationDirectory, Sync_SourceDirectory],
      td_linearization = Lin_RenameNoreplace,
      td_before_linearization_failure = Fail_NotCommitted,
      td_after_linearization_failure = Fail_OutcomeUnknown,
      td_resolver_probe_topology = Probe_SourceAndDestination,
      td_qualification = Ql_None\<rparr>"

definition transition_renew :: TransitionDef where
  "transition_renew =
    \<lparr>td_operation = Op_Renew,
      td_source = PS_Leased,
      td_source_object_kind = OK_FullJob,
      td_destination = PS_Leased,
      td_destination_object_kind = OK_FullJob,
      td_generation_change = Gen_Increment,
      td_attempt_change = Att_Unchanged,
      td_token_change = Tok_Same,
      td_reason_class = None,
      td_clock_requirement = Clk_BoottimeAndAuthenticatedWallFloor,
      td_required_syncs = [Sync_SameOrDestinationDirectory, Sync_SourceDirectoryIfDistinct],
      td_linearization = Lin_RenameNoreplace,
      td_before_linearization_failure = Fail_NotCommitted,
      td_after_linearization_failure = Fail_OutcomeUnknown,
      td_resolver_probe_topology = Probe_SourceAndDestination,
      td_qualification = Ql_None\<rparr>"

definition transition_acknowledge :: TransitionDef where
  "transition_acknowledge =
    \<lparr>td_operation = Op_Acknowledge,
      td_source = PS_Leased,
      td_source_object_kind = OK_FullJob,
      td_destination = PS_Receipt,
      td_destination_object_kind = OK_FullReceipt,
      td_generation_change = Gen_Increment,
      td_attempt_change = Att_Unchanged,
      td_token_change = Tok_Same,
      td_reason_class = None,
      td_clock_requirement = Clk_AuthenticatedWallFloor,
      td_required_syncs = [Sync_DestinationDirectory, Sync_SourceDirectory],
      td_linearization = Lin_RenameNoreplace,
      td_before_linearization_failure = Fail_NotCommitted,
      td_after_linearization_failure = Fail_OutcomeUnknown,
      td_resolver_probe_topology = Probe_ReceiptCandidatesAndSource,
      td_qualification = Ql_None\<rparr>"

definition transition_retry_now :: TransitionDef where
  "transition_retry_now =
    \<lparr>td_operation = Op_RetryNow,
      td_source = PS_Leased,
      td_source_object_kind = OK_FullJob,
      td_destination = PS_Ready,
      td_destination_object_kind = OK_FullJob,
      td_generation_change = Gen_Increment,
      td_attempt_change = Att_Unchanged,
      td_token_change = Tok_None,
      td_reason_class = None,
      td_clock_requirement = Clk_None,
      td_required_syncs = [Sync_DestinationDirectory, Sync_SourceDirectory],
      td_linearization = Lin_RenameNoreplace,
      td_before_linearization_failure = Fail_NotCommitted,
      td_after_linearization_failure = Fail_OutcomeUnknown,
      td_resolver_probe_topology = Probe_SourceAndDestination,
      td_qualification = Ql_None\<rparr>"

definition transition_retry_later :: TransitionDef where
  "transition_retry_later =
    \<lparr>td_operation = Op_RetryLater,
      td_source = PS_Leased,
      td_source_object_kind = OK_FullJob,
      td_destination = PS_Delayed,
      td_destination_object_kind = OK_FullJob,
      td_generation_change = Gen_Increment,
      td_attempt_change = Att_Unchanged,
      td_token_change = Tok_None,
      td_reason_class = None,
      td_clock_requirement = Clk_AuthenticatedWallFloor,
      td_required_syncs = [Sync_DestinationDirectory, Sync_SourceDirectory],
      td_linearization = Lin_RenameNoreplace,
      td_before_linearization_failure = Fail_NotCommitted,
      td_after_linearization_failure = Fail_OutcomeUnknown,
      td_resolver_probe_topology = Probe_SourceAndDestination,
      td_qualification = Ql_None\<rparr>"

definition transition_bury :: TransitionDef where
  "transition_bury =
    \<lparr>td_operation = Op_Bury,
      td_source = PS_Leased,
      td_source_object_kind = OK_FullJob,
      td_destination = PS_Dead,
      td_destination_object_kind = OK_FullJob,
      td_generation_change = Gen_Increment,
      td_attempt_change = Att_Unchanged,
      td_token_change = Tok_None,
      td_reason_class = Some RC_ApplicationDefined,
      td_clock_requirement = Clk_AuthenticatedWallFloor,
      td_required_syncs = [Sync_DestinationDirectory, Sync_SourceDirectory],
      td_linearization = Lin_RenameNoreplace,
      td_before_linearization_failure = Fail_NotCommitted,
      td_after_linearization_failure = Fail_OutcomeUnknown,
      td_resolver_probe_topology = Probe_SourceAndDestination,
      td_qualification = Ql_None\<rparr>"

definition transition_reap_expired_to_ready :: TransitionDef where
  "transition_reap_expired_to_ready =
    \<lparr>td_operation = Op_ReapExpiredToReady,
      td_source = PS_Leased,
      td_source_object_kind = OK_FullJob,
      td_destination = PS_Ready,
      td_destination_object_kind = OK_FullJob,
      td_generation_change = Gen_Increment,
      td_attempt_change = Att_Unchanged,
      td_token_change = Tok_None,
      td_reason_class = None,
      td_clock_requirement = Clk_LeaseExpirationEvidence,
      td_required_syncs = [Sync_DestinationDirectory, Sync_SourceDirectory],
      td_linearization = Lin_RenameNoreplace,
      td_before_linearization_failure = Fail_NotCommitted,
      td_after_linearization_failure = Fail_OutcomeUnknown,
      td_resolver_probe_topology = Probe_SourceAndDestination,
      td_qualification = Ql_AttemptsRemaining\<rparr>"

definition transition_reap_expired_to_dead :: TransitionDef where
  "transition_reap_expired_to_dead =
    \<lparr>td_operation = Op_ReapExpiredToDead,
      td_source = PS_Leased,
      td_source_object_kind = OK_FullJob,
      td_destination = PS_Dead,
      td_destination_object_kind = OK_FullJob,
      td_generation_change = Gen_Increment,
      td_attempt_change = Att_Unchanged,
      td_token_change = Tok_None,
      td_reason_class = Some RC_AttemptsExhausted,
      td_clock_requirement = Clk_LeaseExpirationEvidenceAndAuthenticatedWallFloor,
      td_required_syncs = [Sync_DestinationDirectory, Sync_SourceDirectory],
      td_linearization = Lin_RenameNoreplace,
      td_before_linearization_failure = Fail_NotCommitted,
      td_after_linearization_failure = Fail_OutcomeUnknown,
      td_resolver_probe_topology = Probe_SourceAndDestination,
      td_qualification = Ql_AttemptsExhausted\<rparr>"

definition transition_quarantine :: TransitionDef where
  "transition_quarantine =
    \<lparr>td_operation = Op_Quarantine,
      td_source = PS_Active,
      td_source_object_kind = OK_RawObject,
      td_destination = PS_Quarantine,
      td_destination_object_kind = OK_RawObject,
      td_generation_change = Gen_Increment,
      td_attempt_change = Att_Unchanged,
      td_token_change = Tok_None,
      td_reason_class = Some RC_Corruption,
      td_clock_requirement = Clk_None,
      td_required_syncs = [Sync_DestinationDirectory, Sync_SourceDirectory],
      td_linearization = Lin_RenameNoreplace,
      td_before_linearization_failure = Fail_NotCommitted,
      td_after_linearization_failure = Fail_OutcomeUnknown,
      td_resolver_probe_topology = Probe_SourceAndDestination,
      td_qualification = Ql_RawBytesPreserved\<rparr>"

definition TRANSITIONS :: "TransitionDef list" where
  "TRANSITIONS =
    [transition_enqueue_immediate,
     transition_enqueue_delayed,
     transition_promote,
     transition_claim,
     transition_exhausted_ready_cleanup,
     transition_renew,
     transition_acknowledge,
     transition_retry_now,
     transition_retry_later,
     transition_bury,
     transition_reap_expired_to_ready,
     transition_reap_expired_to_dead,
     transition_quarantine]"

definition exception_receipt_compaction :: ExceptionDef where
  "exception_receipt_compaction =
    \<lparr>ed_name = Exc_ReceiptCompaction,
      ed_description = ''Terminal full-job receipt replaced by byte-deterministic compact receipt at same pathname'',
      ed_source_object_kind = OK_FullReceipt,
      ed_destination_object_kind = OK_CompactReceipt,
      ed_clock_requirement = Clk_None,
      ed_mutation_class = Mut_ReplacingMove,
      ed_linearization = Lin_RenameReplace,
      ed_required_syncs = [Sync_File, Sync_SameOrDestinationDirectory],
      ed_before_linearization_failure = Fail_NotCommitted,
      ed_after_linearization_failure = Fail_OutcomeUnknown\<rparr>"

definition exception_wall_watermark_advancement :: ExceptionDef where
  "exception_wall_watermark_advancement =
    \<lparr>ed_name = Exc_WallWatermarkAdvancement,
      ed_description = ''Monotone wall-watermark record replaced under exclusive OFD lock'',
      ed_source_object_kind = OK_WatermarkRecord,
      ed_destination_object_kind = OK_WatermarkRecord,
      ed_clock_requirement = Clk_AuthenticatedWallFloor,
      ed_mutation_class = Mut_ReplacingMove,
      ed_linearization = Lin_RenameReplace,
      ed_required_syncs = [Sync_File, Sync_SameOrDestinationDirectory],
      ed_before_linearization_failure = Fail_NotCommitted,
      ed_after_linearization_failure = Fail_OutcomeUnknown\<rparr>"

definition EXCEPTIONS :: "ExceptionDef list" where
  "EXCEPTIONS =
    [exception_receipt_compaction,
     exception_wall_watermark_advancement]"

definition unlink_full_receipt_retention_deletion :: UnlinkDef where
  "unlink_full_receipt_retention_deletion =
    \<lparr>ud_name = Unl_FullReceiptRetentionDeletion,
      ud_description = ''Authenticated retention deletion of an eligible full receipt'',
      ud_source = PS_Receipt,
      ud_source_object_kind = OK_FullReceipt,
      ud_source_authentication = Auth_StrictReceipt,
      ud_clock_requirement = Clk_AuthenticatedWallFloor,
      ud_qualification = Ql_ReceiptBucketEndPlusRetentionNotAfterWallFloor,
      ud_mutation_class = Mut_Unlink,
      ud_linearization = Lin_Unlink,
      ud_required_syncs = [Sync_SourceDirectory],
      ud_before_linearization_failure = Fail_NotCommitted,
      ud_after_linearization_failure = Fail_OutcomeUnknown,
      ud_resolver_probe_topology = Probe_SourcePresence\<rparr>"

definition unlink_compact_receipt_retention_deletion :: UnlinkDef where
  "unlink_compact_receipt_retention_deletion =
    \<lparr>ud_name = Unl_CompactReceiptRetentionDeletion,
      ud_description = ''Authenticated retention deletion of an eligible compact receipt'',
      ud_source = PS_Receipt,
      ud_source_object_kind = OK_CompactReceipt,
      ud_source_authentication = Auth_StrictReceipt,
      ud_clock_requirement = Clk_AuthenticatedWallFloor,
      ud_qualification = Ql_ReceiptBucketEndPlusRetentionNotAfterWallFloor,
      ud_mutation_class = Mut_Unlink,
      ud_linearization = Lin_Unlink,
      ud_required_syncs = [Sync_SourceDirectory],
      ud_before_linearization_failure = Fail_NotCommitted,
      ud_after_linearization_failure = Fail_OutcomeUnknown,
      ud_resolver_probe_topology = Probe_SourcePresence\<rparr>"

definition UNLINKS :: "UnlinkDef list" where
  "UNLINKS =
    [unlink_full_receipt_retention_deletion,
     unlink_compact_receipt_retention_deletion]"

definition reentry_requeue_dead :: ReentryDef where
  "reentry_requeue_dead =
    \<lparr>re_name = Re_RequeueDead,
      re_source = PS_Dead,
      re_description = ''Verified resubmission: creates new job identity, copies payload and safe metadata, adds old job_id as provenance'',
      re_creates_new_identity = True\<rparr>"

definition reentry_requeue_quarantine :: ReentryDef where
  "reentry_requeue_quarantine =
    \<lparr>re_name = Re_RequeueQuarantine,
      re_source = PS_Quarantine,
      re_description = ''Verified resubmission after full structural and payload verification: creates new job identity'',
      re_creates_new_identity = True\<rparr>"

definition REENTRY :: "ReentryDef list" where
  "REENTRY =
    [reentry_requeue_dead,
     reentry_requeue_quarantine]"

fun transition :: "Operation \<Rightarrow> TransitionDef" where
  "transition Op_EnqueueImmediate = TRANSITIONS ! 0"
| "transition Op_EnqueueDelayed = TRANSITIONS ! 1"
| "transition Op_Promote = TRANSITIONS ! 2"
| "transition Op_Claim = TRANSITIONS ! 3"
| "transition Op_ExhaustedReadyCleanup = TRANSITIONS ! 4"
| "transition Op_Renew = TRANSITIONS ! 5"
| "transition Op_Acknowledge = TRANSITIONS ! 6"
| "transition Op_RetryNow = TRANSITIONS ! 7"
| "transition Op_RetryLater = TRANSITIONS ! 8"
| "transition Op_Bury = TRANSITIONS ! 9"
| "transition Op_ReapExpiredToReady = TRANSITIONS ! 10"
| "transition Op_ReapExpiredToDead = TRANSITIONS ! 11"
| "transition Op_Quarantine = TRANSITIONS ! 12"

definition is_legal_transition :: "ProtocolState \<Rightarrow> ProtocolState \<Rightarrow> bool" where
  "is_legal_transition source destination =
     list_ex (\<lambda>t. td_source t = source \<and> td_destination t = destination) TRANSITIONS"

subsection \<open>The table is consistent\<close>

lemmas transition_rows =
  transition_enqueue_immediate_def transition_enqueue_delayed_def transition_promote_def
  transition_claim_def transition_exhausted_ready_cleanup_def transition_renew_def
  transition_acknowledge_def transition_retry_now_def transition_retry_later_def
  transition_bury_def transition_reap_expired_to_ready_def transition_reap_expired_to_dead_def
  transition_quarantine_def

lemma transition_in_TRANSITIONS: "transition operation \<in> set TRANSITIONS"
  by (cases operation) (simp_all add: TRANSITIONS_def)

lemma transition_row [simp]:
  "transition Op_EnqueueImmediate = transition_enqueue_immediate"
  "transition Op_EnqueueDelayed = transition_enqueue_delayed"
  "transition Op_Promote = transition_promote"
  "transition Op_Claim = transition_claim"
  "transition Op_ExhaustedReadyCleanup = transition_exhausted_ready_cleanup"
  "transition Op_Renew = transition_renew"
  "transition Op_Acknowledge = transition_acknowledge"
  "transition Op_RetryNow = transition_retry_now"
  "transition Op_RetryLater = transition_retry_later"
  "transition Op_Bury = transition_bury"
  "transition Op_ReapExpiredToReady = transition_reap_expired_to_ready"
  "transition Op_ReapExpiredToDead = transition_reap_expired_to_dead"
  "transition Op_Quarantine = transition_quarantine"
  by (simp_all add: TRANSITIONS_def)

declare transition.simps [simp del]

lemma td_operation_transition [simp]: "td_operation (transition operation) = operation"
  by (cases operation) (simp_all add: transition_rows)

lemma TRANSITIONS_operations:
  "map td_operation TRANSITIONS =
     [Op_EnqueueImmediate, Op_EnqueueDelayed, Op_Promote, Op_Claim, Op_ExhaustedReadyCleanup,
      Op_Renew, Op_Acknowledge, Op_RetryNow, Op_RetryLater, Op_Bury, Op_ReapExpiredToReady,
      Op_ReapExpiredToDead, Op_Quarantine]"
  by (simp add: TRANSITIONS_def transition_rows)

lemma transition_td_operation:
  "t \<in> set TRANSITIONS \<Longrightarrow> transition (td_operation t) = t"
  by (auto simp: TRANSITIONS_def transition_rows)

lemma transition_unique:
  assumes "t \<in> set TRANSITIONS"
  shows "td_operation t = operation \<longleftrightarrow> t = transition operation"
  using transition_td_operation [OF assms] by auto

lemma is_legal_transition_iff:
  "is_legal_transition source destination \<longleftrightarrow>
     (\<exists>operation. td_source (transition operation) = source
        \<and> td_destination (transition operation) = destination)"
  unfolding is_legal_transition_def list_ex_iff
  using transition_td_operation transition_in_TRANSITIONS by metis

lemma TRANSITIONS_failure_outcomes:
  assumes "t \<in> set TRANSITIONS"
  shows "td_before_linearization_failure t = Fail_NotCommitted"
    and "td_after_linearization_failure t = Fail_OutcomeUnknown"
  using assms by (auto simp: TRANSITIONS_def transition_rows)

text \<open>C7. The protocol table is a total function of the operation: looking an operation up
  returns the row of that operation, every row is the result of such a lookup, no operation
  has two rows, and a move is reported legal exactly if some operation makes it.\<close>

theorem transition_table_total:
  "td_operation (transition operation) = operation
   \<and> range transition = set TRANSITIONS
   \<and> distinct (map td_operation TRANSITIONS)
   \<and> (is_legal_transition source destination \<longleftrightarrow>
        (\<exists>op. td_source (transition op) = source \<and> td_destination (transition op) = destination))"
proof -
  have "set TRANSITIONS \<subseteq> range transition"
    using transition_td_operation by (metis rangeI subsetI)
  then have "range transition = set TRANSITIONS"
    using transition_in_TRANSITIONS by blast
  then show ?thesis
    by (simp add: TRANSITIONS_operations is_legal_transition_iff)
qed

end
