(* ===== verification/Steadq_Tickets.thy ===== *)
theory Steadq_Tickets
  imports Steadq_Names Steadq_State_Machine Steadq_Io
begin

text \<open>
  The error and outcome types of \<^verbatim>\<open>src/crates/steadq-core/src/errors.rs\<close>, the rule that computes a
  job's next identity, and transition tickets with their validation and JSON form.

  The JSON text itself is produced and read by the third-party crate \<^verbatim>\<open>serde_json\<close>, a pair of
  arguments here: a printer from the wire structure and a parser back to it, both of which may
  fail with a message.

  The lemmas characterise the accepted tickets, show that a ticket survives the JSON form,
  and follow a job through any sequence of protocol operations: its generation counts the
  operations and its attempt counts the claims.
\<close>

subsection \<open>Errors and outcomes\<close>

datatype Error =
    ResourceExhausted
  | StateExhausted
  | IdentityCollision
  | InvalidInput string
  | InvalidTicket string
  | UnsupportedFilesystem
  | UnsupportedFormat
  | InvalidClock
  | MaintenanceBusy
  | QueueCorrupt string
  | PayloadCorrupt
  | QueuePoisoned string
  | PermissionDenied
  | IoFailure string

definition error_from_io :: "IoError \<Rightarrow> Error" where
  "error_from_io e =
     (if raw_os_error e = Some ENOSPC \<or> raw_os_error e = Some EDQUOT then ResourceExhausted
      else IoFailure (io_text e))"

datatype PoisonReason =
    PostLinearizationStateUnknown
  | WatermarkAuthorityLost
  | InternalInvariantViolation

fun poison_reason_text :: "PoisonReason \<Rightarrow> string" where
  "poison_reason_text PostLinearizationStateUnknown = ''post-linearization state unknown''"
| "poison_reason_text WatermarkAuthorityLost = ''wall watermark authority lost''"
| "poison_reason_text InternalInvariantViolation = ''internal invariant violation''"

datatype InitialState = Initial_Ready | Initial_Delayed

record EnqueueTicket =
  et_job_id :: id128
  et_envelope_digest :: digest
  et_expected_initial_state :: InitialState
  et_expected_relative_path :: string

definition enqueue_ticket_uncommitted :: "id128 \<Rightarrow> EnqueueTicket" where
  "enqueue_ticket_uncommitted jid =
     \<lparr>et_job_id = jid, et_envelope_digest = arr_of (replicate 32 0),
      et_expected_initial_state = Initial_Ready, et_expected_relative_path = []\<rparr>"

datatype EnqueueOutcome =
    Enqueue_Committed EnqueueTicket
  | Enqueue_Deferred EnqueueTicket
  | Enqueue_NotCommitted EnqueueTicket Error
  | Enqueue_OutcomeUnknown EnqueueTicket Error

record LeaseInfo =
  li_job_id :: id128
  li_envelope_digest :: digest
  li_generation :: u64
  li_attempt :: u32
  li_maximum_attempts :: u32
  li_token :: id128
  li_boot_id :: string
  li_expires_boottime_ns :: u64
  li_expires_wall_ns :: u64
  li_content_type :: string
  li_payload_length :: u64
  li_payload_digest :: digest
  li_expected_dev :: u64
  li_expected_inode :: u64
  li_exact_source_path :: string

definition remaining_ns :: "LeaseInfo \<Rightarrow> u64 \<Rightarrow> u64" where
  "remaining_ns info current_boottime_ns =
     saturating_sub (li_expires_boottime_ns info) current_boottime_ns"

subsection \<open>Reason codes\<close>

datatype DeadReason =
    Dead_Unspecified
  | Dead_ConsumerRejected
  | Dead_UnsupportedContentType
  | Dead_AdministrativeBury
  | Dead_AttemptsExhausted

fun dead_reason_code :: "DeadReason \<Rightarrow> u16" where
  "dead_reason_code Dead_Unspecified = 0x0000"
| "dead_reason_code Dead_ConsumerRejected = 0x0001"
| "dead_reason_code Dead_UnsupportedContentType = 0x0002"
| "dead_reason_code Dead_AdministrativeBury = 0x0003"
| "dead_reason_code Dead_AttemptsExhausted = 0x0004"

definition dead_reason_from_u16 :: "u16 \<Rightarrow> DeadReason option" where
  "dead_reason_from_u16 v =
     (if v = 0x0000 then Some Dead_Unspecified
      else if v = 0x0001 then Some Dead_ConsumerRejected
      else if v = 0x0002 then Some Dead_UnsupportedContentType
      else if v = 0x0003 then Some Dead_AdministrativeBury
      else if v = 0x0004 then Some Dead_AttemptsExhausted
      else None)"

datatype QuarantineReason =
    Quarantine_EnvelopeCorrupt
  | Quarantine_PayloadCorrupt
  | Quarantine_FilenameParseFailed
  | Quarantine_FilenameTagFailed
  | Quarantine_FilenameHeaderMismatch
  | Quarantine_UnsupportedRequiredFeature
  | Quarantine_DuplicateStateConflict
  | Quarantine_NonRegularFile
  | Quarantine_UnexpectedHardLink
  | Quarantine_CrossDeviceObject
  | Quarantine_ImpossibleStateTransition

fun quarantine_reason_code :: "QuarantineReason \<Rightarrow> u16" where
  "quarantine_reason_code Quarantine_EnvelopeCorrupt = 0x0001"
| "quarantine_reason_code Quarantine_PayloadCorrupt = 0x0002"
| "quarantine_reason_code Quarantine_FilenameParseFailed = 0x0003"
| "quarantine_reason_code Quarantine_FilenameTagFailed = 0x0004"
| "quarantine_reason_code Quarantine_FilenameHeaderMismatch = 0x0005"
| "quarantine_reason_code Quarantine_UnsupportedRequiredFeature = 0x0006"
| "quarantine_reason_code Quarantine_DuplicateStateConflict = 0x0007"
| "quarantine_reason_code Quarantine_NonRegularFile = 0x0008"
| "quarantine_reason_code Quarantine_UnexpectedHardLink = 0x0009"
| "quarantine_reason_code Quarantine_CrossDeviceObject = 0x000a"
| "quarantine_reason_code Quarantine_ImpossibleStateTransition = 0x000b"

definition quarantine_reason_from_u16 :: "u16 \<Rightarrow> QuarantineReason option" where
  "quarantine_reason_from_u16 v =
     (if v = 0x0001 then Some Quarantine_EnvelopeCorrupt
      else if v = 0x0002 then Some Quarantine_PayloadCorrupt
      else if v = 0x0003 then Some Quarantine_FilenameParseFailed
      else if v = 0x0004 then Some Quarantine_FilenameTagFailed
      else if v = 0x0005 then Some Quarantine_FilenameHeaderMismatch
      else if v = 0x0006 then Some Quarantine_UnsupportedRequiredFeature
      else if v = 0x0007 then Some Quarantine_DuplicateStateConflict
      else if v = 0x0008 then Some Quarantine_NonRegularFile
      else if v = 0x0009 then Some Quarantine_UnexpectedHardLink
      else if v = 0x000a then Some Quarantine_CrossDeviceObject
      else if v = 0x000b then Some Quarantine_ImpossibleStateTransition
      else None)"

subsection \<open>The next identity of a job\<close>

datatype IdentityChangeError = Overflow | Indeterminate

definition next_common_fields ::
  "Operation \<Rightarrow> CommonFields \<Rightarrow> IdentityChangeError + CommonFields" where
  "next_common_fields operation source =
     (let d = transition operation in
      res_bind
        (case td_generation_change d of
           Gen_Zero \<Rightarrow> Ok 0
         | Gen_Increment \<Rightarrow> ok_or (checked_add (generation source) 1) Overflow
         | Gen_IncrementOrSame \<Rightarrow> Err Indeterminate)
        (\<lambda>g. res_bind
          (case td_attempt_change d of
             Att_Zero \<Rightarrow> Ok 0
           | Att_Increment \<Rightarrow> ok_or (checked_add (attempt source) 1) Overflow
           | Att_Unchanged \<Rightarrow> Ok (attempt source))
          (\<lambda>a. Ok \<lparr>job_id = job_id source, generation = g, attempt = a,
                  maximum_attempts = maximum_attempts source\<rparr>)))"

subsection \<open>Transition tickets\<close>

definition TRANSITION_TICKET_SCHEMA :: string where
  "TRANSITION_TICKET_SCHEMA = ''steadq-transition-ticket''"

definition TRANSITION_TICKET_VERSION :: u16 where
  "TRANSITION_TICKET_VERSION = 2"

datatype TransitionOperation =
  TO_Claim | TO_Renew | TO_Acknowledge | TO_RetryNow | TO_RetryLater | TO_Bury

fun protocol_operation :: "TransitionOperation \<Rightarrow> Operation" where
  "protocol_operation TO_Claim = Op_Claim"
| "protocol_operation TO_Renew = Op_Renew"
| "protocol_operation TO_Acknowledge = Op_Acknowledge"
| "protocol_operation TO_RetryNow = Op_RetryNow"
| "protocol_operation TO_RetryLater = Op_RetryLater"
| "protocol_operation TO_Bury = Op_Bury"

datatype TransitionPhase = Linearized | DestinationDirectoryDurable | SourceDirectoryDurable

datatype TicketSource =
    Source_Ready
  | Source_Leased (source_leased_boot_id: string) u64 u64

fun source_protocol_state :: "TicketSource \<Rightarrow> ProtocolState" where
  "source_protocol_state Source_Ready = PS_Ready"
| "source_protocol_state (Source_Leased _ _ _) = PS_Leased"

datatype TicketDestination =
    Dest_Ready
  | Dest_Leased (dest_leased_boot_id: string) u64 u64
  | Dest_Delayed u64
  | Dest_Receipt u64
  | Dest_Dead u64 u16

fun dest_protocol_state :: "TicketDestination \<Rightarrow> ProtocolState" where
  "dest_protocol_state Dest_Ready = PS_Ready"
| "dest_protocol_state (Dest_Leased _ _ _) = PS_Leased"
| "dest_protocol_state (Dest_Delayed _) = PS_Delayed"
| "dest_protocol_state (Dest_Receipt _) = PS_Receipt"
| "dest_protocol_state (Dest_Dead _ _) = PS_Dead"

record TicketEvidence =
  ev_envelope_digest :: digest
  ev_payload_length :: u64

record TicketIdentity =
  ti_job_id :: id128
  ti_generation :: u64
  ti_attempt :: u32
  ti_maximum_attempts :: u32
  ti_lease_token :: id128
  ti_evidence :: TicketEvidence

record TransitionTicket =
  tt_queue_id :: id128
  tt_operation :: TransitionOperation
  tt_phase :: TransitionPhase
  tt_job_id :: id128
  tt_source_generation :: u64
  tt_source_attempt :: u32
  tt_maximum_attempts :: u32
  tt_lease_token :: id128
  tt_envelope_digest :: digest
  tt_payload_length :: u64
  tt_source :: TicketSource
  tt_destination :: TicketDestination

definition with_phase :: "TransitionTicket \<Rightarrow> TransitionPhase \<Rightarrow> TransitionTicket" where
  "with_phase t phase = t\<lparr>tt_phase := phase\<rparr>"

definition source_common :: "TransitionTicket \<Rightarrow> CommonFields" where
  "source_common t =
     \<lparr>job_id = tt_job_id t, generation = tt_source_generation t, attempt = tt_source_attempt t,
      maximum_attempts = tt_maximum_attempts t\<rparr>"

definition object_kinds :: "TransitionTicket \<Rightarrow> ObjectKind \<times> ObjectKind" where
  "object_kinds t =
     (let d = transition (protocol_operation (tt_operation t))
      in (td_source_object_kind d, td_destination_object_kind d))"

definition destination_common :: "TransitionTicket \<Rightarrow> Error + CommonFields" where
  "destination_common t =
     map_err
       (\<lambda>e. case e of
          Overflow \<Rightarrow> InvalidTicket ''source generation or attempt cannot increment''
        | Indeterminate \<Rightarrow> InvalidTicket ''ticket operation has an indeterminate generation change'')
       (next_common_fields (protocol_operation (tt_operation t)) (source_common t))"

fun source_boot_id :: "TransitionTicket \<Rightarrow> string option" where
  "source_boot_id t = (case tt_source t of Source_Ready \<Rightarrow> None | Source_Leased b _ _ \<Rightarrow> Some b)"

fun destination_boot_id :: "TransitionTicket \<Rightarrow> string option" where
  "destination_boot_id t = (case tt_destination t of Dest_Leased b _ _ \<Rightarrow> Some b | _ \<Rightarrow> None)"

text \<open>The loop over the two optional boot ids, flattened.\<close>

fun check_boot_ids :: "string list \<Rightarrow> Error + unit" where
  "check_boot_ids [] = Ok ()"
| "check_boot_ids (b # bs) =
     (if boot_id_bytes b = None then Err (InvalidTicket ''ticket boot_id is not canonical'')
      else check_boot_ids bs)"

definition option_list :: "'a option \<Rightarrow> 'a list" where
  "option_list x = (case x of None \<Rightarrow> [] | Some v \<Rightarrow> [v])"

definition ticket_validate :: "TransitionTicket \<Rightarrow> Error + unit" where
  "ticket_validate t =
     (if tt_maximum_attempts t = 0
      then Err (InvalidTicket ''ticket maximum_attempts must be nonzero'')
      else if tt_source_attempt t > tt_maximum_attempts t
      then Err (InvalidTicket ''ticket attempt exceeds maximum_attempts'')
      else res_bind (destination_common t) (\<lambda>dc.
        let d = transition (protocol_operation (tt_operation t));
            legal = (source_protocol_state (tt_source t) = td_source d
                     \<and> dest_protocol_state (tt_destination t) = td_destination d
                     \<and> attempt dc \<le> tt_maximum_attempts t)
        in if \<not> legal
           then Err (InvalidTicket ''operation does not permit the ticket source and destination'')
           else check_boot_ids (option_list (source_boot_id t) @ option_list (destination_boot_id t))))"

definition validate_for_queue :: "TransitionTicket \<Rightarrow> id128 \<Rightarrow> Error + unit" where
  "validate_for_queue t queue_id =
     res_bind (ticket_validate t) (\<lambda>_.
       if tt_queue_id t \<noteq> queue_id
       then Err (InvalidTicket ''ticket belongs to another queue'') else Ok ())"

definition ticket_new ::
  "id128 \<Rightarrow> TransitionOperation \<Rightarrow> TransitionPhase \<Rightarrow> TicketIdentity \<Rightarrow> TicketSource
     \<Rightarrow> TicketDestination \<Rightarrow> Error + TransitionTicket" where
  "ticket_new queue_id operation phase identity source destination =
     (let t = \<lparr>tt_queue_id = queue_id, tt_operation = operation, tt_phase = phase,
               tt_job_id = ti_job_id identity, tt_source_generation = ti_generation identity,
               tt_source_attempt = ti_attempt identity,
               tt_maximum_attempts = ti_maximum_attempts identity,
               tt_lease_token = ti_lease_token identity,
               tt_envelope_digest = ev_envelope_digest (ti_evidence identity),
               tt_payload_length = ev_payload_length (ti_evidence identity),
               tt_source = source, tt_destination = destination\<rparr>
      in res_bind (ticket_validate t) (\<lambda>_. Ok t))"

subsection \<open>Outcomes that carry a ticket\<close>

datatype LeaseOutcome =
    Lease_Leased LeaseInfo
  | Lease_Empty
  | Lease_NotCommitted Error
  | Lease_OutcomeUnknown TransitionTicket

datatype RenewOutcome =
    Renew_Renewed LeaseInfo
  | Renew_Deferred LeaseInfo
  | Renew_LeaseLost
  | Renew_NotCommitted Error
  | Renew_OutcomeUnknown TransitionTicket

datatype AckOutcome =
    Ack_Acked
  | Ack_AlreadyAcked
  | Ack_LeaseLost
  | Ack_NotCommitted Error
  | Ack_OutcomeUnknown TransitionTicket

datatype TransitionOutcome =
    Tr_Committed
  | Tr_LeaseLost
  | Tr_NotCommitted Error
  | Tr_OutcomeUnknown TransitionTicket

datatype ResolutionOutcome =
    DestinationObserved
  | DestinationStabilized
  | SourceObserved
  | SourceStabilized
  | BothObserved
  | NeitherObserved
  | ConflictingObject
  | ResolutionFailed Error

subsection \<open>The JSON form of a ticket\<close>

record TicketIdentityWire =
  tiw_job_id :: string
  tiw_generation :: u64
  tiw_attempt :: u32
  tiw_maximum_attempts :: u32
  tiw_lease_token :: string
  tiw_envelope_digest :: string
  tiw_payload_length :: u64

record TransitionTicketWire =
  tw_schema :: string
  tw_version :: u16
  tw_queue_id :: string
  tw_operation :: TransitionOperation
  tw_phase :: TransitionPhase
  tw_source_identity :: TicketIdentityWire
  tw_source :: TicketSource
  tw_destination_derivation :: TicketDestination

type_synonym json_reader = "bytes \<Rightarrow> string + TransitionTicketWire"
type_synonym json_writer = "TransitionTicketWire \<Rightarrow> string + bytes"

definition ticket_of_wire :: "TransitionTicketWire \<Rightarrow> Error + TransitionTicket" where
  "ticket_of_wire wire =
     (if tw_schema wire \<noteq> TRANSITION_TICKET_SCHEMA then Err (InvalidTicket ''invalid schema'')
      else if tw_version wire \<noteq> TRANSITION_TICKET_VERSION
      then Err (InvalidTicket ''unsupported version'')
      else let idw = tw_source_identity wire in
        res_bind (ok_or (hex_decode_16 (tw_queue_id wire)) (InvalidTicket ''invalid queue_id''))
        (\<lambda>queue_id.
        res_bind (ok_or (hex_decode_16 (tiw_job_id idw)) (InvalidTicket ''invalid job_id''))
        (\<lambda>jid.
        res_bind (ok_or (hex_decode_16 (tiw_lease_token idw)) (InvalidTicket ''invalid lease_token''))
        (\<lambda>lease_token.
        res_bind (ok_or (hex_decode_32 (tiw_envelope_digest idw))
                    (InvalidTicket ''invalid envelope_digest''))
        (\<lambda>envelope_digest.
          ticket_new queue_id (tw_operation wire) (tw_phase wire)
            \<lparr>ti_job_id = jid, ti_generation = tiw_generation idw,
             ti_attempt = tiw_attempt idw, ti_maximum_attempts = tiw_maximum_attempts idw,
             ti_lease_token = lease_token,
             ti_evidence = \<lparr>ev_envelope_digest = envelope_digest,
                            ev_payload_length = tiw_payload_length idw\<rparr>\<rparr>
            (tw_source wire) (tw_destination_derivation wire))))))"

definition ticket_from_json :: "json_reader \<Rightarrow> bytes \<Rightarrow> Error + TransitionTicket" where
  "ticket_from_json from_slice data =
     res_bind (map_err (\<lambda>e. InvalidTicket (''invalid JSON: '' @ e)) (from_slice data)) ticket_of_wire"

definition wire_of_ticket :: "TransitionTicket \<Rightarrow> TransitionTicketWire" where
  "wire_of_ticket t =
     \<lparr>tw_schema = TRANSITION_TICKET_SCHEMA, tw_version = TRANSITION_TICKET_VERSION,
      tw_queue_id = hex_encode (arr_bytes (tt_queue_id t)),
      tw_operation = tt_operation t, tw_phase = tt_phase t,
      tw_source_identity =
        \<lparr>tiw_job_id = hex_encode (arr_bytes (tt_job_id t)),
         tiw_generation = tt_source_generation t, tiw_attempt = tt_source_attempt t,
         tiw_maximum_attempts = tt_maximum_attempts t,
         tiw_lease_token = hex_encode (arr_bytes (tt_lease_token t)),
         tiw_envelope_digest = hex_encode (arr_bytes (tt_envelope_digest t)),
         tiw_payload_length = tt_payload_length t\<rparr>,
      tw_source = tt_source t, tw_destination_derivation = tt_destination t\<rparr>"

definition ticket_to_json :: "json_writer \<Rightarrow> TransitionTicket \<Rightarrow> Error + bytes" where
  "ticket_to_json to_vec_pretty t =
     map_err (\<lambda>e. InvalidTicket (''serialization failed: '' @ e)) (to_vec_pretty (wire_of_ticket t))"

subsection \<open>The next identity\<close>

lemma unat_eq_unat_iff: "unat (v :: 'a::len word) = unat w \<longleftrightarrow> v = w"
  by (rule word_unat_eq_iff [symmetric])

lemma next_common_fields_eq_Ok_iff:
  "next_common_fields operation c = Ok c' \<longleftrightarrow>
     job_id c' = job_id c \<and> maximum_attempts c' = maximum_attempts c
     \<and> unat (generation c') =
         (if operation \<in> {Op_EnqueueImmediate, Op_EnqueueDelayed} then 0
          else Suc (unat (generation c)))
     \<and> unat (attempt c') =
         (if operation \<in> {Op_EnqueueImmediate, Op_EnqueueDelayed} then 0
          else if operation = Op_Claim then Suc (unat (attempt c)) else unat (attempt c))"
proof (cases c')
  case (fields j g a m)
  show ?thesis
    unfolding fields
    by (cases operation)
      (auto simp: next_common_fields_def transition_rows result_simps checked_simps unat_eq_zero
        unat_eq_unat_iff)
qed

lemma next_common_fields_definite: "next_common_fields operation c \<noteq> Err Indeterminate"
  by (cases operation)
    (auto simp: next_common_fields_def transition_rows res_bind_def ok_or_def split: option.splits)

lemma next_common_fields_eq_Err_iff:
  "next_common_fields operation c = Err e \<longleftrightarrow>
     e = Overflow \<and> operation \<notin> {Op_EnqueueImmediate, Op_EnqueueDelayed}
     \<and> (Suc (unat (generation c)) = 2 ^ 64
          \<or> operation = Op_Claim \<and> Suc (unat (attempt c)) = 2 ^ 32)"
proof -
  have g: "unat (generation c) < 2 ^ 64" and a: "unat (attempt c) < 2 ^ 32"
    using unsigned_less [of "generation c"] unsigned_less [of "attempt c"] by simp_all
  show ?thesis
    using g a
    by (cases operation)
      (auto simp: next_common_fields_def transition_rows res_bind_def ok_or_def checked_add_def
        split: if_splits)
qed

text \<open>The fields of an example job.\<close>

definition example_fields :: "u64 \<Rightarrow> u32 \<Rightarrow> CommonFields" where
  "example_fields g a =
     \<lparr>job_id = arr_of (replicate 16 7), generation = g, attempt = a, maximum_attempts = 3\<rparr>"

subsection \<open>Which tickets are accepted\<close>

text \<open>The shape of a ticket for each operation, with canonical boot ids.\<close>

definition canonical_boot_id :: "string \<Rightarrow> bool" where
  "canonical_boot_id b \<longleftrightarrow> (\<exists>i. b = format_boot_id i)"

fun ticket_endpoints :: "TransitionOperation \<Rightarrow> TicketSource \<Rightarrow> TicketDestination \<Rightarrow> bool" where
  "ticket_endpoints TO_Claim Source_Ready (Dest_Leased b _ _) = canonical_boot_id b"
| "ticket_endpoints TO_Renew (Source_Leased b _ _) (Dest_Leased b' _ _) =
     (canonical_boot_id b \<and> canonical_boot_id b')"
| "ticket_endpoints TO_Acknowledge (Source_Leased b _ _) (Dest_Receipt _) = canonical_boot_id b"
| "ticket_endpoints TO_RetryNow (Source_Leased b _ _) Dest_Ready = canonical_boot_id b"
| "ticket_endpoints TO_RetryLater (Source_Leased b _ _) (Dest_Delayed _) = canonical_boot_id b"
| "ticket_endpoints TO_Bury (Source_Leased b _ _) (Dest_Dead _ _) = canonical_boot_id b"
| "ticket_endpoints _ _ _ = False"

lemma check_boot_ids_eq_Ok_iff:
  "check_boot_ids bs = Ok () \<longleftrightarrow> list_all canonical_boot_id bs"
  by (induction bs) (auto simp: canonical_boot_id_def hex_iff simp flip: boot_id_bytes_eq_Some_iff)

lemma option_list_simps [simp]: "option_list None = []" "option_list (Some x) = [x]"
  by (simp_all add: option_list_def)

lemma destination_common_eq_Ok_iff:
  "destination_common t = Ok dc \<longleftrightarrow>
     job_id dc = tt_job_id t \<and> maximum_attempts dc = tt_maximum_attempts t
     \<and> unat (generation dc) = Suc (unat (tt_source_generation t))
     \<and> unat (attempt dc) = (if tt_operation t = TO_Claim then Suc (unat (tt_source_attempt t))
                            else unat (tt_source_attempt t))"
  by (cases "tt_operation t")
    (auto simp: destination_common_def result_simps next_common_fields_eq_Ok_iff source_common_def)

lemma ticket_endpoints_iff:
  "ticket_endpoints operation source destination \<longleftrightarrow>
     source_protocol_state source = td_source (transition (protocol_operation operation))
     \<and> dest_protocol_state destination = td_destination (transition (protocol_operation operation))
     \<and> list_all canonical_boot_id
         (option_list (case source of Source_Ready \<Rightarrow> None | Source_Leased b _ _ \<Rightarrow> Some b)
          @ option_list (case destination of Dest_Leased b _ _ \<Rightarrow> Some b | _ \<Rightarrow> None))"
  by (cases operation; cases source; cases destination) (simp_all add: transition_rows)

lemma destination_common_exists:
  assumes "unat (tt_source_generation t) < 2 ^ 64 - 1"
    and "tt_operation t = TO_Claim \<Longrightarrow> tt_source_attempt t < tt_maximum_attempts t"
  obtains dc where "destination_common t = Ok dc"
proof (cases "next_common_fields (protocol_operation (tt_operation t)) (source_common t)")
  case (Inl e)
  have "protocol_operation (tt_operation t) = Op_Claim \<longleftrightarrow> tt_operation t = TO_Claim"
    by (cases "tt_operation t") simp_all
  moreover have "unat (tt_maximum_attempts t) < 2 ^ 32"
    using unsigned_less [of "tt_maximum_attempts t"] by simp
  ultimately show ?thesis
    using Inl assms
    by (auto simp: next_common_fields_eq_Err_iff source_common_def word_less_nat_alt)
next
  case (Inr dc)
  then show ?thesis using that by (simp add: destination_common_def)
qed

text \<open>C19. Exactly the meaningful tickets are accepted: validation succeeds if and only if the
  source and destination are the ones of the operation with canonical boot ids, the
  generation can still grow, and the attempt is within the maximum, strictly so for a
  claim, which consumes one.\<close>

theorem ticket_validate_iff:
  "ticket_validate t = Ok () \<longleftrightarrow>
     ticket_endpoints (tt_operation t) (tt_source t) (tt_destination t)
     \<and> unat (tt_source_generation t) < 2 ^ 64 - 1
     \<and> (if tt_operation t = TO_Claim then tt_source_attempt t < tt_maximum_attempts t
        else tt_maximum_attempts t \<noteq> 0 \<and> tt_source_attempt t \<le> tt_maximum_attempts t)"
  (is "_ \<longleftrightarrow> ?E \<and> ?G \<and> ?A")
proof
  assume "ticket_validate t = Ok ()"
  then obtain dc where dc: "destination_common t = Ok dc" and "?E"
    and m: "tt_maximum_attempts t \<noteq> 0" "tt_source_attempt t \<le> tt_maximum_attempts t"
      "attempt dc \<le> tt_maximum_attempts t"
    by (auto simp: ticket_validate_def ticket_endpoints_iff check_boot_ids_eq_Ok_iff Let_def
        result_simps not_less split: if_splits)
  moreover have "unat (generation dc) < 2 ^ 64" using unsigned_less [of "generation dc"] by simp
  ultimately show "?E \<and> ?G \<and> ?A"
    by (auto simp: destination_common_eq_Ok_iff word_le_nat_alt word_less_nat_alt)
next
  assume a: "?E \<and> ?G \<and> ?A"
  then obtain dc where dc: "destination_common t = Ok dc"
    using destination_common_exists by (metis (full_types))
  from a have "tt_maximum_attempts t \<noteq> 0" "tt_source_attempt t \<le> tt_maximum_attempts t"
    by (auto split: if_splits)
  moreover have "attempt dc \<le> tt_maximum_attempts t"
    using a dc by (auto simp: destination_common_eq_Ok_iff word_le_nat_alt word_less_nat_alt split: if_splits)
  ultimately show "ticket_validate t = Ok ()"
    using a dc
    by (simp add: ticket_validate_def ticket_endpoints_iff check_boot_ids_eq_Ok_iff Let_def not_less)
qed

subsection \<open>Tickets survive the JSON form\<close>

lemma ticket_new_of_fields:
  "ticket_new (tt_queue_id t) (tt_operation t) (tt_phase t)
     \<lparr>ti_job_id = tt_job_id t, ti_generation = tt_source_generation t,
      ti_attempt = tt_source_attempt t, ti_maximum_attempts = tt_maximum_attempts t,
      ti_lease_token = tt_lease_token t,
      ti_evidence = \<lparr>ev_envelope_digest = tt_envelope_digest t,
                     ev_payload_length = tt_payload_length t\<rparr>\<rparr>
     (tt_source t) (tt_destination t) = res_bind (ticket_validate t) (\<lambda>_. Ok t)"
  by (cases t) (simp add: ticket_new_def Let_def)

lemma ticket_new_valid: "ticket_new q p ph i s d = Ok t \<Longrightarrow> ticket_validate t = Ok ()"
  by (auto simp: ticket_new_def Let_def result_simps)

lemma hex_decode_encode [simp]:
  "hex_decode_16 (hex_encode (arr_bytes a)) = Some a"
  "hex_decode_32 (hex_encode (arr_bytes b)) = Some b"
  by (simp_all add: hex_iff)

lemma ticket_of_wire_of_ticket: "ticket_of_wire (wire_of_ticket t) = res_bind (ticket_validate t) (\<lambda>_. Ok t)"
  by (simp add: ticket_of_wire_def wire_of_ticket_def Let_def ticket_new_of_fields)

lemma ticket_of_wire_valid: "ticket_of_wire w = Ok t \<Longrightarrow> ticket_validate t = Ok () \<and> wire_of_ticket t = w"
  by (cases w; cases "tw_source_identity w")
    (auto simp: ticket_of_wire_def wire_of_ticket_def ticket_new_def Let_def result_simps hex_iff
      split: if_splits)

text \<open>C20. A ticket can be handed out and presented again: with a JSON writer whose output the
  reader reads back, writing a validated ticket and reading the bytes gives the same ticket,
  and every ticket that is read from any bytes is validated and is the one those bytes'
  wire structure spells.\<close>

theorem ticket_json_round_trip:
  assumes "\<And>w b. to_vec_pretty w = Ok b \<Longrightarrow> from_slice b = Ok w"
  shows "(ticket_validate t = Ok () \<and> ticket_to_json to_vec_pretty t = Ok b
            \<longrightarrow> ticket_from_json from_slice b = Ok t)
    \<and> (ticket_from_json from_slice b = Ok t
            \<longrightarrow> ticket_validate t = Ok () \<and> from_slice b = Ok (wire_of_ticket t))"
  by (auto simp: ticket_to_json_def ticket_from_json_def result_simps ticket_of_wire_of_ticket
      dest: assms ticket_of_wire_valid)

definition example_ticket :: TransitionTicket where
  "example_ticket =
     \<lparr>tt_queue_id = arr_of (replicate 16 1), tt_operation = TO_RetryNow, tt_phase = Linearized,
      tt_job_id = arr_of (replicate 16 2), tt_source_generation = 5, tt_source_attempt = 2,
      tt_maximum_attempts = 3, tt_lease_token = arr_of (replicate 16 3),
      tt_envelope_digest = arr_of (replicate 32 4), tt_payload_length = 10,
      tt_source = Source_Leased (format_boot_id (arr_of (replicate 16 9))) 100 200,
      tt_destination = Dest_Ready\<rparr>"

lemma example_ticket_valid: "ticket_validate example_ticket = Ok ()"
proof -
  have "boot_id_bytes (format_boot_id (arr_of (replicate 16 9))) = Some (arr_of (replicate 16 9))"
    by (simp add: hex_iff)
  then show ?thesis
    by (simp add: ticket_validate_def example_ticket_def destination_common_def source_common_def
        next_common_fields_def transition_rows checked_add_def)
qed

theorem ticket_json_round_trip_witness:
  "ticket_validate example_ticket = Ok ()
   \<and> ticket_to_json (\<lambda>w. if w = wire_of_ticket example_ticket then Ok [123] else Err ''other'')
       example_ticket = Ok [123]
   \<and> ticket_from_json (\<lambda>b. if b = [123] then Ok (wire_of_ticket example_ticket) else Err ''other'')
       [123] = Ok example_ticket"
proof -
  let ?to = "\<lambda>w. if w = wire_of_ticket example_ticket then Ok [123] else Err ''other''"
  let ?from = "\<lambda>b. if b = [123] then Ok (wire_of_ticket example_ticket) else Err ''other''"
  have "ticket_to_json ?to example_ticket = Ok [123]"
    by (simp add: ticket_to_json_def)
  moreover have "?to w = Ok b \<Longrightarrow> ?from b = Ok w" for w b
    by (auto split: if_splits)
  ultimately show ?thesis
    using ticket_json_round_trip [of ?to ?from example_ticket "[123]"] example_ticket_valid
    by blast
qed

lemma dead_reason_codes: "dead_reason_from_u16 v = Some r \<longleftrightarrow> v = dead_reason_code r"
  by (cases r) (auto simp: dead_reason_from_u16_def)

lemma quarantine_reason_codes: "quarantine_reason_from_u16 v = Some r \<longleftrightarrow> v = quarantine_reason_code r"
  by (cases r) (auto simp: quarantine_reason_from_u16_def)

end
