(* ===== verification/Steadq_Engine.thy ===== *)
theory Steadq_Engine
  imports Steadq_Posix Steadq_Tickets
begin

text \<open>
  The durable move engine of \<^verbatim>\<open>src/crates/steadq-core/src/queue/engine.rs\<close>: the set of directories
  that still need a barrier, the no-replace moves with their phases, publication of unnamed
  files by link, verified unlink, removal of empty directories, and the replacing move. Every
  definition composes the wrappers of the file-system theory in the order of the source.

  A closure argument such as \<^verbatim>\<open>after_linearization\<close> is a procedure argument. The set of dirty
  directories is an association list, because its barrier walks the table: the source uses a
  hash map, whose order the code does not depend on.
\<close>

subsection \<open>Directories that need a barrier\<close>

record DirtySet =
  dirty_dirs :: "((u64 \<times> u64) \<times> fd) list"
  pending_dirs :: "string set"

definition dirty_set_new :: DirtySet where
  "dirty_set_new = \<lparr>dirty_dirs = [], pending_dirs = {}\<rparr>"

definition dirty_set_is_empty :: "DirtySet \<Rightarrow> bool" where
  "dirty_set_is_empty d = (dirty_dirs d = [])"

definition dirty_set_clear :: "DirtySet \<Rightarrow> DirtySet" where
  "dirty_set_clear d = d\<lparr>dirty_dirs := [], pending_dirs := {}\<rparr>"

definition record_with ::
  "'s os \<Rightarrow> DirtySet \<Rightarrow> fd \<Rightarrow> (fd \<Rightarrow> ('s, IoError + fd) sysproc) \<Rightarrow> ('s, IoError + DirtySet) sysproc" where
  "record_with k dirty fd clone_fd =
     io_try (fstat k fd) (\<lambda>stat.
       let key = (st_dev stat, st_ino stat) in
       case map_of (dirty_dirs dirty) key of
         Some _ \<Rightarrow> io_return (Ok dirty)
       | None \<Rightarrow> io_try (clone_fd fd) (\<lambda>owned.
           io_return (Ok (dirty\<lparr>dirty_dirs := dirty_dirs dirty @ [(key, owned)]\<rparr>))))"

text \<open>Every directory is synced, and the first error is reported after all were tried.\<close>

fun sync_dirs :: "'s os \<Rightarrow> fd list \<Rightarrow> IoError option \<Rightarrow> ('s, IoError option) sysproc" where
  "sync_dirs k [] first_err = io_return first_err"
| "sync_dirs k (fd # fds) first_err =
     io_bind (fsync_dir_fd k fd) (\<lambda>r.
       sync_dirs k fds (case r of
           Ok _ \<Rightarrow> first_err
         | Err error \<Rightarrow> (if first_err = None then Some error else first_err)))"

definition sync_all :: "'s os \<Rightarrow> DirtySet \<Rightarrow> ('s, IoError + unit) sysproc" where
  "sync_all k dirty =
     io_bind (sync_dirs k (map snd (dirty_dirs dirty)) None) (\<lambda>first_err.
       io_return (case first_err of Some e \<Rightarrow> Err e | None \<Rightarrow> Ok ()))"

subsection \<open>Phases, identities and failures\<close>

datatype MovePhase =
    EnsureDest
  | PreRename
  | Phase_Rename
  | DestinationIdentity
  | PostLinearization
  | DestFsync
  | SourceFsync

record MoveIdentity =
  mi_device :: u64
  mi_inode :: u64

datatype DirectoryDurability = Strict | Deferred

record MoveOptions =
  source_identity :: "MoveIdentity option"
  directory_durability :: DirectoryDurability

definition S_IFMT :: u32 where "S_IFMT = 0xF000"
definition S_IFREG :: u32 where "S_IFREG = 0x8000"

definition identity_matches :: "MoveIdentity \<Rightarrow> Stat \<Rightarrow> bool" where
  "identity_matches i stat =
     (st_mode stat AND S_IFMT = S_IFREG \<and> st_nlink stat = 1 \<and> st_size stat \<ge> 0
      \<and> st_dev stat = mi_device i \<and> st_ino stat = mi_inode i)"

record MovedObject =
  mo_device :: u64
  mo_inode :: u64
  mo_size :: u64

datatype MoveFailure =
    Move_NotCommitted MovePhase IoError
  | Move_OutcomeUnknown MovePhase IoError
  | Move_AlreadyExists
  | Move_SourceMissing

fun move_is_outcome_unknown :: "MoveFailure \<Rightarrow> bool" where
  "move_is_outcome_unknown (Move_OutcomeUnknown _ _) = True"
| "move_is_outcome_unknown _ = False"

fun move_phase :: "MoveFailure \<Rightarrow> MovePhase option" where
  "move_phase (Move_NotCommitted phase _) = Some phase"
| "move_phase (Move_OutcomeUnknown phase _) = Some phase"
| "move_phase _ = None"

definition is_already_exists_io_kind :: "ErrorKind \<Rightarrow> bool" where
  "is_already_exists_io_kind kind = (kind = Kind_AlreadyExists)"

definition is_not_found_io_kind :: "ErrorKind \<Rightarrow> bool" where
  "is_not_found_io_kind kind = (kind = Kind_NotFound)"

subsection \<open>The no-replace move\<close>

definition same_directory :: "'s os \<Rightarrow> fd \<Rightarrow> fd \<Rightarrow> ('s, bool) sysproc" where
  "same_directory k source destination =
     (if source = destination then io_return True
      else io_bind (fstat k source) (\<lambda>a. io_bind (fstat k destination) (\<lambda>b.
        io_return (case (a, b) of
            (Ok sa, Ok sb) \<Rightarrow> st_dev sa = st_dev sb \<and> st_ino sa = st_ino sb
          | _ \<Rightarrow> False))))"

text \<open>After the rename: authenticate the destination when an identity was given.\<close>

definition authenticate_moved ::
  "'s os \<Rightarrow> fd \<Rightarrow> string \<Rightarrow> MoveIdentity option \<Rightarrow> ('s, MoveFailure + MovedObject option) sysproc" where
  "authenticate_moved k dest_dir_fd dest_name identity =
     (case identity of
        None \<Rightarrow> io_return (Ok None)
      | Some i \<Rightarrow> io_bind (fstatat k dest_dir_fd dest_name) (\<lambda>r. case r of
          Ok stat \<Rightarrow>
            if identity_matches i stat
            then io_return (Ok (Some \<lparr>mo_device = st_dev stat, mo_inode = st_ino stat,
                                     mo_size = word_of_int (max (st_size stat) 0)\<rparr>))
            else io_return (Err (Move_OutcomeUnknown DestinationIdentity
                   (io_error_other ''destination identity changed after rename'')))
        | Err error \<Rightarrow> io_return (Err (Move_OutcomeUnknown DestinationIdentity error))))"

text \<open>The directory barriers: the destination first, then a distinct source.\<close>

definition move_barriers ::
  "'s os \<Rightarrow> fd \<Rightarrow> fd \<Rightarrow> bool \<Rightarrow> 'a \<Rightarrow> ('s, MoveFailure + 'a) sysproc" where
  "move_barriers k src_dir_fd dest_dir_fd detect_same_directory output =
     io_try (io_map_err (Move_OutcomeUnknown DestFsync) (fsync_dir_fd k dest_dir_fd)) (\<lambda>_.
       io_bind (if detect_same_directory then same_directory k src_dir_fd dest_dir_fd else io_return False)
         (\<lambda>same. if same then io_return (Ok output)
           else io_try (io_map_err (Move_OutcomeUnknown SourceFsync) (fsync_dir_fd k src_dir_fd))
             (\<lambda>_. io_return (Ok output))))"

definition move_noreplace ::
  "'s os \<Rightarrow> fd \<Rightarrow> string \<Rightarrow> fd \<Rightarrow> string \<Rightarrow> MoveOptions
     \<Rightarrow> (MovedObject option \<Rightarrow> ('s, IoError + 'a) sysproc) \<Rightarrow> ('s, MoveFailure + 'a) sysproc" where
  "move_noreplace k src_dir_fd src_name dest_dir_fd dest_name options after_linearization =
     io_bind (renameat2_noreplace k src_dir_fd src_name dest_dir_fd dest_name) (\<lambda>r. case r of
       Err e \<Rightarrow> io_return (Err
         (if is_already_exists_io_kind (io_kind e) then Move_AlreadyExists
          else if is_not_found_io_kind (io_kind e) then Move_SourceMissing
          else Move_NotCommitted Phase_Rename e))
     | Ok _ \<Rightarrow>
       io_try (authenticate_moved k dest_dir_fd dest_name (source_identity options)) (\<lambda>moved.
       io_try (io_map_err (Move_OutcomeUnknown PostLinearization) (after_linearization moved)) (\<lambda>output.
         if directory_durability options = Deferred then io_return (Ok output)
         else move_barriers k src_dir_fd dest_dir_fd (source_identity options \<noteq> None) output)))"

definition move_verified_noreplace ::
  "'s os \<Rightarrow> fd \<Rightarrow> string \<Rightarrow> fd \<Rightarrow> string \<Rightarrow> ('s, MoveFailure + unit) sysproc" where
  "move_verified_noreplace k src_dir_fd src_name dest_dir_fd dest_name =
     move_noreplace k src_dir_fd src_name dest_dir_fd dest_name
       \<lparr>source_identity = None, directory_durability = Strict\<rparr> (\<lambda>_. io_return (Ok ()))"

text \<open>A witnessed move always has a moved object to pass on; the panic of the source on
  \<^const>\<open>None\<close> is unreachable and returns a placeholder error here.\<close>

definition with_moved ::
  "(MovedObject \<Rightarrow> ('s, IoError + 'a) sysproc) \<Rightarrow> MovedObject option
     \<Rightarrow> ('s, IoError + MovedObject \<times> 'a) sysproc" where
  "with_moved after_linearization moved =
     (case moved of
        Some m \<Rightarrow> io_try (after_linearization m) (\<lambda>output. io_return (Ok (m, output)))
      | None \<Rightarrow> io_return (Err (io_error_other ''witnessed move authenticates its destination'')))"

definition move_witnessed_noreplace_with ::
  "'s os \<Rightarrow> fd \<Rightarrow> string \<Rightarrow> fd \<Rightarrow> string \<Rightarrow> MoveIdentity
     \<Rightarrow> (MovedObject \<Rightarrow> ('s, IoError + 'a) sysproc) \<Rightarrow> ('s, MoveFailure + MovedObject \<times> 'a) sysproc" where
  "move_witnessed_noreplace_with k src_dir_fd src_name dest_dir_fd dest_name identity after_linearization =
     move_noreplace k src_dir_fd src_name dest_dir_fd dest_name
       \<lparr>source_identity = Some identity, directory_durability = Strict\<rparr>
       (with_moved after_linearization)"

definition move_witnessed_noreplace ::
  "'s os \<Rightarrow> fd \<Rightarrow> string \<Rightarrow> fd \<Rightarrow> string \<Rightarrow> MoveIdentity \<Rightarrow> ('s, MoveFailure + unit) sysproc" where
  "move_witnessed_noreplace k src_dir_fd src_name dest_dir_fd dest_name identity =
     io_try (move_witnessed_noreplace_with k src_dir_fd src_name dest_dir_fd dest_name identity
               (\<lambda>_. io_return (Ok ())))
       (\<lambda>_. io_return (Ok ()))"

definition move_witnessed_noreplace_io ::
  "'s os \<Rightarrow> fd \<Rightarrow> string \<Rightarrow> fd \<Rightarrow> string \<Rightarrow> MoveIdentity \<Rightarrow> ('s, MoveFailure + unit) sysproc" where
  "move_witnessed_noreplace_io k src_dir_fd src_name dest_dir_fd dest_name identity =
     move_noreplace k src_dir_fd src_name dest_dir_fd dest_name
       \<lparr>source_identity = Some identity, directory_durability = Strict\<rparr> (\<lambda>_. io_return (Ok ()))"

definition move_witnessed_noreplace_deferred ::
  "'s os \<Rightarrow> fd \<Rightarrow> string \<Rightarrow> fd \<Rightarrow> string \<Rightarrow> MoveIdentity
     \<Rightarrow> (MovedObject \<Rightarrow> ('s, IoError + 'a) sysproc) \<Rightarrow> ('s, MoveFailure + MovedObject \<times> 'a) sysproc" where
  "move_witnessed_noreplace_deferred k src_dir_fd src_name dest_dir_fd dest_name identity after_linearization =
     move_noreplace k src_dir_fd src_name dest_dir_fd dest_name
       \<lparr>source_identity = Some identity, directory_durability = Deferred\<rparr>
       (with_moved after_linearization)"

subsection \<open>Publication of unnamed files\<close>

datatype TmpfilePublishPhase =
  SourceIdentity | FileFsync | Phase_Link | DestinationFsync

datatype TmpfilePublishOutcome = Published PublicationMode | Unsupported

datatype TmpfilePublishFailure =
    Publish_NotCommitted TmpfilePublishPhase IoError
  | Publish_OutcomeUnknown TmpfilePublishPhase IoError
  | Publish_AlreadyExists

definition is_tmpfile_open_unsupported :: "IoError \<Rightarrow> bool" where
  "is_tmpfile_open_unsupported error = (raw_os_error error \<in> {Some EISDIR, Some ENOENT, Some EOPNOTSUPP})"

definition is_direct_link_unsupported :: "IoError \<Rightarrow> bool" where
  "is_direct_link_unsupported error = (raw_os_error error \<in> {Some EINVAL, Some ENOENT, Some EOPNOTSUPP})"

definition is_proc_link_unsupported :: "IoError \<Rightarrow> bool" where
  "is_proc_link_unsupported error = (raw_os_error error \<in> {Some EINVAL, Some ENOSYS, Some EOPNOTSUPP})"

definition unnamed_file_identity :: "Stat \<Rightarrow> IoError + MoveIdentity" where
  "unnamed_file_identity stat =
     (if st_mode stat AND S_IFMT = S_IFREG \<and> st_nlink stat = 0 \<and> st_size stat \<ge> 0
      then Ok \<lparr>mi_device = st_dev stat, mi_inode = st_ino stat\<rparr>
      else Err (io_error_new Kind_InvalidData
             ''temporary publication source is not an unnamed regular file''))"

datatype LinkStrategyAttempt = Attempt_Published PublicationMode | TryNext | Attempt_Unsupported

definition try_direct_tmpfile_link ::
  "'s os \<Rightarrow> fd \<Rightarrow> fd \<Rightarrow> string \<Rightarrow> ('s, TmpfilePublishFailure + LinkStrategyAttempt) sysproc" where
  "try_direct_tmpfile_link k tmpfile_fd destination_directory_fd destination_name =
     io_bind (linkat_empty_path k tmpfile_fd destination_directory_fd destination_name) (\<lambda>r.
       io_return (case r of
         Ok _ \<Rightarrow> Ok (Attempt_Published DirectAtEmptyPath)
       | Err error \<Rightarrow>
           if is_already_exists_io_kind (io_kind error) then Err Publish_AlreadyExists
           else if raw_os_error error = Some ENOSYS then Ok Attempt_Unsupported
           else if is_direct_link_unsupported error then Ok TryNext
           else Err (Publish_NotCommitted Phase_Link error)))"

definition try_proc_tmpfile_link ::
  "'s os \<Rightarrow> fd \<Rightarrow> fd \<Rightarrow> string \<Rightarrow> ('s, TmpfilePublishFailure + LinkStrategyAttempt) sysproc" where
  "try_proc_tmpfile_link k tmpfile_fd destination_directory_fd destination_name =
     io_bind (linkat_proc_self_fd k tmpfile_fd destination_directory_fd destination_name) (\<lambda>r. case r of
         Ok _ \<Rightarrow> io_return (Ok (Attempt_Published ProcSelfFd))
       | Err error \<Rightarrow>
           if is_already_exists_io_kind (io_kind error) then io_return (Err Publish_AlreadyExists)
           else if raw_os_error error = Some ENOENT then
             io_try (io_map_err (Publish_NotCommitted Phase_Link) (fstat k destination_directory_fd))
               (\<lambda>destination.
                 if st_nlink destination = 0
                 then io_return (Err (Publish_NotCommitted Phase_Link error))
                 else io_return (Ok TryNext))
           else if is_proc_link_unsupported error then io_return (Ok TryNext)
           else io_return (Err (Publish_NotCommitted Phase_Link error)))"

definition link_tmpfile_noreplace ::
  "'s os \<Rightarrow> fd \<Rightarrow> fd \<Rightarrow> string \<Rightarrow> PublicationMode option
     \<Rightarrow> ('s, TmpfilePublishFailure + PublicationMode option) sysproc" where
  "link_tmpfile_noreplace k tmpfile_fd destination_directory_fd destination_name preferred =
     (let proc_first = (preferred = Some ProcSelfFd);
          proc = try_proc_tmpfile_link k tmpfile_fd destination_directory_fd destination_name;
          direct = try_direct_tmpfile_link k tmpfile_fd destination_directory_fd destination_name
      in io_try (if proc_first then proc else direct) (\<lambda>first. case first of
           Attempt_Published mode \<Rightarrow> io_return (Ok (Some mode))
         | Attempt_Unsupported \<Rightarrow> io_return (Ok None)
         | TryNext \<Rightarrow>
             io_try (if proc_first then direct else proc) (\<lambda>second. case second of
                 Attempt_Published mode \<Rightarrow> io_return (Ok (Some mode))
               | TryNext \<Rightarrow> io_return (Ok None)
               | Attempt_Unsupported \<Rightarrow> io_return (Ok None))))"

definition publish_tmpfile_noreplace_impl ::
  "'s os \<Rightarrow> fd \<Rightarrow> fd \<Rightarrow> string \<Rightarrow> PublicationMode option \<Rightarrow> bool
     \<Rightarrow> ('s, TmpfilePublishFailure + TmpfilePublishOutcome) sysproc" where
  "publish_tmpfile_noreplace_impl k tmpfile_fd destination_directory_fd destination_name preferred sync_destination =
     io_try (io_map_err (Publish_NotCommitted SourceIdentity) (fstat k tmpfile_fd)) (\<lambda>source_stat.
     io_try (io_return (map_err (Publish_NotCommitted SourceIdentity) (unnamed_file_identity source_stat))) (\<lambda>_.
     io_try (io_map_err (Publish_NotCommitted FileFsync) (fsync k tmpfile_fd)) (\<lambda>_.
     io_try (link_tmpfile_noreplace k tmpfile_fd destination_directory_fd destination_name preferred) (\<lambda>linked.
       case linked of
         None \<Rightarrow> io_return (Ok Unsupported)
       | Some mode \<Rightarrow>
           if sync_destination
           then io_try (io_map_err (Publish_OutcomeUnknown DestinationFsync) (fsync_dir_fd k destination_directory_fd))
                  (\<lambda>_. io_return (Ok (Published mode)))
           else io_return (Ok (Published mode))))))"

definition publish_tmpfile_noreplace_with_mode ::
  "'s os \<Rightarrow> fd \<Rightarrow> fd \<Rightarrow> string \<Rightarrow> PublicationMode option
     \<Rightarrow> ('s, TmpfilePublishFailure + TmpfilePublishOutcome) sysproc" where
  "publish_tmpfile_noreplace_with_mode k tmpfile_fd destination_directory_fd destination_name preferred =
     publish_tmpfile_noreplace_impl k tmpfile_fd destination_directory_fd destination_name preferred True"

definition publish_tmpfile_noreplace_deferred_with_mode ::
  "'s os \<Rightarrow> fd \<Rightarrow> fd \<Rightarrow> string \<Rightarrow> PublicationMode option
     \<Rightarrow> ('s, TmpfilePublishFailure + TmpfilePublishOutcome) sysproc" where
  "publish_tmpfile_noreplace_deferred_with_mode k tmpfile_fd destination_directory_fd destination_name preferred =
     publish_tmpfile_noreplace_impl k tmpfile_fd destination_directory_fd destination_name preferred False"

subsection \<open>Unlinking, removing and replacing\<close>

datatype UnlinkPhase = Phase_Unlink | DirectoryFsync

datatype UnlinkFailure =
    Unlink_NotCommitted UnlinkPhase IoError
  | Unlink_OutcomeUnknown UnlinkPhase IoError
  | Unlink_SourceMissing

fun unlink_phase :: "UnlinkFailure \<Rightarrow> UnlinkPhase option" where
  "unlink_phase (Unlink_NotCommitted phase _) = Some phase"
| "unlink_phase (Unlink_OutcomeUnknown phase _) = Some phase"
| "unlink_phase Unlink_SourceMissing = None"

fun unlink_is_outcome_unknown :: "UnlinkFailure \<Rightarrow> bool" where
  "unlink_is_outcome_unknown (Unlink_OutcomeUnknown _ _) = True"
| "unlink_is_outcome_unknown _ = False"

definition unlink_verified :: "'s os \<Rightarrow> fd \<Rightarrow> string \<Rightarrow> ('s, UnlinkFailure + unit) sysproc" where
  "unlink_verified k directory_fd name =
     io_bind (unlinkat k directory_fd name) (\<lambda>r. case r of
       Err error \<Rightarrow> io_return (Err
         (if is_not_found_io_kind (io_kind error) then Unlink_SourceMissing
          else Unlink_NotCommitted Phase_Unlink error))
     | Ok _ \<Rightarrow> io_map_err (Unlink_OutcomeUnknown DirectoryFsync) (fsync_dir_fd k directory_fd))"

datatype RemoveDirectoryPhase = Phase_Remove | ParentFsync

datatype RemoveDirectoryFailure =
    Remove_NotCommitted RemoveDirectoryPhase IoError
  | Remove_OutcomeUnknown RemoveDirectoryPhase IoError
  | Remove_SourceMissing
  | Remove_NotEmpty

fun remove_phase :: "RemoveDirectoryFailure \<Rightarrow> RemoveDirectoryPhase option" where
  "remove_phase (Remove_NotCommitted phase _) = Some phase"
| "remove_phase (Remove_OutcomeUnknown phase _) = Some phase"
| "remove_phase Remove_SourceMissing = None"
| "remove_phase Remove_NotEmpty = None"

fun remove_is_outcome_unknown :: "RemoveDirectoryFailure \<Rightarrow> bool" where
  "remove_is_outcome_unknown (Remove_OutcomeUnknown _ _) = True"
| "remove_is_outcome_unknown _ = False"

definition is_directory_not_empty :: "IoError \<Rightarrow> bool" where
  "is_directory_not_empty error = (raw_os_error error \<in> {Some ENOTEMPTY, Some EEXIST})"

definition remove_empty_directory_verified ::
  "'s os \<Rightarrow> fd \<Rightarrow> string \<Rightarrow> ('s, RemoveDirectoryFailure + unit) sysproc" where
  "remove_empty_directory_verified k parent_directory_fd name =
     io_bind (unlinkat_dir k parent_directory_fd name) (\<lambda>r. case r of
       Err error \<Rightarrow> io_return (Err
         (if is_not_found_io_kind (io_kind error) then Remove_SourceMissing
          else if is_directory_not_empty error then Remove_NotEmpty
          else Remove_NotCommitted Phase_Remove error))
     | Ok _ \<Rightarrow> io_map_err (Remove_OutcomeUnknown ParentFsync) (fsync_dir_fd k parent_directory_fd))"

datatype ReplacePhase =
    Replace_DestinationIdentity
  | Replace_Rename
  | Replace_DirectoryIdentity
  | Replace_DestinationFsync
  | Replace_SourceFsync

datatype ReplaceFailure =
    Replace_NotCommitted ReplacePhase IoError
  | Replace_OutcomeUnknown ReplacePhase IoError
  | Replace_SourceMissing
  | Replace_DestinationChanged

fun replace_phase :: "ReplaceFailure \<Rightarrow> ReplacePhase option" where
  "replace_phase (Replace_NotCommitted phase _) = Some phase"
| "replace_phase (Replace_OutcomeUnknown phase _) = Some phase"
| "replace_phase Replace_SourceMissing = None"
| "replace_phase Replace_DestinationChanged = None"

fun replace_is_outcome_unknown :: "ReplaceFailure \<Rightarrow> bool" where
  "replace_is_outcome_unknown (Replace_OutcomeUnknown _ _) = True"
| "replace_is_outcome_unknown _ = False"

record ReplaceIdentity =
  ri_device :: u64
  ri_inode :: u64

definition replace_identity_matches :: "ReplaceIdentity \<Rightarrow> Stat \<Rightarrow> bool" where
  "replace_identity_matches i stat = (st_dev stat = ri_device i \<and> st_ino stat = ri_inode i)"

text \<open>The check of the destination before the rename.\<close>

definition check_destination ::
  "'s os \<Rightarrow> fd \<Rightarrow> string \<Rightarrow> ReplaceIdentity option \<Rightarrow> ('s, ReplaceFailure + unit) sysproc" where
  "check_destination k dest_dir_fd dest_name expected_destination =
     (case expected_destination of
        None \<Rightarrow> io_return (Ok ())
      | Some expected \<Rightarrow>
          io_try (io_map_err (Replace_NotCommitted Replace_DestinationIdentity) (fstatat k dest_dir_fd dest_name))
            (\<lambda>destination. io_return
              (if replace_identity_matches expected destination then Ok () else Err Replace_DestinationChanged)))"

definition replace_barriers :: "'s os \<Rightarrow> fd \<Rightarrow> fd \<Rightarrow> ('s, ReplaceFailure + unit) sysproc" where
  "replace_barriers k src_dir_fd dest_dir_fd =
     (let sync_dest = io_map_err (Replace_OutcomeUnknown Replace_DestinationFsync) (fsync_dir_fd k dest_dir_fd) in
      if src_dir_fd = dest_dir_fd then sync_dest
      else
        io_try (io_map_err (Replace_OutcomeUnknown Replace_DirectoryIdentity) (fstat k src_dir_fd)) (\<lambda>src_stat.
        io_try (io_map_err (Replace_OutcomeUnknown Replace_DirectoryIdentity) (fstat k dest_dir_fd)) (\<lambda>dest_stat.
          if st_dev src_stat = st_dev dest_stat \<and> st_ino src_stat = st_ino dest_stat then sync_dest
          else io_try sync_dest (\<lambda>_.
            io_map_err (Replace_OutcomeUnknown Replace_SourceFsync) (fsync_dir_fd k src_dir_fd)))))"

definition replace_verified ::
  "'s os \<Rightarrow> fd \<Rightarrow> string \<Rightarrow> fd \<Rightarrow> string \<Rightarrow> ReplaceIdentity option \<Rightarrow> ('s, ReplaceFailure + unit) sysproc" where
  "replace_verified k src_dir_fd src_name dest_dir_fd dest_name expected_destination =
     io_try (check_destination k dest_dir_fd dest_name expected_destination) (\<lambda>_.
     io_bind (renameat k src_dir_fd src_name dest_dir_fd dest_name) (\<lambda>r. case r of
       Err error \<Rightarrow> io_return (Err
         (if is_not_found_io_kind (io_kind error) then Replace_SourceMissing
          else Replace_NotCommitted Replace_Rename error))
     | Ok _ \<Rightarrow> replace_barriers k src_dir_fd dest_dir_fd))"

subsection \<open>Moves and the namespace\<close>

text \<open>The effect of a rename on a namespace.\<close>

definition moved :: "namespace \<Rightarrow> object_id \<times> bytes \<Rightarrow> object_id \<times> bytes \<Rightarrow> object_id \<Rightarrow> namespace" where
  "moved ns src dst ob = ns(src := None, dst := Some ob)"

context posix
begin

lemma keeps_same_directory: "keeps (os_rel same_fs) (same_directory k a b)"
  unfolding same_directory_def
  by (intro keeps_intros keeps_fstat) (auto intro!: preorder_os_rel)

lemma same_directory_objects:
  assumes "same_directory k a b w = Some (True, w')"
  shows "a = b \<or> (world_obj w a \<noteq> None \<and> world_obj w a = world_obj w b)"
proof (cases "a = b")
  case False
  with assms obtain ra rb w1 where a: "fstat k a w = Some (ra, w1)" and b: "fstat k b w1 = Some (rb, w')"
    and r: "(case (ra, rb) of (Ok sa, Ok sb) \<Rightarrow> st_dev sa = st_dev sb \<and> st_ino sa = st_ino sb | _ \<Rightarrow> False)"
    unfolding same_directory_def by (auto simp: io_bind_eq_Some_iff)
  from r obtain sa sb where "ra = Ok sa" "rb = Ok sb" and eq: "st_dev sa = st_dev sb" "st_ino sa = st_ino sb"
    by (cases ra; cases rb) auto
  then have "world_obj w a = Some (st_dev sa, st_ino sa)" "world_obj w1 b = Some (st_dev sb, st_ino sb)"
    using a b fstat_objects by blast+
  moreover have "world_obj w1 = world_obj w" by (rule os_same_fsD [OF keepsD [OF keeps_fstat a]])
  ultimately show ?thesis using eq by simp
qed simp

lemma keeps_authenticate_moved: "keeps (os_rel same_fs) (authenticate_moved k fd n i)"
  unfolding authenticate_moved_def
  by (intro keeps_intros keeps_fstatat) (auto intro!: preorder_os_rel)

lemma authenticate_moved_Err:
  assumes "authenticate_moved k fd n i w = Some (Err f, w')"
  shows "move_is_outcome_unknown f"
proof (cases i)
  case None
  then show ?thesis using assms by (simp add: authenticate_moved_def)
next
  case (Some x)
  with assms obtain r w1 where "fstatat k fd n w = Some (r, w1)"
    and "(case r of
        Ok stat \<Rightarrow> if identity_matches x stat
          then io_return (Ok (Some \<lparr>mo_device = st_dev stat, mo_inode = st_ino stat,
                                    mo_size = word_of_int (max (st_size stat) 0)\<rparr>))
          else io_return (Err (Move_OutcomeUnknown DestinationIdentity
                 (io_error_other ''destination identity changed after rename'')))
      | Err error \<Rightarrow> io_return (Err (Move_OutcomeUnknown DestinationIdentity error))) w1 = Some (Err f, w')"
    by (auto simp: authenticate_moved_def io_bind_eq_Some_iff)
  then show ?thesis by (cases r) (auto split: if_splits)
qed

text \<open>The barriers commit both directories, the destination before the source.\<close>

lemma move_barriers_effect:
  assumes "move_barriers k sfd dfd detect output w = Some (r, w')"
    and obj: "world_obj w sfd = Some d1" "world_obj w dfd = Some d2"
  shows "world_names w' = world_names w"
    and "world_obj w' = world_obj w"
    and "is_ok r \<Longrightarrow> world_durable w' = commit_dir d1 (world_names w) (commit_dir d2 (world_names w) (world_durable w))"
    and "world_durable w' \<in> {world_durable w, commit_dir d2 (world_names w) (world_durable w),
           commit_dir d1 (world_names w) (commit_dir d2 (world_names w) (world_durable w))}"
    and "r = Ok x \<Longrightarrow> x = output" and "r = Err f \<Longrightarrow> move_is_outcome_unknown f"
proof -
  let ?D2 = "commit_dir d2 (world_names w) (world_durable w)"
  have same: "d1 = d2 \<Longrightarrow> commit_dir d1 (world_names w) ?D2 = ?D2"
    by (auto simp: commit_dir_def)
  have "world_names w' = world_names w \<and> world_obj w' = world_obj w
    \<and> (is_ok r \<longrightarrow> world_durable w' = commit_dir d1 (world_names w) ?D2)
    \<and> world_durable w' \<in> {world_durable w, ?D2, commit_dir d1 (world_names w) ?D2}
    \<and> (\<forall>x. r = Ok x \<longrightarrow> x = output) \<and> (\<forall>f. r = Err f \<longrightarrow> move_is_outcome_unknown f)"
    using assms(1) unfolding move_barriers_def
  proof (cases rule: io_try_map_errE)
    case (err e)
    from err(1) show ?thesis
      by (cases rule: fsync_dir_fd_cases) (use err(2) obj in \<open>auto simp: is_ok_def\<close>)
  next
    case (ok u w1)
    from ok(1) have w1: "world_names w1 = world_names w" "world_obj w1 = world_obj w" "world_durable w1 = ?D2"
      by (cases rule: fsync_dir_fd_cases; use obj in auto)+
    from ok(2) obtain same w2 where
      same_run: "(if detect then same_directory k sfd dfd else io_return False) w1 = Some (same, w2)"
      and rest: "(if same then io_return (Ok output)
          else io_try (io_map_err (Move_OutcomeUnknown SourceFsync) (fsync_dir_fd k sfd))
            (\<lambda>_. io_return (Ok output))) w2 = Some (r, w')"
      by (rule io_bindE)
    have w2: "world_names w2 = world_names w" "world_obj w2 = world_obj w" "world_durable w2 = ?D2"
      using same_run w1 os_same_fsD [OF keepsD [OF keeps_same_directory, of sfd dfd w1 same w2]]
      by (auto split: if_splits)
    show ?thesis
    proof (cases same)
      case True
      then have "same_directory k sfd dfd w1 = Some (True, w2)" using same_run by (auto split: if_splits)
      then have "d1 = d2" using same_directory_objects [of sfd dfd w1 w2] obj w1 by auto
      then show ?thesis using rest True w2 same by (auto simp: is_ok_def)
    next
      case False
      with rest have "io_try (io_map_err (Move_OutcomeUnknown SourceFsync) (fsync_dir_fd k sfd))
          (\<lambda>_. io_return (Ok output)) w2 = Some (r, w')" by simp
      then show ?thesis
      proof (cases rule: io_try_map_errE)
        case (err e)
        from err(1) show ?thesis
          by (cases rule: fsync_dir_fd_cases) (use err(2) obj w2 in \<open>auto simp: is_ok_def\<close>)
      next
        case (ok u w3)
        from ok(1) show ?thesis
          by (cases rule: fsync_dir_fd_cases) (use ok(2) obj w2 in \<open>auto simp: is_ok_def\<close>)
      qed
    qed
  qed
  then show "world_names w' = world_names w" "world_obj w' = world_obj w"
    "is_ok r \<Longrightarrow> world_durable w' = commit_dir d1 (world_names w) ?D2"
    "world_durable w' \<in> {world_durable w, ?D2, commit_dir d1 (world_names w) ?D2}"
    "r = Ok x \<Longrightarrow> x = output" "r = Err f \<Longrightarrow> move_is_outcome_unknown f"
    by blast+
qed

lemma authenticate_moved_object:
  assumes "authenticate_moved k fd n (Some i) w = Some (Ok m, w')"
  obtains d where "world_obj w fd = Some d"
    and "world_names w (d, as_bytes n) = Some (mi_device i, mi_inode i)"
proof -
  from assms obtain r w1 where run: "fstatat k fd n w = Some (r, w1)"
    and r: "(case r of
        Ok stat \<Rightarrow> if identity_matches i stat
          then io_return (Ok (Some \<lparr>mo_device = st_dev stat, mo_inode = st_ino stat,
                                    mo_size = word_of_int (max (st_size stat) 0)\<rparr>))
          else io_return (Err (Move_OutcomeUnknown DestinationIdentity
                 (io_error_other ''destination identity changed after rename'')))
      | Err error \<Rightarrow> io_return (Err (Move_OutcomeUnknown DestinationIdentity error))) w1 = Some (Ok m, w')"
    unfolding authenticate_moved_def option.case by (rule io_bindE)
  from r obtain stat where "r = Ok stat" and "identity_matches i stat"
    by (cases r) (auto split: if_splits)
  with run show ?thesis
    by (auto elim!: fstatat_objects simp: identity_matches_def intro: that)
qed

end
context posix
begin

lemma move_noreplace_effect:
  assumes run: "move_noreplace k sfd sn dfd dn opts after w = Some (r, w')"
    and after: "\<And>m. keeps (os_rel same_fs) (after m)"
  obtains (unmoved) f where "r = Err f" and "\<not> move_is_outcome_unknown f" and "os_rel same_fs w w'"
  | (moved) d1 d2 ob where "world_obj w sfd = Some d1" and "world_obj w dfd = Some d2"
      and "world_names w (d1, as_bytes sn) = Some ob" and "world_names w (d2, as_bytes dn) = None"
      and "world_names w' = moved (world_names w) (d1, as_bytes sn) (d2, as_bytes dn) ob"
      and "world_obj w' = world_obj w"
      and "\<And>f. r = Err f \<Longrightarrow> move_is_outcome_unknown f"
      and "world_durable w' \<in> {world_durable w, commit_dir d2 (world_names w') (world_durable w),
             commit_dir d1 (world_names w') (commit_dir d2 (world_names w') (world_durable w))}"
      and "is_ok r \<Longrightarrow> directory_durability opts = Strict \<Longrightarrow>
             world_durable w' = commit_dir d1 (world_names w') (commit_dir d2 (world_names w') (world_durable w))"
      and "\<And>i. is_ok r \<Longrightarrow> source_identity opts = Some i \<Longrightarrow> ob = (mi_device i, mi_inode i)"
proof -
  from run obtain rr w1 where rename: "renameat2_noreplace k sfd sn dfd dn w = Some (rr, w1)"
    and rest: "(case rr of
         Err e \<Rightarrow> io_return (Err
           (if is_already_exists_io_kind (io_kind e) then Move_AlreadyExists
            else if is_not_found_io_kind (io_kind e) then Move_SourceMissing
            else Move_NotCommitted Phase_Rename e))
       | Ok _ \<Rightarrow>
         io_try (authenticate_moved k dfd dn (source_identity opts)) (\<lambda>moved.
         io_try (io_map_err (Move_OutcomeUnknown PostLinearization) (after moved)) (\<lambda>output.
           if directory_durability opts = Deferred then io_return (Ok output)
           else move_barriers k sfd dfd (source_identity opts \<noteq> None) output))) w1 = Some (r, w')"
    unfolding move_noreplace_def by (rule io_bindE)
  from rename show ?thesis
  proof (cases rule: renameat2_noreplace_cases)
    case (failed e)
    let ?f = "if is_already_exists_io_kind (io_kind e) then Move_AlreadyExists
        else if is_not_found_io_kind (io_kind e) then Move_SourceMissing
        else Move_NotCommitted Phase_Rename e"
    have "r = Err ?f" and "w' = w1" using rest failed(1) by simp_all
    then show ?thesis using failed(2) by (intro unmoved [of ?f]) simp_all
  next
    case (renamed d1 d2 ob)
    note fs1 = renamed(6-8)
    have N: "world_names w1 = moved (world_names w) (d1, as_bytes sn) (d2, as_bytes dn) ob"
      by (simp add: fs1 moved_def)
    from rest renamed(1) have "io_try (authenticate_moved k dfd dn (source_identity opts)) (\<lambda>moved.
         io_try (io_map_err (Move_OutcomeUnknown PostLinearization) (after moved)) (\<lambda>output.
           if directory_durability opts = Deferred then io_return (Ok output)
           else move_barriers k sfd dfd (source_identity opts \<noteq> None) output)) w1 = Some (r, w')"
      by simp
    then show ?thesis
    proof (cases rule: io_tryE)
      case (err f)
      show ?thesis
        using os_same_fsD [OF keepsD [OF keeps_authenticate_moved err(1)]] authenticate_moved_Err [OF err(1)]
          err(2) renamed fs1 N
        by (intro moved [of d1 d2 ob]) (auto simp: is_ok_def)
    next
      case (ok m w2)
      note fs2 = os_same_fsD [OF keepsD [OF keeps_authenticate_moved ok(1)]]
      have ident: "ob = (mi_device i, mi_inode i)" if "source_identity opts = Some i" for i
        using ok(1) that renamed authenticate_moved_object [of dfd dn i w1 m w2] fs1 N
        by (auto simp: moved_def)
      from ok(2) show ?thesis
      proof (cases rule: io_try_map_errE)
        case (err e)
        show ?thesis
          using os_same_fsD [OF keepsD [OF after err(1)]] err(2) renamed fs1 fs2 N
          by (intro moved [of d1 d2 ob]) (auto simp: is_ok_def)
      next
        case (ok res w3)
        note fs3 = os_same_fsD [OF keepsD [OF after ok(1)]]
        show ?thesis
        proof (cases "directory_durability opts")
          case Deferred
          then show ?thesis
            using ok(2) renamed fs1 fs2 fs3 N ident by (intro moved [of d1 d2 ob]) auto
        next
          case Strict
          with ok(2) have b: "move_barriers k sfd dfd (source_identity opts \<noteq> None) res w3 = Some (r, w')"
            by simp
          have o3: "world_obj w3 sfd = Some d1" "world_obj w3 dfd = Some d2"
            using renamed fs1 fs2 fs3 by simp_all
          show ?thesis
            using move_barriers_effect [OF b o3] renamed fs1 fs2 fs3 N ident
            by (intro moved [of d1 d2 ob]) auto
        qed
      qed
    qed
  qed
qed

end
lemma with_name_eq:
  "with_name n f = (if 0 \<in> set (as_bytes n)
     then io_return (Err (io_error_new Kind_InvalidInput ''path component contains NUL byte''))
     else f (as_bytes n))"
proof (cases "0 \<in> set (as_bytes n)")
  case False
  then obtain p where p: "cstr_from_name n = Ok p"
    using cpath_from_bytes_eq_Ok_iff unfolding cstr_from_name_def by blast
  then have "c_string p = as_bytes n" using c_string_of_cpath unfolding cstr_from_name_def by blast
  then show ?thesis using False p by (simp add: with_name_def)
qed (simp add: with_name_def cstr_from_name_def cpath_from_bytes_def)

text \<open>The frame condition on the closure of a move: it leaves the view of the kernel alone.\<close>

definition frames ::
  "('s \<Rightarrow> namespace) \<Rightarrow> ('s \<Rightarrow> namespace) \<Rightarrow> ('s \<Rightarrow> fd \<Rightarrow> object_id option) \<Rightarrow> ('s, 'a) sysproc \<Rightarrow> bool" where
  "frames names durable obj_of m \<longleftrightarrow>
     keeps (os_rel (\<lambda>s s'. names s' = names s \<and> durable s' = durable s \<and> obj_of s' = obj_of s)) m"

lemma frames_return: "frames names durable obj_of (io_return x)"
  by (simp add: frames_def keeps_def os_rel_def)

context posix
begin

lemma frames_iff: "frames names durable obj_of m \<longleftrightarrow> keeps (os_rel same_fs) m"
  by (simp add: frames_def same_fs_def [abs_def])

end

text \<open>C13. The move has one linearization point: if it reports that it did not commit (the
  destination exists, the source is missing, or the rename failed) nothing visible or durable
  has changed; otherwise the source name now names nothing and the destination, which was
  free, names the source's object, and nothing else has changed. A successful strict move
  has both directories committed.\<close>

theorem move_noreplace_linearizes:
  assumes "posix k names durable obj_of" and "\<And>m. frames names durable obj_of (after m)"
    and "move_noreplace k sfd sn dfd dn opts after w = Some (r, w')"
    and "obj_of (os_state w) sfd = Some d1" and "obj_of (os_state w) dfd = Some d2"
  shows "(\<exists>f. r = Err f \<and> \<not> move_is_outcome_unknown f \<and> names (os_state w') = names (os_state w)
            \<and> durable (os_state w') = durable (os_state w))
    \<or> (\<exists>ob. names (os_state w) (d1, as_bytes sn) = Some ob \<and> names (os_state w) (d2, as_bytes dn) = None
         \<and> names (os_state w') = moved (names (os_state w)) (d1, as_bytes sn) (d2, as_bytes dn) ob
         \<and> (\<forall>f. r = Err f \<longrightarrow> move_is_outcome_unknown f)
         \<and> (is_ok r \<and> directory_durability opts = Strict \<longrightarrow>
              (\<forall>n. durable (os_state w') (d1, n) = names (os_state w') (d1, n)
                   \<and> durable (os_state w') (d2, n) = names (os_state w') (d2, n))))"
proof -
  have "\<And>m. keeps (os_rel (posix.same_fs names durable obj_of)) (after m)"
    using assms(2) posix.frames_iff [OF assms(1)] by blast
  from posix.move_noreplace_effect [OF assms(1,3) this] show ?thesis
  proof cases
    case (1 f)
    then show ?thesis
      using posix.os_same_fsD [OF assms(1) 1(3)] by (auto simp: posix.view_defs [OF assms(1)])
  next
    case (2 d1' d2' ob)
    then have "d1' = d1" "d2' = d2" using assms(4,5) by (simp_all add: posix.view_defs [OF assms(1)])
    with 2 show ?thesis
      by (intro disjI2 exI [of _ ob]) (auto simp: posix.view_defs [OF assms(1)] commit_dir_def)
  qed
qed

text \<open>C14. No outcome of a move loses the object: if it was durable under the source name before,
  then after the move, successful, refused or interrupted after any of its steps, it is
  durable under the source or the destination name. This is what committing the destination
  directory before the source directory is for.\<close>

theorem move_noreplace_crash_safe:
  assumes "posix k names durable obj_of" and "\<And>m. frames names durable obj_of (after m)"
    and "move_noreplace k sfd sn dfd dn opts after w = Some (r, w')"
    and "obj_of (os_state w) sfd = Some d1" and "obj_of (os_state w) dfd = Some d2"
    and "names (os_state w) (d1, as_bytes sn) = Some ob" and "durable (os_state w) (d1, as_bytes sn) = Some ob"
  shows "durable (os_state w') (d1, as_bytes sn) = Some ob
    \<or> durable (os_state w') (d2, as_bytes dn) = Some ob"
proof -
  have "\<And>m. keeps (os_rel (posix.same_fs names durable obj_of)) (after m)"
    using assms(2) posix.frames_iff [OF assms(1)] by blast
  from posix.move_noreplace_effect [OF assms(1,3) this] show ?thesis
  proof cases
    case (1 f)
    then show ?thesis
      using posix.os_same_fsD [OF assms(1) 1(3)] assms(7) by (auto simp: posix.view_defs [OF assms(1)])
  next
    case (2 d1' d2' ob')
    then have "d1' = d1" "d2' = d2" "ob' = ob"
      using assms(4-6) by (simp_all add: posix.view_defs [OF assms(1)])
    with 2(5) 2(8) [unfolded insert_iff empty_iff] show ?thesis
      using assms(7) by (elim disjE) (simp_all add: posix.view_defs [OF assms(1)] commit_dir_def moved_def)
  qed
qed

text \<open>Running a procedure without armed faults on the reference kernel.\<close>

lemma fault_check_idle_world [simp]: "fault_check k f ns m (idle_world s) = m (idle_world s)"
  by (simp add: fault_check_def check_names_def idle_world_def fault_state_new_def)

lemma record_fd_identity_idle [simp]: "record_fd_identity k f fd (idle_world s) = Some (Ok (), idle_world s)"
  by (simp add: record_fd_identity_def)

lemma syscall_idle [simp]:
  "syscall k call (idle_world s) =
     Some (map_err (from_raw_os_error k) (fst (call s)), idle_world (snd (call s)))"
  by (simp add: syscall_def idle_world_def case_prod_beta)

lemmas run_simps =
  io_simps scripted_def ref_defs with_name_eq from_raw_os_error_def decode_error_kind_def errno_defs
  fsync_def fsync_dir_fd_def renameat2_noreplace_def renameat_def unlinkat_def fstat_def fstatat_def
  linkat_empty_path_def

text \<open>An example: a directory with one committed entry, an empty one, and a script of errors.\<close>

definition engine_example :: "int option list \<Rightarrow> RefFs" where
  "engine_example script =
     \<lparr>rf_objects = (\<lambda>fd. if fd = 3 then Some (1, 10) else if fd = 4 then Some (1, 11)
        else if fd = 5 then Some (1, 101) else None),
      rf_names = (\<lambda>p. if p = ((1, 10), as_bytes ''a'') then Some (1, 100) else None),
      rf_durable = (\<lambda>p. if p = ((1, 10), as_bytes ''a'') then Some (1, 100) else None),
      rf_stat = (\<lambda>ob. \<lparr>st_dev = 0, st_ino = 0, st_mode = 0x81A4,
                       st_nlink = (if ob = (1, 101) then 0 else 1), st_size = 0\<rparr>),
      rf_script = script\<rparr>"

lemma engine_example_simps [simp]:
  "rf_objects (engine_example script) 3 = Some (1, 10)" "rf_objects (engine_example script) 4 = Some (1, 11)"
  "rf_objects (engine_example script) 5 = Some (1, 101)"
  "rf_script (engine_example script) = script"
  "rf_names (engine_example script) ((1, 10), n) = (if n = as_bytes ''a'' then Some (1, 100) else None)"
  "rf_names (engine_example script) ((1, 11), n) = None"
  "rf_durable (engine_example script) ((1, 10), n) = (if n = as_bytes ''a'' then Some (1, 100) else None)"
  "rf_durable (engine_example script) ((1, 11), n) = None"
  by (simp_all add: engine_example_def)

text \<open>The barrier of the source directory fails, after that of the destination succeeded.\<close>

lemma engine_example_move:
  "\<exists>w'. move_noreplace ref_os 3 ''a'' 4 ''b'' \<lparr>source_identity = None, directory_durability = Strict\<rparr>
       (\<lambda>_. io_return (Ok ())) (idle_world (engine_example [None, None, Some EIO])) =
     Some (Err (Move_OutcomeUnknown SourceFsync (from_raw_os_error ref_os EIO)), w')"
  by (simp add: move_noreplace_def authenticate_moved_def move_barriers_def run_simps as_bytes_def char_byte_def)

theorem move_noreplace_linearizes_witness:
  "\<exists>w'. move_noreplace ref_os 3 ''a'' 4 ''b'' \<lparr>source_identity = None, directory_durability = Strict\<rparr>
       (\<lambda>_. io_return (Ok ())) (idle_world (engine_example [None, None, Some EIO])) =
     Some (Err (Move_OutcomeUnknown SourceFsync (from_raw_os_error ref_os EIO)), w')
   \<and> rf_names (os_state w') = moved (rf_names (engine_example [None, None, Some EIO]))
       ((1, 10), as_bytes ''a'') ((1, 11), as_bytes ''b'') (1, 100)"
proof -
  obtain w' where run: "move_noreplace ref_os 3 ''a'' 4 ''b'' \<lparr>source_identity = None, directory_durability = Strict\<rparr>
       (\<lambda>_. io_return (Ok ())) (idle_world (engine_example [None, None, Some EIO])) =
     Some (Err (Move_OutcomeUnknown SourceFsync (from_raw_os_error ref_os EIO)), w')"
    using engine_example_move by blast
  show ?thesis
    using move_noreplace_linearizes [OF ref.posix_axioms frames_return run, of "(1, 10)" "(1, 11)"] run by auto
qed

theorem move_noreplace_crash_safe_witness:
  "\<exists>w'. move_noreplace ref_os 3 ''a'' 4 ''b'' \<lparr>source_identity = None, directory_durability = Strict\<rparr>
       (\<lambda>_. io_return (Ok ())) (idle_world (engine_example [None, None, Some EIO])) =
     Some (Err (Move_OutcomeUnknown SourceFsync (from_raw_os_error ref_os EIO)), w')
   \<and> (rf_durable (os_state w') ((1, 10), as_bytes ''a'') = Some (1, 100)
      \<or> rf_durable (os_state w') ((1, 11), as_bytes ''b'') = Some (1, 100))"
proof -
  obtain w' where run: "move_noreplace ref_os 3 ''a'' 4 ''b'' \<lparr>source_identity = None, directory_durability = Strict\<rparr>
       (\<lambda>_. io_return (Ok ())) (idle_world (engine_example [None, None, Some EIO])) =
     Some (Err (Move_OutcomeUnknown SourceFsync (from_raw_os_error ref_os EIO)), w')"
    using engine_example_move by blast
  show ?thesis
    using move_noreplace_crash_safe [OF ref.posix_axioms frames_return run, of "(1, 10)" "(1, 11)"] run by auto
qed

subsection \<open>The other linearized operations\<close>

context posix
begin

text \<open>A barrier after the linearization point.\<close>

lemma barrier_effect:
  assumes "io_map_err g (fsync_dir_fd k fd) w = Some (r, w')" and "world_obj w fd = Some d"
  shows "world_names w' = world_names w" and "world_obj w' = world_obj w"
    and "is_ok r \<Longrightarrow> world_durable w' = commit_dir d (world_names w) (world_durable w)"
    and "world_durable w' \<in> {world_durable w, commit_dir d (world_names w) (world_durable w)}"
    and "r = Err f \<Longrightarrow> \<exists>e. f = g e"
proof -
  from assms(1) obtain r1 where run: "fsync_dir_fd k fd w = Some (r1, w')" and r: "r = map_err g r1"
    by (auto simp: io_map_err_eq_Some_iff)
  from run have "world_names w' = world_names w \<and> world_obj w' = world_obj w
    \<and> (is_ok r1 \<longrightarrow> world_durable w' = commit_dir d (world_names w) (world_durable w))
    \<and> world_durable w' \<in> {world_durable w, commit_dir d (world_names w) (world_durable w)}"
    by (cases rule: fsync_dir_fd_cases) (use assms(2) in \<open>auto simp: is_ok_def\<close>)
  moreover have "is_ok r = is_ok r1" using r by (cases r1) (auto simp: is_ok_def)
  ultimately show "world_names w' = world_names w" "world_obj w' = world_obj w"
    "is_ok r \<Longrightarrow> world_durable w' = commit_dir d (world_names w) (world_durable w)"
    "world_durable w' \<in> {world_durable w, commit_dir d (world_names w) (world_durable w)}"
    by blast+
  show "r = Err f \<Longrightarrow> \<exists>e. f = g e" using r by (cases r1) auto
qed

lemma unlink_verified_effect:
  assumes "unlink_verified k fd n w = Some (r, w')"
  obtains (unchanged) f where "r = Err f" and "\<not> unlink_is_outcome_unknown f" and "os_rel same_fs w w'"
  | (unlinked) d where "world_obj w fd = Some d" and "world_names w (d, as_bytes n) \<noteq> None"
      and "world_names w' = (world_names w)((d, as_bytes n) := None)"
      and "world_obj w' = world_obj w"
      and "\<And>f. r = Err f \<Longrightarrow> unlink_is_outcome_unknown f"
      and "is_ok r \<Longrightarrow> world_durable w' = commit_dir d (world_names w') (world_durable w)"
      and "world_durable w' \<in> {world_durable w, commit_dir d (world_names w') (world_durable w)}"
  using assms unfolding unlink_verified_def
proof (rule io_bindE)
  fix r1 w1
  assume un: "unlinkat k fd n w = Some (r1, w1)"
    and rest: "(case r1 of
       Err error \<Rightarrow> io_return (Err
         (if is_not_found_io_kind (io_kind error) then Unlink_SourceMissing
          else Unlink_NotCommitted Phase_Unlink error))
     | Ok _ \<Rightarrow> io_map_err (Unlink_OutcomeUnknown DirectoryFsync) (fsync_dir_fd k fd)) w1 = Some (r, w')"
  from un [THEN disjI1] show ?thesis
  proof (cases rule: unlinkat_cases)
    case (unlinked d)
    then have "io_map_err (Unlink_OutcomeUnknown DirectoryFsync) (fsync_dir_fd k fd) w1 = Some (r, w')"
      and "world_obj w1 fd = Some d"
      using rest by auto
    note b = barrier_effect [OF this]
    show ?thesis
      by (rule that(2) [of d]) (use unlinked b in \<open>auto dest: b(5)\<close>)
  next
    case (failed e)
    then show ?thesis using rest by (cases "is_not_found_io_kind (io_kind e)"; intro that(1)) auto
  qed
qed

end

text \<open>C15. A verified unlink has one linearization point: when it reports that the name was missing
  or that the unlink failed nothing has changed; otherwise exactly that name is gone, an error
  is reported as outcome unknown, and success means that the removal is committed.\<close>

theorem unlink_verified_linearizes:
  assumes "posix k names durable obj_of"
    and "unlink_verified k fd n w = Some (r, w')" and "obj_of (os_state w) fd = Some d"
  shows "(\<exists>f. r = Err f \<and> \<not> unlink_is_outcome_unknown f \<and> names (os_state w') = names (os_state w)
            \<and> durable (os_state w') = durable (os_state w))
    \<or> (names (os_state w) (d, as_bytes n) \<noteq> None
         \<and> names (os_state w') = (names (os_state w))((d, as_bytes n) := None)
         \<and> (\<forall>f. r = Err f \<longrightarrow> unlink_is_outcome_unknown f)
         \<and> (is_ok r \<longrightarrow> (\<forall>m. durable (os_state w') (d, m) = names (os_state w') (d, m)))
         \<and> (\<forall>p. fst p \<noteq> d \<longrightarrow> durable (os_state w') p = durable (os_state w) p))"
  using posix.unlink_verified_effect [OF assms(1,2)]
proof cases
  case (1 f)
  then show ?thesis
    using posix.os_same_fsD [OF assms(1) 1(3)] by (auto simp: posix.view_defs [OF assms(1)])
next
  case (2 d')
  then have "d' = d" using assms(3) by (simp add: posix.view_defs [OF assms(1)])
  with 2 show ?thesis
    by (intro disjI2) (auto simp: posix.view_defs [OF assms(1)] commit_dir_def split: if_splits)
qed

lemma engine_example_unlink:
  "\<exists>w'. unlink_verified ref_os 3 ''a'' (idle_world (engine_example [None, Some EIO])) =
     Some (Err (Unlink_OutcomeUnknown DirectoryFsync (from_raw_os_error ref_os EIO)), w')"
  by (simp add: unlink_verified_def run_simps as_bytes_def char_byte_def)

theorem unlink_verified_linearizes_witness:
  "\<exists>w'. unlink_verified ref_os 3 ''a'' (idle_world (engine_example [None, Some EIO])) =
     Some (Err (Unlink_OutcomeUnknown DirectoryFsync (from_raw_os_error ref_os EIO)), w')
   \<and> rf_names (os_state w') ((1, 10), as_bytes ''a'') = None"
proof -
  obtain w' where run: "unlink_verified ref_os 3 ''a'' (idle_world (engine_example [None, Some EIO])) =
     Some (Err (Unlink_OutcomeUnknown DirectoryFsync (from_raw_os_error ref_os EIO)), w')"
    using engine_example_unlink by blast
  show ?thesis
    using unlink_verified_linearizes [OF ref.posix_axioms run, of "(1, 10)"] run by auto
qed

text \<open>Publication by link: the two strategies, and their fallback order.\<close>

context posix
begin

text \<open>The descriptor of an unnamed file: its number, and an object without entries.\<close>

definition unnamed_source :: "'s world \<Rightarrow> fd \<Rightarrow> object_id \<Rightarrow> bool" where
  "unnamed_source w fd ob \<longleftrightarrow> 0 \<le> fd \<and> fd < 2 ^ 32 \<and> world_obj w fd = Some ob
     \<and> (\<forall>n. world_names w (ob, n) = None \<and> world_durable w (ob, n) = None)"

definition linked :: "'s world \<Rightarrow> 's world \<Rightarrow> fd \<Rightarrow> string \<Rightarrow> object_id \<Rightarrow> bool" where
  "linked w w' dfd n ob \<longleftrightarrow> (\<exists>d. world_obj w dfd = Some d \<and> world_names w (d, as_bytes n) = None
     \<and> world_names w' = (world_names w)((d, as_bytes n) := Some ob)
     \<and> world_durable w' = world_durable w \<and> world_obj w' = world_obj w)"

definition attempt_effect ::
  "'s world \<Rightarrow> 's world \<Rightarrow> fd \<Rightarrow> string \<Rightarrow> object_id \<Rightarrow> TmpfilePublishFailure + LinkStrategyAttempt \<Rightarrow> bool" where
  "attempt_effect w w' dfd n ob r \<longleftrightarrow> (case r of
      Ok (Attempt_Published mode) \<Rightarrow> linked w w' dfd n ob
    | Err f \<Rightarrow> os_rel same_fs w w' \<and> (\<forall>p e. f \<noteq> Publish_OutcomeUnknown p e)
    | _ \<Rightarrow> os_rel same_fs w w')"

lemma try_direct_tmpfile_link_effect:
  assumes "try_direct_tmpfile_link k fd dfd n w = Some (r, w')" and "world_obj w fd = Some ob"
  shows "attempt_effect w w' dfd n ob r"
  using assms(1) unfolding try_direct_tmpfile_link_def
proof (rule io_bindE)
  fix r1 w1
  assume link: "linkat_empty_path k fd dfd n w = Some (r1, w1)"
    and rest: "io_return (case r1 of
         Ok _ \<Rightarrow> Ok (Attempt_Published DirectAtEmptyPath)
       | Err error \<Rightarrow>
           if is_already_exists_io_kind (io_kind error) then Err Publish_AlreadyExists
           else if raw_os_error error = Some ENOSYS then Ok Attempt_Unsupported
           else if is_direct_link_unsupported error then Ok TryNext
           else Err (Publish_NotCommitted Phase_Link error)) w1 = Some (r, w')"
  from link show ?thesis
  proof (cases rule: linkat_empty_path_cases)
    case (linked d ob')
    then show ?thesis using rest assms(2) by (auto simp: linked_def attempt_effect_def)
  next
    case (failed e)
    then show ?thesis using rest by (auto simp: attempt_effect_def)
  qed
qed

lemma try_proc_tmpfile_link_effect:
  assumes "try_proc_tmpfile_link k fd dfd n w = Some (r, w')" and "world_obj w fd = Some ob"
    and "0 \<le> fd" and "fd < 2 ^ 32"
  shows "attempt_effect w w' dfd n ob r"
proof -
  obtain j where j: "fd = int j" "j < 2 ^ 32" using assms(3,4) by (cases fd rule: int_cases) auto
  from assms(1) obtain r1 w1 where link: "linkat_proc_self_fd k (int j) dfd n w = Some (r1, w1)"
    and rest: "(case r1 of
         Ok _ \<Rightarrow> io_return (Ok (Attempt_Published ProcSelfFd))
       | Err error \<Rightarrow>
           if is_already_exists_io_kind (io_kind error) then io_return (Err Publish_AlreadyExists)
           else if raw_os_error error = Some ENOENT then
             io_try (io_map_err (Publish_NotCommitted Phase_Link) (fstat k dfd))
               (\<lambda>destination.
                 if st_nlink destination = 0
                 then io_return (Err (Publish_NotCommitted Phase_Link error))
                 else io_return (Ok TryNext))
           else if is_proc_link_unsupported error then io_return (Ok TryNext)
           else io_return (Err (Publish_NotCommitted Phase_Link error))) w1 = Some (r, w')"
    unfolding try_proc_tmpfile_link_def j(1) by (rule io_bindE)
  from link j(2) show ?thesis
  proof (cases rule: linkat_proc_self_fd_cases)
    case (linked d ob')
    then show ?thesis using rest assms(2) j by (auto simp: linked_def attempt_effect_def)
  next
    case (failed e)
    show ?thesis
    proof (cases "\<not> is_already_exists_io_kind (io_kind e) \<and> raw_os_error e = Some ENOENT")
      case True
      then have "io_try (io_map_err (Publish_NotCommitted Phase_Link) (fstat k dfd))
          (\<lambda>destination.
            if st_nlink destination = 0
            then io_return (Err (Publish_NotCommitted Phase_Link e))
            else io_return (Ok TryNext)) w1 = Some (r, w')"
        using rest failed by simp
      then show ?thesis
      proof (cases rule: io_try_map_errE)
        case (err e')
        then show ?thesis
          using failed(2) keepsD [OF keeps_fstat err(1)] by (auto simp: attempt_effect_def os_rel_def same_fs_def split: if_splits)
      next
        case (ok st w2)
        then show ?thesis
          using failed(2) keepsD [OF keeps_fstat ok(1)] by (auto simp: attempt_effect_def os_rel_def same_fs_def split: if_splits)
      qed
    next
      case False
      then show ?thesis using rest failed by (auto simp: attempt_effect_def split: if_splits)
    qed
  qed
qed

lemma attempt_effect_after:
  assumes "os_rel same_fs w w1" and "attempt_effect w1 w2 dfd n ob r"
  shows "attempt_effect w w2 dfd n ob r"
  using assms
  by (auto simp: attempt_effect_def linked_def os_rel_def same_fs_def view_defs
      split: sum.splits LinkStrategyAttempt.splits)

lemma link_tmpfile_noreplace_effect:
  assumes "link_tmpfile_noreplace k fd dfd n preferred w = Some (r, w')"
    and "world_obj w fd = Some ob" and "0 \<le> fd" and "fd < 2 ^ 32"
  shows "case r of
      Ok (Some mode) \<Rightarrow> linked w w' dfd n ob
    | Ok None \<Rightarrow> os_rel same_fs w w'
    | Err f \<Rightarrow> os_rel same_fs w w' \<and> (\<forall>p e. f \<noteq> Publish_OutcomeUnknown p e)"
proof -
  define proc where "proc = try_proc_tmpfile_link k fd dfd n"
  define direct where "direct = try_direct_tmpfile_link k fd dfd n"
  define first where "first = (if preferred = Some ProcSelfFd then proc else direct)"
  define second where "second = (if preferred = Some ProcSelfFd then direct else proc)"
  have eff: "\<And>r w w'. first w = Some (r, w') \<Longrightarrow> world_obj w fd = Some ob \<Longrightarrow> attempt_effect w w' dfd n ob r"
    "\<And>r w w'. second w = Some (r, w') \<Longrightarrow> world_obj w fd = Some ob \<Longrightarrow> attempt_effect w w' dfd n ob r"
    using try_direct_tmpfile_link_effect try_proc_tmpfile_link_effect [OF _ _ assms(3,4)]
    by (auto simp: first_def second_def proc_def direct_def split: if_splits)
  from assms(1) have "io_try first (\<lambda>a. case a of
           Attempt_Published mode \<Rightarrow> io_return (Ok (Some mode))
         | Attempt_Unsupported \<Rightarrow> io_return (Ok None)
         | TryNext \<Rightarrow>
             io_try second (\<lambda>b. case b of
                 Attempt_Published mode \<Rightarrow> io_return (Ok (Some mode))
               | TryNext \<Rightarrow> io_return (Ok None)
               | Attempt_Unsupported \<Rightarrow> io_return (Ok None))) w = Some (r, w')"
    unfolding link_tmpfile_noreplace_def Let_def first_def second_def proc_def direct_def .
  then show ?thesis
  proof (cases rule: io_tryE)
    case (err f)
    then show ?thesis using eff(1) [OF err(1) assms(2)] by (simp add: attempt_effect_def)
  next
    case (ok a w1)
    note a = eff(1) [OF ok(1) assms(2)]
    show ?thesis
    proof (cases a)
      case TryNext
      then have same: "os_rel same_fs w w1" using a by (simp add: attempt_effect_def)
      then have obj: "world_obj w1 fd = Some ob" using os_same_fsD(3) assms(2) by simp
      from ok(2) have "io_try second (\<lambda>b. case b of
                 Attempt_Published mode \<Rightarrow> io_return (Ok (Some mode))
               | TryNext \<Rightarrow> io_return (Ok None)
               | Attempt_Unsupported \<Rightarrow> io_return (Ok None)) w1 = Some (r, w')" by (simp add: TryNext)
      then show ?thesis
      proof (cases rule: io_tryE)
        case (err f)
        then show ?thesis
          using attempt_effect_after [OF same eff(2) [OF err(1) obj]] by (simp add: attempt_effect_def)
      next
        case (ok b w2)
        then show ?thesis
          using attempt_effect_after [OF same eff(2) [OF ok(1) obj]]
          by (cases b) (auto simp: attempt_effect_def)
      qed
    qed (use ok a in \<open>auto simp: attempt_effect_def\<close>)
  qed
qed

end

context posix
begin

lemma unnamed_fsync:
  assumes "fsync k fd w = Some (r, w')" and "unnamed_source w fd ob"
  shows "os_rel same_fs w w'"
proof -
  have "commit_dir ob (world_names w) (world_durable w) = world_durable w"
    using assms(2) by (auto simp: commit_dir_def unnamed_source_def)
  with assms(1) show ?thesis
    by (cases rule: fsync_cases)
      (use assms(2) in \<open>auto simp: unnamed_source_def os_rel_def same_fs_def view_defs\<close>)
qed

lemma same_fs_trans:
  "os_rel same_fs w1 w2 \<Longrightarrow> os_rel same_fs w2 w3 \<Longrightarrow> os_rel same_fs w1 w3"
  by (simp add: os_rel_def same_fs_def)

lemma linked_after:
  "os_rel same_fs w w1 \<Longrightarrow> linked w1 w2 dfd n ob \<Longrightarrow> linked w w2 dfd n ob"
  by (auto simp: linked_def os_rel_def same_fs_def view_defs)

lemma publish_barrier:
  assumes "(if sync
      then io_try (io_map_err (Publish_OutcomeUnknown DestinationFsync) (fsync_dir_fd k dfd))
             (\<lambda>_. io_return (Ok (Published mode)))
      else io_return (Ok (Published mode))) w = Some (r, w')"
    and d: "world_obj w dfd = Some d"
  shows "world_names w' = world_names w"
    and "r = Ok (Published mode) \<or> (\<exists>e. r = Err (Publish_OutcomeUnknown DestinationFsync e))"
    and "is_ok r \<Longrightarrow> sync \<Longrightarrow> world_durable w' = commit_dir d (world_names w) (world_durable w)"
proof -
  have "world_names w' = world_names w
    \<and> (r = Ok (Published mode) \<or> (\<exists>e. r = Err (Publish_OutcomeUnknown DestinationFsync e)))
    \<and> (is_ok r \<longrightarrow> sync \<longrightarrow> world_durable w' = commit_dir d (world_names w) (world_durable w))"
  proof (cases sync)
    case True
    then have "io_try (io_map_err (Publish_OutcomeUnknown DestinationFsync) (fsync_dir_fd k dfd))
             (\<lambda>_. io_return (Ok (Published mode))) w = Some (r, w')" using assms(1) by simp
    then show ?thesis
    proof (cases rule: io_tryE)
      case (err f)
      then show ?thesis using barrier_effect [OF err(1) d] by (auto simp: is_ok_def)
    next
      case (ok u w1)
      then show ?thesis using barrier_effect [OF ok(1) d] by (auto simp: is_ok_def)
    qed
  qed (use assms(1) in simp)
  then show "world_names w' = world_names w"
    "r = Ok (Published mode) \<or> (\<exists>e. r = Err (Publish_OutcomeUnknown DestinationFsync e))"
    "is_ok r \<Longrightarrow> sync \<Longrightarrow> world_durable w' = commit_dir d (world_names w) (world_durable w)"
    by blast+
qed

lemma publish_tmpfile_effect:
  assumes "publish_tmpfile_noreplace_impl k fd dfd n preferred sync w = Some (r, w')"
    and src: "unnamed_source w fd ob"
  obtains (unpublished) "os_rel same_fs w w'" and "r = Ok Unsupported \<or> (\<exists>f. r = Err f \<and> (\<forall>p e. f \<noteq> Publish_OutcomeUnknown p e))"
  | (published) w1 d mode where "linked w w1 dfd n ob" and "world_obj w dfd = Some d"
      and "world_names w' = world_names w1"
      and "r = Ok (Published mode) \<or> (\<exists>e. r = Err (Publish_OutcomeUnknown DestinationFsync e))"
      and "is_ok r \<Longrightarrow> sync \<Longrightarrow> world_durable w' = commit_dir d (world_names w1) (world_durable w)"
  using assms(1) unfolding publish_tmpfile_noreplace_impl_def
proof (cases rule: io_try_map_errE)
  case (err e)
  then show ?thesis using keepsD [OF keeps_fstat err(1)] by (intro unpublished) auto
next
  case (ok st w1)
  have w1: "os_rel same_fs w w1" by (rule keepsD [OF keeps_fstat ok(1)])
  then have src1: "unnamed_source w1 fd ob" using src os_same_fsD [OF w1] by (simp add: unnamed_source_def)
  from ok(2) show ?thesis
  proof (cases rule: io_tryE)
    case (err f)
    then show ?thesis using w1 by (intro unpublished) (cases "unnamed_file_identity st"; auto)+
  next
    case (ok i w2)
    then have w2: "w2 = w1" by simp
    from ok(2) [unfolded w2] show ?thesis
    proof (cases rule: io_try_map_errE)
      case (err e)
      then show ?thesis using same_fs_trans [OF w1 unnamed_fsync [OF err(1) src1]] by (intro unpublished) auto
    next
      case (ok u w3)
      have w3: "os_rel same_fs w w3" by (rule same_fs_trans [OF w1 unnamed_fsync [OF ok(1) src1]])
      then have obj3: "world_obj w3 fd = Some ob" using src os_same_fsD [OF w3] by (simp add: unnamed_source_def)
      have rng: "0 \<le> fd" "fd < 2 ^ 32" using src by (auto simp: unnamed_source_def)
      from ok(2) show ?thesis
      proof (cases rule: io_tryE)
        case (err f)
        then show ?thesis
          using link_tmpfile_noreplace_effect [OF err(1) obj3 rng] same_fs_trans [OF w3] by (intro unpublished) auto
      next
        case (ok linked_mode w4)
        note eff = link_tmpfile_noreplace_effect [OF ok(1) obj3 rng]
        show ?thesis
        proof (cases linked_mode)
          case None
          then show ?thesis using ok(2) eff same_fs_trans [OF w3] by (intro unpublished) auto
        next
          case (Some mode)
          then have l: "linked w w4 dfd n ob" using eff linked_after [OF w3] by simp
          then obtain d where d: "world_obj w dfd = Some d" "world_obj w4 dfd = Some d" "world_durable w4 = world_durable w"
            by (auto simp: linked_def)
          from ok(2) have "(if sync
              then io_try (io_map_err (Publish_OutcomeUnknown DestinationFsync) (fsync_dir_fd k dfd))
                     (\<lambda>_. io_return (Ok (Published mode)))
              else io_return (Ok (Published mode))) w4 = Some (r, w')" by (simp add: Some)
          note t = publish_barrier [OF this d(2)]
          show ?thesis using l d t by (intro published [of w4 d mode]) auto
        qed
      qed
    qed
  qed
qed

end

text \<open>C16. Publishing an unnamed file has one linearization point: when the operation reports that
  links are unsupported, that the name exists or that it did not commit, nothing visible or
  durable has changed; otherwise the name, which was free, now names the file, and nothing
  else has changed. A successful publication with a synced destination is committed.\<close>

theorem publish_tmpfile_linearizes:
  assumes "posix k names durable obj_of"
    and "publish_tmpfile_noreplace_impl k fd dfd n preferred sync w = Some (r, w')"
    and "0 \<le> fd" and "fd < 2 ^ 32" and "obj_of (os_state w) fd = Some ob" and "obj_of (os_state w) dfd = Some d"
    and "\<And>m. names (os_state w) (ob, m) = None" and "\<And>m. durable (os_state w) (ob, m) = None"
  shows "((r = Ok Unsupported \<or> (\<exists>f. r = Err f \<and> (\<forall>p e. f \<noteq> Publish_OutcomeUnknown p e)))
           \<and> names (os_state w') = names (os_state w) \<and> durable (os_state w') = durable (os_state w))
    \<or> (((\<exists>mode. r = Ok (Published mode)) \<or> (\<exists>e. r = Err (Publish_OutcomeUnknown DestinationFsync e)))
         \<and> names (os_state w) (d, as_bytes n) = None
         \<and> names (os_state w') = (names (os_state w))((d, as_bytes n) := Some ob)
         \<and> (is_ok r \<and> sync \<longrightarrow> (\<forall>m. durable (os_state w') (d, m) = names (os_state w') (d, m))))"
proof -
  have "posix.unnamed_source names durable obj_of w fd ob"
    using assms(3-5,7,8) by (simp add: posix.unnamed_source_def [OF assms(1)] posix.view_defs [OF assms(1)])
  from posix.publish_tmpfile_effect [OF assms(1,2) this] show ?thesis
  proof cases
    case 1
    then show ?thesis
      using posix.os_same_fsD [OF assms(1) 1(1)] by (simp add: posix.view_defs [OF assms(1)])
  next
    case (2 w1 d' mode)
    then have "d' = d" using assms(6) by (simp add: posix.view_defs [OF assms(1)])
    with 2 show ?thesis
      by (intro disjI2) (auto simp: posix.linked_def [OF assms(1)] posix.view_defs [OF assms(1)] commit_dir_def)
  qed
qed

lemma engine_example_publish:
  "\<exists>w'. publish_tmpfile_noreplace_impl ref_os 5 4 ''b'' None True (idle_world (engine_example [])) =
     Some (Ok (Published DirectAtEmptyPath), w')"
  by (simp add: publish_tmpfile_noreplace_impl_def unnamed_file_identity_def link_tmpfile_noreplace_def
      try_direct_tmpfile_link_def S_IFMT_def S_IFREG_def run_simps as_bytes_def char_byte_def engine_example_def)

theorem publish_tmpfile_linearizes_witness:
  "\<exists>w'. publish_tmpfile_noreplace_impl ref_os 5 4 ''b'' None True (idle_world (engine_example [])) =
     Some (Ok (Published DirectAtEmptyPath), w')
   \<and> rf_durable (os_state w') ((1, 11), as_bytes ''b'') = Some (1, 101)"
proof -
  obtain w' where run: "publish_tmpfile_noreplace_impl ref_os 5 4 ''b'' None True (idle_world (engine_example [])) =
     Some (Ok (Published DirectAtEmptyPath), w')"
    using engine_example_publish by blast
  show ?thesis
    using publish_tmpfile_linearizes [OF ref.posix_axioms run, of "(1, 101)" "(1, 11)"] run
    by (auto simp: engine_example_def is_ok_def)
qed

text \<open>The replacing move.\<close>

context posix
begin

lemma check_destination_effect:
  assumes "check_destination k dfd dn expected w = Some (r, w')"
  shows "os_rel same_fs w w'" and "r = Err f \<Longrightarrow> \<not> replace_is_outcome_unknown f"
    and "expected = Some i \<Longrightarrow> r = Ok () \<Longrightarrow>
      \<exists>d. world_obj w dfd = Some d \<and> world_names w (d, as_bytes dn) = Some (ri_device i, ri_inode i)"
proof -
  have "os_rel same_fs w w' \<and> (\<forall>f. r = Err f \<longrightarrow> \<not> replace_is_outcome_unknown f)
    \<and> (\<forall>i. expected = Some i \<longrightarrow> r = Ok () \<longrightarrow>
        (\<exists>d. world_obj w dfd = Some d \<and> world_names w (d, as_bytes dn) = Some (ri_device i, ri_inode i)))"
  proof (cases expected)
    case None
    then show ?thesis using assms by (auto simp: check_destination_def os_rel_def)
  next
    case (Some i)
    then have "io_try (io_map_err (Replace_NotCommitted Replace_DestinationIdentity) (fstatat k dfd dn))
            (\<lambda>destination. io_return
              (if replace_identity_matches i destination then Ok () else Err Replace_DestinationChanged)) w
        = Some (r, w')"
      using assms by (simp add: check_destination_def)
    then show ?thesis
    proof (cases rule: io_try_map_errE)
      case (err e)
      then show ?thesis using keepsD [OF keeps_fstatat err(1)] by auto
    next
      case (ok st w1)
      obtain d where "world_obj w dfd = Some d" "world_names w (d, as_bytes dn) = Some (st_dev st, st_ino st)"
        using fstatat_objects [OF ok(1)] by blast
      then show ?thesis
        using keepsD [OF keeps_fstatat ok(1)] ok(2) Some
        by (cases "replace_identity_matches i st") (auto simp: replace_identity_matches_def)
    qed
  qed
  then show "os_rel same_fs w w'" "r = Err f \<Longrightarrow> \<not> replace_is_outcome_unknown f"
    "expected = Some i \<Longrightarrow> r = Ok () \<Longrightarrow>
      \<exists>d. world_obj w dfd = Some d \<and> world_names w (d, as_bytes dn) = Some (ri_device i, ri_inode i)"
    by blast+
qed

lemma two_barriers:
  assumes "io_try (io_map_err (Replace_OutcomeUnknown p) (fsync_dir_fd k dfd)) (\<lambda>_.
      io_map_err (Replace_OutcomeUnknown q) (fsync_dir_fd k sfd)) w1 = Some (r, w')"
    and w1: "os_rel same_fs w w1" and obj: "world_obj w sfd = Some d1" "world_obj w dfd = Some d2"
  shows "world_names w' = world_names w \<and> (\<forall>f. r = Err f \<longrightarrow> replace_is_outcome_unknown f)
    \<and> (is_ok r \<longrightarrow> world_durable w' = commit_dir d1 (world_names w) (commit_dir d2 (world_names w) (world_durable w)))
    \<and> world_durable w' \<in> {world_durable w, commit_dir d2 (world_names w) (world_durable w),
           commit_dir d1 (world_names w) (commit_dir d2 (world_names w) (world_durable w))}"
proof -
  have o1: "world_obj w1 dfd = Some d2" "world_obj w1 sfd = Some d1" using obj os_same_fsD [OF w1] by simp_all
  from assms(1) show ?thesis
  proof (cases rule: io_tryE)
    case (err f)
    then show ?thesis using barrier_effect [OF err(1) o1(1)] os_same_fsD [OF w1] by (auto simp: is_ok_def)
  next
    case (ok u w2)
    note b = barrier_effect [OF ok(1) o1(1)]
    then have "world_obj w2 sfd = Some d1" using o1 by simp
    note c = barrier_effect [OF ok(2) this]
    show ?thesis using b(1) b(3) c(1,3,4) c(5) os_same_fsD [OF w1] by (auto simp: is_ok_def)
  qed
qed

lemma replace_barriers_effect:
  assumes "replace_barriers k sfd dfd w = Some (r, w')"
    and obj: "world_obj w sfd = Some d1" "world_obj w dfd = Some d2"
  shows "world_names w' = world_names w \<and> (\<forall>f. r = Err f \<longrightarrow> replace_is_outcome_unknown f)
    \<and> (is_ok r \<longrightarrow> world_durable w' = commit_dir d1 (world_names w) (commit_dir d2 (world_names w) (world_durable w)))
    \<and> world_durable w' \<in> {world_durable w, commit_dir d2 (world_names w) (world_durable w),
           commit_dir d1 (world_names w) (commit_dir d2 (world_names w) (world_durable w))}"
proof -
  define sync_dest where "sync_dest = io_map_err (Replace_OutcomeUnknown Replace_DestinationFsync) (fsync_dir_fd k dfd)"
  have same: "d1 = d2 \<Longrightarrow> commit_dir d1 (world_names w) (commit_dir d2 (world_names w) (world_durable w))
      = commit_dir d2 (world_names w) (world_durable w)"
    by (auto simp: commit_dir_def)
  have one: "?thesis" if "os_rel same_fs w w1" "sync_dest w1 = Some (r, w')" "d1 = d2" for w1
    using barrier_effect [OF that(2) [unfolded sync_dest_def]] os_same_fsD [OF that(1)] obj same [OF that(3)]
    by fastforce
  show ?thesis
  proof (cases "sfd = dfd")
    case True
    then show ?thesis using one [of w] assms by (simp add: replace_barriers_def sync_dest_def os_rel_def)
  next
    case False
    with assms(1) have "io_try (io_map_err (Replace_OutcomeUnknown Replace_DirectoryIdentity) (fstat k sfd)) (\<lambda>src_stat.
        io_try (io_map_err (Replace_OutcomeUnknown Replace_DirectoryIdentity) (fstat k dfd)) (\<lambda>dest_stat.
          if st_dev src_stat = st_dev dest_stat \<and> st_ino src_stat = st_ino dest_stat then sync_dest
          else io_try sync_dest (\<lambda>_.
            io_map_err (Replace_OutcomeUnknown Replace_SourceFsync) (fsync_dir_fd k sfd)))) w = Some (r, w')"
      unfolding replace_barriers_def sync_dest_def Let_def by simp
    then show ?thesis
    proof (cases rule: io_try_map_errE)
      case (err e)
      then show ?thesis using os_same_fsD [OF keepsD [OF keeps_fstat err(1)]] by (auto simp: is_ok_def)
    next
      case (ok sa w1)
      note w1 = keepsD [OF keeps_fstat ok(1)] and sa = fstat_objects [OF ok(1)]
      from ok(2) show ?thesis
      proof (cases rule: io_try_map_errE)
        case (err e)
        then show ?thesis
          using os_same_fsD [OF same_fs_trans [OF w1 keepsD [OF keeps_fstat err(1)]]] by (auto simp: is_ok_def)
      next
        case (ok sb w2)
        note w2 = same_fs_trans [OF w1 keepsD [OF keeps_fstat ok(1)]]
        have sb: "world_obj w dfd = Some (st_dev sb, st_ino sb)"
          using fstat_objects [OF ok(1)] os_same_fsD [OF w1] by simp
        show ?thesis
        proof (cases "d1 = d2")
          case True
          then show ?thesis using ok(2) sa sb obj one [OF w2] by simp
        next
          case False
          then have "io_try sync_dest (\<lambda>_.
              io_map_err (Replace_OutcomeUnknown Replace_SourceFsync) (fsync_dir_fd k sfd)) w2 = Some (r, w')"
            using ok(2) sa sb obj by (auto split: if_splits)
          then show ?thesis unfolding sync_dest_def
            by (rule two_barriers [OF _ w2 obj])
        qed
      qed
    qed
  qed
qed

end

context posix
begin

lemma replace_verified_effect:
  assumes "replace_verified k sfd sn dfd dn expected w = Some (r, w')"
  obtains (unreplaced) f where "r = Err f" and "\<not> replace_is_outcome_unknown f" and "os_rel same_fs w w'"
  | (replaced) d1 d2 ob where "world_obj w sfd = Some d1" and "world_obj w dfd = Some d2"
      and "world_names w (d1, as_bytes sn) = Some ob"
      and "world_names w' = moved (world_names w) (d1, as_bytes sn) (d2, as_bytes dn) ob
        \<or> world_names w (d2, as_bytes dn) = Some ob \<and> world_names w' = world_names w"
      and "\<And>i. expected = Some i \<Longrightarrow> world_names w (d2, as_bytes dn) = Some (ri_device i, ri_inode i)"
      and "\<And>f. r = Err f \<Longrightarrow> replace_is_outcome_unknown f"
      and "is_ok r \<Longrightarrow> world_durable w' = commit_dir d1 (world_names w') (commit_dir d2 (world_names w') (world_durable w))"
      and "world_durable w' \<in> {world_durable w, commit_dir d2 (world_names w') (world_durable w),
           commit_dir d1 (world_names w') (commit_dir d2 (world_names w') (world_durable w))}"
  using assms unfolding replace_verified_def
proof (cases rule: io_tryE)
  case (err f)
  then show ?thesis using check_destination_effect(1,2) [OF err(1)] by (intro unreplaced) auto
next
  case (ok u w1)
  note chk = check_destination_effect [OF ok(1)]
  note s1 = os_same_fsD [OF chk(1)]
  from ok(2) obtain r2 w2 where ren: "renameat k sfd sn dfd dn w1 = Some (r2, w2)"
    and rest: "(case r2 of
       Err error \<Rightarrow> io_return (Err
         (if is_not_found_io_kind (io_kind error) then Replace_SourceMissing
          else Replace_NotCommitted Replace_Rename error))
     | Ok _ \<Rightarrow> replace_barriers k sfd dfd) w2 = Some (r, w')"
    by (rule io_bindE)
  from ren show ?thesis
  proof (cases rule: renameat_cases)
    case (renamed d1 d2 ob)
    with rest have "replace_barriers k sfd dfd w2 = Some (r, w')"
      and "world_obj w2 sfd = Some d1" "world_obj w2 dfd = Some d2" by auto
    note b = replace_barriers_effect [OF this]
    show ?thesis
      by (rule replaced [of d1 d2 ob])
        (use renamed s1 b chk(3) [of _] in \<open>auto simp: moved_def\<close>)
  next
    case (failed e)
    then show ?thesis
      using rest same_fs_trans [OF chk(1)]
      by (cases "is_not_found_io_kind (io_kind e)"; intro unreplaced) auto
  qed
qed

end

text \<open>C17. The replacing move has one linearization point: a failure reported before it leaves
  everything unchanged; otherwise the destination names the source's object, the expected
  destination (if one was given) was there before, and an object durable under the source is
  durable under the source or the destination in every outcome. Success commits both directories.\<close>

theorem replace_verified_linearizes:
  assumes "posix k names durable obj_of"
    and "replace_verified k sfd sn dfd dn expected w = Some (r, w')"
    and "obj_of (os_state w) sfd = Some d1" and "obj_of (os_state w) dfd = Some d2"
    and "names (os_state w) (d1, as_bytes sn) = Some ob" and "durable (os_state w) (d1, as_bytes sn) = Some ob"
  shows "((\<exists>f. r = Err f \<and> \<not> replace_is_outcome_unknown f) \<and> names (os_state w') = names (os_state w)
            \<and> durable (os_state w') = durable (os_state w))
    \<or> (names (os_state w') (d2, as_bytes dn) = Some ob
         \<and> (\<forall>i. expected = Some i \<longrightarrow> names (os_state w) (d2, as_bytes dn) = Some (ri_device i, ri_inode i))
         \<and> (\<forall>f. r = Err f \<longrightarrow> replace_is_outcome_unknown f)
         \<and> (durable (os_state w') (d1, as_bytes sn) = Some ob \<or> durable (os_state w') (d2, as_bytes dn) = Some ob)
         \<and> (is_ok r \<longrightarrow> (\<forall>m. durable (os_state w') (d1, m) = names (os_state w') (d1, m)
                            \<and> durable (os_state w') (d2, m) = names (os_state w') (d2, m))))"
  using posix.replace_verified_effect [OF assms(1,2)]
proof cases
  case (1 f)
  then show ?thesis
    using posix.os_same_fsD [OF assms(1) 1(3)] by (auto simp: posix.view_defs [OF assms(1)])
next
  case (2 d1' d2' ob')
  then have eq: "d1' = d1" "d2' = d2" "ob' = ob"
    using assms(3-5) by (simp_all add: posix.view_defs [OF assms(1)])
  have dst: "names (os_state w') (d2, as_bytes dn) = Some ob"
    using 2(4) eq by (auto simp: posix.view_defs [OF assms(1)] moved_def)
  have "durable (os_state w') (d1, as_bytes sn) = Some ob \<or> durable (os_state w') (d2, as_bytes dn) = Some ob"
    using 2(8) [unfolded insert_iff empty_iff] dst assms(6) eq
    by (elim disjE) (auto simp: posix.view_defs [OF assms(1)] commit_dir_def)
  with 2 eq dst show ?thesis
    by (intro disjI2) (auto simp: posix.view_defs [OF assms(1)] commit_dir_def)
qed

lemma engine_example_replace:
  "\<exists>w'. replace_verified ref_os 3 ''a'' 4 ''b'' None (idle_world (engine_example [])) = Some (Ok (), w')"
  by (simp add: replace_verified_def check_destination_def replace_barriers_def Let_def run_simps as_bytes_def char_byte_def)

theorem replace_verified_linearizes_witness:
  "\<exists>w'. replace_verified ref_os 3 ''a'' 4 ''b'' None (idle_world (engine_example [])) = Some (Ok (), w')
   \<and> rf_durable (os_state w') ((1, 11), as_bytes ''b'') = Some (1, 100)"
proof -
  obtain w' where run:
    "replace_verified ref_os 3 ''a'' 4 ''b'' None (idle_world (engine_example [])) = Some (Ok (), w')"
    using engine_example_replace by blast
  show ?thesis
    using replace_verified_linearizes [OF ref.posix_axioms run, of "(1, 10)" "(1, 11)" "(1, 100)"] run
    by (auto simp: is_ok_def)
qed

subsection \<open>The deferred barrier\<close>

text \<open>Recording a directory with a duplicate of its descriptor; \<open>try_clone_to_owned\<close> is the
  library's.\<close>

definition dirty_set_record ::
  "'s os \<Rightarrow> (fd \<Rightarrow> ('s, IoError + fd) sysproc) \<Rightarrow> DirtySet \<Rightarrow> fd \<Rightarrow> ('s, IoError + DirtySet) sysproc" where
  "dirty_set_record k try_clone_to_owned dirty fd =
     record_with k dirty fd (\<lambda>fd. io_map_err (\<lambda>error. io_error_other (io_text error)) (try_clone_to_owned fd))"

text \<open>The keys of a dirty set identify the objects of its descriptors, without repetition.\<close>

definition dirty_ok :: "('s \<Rightarrow> fd \<Rightarrow> object_id option) \<Rightarrow> 's \<Rightarrow> DirtySet \<Rightarrow> bool" where
  "dirty_ok obj_of s d \<longleftrightarrow> distinct (map fst (dirty_dirs d))
     \<and> list_all (\<lambda>(key, fd). obj_of s fd = Some key) (dirty_dirs d)"

context posix
begin

lemma record_with_effect:
  assumes "record_with k dirty fd clone_fd w = Some (r, w')" and "dirty_ok obj_of (os_state w) dirty"
    and frame: "keeps (os_rel same_fs) (clone_fd fd)"
    and clone: "\<And>w fd' w'. clone_fd fd w = Some (Ok fd', w') \<Longrightarrow> world_obj w' fd' = world_obj w' fd"
  shows "os_rel same_fs w w'"
    and "r = Ok dirty' \<Longrightarrow> dirty_ok obj_of (os_state w') dirty'
      \<and> (\<exists>key. world_obj w fd = Some key
           \<and> fst ` set (dirty_dirs dirty') = insert key (fst ` set (dirty_dirs dirty)))"
proof -
  have "os_rel same_fs w w' \<and> (\<forall>dirty'. r = Ok dirty' \<longrightarrow> dirty_ok obj_of (os_state w') dirty'
      \<and> (\<exists>key. world_obj w fd = Some key
           \<and> fst ` set (dirty_dirs dirty') = insert key (fst ` set (dirty_dirs dirty))))"
    using assms(1) unfolding record_with_def
  proof (cases rule: io_tryE)
    case (err e)
    then show ?thesis using keepsD [OF keeps_fstat err(1)] by simp
  next
    case (ok st w1)
    let ?key = "(st_dev st, st_ino st)"
    note w1 = keepsD [OF keeps_fstat ok(1)] and key = fstat_objects [OF ok(1)]
    show ?thesis
    proof (cases "map_of (dirty_dirs dirty) ?key")
      case (Some x)
      then have "?key \<in> fst ` set (dirty_dirs dirty)" by (metis domI dom_map_of_conv_image_fst)
      then show ?thesis
        using ok(2) Some w1 key assms(2) by (auto simp: Let_def insert_absorb dirty_ok_def os_rel_def same_fs_def)
    next
      case None
      then have new: "?key \<notin> fst ` set (dirty_dirs dirty)" by (simp add: map_of_eq_None_iff)
      from ok(2) None have "io_try (clone_fd fd) (\<lambda>owned.
           io_return (Ok (dirty\<lparr>dirty_dirs := dirty_dirs dirty @ [(?key, owned)]\<rparr>))) w1 = Some (r, w')"
        by (simp add: Let_def)
      then show ?thesis
      proof (cases rule: io_tryE)
        case (err e)
        then show ?thesis using same_fs_trans [OF w1 keepsD [OF frame err(1)]] by simp
      next
        case (ok fd' w2)
        note w2 = same_fs_trans [OF w1 keepsD [OF frame ok(1)]]
        show ?thesis
          using ok(2) clone [OF ok(1)] w2 key new assms(2)
          by (auto simp: dirty_ok_def os_rel_def same_fs_def view_defs)
      qed
    qed
  qed
  then show "os_rel same_fs w w'" "r = Ok dirty' \<Longrightarrow> dirty_ok obj_of (os_state w') dirty'
      \<and> (\<exists>key. world_obj w fd = Some key
           \<and> fst ` set (dirty_dirs dirty') = insert key (fst ` set (dirty_dirs dirty)))"
    by blast+
qed

text \<open>A barrier moves entries only from their old to their visible state.\<close>

definition advances :: "'s world \<Rightarrow> 's world \<Rightarrow> bool" where
  "advances w w' \<longleftrightarrow> world_names w' = world_names w \<and> world_obj w' = world_obj w
     \<and> (\<forall>p. world_durable w' p = world_durable w p \<or> world_durable w' p = world_names w p)"

lemma advances_refl [simp]: "advances w w"
  by (simp add: advances_def)

lemma advances_trans: "advances w1 w2 \<Longrightarrow> advances w2 w3 \<Longrightarrow> advances w1 w3"
  unfolding advances_def by metis

lemma advances_committed:
  "advances w w' \<Longrightarrow> world_durable w p = world_names w p \<Longrightarrow> world_durable w' p = world_names w p"
  unfolding advances_def by metis

lemma fsync_dir_fd_advances:
  assumes "fsync_dir_fd k fd w = Some (r, w')"
  shows "advances w w'"
    and "r = Ok () \<Longrightarrow> \<exists>d. world_obj w fd = Some d \<and> (\<forall>n. world_durable w' (d, n) = world_names w (d, n))"
  using assms by (cases rule: fsync_dir_fd_cases; auto simp: advances_def commit_dir_def)+

lemma sync_dirs_advances:
  assumes "sync_dirs k fds first_err w = Some (r, w')"
  shows "advances w w'"
  using assms
proof (induction fds arbitrary: first_err w)
  case (Cons fd fds)
  from Cons.prems [unfolded sync_dirs.simps] show ?case
    by (rule io_bindE) (blast intro: advances_trans fsync_dir_fd_advances(1) Cons.IH)
qed simp

lemma sync_dirs_first_err:
  "sync_dirs k fds (Some e) w = Some (r, w') \<Longrightarrow> r = Some e"
proof (induction fds arbitrary: w)
  case (Cons fd fds)
  from Cons.prems [unfolded sync_dirs.simps] show ?case
  proof (rule io_bindE)
    fix r1 w1
    assume "sync_dirs k fds (case r1 of Ok _ \<Rightarrow> Some e
      | Err error \<Rightarrow> (if Some e = None then Some error else Some e)) w1 = Some (r, w')"
    then show "r = Some e" using Cons.IH by (cases r1) auto
  qed
qed simp

lemma sync_dirs_committed:
  assumes "sync_dirs k fds None w = Some (None, w')" and "fd \<in> set fds"
  shows "\<exists>d. world_obj w fd = Some d \<and> (\<forall>n. world_durable w' (d, n) = world_names w (d, n))"
  using assms
proof (induction fds arbitrary: w)
  case (Cons fd' fds)
  from Cons.prems(1) obtain r1 w1 where one: "fsync_dir_fd k fd' w = Some (r1, w1)"
    and rest: "sync_dirs k fds (case r1 of
           Ok _ \<Rightarrow> None
         | Err error \<Rightarrow> (if (None :: IoError option) = None then Some error else None)) w1 = Some (None, w')"
    unfolding sync_dirs.simps by (rule io_bindE)
  from rest have r1: "r1 = Ok ()" using sync_dirs_first_err by (cases r1) fastforce+
  with rest have rest': "sync_dirs k fds None w1 = Some (None, w')" by simp
  note a1 = fsync_dir_fd_advances(1) [OF one] and a2 = sync_dirs_advances [OF rest']
  have v: "world_names w1 = world_names w" "world_obj w1 = world_obj w" using a1 by (simp_all add: advances_def)
  show ?case
  proof (cases "fd = fd'")
    case True
    obtain d where d: "world_obj w fd' = Some d" "\<And>n. world_durable w1 (d, n) = world_names w (d, n)"
      using fsync_dir_fd_advances(2) [OF one r1] by blast
    then have "world_durable w' (d, n) = world_names w (d, n)" for n
      using advances_committed [OF a2] v by simp
    then show ?thesis using d True by blast
  next
    case False
    then show ?thesis using Cons.IH [OF rest'] Cons.prems(2) v by simp
  qed
qed simp

end

text \<open>Recording a directory keeps the invariant of the dirty set (every entry is keyed by the
  object of its descriptor, and no directory is held twice) and adds exactly the directory of
  the descriptor, without touching the file system.\<close>

theorem dirty_set_record_invariant:
  assumes "posix k names durable obj_of" and "dirty_ok obj_of (os_state w) dirty"
    and "frames names durable obj_of (clone_fd fd)"
    and "\<And>w fd' w'. clone_fd fd w = Some (Ok fd', w') \<Longrightarrow> obj_of (os_state w') fd' = obj_of (os_state w') fd"
    and "record_with k dirty fd clone_fd w = Some (r, w')"
  shows "names (os_state w') = names (os_state w) \<and> durable (os_state w') = durable (os_state w)
    \<and> (\<forall>dirty'. r = Ok dirty' \<longrightarrow> dirty_ok obj_of (os_state w') dirty'
         \<and> (\<exists>key. obj_of (os_state w) fd = Some key
              \<and> fst ` set (dirty_dirs dirty') = insert key (fst ` set (dirty_dirs dirty))))"
proof -
  note rec = posix.record_with_effect [OF assms(1,5,2) assms(3) [unfolded posix.frames_iff [OF assms(1)]],
      unfolded posix.view_defs [OF assms(1)], OF assms(4)]
  show ?thesis
    using rec(2) posix.os_same_fsD [OF assms(1) rec(1)] by (auto simp: posix.view_defs [OF assms(1)])
qed

theorem dirty_set_record_invariant_witness:
  "record_with ref_os dirty_set_new 4 (\<lambda>fd. io_return (Ok fd)) (idle_world (engine_example [])) =
     Some (Ok \<lparr>dirty_dirs = [((1, 11), 4)], pending_dirs = {}\<rparr>, idle_world (engine_example []))
   \<and> dirty_ok rf_objects (engine_example []) \<lparr>dirty_dirs = [((1, 11), 4)], pending_dirs = {}\<rparr>"
proof -
  have run: "record_with ref_os dirty_set_new 4 (\<lambda>fd. io_return (Ok fd)) (idle_world (engine_example [])) =
     Some (Ok \<lparr>dirty_dirs = [((1, 11), 4)], pending_dirs = {}\<rparr>, idle_world (engine_example []))"
    by (simp add: record_with_def dirty_set_new_def run_simps)
  have "dirty_ok rf_objects (os_state (idle_world (engine_example []))) dirty_set_new"
    by (simp add: dirty_ok_def dirty_set_new_def)
  from dirty_set_record_invariant [OF ref.posix_axioms this frames_return _ run] run show ?thesis by simp
qed

text \<open>C18. The barrier of a dirty set makes every recorded directory durable: when the barrier reports success each of them is committed as it is visible, and
  whatever it reports the visible names are unchanged and no durable entry moves anywhere but
  to its visible state.\<close>

theorem dirty_set_barrier:
  assumes "posix k names durable obj_of" and "dirty_ok obj_of (os_state w) dirty"
    and "sync_all k dirty w = Some (r, w')"
  shows "names (os_state w') = names (os_state w)
    \<and> (\<forall>p. durable (os_state w') p = durable (os_state w) p \<or> durable (os_state w') p = names (os_state w) p)
    \<and> (is_ok r \<longrightarrow> (\<forall>d\<in>fst ` set (dirty_dirs dirty). \<forall>n.
         durable (os_state w') (d, n) = names (os_state w') (d, n)))"
proof -
  from assms(3) obtain e where sync: "sync_dirs k (map snd (dirty_dirs dirty)) None w = Some (e, w')"
    and r: "r = (case e of Some e \<Rightarrow> Err e | None \<Rightarrow> Ok ())"
    unfolding sync_all_def by (auto simp: io_bind_eq_Some_iff)
  note a = posix.sync_dirs_advances [OF assms(1) sync, unfolded posix.advances_def [OF assms(1)] posix.view_defs [OF assms(1)]]
  have "durable (os_state w') (d, n) = names (os_state w') (d, n)"
    if "is_ok r" "d \<in> fst ` set (dirty_dirs dirty)" for d n
  proof -
    from that(2) obtain fd where fd: "(d, fd) \<in> set (dirty_dirs dirty)" by auto
    then have "obj_of (os_state w) fd = Some d" using assms(2) by (auto simp: dirty_ok_def list_all_iff)
    moreover have "e = None" using that(1) r by (cases e) (auto simp: is_ok_def)
    ultimately show ?thesis
      using posix.sync_dirs_committed [OF assms(1) sync [unfolded \<open>e = None\<close>], of fd] fd a
      by (force simp: posix.view_defs [OF assms(1)])
  qed
  then show ?thesis using a by blast
qed

theorem dirty_set_barrier_witness:
  "\<exists>w'. sync_all ref_os \<lparr>dirty_dirs = [((1, 11), 4)], pending_dirs = {}\<rparr>
      (idle_world ((engine_example [])\<lparr>rf_durable := [((1, 11), [7]) \<mapsto> (1, 9)]\<rparr>)) = Some (Ok (), w')
    \<and> rf_durable (os_state w') ((1, 11), [7]) = None"
proof -
  let ?w = "idle_world ((engine_example [])\<lparr>rf_durable := [((1, 11), [7]) \<mapsto> (1, 9)]\<rparr>)"
  let ?d = "\<lparr>dirty_dirs = [((1, 11), 4)], pending_dirs = {}\<rparr>"
  have "\<exists>w'. sync_all ref_os ?d ?w = Some (Ok (), w')"
    by (simp add: sync_all_def run_simps)
  then obtain w' where run: "sync_all ref_os ?d ?w = Some (Ok (), w')" by blast
  have "dirty_ok rf_objects (os_state ?w) ?d" by (simp add: dirty_ok_def)
  from dirty_set_barrier [OF ref.posix_axioms this run] run show ?thesis by auto
qed

end
