(* ===== verification/Steadq_Simulator.thy ===== *)
theory Steadq_Simulator
  imports Steadq_Tickets
begin

text \<open>
  The test kit's models of \<^verbatim>\<open>src/crates/steadq-testkit/src\<close>: the seeded file-system simulator
  with durable and volatile directory entries (\<^verbatim>\<open>simulator.rs\<close>), the logical oracle of job
  states (\<^verbatim>\<open>oracle.rs\<close>), and the scenario and mutation runs that compare them
  (\<^verbatim>\<open>verification.rs\<close>). Hash maps are maps, hash sets are sets; the loops over them are written
  as operations on the whole set, which agree with any order of the loop
  (\<open>drop_stale_any_order\<close>).
\<close>

subsection \<open>The generator\<close>

record Rng =
  rng_state :: u64

definition rng_new :: "u64 \<Rightarrow> Rng" where
  "rng_new seed = \<lparr>rng_state = max seed 1\<rparr>"

definition xorshift :: "u64 \<Rightarrow> u64" where
  "xorshift s =
     (let s1 = s XOR push_bit 13 s; s2 = s1 XOR drop_bit 7 s1 in s2 XOR push_bit 17 s2)"

definition next_u64 :: "Rng \<Rightarrow> u64 \<times> Rng" where
  "next_u64 r = (let s = xorshift (rng_state r) in (s, \<lparr>rng_state = s\<rparr>))"

definition next_bool :: "Rng \<Rightarrow> bool \<times> Rng" where
  "next_bool r = (let (v, r') = next_u64 r in (v AND 1 = 1, r'))"

definition next_range :: "u64 \<Rightarrow> Rng \<Rightarrow> u64 \<times> Rng" where
  "next_range bound r = (if bound = 0 then (0, r) else let (v, r') = next_u64 r in (v mod bound, r'))"

subsection \<open>Paths\<close>

definition normalize_path :: "string \<Rightarrow> string" where
  "normalize_path path = join_with CHR ''/'' (filter (\<lambda>s. s \<noteq> []) (split_on CHR ''/'' path))"

definition parent_of :: "string \<Rightarrow> string option" where
  "parent_of path =
     (if path = [] then None
      else case rsplit_once CHR ''/'' path of
        Some (parent, _) \<Rightarrow> Some parent
      | None \<Rightarrow> Some [])"

subsection \<open>The simulated file system\<close>

record SimFile =
  sf_content :: bytes
  sf_data_synced :: bool

record DurableFile =
  df_content :: bytes

record Simulator =
  sim_files :: "string \<rightharpoonup> SimFile"
  sim_dirs :: "string set"
  durable_entries :: "string set"
  durable_file_data :: "string \<rightharpoonup> DurableFile"
  durable_dirs :: "string set"
  sim_rng :: Rng

datatype SimError = Sim_NotFound | Sim_AlreadyExists

definition simulator_new :: "u64 \<Rightarrow> Simulator" where
  "simulator_new seed =
     \<lparr>sim_files = Map.empty, sim_dirs = {[]}, durable_entries = {[]}, durable_file_data = Map.empty,
      durable_dirs = {[]}, sim_rng = rng_new seed\<rparr>"

text \<open>The accumulating loop over the components of a path: every proper prefix is a directory.\<close>

fun ancestor_dirs :: "string \<Rightarrow> string list \<Rightarrow> string \<Rightarrow> string set \<Rightarrow> string set" where
  "ancestor_dirs path [] acc dirs = dirs"
| "ancestor_dirs path (part # parts) acc dirs =
     (let acc' = (if acc = [] then part else acc @ CHR ''/'' # part)
      in ancestor_dirs path parts acc' (if acc' \<noteq> path then insert acc' dirs else dirs))"

definition ensure_volatile_ancestors :: "string \<Rightarrow> Simulator \<Rightarrow> Simulator" where
  "ensure_volatile_ancestors path s =
     (let dirs = ancestor_dirs path (filter (\<lambda>p. p \<noteq> []) (split_on CHR ''/'' path)) [] (sim_dirs s)
      in s\<lparr>sim_dirs := (case parent_of path of Some parent \<Rightarrow> insert parent dirs | None \<Rightarrow> dirs)\<rparr>)"

definition create_dir :: "string \<Rightarrow> Simulator \<Rightarrow> Simulator" where
  "create_dir path s =
     (let path = normalize_path path; s1 = ensure_volatile_ancestors path s
      in s1\<lparr>sim_dirs := insert path (sim_dirs s1)\<rparr>)"

definition write_file :: "string \<Rightarrow> bytes \<Rightarrow> Simulator \<Rightarrow> Simulator" where
  "write_file path content s =
     (let path = normalize_path path; s1 = ensure_volatile_ancestors path s
      in s1\<lparr>sim_files := (sim_files s1)(path \<mapsto> \<lparr>sf_content = content, sf_data_synced = False\<rparr>)\<rparr>)"

definition fsync_file :: "string \<Rightarrow> Simulator \<Rightarrow> Simulator" where
  "fsync_file path s =
     (let path = normalize_path path in
      case sim_files s path of
        None \<Rightarrow> s
      | Some f \<Rightarrow> s\<lparr>sim_files := (sim_files s)(path \<mapsto> f\<lparr>sf_data_synced := True\<rparr>),
                   durable_file_data := (durable_file_data s)(path \<mapsto> \<lparr>df_content = sf_content f\<rparr>)\<rparr>)"

text \<open>Removing durable names: the entries, the directories and the file data of a set of paths.\<close>

definition forget_durable :: "string set \<Rightarrow> Simulator \<Rightarrow> Simulator" where
  "forget_durable doomed s =
     s\<lparr>durable_entries := durable_entries s - doomed, durable_dirs := durable_dirs s - doomed,
       durable_file_data := (durable_file_data s) |` (- doomed)\<rparr>"

definition durable_descendants :: "string \<Rightarrow> Simulator \<Rightarrow> string set" where
  "durable_descendants pre s =
     (if pre = [] then {} else {e \<in> durable_entries s. strip_prefix (pre @ ''/'') e \<noteq> None})"

definition drop_durable_descendants :: "string \<Rightarrow> Simulator \<Rightarrow> Simulator" where
  "drop_durable_descendants pre s = forget_durable (durable_descendants pre s) s"

definition live_children :: "string \<Rightarrow> Simulator \<Rightarrow> string set" where
  "live_children path s =
     {d \<in> sim_dirs s. parent_of d = Some path} \<union> {f \<in> dom (sim_files s). parent_of f = Some path}"

definition stale_children :: "string \<Rightarrow> Simulator \<Rightarrow> string set" where
  "stale_children path s = {e \<in> durable_entries s. parent_of e = Some path} - live_children path s"

definition drop_stale :: "string \<Rightarrow> Simulator \<Rightarrow> Simulator" where
  "drop_stale path s =
     forget_durable (stale_children path s \<union> (\<Union>e\<in>stale_children path s. durable_descendants e s)) s"

definition commit_children :: "string set \<Rightarrow> Simulator \<Rightarrow> Simulator" where
  "commit_children children s =
     s\<lparr>durable_entries := durable_entries s \<union> children,
       durable_dirs := durable_dirs s \<union> (children \<inter> sim_dirs s),
       durable_file_data := (\<lambda>p.
         if p \<in> children \<and> p \<notin> sim_dirs s then
           (case sim_files s p of
              Some f \<Rightarrow> if sf_data_synced f then Some \<lparr>df_content = sf_content f\<rparr> else durable_file_data s p
            | None \<Rightarrow> durable_file_data s p)
         else durable_file_data s p)\<rparr>"

definition sim_fsync_dir :: "string \<Rightarrow> Simulator \<Rightarrow> Simulator" where
  "sim_fsync_dir path s =
     (let path = normalize_path path in
      if path \<notin> sim_dirs s then s
      else
        let s1 = s\<lparr>durable_dirs := insert path (durable_dirs s),
                   durable_entries := insert path (durable_entries s)\<rparr>;
            children = live_children path s1
        in commit_children children (drop_stale path s1))"

definition rename_noreplace :: "string \<Rightarrow> string \<Rightarrow> Simulator \<Rightarrow> (SimError + unit) \<times> Simulator" where
  "rename_noreplace src dest s =
     (let src = normalize_path src; dest = normalize_path dest in
      if sim_files s dest \<noteq> None \<or> dest \<in> sim_dirs s then (Err Sim_AlreadyExists, s)
      else case sim_files s src of
        Some entry \<Rightarrow>
          (let s1 = ensure_volatile_ancestors dest (s\<lparr>sim_files := (sim_files s)(src := None)\<rparr>)
           in (Ok (), s1\<lparr>sim_files := (sim_files s1)(dest \<mapsto> entry)\<rparr>))
      | None \<Rightarrow> (Err Sim_NotFound, s))"

definition sim_unlink :: "string \<Rightarrow> Simulator \<Rightarrow> (SimError + unit) \<times> Simulator" where
  "sim_unlink path s =
     (let path = normalize_path path in
      if sim_files s path \<noteq> None then (Ok (), s\<lparr>sim_files := (sim_files s)(path := None)\<rparr>)
      else (Err Sim_NotFound, s))"

definition crash :: "Simulator \<Rightarrow> Simulator" where
  "crash s =
     s\<lparr>sim_files := (\<lambda>p. if p \<in> durable_entries s
          then map_option (\<lambda>d. \<lparr>sf_content = df_content d, sf_data_synced = True\<rparr>) (durable_file_data s p)
          else None),
       sim_dirs := insert [] (durable_dirs s),
       durable_dirs := insert [] (durable_dirs s),
       durable_entries := insert [] (durable_entries s)\<rparr>"

definition sim_exists :: "string \<Rightarrow> Simulator \<Rightarrow> bool" where
  "sim_exists path s = (let path = normalize_path path in sim_files s path \<noteq> None \<or> path \<in> sim_dirs s)"

definition entry_is_durable :: "string \<Rightarrow> Simulator \<Rightarrow> bool" where
  "entry_is_durable path s = (normalize_path path \<in> durable_entries s)"

definition read_file :: "string \<Rightarrow> Simulator \<Rightarrow> bytes option" where
  "read_file path s = map_option sf_content (sim_files s (normalize_path path))"

definition maybe_inject_fault :: "u64 \<Rightarrow> Simulator \<Rightarrow> bool \<times> Simulator" where
  "maybe_inject_fault probability s =
     (let (v, r) = next_range 100 (sim_rng s) in (v < probability, s\<lparr>sim_rng := r\<rparr>))"

subsection \<open>The oracle\<close>

text \<open>Counters are incremented with wrap-around, as a release build does.\<close>

datatype OracleState =
    O_Hidden | O_Ready | O_Leased | O_Delayed | O_Dead | O_Receipt | O_Quarantine

record OracleJob =
  oj_job_id :: id128
  oj_state :: OracleState
  oj_generation :: u64
  oj_attempt :: u32
  oj_maximum_attempts :: u32
  oj_token :: "id128 option"
  oj_file_synced :: bool
  oj_dest_dir_synced :: bool
  oj_src_dir_synced :: bool

record Oracle =
  oracle_jobs :: "id128 \<rightharpoonup> OracleJob"
  next_job_counter :: u64

definition oracle_new :: Oracle where
  "oracle_new = \<lparr>oracle_jobs = Map.empty, next_job_counter = 0\<rparr>"

definition gen_job_id :: "Oracle \<Rightarrow> id128 \<times> Oracle" where
  "gen_job_id oracle =
     (arr_of (u64_to_be_bytes (next_job_counter oracle) @ replicate 8 0),
      oracle\<lparr>next_job_counter := next_job_counter oracle + 1\<rparr>)"

text \<open>\<^verbatim>\<open>if let Some(job) = self.jobs.get_mut(job_id)\<close>.\<close>

definition update_job :: "id128 \<Rightarrow> (OracleJob \<Rightarrow> OracleJob) \<Rightarrow> Oracle \<Rightarrow> Oracle" where
  "update_job jid f oracle =
     (case oracle_jobs oracle jid of
        None \<Rightarrow> oracle
      | Some job \<Rightarrow> oracle\<lparr>oracle_jobs := (oracle_jobs oracle)(jid \<mapsto> f job)\<rparr>)"

definition record_enqueue :: "id128 \<Rightarrow> u32 \<Rightarrow> Oracle \<Rightarrow> Oracle" where
  "record_enqueue jid max_attempts oracle =
     oracle\<lparr>oracle_jobs := (oracle_jobs oracle)(jid \<mapsto>
       \<lparr>oj_job_id = jid, oj_state = O_Hidden, oj_generation = 0, oj_attempt = 0,
        oj_maximum_attempts = max_attempts, oj_token = None, oj_file_synced = False,
        oj_dest_dir_synced = False, oj_src_dir_synced = False\<rparr>)\<rparr>"

definition record_file_sync :: "id128 \<Rightarrow> Oracle \<Rightarrow> Oracle" where
  "record_file_sync jid = update_job jid (\<lambda>job. job\<lparr>oj_file_synced := True\<rparr>)"

definition record_dest_sync :: "id128 \<Rightarrow> Oracle \<Rightarrow> Oracle" where
  "record_dest_sync jid = update_job jid (\<lambda>job. job\<lparr>oj_dest_dir_synced := True\<rparr>)"

definition record_src_sync :: "id128 \<Rightarrow> Oracle \<Rightarrow> Oracle" where
  "record_src_sync jid = update_job jid (\<lambda>job. job\<lparr>oj_src_dir_synced := True\<rparr>)"

definition publish_job :: "bool \<Rightarrow> OracleJob \<Rightarrow> OracleJob" where
  "publish_job to_ready job = job\<lparr>oj_state := (if to_ready then O_Ready else O_Delayed)\<rparr>"

definition record_publish :: "id128 \<Rightarrow> bool \<Rightarrow> Oracle \<Rightarrow> Oracle" where
  "record_publish jid to_ready = update_job jid (publish_job to_ready)"

definition claim_job :: "id128 \<Rightarrow> OracleJob \<Rightarrow> OracleJob" where
  "claim_job token job =
     (if oj_state job = O_Ready
      then job\<lparr>oj_state := O_Leased, oj_generation := oj_generation job + 1,
               oj_attempt := oj_attempt job + 1, oj_token := Some token,
               oj_dest_dir_synced := False, oj_src_dir_synced := False\<rparr>
      else job)"

definition record_claim :: "id128 \<Rightarrow> id128 \<Rightarrow> Oracle \<Rightarrow> Oracle" where
  "record_claim jid token = update_job jid (claim_job token)"

text \<open>Acknowledge, retry and bury: a leased job goes on with a new generation.\<close>

definition resolve_job :: "OracleState \<Rightarrow> OracleJob \<Rightarrow> OracleJob" where
  "resolve_job next job =
     (if oj_state job = O_Leased
      then job\<lparr>oj_state := next, oj_generation := oj_generation job + 1, oj_token := None\<rparr>
      else job)"

definition record_ack :: "id128 \<Rightarrow> Oracle \<Rightarrow> Oracle" where
  "record_ack jid = update_job jid (resolve_job O_Receipt)"

definition record_retry :: "id128 \<Rightarrow> Oracle \<Rightarrow> Oracle" where
  "record_retry jid = update_job jid (resolve_job O_Ready)"

definition record_bury :: "id128 \<Rightarrow> Oracle \<Rightarrow> Oracle" where
  "record_bury jid = update_job jid (resolve_job O_Dead)"

definition crash_job :: "OracleJob \<Rightarrow> OracleJob" where
  "crash_job job0 =
     (let job1 = job0\<lparr>oj_dest_dir_synced := False, oj_src_dir_synced := False\<rparr>;
          job2 = (if oj_state job1 = O_Leased \<and> \<not> oj_file_synced job1
                  then job1\<lparr>oj_state := O_Ready, oj_generation := saturating_sub (oj_generation job1) 1,
                            oj_attempt := saturating_sub (oj_attempt job1) 1, oj_token := None\<rparr>
                  else job1)
      in if oj_state job2 = O_Ready \<and> \<not> oj_file_synced job2 \<and> \<not> oj_dest_dir_synced job2
         then job2\<lparr>oj_state := O_Hidden\<rparr> else job2)"

definition record_crash :: "Oracle \<Rightarrow> Oracle" where
  "record_crash oracle = oracle\<lparr>oracle_jobs := (\<lambda>jid. map_option crash_job (oracle_jobs oracle jid))\<rparr>"

definition i1_job :: "OracleJob \<Rightarrow> bool" where
  "i1_job j = (oj_state j \<notin> {O_Ready, O_Leased, O_Delayed, O_Dead, O_Receipt} \<or> oj_file_synced j)"

definition check_i1 :: "Oracle \<Rightarrow> bool" where
  "check_i1 oracle = (\<forall>j \<in> ran (oracle_jobs oracle). i1_job j)"

definition check_i9 :: "Oracle \<Rightarrow> bool" where
  "check_i9 oracle = (\<forall>j \<in> ran (oracle_jobs oracle). oj_attempt j \<le> oj_maximum_attempts j)"

definition oracle_get :: "id128 \<Rightarrow> Oracle \<Rightarrow> OracleJob option" where
  "oracle_get jid oracle = oracle_jobs oracle jid"

subsection \<open>Scenario and mutation runs\<close>

definition JOB :: string where "JOB = ''ready/0000/job.sqj''"
definition LEASED_JOB :: string where "LEASED_JOB = ''leased/boot/0/0000/job.sqj''"

definition sync_leased_chain :: "Simulator \<Rightarrow> Simulator" where
  "sync_leased_chain s =
     sim_fsync_dir ''leased/boot/0/0000'' (sim_fsync_dir ''leased/boot/0''
       (sim_fsync_dir ''leased/boot'' (sim_fsync_dir ''leased'' s)))"

record ScenarioResult =
  sr_seed :: u64
  i1_holds :: bool
  i9_holds :: bool
  sr_oracle_jobs :: nat
  sr_sim_files :: nat

definition count_sim_files :: "Simulator \<Rightarrow> nat" where
  "count_sim_files sim = (if sim_exists JOB sim then 1 else 0)"

text \<open>Step 1 of the scenario: the enqueue with full durability.\<close>

definition scenario_enqueue :: "u64 \<Rightarrow> id128 \<times> Oracle \<times> Simulator" where
  "scenario_enqueue seed =
     (let (job, o1) = gen_job_id oracle_new;
          o2 = record_enqueue job 3 o1;
          s1 = create_dir ''ready/0000'' (simulator_new seed);
          s2 = write_file JOB (replicate 128 0x42) s1;
          o3 = record_file_sync job o2;
          s3 = fsync_file JOB s2;
          s4 = sim_fsync_dir ''ready'' s3;
          s5 = sim_fsync_dir ''ready/0000'' s4;
          o4 = record_publish job True o3;
          o5 = record_dest_sync job o4
      in (job, o5, s5))"

text \<open>Steps 2 and 3: claim and acknowledge what exists. Errors of the renames are ignored.\<close>

definition scenario_ack :: "id128 \<Rightarrow> Oracle \<Rightarrow> Simulator \<Rightarrow> Oracle \<times> Simulator" where
  "scenario_ack job oracle sim =
     (if sim_exists LEASED_JOB sim then
        let s1 = create_dir ''receipts/bucket/0000'' sim;
            s2 = snd (rename_noreplace LEASED_JOB ''receipts/bucket/0000/job.rct'' s1);
            s3 = sim_fsync_dir ''receipts/bucket/0000'' (sim_fsync_dir ''receipts/bucket''
                   (sim_fsync_dir ''receipts'' s2));
            s4 = sim_fsync_dir ''leased/boot/0/0000'' s3
        in (record_ack job oracle, s4)
      else (oracle, sim))"

definition scenario_claim :: "id128 \<Rightarrow> Oracle \<Rightarrow> Simulator \<Rightarrow> Oracle \<times> Simulator" where
  "scenario_claim job oracle sim =
     (if sim_exists JOB sim then
        let s1 = create_dir ''leased/boot/0/0000'' sim;
            s2 = snd (rename_noreplace JOB LEASED_JOB s1);
            s3 = sim_fsync_dir ''ready/0000'' (sync_leased_chain s2);
            o1 = record_src_sync job (record_dest_sync job (record_claim job (arr_of (replicate 16 0xAA)) oracle))
        in scenario_ack job o1 s3
      else (oracle, sim))"

definition run_scenario :: "u64 \<Rightarrow> ScenarioResult" where
  "run_scenario seed =
     (let (crashes, _) = next_bool (rng_new seed);
          (job, o1, s1) = scenario_enqueue seed;
          (o2, s2) = (if crashes then (record_crash o1, crash s1) else (o1, s1));
          (o3, s3) = scenario_claim job o2 s2
      in \<lparr>sr_seed = seed, i1_holds = check_i1 o3, i9_holds = check_i9 o3,
          sr_oracle_jobs = card (dom (oracle_jobs o3)), sr_sim_files = count_sim_files s3\<rparr>)"

datatype Mutation =
    RemoveFileSyncBeforePublish
  | RemoveDestDirSyncAfterRename
  | RemoveSourceDirSyncAfterRename
  | RemoveNameTagVerification
  | RemoveLinkCountCheck
  | RemoveShardVerification
  | RemoveEnvelopeDigestCheck

definition all_mutations :: "Mutation list" where
  "all_mutations =
     [RemoveFileSyncBeforePublish, RemoveDestDirSyncAfterRename, RemoveSourceDirSyncAfterRename,
      RemoveNameTagVerification, RemoveLinkCountCheck, RemoveShardVerification, RemoveEnvelopeDigestCheck]"

fun oracle_state_debug :: "OracleState \<Rightarrow> string" where
  "oracle_state_debug O_Hidden = ''Hidden''"
| "oracle_state_debug O_Ready = ''Ready''"
| "oracle_state_debug O_Leased = ''Leased''"
| "oracle_state_debug O_Delayed = ''Delayed''"
| "oracle_state_debug O_Dead = ''Dead''"
| "oracle_state_debug O_Receipt = ''Receipt''"
| "oracle_state_debug O_Quarantine = ''Quarantine''"

definition bool_display :: "bool \<Rightarrow> string" where
  "bool_display b = (if b then ''true'' else ''false'')"

record MutationResult =
  mr_mutation :: Mutation
  mr_seed :: u64
  mr_detected :: bool
  mr_oracle_state :: string
  mr_sim_has_file :: bool

definition oracle_visible :: "id128 \<Rightarrow> Oracle \<Rightarrow> bool" where
  "oracle_visible job oracle = (case oracle_get job oracle of Some j \<Rightarrow> oj_state j \<noteq> O_Hidden | None \<Rightarrow> False)"

definition oracle_debug :: "id128 \<Rightarrow> Oracle \<Rightarrow> string" where
  "oracle_debug job oracle =
     (case oracle_get job oracle of Some j \<Rightarrow> oracle_state_debug (oj_state j) | None \<Rightarrow> ''none'')"

definition mutation_start :: "u64 \<Rightarrow> id128 \<times> Oracle \<times> Simulator" where
  "mutation_start seed =
     (let (job, o1) = gen_job_id oracle_new
      in (job, record_enqueue job 3 o1,
          write_file JOB (replicate 128 0x42) (create_dir ''ready/0000'' (simulator_new seed))))"

definition mutation_no_file_sync :: "u64 \<Rightarrow> MutationResult" where
  "mutation_no_file_sync seed =
     (let (job, o0, s0) = mutation_start seed;
          o1 = record_file_sync job o0;
          s1 = sim_fsync_dir ''ready/0000'' (sim_fsync_dir ''ready'' s0);
          o2 = record_crash (record_publish job True o1);
          s2 = crash s1
      in \<lparr>mr_mutation = RemoveFileSyncBeforePublish, mr_seed = seed,
          mr_detected = (oracle_visible job o2 \<noteq> sim_exists JOB s2),
          mr_oracle_state = oracle_debug job o2, mr_sim_has_file = sim_exists JOB s2\<rparr>)"

definition mutation_no_dest_sync :: "u64 \<Rightarrow> MutationResult" where
  "mutation_no_dest_sync seed =
     (let (job, o0, s0) = mutation_start seed;
          s1 = sim_fsync_dir ''ready/0000'' (sim_fsync_dir ''ready'' (fsync_file JOB s0));
          o1 = record_file_sync job o0;
          s2 = snd (rename_noreplace JOB LEASED_JOB (create_dir ''leased/boot/0/0000'' s1));
          s3 = crash (sim_fsync_dir ''ready/0000'' s2);
          o2 = record_crash (record_dest_sync job (record_claim job (arr_of (replicate 16 0xAA)) o1));
          visible = oracle_visible job o2;
          sim_has = sim_exists LEASED_JOB s3 \<or> sim_exists JOB s3
      in \<lparr>mr_mutation = RemoveDestDirSyncAfterRename, mr_seed = seed,
          mr_detected = (visible \<noteq> sim_has \<or> \<not> sim_has),
          mr_oracle_state = oracle_debug job o2, mr_sim_has_file = sim_has\<rparr>)"

definition mutation_no_src_sync :: "u64 \<Rightarrow> MutationResult" where
  "mutation_no_src_sync seed =
     (let (job, o0, s0) = mutation_start seed;
          s1 = sim_fsync_dir ''ready/0000'' (sim_fsync_dir ''ready'' (fsync_file JOB s0));
          s2 = snd (rename_noreplace JOB LEASED_JOB (create_dir ''leased/boot/0/0000'' s1));
          s3 = crash (sync_leased_chain s2);
          src_survived = sim_exists JOB s3;
          dest_survived = sim_exists LEASED_JOB s3
      in \<lparr>mr_mutation = RemoveSourceDirSyncAfterRename, mr_seed = seed,
          mr_detected = (src_survived \<or> \<not> dest_survived),
          mr_oracle_state = ''src='' @ bool_display src_survived @ '' dest='' @ bool_display dest_survived,
          mr_sim_has_file = (dest_survived \<or> src_survived)\<rparr>)"

definition mutation_no_verification :: "Mutation \<Rightarrow> u64 \<Rightarrow> MutationResult" where
  "mutation_no_verification mutation seed =
     (let (job, o0, s0) = mutation_start seed;
          s1 = fsync_file ''ready/0000/evil.sqj''
                 (write_file ''ready/0000/evil.sqj'' (replicate 128 0) (fsync_file JOB s0));
          s2 = sim_fsync_dir ''ready/0000'' (sim_fsync_dir ''ready'' s1);
          file_count = (if sim_exists JOB s2 then 1 else 0 :: nat)
            + (if sim_exists ''ready/0000/evil.sqj'' s2 then 1 else 0)
      in \<lparr>mr_mutation = mutation, mr_seed = seed, mr_detected = (file_count > 1),
          mr_oracle_state = ''file_count='' @ decimal file_count, mr_sim_has_file = sim_exists JOB s2\<rparr>)"

definition run_mutation_test :: "Mutation \<Rightarrow> u64 \<Rightarrow> MutationResult" where
  "run_mutation_test mutation seed =
     (case mutation of
        RemoveFileSyncBeforePublish \<Rightarrow> mutation_no_file_sync seed
      | RemoveDestDirSyncAfterRename \<Rightarrow> mutation_no_dest_sync seed
      | RemoveSourceDirSyncAfterRename \<Rightarrow> mutation_no_src_sync seed
      | _ \<Rightarrow> mutation_no_verification mutation seed)"

section \<open>The generator never stops\<close>

lemma push_bit_fixed_point:
  fixes x :: u64
  assumes "x = push_bit n x" and "0 < n"
  shows "x = 0"
proof -
  have "\<not> bit x k" for k
  proof (induction k rule: less_induct)
    case (less k)
    have "bit x k \<longleftrightarrow> bit (push_bit n x) k" using assms(1) by simp
    then show ?case using less [of "k - n"] assms(2) by (auto simp: bit_simps)
  qed
  then show ?thesis by (intro bit_eqI) simp
qed

lemma drop_bit_fixed_point:
  fixes x :: u64
  assumes "x = drop_bit n x" and "0 < n"
  shows "x = 0"
proof -
  have shift: "bit x k \<longleftrightarrow> bit x (n + k)" for k
    using arg_cong [OF assms(1), of "\<lambda>y. bit y k"] by (simp add: bit_drop_bit_eq)
  have "bit x k \<longleftrightarrow> bit x (m * n + k)" for k m
    by (induction m arbitrary: k) (auto simp: add.assoc simp flip: shift)
  then have "bit x k \<longleftrightarrow> bit x (64 * n + k)" for k by blast
  moreover have "\<not> bit x (64 * n + k)" for k
    using assms(2) by (auto dest!: bit_imp_le_length)
  ultimately show ?thesis by (intro bit_eqI) simp
qed

lemma xor_eq_zero: "x XOR y = 0 \<Longrightarrow> (x :: u64) = y"
  by (simp add: bit_eq_iff bit_xor_iff)

lemma xorshift_nonzero:
  assumes "s \<noteq> 0"
  shows "xorshift s \<noteq> 0"
proof
  let ?s1 = "s XOR push_bit 13 s"
  let ?s2 = "?s1 XOR drop_bit 7 ?s1"
  assume "xorshift s = 0"
  then have "?s2 XOR push_bit 17 ?s2 = 0" unfolding xorshift_def Let_def .
  then have "?s2 = 0" by (rule push_bit_fixed_point [OF xor_eq_zero]) simp
  then have "?s1 = 0" by (rule drop_bit_fixed_point [OF xor_eq_zero]) simp
  then have "s = 0" by (rule push_bit_fixed_point [OF xor_eq_zero]) simp
  then show False using assms by simp
qed

text \<open>The state of a generator is never the fixed point zero, whatever the seed.\<close>

lemma rng_state_nonzero:
  "rng_state (rng_new seed) \<noteq> 0"
  "rng_state r \<noteq> 0 \<Longrightarrow> rng_state (snd (next_u64 r)) \<noteq> 0"
  by (auto simp: rng_new_def max_def next_u64_def Let_def xorshift_nonzero)

lemma next_range_below: "bound \<noteq> 0 \<Longrightarrow> fst (next_range bound r) < bound"
  by (simp add: next_range_def next_u64_def Let_def word_mod_less_divisor word_gt_0)

section \<open>Properties of the simulator\<close>

subsection \<open>Paths and ancestors\<close>

definition normalized :: "string \<Rightarrow> bool" where
  "normalized p \<longleftrightarrow> normalize_path p = p"

lemma split_on_append: "split_on c (a @ c # b) = split_on c a @ split_on c b"
proof (induction a)
  case (Cons x a)
  then show ?case by (cases "split_on c a") auto
qed simp

lemma normalized_iff:
  "normalized p \<longleftrightarrow> p = [] \<or> (\<forall>x\<in>set (split_on CHR ''/'' p). x \<noteq> [])"
proof
  assume n: "normalized p"
  let ?ps = "filter (\<lambda>s. s \<noteq> []) (split_on CHR ''/'' p)"
  show "p = [] \<or> (\<forall>x\<in>set (split_on CHR ''/'' p). x \<noteq> [])"
  proof (cases "?ps = []")
    case True
    then show ?thesis using n by (simp add: normalized_def normalize_path_def)
  next
    case False
    then have "split_on CHR ''/'' (join_with CHR ''/'' ?ps) = ?ps"
      by (intro split_on_join_with) (auto dest: split_on_parts_no_sep)
    then have "?ps = split_on CHR ''/'' p" using n by (simp add: normalized_def normalize_path_def)
    then show ?thesis unfolding filter_id_conv ..
  qed
next
  assume "p = [] \<or> (\<forall>x\<in>set (split_on CHR ''/'' p). x \<noteq> [])"
  then show "normalized p"
    by (auto simp: normalized_def normalize_path_def filter_True [of "split_on CHR ''/'' p"])
qed

lemma normalize_idem: "normalized (normalize_path p)"
proof (cases "filter (\<lambda>s. s \<noteq> []) (split_on CHR ''/'' p) = []")
  case True
  then have "normalize_path p = []" by (simp only: normalize_path_def join_with.simps)
  then show ?thesis by (simp add: normalized_iff)
next
  case False
  then have "split_on CHR ''/'' (normalize_path p) = filter (\<lambda>s. s \<noteq> []) (split_on CHR ''/'' p)"
    unfolding normalize_path_def by (intro split_on_join_with) (auto dest: split_on_parts_no_sep)
  then show ?thesis by (simp add: normalized_iff)
qed

lemma ancestor_dirs_mono: "dirs \<subseteq> ancestor_dirs path parts acc dirs"
  by (induction path parts acc dirs rule: ancestor_dirs.induct) (auto simp: Let_def split: if_splits)

lemma join_with_snoc: "ps \<noteq> [] \<Longrightarrow> join_with c (ps @ [q]) = join_with c ps @ c # q"
  by (induction c ps rule: join_with.induct) auto

lemma join_with_eq_Nil: "list_all (\<lambda>x. x \<noteq> []) ps \<Longrightarrow> join_with c ps = [] \<longleftrightarrow> ps = []"
  by (induction c ps rule: join_with.induct) auto

lemma join_with_append_less:
  "ps \<noteq> [] \<Longrightarrow> qs \<noteq> [] \<Longrightarrow> length (join_with c ps) < length (join_with c (ps @ qs))"
proof (induction qs rule: rev_induct)
  case (snoc q qs)
  then show ?case
    by (cases "qs = []") (simp_all add: join_with_snoc flip: append_assoc)
qed simp

lemma ancestor_dirs_prefixes:
  assumes "path = join_with CHR ''/'' (before @ parts)" and "acc = join_with CHR ''/'' before"
    and "list_all (\<lambda>x. x \<noteq> []) (before @ parts)" and "0 < i" and "i < length parts"
  shows "join_with CHR ''/'' (before @ take i parts) \<in> ancestor_dirs path parts acc dirs"
  using assms
proof (induction parts arbitrary: before acc dirs i)
  case (Cons part parts)
  let ?acc = "if acc = [] then part else acc @ CHR ''/'' # part"
  have acc: "?acc = join_with CHR ''/'' (before @ [part])"
    using Cons.prems(2,3) by (auto simp: join_with_eq_Nil join_with_snoc)
  from Cons.prems(5,4) have "parts \<noteq> []" by auto
  then have ne: "?acc \<noteq> path"
    using join_with_append_less [of "before @ [part]" parts "CHR ''/''"] acc Cons.prems(1) by auto
  let ?J = "join_with CHR ''/'' (before @ [part])"
  have step: "ancestor_dirs path (part # parts) acc dirs = ancestor_dirs path parts ?J (insert ?J dirs)"
    unfolding ancestor_dirs.simps Let_def using ne unfolding acc by simp
  show ?case
  proof (cases "i = 1")
    case True
    then show ?thesis
      using ancestor_dirs_mono [of "insert ?J dirs" path parts ?J] unfolding step by auto
  next
    case False
    then obtain j where "i = Suc j" "0 < j" using Cons.prems(4) by (cases i) auto
    then show ?thesis
      using Cons.IH [of "before @ [part]" ?J j "insert ?J dirs"] Cons.prems unfolding step by simp
  qed
qed simp

lemma split_on_length_pos [simp]: "0 < length (split_on c s)"
  by (cases "split_on c s") auto

lemma ancestors_ensured:
  assumes "normalized path" and "path = g @ CHR ''/'' # rest"
  shows "g \<in> sim_dirs (ensure_volatile_ancestors path s)"
proof -
  let ?parts = "split_on CHR ''/'' path"
  have parts: "?parts = split_on CHR ''/'' g @ split_on CHR ''/'' rest"
    using assms(2) by (simp add: split_on_append)
  have ne: "list_all (\<lambda>x. x \<noteq> []) ?parts" using assms by (auto simp: normalized_iff list_all_iff)
  have "length (split_on CHR ''/'' g) < length ?parts" by (simp add: parts)
  with ne have "join_with CHR ''/'' ([] @ take (length (split_on CHR ''/'' g)) ?parts)
      \<in> ancestor_dirs path ?parts [] (sim_dirs s)"
    by (intro ancestor_dirs_prefixes) simp_all
  moreover have "filter (\<lambda>p. p \<noteq> []) ?parts = ?parts" using ne by (simp add: filter_id_conv list_all_iff)
  ultimately show ?thesis
    by (auto simp: ensure_volatile_ancestors_def Let_def parts split: option.split)
qed

lemma ensure_volatile_ancestors_frame [simp]:
  "sim_files (ensure_volatile_ancestors path s) = sim_files s"
  "durable_entries (ensure_volatile_ancestors path s) = durable_entries s"
  "durable_file_data (ensure_volatile_ancestors path s) = durable_file_data s"
  "durable_dirs (ensure_volatile_ancestors path s) = durable_dirs s"
  "sim_rng (ensure_volatile_ancestors path s) = sim_rng s"
  by (simp_all add: ensure_volatile_ancestors_def Let_def)

lemma parent_ensured:
  "parent_of path = Some d \<Longrightarrow> d \<in> sim_dirs (ensure_volatile_ancestors path s)"
  by (simp add: ensure_volatile_ancestors_def Let_def)

lemma ensure_volatile_ancestors_mono: "sim_dirs s \<subseteq> sim_dirs (ensure_volatile_ancestors path s)"
  using ancestor_dirs_mono
  by (fastforce simp: ensure_volatile_ancestors_def Let_def split: option.split)

lemma strip_prefix_iff: "strip_prefix pre s \<noteq> None \<longleftrightarrow> (\<exists>rest. s = pre @ rest)"
  by (auto simp: strip_prefix_def) (metis append_take_drop_id)

subsection \<open>Directory barriers\<close>

lemma forget_durable_forget [simp]: "forget_durable A (forget_durable B s) = forget_durable (A \<union> B) s"
proof -
  have "(durable_file_data s |` (- B)) |` (- A) = durable_file_data s |` (- (A \<union> B))"
    by (simp add: Int_commute)
  moreover have "X - B - A = X - (A \<union> B)" for X :: "string set" by auto
  ultimately show ?thesis by (simp add: forget_durable_def)
qed

lemma forget_durable_frame [simp]:
  "sim_files (forget_durable A s) = sim_files s" "sim_dirs (forget_durable A s) = sim_dirs s"
  "durable_entries (forget_durable A s) = durable_entries s - A"
  "durable_file_data (forget_durable A s) p = (if p \<in> A then None else durable_file_data s p)"
  "durable_dirs (forget_durable A s) = durable_dirs s - A"
  by (simp_all add: forget_durable_def restrict_map_def)

lemma durable_descendants_forget [simp]:
  "durable_descendants e (forget_durable A s) = durable_descendants e s - A"
  by (auto simp: durable_descendants_def)

text \<open>The loop over the stale children removes the same names in any order.\<close>

definition stale_loop :: "string set \<Rightarrow> string list \<Rightarrow> Simulator \<Rightarrow> Simulator" where
  "stale_loop live es =
     fold (\<lambda>e s. if e \<in> live then s else drop_durable_descendants e (forget_durable {e} s)) es"

lemma stale_loop_forget:
  "stale_loop live es (forget_durable A s) =
     forget_durable (A \<union> (\<Union>e\<in>set es - live. insert e (durable_descendants e s))) s"
proof (induction es arbitrary: A)
  case Nil
  then show ?case by (simp add: stale_loop_def)
next
  case (Cons e es)
  show ?case
  proof (cases "e \<in> live")
    case True
    then have "set (e # es) - live = set es - live" by auto
    then show ?thesis using Cons.IH [of A] True by (simp add: stale_loop_def)
  next
    case False
    let ?B = "insert e (durable_descendants e s \<union> A)"
    have "stale_loop live (e # es) (forget_durable A s) = stale_loop live es (forget_durable ?B s)"
      using False by (simp add: stale_loop_def drop_durable_descendants_def)
    also have "\<dots> = forget_durable (?B \<union> (\<Union>e\<in>set es - live. insert e (durable_descendants e s))) s"
      by (rule Cons.IH)
    also have "?B \<union> (\<Union>e\<in>set es - live. insert e (durable_descendants e s))
        = A \<union> (\<Union>e\<in>set (e # es) - live. insert e (durable_descendants e s))"
      using False by auto
    finally show ?thesis .
  qed
qed

lemma drop_stale_any_order:
  assumes "set es = {e \<in> durable_entries s. parent_of e = Some path}"
  shows "stale_loop (live_children path s) es s = drop_stale path s"
proof -
  have "forget_durable {} s = s" by (cases s) (simp add: forget_durable_def restrict_map_def)
  then have "stale_loop (live_children path s) es s =
      forget_durable (\<Union>e\<in>stale_children path s. insert e (durable_descendants e s)) s"
    using stale_loop_forget [of "live_children path s" es "{}" s] assms by (simp add: stale_children_def)
  moreover have "(\<Union>e\<in>stale_children path s. insert e (durable_descendants e s))
      = stale_children path s \<union> (\<Union>e\<in>stale_children path s. durable_descendants e s)" by auto
  ultimately show ?thesis by (simp add: drop_stale_def)
qed

lemma sim_fsync_dir_volatile [simp]:
  "sim_files (sim_fsync_dir D s) = sim_files s" "sim_dirs (sim_fsync_dir D s) = sim_dirs s"
  by (simp_all add: sim_fsync_dir_def Let_def commit_children_def drop_stale_def)

lemma parent_of_length: "parent_of p = Some d \<Longrightarrow> length d < length p"
proof -
  assume p: "parent_of p = Some d"
  then have ne: "p \<noteq> []" by (auto simp: parent_of_def)
  have "length (tl (dropWhile (\<lambda>x. x \<noteq> CHR ''/'') (rev p))) < length p" if "CHR ''/'' \<in> set p"
  proof -
    have "length (dropWhile (\<lambda>x. x \<noteq> CHR ''/'') (rev p)) \<le> length p"
      using length_dropWhile_le [of _ "rev p"] by simp
    moreover have "dropWhile (\<lambda>x. x \<noteq> CHR ''/'') (rev p) \<noteq> []" using that by (auto simp: dropWhile_eq_Nil_conv)
    ultimately show ?thesis by (cases "dropWhile (\<lambda>x. x \<noteq> CHR ''/'') (rev p)") auto
  qed
  then show ?thesis using p ne by (auto simp: parent_of_def rsplit_once_def split: if_splits)
qed

lemma parent_not_self [simp]: "parent_of p \<noteq> Some p"
  using parent_of_length by blast

text \<open>What a barrier commits, and what it removes.\<close>

lemma sim_fsync_dir_commits:
  assumes "normalized D" and "D \<in> sim_dirs s" and "parent_of p = Some D"
    and "sim_files s p = Some f" and "sf_data_synced f" and "p \<notin> sim_dirs s"
  shows "p \<in> durable_entries (sim_fsync_dir D s)"
    and "durable_file_data (sim_fsync_dir D s) p = Some \<lparr>df_content = sf_content f\<rparr>"
  using assms
  by (auto simp: sim_fsync_dir_def normalized_def Let_def commit_children_def drop_stale_def live_children_def)

lemma sim_fsync_dir_removes:
  assumes "normalized D" and "D \<in> sim_dirs s" and "parent_of p = Some D"
    and "sim_files s p = None" and "p \<notin> sim_dirs s"
  shows "p \<notin> durable_entries (sim_fsync_dir D s)"
proof -
  have "p \<noteq> D" using assms(3) by auto
  then show ?thesis
    using assms
    by (auto simp: sim_fsync_dir_def normalized_def Let_def commit_children_def drop_stale_def
        live_children_def stale_children_def)
qed

lemma sim_fsync_dir_keeps:
  assumes "p \<in> durable_entries s" and "durable_file_data s p = Some d"
    and "parent_of p = Some (normalize_path D) \<Longrightarrow>
      \<exists>f. sim_files s p = Some f \<and> (sf_data_synced f \<longrightarrow> sf_content f = df_content d)"
    and "\<And>g rest. p = g @ CHR ''/'' # rest \<Longrightarrow> parent_of g = Some (normalize_path D) \<Longrightarrow> g \<in> sim_dirs s"
  shows "p \<in> durable_entries (sim_fsync_dir D s)" and "durable_file_data (sim_fsync_dir D s) p = Some d"
proof -
  let ?D = "normalize_path D"
  let ?s1 = "s\<lparr>durable_dirs := insert ?D (durable_dirs s), durable_entries := insert ?D (durable_entries s)\<rparr>"
  have live: "p \<notin> stale_children ?D ?s1"
    using assms(3) by (auto simp: stale_children_def live_children_def)
  have "p \<notin> durable_descendants g ?s1" if "g \<in> stale_children ?D ?s1" for g
  proof
    assume "p \<in> durable_descendants g ?s1"
    then obtain rest where "p = (g @ ''/'') @ rest"
      using strip_prefix_iff [of "g @ ''/''" p] by (auto simp: durable_descendants_def split: if_splits)
    then have "p = g @ CHR ''/'' # rest" by simp
    with assms(4) that show False by (auto simp: stale_children_def live_children_def)
  qed
  then have kept: "p \<notin> stale_children ?D ?s1 \<union> (\<Union>e\<in>stale_children ?D ?s1. durable_descendants e ?s1)"
    using live by blast
  show "p \<in> durable_entries (sim_fsync_dir D s)"
    using assms(1) kept
    by (simp add: sim_fsync_dir_def Let_def commit_children_def drop_stale_def)
  show "durable_file_data (sim_fsync_dir D s) p = Some d"
  proof (cases "?D \<in> sim_dirs s")
    case True
    have "p \<in> live_children ?D ?s1 \<Longrightarrow> p \<notin> sim_dirs s \<Longrightarrow> sim_files s p = Some f \<Longrightarrow> sf_data_synced f
        \<Longrightarrow> \<lparr>df_content = sf_content f\<rparr> = d" for f
      using assms(3) by (cases d) (auto simp: live_children_def)
    then show ?thesis
      using True assms(2) kept
      by (auto simp: sim_fsync_dir_def Let_def commit_children_def drop_stale_def split: option.split)
  qed (use assms(2) in \<open>simp add: sim_fsync_dir_def\<close>)
qed

subsection \<open>The simulated move\<close>

lemma crash_files:
  "sim_files (crash s) p =
     (if p \<in> durable_entries s
      then map_option (\<lambda>d. \<lparr>sf_content = df_content d, sf_data_synced = True\<rparr>) (durable_file_data s p)
      else None)"
  by (simp add: crash_def)

lemma normalized_parent:
  assumes "normalized p" and "parent_of p = Some d"
  shows "normalized d"
proof (cases "CHR ''/'' \<in> set p")
  case True
  then obtain a b where p: "p = a @ CHR ''/'' # b" "CHR ''/'' \<notin> set b" by (metis split_list_last)
  then have "d = a" using assms(2) by (simp add: parent_of_def)
  then show ?thesis using assms(1) p by (auto simp: normalized_iff split_on_append)
next
  case False
  then show ?thesis using assms(2) by (auto simp: parent_of_def rsplit_once_def normalized_iff split: if_splits)
qed

lemma ancestor_dirs_not_path: "path \<notin> dirs \<Longrightarrow> path \<notin> ancestor_dirs path parts acc dirs"
  by (induction path parts acc dirs rule: ancestor_dirs.induct) (auto simp: Let_def)

lemma ensured_not_path:
  "path \<notin> sim_dirs s \<Longrightarrow> path \<notin> sim_dirs (ensure_volatile_ancestors path s)"
  by (auto simp: ensure_volatile_ancestors_def Let_def ancestor_dirs_not_path split: option.split)

lemma rename_noreplace_files:
  assumes "normalized src" and "normalized dest" and "rename_noreplace src dest s = (r, s')"
    and "sim_files s src = Some f" and "sim_files s dest = None" and "dest \<notin> sim_dirs s"
  shows "r = Ok ()" and "sim_files s' = (sim_files s)(src := None, dest \<mapsto> f)"
    and "sim_dirs s' = sim_dirs (ensure_volatile_ancestors dest (s\<lparr>sim_files := (sim_files s)(src := None)\<rparr>))"
    and "durable_entries s' = durable_entries s" and "durable_file_data s' = durable_file_data s"
    and "durable_dirs s' = durable_dirs s"
  using assms by (auto simp: rename_noreplace_def Let_def normalized_def)

text \<open>C25. The simulator confirms the order of the barriers: when a file that is durable under its
  old name is renamed, then the destination directory is synced, then the source directory,
  a crash after any of these steps leaves the file with its content under the old or the
  new name, and after all of them the old name is gone.\<close>

theorem simulated_move_crash_safe:
  assumes "normalized src" and "normalized dest"
    and "parent_of src = Some P1" and "parent_of dest = Some P2"
    and "sim_files s src = Some f" and "sf_data_synced f"
    and "src \<in> durable_entries s" and "durable_file_data s src = Some \<lparr>df_content = sf_content f\<rparr>"
    and "sim_files s dest = None" and "dest \<notin> sim_dirs s"
    and "rename_noreplace src dest s = (r, s1)"
    and "s2 = sim_fsync_dir P2 s1" and "s3 = sim_fsync_dir P1 s2"
  shows "(\<forall>t \<in> {s, s1, s2, s3}. read_file src (crash t) = Some (sf_content f)
            \<or> read_file dest (crash t) = Some (sf_content f))
    \<and> read_file dest (crash s3) = Some (sf_content f)
    \<and> (P1 \<in> sim_dirs s1 \<and> src \<notin> sim_dirs s1 \<longrightarrow> read_file src (crash s3) = None)"
proof -
  note ren = rename_noreplace_files [OF assms(1,2,11,5,9,10)]
  have ne: "src \<noteq> dest" using assms(5,9) by auto
  have nP: "normalized P1" "normalized P2" using normalized_parent assms(1-4) by blast+
  have P2: "P2 \<in> sim_dirs s1" using parent_ensured [OF assms(4)] ren(3) by simp
  have dest: "sim_files s1 dest = Some f" "dest \<notin> sim_dirs s1"
    using ren(2,3) ensured_not_path assms(10) by auto
  note two = sim_fsync_dir_commits [OF nP(2) P2 assms(4) dest(1) assms(6) dest(2), folded assms(12)]
  have anc: "g \<in> sim_dirs s2" if "dest = g @ CHR ''/'' # rest" for g rest
    using ancestors_ensured [OF assms(2) that] ren(3) assms(12) by simp
  have v2: "sim_files s2 = sim_files s1" "sim_dirs s2 = sim_dirs s1" using assms(12) by simp_all
  have three: "dest \<in> durable_entries s3" "durable_file_data s3 dest = Some \<lparr>df_content = sf_content f\<rparr>"
    unfolding assms(13)
    by (rule sim_fsync_dir_keeps [OF two]; use v2 dest(1) anc in auto)+
  have reads: "read_file p (crash t) = map_option df_content (durable_file_data t p)"
    if "normalized p" "p \<in> durable_entries t" for p t
    using that by (simp add: read_file_def normalized_def crash_files option.map_comp comp_def)
  have gone: "src \<notin> durable_entries s3" if "P1 \<in> sim_dirs s1" "src \<notin> sim_dirs s1"
    unfolding assms(13)
    by (rule sim_fsync_dir_removes [OF nP(1) _ assms(3)]) (use that v2 ren(2) ne in auto)
  then have "P1 \<in> sim_dirs s1 \<and> src \<notin> sim_dirs s1 \<longrightarrow> read_file src (crash s3) = None"
    using assms(1) by (simp add: read_file_def normalized_def crash_files)
  moreover have "read_file src (crash s) = Some (sf_content f)" "read_file src (crash s1) = Some (sf_content f)"
    using reads [OF assms(1)] assms(7,8) ren(4,5) by simp_all
  moreover have "read_file dest (crash s2) = Some (sf_content f)" "read_file dest (crash s3) = Some (sf_content f)"
    using reads [OF assms(2)] two three by simp_all
  ultimately show ?thesis by blast
qed

definition move_example :: Simulator where
  "move_example =
     \<lparr>sim_files = [''a/x'' \<mapsto> \<lparr>sf_content = [7], sf_data_synced = True\<rparr>], sim_dirs = {[], ''a'', ''b''},
      durable_entries = {[], ''a'', ''b'', ''a/x''}, durable_file_data = [''a/x'' \<mapsto> \<lparr>df_content = [7]\<rparr>],
      durable_dirs = {[], ''a'', ''b''}, sim_rng = rng_new 1\<rparr>"

theorem simulated_move_crash_safe_witness:
  "read_file ''b/y'' (crash (sim_fsync_dir ''a'' (sim_fsync_dir ''b''
      (snd (rename_noreplace ''a/x'' ''b/y'' move_example))))) = Some [7]
   \<and> (read_file ''a/x'' (crash (sim_fsync_dir ''b'' (snd (rename_noreplace ''a/x'' ''b/y'' move_example)))) = Some [7]
      \<or> read_file ''b/y'' (crash (sim_fsync_dir ''b'' (snd (rename_noreplace ''a/x'' ''b/y'' move_example)))) = Some [7])"
proof -
  obtain r s1 where r: "rename_noreplace ''a/x'' ''b/y'' move_example = (r, s1)" by fastforce
  have p: "normalized ''a/x''" "normalized ''b/y''" "parent_of ''a/x'' = Some ''a''" "parent_of ''b/y'' = Some ''b''"
    by (simp_all add: normalized_def normalize_path_def parent_of_def rsplit_once_def)
  have m: "sim_files move_example ''a/x'' = Some \<lparr>sf_content = [7], sf_data_synced = True\<rparr>"
    "''a/x'' \<in> durable_entries move_example"
    "durable_file_data move_example ''a/x'' = Some \<lparr>df_content = [7]\<rparr>"
    "sim_files move_example ''b/y'' = None" "''b/y'' \<notin> sim_dirs move_example"
    by (simp_all add: move_example_def)
  show ?thesis
    using simulated_move_crash_safe [OF p m(1) _ m(2) _ m(4,5) r refl refl] m(3) by (simp add: r)
qed

subsection \<open>The mutation runs\<close>

lemma sim_fsync_dir_no_data:
  assumes "durable_file_data s p = None"
    and "\<And>f. parent_of p = Some (normalize_path D) \<Longrightarrow> sim_files s p = Some f \<Longrightarrow> \<not> sf_data_synced f"
  shows "durable_file_data (sim_fsync_dir D s) p = None"
  using assms
  by (auto simp: sim_fsync_dir_def Let_def commit_children_def drop_stale_def live_children_def split: option.split)

lemma sim_fsync_dir_no_dir:
  assumes "p \<notin> durable_dirs s" and "p \<notin> sim_dirs s"
  shows "p \<notin> durable_dirs (sim_fsync_dir D s)"
  using assms
  by (auto simp: sim_fsync_dir_def Let_def commit_children_def drop_stale_def live_children_def)

lemma create_dir_frame [simp]:
  "sim_files (create_dir path s) = sim_files s" "durable_entries (create_dir path s) = durable_entries s"
  "durable_file_data (create_dir path s) = durable_file_data s" "durable_dirs (create_dir path s) = durable_dirs s"
  by (simp_all add: create_dir_def Let_def)

lemma write_file_frame [simp]:
  "durable_entries (write_file path c s) = durable_entries s"
  "durable_file_data (write_file path c s) = durable_file_data s"
  "durable_dirs (write_file path c s) = durable_dirs s"
  "sim_files (write_file path c s) =
     (sim_files s)(normalize_path path \<mapsto> \<lparr>sf_content = c, sf_data_synced = False\<rparr>)"
  "sim_dirs (write_file path c s) = sim_dirs (ensure_volatile_ancestors (normalize_path path) s)"
  by (simp_all add: write_file_def Let_def)

lemma fsync_file_frame [simp]:
  "sim_dirs (fsync_file path s) = sim_dirs s" "durable_entries (fsync_file path s) = durable_entries s"
  "durable_dirs (fsync_file path s) = durable_dirs s"
  by (simp_all add: fsync_file_def Let_def split: option.split)

text \<open>The paths of the runs.\<close>

lemma run_paths [simp]:
  "normalize_path ''ready'' = ''ready''" "normalize_path ''ready/0000'' = ''ready/0000''"
  "normalize_path JOB = JOB" "normalize_path ''ready/0000/evil.sqj'' = ''ready/0000/evil.sqj''"
  "normalize_path ''leased'' = ''leased''" "normalize_path ''leased/boot'' = ''leased/boot''"
  "normalize_path ''leased/boot/0'' = ''leased/boot/0''"
  "normalize_path ''leased/boot/0/0000'' = ''leased/boot/0/0000''"
  "normalize_path LEASED_JOB = LEASED_JOB"
  by (simp_all add: normalize_path_def JOB_def LEASED_JOB_def)

lemma run_parents [simp]:
  "parent_of JOB = Some ''ready/0000''" "parent_of LEASED_JOB = Some ''leased/boot/0/0000''"
  "parent_of ''ready/0000/evil.sqj'' = Some ''ready/0000''"
  by (simp_all add: parent_of_def rsplit_once_def JOB_def LEASED_JOB_def)

lemma run_distinct [simp]:
  "JOB \<noteq> []" "LEASED_JOB \<noteq> []" "JOB \<noteq> LEASED_JOB" "LEASED_JOB \<noteq> JOB" "JOB \<noteq> ''ready/0000/evil.sqj''"
  "JOB \<noteq> ''ready''" "JOB \<noteq> ''ready/0000''" "LEASED_JOB \<noteq> ''ready''" "LEASED_JOB \<noteq> ''ready/0000''"
  by (simp_all add: JOB_def LEASED_JOB_def)

lemma dirs_of_JOB:
  "sim_dirs (ensure_volatile_ancestors JOB s) = {''ready'', ''ready/0000''} \<union> sim_dirs s"
  by (auto simp: ensure_volatile_ancestors_def JOB_def parent_of_def rsplit_once_def Let_def)

lemma dirs_of_LEASED_JOB:
  "sim_dirs (ensure_volatile_ancestors LEASED_JOB s) =
     {''leased'', ''leased/boot'', ''leased/boot/0'', ''leased/boot/0/0000''} \<union> sim_dirs s"
  by (auto simp: ensure_volatile_ancestors_def LEASED_JOB_def parent_of_def rsplit_once_def Let_def)

lemma dirs_of_ready:
  "sim_dirs (create_dir ''ready/0000'' s) = {''ready'', ''ready/0000''} \<union> sim_dirs s"
  by (auto simp: create_dir_def ensure_volatile_ancestors_def parent_of_def rsplit_once_def Let_def)

lemma dirs_of_leased:
  "sim_dirs (create_dir ''leased/boot/0/0000'' s) =
     {''leased'', ''leased/boot'', ''leased/boot/0'', ''leased/boot/0/0000''} \<union> sim_dirs s"
  by (auto simp: create_dir_def ensure_volatile_ancestors_def parent_of_def rsplit_once_def Let_def)

definition run_start :: "u64 \<Rightarrow> Simulator" where
  "run_start seed = write_file JOB (replicate 128 0x42) (create_dir ''ready/0000'' (simulator_new seed))"

lemma run_start_simps [simp]:
  "sim_files (run_start seed) = [JOB \<mapsto> \<lparr>sf_content = replicate 128 0x42, sf_data_synced = False\<rparr>]"
  "sim_dirs (run_start seed) = {[], ''ready'', ''ready/0000''}"
  "durable_entries (run_start seed) = {[]}" "durable_file_data (run_start seed) = Map.empty"
  "durable_dirs (run_start seed) = {[]}"
  by (auto simp: run_start_def dirs_of_JOB dirs_of_ready simulator_new_def)

lemma crash_exists:
  "normalized p \<Longrightarrow> p \<noteq> [] \<Longrightarrow>
     sim_exists p (crash s) \<longleftrightarrow> p \<in> durable_entries s \<and> durable_file_data s p \<noteq> None \<or> p \<in> durable_dirs s"
  by (auto simp: sim_exists_def normalized_def crash_def)

definition run_synced :: "u64 \<Rightarrow> Simulator" where
  "run_synced seed = sim_fsync_dir ''ready/0000'' (sim_fsync_dir ''ready'' (fsync_file JOB (run_start seed)))"

lemma normalized_runs [simp]:
  "normalized JOB" "normalized LEASED_JOB" "normalized ''ready/0000''" "normalized ''leased/boot/0/0000''"
  by (simp_all add: normalized_def)

lemma fsynced_start:
  "sim_files (fsync_file JOB (run_start seed)) = [JOB \<mapsto> \<lparr>sf_content = replicate 128 0x42, sf_data_synced = True\<rparr>]"
  "durable_file_data (fsync_file JOB (run_start seed)) = [JOB \<mapsto> \<lparr>df_content = replicate 128 0x42\<rparr>]"
  by (simp_all add: fsync_file_def)

lemma run_synced_simps:
  "sim_files (run_synced seed) = [JOB \<mapsto> \<lparr>sf_content = replicate 128 0x42, sf_data_synced = True\<rparr>]"
  "sim_dirs (run_synced seed) = {[], ''ready'', ''ready/0000''}"
  "JOB \<in> durable_entries (run_synced seed)"
  "durable_file_data (run_synced seed) JOB = Some \<lparr>df_content = replicate 128 0x42\<rparr>"
  "durable_file_data (run_synced seed) LEASED_JOB = None"
  "JOB \<notin> durable_dirs (run_synced seed)" "LEASED_JOB \<notin> durable_dirs (run_synced seed)"
proof -
  show "sim_files (run_synced seed) = [JOB \<mapsto> \<lparr>sf_content = replicate 128 0x42, sf_data_synced = True\<rparr>]"
    "sim_dirs (run_synced seed) = {[], ''ready'', ''ready/0000''}"
    by (simp_all add: run_synced_def fsynced_start)
  note c = sim_fsync_dir_commits [of "''ready/0000''" "sim_fsync_dir ''ready'' (fsync_file JOB (run_start seed))" JOB
      "\<lparr>sf_content = replicate 128 0x42, sf_data_synced = True\<rparr>"]
  show "JOB \<in> durable_entries (run_synced seed)"
    "durable_file_data (run_synced seed) JOB = Some \<lparr>df_content = replicate 128 0x42\<rparr>"
    using c unfolding run_synced_def by (simp_all add: fsynced_start)
  show "durable_file_data (run_synced seed) LEASED_JOB = None"
    unfolding run_synced_def by (intro sim_fsync_dir_no_data) (simp_all add: fsynced_start)
  show "JOB \<notin> durable_dirs (run_synced seed)" "LEASED_JOB \<notin> durable_dirs (run_synced seed)"
    unfolding run_synced_def by (intro sim_fsync_dir_no_dir; simp)+
qed

text \<open>The renamed file, before any barrier.\<close>

definition run_renamed :: "u64 \<Rightarrow> Simulator" where
  "run_renamed seed = snd (rename_noreplace JOB LEASED_JOB (create_dir ''leased/boot/0/0000'' (run_synced seed)))"

lemma run_renamed_simps:
  "sim_files (run_renamed seed) = [LEASED_JOB \<mapsto> \<lparr>sf_content = replicate 128 0x42, sf_data_synced = True\<rparr>]"
  "JOB \<notin> sim_dirs (run_renamed seed)" "LEASED_JOB \<notin> sim_dirs (run_renamed seed)"
  "''ready/0000'' \<in> sim_dirs (run_renamed seed)" "''leased/boot/0/0000'' \<in> sim_dirs (run_renamed seed)"
  "durable_entries (run_renamed seed) = durable_entries (run_synced seed)"
  "durable_file_data (run_renamed seed) = durable_file_data (run_synced seed)"
  "durable_dirs (run_renamed seed) = durable_dirs (run_synced seed)"
proof -
  let ?s = "create_dir ''leased/boot/0/0000'' (run_synced seed)"
  have d: "LEASED_JOB \<notin> sim_dirs ?s" "JOB \<notin> sim_dirs ?s"
    by (simp_all add: dirs_of_leased run_synced_simps) (simp_all add: LEASED_JOB_def JOB_def)
  have f: "sim_files ?s = [JOB \<mapsto> \<lparr>sf_content = replicate 128 0x42, sf_data_synced = True\<rparr>]"
    by (simp add: run_synced_simps)
  obtain r s' where ren: "rename_noreplace JOB LEASED_JOB ?s = (r, s')" by fastforce
  note facts = rename_noreplace_files [OF normalized_runs(1,2) ren, of "\<lparr>sf_content = replicate 128 0x42, sf_data_synced = True\<rparr>"]
  have s': "run_renamed seed = s'" by (simp add: run_renamed_def ren)
  have dirs: "sim_dirs s' = {''leased'', ''leased/boot'', ''leased/boot/0'', ''leased/boot/0/0000''} \<union> sim_dirs ?s"
    using facts(3) f d by (simp add: dirs_of_LEASED_JOB)
  show "sim_files (run_renamed seed) = [LEASED_JOB \<mapsto> \<lparr>sf_content = replicate 128 0x42, sf_data_synced = True\<rparr>]"
    using facts(2) f d unfolding s' by (simp add: fun_upd_idem_iff fun_upd_twist)
  show "durable_entries (run_renamed seed) = durable_entries (run_synced seed)"
    "durable_file_data (run_renamed seed) = durable_file_data (run_synced seed)"
    "durable_dirs (run_renamed seed) = durable_dirs (run_synced seed)"
    using facts(4,5,6) f d unfolding s' by simp_all
  show "JOB \<notin> sim_dirs (run_renamed seed)" "LEASED_JOB \<notin> sim_dirs (run_renamed seed)"
    using d unfolding s' dirs by (simp_all add: LEASED_JOB_def JOB_def)
  show "''ready/0000'' \<in> sim_dirs (run_renamed seed)" "''leased/boot/0/0000'' \<in> sim_dirs (run_renamed seed)"
    unfolding s' dirs by (simp_all add: dirs_of_leased run_synced_simps)
qed

lemmas oracle_defs =
  oracle_new_def gen_job_id_def record_enqueue_def record_file_sync_def record_dest_sync_def
  record_src_sync_def record_publish_def publish_job_def record_claim_def claim_job_def record_ack_def
  resolve_job_def record_crash_def crash_job_def update_job_def oracle_get_def oracle_visible_def

lemma mutation_start_sim: "mutation_start seed = (job, oracle, s) \<Longrightarrow> s = run_start seed"
  by (auto simp: mutation_start_def run_start_def Let_def case_prod_beta)

lemma detects_no_file_sync: "mr_detected (mutation_no_file_sync seed)"
proof -
  let ?s = "sim_fsync_dir ''ready/0000'' (sim_fsync_dir ''ready'' (run_start seed))"
  have "durable_file_data ?s JOB = None" by (intro sim_fsync_dir_no_data) simp_all
  moreover have "JOB \<notin> durable_dirs ?s" by (intro sim_fsync_dir_no_dir) simp_all
  ultimately have "\<not> sim_exists JOB (crash ?s)" by (simp add: crash_exists)
  then show ?thesis
    by (simp add: mutation_no_file_sync_def mutation_start_def Let_def case_prod_beta oracle_defs
        flip: run_start_def)
qed

lemma detects_no_dest_sync: "mr_detected (mutation_no_dest_sync seed)"
proof -
  let ?s = "sim_fsync_dir ''ready/0000'' (run_renamed seed)"
  have "durable_file_data ?s LEASED_JOB = None"
    by (intro sim_fsync_dir_no_data) (simp_all add: run_renamed_simps run_synced_simps)
  moreover have "JOB \<notin> durable_entries ?s"
    by (intro sim_fsync_dir_removes) (simp_all add: run_renamed_simps)
  moreover have "JOB \<notin> durable_dirs ?s" "LEASED_JOB \<notin> durable_dirs ?s"
    by (intro sim_fsync_dir_no_dir; simp add: run_renamed_simps run_synced_simps)+
  ultimately have "\<not> sim_exists JOB (crash ?s)" "\<not> sim_exists LEASED_JOB (crash ?s)"
    by (simp_all add: crash_exists)
  then show ?thesis
    by (simp add: mutation_no_dest_sync_def mutation_start_def Let_def case_prod_beta
        flip: run_start_def run_synced_def run_renamed_def)
qed

text \<open>A barrier on the leased side keeps the old entry: it is no descendant of that tree.\<close>

lemma leased_barrier_keeps_JOB:
  assumes "D \<in> {''leased'', ''leased/boot'', ''leased/boot/0'', ''leased/boot/0/0000''}"
    and "JOB \<in> durable_entries s" and "durable_file_data s JOB = Some d"
  shows "JOB \<in> durable_entries (sim_fsync_dir D s)" and "durable_file_data (sim_fsync_dir D s) JOB = Some d"
proof -
  have norm: "normalize_path D = D" using assms(1) by auto
  have no: "\<not> (JOB = g @ CHR ''/'' # rest \<and> parent_of g = Some D)" for g rest
  proof
    assume *: "JOB = g @ CHR ''/'' # rest \<and> parent_of g = Some D"
    then have "length D < length g" using parent_of_length by blast
    moreover have "take (length D) g = D"
    proof -
      from * have "CHR ''/'' \<in> set g"
        using assms(1) by (auto simp: parent_of_def rsplit_once_def split: if_splits)
      then obtain a b where "g = a @ CHR ''/'' # b" "CHR ''/'' \<notin> set b" by (metis split_list_last)
      then show ?thesis using * by (auto simp: parent_of_def)
    qed
    ultimately have "take (length D) (g @ CHR ''/'' # rest) = D" by simp
    then have "take (length D) JOB = D" using * by simp
    then show False using assms(1) by (auto simp: JOB_def)
  qed
  show "JOB \<in> durable_entries (sim_fsync_dir D s)" "durable_file_data (sim_fsync_dir D s) JOB = Some d"
    by (rule sim_fsync_dir_keeps [OF assms(2,3)]; use no assms(1) norm in auto)+
qed

lemma detects_no_src_sync: "mr_detected (mutation_no_src_sync seed)"
proof -
  have "JOB \<in> durable_entries (sync_leased_chain (run_renamed seed))
      \<and> durable_file_data (sync_leased_chain (run_renamed seed)) JOB = Some \<lparr>df_content = replicate 128 0x42\<rparr>"
    unfolding sync_leased_chain_def
    by (intro conjI leased_barrier_keeps_JOB) (simp_all add: run_renamed_simps run_synced_simps)
  then have "sim_exists JOB (crash (sync_leased_chain (run_renamed seed)))" by (simp add: crash_exists)
  then show ?thesis
    by (simp add: mutation_no_src_sync_def mutation_start_def Let_def case_prod_beta
        flip: run_start_def run_synced_def run_renamed_def)
qed

lemma detects_no_verification: "mr_detected (mutation_no_verification m seed)"
proof -
  let ?evil = "''ready/0000/evil.sqj''"
  have "sim_files (fsync_file ?evil (write_file ?evil (replicate 128 0) (fsync_file JOB (run_start seed)))) JOB \<noteq> None"
    "sim_files (fsync_file ?evil (write_file ?evil (replicate 128 0) (fsync_file JOB (run_start seed)))) ?evil \<noteq> None"
    by (simp_all add: fsync_file_def Let_def)
  then show ?thesis
    by (simp add: mutation_no_verification_def mutation_start_def Let_def case_prod_beta sim_exists_def
        flip: run_start_def)
qed

text \<open>The test kit's own checks are adequate: each of its seven mutations, every guard that is
  removed from the protocol, is detected, for every seed.\<close>

theorem every_mutation_detected: "mr_detected (run_mutation_test mutation seed)"
  by (cases mutation)
    (simp_all add: run_mutation_test_def detects_no_file_sync detects_no_dest_sync detects_no_src_sync
      detects_no_verification)

subsection \<open>The scenario\<close>

lemma scenario_enqueue_sim: "snd (snd (scenario_enqueue seed)) = run_synced seed"
  by (simp add: scenario_enqueue_def Let_def case_prod_beta run_synced_def run_start_def)

lemma rename_other:
  "p \<noteq> normalize_path src \<Longrightarrow> p \<noteq> normalize_path dest \<Longrightarrow>
     sim_files (snd (rename_noreplace src dest s)) p = sim_files s p"
  by (simp add: rename_noreplace_def Let_def split: option.split)

lemma rename_dirs:
  "p \<notin> sim_dirs (ensure_volatile_ancestors (normalize_path dest) s) \<Longrightarrow> p \<notin> sim_dirs s \<Longrightarrow>
     p \<notin> sim_dirs (snd (rename_noreplace src dest s))"
  by (simp add: rename_noreplace_def Let_def ensure_volatile_ancestors_def split: option.split)

lemma receipt_paths [simp]:
  "normalize_path ''receipts/bucket/0000'' = ''receipts/bucket/0000''"
  "normalize_path ''receipts/bucket/0000/job.rct'' = ''receipts/bucket/0000/job.rct''"
  "JOB \<noteq> ''receipts/bucket/0000/job.rct''"
  by (simp_all add: normalize_path_def JOB_def)

lemma not_receipt_dir:
  "JOB \<in> sim_dirs (create_dir ''receipts/bucket/0000'' s) \<longleftrightarrow> JOB \<in> sim_dirs s"
  "JOB \<in> sim_dirs (ensure_volatile_ancestors ''receipts/bucket/0000/job.rct'' s) \<longleftrightarrow> JOB \<in> sim_dirs s"
  by (simp_all add: create_dir_def ensure_volatile_ancestors_def parent_of_def rsplit_once_def Let_def JOB_def)

lemma not_leased_dir:
  "JOB \<in> sim_dirs (create_dir ''leased/boot/0/0000'' s) \<longleftrightarrow> JOB \<in> sim_dirs s"
  "JOB \<in> sim_dirs (ensure_volatile_ancestors LEASED_JOB s) \<longleftrightarrow> JOB \<in> sim_dirs s"
  by (simp_all add: dirs_of_leased dirs_of_LEASED_JOB) (simp_all add: JOB_def)

lemma not_exists_JOB: "\<not> sim_exists JOB s \<longleftrightarrow> sim_files s JOB = None \<and> JOB \<notin> sim_dirs s"
  by (auto simp: sim_exists_def)

lemma sync_leased_chain_volatile [simp]:
  "sim_files (sync_leased_chain s) = sim_files s" "sim_dirs (sync_leased_chain s) = sim_dirs s"
  by (simp_all add: sync_leased_chain_def)

lemma scenario_ack_sim:
  "\<not> sim_exists JOB s \<Longrightarrow> \<not> sim_exists JOB (snd (scenario_ack job oracle s))"
  by (auto simp: scenario_ack_def Let_def not_exists_JOB rename_other rename_dirs not_receipt_dir)

lemma scenario_claim_sim:
  assumes "sim_files s JOB = Some f" and "JOB \<notin> sim_dirs s"
    and "sim_files s LEASED_JOB = None" and "LEASED_JOB \<notin> sim_dirs s"
  shows "\<not> sim_exists JOB (snd (scenario_claim job oracle s))"
proof -
  let ?s = "snd (rename_noreplace JOB LEASED_JOB (create_dir ''leased/boot/0/0000'' s))"
  have "LEASED_JOB \<notin> sim_dirs (create_dir ''leased/boot/0/0000'' s)"
    using assms(4) by (simp add: dirs_of_leased) (simp add: LEASED_JOB_def)
  then have "sim_files ?s JOB = None"
    using assms(1,3) by (simp add: rename_noreplace_def)
  moreover have "JOB \<notin> sim_dirs ?s"
    using assms(2) by (intro rename_dirs) (simp_all add: not_leased_dir)
  ultimately have "\<not> sim_exists JOB (sim_fsync_dir ''ready/0000'' (sync_leased_chain ?s))"
    by (simp add: not_exists_JOB)
  moreover have "sim_exists JOB s" using assms(1) by (simp add: sim_exists_def)
  ultimately show ?thesis by (simp add: scenario_claim_def Let_def scenario_ack_sim)
qed

text \<open>The oracle's only job stays synced and is claimed at most once.\<close>

definition scenario_job_ok :: "id128 \<Rightarrow> Oracle \<Rightarrow> bool" where
  "scenario_job_ok job oracle \<longleftrightarrow> dom (oracle_jobs oracle) = {job}
     \<and> (\<exists>j. oracle_jobs oracle job = Some j \<and> oj_file_synced j \<and> oj_maximum_attempts j = 3
          \<and> (oj_state j = O_Ready \<and> oj_attempt j = 0 \<or> oj_attempt j = 1 \<and> oj_state j \<noteq> O_Ready))"

lemma ran_singleton: "j \<in> ran m \<Longrightarrow> dom m = {k} \<Longrightarrow> m k = Some j"
  by (auto simp: ran_def dom_def)

lemma scenario_enqueue_ok: "scenario_job_ok (fst (scenario_enqueue seed)) (fst (snd (scenario_enqueue seed)))"
  by (simp add: scenario_enqueue_def Let_def case_prod_beta scenario_job_ok_def oracle_defs)

lemma scenario_crash_ok: "scenario_job_ok job oracle \<Longrightarrow> scenario_job_ok job (record_crash oracle)"
  by (auto simp: scenario_job_ok_def record_crash_def crash_job_def Let_def dom_def)

lemma scenario_claim_ok: "scenario_job_ok job oracle \<Longrightarrow> scenario_job_ok job (fst (scenario_claim job oracle s))"
  by (auto simp: scenario_job_ok_def scenario_claim_def scenario_ack_def Let_def record_src_sync_def
      record_dest_sync_def record_claim_def claim_job_def record_ack_def resolve_job_def update_job_def)

text \<open>The scenario of the test kit succeeds for every seed, whether or not the crash is drawn:
  the oracle's invariants I1 and I9 hold, it knows exactly one job, and the simulated file
  has left its ready directory.\<close>

theorem scenario_holds:
  "run_scenario seed = \<lparr>sr_seed = seed, i1_holds = True, i9_holds = True, sr_oracle_jobs = 1, sr_sim_files = 0\<rparr>"
proof -
  obtain job o1 s1 where enq: "scenario_enqueue seed = (job, o1, s1)" by (cases "scenario_enqueue seed")
  have s1: "s1 = run_synced seed" and o1: "scenario_job_ok job o1"
    using scenario_enqueue_sim [of seed] scenario_enqueue_ok [of seed] by (simp_all add: enq)
  define crashes where "crashes = fst (next_bool (rng_new seed))"
  define p where "p = (if crashes then (record_crash o1, crash s1) else (o1, s1))"
  have o2: "scenario_job_ok job (fst p)" using o1 scenario_crash_ok by (simp add: p_def)
  have "\<exists>f. sim_files (snd p) JOB = Some f" "JOB \<notin> sim_dirs (snd p)"
    "sim_files (snd p) LEASED_JOB = None" "LEASED_JOB \<notin> sim_dirs (snd p)"
    unfolding p_def s1 by (auto simp: run_synced_simps crash_def)
  then have "\<not> sim_exists JOB (snd (scenario_claim job (fst p) (snd p)))"
    using scenario_claim_sim by blast
  moreover have "scenario_job_ok job (fst (scenario_claim job (fst p) (snd p)))"
    by (rule scenario_claim_ok [OF o2])
  moreover have "run_scenario seed = (let q = scenario_claim job (fst p) (snd p) in
      \<lparr>sr_seed = seed, i1_holds = check_i1 (fst q), i9_holds = check_i9 (fst q),
       sr_oracle_jobs = card (dom (oracle_jobs (fst q))), sr_sim_files = count_sim_files (snd q)\<rparr>)"
    by (simp add: run_scenario_def enq Let_def case_prod_beta p_def crashes_def)
  ultimately show ?thesis
    by (auto simp: Let_def scenario_job_ok_def check_i1_def check_i9_def i1_job_def count_sim_files_def
        dest!: ran_singleton)
qed

section \<open>The oracle and the protocol\<close>

fun protocol_state :: "OracleState \<Rightarrow> ProtocolState" where
  "protocol_state O_Hidden = PS_Hidden"
| "protocol_state O_Ready = PS_Ready"
| "protocol_state O_Leased = PS_Leased"
| "protocol_state O_Delayed = PS_Delayed"
| "protocol_state O_Dead = PS_Dead"
| "protocol_state O_Receipt = PS_Receipt"
| "protocol_state O_Quarantine = PS_Quarantine"

definition abs_job :: "OracleJob \<Rightarrow> ProtocolState \<times> CommonFields" where
  "abs_job j = (protocol_state (oj_state j),
     \<lparr>job_id = oj_job_id j, generation = oj_generation j, attempt = oj_attempt j,
      maximum_attempts = oj_maximum_attempts j\<rparr>)"

text \<open>What the protocol table makes of a job: the operation moves it along its row, with the next identity,
  if the row starts in the job's state, and leaves it alone otherwise.\<close>

definition table_move :: "Operation \<Rightarrow> ProtocolState \<times> CommonFields \<Rightarrow> ProtocolState \<times> CommonFields" where
  "table_move operation p =
     (if fst p = td_source (transition operation)
      then case next_common_fields operation (snd p) of
             Inr c \<Rightarrow> (td_destination (transition operation), c)
           | Inl _ \<Rightarrow> p
      else p)"

lemma protocol_state_eq [simp]:
  "protocol_state s = PS_Ready \<longleftrightarrow> s = O_Ready" "protocol_state s = PS_Leased \<longleftrightarrow> s = O_Leased"
  by (cases s; simp)+

lemma checked_inc: "w \<noteq> -1 \<Longrightarrow> checked_add w 1 = Some (w + 1)" for w :: "'a::len word"
proof -
  assume w: "w \<noteq> -1"
  have "unat w + 1 \<noteq> 2 ^ LENGTH('a)"
  proof
    assume "unat w + 1 = 2 ^ LENGTH('a)"
    then have "word_of_nat (unat w + 1) = (0 :: 'a word)" by simp
    then have "w + 1 = 0" by (simp add: add.commute)
    with w show False by (simp add: eq_neg_iff_add_eq_0)
  qed
  then have "unat w + 1 < 2 ^ LENGTH('a)" using unsigned_less [of w, where ?'a = nat] by linarith
  then show ?thesis by (simp add: checked_add_eq_Some_iff unat_word_ariths)
qed

text \<open>C26. The oracle follows the protocol table. Recording a claim, an acknowledgement, a retry or a bury
  moves a job exactly when the row of that operation starts in the job's state, and then to the state
  and the identity (generation and attempt) of the row; every other job, and a job in any other state,
  stays as it is.\<close>

theorem oracle_follows_table:
  assumes "\<And>j. oracle_get jid oracle = Some j \<Longrightarrow> oj_generation j \<noteq> -1 \<and> oj_attempt j \<noteq> -1"
  shows "map_option abs_job (oracle_get i (record_claim jid token oracle))
      = map_option (if i = jid then table_move Op_Claim else id) (map_option abs_job (oracle_get i oracle))
    \<and> map_option abs_job (oracle_get i (record_ack jid oracle))
      = map_option (if i = jid then table_move Op_Acknowledge else id) (map_option abs_job (oracle_get i oracle))
    \<and> map_option abs_job (oracle_get i (record_retry jid oracle))
      = map_option (if i = jid then table_move Op_RetryNow else id) (map_option abs_job (oracle_get i oracle))
    \<and> map_option abs_job (oracle_get i (record_bury jid oracle))
      = map_option (if i = jid then table_move Op_Bury else id) (map_option abs_job (oracle_get i oracle))"
  using assms
  by (auto simp: oracle_get_def record_claim_def claim_job_def record_ack_def record_retry_def record_bury_def resolve_job_def
      update_job_def abs_job_def table_move_def transition_rows next_common_fields_def result_simps checked_inc
      option.map_ident id_def split: option.splits)

theorem oracle_follows_table_witness:
  "map_option abs_job (oracle_get (arr_of []) (record_claim (arr_of []) (arr_of []) (record_publish (arr_of []) True (record_enqueue (arr_of []) 3 oracle_new))))
    = Some (PS_Leased, \<lparr>job_id = arr_of [], generation = 1, attempt = 1, maximum_attempts = 3\<rparr>)"
proof -
  let ?o = "record_publish (arr_of []) True (record_enqueue (arr_of []) 3 oracle_new)"
  have j: "oracle_get (arr_of []) ?o = Some \<lparr>oj_job_id = arr_of [], oj_state = O_Ready, oj_generation = 0, oj_attempt = 0,
      oj_maximum_attempts = 3, oj_token = None, oj_file_synced = False, oj_dest_dir_synced = False, oj_src_dir_synced = False\<rparr>"
    by (simp add: oracle_get_def record_publish_def publish_job_def record_enqueue_def update_job_def)
  have "table_move Op_Claim (PS_Ready, \<lparr>job_id = arr_of [], generation = 0, attempt = 0, maximum_attempts = 3\<rparr>)
      = (PS_Leased, \<lparr>job_id = arr_of [], generation = 1, attempt = 1, maximum_attempts = 3\<rparr>)"
    by (simp add: table_move_def transition_rows next_common_fields_def result_simps checked_inc)
  then show ?thesis
    using conjunct1 [OF oracle_follows_table [of "arr_of []" ?o "arr_of []" "arr_of []"]] by (simp add: j abs_job_def)
qed

text \<open>A crash rolls back an unsynced ready or leased job, but leaves an unsynced delayed job
  visible, although nothing of it was made durable.\<close>

lemma crash_keeps_unsynced_delayed:
  "oj_state job = O_Delayed \<Longrightarrow> oj_state (crash_job job) = O_Delayed"
  "oj_state job = O_Ready \<Longrightarrow> \<not> oj_file_synced job \<Longrightarrow> oj_state (crash_job job) = O_Hidden"
  "oj_state job = O_Leased \<Longrightarrow> \<not> oj_file_synced job \<Longrightarrow> oj_state (crash_job job) = O_Hidden"
  by (simp_all add: crash_job_def Let_def)

text \<open>A barrier on a directory makes the directory itself durable, without a barrier on its
  parent.\<close>

lemma fsync_dir_commits_itself:
  assumes "normalized D" and "D \<in> sim_dirs s"
  shows "sim_exists D (crash (sim_fsync_dir D s))"
proof -
  let ?s = "s\<lparr>durable_dirs := insert D (durable_dirs s), durable_entries := insert D (durable_entries s)\<rparr>"
  have "D \<notin> durable_descendants g ?s" if "parent_of g = Some D" for g
  proof
    assume "D \<in> durable_descendants g ?s"
    then obtain rest where "D = (g @ ''/'') @ rest"
      using strip_prefix_iff [of "g @ ''/''" D] by (auto simp: durable_descendants_def split: if_splits)
    then have "length g \<le> length D" by simp
    then show False using parent_of_length [OF that] by simp
  qed
  then have "D \<in> durable_dirs (sim_fsync_dir D s)"
    using assms
    by (auto simp: sim_fsync_dir_def normalized_def Let_def commit_children_def drop_stale_def stale_children_def)
  then show ?thesis using assms(1) by (simp add: sim_exists_def normalized_def crash_def)
qed

text \<open>An unsynced file can survive with the content of an earlier file of the same name: the
  durable data is kept by path, and a barrier keeps it as long as the name is in use.\<close>

lemma stale_data_resurrected:
  assumes "normalized p" and "parent_of p = Some D" and "D \<in> sim_dirs s" and "p \<notin> sim_dirs s"
    and "sim_files s p = Some f" and "\<not> sf_data_synced f" and "durable_file_data s p = Some d"
  shows "read_file p (crash (sim_fsync_dir D s)) = Some (df_content d)"
proof -
  have D: "normalize_path D = D" using normalized_parent [OF assms(1,2)] by (simp add: normalized_def)
  have "p \<in> live_children D (s\<lparr>durable_dirs := A, durable_entries := B\<rparr>)" for A B
    using assms(2,5) by (auto simp: live_children_def)
  moreover have "p \<notin> durable_descendants g (s\<lparr>durable_dirs := A, durable_entries := B\<rparr>)"
    if "parent_of g = Some D" for g A B
  proof
    assume "p \<in> durable_descendants g (s\<lparr>durable_dirs := A, durable_entries := B\<rparr>)"
    then obtain rest where p: "p = (g @ ''/'') @ rest"
      using strip_prefix_iff [of "g @ ''/''" p] by (auto simp: durable_descendants_def split: if_splits)
    then have "length g \<le> length D"
    proof (cases "CHR ''/'' \<in> set rest")
      case True
      then obtain a b where "rest = a @ CHR ''/'' # b" "CHR ''/'' \<notin> set b" by (metis split_list_last)
      then have "p = (g @ ''/'' @ a) @ CHR ''/'' # b" using p by simp
      then show ?thesis using assms(2) \<open>CHR ''/'' \<notin> set b\<close> rsplit_once_append [of "CHR ''/''" b "g @ ''/'' @ a"]
        by (auto simp: parent_of_def)
    next
      case False
      then show ?thesis using assms(2) p by (auto simp: parent_of_def)
    qed
    then show False using parent_of_length [OF that] by simp
  qed
  ultimately show ?thesis
    using assms D
    by (auto simp: read_file_def normalized_def crash_files sim_fsync_dir_def Let_def commit_children_def
        drop_stale_def stale_children_def)
qed

end
