(* ===== verification/Steadq_Verified.thy ===== *)
theory Steadq_Verified
  imports Steadq_Engine Steadq_Format
begin

text \<open>
  The object verifier of \<^verbatim>\<open>src/crates/steadq-core/src/queue/verified.rs\<close>: job envelopes, payloads and
  receipts checked on an open descriptor. SHA-256 is the argument \<open>sha\<close>; the streaming hasher of
  the third-party crate digests the concatenation of its updates. Duplicating a descriptor is the
  library's \<^verbatim>\<open>try_clone_to_owned\<close>, an argument as in the move engine.

  The texts of the errors of the format and name crates are the ones their \<^verbatim>\<open>#[error(...)]\<close>
  attributes give.

  The lemmas show that verifying a job on a descriptor decides exactly what the in-memory envelope
  validation decides on the file's bytes, however the kernel splits the reads, and what an accepted
  receipt proves about its name, its place and the operation it records.
\<close>

subsection \<open>Texts of errors\<close>

definition int_text :: "int \<Rightarrow> string" where
  "int_text n = (if n < 0 then ''-'' @ decimal (nat (- n)) else decimal (nat n))"

definition version_text :: "u16 \<Rightarrow> u16 \<Rightarrow> string" where
  "version_text major minor = ''unsupported version '' @ decimal (unat major) @ ''.'' @ decimal (unat minor)"

definition wrong_size_text :: "nat \<Rightarrow> nat \<Rightarrow> string" where
  "wrong_size_text expected actual = ''wrong size: expected '' @ decimal expected @ '', got '' @ decimal actual"

fun header_error_text :: "HeaderError \<Rightarrow> string" where
  "header_error_text HE_BadMagic = ''magic mismatch''"
| "header_error_text (HE_UnsupportedVersion a b) = version_text a b"
| "header_error_text HE_NonzeroFlags = ''nonzero flags''"
| "header_error_text (HE_DigestAlgoMismatch a) = ''digest algorithm mismatch: '' @ decimal (unat a)"
| "header_error_text HE_NonzeroReserved = ''nonzero reserved bytes''"
| "header_error_text (HE_WrongSize e a) = wrong_size_text e a"
| "header_error_text HE_PayloadTooLarge = ''payload length exceeds maximum''"
| "header_error_text HE_ExtensionTooLarge = ''extension header exceeds maximum''"
| "header_error_text HE_ZeroMaxAttempts = ''maximum_attempts is zero''"
| "header_error_text HE_EnvelopeDigestMismatch = ''envelope digest mismatch''"
| "header_error_text HE_ExtensionDigestMismatch = ''envelope digest mismatch in extension''"
| "header_error_text HE_ExtensionLengthMismatch =
     ''extension_header_length does not match actual extension bytes''"

fun receipt_error_text :: "ReceiptError \<Rightarrow> string" where
  "receipt_error_text RE_BadMagic = ''magic mismatch''"
| "receipt_error_text (RE_UnsupportedVersion a b) = version_text a b"
| "receipt_error_text RE_DigestMismatch = ''digest mismatch''"
| "receipt_error_text (RE_WrongSize e a) = wrong_size_text e a"

fun parse_error_text :: "ParseError \<Rightarrow> string" where
  "parse_error_text BadExtension = ''invalid extension''"
| "parse_error_text (MissingField f) = ''missing field '' @ f"
| "parse_error_text (BadHex f) = ''invalid hex field '' @ f"
| "parse_error_text Malformed = ''malformed filename''"
| "parse_error_text NonAscii = ''non-ASCII byte in filename''"

subsection \<open>Errors and results\<close>

datatype VerificationError =
    Verify_Io string
  | Verify_Corrupt string
  | Verify_PayloadCorrupt

fun verification_error_text :: "VerificationError \<Rightarrow> string" where
  "verification_error_text (Verify_Io s) = ''I/O: '' @ s"
| "verification_error_text (Verify_Corrupt s) = ''corrupt: '' @ s"
| "verification_error_text Verify_PayloadCorrupt = ''payload corrupt''"

fun error_from_verification :: "VerificationError \<Rightarrow> Error" where
  "error_from_verification (Verify_Io s) = IoFailure s"
| "error_from_verification (Verify_Corrupt s) = QueueCorrupt s"
| "error_from_verification Verify_PayloadCorrupt = PayloadCorrupt"

definition file_size :: "Stat \<Rightarrow> VerificationError + u64" where
  "file_size stat =
     (if st_size stat < 0 then Err (Verify_Corrupt (''negative file size: '' @ int_text (st_size stat)))
      else Ok (word_of_int (st_size stat)))"

definition checked_total_size :: "nat \<Rightarrow> u64 \<Rightarrow> VerificationError + u64" where
  "checked_total_size ext_len payload_length =
     res_bind (ok_or (checked_add 128 (word_of_nat ext_len)) (Verify_Corrupt ''size overflow'')) (\<lambda>header_ext.
       ok_or (checked_add header_ext payload_length) (Verify_Corrupt ''size overflow''))"

record VerifiedJob =
  vj_fd :: fd
  vj_header :: FixedHeader
  vj_extension :: bytes
  vj_device :: u64
  vj_inode :: u64
  vj_size :: u64

definition vj_identity_matches :: "VerifiedJob \<Rightarrow> Stat \<Rightarrow> bool" where
  "vj_identity_matches job stat = (st_dev stat = vj_device job \<and> st_ino stat = vj_inode job)"

record ReceiptContext =
  ctx_queue_id :: id128
  ctx_shard_count :: u32
  ctx_terminal_bucket_width_ns :: u64
  ctx_max_payload_length :: u64
  ctx_bucket :: string
  ctx_shard :: string
  ctx_filename :: string

record ExpectedReceipt =
  exp_common :: CommonFields
  exp_token :: id128
  exp_envelope_digest :: digest
  exp_payload_length :: u64

datatype VerifiedReceiptKind = Kind_Full VerifiedJob | Kind_Compact

record VerifiedReceipt =
  vr_name :: ReceiptName
  vr_bucket_number :: u64
  vr_kind :: VerifiedReceiptKind
  vr_device :: u64
  vr_inode :: u64

definition receipt_read_open_flags :: int where
  "receipt_read_open_flags = O_RDONLY + O_CLOEXEC + O_NOFOLLOW + O_NONBLOCK"

definition receipt_write_open_flags :: int where
  "receipt_write_open_flags = O_RDWR + O_CLOEXEC + O_NOFOLLOW"

definition receipt_path_identity_matches :: "Stat \<Rightarrow> u64 \<Rightarrow> u64 \<Rightarrow> bool" where
  "receipt_path_identity_matches stat device inode = (st_dev stat = device \<and> st_ino stat = inode)"

definition receipt_attempt_is_valid :: "u32 \<Rightarrow> u32 \<Rightarrow> bool" where
  "receipt_attempt_is_valid att max_att =
     (if max_att = 0 then False else if att = 0 then False else att \<le> max_att)"

definition is_compact_receipt :: "u64 \<Rightarrow> bytes \<Rightarrow> bool" where
  "is_compact_receipt fsize record =
     (if fsize \<noteq> word_of_nat COMPACT_RECEIPT_SIZE then False
      else slice 0 (length RECEIPT_MAGIC) record = RECEIPT_MAGIC)"

definition payload_length_is_allowed :: "u64 \<Rightarrow> u64 \<Rightarrow> bool" where
  "payload_length_is_allowed payload_length limit = (payload_length \<le> limit)"

definition compact_path_fields_match :: "CompactReceipt \<Rightarrow> ReceiptName \<Rightarrow> u64 \<Rightarrow> bool" where
  "compact_path_fields_match c n bucket_start =
     (cr_job_id c = job_id (rc_common n) \<and> cr_lease_token c = rc_token n
      \<and> cr_final_attempt c = attempt (rc_common n) \<and> cr_receipt_bucket_start_unix_ns c = bucket_start)"

definition expected_name_matches :: "ReceiptName \<Rightarrow> ExpectedReceipt \<Rightarrow> bool" where
  "expected_name_matches n expected = (rc_common n = exp_common expected \<and> rc_token n = exp_token expected)"

definition compact_evidence_matches :: "CompactReceipt \<Rightarrow> ExpectedReceipt \<Rightarrow> bool" where
  "compact_evidence_matches c expected =
     (cr_envelope_digest c = exp_envelope_digest expected
      \<and> cr_original_payload_length c = exp_payload_length expected)"

definition full_path_fields_match :: "FixedHeader \<Rightarrow> ReceiptName \<Rightarrow> bool" where
  "full_path_fields_match h n =
     (hdr_job_id h = job_id (rc_common n) \<and> hdr_maximum_attempts h = maximum_attempts (rc_common n))"

definition full_evidence_matches :: "FixedHeader \<Rightarrow> ExpectedReceipt \<Rightarrow> bool" where
  "full_evidence_matches h expected =
     (hdr_envelope_digest h = exp_envelope_digest expected
      \<and> hdr_payload_length h = exp_payload_length expected)"

definition is_payload_digest_match :: "FixedHeader \<Rightarrow> digest \<Rightarrow> bool" where
  "is_payload_digest_match h computed = (hdr_payload_digest h = computed)"

definition is_envelope_digest_valid :: "sha256 \<Rightarrow> FixedHeader \<Rightarrow> bytes \<Rightarrow> bool" where
  "is_envelope_digest_valid sha h ext = verify_envelope_digest sha h ext"

definition is_extension_too_large :: "nat \<Rightarrow> bool" where
  "is_extension_too_large ext_len = (ext_len > 65536)"

definition is_extension_present :: "nat \<Rightarrow> bool" where
  "is_extension_present ext_len = (ext_len > 0)"

definition is_size_mismatch :: "u64 \<Rightarrow> u64 \<Rightarrow> bool" where
  "is_size_mismatch expected actual = (expected \<noteq> actual)"

subsection \<open>Verifying on a descriptor\<close>

definition io_verify :: "('s, IoError + 'a) sysproc \<Rightarrow> ('s, VerificationError + 'a) sysproc" where
  "io_verify m = io_map_err (\<lambda>e. Verify_Io (io_text e)) m"

definition read_error :: "IoError \<Rightarrow> VerificationError" where
  "read_error e =
     (if io_kind e = Kind_UnexpectedEof then Verify_Corrupt ''object is shorter than its envelope''
      else Verify_Io (io_text e))"

definition read_and_verify_header :: "'s os \<Rightarrow> fd \<Rightarrow> ('s, VerificationError + FixedHeader) sysproc" where
  "read_and_verify_header k fd =
     io_try (io_map_err read_error (pread_exact k fd 128 0)) (\<lambda>header_buf.
     io_try (io_return (map_err (\<lambda>e. Verify_Corrupt (''header decode: '' @ header_error_text e))
               (header_decode header_buf))) (\<lambda>h.
       if is_extension_too_large (unat (hdr_extension_header_length h))
       then io_return (Err (Verify_Corrupt ''extension header too large''))
       else io_return (Ok h)))"

definition read_extension :: "'s os \<Rightarrow> fd \<Rightarrow> nat \<Rightarrow> ('s, VerificationError + bytes) sysproc" where
  "read_extension k fd ext_len =
     (if is_extension_present ext_len then io_map_err read_error (pread_exact k fd ext_len 128)
      else io_return (Ok (replicate ext_len 0)))"

definition verify_size :: "'s os \<Rightarrow> fd \<Rightarrow> FixedHeader \<Rightarrow> nat \<Rightarrow> ('s, VerificationError + Stat) sysproc" where
  "verify_size k fd h ext_len =
     io_try (io_verify (fstat k fd)) (\<lambda>stat.
     io_try (io_return (file_size stat)) (\<lambda>actual_size.
     io_try (io_return (checked_total_size ext_len (hdr_payload_length h))) (\<lambda>expected_size.
       if is_size_mismatch expected_size actual_size
       then io_return (Err (Verify_Corrupt (''file size mismatch: expected '' @ decimal (unat expected_size)
              @ '', got '' @ int_text (st_size stat))))
       else io_return (Ok stat))))"

partial_function (option) hash_payload_loop ::
  "'s os \<Rightarrow> fd \<Rightarrow> nat \<Rightarrow> bytes \<Rightarrow> u64 \<Rightarrow> nat \<Rightarrow> 's world
     \<Rightarrow> ((VerificationError + bytes) \<times> 's world) option" where
  "hash_payload_loop k fd buf_size hashed offset remaining w =
     (if remaining > 0 then
        (case io_verify (pread k fd (min remaining buf_size) offset) w of
           None \<Rightarrow> None
         | Some (Inl e, w') \<Rightarrow> Some (Err e, w')
         | Some (Inr bs, w') \<Rightarrow>
             if bs = [] then Some (Err (Verify_Corrupt ''unexpected EOF''), w')
             else hash_payload_loop k fd buf_size (hashed @ bs) (offset + word_of_nat (length bs))
                    (remaining - length bs) w')
      else Some (Ok hashed, w))"

definition verify_payload ::
  "sha256 \<Rightarrow> 's os \<Rightarrow> fd \<Rightarrow> FixedHeader \<Rightarrow> nat \<Rightarrow> ('s, VerificationError + unit) sysproc" where
  "verify_payload sha k fd h ext_len =
     (let data_offset = word_of_nat (128 + ext_len);
          remaining = unat (hdr_payload_length h);
          buf_size = min (max remaining 1) 65536
      in io_try (hash_payload_loop k fd buf_size [] data_offset remaining) (\<lambda>hashed.
           if \<not> is_payload_digest_match h (sha hashed) then io_return (Err Verify_PayloadCorrupt)
           else io_return (Ok ())))"

definition verify_envelope_on_fd ::
  "sha256 \<Rightarrow> 's os \<Rightarrow> (fd \<Rightarrow> ('s, IoError + fd) sysproc) \<Rightarrow> fd \<Rightarrow> ('s, VerificationError + VerifiedJob) sysproc" where
  "verify_envelope_on_fd sha k try_clone_to_owned fd =
     io_try (io_verify (try_clone_to_owned fd)) (\<lambda>owned.
     io_try (read_and_verify_header k fd) (\<lambda>h.
     io_try (verify_size k fd h (unat (hdr_extension_header_length h))) (\<lambda>stat.
     io_try (read_extension k fd (unat (hdr_extension_header_length h))) (\<lambda>ext.
       if \<not> verify_envelope_digest sha h ext
       then io_return (Err (Verify_Corrupt ''envelope digest mismatch''))
       else io_try (io_return (file_size stat)) (\<lambda>fsize.
         io_return (Ok \<lparr>vj_fd = owned, vj_header = h, vj_extension = ext, vj_device = st_dev stat,
                        vj_inode = st_ino stat, vj_size = fsize\<rparr>))))))"

definition verify_job_on_fd ::
  "sha256 \<Rightarrow> 's os \<Rightarrow> (fd \<Rightarrow> ('s, IoError + fd) sysproc) \<Rightarrow> fd \<Rightarrow> ('s, VerificationError + VerifiedJob) sysproc" where
  "verify_job_on_fd sha k try_clone_to_owned fd =
     io_try (verify_envelope_on_fd sha k try_clone_to_owned fd) (\<lambda>job.
     io_try (verify_payload sha k fd (vj_header job) (length (vj_extension job))) (\<lambda>_.
       io_return (Ok job)))"

subsection \<open>Receipts\<close>

text \<open>The checks on the descriptor's attributes, then those on the name and its place.\<close>

definition receipt_file_check :: "Stat \<Rightarrow> VerificationError + u64" where
  "receipt_file_check stat =
     (if st_mode stat AND S_IFMT \<noteq> S_IFREG then Err (Verify_Corrupt ''receipt is not a regular file'')
      else if st_nlink stat \<noteq> 1
      then Err (Verify_Corrupt (''receipt link count is '' @ decimal (unat (st_nlink stat)) @ '', expected 1''))
      else if st_size stat < 0 then Err (Verify_Corrupt ''receipt has a negative file size'')
      else Ok (word_of_int (st_size stat)))"

definition receipt_path_check ::
  "sha256 \<Rightarrow> ReceiptContext \<Rightarrow> ExpectedReceipt option \<Rightarrow> VerificationError + ReceiptName \<times> u64 \<times> u64" where
  "receipt_path_check sha ctx expected =
     res_bind (map_err (\<lambda>e. Verify_Corrupt (''receipt filename: '' @ parse_error_text e))
                 (parse_receipt (ctx_filename ctx))) (\<lambda>n.
     if \<not> receipt_attempt_is_valid (attempt (rc_common n)) (maximum_attempts (rc_common n))
     then Err (Verify_Corrupt ''receipt attempt fields are invalid'')
     else if \<not> receipt_authenticate_tag sha n (ctx_queue_id ctx) (ctx_bucket ctx) (ctx_shard ctx)
     then Err (Verify_Corrupt ''receipt name tag mismatch'')
     else res_bind (ok_or (shard_from_hex (ctx_shard ctx)) (Verify_Corrupt ''receipt shard is invalid'')) (\<lambda>path_shard.
     if path_shard \<noteq> compute_shard sha (ctx_queue_id ctx) (job_id (rc_common n)) (ctx_shard_count ctx)
     then Err (Verify_Corrupt ''receipt shard placement mismatch'')
     else res_bind (ok_or (bucket_from_hex (ctx_bucket ctx)) (Verify_Corrupt ''receipt bucket is invalid'')) (\<lambda>bucket.
     res_bind (ok_or (checked_mul bucket (ctx_terminal_bucket_width_ns ctx))
                 (Verify_Corrupt ''receipt bucket start overflows'')) (\<lambda>bucket_start.
     case expected of
       Some e \<Rightarrow> if \<not> expected_name_matches n e
                 then Err (Verify_Corrupt ''receipt operation identity mismatch'')
                 else Ok (n, bucket, bucket_start)
     | None \<Rightarrow> Ok (n, bucket, bucket_start)))))"

definition compact_receipt_check ::
  "sha256 \<Rightarrow> ReceiptContext \<Rightarrow> ExpectedReceipt option \<Rightarrow> ReceiptName \<Rightarrow> u64 \<Rightarrow> bytes \<Rightarrow> VerificationError + unit" where
  "compact_receipt_check sha ctx expected n bucket_start record =
     res_bind (map_err (\<lambda>e. Verify_Corrupt (''compact receipt decode: '' @ receipt_error_text e))
                 (receipt_decode sha record)) (\<lambda>c.
     if \<not> compact_path_fields_match c n bucket_start
     then Err (Verify_Corrupt ''compact receipt semantics do not match its path'')
     else if \<not> payload_length_is_allowed (cr_original_payload_length c) (ctx_max_payload_length ctx)
     then Err (Verify_Corrupt ''compact receipt payload length exceeds queue limit'')
     else case expected of
       Some e \<Rightarrow> if \<not> compact_evidence_matches c e
                 then Err (Verify_Corrupt ''compact receipt evidence mismatch'') else Ok ()
     | None \<Rightarrow> Ok ())"

definition full_receipt_check ::
  "ReceiptContext \<Rightarrow> ExpectedReceipt option \<Rightarrow> ReceiptName \<Rightarrow> FixedHeader \<Rightarrow> VerificationError + unit" where
  "full_receipt_check ctx expected n h =
     (if \<not> full_path_fields_match h n
      then Err (Verify_Corrupt ''full receipt header does not match its path'')
      else if \<not> payload_length_is_allowed (hdr_payload_length h) (ctx_max_payload_length ctx)
      then Err (Verify_Corrupt ''full receipt payload length exceeds queue limit'')
      else case expected of
        Some e \<Rightarrow> if \<not> full_evidence_matches h e
                  then Err (Verify_Corrupt ''full receipt evidence mismatch'') else Ok ()
      | None \<Rightarrow> Ok ())"

definition receipt_record_error :: "IoError \<Rightarrow> VerificationError" where
  "receipt_record_error e =
     (if io_kind e = Kind_UnexpectedEof then Verify_Corrupt ''receipt is shorter than its fixed record''
      else Verify_Io (io_text e))"

definition verify_receipt_on_fd ::
  "sha256 \<Rightarrow> 's os \<Rightarrow> (fd \<Rightarrow> ('s, IoError + fd) sysproc) \<Rightarrow> fd \<Rightarrow> ReceiptContext \<Rightarrow> ExpectedReceipt option
     \<Rightarrow> ('s, VerificationError + VerifiedReceipt) sysproc" where
  "verify_receipt_on_fd sha k try_clone_to_owned fd ctx expected =
     io_try (io_verify (fstat k fd)) (\<lambda>stat.
     io_try (io_return (receipt_file_check stat)) (\<lambda>fsize.
     io_try (io_return (receipt_path_check sha ctx expected)) (\<lambda>(n, bucket, bucket_start).
     io_try (io_map_err receipt_record_error (pread_exact k fd COMPACT_RECEIPT_SIZE 0)) (\<lambda>record.
     io_try
       (if is_compact_receipt fsize record
        then io_try (io_return (compact_receipt_check sha ctx expected n bucket_start record)) (\<lambda>_.
               io_return (Ok Kind_Compact))
        else io_try (verify_envelope_on_fd sha k try_clone_to_owned fd) (\<lambda>job.
               io_try (io_return (full_receipt_check ctx expected n (vj_header job))) (\<lambda>_.
               io_try (verify_payload sha k fd (vj_header job) (length (vj_extension job))) (\<lambda>_.
                 io_return (Ok (Kind_Full job))))))
       (\<lambda>kind. io_return (Ok \<lparr>vr_name = n, vr_bucket_number = bucket, vr_kind = kind,
                              vr_device = st_dev stat, vr_inode = st_ino stat\<rparr>))))))"

subsection \<open>A job file that does not change\<close>

text \<open>
  What the kernel promises of a descriptor of an unchanging regular file: reads deliver its bytes,
  with finitely many interruptions, and its attributes are constant and give its length, which
  fits a signed 64-bit size. Duplicating the descriptor succeeds and changes nothing else.
\<close>

definition stable_file :: "'s os \<Rightarrow> fd \<Rightarrow> bytes \<Rightarrow> Stat \<Rightarrow> ('s \<Rightarrow> nat) \<Rightarrow> bool" where
  "stable_file k fd data stat pending \<longleftrightarrow>
     reader_progress k fd data pending \<and> (\<forall>s. \<exists>s'. sys_fstat k fd s = (Inr stat, s'))
     \<and> st_size stat = int (length data) \<and> length data < 2 ^ 63"

definition clones :: "(fd \<Rightarrow> ('s, IoError + fd) sysproc) \<Rightarrow> fd \<Rightarrow> bool" where
  "clones try_clone_to_owned fd \<longleftrightarrow>
     (\<forall>w. \<exists>fd' s'. try_clone_to_owned fd w = Some (Ok fd', w\<lparr>os_state := s'\<rparr>))"

definition idle :: "'s world \<Rightarrow> bool" where
  "idle w \<longleftrightarrow> \<not> flt_tracking (fault_state w)"

lemma idle_os_state [simp]: "idle (w\<lparr>os_state := s\<rparr>) = idle w"
  by (simp add: idle_def)

lemma idle_idle_world [simp]: "idle (idle_world s)"
  by (simp add: idle_def idle_world_def fault_state_new_def)

lemma stable_fileD:
  assumes "stable_file k fd data stat pending"
  shows "reader_progress k fd data pending" "\<exists>s'. sys_fstat k fd s = (Inr stat, s')"
    "st_size stat = int (length data)" "length data < 2 ^ 63"
  using assms by (simp_all add: stable_file_def)

lemma fstat_run:
  assumes "stable_file k fd data stat pending" and "idle w"
  shows "\<exists>s'. fstat k fd w = Some (Ok stat, w\<lparr>os_state := s'\<rparr>)"
  using stable_fileD(2) [OF assms(1), of "os_state w"] assms(2)
  by (auto simp: fstat_def fault_check_idle idle_def syscall_def)

lemma file_size_run:
  assumes "stable_file k fd data stat pending"
  shows "file_size stat = Ok (word_of_nat (length data))"
  using stable_fileD(3) [OF assms] by (simp add: file_size_def)

lemma header_decode_bounds:
  assumes "header_decode buf = Ok h"
  shows "unat (hdr_extension_header_length h) \<le> 65536" "hdr_payload_length h \<le> MAX_PAYLOAD_LENGTH"
    "length buf = 128"
proof -
  have "unat (hdr_extension_header_length h) < 2 ^ 64"
    by (rule order.strict_trans [OF unsigned_less]) simp
  then have u: "unat (ucast (hdr_extension_header_length h) :: u64) = unat (hdr_extension_header_length h)"
    by (simp add: unsigned_ucast_eq take_bit_nat_eq_self)
  have "MAX_EXTENSION_HEADER_LENGTH \<ge> ucast (hdr_extension_header_length h)"
    "hdr_payload_length h \<le> MAX_PAYLOAD_LENGTH" "length buf = 128"
    using assms by (auto simp: header_decode_def Let_def not_less split: if_splits)
  then show "unat (hdr_extension_header_length h) \<le> 65536" "hdr_payload_length h \<le> MAX_PAYLOAD_LENGTH"
    "length buf = 128"
    using u by (simp_all add: MAX_EXTENSION_HEADER_LENGTH_def word_le_nat_alt)
qed

lemma header_run:
  assumes "stable_file k fd data stat pending" and "idle w"
  shows "\<exists>s'. read_and_verify_header k fd w =
    Some (if length data < 128 then Err (Verify_Corrupt ''object is shorter than its envelope'')
          else map_err (\<lambda>e. Verify_Corrupt (''header decode: '' @ header_error_text e))
                 (header_decode (take 128 data)), w\<lparr>os_state := s'\<rparr>)"
proof -
  obtain s' where r: "pread_exact k fd 128 0 w =
      Some (if length data < 128 then Err (io_error_new Kind_UnexpectedEof ''pread hit EOF before filling buffer'')
            else Ok (take 128 data), w\<lparr>os_state := s'\<rparr>)"
    using pread_exact_run [OF stable_fileD(1) [OF assms(1)], of w 0 128] assms(2) by (auto simp: idle_def)
  show ?thesis
  proof (cases "length data < 128")
    case True
    then show ?thesis
      using r by (auto simp: read_and_verify_header_def io_try_def io_map_err_def read_error_def io_error_new_def
          intro!: exI [where x = s'])
  next
    case False
    show ?thesis
      using r False header_decode_bounds(1) [of "take 128 data"]
      by (cases "header_decode (take 128 data)")
        (auto simp: read_and_verify_header_def io_try_def io_map_err_def is_extension_too_large_def not_less
          intro!: exI [where x = s'])
  qed
qed

lemma total_size_run:
  assumes "header_decode buf = Ok h"
  shows "checked_total_size (unat (hdr_extension_header_length h)) (hdr_payload_length h) =
    Ok (word_of_nat (128 + unat (hdr_extension_header_length h) + unat (hdr_payload_length h)))"
proof -
  let ?e = "unat (hdr_extension_header_length h)" and ?p = "unat (hdr_payload_length h)"
  note b = header_decode_bounds [OF assms]
  have p: "?p < 2 ^ 40" using b(2) by (simp add: MAX_PAYLOAD_LENGTH_def word_le_nat_alt)
  have e: "unat (word_of_nat ?e :: u64) = ?e" by (rule u64_of_nat) (use b(1) in simp)
  have s: "unat (word_of_nat (128 + ?e) :: u64) = 128 + ?e" by (rule u64_of_nat) (use b(1) in simp)
  have 1: "checked_add (128 :: u64) (word_of_nat ?e) = Some (word_of_nat (128 + ?e))"
    unfolding checked_add_eq_Some_iff e s by simp
  have t: "unat (word_of_nat (128 + ?e + ?p) :: u64) = 128 + ?e + ?p"
    by (rule u64_of_nat) (use b(1) p in simp)
  have 2: "checked_add (word_of_nat (128 + ?e) :: u64) (hdr_payload_length h) = Some (word_of_nat (128 + ?e + ?p))"
    unfolding checked_add_eq_Some_iff s t ..
  show ?thesis unfolding checked_total_size_def 1 by (simp only: ok_or_simps res_bind_simps option.case 2)
qed

lemma size_run:
  assumes "stable_file k fd data stat pending" and "idle w" and "header_decode buf = Ok h"
  shows "\<exists>s' msg. verify_size k fd h (unat (hdr_extension_header_length h)) w =
    Some (if length data = 128 + unat (hdr_extension_header_length h) + unat (hdr_payload_length h)
          then Ok stat else Err (Verify_Corrupt msg), w\<lparr>os_state := s'\<rparr>)"
proof -
  let ?t = "128 + unat (hdr_extension_header_length h) + unat (hdr_payload_length h)"
  obtain s' where f: "fstat k fd w = Some (Ok stat, w\<lparr>os_state := s'\<rparr>)"
    using fstat_run [OF assms(1,2)] by blast
  have "length data < 2 ^ 64" using stable_fileD(4) [OF assms(1)] by simp
  moreover have "?t < 2 ^ 64"
    using header_decode_bounds [OF assms(3)] by (simp add: MAX_PAYLOAD_LENGTH_def word_le_nat_alt)
  ultimately have "(word_of_nat ?t :: u64) = word_of_nat (length data) \<longleftrightarrow> ?t = length data"
    by (metis u64_of_nat)
  then show ?thesis
    using f total_size_run [OF assms(3)] file_size_run [OF assms(1)]
    by (auto simp: verify_size_def io_try_def io_verify_def io_map_err_def is_size_mismatch_def
        intro!: exI [where x = s'])
qed

lemma extension_run:
  assumes "stable_file k fd data stat pending" and "idle w" and "128 + n \<le> length data"
  shows "\<exists>s'. read_extension k fd n w = Some (Ok (take n (drop 128 data)), w\<lparr>os_state := s'\<rparr>)"
proof (cases "n = 0")
  case True
  then show ?thesis
    by (auto simp: read_extension_def is_extension_present_def intro!: exI [where x = "os_state w"])
next
  case False
  have "128 + n < 2 ^ 64" using assms(3) stable_fileD(4) [OF assms(1)] by simp
  then obtain s' where "pread_exact k fd n 128 w = Some (Ok (take n (drop 128 data)), w\<lparr>os_state := s'\<rparr>)"
    using pread_exact_run [OF stable_fileD(1) [OF assms(1)], of w 128 n] assms(2,3)
    by (auto simp: idle_def)
  then show ?thesis
    using False by (auto simp: read_extension_def is_extension_present_def io_map_err_def intro!: exI [where x = s'])
qed

lemma hash_loop_run:
  assumes r: "reader_progress k fd data pending" and "idle w" and "0 < buf_size"
    and "unat offset + remaining \<le> length data" and "length data < 2 ^ 63"
  shows "\<exists>s'. hash_payload_loop k fd buf_size hashed offset remaining w =
    Some (Ok (hashed @ take remaining (drop (unat offset) data)), w\<lparr>os_state := s'\<rparr>)"
  using assms(2,4)
proof (induction remaining arbitrary: hashed offset w rule: less_induct)
  case (less remaining)
  show ?case
  proof (cases "remaining > 0")
    case False
    then show ?thesis
      by (auto simp: hash_payload_loop.simps [of k] intro!: exI [where x = "os_state w"])
  next
    case True
    let ?m = "min remaining buf_size"
    have m: "0 < ?m" using True assms(3) by simp
    obtain n s' where p: "pread_loop k fd ?m offset w = Some (Ok (take n (drop (unat offset) data)), w\<lparr>os_state := s'\<rparr>)"
      and n: "0 < n" "n \<le> ?m"
      using pread_loop_returns [OF r m] by blast
    let ?bs = "take n (drop (unat offset) data)"
    have step: "io_verify (pread k fd ?m offset) w = Some (Ok ?bs, w\<lparr>os_state := s'\<rparr>)"
      using p less.prems(1) by (simp add: pread_def fault_check_idle idle_def io_verify_def io_map_err_def)
    have len: "length ?bs = n" using n less.prems(2) by auto
    then have ne: "?bs \<noteq> []" using n by (metis less_irrefl list.size(3))
    have off: "unat (offset + word_of_nat n) = unat offset + n"
      using less.prems(2) assms(5) n by (simp add: unat_word_ariths unsigned_of_nat take_bit_nat_eq_self)
    have "remaining - n < remaining" "unat (offset + word_of_nat n) + (remaining - n) \<le> length data"
      using n less.prems(2) True unfolding off by simp_all
    from less.IH [OF this(1) _ this(2), of "w\<lparr>os_state := s'\<rparr>" "hashed @ ?bs"] less.prems(1)
    obtain s'' where ih: "hash_payload_loop k fd buf_size (hashed @ ?bs) (offset + word_of_nat n) (remaining - n)
        (w\<lparr>os_state := s'\<rparr>) = Some (Ok ((hashed @ ?bs) @ take (remaining - n) (drop (unat offset + n) data)),
          w\<lparr>os_state := s''\<rparr>)"
      unfolding off by auto
    have cat: "?bs @ take (remaining - n) (drop (unat offset + n) data) = take remaining (drop (unat offset) data)"
      using take_add [of n "remaining - n" "drop (unat offset) data"] n by (simp add: add.commute)
    have "hash_payload_loop k fd buf_size hashed offset remaining w =
        hash_payload_loop k fd buf_size (hashed @ ?bs) (offset + word_of_nat n) (remaining - n) (w\<lparr>os_state := s'\<rparr>)"
      using True step ne len by (simp add: hash_payload_loop.simps [of k fd buf_size hashed])
    then show ?thesis using ih cat by (simp only: append_assoc) blast
  qed
qed

lemma payload_run:
  assumes "stable_file k fd data stat pending" and "idle w" and "ext_len \<le> 65536"
    and "length data = 128 + ext_len + unat (hdr_payload_length h)"
  shows "\<exists>s'. verify_payload sha k fd h ext_len w =
    Some (if sha (drop (128 + ext_len) data) = hdr_payload_digest h then Ok () else Err Verify_PayloadCorrupt,
          w\<lparr>os_state := s'\<rparr>)"
proof -
  let ?r = "unat (hdr_payload_length h)"
  have off: "unat (word_of_nat (128 + ext_len) :: u64) = 128 + ext_len"
    by (rule u64_of_nat) (use assms(3) in simp)
  have "0 < min (max ?r 1) 65536" by simp
  moreover have "unat (word_of_nat (128 + ext_len) :: u64) + ?r \<le> length data" unfolding off using assms(4) by simp
  ultimately obtain s' where "hash_payload_loop k fd (min (max ?r 1) 65536) [] (word_of_nat (128 + ext_len)) ?r w
      = Some (Ok (take ?r (drop (128 + ext_len) data)), w\<lparr>os_state := s'\<rparr>)"
    using hash_loop_run [OF stable_fileD(1) [OF assms(1)] assms(2) _ _ stable_fileD(4) [OF assms(1)], of _ _ ?r "[]"] off
    by (metis append_Nil)
  moreover have "take ?r (drop (128 + ext_len) data) = drop (128 + ext_len) data" using assms(4) by simp
  ultimately show ?thesis
    by (auto simp: verify_payload_def Let_def io_try_def is_payload_digest_match_def intro!: exI [where x = s'])
qed

text \<open>The verdict of the descriptor-based verifier and that of the in-memory validation.\<close>

datatype verdict = Accepted FixedHeader bytes | Corrupted | PayloadCorrupted | Unreadable

fun job_verdict :: "VerificationError + VerifiedJob \<Rightarrow> verdict" where
  "job_verdict (Inr j) = Accepted (vj_header j) (vj_extension j)"
| "job_verdict (Inl (Verify_Corrupt _)) = Corrupted"
| "job_verdict (Inl Verify_PayloadCorrupt) = PayloadCorrupted"
| "job_verdict (Inl (Verify_Io _)) = Unreadable"

fun envelope_verdict :: "EnvelopeError + ValidatedEnvelope \<Rightarrow> verdict" where
  "envelope_verdict (Inr v) = Accepted (ve_header v) (ve_extension v)"
| "envelope_verdict (Inl EE_PayloadDigestMismatch) = PayloadCorrupted"
| "envelope_verdict (Inl _) = Corrupted"

definition fits :: "FixedHeader \<Rightarrow> bytes \<Rightarrow> bool" where
  "fits h data \<longleftrightarrow>
     length data = 128 + unat (hdr_extension_header_length h) + unat (hdr_payload_length h)"

lemma envelope_from_bytes_cases:
  assumes "length data < 2 ^ 63"
  shows "envelope_verdict (envelope_from_bytes sha data vp) =
    (if length data < 128 then Corrupted
     else case header_decode (take 128 data) of
       Inl _ \<Rightarrow> Corrupted
     | Inr h \<Rightarrow>
         let e = unat (hdr_extension_header_length h) in
         if \<not> fits h data \<or> \<not> verify_envelope_digest sha h (take e (drop 128 data)) then Corrupted
         else if vp \<and> sha (drop (128 + e) data) \<noteq> hdr_payload_digest h then PayloadCorrupted
         else Accepted h (take e (drop 128 data)))"
proof (cases "length data < 128")
  case False
  show ?thesis
  proof (cases "header_decode (take 128 data)")
    case (Inr h)
    have "128 + unat (hdr_extension_header_length h) + unat (hdr_payload_length h) < 2 ^ 64"
      using header_decode_bounds [OF Inr] by (simp add: MAX_PAYLOAD_LENGTH_def word_le_nat_alt)
    then show ?thesis
      using False Inr
      by (auto simp: envelope_from_bytes_def slice_def usize_checked_add_def Let_def fits_def
          payload_digest_def take_drop add.commute)
  qed (use False in \<open>simp add: envelope_from_bytes_def slice_def\<close>)
qed (simp add: envelope_from_bytes_def)

lemma envelope_run:
  assumes st: "stable_file k fd data stat pending" and "clones clone fd" and "idle w"
  shows "\<exists>r s'. verify_envelope_on_fd sha k clone fd w = Some (r, w\<lparr>os_state := s'\<rparr>)
    \<and> job_verdict r = envelope_verdict (envelope_from_bytes sha data False)
    \<and> (\<forall>j. r = Ok j \<longrightarrow> vj_device j = st_dev stat \<and> vj_inode j = st_ino stat
         \<and> vj_size j = word_of_nat (length data)
         \<and> fits (vj_header j) data
         \<and> vj_extension j = take (unat (hdr_extension_header_length (vj_header j))) (drop 128 data)
         \<and> unat (hdr_extension_header_length (vj_header j)) \<le> 65536)"
proof -
  note v = envelope_from_bytes_cases [OF stable_fileD(4) [OF st], of sha False]
  obtain fd' s0 where c: "clone fd w = Some (Ok fd', w\<lparr>os_state := s0\<rparr>)"
    using assms(2) unfolding clones_def by blast
  let ?w0 = "w\<lparr>os_state := s0\<rparr>"
  obtain s1 where h: "read_and_verify_header k fd ?w0 =
    Some (if length data < 128 then Err (Verify_Corrupt ''object is shorter than its envelope'')
          else map_err (\<lambda>e. Verify_Corrupt (''header decode: '' @ header_error_text e))
                 (header_decode (take 128 data)), w\<lparr>os_state := s1\<rparr>)"
    using header_run [OF st, of ?w0] assms(3) by auto
  let ?w1 = "w\<lparr>os_state := s1\<rparr>"
  note run = verify_envelope_on_fd_def io_try_def io_verify_def io_map_err_def
  show ?thesis
  proof (cases "length data < 128 \<or> (\<exists>e. header_decode (take 128 data) = Inl e)")
    case True
    then show ?thesis
      using c h v by (auto simp: run intro!: exI [where x = s1])
  next
    case False
    then obtain hd where hd: "header_decode (take 128 data) = Ok hd" and l: "\<not> length data < 128"
      by (cases "header_decode (take 128 data)") auto
    let ?e = "unat (hdr_extension_header_length hd)"
    note b = header_decode_bounds [OF hd]
    obtain s2 msg where sz: "verify_size k fd hd ?e ?w1 =
      Some (if fits hd data then Ok stat else Err (Verify_Corrupt msg), w\<lparr>os_state := s2\<rparr>)"
      using size_run [OF st _ hd, of ?w1] assms(3) unfolding fits_def by auto
    show ?thesis
    proof (cases "fits hd data")
      case False
      then show ?thesis
        using c h v hd l sz by (auto simp: run Let_def intro!: exI [where x = s2])
    next
      case fit: True
      then have "128 + ?e \<le> length data" by (simp add: fits_def)
      from extension_run [OF st _ this, of "w\<lparr>os_state := s2\<rparr>"] assms(3)
      obtain s3 where "read_extension k fd ?e (w\<lparr>os_state := s2\<rparr>) = Some (Ok (take ?e (drop 128 data)), w\<lparr>os_state := s3\<rparr>)"
        by auto
      then show ?thesis
        using c h v hd l sz fit file_size_run [OF st] b(1)
        by (auto simp: run Let_def intro!: exI [where x = s3])
    qed
  qed
qed

lemma verify_job_run:
  assumes "stable_file k fd data stat pending" and "clones clone fd" and "idle w"
  shows "\<exists>r w'. verify_job_on_fd sha k clone fd w = Some (r, w')
    \<and> job_verdict r = envelope_verdict (envelope_from_bytes sha data True)
    \<and> (\<forall>j. r = Ok j \<longrightarrow> vj_device j = st_dev stat \<and> vj_inode j = st_ino stat
         \<and> vj_size j = word_of_nat (length data))"
proof -
  note v = envelope_from_bytes_cases [OF stable_fileD(4) [OF assms(1)], of sha]
  obtain r s' where r: "verify_envelope_on_fd sha k clone fd w = Some (r, w\<lparr>os_state := s'\<rparr>)"
    and vr: "job_verdict r = envelope_verdict (envelope_from_bytes sha data False)"
    and j: "\<And>j. r = Ok j \<Longrightarrow> vj_device j = st_dev stat \<and> vj_inode j = st_ino stat
         \<and> vj_size j = word_of_nat (length data) \<and> fits (vj_header j) data
         \<and> vj_extension j = take (unat (hdr_extension_header_length (vj_header j))) (drop 128 data)
         \<and> unat (hdr_extension_header_length (vj_header j)) \<le> 65536"
    using envelope_run [OF assms] by blast
  show ?thesis
  proof (cases r)
    case (Inl e)
    have "job_verdict r = envelope_verdict (envelope_from_bytes sha data True)"
      using vr Inl unfolding v by (cases e) (auto simp: Let_def split: sum.splits if_splits)
    then show ?thesis using r Inl by (simp add: verify_job_on_fd_def io_try_def)
  next
    case (Inr job)
    let ?h = "vj_header job"
    let ?e = "unat (hdr_extension_header_length ?h)"
    note jj = j [OF Inr]
    have len: "length data = 128 + ?e + unat (hdr_payload_length ?h)" using jj by (simp add: fits_def)
    then have ext: "length (vj_extension job) = ?e" using jj by simp
    from payload_run [OF assms(1), of "w\<lparr>os_state := s'\<rparr>" ?e ?h sha] assms(3) jj len
    obtain s'' where p: "verify_payload sha k fd ?h ?e (w\<lparr>os_state := s'\<rparr>) =
      Some (if sha (drop (128 + ?e) data) = hdr_payload_digest ?h then Ok () else Err Verify_PayloadCorrupt,
          w\<lparr>os_state := s''\<rparr>)" by auto
    have acc: "envelope_verdict (envelope_from_bytes sha data False) = Accepted ?h (vj_extension job)"
      using vr Inr by simp
    then have "envelope_verdict (envelope_from_bytes sha data True) =
        (if sha (drop (128 + ?e) data) = hdr_payload_digest ?h then Accepted ?h (vj_extension job) else PayloadCorrupted)"
      unfolding v by (auto simp: Let_def split: sum.splits if_splits)
    then show ?thesis
      using r Inr p ext jj by (auto simp: verify_job_on_fd_def io_try_def)
  qed
qed

text \<open>C30. Verifying a job file refines the in-memory validation: on a file that does not change,
  \<open>verify_job_on_fd\<close> returns whatever short reads and interruptions the kernel produces, it
  accepts exactly the byte strings \<open>envelope_from_bytes\<close> accepts and with the same header and
  extension, it reports a corrupt payload exactly when only the payload digest fails, and the job
  it returns carries the identity and size of the file that was read.\<close>

theorem verify_job_refines_envelope:
  assumes "stable_file k fd data stat pending" and "clones clone fd" and "idle w"
  shows "\<exists>r w'. verify_job_on_fd sha k clone fd w = Some (r, w')
    \<and> job_verdict r = envelope_verdict (envelope_from_bytes sha data True)
    \<and> (\<forall>j. r = Ok j \<longrightarrow> vj_device j = st_dev stat \<and> vj_inode j = st_ino stat
         \<and> vj_size j = word_of_nat (length data))"
  by (rule verify_job_run [OF assms])

text \<open>A kernel with one constant file that delivers a byte at a time.\<close>

definition constant_file_os :: "bytes \<Rightarrow> Stat \<Rightarrow> nat os" where
  "constant_file_os data stat = (byte_at_a_time_os data)\<lparr>sys_fstat := (\<lambda>_ p. (Inr stat, p))\<rparr>"

definition same_fd :: "fd \<Rightarrow> ('s, IoError + fd) sysproc" where
  "same_fd fd = io_return (Ok fd)"

definition regular_stat :: "bytes \<Rightarrow> Stat" where
  "regular_stat data = \<lparr>st_dev = 1, st_ino = 9, st_mode = S_IFREG, st_nlink = 1, st_size = int (length data)\<rparr>"

lemma constant_file_stable:
  "length data < 2 ^ 63 \<Longrightarrow>
     stable_file (constant_file_os data (regular_stat data)) fd data (regular_stat data) (\<lambda>p. p)"
  using byte_at_a_time_progress [of data fd]
  by (simp add: stable_file_def reader_progress_def constant_file_os_def regular_stat_def)

lemma same_fd_clones: "clones same_fd fd"
proof -
  have "\<exists>fd' s'. same_fd fd w = Some (Ok fd', w\<lparr>os_state := s'\<rparr>)" for w :: "'a world"
    by (rule exI [of _ fd], rule exI [of _ "os_state w"]) (simp add: same_fd_def)
  then show ?thesis by (simp add: clones_def)
qed

abbreviation (input) zero_sha :: sha256 where "zero_sha \<equiv> \<lambda>_. arr_of (replicate 32 0)"

lemma sample_job_accepted:
  obtains hdr where "header_encode sample_header [] = Ok hdr" and "length (hdr @ [1, 2]) < 2 ^ 63"
    and "envelope_from_bytes zero_sha (hdr @ [1, 2]) True
      = Ok \<lparr>ve_header = sample_header, ve_extension = [], ve_payload = [1, 2]\<rparr>"
proof -
  obtain hdr where hdr: "header_encode sample_header [] = Ok hdr"
    by (simp add: header_encode_fields sample_header_def)
  moreover have "length (hdr @ [1, 2]) < 2 ^ 63"
    using hdr by (auto simp: header_encode_fields split: if_splits)
  moreover have "envelope_from_bytes zero_sha (hdr @ [1, 2]) True
      = Ok \<lparr>ve_header = sample_header, ve_extension = [], ve_payload = [1, 2]\<rparr>"
    unfolding envelope_from_bytes_eq_Ok_iff using hdr
    by (simp add: verify_envelope_digest_def envelope_digest_def)
      (simp add: sample_header_def header_valid_def payload_digest_def)
  ultimately show ?thesis by (rule that)
qed

theorem verify_job_refines_envelope_witness:
  "\<exists>data job w'. stable_file (constant_file_os data (regular_stat data)) 3 data (regular_stat data) (\<lambda>p. p)
    \<and> verify_job_on_fd zero_sha (constant_file_os data (regular_stat data)) same_fd 3 (idle_world 2)
        = Some (Ok job, w')
    \<and> vj_header job = sample_header \<and> vj_inode job = 9"
proof -
  obtain hdr where "length (hdr @ [1, 2]) < 2 ^ 63" and env: "envelope_from_bytes zero_sha (hdr @ [1, 2]) True
      = Ok \<lparr>ve_header = sample_header, ve_extension = [], ve_payload = [1, 2]\<rparr>"
    by (rule sample_job_accepted)
  note st = constant_file_stable [OF this(1), of 3]
  from verify_job_refines_envelope [OF st same_fd_clones idle_idle_world [of 2], of zero_sha, unfolded env]
  obtain r w' where r: "verify_job_on_fd zero_sha (constant_file_os (hdr @ [1, 2]) (regular_stat (hdr @ [1, 2])))
      same_fd 3 (idle_world 2) = Some (r, w')" "job_verdict r = Accepted sample_header []"
    "\<forall>j. r = Ok j \<longrightarrow> vj_inode j = 9"
    by (auto simp: regular_stat_def)
  from r(2) obtain job where "r = Ok job" "vj_header job = sample_header"
    by (cases r rule: job_verdict.cases) auto
  with r(1,3) st show ?thesis by blast
qed

subsection \<open>What an accepted receipt proves\<close>

lemma io_try_return: "io_try (io_return (Ok x)) f = f x"
  by (simp add: io_try_def)

lemma receipt_path_check_Ok:
  assumes "receipt_path_check sha ctx expected = Ok (n, bucket, start)"
  shows "parse_receipt (ctx_filename ctx) = Ok n"
    "receipt_attempt_is_valid (attempt (rc_common n)) (maximum_attempts (rc_common n))"
    "receipt_authenticate_tag sha n (ctx_queue_id ctx) (ctx_bucket ctx) (ctx_shard ctx)"
    "shard_from_hex (ctx_shard ctx) =
       Some (compute_shard sha (ctx_queue_id ctx) (job_id (rc_common n)) (ctx_shard_count ctx))"
    "bucket_from_hex (ctx_bucket ctx) = Some bucket"
    "checked_mul bucket (ctx_terminal_bucket_width_ns ctx) = Some start"
    "expected = Some e \<Longrightarrow> expected_name_matches n e"
  using assms
  by (auto simp: receipt_path_check_def res_bind_eq_Ok_iff map_err_eq_Ok_iff ok_or_eq_Ok_iff
      split: if_splits option.splits)

lemma compact_receipt_check_Ok:
  assumes "compact_receipt_check sha ctx expected n start record = Ok ()"
  shows "\<exists>c. receipt_decode sha record = Ok c \<and> compact_path_fields_match c n start
    \<and> (\<forall>e. expected = Some e \<longrightarrow> compact_evidence_matches c e)"
  using assms
  by (auto simp: compact_receipt_check_def res_bind_eq_Ok_iff map_err_eq_Ok_iff split: if_splits option.splits)

lemma full_receipt_check_Ok:
  assumes "full_receipt_check ctx expected n h = Ok ()"
  shows "full_path_fields_match h n" "expected = Some e \<Longrightarrow> full_evidence_matches h e"
  using assms by (auto simp: full_receipt_check_def split: if_splits option.splits)

lemma full_receipt_content:
  assumes "stable_file k fd data stat pending" and "clones clone fd" and "idle w"
    and "verify_envelope_on_fd sha k clone fd w = Some (Ok job, w1)"
    and "verify_payload sha k fd (vj_header job) (length (vj_extension job)) w1 = Some (Ok (), w2)"
  shows "\<exists>v. envelope_from_bytes sha data True = Ok v \<and> ve_header v = vj_header job"
proof -
  have "verify_job_on_fd sha k clone fd w = Some (Ok job, w2)"
    using assms(4,5) by (simp add: verify_job_on_fd_def io_try_def)
  with verify_job_run [OF assms(1-3), of sha]
  have "envelope_verdict (envelope_from_bytes sha data True) = Accepted (vj_header job) (vj_extension job)"
    by auto
  then show ?thesis
    by (cases "envelope_from_bytes sha data True" rule: envelope_verdict.cases) auto
qed

definition receipt_content_matches ::
  "sha256 \<Rightarrow> bytes \<Rightarrow> ReceiptName \<Rightarrow> u64 \<Rightarrow> ExpectedReceipt option \<Rightarrow> VerifiedReceiptKind \<Rightarrow> bool" where
  "receipt_content_matches sha data n start expected kind \<longleftrightarrow>
     (case kind of
        Kind_Compact \<Rightarrow>
          (\<exists>c. receipt_decode sha data = Ok c \<and> compact_path_fields_match c n start
             \<and> (\<forall>e. expected = Some e \<longrightarrow> compact_evidence_matches c e))
      | Kind_Full job \<Rightarrow>
          (\<exists>v. envelope_from_bytes sha data True = Ok v \<and> full_path_fields_match (ve_header v) n
             \<and> (\<forall>e. expected = Some e \<longrightarrow> full_evidence_matches (ve_header v) e)))"

text \<open>C31. An accepted receipt is evidence for exactly one acknowledged job: its file is a singly
  linked regular file; its name parses, is authenticated by its tag at the bucket and shard it was
  found in, and lies in the shard its job hashes to; its bytes are either a compact receipt whose
  digest holds and that names the same job, token, attempt and bucket, or a complete job file
  whose envelope and payload digests hold, of the same job; and when an operation was expected,
  its identity, token, envelope digest and payload length are the expected ones.\<close>

theorem receipt_accepted_sound:
  assumes st: "stable_file k fd data stat pending" and cl: "clones clone fd" and idle: "idle w"
    and run: "verify_receipt_on_fd sha k clone fd ctx expected w = Some (Ok r, w')"
  shows "st_mode stat AND S_IFMT = S_IFREG \<and> st_nlink stat = 1
    \<and> parse_receipt (ctx_filename ctx) = Ok (vr_name r)
    \<and> receipt_authenticate_tag sha (vr_name r) (ctx_queue_id ctx) (ctx_bucket ctx) (ctx_shard ctx)
    \<and> shard_from_hex (ctx_shard ctx) =
        Some (compute_shard sha (ctx_queue_id ctx) (job_id (rc_common (vr_name r))) (ctx_shard_count ctx))
    \<and> bucket_from_hex (ctx_bucket ctx) = Some (vr_bucket_number r)
    \<and> (\<forall>e. expected = Some e \<longrightarrow> expected_name_matches (vr_name r) e)
    \<and> (\<exists>start. checked_mul (vr_bucket_number r) (ctx_terminal_bucket_width_ns ctx) = Some start
        \<and> receipt_content_matches sha data (vr_name r) start expected (vr_kind r))"
proof -
  obtain s1 where f: "fstat k fd w = Some (Ok stat, w\<lparr>os_state := s1\<rparr>)" using fstat_run [OF st idle] by blast
  let ?w1 = "w\<lparr>os_state := s1\<rparr>"
  obtain s2 where p: "pread_exact k fd 128 0 ?w1 =
      Some (if length data < 128 then Err (io_error_new Kind_UnexpectedEof ''pread hit EOF before filling buffer'')
            else Ok (take 128 data), w\<lparr>os_state := s2\<rparr>)"
    using pread_exact_run [OF stable_fileD(1) [OF st], of ?w1 0 128] idle by (auto simp: idle_def)
  obtain fsize where fs: "receipt_file_check stat = Ok fsize"
    using run f by (cases "receipt_file_check stat") (auto simp: verify_receipt_on_fd_def io_try_def io_verify_def io_map_err_def)
  then have reg: "st_mode stat AND S_IFMT = S_IFREG" "st_nlink stat = 1" "fsize = word_of_nat (length data)"
    using stable_fileD(3) [OF st] by (auto simp: receipt_file_check_def split: if_splits)
  obtain n bucket start where pc: "receipt_path_check sha ctx expected = Ok (n, bucket, start)"
    using run f fs by (cases "receipt_path_check sha ctx expected") (auto simp: verify_receipt_on_fd_def io_try_def io_verify_def io_map_err_def)
  have ge: "\<not> length data < 128"
    using run f fs pc p by (auto simp: verify_receipt_on_fd_def io_try_def io_verify_def io_map_err_def split: if_splits)
  have 1: "io_verify (fstat k fd) w = Some (Ok stat, ?w1)" by (simp add: io_verify_def io_map_err_def f)
  have 2: "io_map_err receipt_record_error (pread_exact k fd 128 0) ?w1 = Some (Ok (take 128 data), w\<lparr>os_state := s2\<rparr>)"
    using ge by (simp add: io_map_err_def p)
  let ?rest = "if is_compact_receipt fsize (take 128 data)
        then io_try (io_return (compact_receipt_check sha ctx expected n start (take 128 data))) (\<lambda>_.
               io_return (Ok Kind_Compact))
        else io_try (verify_envelope_on_fd sha k clone fd) (\<lambda>job.
               io_try (io_return (full_receipt_check ctx expected n (vj_header job))) (\<lambda>_.
               io_try (verify_payload sha k fd (vj_header job) (length (vj_extension job))) (\<lambda>_.
                 io_return (Ok (Kind_Full job)))))"
  have rest: "io_try ?rest (\<lambda>kind. io_return (Ok \<lparr>vr_name = n, vr_bucket_number = bucket, vr_kind = kind,
      vr_device = st_dev stat, vr_inode = st_ino stat\<rparr>)) (w\<lparr>os_state := s2\<rparr>) = Some (Ok r, w')"
    using run unfolding verify_receipt_on_fd_def io_try_Ok [of "io_verify (fstat k fd)", OF 1] fs pc io_try_return
      prod.case io_try_Ok [of "io_map_err receipt_record_error (pread_exact k fd 128 0)", OF 2] .
  have "vr_name r = n \<and> vr_bucket_number r = bucket \<and> receipt_content_matches sha data n start expected (vr_kind r)"
  proof (cases "is_compact_receipt fsize (take 128 data)")
    case True
    then have "take 128 data = data"
      using reg(3) stable_fileD(4) [OF st] u64_of_nat [of "length data"] u64_of_nat [of 128]
      by (auto simp: is_compact_receipt_def split: if_splits)
    moreover obtain u where u: "compact_receipt_check sha ctx expected n start (take 128 data) = Ok u"
      using rest True by (cases "compact_receipt_check sha ctx expected n start (take 128 data)") (simp_all add: io_try_def)
    ultimately show ?thesis
      using rest True compact_receipt_check_Ok [of sha ctx expected n start "take 128 data"]
      by (auto simp: io_try_def receipt_content_matches_def)
  next
    case False
    let ?w2 = "w\<lparr>os_state := s2\<rparr>"
    from rest False obtain job w3 w4 where e: "verify_envelope_on_fd sha k clone fd ?w2 = Some (Ok job, w3)"
      and c: "full_receipt_check ctx expected n (vj_header job) = Ok ()"
      and q: "verify_payload sha k fd (vj_header job) (length (vj_extension job)) w3 = Some (Ok (), w4)"
      and r: "r = \<lparr>vr_name = n, vr_bucket_number = bucket, vr_kind = Kind_Full job,
                   vr_device = st_dev stat, vr_inode = st_ino stat\<rparr>"
      by (auto simp: io_try_eq_Some_iff)
    have "idle ?w2" using idle by simp
    from full_receipt_content [OF st cl this e q] full_receipt_check_Ok [OF c] show ?thesis
      by (auto simp: r receipt_content_matches_def)
  qed
  then show ?thesis using reg receipt_path_check_Ok [OF pc] by auto
qed

text \<open>The compact receipt of a queue with one shard, found where its name says.\<close>

definition sample_common :: CommonFields where
  "sample_common = \<lparr>job_id = arr_of (replicate 16 7), generation = 2, attempt = 1, maximum_attempts = 3\<rparr>"

definition sample_receipt :: CompactReceipt where
  "sample_receipt = \<lparr>cr_job_id = arr_of (replicate 16 7), cr_envelope_digest = arr_of (replicate 32 0),
     cr_final_attempt = 1, cr_lease_token = arr_of (replicate 16 5),
     cr_receipt_bucket_start_unix_ns = 60000000000, cr_original_payload_length = 2\<rparr>"

definition sample_context :: ReceiptContext where
  "sample_context =
     \<lparr>ctx_queue_id = arr_of (replicate 16 1), ctx_shard_count = 1, ctx_terminal_bucket_width_ns = 60000000000,
      ctx_max_payload_length = 10, ctx_bucket = ''0000000000000001'', ctx_shard = ''0000'',
      ctx_filename = make_receipt_name zero_sha (arr_of (replicate 16 1)) ''0000000000000001'' ''0000''
        sample_common (arr_of (replicate 16 5))\<rparr>"

definition sample_expected :: ExpectedReceipt where
  "sample_expected = \<lparr>exp_common = sample_common, exp_token = arr_of (replicate 16 5),
     exp_envelope_digest = arr_of (replicate 32 0), exp_payload_length = 2\<rparr>"

lemma sample_path_check:
  "\<exists>n. receipt_path_check zero_sha sample_context (Some sample_expected) = Ok (n, 1, 60000000000)
    \<and> rc_common n = sample_common \<and> rc_token n = arr_of (replicate 16 5)"
proof -
  let ?q = "arr_of (replicate 16 1) :: id128" and ?t = "arr_of (replicate 16 5) :: id128"
  obtain n where n: "parse_receipt (make_receipt_name zero_sha ?q ''0000000000000001'' ''0000'' sample_common ?t) = Ok n"
    "rc_common n = sample_common" "rc_token n = ?t"
    "receipt_authenticate_tag zero_sha n ?q ''0000000000000001'' ''0000''"
    using make_receipt_name_authentic [of zero_sha ?q "''0000000000000001''" "''0000''" sample_common ?t] by blast
  have sh: "shard_from_hex ''0000'' = Some 0" "bucket_from_hex ''0000000000000001'' = Some 1"
    by code_simp+
  have one: "checked_mul 1 (60000000000 :: u64) = Some 60000000000" "trailing_zeros (1 :: u32) = 0"
    using trailing_zeros_pow2 [of 0] by (simp_all add: checked_mul_eq_Some_iff)
  have "compute_shard zero_sha ?q j 1 = 0" for j
    by (simp add: compute_shard_def Let_def one(2))
  then have "receipt_path_check zero_sha sample_context (Some sample_expected) = Ok (n, 1, 60000000000)"
    using n sh one
    by (simp add: receipt_path_check_def sample_context_def receipt_attempt_is_valid_def
        expected_name_matches_def sample_expected_def) (simp add: sample_common_def)
  with n show ?thesis by blast
qed

theorem receipt_accepted_sound_witness:
  "\<exists>data r w'. stable_file (constant_file_os data (regular_stat data)) 3 data (regular_stat data) (\<lambda>p. p)
    \<and> verify_receipt_on_fd zero_sha (constant_file_os data (regular_stat data)) same_fd 3 sample_context
        (Some sample_expected) (idle_world 0) = Some (Ok r, w')
    \<and> vr_kind r = Kind_Compact
    \<and> receipt_content_matches zero_sha data (vr_name r) 60000000000 (Some sample_expected) (vr_kind r)"
proof -
  define data where "data = receipt_encode zero_sha sample_receipt"
  have len: "length data = 128" by (simp add: data_def receipt_encode_fields Let_def)
  have st: "stable_file (constant_file_os data (regular_stat data)) 3 data (regular_stat data) (\<lambda>p. p)"
    by (rule constant_file_stable) (simp add: len)
  let ?k = "constant_file_os data (regular_stat data)"
  obtain n where pc: "receipt_path_check zero_sha sample_context (Some sample_expected) = Ok (n, 1, 60000000000)"
    and n: "rc_common n = sample_common" "rc_token n = arr_of (replicate 16 5)"
    using sample_path_check by blast
  have dec: "receipt_decode zero_sha data = Ok sample_receipt"
    unfolding data_def by (rule receipt_decode_encode)
  have mlen: "length RECEIPT_MAGIC = 8" by (simp add: RECEIPT_MAGIC_def)
  have magic: "slice 0 (length RECEIPT_MAGIC) data = RECEIPT_MAGIC"
    using dec by (auto simp: receipt_decode_def mlen split: if_splits)
  have chk: "compact_receipt_check zero_sha sample_context (Some sample_expected) n 60000000000 data = Ok ()"
    using n dec
    by (simp add: compact_receipt_check_def compact_path_fields_match_def payload_length_is_allowed_def
        compact_evidence_matches_def sample_receipt_def sample_context_def sample_expected_def)
      (simp add: sample_common_def)
  obtain s1 where f: "fstat ?k 3 (idle_world 0) = Some (Ok (regular_stat data), (idle_world 0)\<lparr>os_state := s1\<rparr>)"
    using fstat_run [OF st idle_idle_world] by blast
  obtain s2 where p: "pread_exact ?k 3 128 0 ((idle_world 0)\<lparr>os_state := s1\<rparr>) =
      Some (Ok data, (idle_world 0)\<lparr>os_state := s2\<rparr>)"
    using pread_exact_run [OF stable_fileD(1) [OF st], of "(idle_world 0)\<lparr>os_state := s1\<rparr>" 0 128] len
      idle_idle_world [of 0]
    by (auto simp: idle_def)
  have run: "verify_receipt_on_fd zero_sha ?k same_fd 3 sample_context (Some sample_expected) (idle_world 0) =
      Some (Ok \<lparr>vr_name = n, vr_bucket_number = 1, vr_kind = Kind_Compact, vr_device = 1, vr_inode = 9\<rparr>,
        (idle_world 0)\<lparr>os_state := s2\<rparr>)" (is "_ = Some (Ok ?r, _)")
    using f p pc magic chk len
    by (simp add: verify_receipt_on_fd_def io_try_def io_verify_def io_map_err_def receipt_file_check_def
        regular_stat_def is_compact_receipt_def S_IFMT_def S_IFREG_def)
  have "checked_mul 1 (60000000000 :: u64) = Some 60000000000" by (simp add: checked_mul_eq_Some_iff)
  with receipt_accepted_sound [OF st same_fd_clones idle_idle_world run]
  have "receipt_content_matches zero_sha data n 60000000000 (Some sample_expected) Kind_Compact"
    by (simp add: sample_context_def)
  with st run show ?thesis by (intro exI [of _ data] exI [of _ ?r]) auto
qed

end
