(* ===== verification/Steadq_Layout.thy ===== *)
theory Steadq_Layout
  imports Steadq_Fs Steadq_Tickets Steadq_Math Steadq_Format
begin

text \<open>
  Typed locations of queue objects (\<^verbatim>\<open>src/crates/steadq-core/src/queue/layout.rs\<close>): the five
  places an object can be in, the target path of each transition, and the parser of leased
  paths; and the creation and open options (\<^verbatim>\<open>queue/options.rs\<close>). The lemmas show that every
  target is a path the file-system layer accepts and that leased paths are read back.
\<close>

subsection \<open>Options\<close>

record CreateOptions =
  co_shard_count :: u32
  co_lease_bucket_width_ns :: u64
  co_delayed_bucket_width_ns :: u64
  co_terminal_bucket_width_ns :: u64
  co_max_payload_length :: u64

definition create_options_default :: CreateOptions where
  "create_options_default =
     \<lparr>co_shard_count = 64, co_lease_bucket_width_ns = 10000000000,
      co_delayed_bucket_width_ns = 10000000000, co_terminal_bucket_width_ns = 3600000000000,
      co_max_payload_length = MAX_PAYLOAD_LENGTH\<rparr>"

definition validate_create_options :: "CreateOptions \<Rightarrow> Error + unit" where
  "validate_create_options opts =
     (if co_shard_count opts = 0 \<or> \<not> is_power_of_two (co_shard_count opts) \<or> co_shard_count opts > 4096
      then Err (InvalidInput ''invalid shard count'')
      else if co_lease_bucket_width_ns opts = 0
      then Err (InvalidInput ''lease bucket width must be non-zero'')
      else if co_delayed_bucket_width_ns opts = 0
      then Err (InvalidInput ''delayed bucket width must be non-zero'')
      else if co_terminal_bucket_width_ns opts = 0
      then Err (InvalidInput ''terminal bucket width must be non-zero'')
      else if \<not> (60000000000 \<le> co_terminal_bucket_width_ns opts
                 \<and> co_terminal_bucket_width_ns opts \<le> 86400000000000)
      then Err (InvalidInput ''invalid terminal bucket width'')
      else if \<not> is_multiple_of (co_terminal_bucket_width_ns opts) (co_delayed_bucket_width_ns opts)
      then Err (InvalidInput ''delayed bucket width must divide terminal bucket width'')
      else if co_max_payload_length opts > MAX_PAYLOAD_LENGTH
      then Err (InvalidInput ''payload limit exceeds maximum'')
      else Ok ())"

definition MIN_LEASE_DURATION_NS :: u64 where "MIN_LEASE_DURATION_NS = 1000000000"
definition MAX_LEASE_DURATION_NS :: u64 where "MAX_LEASE_DURATION_NS = 604800000000000"

definition lease_duration_is_valid :: "u64 \<Rightarrow> bool" where
  "lease_duration_is_valid duration_ns =
     (MIN_LEASE_DURATION_NS \<le> duration_ns \<and> duration_ns \<le> MAX_LEASE_DURATION_NS)"

definition payload_length_is_valid :: "u64 \<Rightarrow> u64 \<Rightarrow> bool" where
  "payload_length_is_valid payload_length maximum = (payload_length \<le> maximum)"

record OpenOptions =
  allow_unsupported_fs :: bool
  receipt_retention_ns :: u64
  temporary_file_ttl_ns :: u64
  oo_deferred_dir_sync :: bool

definition open_options_default :: OpenOptions where
  "open_options_default =
     \<lparr>allow_unsupported_fs = False, receipt_retention_ns = 7 * 24 * 60 * 60 * 1000000000,
      temporary_file_ttl_ns = 24 * 60 * 60 * 1000000000, oo_deferred_dir_sync = False\<rparr>"

subsection \<open>Locations and targets\<close>

datatype Location =
    Loc_Ready u32
  | Loc_Leased string u64 u32
  | Loc_Delayed u64 u32
  | Loc_Receipt u64 u32
  | Loc_Dead u64 u32

record Target =
  tg_location :: Location
  tg_filename :: string

definition target_directory :: "Target \<Rightarrow> string" where
  "target_directory t = (case tg_location t of
       Loc_Ready shard \<Rightarrow> ''ready/'' @ shard_hex shard
     | Loc_Leased _ _ shard \<Rightarrow> ''ready/'' @ shard_hex shard
     | Loc_Delayed bucket shard \<Rightarrow> ''delayed/'' @ bucket_hex bucket @ ''/'' @ shard_hex shard
     | Loc_Receipt bucket shard \<Rightarrow> ''receipts/'' @ bucket_hex bucket @ ''/'' @ shard_hex shard
     | Loc_Dead bucket shard \<Rightarrow> ''dead/'' @ bucket_hex bucket @ ''/'' @ shard_hex shard)"

definition relative_path :: "Target \<Rightarrow> string" where
  "relative_path t = target_directory t @ ''/'' @ tg_filename t"

definition target_shard :: "Target \<Rightarrow> u32" where
  "target_shard t = (case tg_location t of
       Loc_Ready shard \<Rightarrow> shard
     | Loc_Leased _ _ shard \<Rightarrow> shard
     | Loc_Delayed _ shard \<Rightarrow> shard
     | Loc_Receipt _ shard \<Rightarrow> shard
     | Loc_Dead _ shard \<Rightarrow> shard)"

definition target_state :: "Target \<Rightarrow> State" where
  "target_state t = (case tg_location t of
       Loc_Ready _ \<Rightarrow> Ready
     | Loc_Leased _ _ _ \<Rightarrow> Leased
     | Loc_Delayed _ _ \<Rightarrow> Delayed
     | Loc_Receipt _ _ \<Rightarrow> Receipt
     | Loc_Dead _ _ \<Rightarrow> Dead)"

subsection \<open>The layout of a queue\<close>

record Layout =
  lo_queue_id :: id128
  lo_shard_count :: u32
  lo_lease_bucket_width_ns :: u64
  lo_delayed_bucket_width_ns :: u64
  lo_terminal_bucket_width_ns :: u64
  lo_boot_id :: string

definition layout_new :: "id128 \<Rightarrow> u32 \<Rightarrow> u64 \<Rightarrow> u64 \<Rightarrow> u64 \<Rightarrow> string \<Rightarrow> Layout" where
  "layout_new queue_id shard_count lease_width delayed_width terminal_width boot_id =
     \<lparr>lo_queue_id = queue_id, lo_shard_count = shard_count, lo_lease_bucket_width_ns = lease_width,
      lo_delayed_bucket_width_ns = delayed_width, lo_terminal_bucket_width_ns = terminal_width,
      lo_boot_id = boot_id\<rparr>"

definition shard_for :: "sha256 \<Rightarrow> Layout \<Rightarrow> id128 \<Rightarrow> u32" where
  "shard_for sha l jid = compute_shard sha (lo_queue_id l) jid (lo_shard_count l)"

definition ready_shard_dir :: "u32 \<Rightarrow> string" where
  "ready_shard_dir shard = ''ready/'' @ shard_hex shard"

definition leased_shard_dir :: "string \<Rightarrow> u64 \<Rightarrow> u32 \<Rightarrow> string" where
  "leased_shard_dir boot_id bucket shard =
     ''leased/'' @ boot_id @ ''/'' @ bucket_hex bucket @ ''/'' @ shard_hex shard"

definition delayed_shard_dir :: "u64 \<Rightarrow> u32 \<Rightarrow> string" where
  "delayed_shard_dir bucket shard = ''delayed/'' @ bucket_hex bucket @ ''/'' @ shard_hex shard"

definition dead_shard_dir :: "u64 \<Rightarrow> u32 \<Rightarrow> string" where
  "dead_shard_dir bucket shard = ''dead/'' @ bucket_hex bucket @ ''/'' @ shard_hex shard"

definition receipt_shard_dir :: "u64 \<Rightarrow> u32 \<Rightarrow> string" where
  "receipt_shard_dir bucket shard = ''receipts/'' @ bucket_hex bucket @ ''/'' @ shard_hex shard"

definition layout_ready :: "sha256 \<Rightarrow> Layout \<Rightarrow> CommonFields \<Rightarrow> Target" where
  "layout_ready sha l common =
     (let shard = shard_for sha l (job_id common)
      in \<lparr>tg_location = Loc_Ready shard,
          tg_filename = make_ready_name sha (lo_queue_id l) (shard_hex shard) common\<rparr>)"

definition layout_delayed :: "sha256 \<Rightarrow> Layout \<Rightarrow> CommonFields \<Rightarrow> u64 \<Rightarrow> Error + Target" where
  "layout_delayed sha l common not_before_ns =
     res_bind (ok_or (eligibility_bucket_and_ns not_before_ns (lo_delayed_bucket_width_ns l))
                (InvalidInput ''eligibility overflow'')) (\<lambda>(bucket, _).
       let shard = shard_for sha l (job_id common)
       in Ok \<lparr>tg_location = Loc_Delayed bucket shard,
              tg_filename = make_delayed_name sha (lo_queue_id l) (bucket_hex bucket) (shard_hex shard)
                common not_before_ns\<rparr>)"

definition leased_for_boot ::
  "sha256 \<Rightarrow> Layout \<Rightarrow> CommonFields \<Rightarrow> string \<Rightarrow> u64 \<Rightarrow> u64 \<Rightarrow> id128 \<Rightarrow> Error + Target" where
  "leased_for_boot sha l common boot_id boottime_deadline_ns wall_deadline_ns token =
     res_bind (ok_or (lease_bucket boottime_deadline_ns (lo_lease_bucket_width_ns l)) StateExhausted) (\<lambda>bucket.
       let shard = shard_for sha l (job_id common) in
       res_bind (ok_or (make_leased_name sha (lo_queue_id l) boot_id (bucket_hex bucket) (shard_hex shard)
                          common boottime_deadline_ns wall_deadline_ns token)
                   (InvalidTicket ''boot id is not canonical'')) (\<lambda>filename.
         Ok \<lparr>tg_location = Loc_Leased boot_id bucket shard, tg_filename = filename\<rparr>))"

definition layout_leased ::
  "sha256 \<Rightarrow> Layout \<Rightarrow> CommonFields \<Rightarrow> u64 \<Rightarrow> u64 \<Rightarrow> id128 \<Rightarrow> Error + Target" where
  "layout_leased sha l common boottime_deadline_ns wall_deadline_ns token =
     leased_for_boot sha l common (lo_boot_id l) boottime_deadline_ns wall_deadline_ns token"

definition receipt_in_bucket :: "sha256 \<Rightarrow> Layout \<Rightarrow> CommonFields \<Rightarrow> id128 \<Rightarrow> u64 \<Rightarrow> Target" where
  "receipt_in_bucket sha l common token bucket =
     (let shard = shard_for sha l (job_id common)
      in \<lparr>tg_location = Loc_Receipt bucket shard,
          tg_filename = make_receipt_name sha (lo_queue_id l) (bucket_hex bucket) (shard_hex shard) common token\<rparr>)"

definition layout_receipt :: "sha256 \<Rightarrow> Layout \<Rightarrow> CommonFields \<Rightarrow> id128 \<Rightarrow> u64 \<Rightarrow> Error + Target" where
  "layout_receipt sha l common token wall_ns =
     res_bind (ok_or (bucket_number wall_ns (lo_terminal_bucket_width_ns l)) StateExhausted) (\<lambda>bucket.
       Ok (receipt_in_bucket sha l common token bucket))"

definition dead_in_bucket :: "sha256 \<Rightarrow> Layout \<Rightarrow> CommonFields \<Rightarrow> u16 \<Rightarrow> u64 \<Rightarrow> Target" where
  "dead_in_bucket sha l common reason bucket =
     (let shard = shard_for sha l (job_id common)
      in \<lparr>tg_location = Loc_Dead bucket shard,
          tg_filename = make_dead_name sha (lo_queue_id l) (bucket_hex bucket) (shard_hex shard) common reason\<rparr>)"

definition layout_dead :: "sha256 \<Rightarrow> Layout \<Rightarrow> CommonFields \<Rightarrow> u16 \<Rightarrow> u64 \<Rightarrow> Error + Target" where
  "layout_dead sha l common reason wall_ns =
     res_bind (ok_or (bucket_number wall_ns (lo_terminal_bucket_width_ns l)) StateExhausted) (\<lambda>bucket.
       Ok (dead_in_bucket sha l common reason bucket))"

definition is_valid_leased_path_parts :: "nat \<Rightarrow> string \<Rightarrow> bool" where
  "is_valid_leased_path_parts len first = (len = 5 \<and> first = ''leased'')"

definition is_shard_in_range :: "u32 \<Rightarrow> u32 \<Rightarrow> bool" where
  "is_shard_in_range shard count = (shard < count)"

text \<open>The shard component of a path.\<close>

definition parse_shard :: "Layout \<Rightarrow> string \<Rightarrow> Error + u32" where
  "parse_shard l part =
     res_bind (ok_or (shard_from_hex part) (QueueCorrupt ''invalid shard hex'')) (\<lambda>shard.
       if \<not> is_shard_in_range shard (lo_shard_count l) then Err (QueueCorrupt ''shard out of range'')
       else Ok shard)"

definition parse_leased_path :: "Layout \<Rightarrow> string \<Rightarrow> Error + Location \<times> string" where
  "parse_leased_path l relative =
     (let parts = split_on CHR ''/'' relative in
      if length parts = 3 \<and> parts ! 0 = ''ready'' then
        res_bind (parse_shard l (parts ! 1)) (\<lambda>shard.
        let filename = parts ! 2 in
        res_bind (map_err (\<lambda>_. QueueCorrupt ''invalid leased path'') (parse_leased filename)) (\<lambda>parsed.
        res_bind (ok_or (lease_bucket (ls_boottime_deadline_ns parsed) (lo_lease_bucket_width_ns l))
                    (QueueCorrupt ''invalid lease bucket'')) (\<lambda>bucket.
          Ok (Loc_Leased (format_boot_id (ls_boot_id parsed)) bucket shard, filename))))
      else if \<not> is_valid_leased_path_parts (length parts) (parts ! 0)
      then Err (QueueCorrupt ''invalid leased path'')
      else
        let boot_id = parts ! 1 in
        if boot_id_bytes boot_id = None then Err (QueueCorrupt ''invalid boot id'')
        else
          res_bind (ok_or (bucket_from_hex (parts ! 2)) (QueueCorrupt ''invalid bucket hex'')) (\<lambda>bucket.
          res_bind (parse_shard l (parts ! 3)) (\<lambda>shard.
            Ok (Loc_Leased boot_id bucket shard, parts ! 4))))"

subsection \<open>Every target is a path of the file layer\<close>

lemma DIGITS_graphic: "x \<in> set DIGITS \<Longrightarrow> is_ascii_graphic x \<and> x \<noteq> CHR ''/''"
  by (auto simp: DIGITS_def is_ascii_graphic_def)

definition name_text :: "string \<Rightarrow> bool" where
  "name_text s \<longleftrightarrow> (\<forall>x\<in>set s. is_ascii_graphic x \<and> x \<noteq> CHR ''/'')"

lemma name_text_append [simp]: "name_text (a @ b) \<longleftrightarrow> name_text a \<and> name_text b"
  by (auto simp: name_text_def)

lemma name_text_Cons [simp]: "name_text (x # s) \<longleftrightarrow> is_ascii_graphic x \<and> x \<noteq> CHR ''/'' \<and> name_text s"
  by (auto simp: name_text_def)

lemma name_text_Nil [simp]: "name_text []"
  by (simp add: name_text_def)

lemma name_text_hex [simp]: "name_text (hex_encode bs)"
  using set_hex_encode [of bs] DIGITS_graphic by (auto simp: name_text_def)

lemma set_fmt_hex: "set (fmt_hex w n) \<subseteq> set DIGITS"
proof -
  have "set (hex_numeral n) \<subseteq> set DIGITS"
  proof (induction n rule: hex_numeral.induct)
    case (1 n)
    have "n mod 16 < length DIGITS" "n < 16 \<Longrightarrow> n < length DIGITS" by (simp_all add: DIGITS_def)
    with 1 show ?case by (subst hex_numeral.simps) (simp add: nth_mem)
  qed
  moreover have "CHR ''0'' \<in> set DIGITS" by (simp add: DIGITS_def)
  ultimately show ?thesis by (auto simp: fmt_hex_def)
qed

lemma name_text_fmt_hex [simp]: "name_text (fmt_hex w n)"
  using set_fmt_hex [of w n] DIGITS_graphic by (auto simp: name_text_def)

lemma graphic_letters [simp]:
  "is_ascii_graphic CHR ''.''" "is_ascii_graphic CHR ''g''" "is_ascii_graphic CHR ''a''"
  "is_ascii_graphic CHR ''m''" "is_ascii_graphic CHR ''k''" "is_ascii_graphic CHR ''s''"
  "is_ascii_graphic CHR ''q''" "is_ascii_graphic CHR ''j''" "is_ascii_graphic CHR ''o''"
  "is_ascii_graphic CHR ''b''" "is_ascii_graphic CHR ''w''" "is_ascii_graphic CHR ''t''"
  "is_ascii_graphic CHR ''d''" "is_ascii_graphic CHR ''x''" "is_ascii_graphic CHR ''r''"
  "is_ascii_graphic CHR ''c''"
  by (simp_all add: is_ascii_graphic_def)

lemma length_base_name [simp]: "length (base_name c) = 70"
  by (simp add: base_name_def push_hex_hex_encode hex_iff)

lemma name_text_base [simp]: "name_text (base_name c)"
  by (simp add: base_name_def push_hex_hex_encode)

lemma safe_componentI:
  assumes "name_text s" and "3 \<le> length s" and "length s \<le> 255"
  shows "safe_component s"
proof -
  have "s \<noteq> []" "s \<noteq> ''.''" "s \<noteq> ''..''" using assms(2) by auto
  then show ?thesis using assms(1,3) unfolding safe_component_def name_text_def by (intro conjI)
qed

lemmas made_name_defs =
  make_ready_name_def make_delayed_name_def make_leased_name_def make_receipt_name_def make_dead_name_def
  tagged_filename_def push_hex_hex_encode Let_def

lemma made_names_safe:
  "safe_component (make_ready_name sha q sh c)"
  "safe_component (make_delayed_name sha q b sh c nb)"
  "safe_component (make_receipt_name sha q b sh c tok)"
  "safe_component (make_dead_name sha q b sh c reason)"
  "make_leased_name sha q boot b sh c bd wd tok = Some n \<Longrightarrow> safe_component n"
proof -
  show "safe_component (make_ready_name sha q sh c)" "safe_component (make_delayed_name sha q b sh c nb)"
    "safe_component (make_receipt_name sha q b sh c tok)" "safe_component (make_dead_name sha q b sh c reason)"
    by (rule safe_componentI; simp add: made_name_defs hex_u64_eq hex_u16_eq)+
  assume "make_leased_name sha q boot b sh c bd wd tok = Some n"
  then have "name_text n" "length n = 196"
    by (auto simp: made_name_defs hex_u64_eq split: option.splits)
  then show "safe_component n" by (intro safe_componentI) simp_all
qed

lemma shard_from_hex_shard_hex:
  assumes "unat sh < 2 ^ 16"
  shows "shard_from_hex (shard_hex sh) = Some sh"
proof -
  have "unat (ucast sh :: u16) = unat sh" using assms by (simp add: unsigned_ucast_eq take_bit_nat_eq_self)
  then have "hex_decode_u16 (shard_hex sh) = Some (ucast sh)"
    by (simp add: hex_decode_u16_eq_Some_iff shard_hex_def)
  moreover have "ucast (ucast sh :: u16) = sh"
    using assms by (simp add: word_unat_eq_iff unsigned_ucast_eq unsigned_take_bit_eq take_bit_nat_eq_self)
  ultimately show ?thesis by (simp add: shard_from_hex_def)
qed

lemma safe_shard_hex:
  assumes "unat sh < 2 ^ 16"
  shows "safe_component (shard_hex sh)" and "length (shard_hex sh) = 4"
proof -
  have "shard_hex sh = hex_encode (u16_to_be_bytes (ucast sh :: u16))"
    using assms by (simp add: shard_hex_def flip: hex_u16_eq) (simp add: unsigned_ucast_eq take_bit_nat_eq_self)
  then show "safe_component (shard_hex sh)" "length (shard_hex sh) = 4"
    by (auto intro!: safe_componentI)
qed

lemma safe_bucket_hex: "safe_component (bucket_hex b)" "length (bucket_hex b) = 16"
  by (auto simp: bucket_hex_def hex_iff intro!: safe_componentI)

text \<open>The targets the layout builds.\<close>

inductive layout_produces :: "sha256 \<Rightarrow> Layout \<Rightarrow> Target \<Rightarrow> bool" for sha l where
  produces_ready: "layout_produces sha l (layout_ready sha l c)"
| produces_delayed: "layout_produces sha l t" if "layout_delayed sha l c nb = Ok t"
| produces_leased: "layout_produces sha l t" if "leased_for_boot sha l c boot bd wd tok = Ok t"
| produces_receipt: "layout_produces sha l (receipt_in_bucket sha l c tok b)"
| produces_dead: "layout_produces sha l (dead_in_bucket sha l c reason b)"

lemmas target_defs =
  layout_ready_def layout_delayed_def leased_for_boot_def receipt_in_bucket_def dead_in_bucket_def
  relative_path_def target_directory_def target_shard_def target_state_def shard_for_def Let_def

lemma layout_produces_filename: "layout_produces sha l t \<Longrightarrow> safe_component (tg_filename t)"
  by (cases rule: layout_produces.cases)
    (auto simp: target_defs result_simps made_names_safe intro: made_names_safe(5))

lemma layout_produces_shard:
  "layout_produces sha l t \<Longrightarrow> is_power_of_two (lo_shard_count l) \<Longrightarrow> target_shard t < lo_shard_count l"
  by (cases rule: layout_produces.cases) (auto simp: target_defs result_simps compute_shard_less)

lemma safe_directories:
  "safe_component ''ready''" "safe_component ''delayed''" "safe_component ''receipts''" "safe_component ''dead''"
  by (simp_all add: safe_component_def is_ascii_graphic_def)

text \<open>The components of a target's path.\<close>

definition target_parts :: "Target \<Rightarrow> string list" where
  "target_parts t = (case tg_location t of
       Loc_Ready shard \<Rightarrow> [''ready'', shard_hex shard, tg_filename t]
     | Loc_Leased _ _ shard \<Rightarrow> [''ready'', shard_hex shard, tg_filename t]
     | Loc_Delayed bucket shard \<Rightarrow> [''delayed'', bucket_hex bucket, shard_hex shard, tg_filename t]
     | Loc_Receipt bucket shard \<Rightarrow> [''receipts'', bucket_hex bucket, shard_hex shard, tg_filename t]
     | Loc_Dead bucket shard \<Rightarrow> [''dead'', bucket_hex bucket, shard_hex shard, tg_filename t])"

lemma relative_path_parts: "relative_path t = join_with CHR ''/'' (target_parts t)"
  by (cases "tg_location t") (simp_all add: relative_path_def target_directory_def target_parts_def)

lemma target_parts_safe:
  assumes "layout_produces sha l t" and "unat (target_shard t) < 2 ^ 16"
  shows "list_all safe_component (target_parts t)"
  using layout_produces_filename [OF assms(1)] assms(2) safe_directories safe_shard_hex safe_bucket_hex
  by (cases "tg_location t") (simp_all add: target_parts_def target_shard_def)

lemma safe_no_slash: "safe_component c \<Longrightarrow> CHR ''/'' \<notin> set c"
  by (auto simp: safe_component_def)

lemma small_shard:
  "is_power_of_two n \<Longrightarrow> n \<le> 4096 \<Longrightarrow> sh < n \<Longrightarrow> unat (sh :: u32) < 2 ^ 16"
  by (simp add: word_less_nat_alt word_le_nat_alt)

lemma leased_target_read_back:
  assumes "leased_for_boot sha l c boot bd wd tok = Ok t" and "is_power_of_two (lo_shard_count l)"
    and "lo_shard_count l \<le> 4096"
  shows "parse_leased_path l (relative_path t) = Ok (tg_location t, tg_filename t)"
proof -
  let ?sh = "shard_for sha l (job_id c)"
  from assms(1) obtain b n bid where b: "lease_bucket bd (lo_lease_bucket_width_ns l) = Some b"
    and n: "make_leased_name sha (lo_queue_id l) boot (bucket_hex b) (shard_hex ?sh) c bd wd tok = Some n"
    and t: "t = \<lparr>tg_location = Loc_Leased boot b ?sh, tg_filename = n\<rparr>"
    and bid: "boot_id_bytes boot = Some bid"
    by (auto simp: leased_for_boot_def Let_def result_simps make_leased_name_def split: option.splits)
  have boot: "boot = format_boot_id bid" using bid by (simp add: hex_iff)
  obtain m where m: "parse_leased n = Ok m" "ls_boot_id m = bid" "ls_boottime_deadline_ns m = bd"
    using make_leased_name_authentic [of sha "lo_queue_id l" bid "bucket_hex b" "shard_hex ?sh" c bd wd tok] n
    by (auto simp: boot)
  have p: "layout_produces sha l t" by (rule produces_leased [OF assms(1)])
  have sh: "?sh < lo_shard_count l" using layout_produces_shard [OF p assms(2)] by (simp add: t target_shard_def)
  then have sh16: "unat ?sh < 2 ^ 16" using small_shard [OF assms(2,3)] by blast
  have "list_all safe_component (target_parts t)" using target_parts_safe [OF p] sh16 by (simp add: t target_shard_def)
  then have "split_on CHR ''/'' (relative_path t) = target_parts t"
    unfolding relative_path_parts
    by (intro split_on_join_with) (auto simp: t target_parts_def safe_no_slash)
  then show ?thesis
    using sh sh16 m b
    by (simp add: parse_leased_path_def parse_shard_def t target_parts_def shard_from_hex_shard_hex
        is_shard_in_range_def boot Let_def result_simps)
qed

text \<open>C27. Every target path the layout builds, for a queue with a valid shard count, is a path of
  safe components that the file-system layer accepts unchanged, in a shard directory of the
  queue; and the path of a lease is read back as exactly its boot id, bucket and shard.\<close>

theorem layout_targets_valid:
  assumes "layout_produces sha l t" and "is_power_of_two (lo_shard_count l)" and "lo_shard_count l \<le> 4096"
  shows "validate_relative_path (relative_path t) = Ok (relative_path t)
    \<and> target_shard t < lo_shard_count l
    \<and> (leased_for_boot sha l c boot bd wd tok = Ok t \<longrightarrow>
         parse_leased_path l (relative_path t) = Ok (tg_location t, tg_filename t))"
proof -
  note sh = layout_produces_shard [OF assms(1,2)]
  note sh16 = small_shard [OF assms(2,3) sh]
  note safe = target_parts_safe [OF assms(1) sh16]
  have len: "length x \<le> 255" if "safe_component x" for x using that by (simp add: safe_component_def)
  have "length (relative_path t) \<le> 4095"
    using len [OF layout_produces_filename [OF assms(1)]] safe_bucket_hex(2) safe_shard_hex(2) sh16
    by (cases "tg_location t") (simp_all add: relative_path_parts target_parts_def target_shard_def)
  moreover have "target_parts t \<noteq> []" by (simp add: target_parts_def split: Location.split)
  ultimately have "validate_relative_path (relative_path t) = Ok (relative_path t)"
    using safe relative_path_parts by (subst relative_path_accepted) blast
  then show ?thesis using sh leased_target_read_back [OF _ assms(2,3)] by blast
qed

definition example_layout :: Layout where
  "example_layout = layout_new (arr_of (replicate 16 1)) 64 10 10 60 (format_boot_id (arr_of (replicate 16 9)))"

theorem layout_targets_valid_witness:
  "\<exists>t. layout_leased (\<lambda>_. arr_of (replicate 32 5)) example_layout (example_fields 1 1) 100 200
         (arr_of (replicate 16 3)) = Ok t
     \<and> validate_relative_path (relative_path t) = Ok (relative_path t)
     \<and> parse_leased_path example_layout (relative_path t) = Ok (tg_location t, tg_filename t)"
proof -
  let ?boot = "format_boot_id (arr_of (replicate 16 9))"
  let ?sha = "\<lambda>_. arr_of (replicate 32 5)"
  have "boot_id_bytes ?boot = Some (arr_of (replicate 16 9))" by (simp add: hex_iff)
  then obtain t where t: "leased_for_boot ?sha example_layout (example_fields 1 1) ?boot 100 200 (arr_of (replicate 16 3)) = Ok t"
    by (simp add: leased_for_boot_def example_layout_def layout_new_def lease_bucket_def bucket_number_def
        make_leased_name_def result_simps Let_def ok_or_def)
  have "is_power_of_two (lo_shard_count example_layout)" "lo_shard_count example_layout \<le> 4096"
    by (simp_all add: example_layout_def layout_new_def is_power_of_two_def)
  from layout_targets_valid [OF produces_leased [OF t] this] t show ?thesis
    by (auto simp: layout_leased_def example_layout_def layout_new_def)
qed

end
