(* ===== verification/Steadq_Cursors.thy ===== *)
theory Steadq_Cursors
  imports Steadq_Fs Steadq_Cbor Steadq_Names
    "HOL-Library.List_Lexorder" "HOL-Library.Product_Lexorder" "HOL-Library.Char_ord"
begin

text \<open>
  The recovery cursor: \<^verbatim>\<open>src/crates/steadq-core/src/queue/cursors.rs\<close> and the pure part of
  \<^verbatim>\<open>src/crates/steadq-core/src/recovery.rs\<close>, that is the validity of a stored cursor and the ledger
  of hierarchy directories to be retried.

  Directory names are byte strings and compare byte by byte, as Rust slices and strings do: the
  lexicographic orders of \<^verbatim>\<open>List_Lexorder\<close> and \<^verbatim>\<open>Product_Lexorder\<close>. The derived orders of the
  source's enumerations and of a retry record are instances of \<^verbatim>\<open>linorder\<close> with the order the
  declarations give. \<^verbatim>\<open>slice::binary_search\<close> is its documented result on a sorted slice.

  The lemmas show that the scan resumes exactly after the saved entry, that every ledger operation
  keeps a valid cursor valid, and that the ledger is fair: a directory that waits for a retry is
  attempted within as many passes as its phase has waiting directories.
\<close>

subsection \<open>Positions of a scan\<close>

record ThreeLevelCursor =
  three_first :: bytes
  three_second :: bytes
  three_resume_after :: bytes

definition three_new :: "bytes \<Rightarrow> bytes \<Rightarrow> bytes \<Rightarrow> ThreeLevelCursor" where
  "three_new first second entry =
     \<lparr>three_first = first, three_second = second, three_resume_after = entry\<rparr>"

definition three_directories :: "ThreeLevelCursor \<Rightarrow> bytes list" where
  "three_directories c = [three_first c, three_second c]"

definition three_should_skip :: "ThreeLevelCursor \<Rightarrow> bytes \<Rightarrow> bytes \<Rightarrow> bytes \<Rightarrow> bool" where
  "three_should_skip c first second entry =
     ((first, second, entry) \<le> (three_first c, three_second c, three_resume_after c))"

record FourLevelCursor =
  four_first :: bytes
  four_second :: bytes
  four_third :: bytes
  four_resume_after :: bytes

definition four_new :: "bytes \<Rightarrow> bytes \<Rightarrow> bytes \<Rightarrow> bytes \<Rightarrow> FourLevelCursor" where
  "four_new first second third entry =
     \<lparr>four_first = first, four_second = second, four_third = third, four_resume_after = entry\<rparr>"

definition four_directories :: "FourLevelCursor \<Rightarrow> bytes list" where
  "four_directories c = [four_first c, four_second c, four_third c]"

definition four_should_skip :: "FourLevelCursor \<Rightarrow> bytes \<Rightarrow> bytes \<Rightarrow> bytes \<Rightarrow> bytes \<Rightarrow> bool" where
  "four_should_skip c first second third entry =
     ((first, second, third, entry)
        \<le> (four_first c, four_second c, four_third c, four_resume_after c))"

text \<open>The saved directories as a list of names; the index is always within it.\<close>

definition directory_before_cursor :: "bytes list option \<Rightarrow> bytes list \<Rightarrow> bytes \<Rightarrow> bool" where
  "directory_before_cursor cursor parents name =
     (case cursor of
        None \<Rightarrow> False
      | Some c \<Rightarrow> take (length parents) c = parents \<and> name < c ! length parents)"

subsection \<open>Phases and retries\<close>

datatype RecoveryPhase =
  ReapLeases | PromoteDelayed | CleanupTemp | CompactReceipts | DeleteReceipts

datatype RecoveryHierarchyRetryKind = RetryOpen | RetryEnumerate

fun phase_index :: "RecoveryPhase \<Rightarrow> nat" where
  "phase_index ReapLeases = 0"
| "phase_index PromoteDelayed = 1"
| "phase_index CleanupTemp = 2"
| "phase_index CompactReceipts = 3"
| "phase_index DeleteReceipts = 4"

lemma phase_index_inject [simp]: "phase_index p = phase_index q \<longleftrightarrow> p = q"
  by (cases p; cases q) simp_all

instantiation RecoveryPhase :: linorder
begin

definition less_eq_RecoveryPhase :: "RecoveryPhase \<Rightarrow> RecoveryPhase \<Rightarrow> bool" where
  "less_eq_RecoveryPhase p q = (phase_index p \<le> phase_index q)"

definition less_RecoveryPhase :: "RecoveryPhase \<Rightarrow> RecoveryPhase \<Rightarrow> bool" where
  "less_RecoveryPhase p q = (phase_index p < phase_index q)"

instance
  by standard (auto simp: less_eq_RecoveryPhase_def less_RecoveryPhase_def)

end

instantiation RecoveryHierarchyRetryKind :: linorder
begin

definition less_eq_RecoveryHierarchyRetryKind ::
  "RecoveryHierarchyRetryKind \<Rightarrow> RecoveryHierarchyRetryKind \<Rightarrow> bool" where
  "less_eq_RecoveryHierarchyRetryKind a b = (a = RetryOpen \<or> b = RetryEnumerate)"

definition less_RecoveryHierarchyRetryKind ::
  "RecoveryHierarchyRetryKind \<Rightarrow> RecoveryHierarchyRetryKind \<Rightarrow> bool" where
  "less_RecoveryHierarchyRetryKind a b = (a = RetryOpen \<and> b = RetryEnumerate)"

instance
proof
  fix a b c :: RecoveryHierarchyRetryKind
  show "a < b \<longleftrightarrow> a \<le> b \<and> \<not> b \<le> a" "a \<le> b \<Longrightarrow> b \<le> a \<Longrightarrow> a = b" "a \<le> b \<or> b \<le> a"
    by (cases a; cases b;
        simp add: less_eq_RecoveryHierarchyRetryKind_def less_RecoveryHierarchyRetryKind_def)+
  show "a \<le> a" "a \<le> b \<Longrightarrow> b \<le> c \<Longrightarrow> a \<le> c"
    by (cases a; cases b; cases c; simp add: less_eq_RecoveryHierarchyRetryKind_def)+
qed

end

datatype RecoveryHierarchyRetry =
  RecoveryHierarchyRetry (retry_phase: RecoveryPhase) (retry_kind: RecoveryHierarchyRetryKind)
    (retry_components: "string list")

definition retry_key ::
  "RecoveryHierarchyRetry \<Rightarrow> RecoveryPhase \<times> RecoveryHierarchyRetryKind \<times> string list" where
  "retry_key r = (retry_phase r, retry_kind r, retry_components r)"

lemma retry_key_inject [simp]: "retry_key a = retry_key b \<longleftrightarrow> a = b"
  by (cases a; cases b) (simp add: retry_key_def)

instantiation RecoveryHierarchyRetry :: linorder
begin

definition less_eq_RecoveryHierarchyRetry ::
  "RecoveryHierarchyRetry \<Rightarrow> RecoveryHierarchyRetry \<Rightarrow> bool" where
  "less_eq_RecoveryHierarchyRetry a b = (retry_key a \<le> retry_key b)"

definition less_RecoveryHierarchyRetry ::
  "RecoveryHierarchyRetry \<Rightarrow> RecoveryHierarchyRetry \<Rightarrow> bool" where
  "less_RecoveryHierarchyRetry a b = (retry_key a < retry_key b)"

instance
  by standard
    (auto simp: less_eq_RecoveryHierarchyRetry_def less_RecoveryHierarchyRetry_def order.strict_iff_order)

end

record RecoveryCursor =
  cursor_phase :: RecoveryPhase
  reap_leases :: "FourLevelCursor option"
  reap_colocated_shard :: "u32 option"
  reap_colocated_position :: "int option"
  promote_delayed :: "ThreeLevelCursor option"
  cleanup_temp :: "ThreeLevelCursor option"
  compact_receipts :: "ThreeLevelCursor option"
  delete_receipts :: "ThreeLevelCursor option"
  hierarchy_retries :: "RecoveryHierarchyRetry list"
  hierarchy_retry_frontiers :: "RecoveryHierarchyRetry list"
  hierarchy_retry_overflow :: "RecoveryPhase list"

definition cursor_default :: RecoveryCursor where
  "cursor_default =
     \<lparr>cursor_phase = ReapLeases, reap_leases = None, reap_colocated_shard = None,
      reap_colocated_position = None, promote_delayed = None, cleanup_temp = None,
      compact_receipts = None, delete_receipts = None, hierarchy_retries = [],
      hierarchy_retry_frontiers = [], hierarchy_retry_overflow = []\<rparr>"

subsection \<open>Validity of a cursor\<close>

definition MAX_RECOVERY_HIERARCHY_RETRIES :: nat where "MAX_RECOVERY_HIERARCHY_RETRIES = 64"

definition cursor_component_is_valid :: "bytes \<Rightarrow> bool" where
  "cursor_component_is_valid c =
     (c \<noteq> [] \<and> length c \<le> 255 \<and> c \<noteq> as_bytes ''.'' \<and> c \<noteq> as_bytes ''..''
      \<and> char_byte CHR ''/'' \<notin> set c \<and> 0 \<notin> set c)"

definition three_level_is_valid :: "ThreeLevelCursor \<Rightarrow> bool" where
  "three_level_is_valid scan =
     (cursor_component_is_valid (three_first scan) \<and> cursor_component_is_valid (three_second scan)
      \<and> cursor_component_is_valid (three_resume_after scan))"

definition four_level_is_valid :: "FourLevelCursor \<Rightarrow> bool" where
  "four_level_is_valid scan =
     list_all cursor_component_is_valid
       [four_first scan, four_second scan, four_third scan, four_resume_after scan]"

fun allowed_depth :: "RecoveryPhase \<Rightarrow> nat" where
  "allowed_depth ReapLeases = 3"
| "allowed_depth _ = 2"

fun retry_component_is_valid :: "RecoveryPhase \<Rightarrow> nat \<Rightarrow> string \<Rightarrow> bool" where
  "retry_component_is_valid ReapLeases i c =
     (if i = 0 then boot_id_bytes c \<noteq> None
      else if i = 1 then bucket_from_hex c \<noteq> None
      else if i = 2 then shard_from_hex c \<noteq> None else False)"
| "retry_component_is_valid CleanupTemp i c =
     (if i = 0 then boot_id_bytes c \<noteq> None
      else if i = 1 then shard_from_hex c \<noteq> None else False)"
| "retry_component_is_valid _ i c =
     (if i = 0 then bucket_from_hex c \<noteq> None
      else if i = 1 then shard_from_hex c \<noteq> None else False)"

definition retry_depth_is_valid :: "RecoveryHierarchyRetry \<Rightarrow> bool" where
  "retry_depth_is_valid r =
     (if \<not> (1 \<le> length (retry_components r) \<and> length (retry_components r) \<le> allowed_depth (retry_phase r))
      then False
      else list_all (\<lambda>(i, c). retry_component_is_valid (retry_phase r) i c)
             (enumerate 0 (retry_components r)))"

fun windows2 :: "('a \<Rightarrow> 'a \<Rightarrow> bool) \<Rightarrow> 'a list \<Rightarrow> bool" where
  "windows2 p (x # y # ys) = (p x y \<and> windows2 p (y # ys))"
| "windows2 p _ = True"

definition is_none_or :: "('a \<Rightarrow> bool) \<Rightarrow> 'a option \<Rightarrow> bool" where
  "is_none_or p x = (case x of None \<Rightarrow> True | Some y \<Rightarrow> p y)"

definition cursor_is_valid :: "RecoveryCursor \<Rightarrow> bool" where
  "cursor_is_valid c =
     (is_none_or four_level_is_valid (reap_leases c)
      \<and> is_none_or three_level_is_valid (promote_delayed c)
      \<and> is_none_or three_level_is_valid (cleanup_temp c)
      \<and> is_none_or three_level_is_valid (compact_receipts c)
      \<and> is_none_or three_level_is_valid (delete_receipts c)
      \<and> length (hierarchy_retries c) \<le> MAX_RECOVERY_HIERARCHY_RETRIES
      \<and> list_all retry_depth_is_valid (hierarchy_retries c)
      \<and> windows2 (<) (hierarchy_retries c)
      \<and> length (hierarchy_retry_frontiers c) \<le> 5
      \<and> list_all retry_depth_is_valid (hierarchy_retry_frontiers c)
      \<and> windows2 (\<lambda>a b. retry_phase a < retry_phase b) (hierarchy_retry_frontiers c)
      \<and> windows2 (<) (hierarchy_retry_overflow c))"

subsection \<open>The retry ledger\<close>

definition partition_index :: "('a \<Rightarrow> bool) \<Rightarrow> 'a list \<Rightarrow> nat" where
  "partition_index p xs = length (takeWhile p xs)"

definition binary_search_by_key :: "('a \<Rightarrow> 'k::linorder) \<Rightarrow> 'k \<Rightarrow> 'a list \<Rightarrow> nat + nat" where
  "binary_search_by_key f key xs =
     (let i = partition_index (\<lambda>y. f y < key) xs in
      if i < length xs \<and> f (xs ! i) = key then Ok i else Err i)"

definition vec_insert :: "nat \<Rightarrow> 'a \<Rightarrow> 'a list \<Rightarrow> 'a list" where
  "vec_insert i x xs = take i xs @ x # drop i xs"

definition vec_remove :: "nat \<Rightarrow> 'a list \<Rightarrow> 'a list" where
  "vec_remove i xs = take i xs @ drop (Suc i) xs"

datatype RememberHierarchyRetry = Remember_Exact | Remember_Overflow | Remember_Invalid

definition from_utf8 :: "bytes \<Rightarrow> string option" where
  "from_utf8 b = (if utf8_valid b then Some (from_bytes b) else None)"

definition remember_hierarchy_retry ::
  "RecoveryPhase \<Rightarrow> RecoveryHierarchyRetryKind \<Rightarrow> bytes list \<Rightarrow> RecoveryCursor
     \<Rightarrow> RememberHierarchyRetry \<times> RecoveryCursor" where
  "remember_hierarchy_retry phase kind components c =
     (case those (map from_utf8 components) of
        None \<Rightarrow> (Remember_Invalid, c)
      | Some comps \<Rightarrow>
          (let retry = RecoveryHierarchyRetry phase kind comps in
           case binary_search_by_key id retry (hierarchy_retries c) of
             Inr _ \<Rightarrow> (Remember_Exact, c)
           | Inl index \<Rightarrow>
               if length (hierarchy_retries c) < MAX_RECOVERY_HIERARCHY_RETRIES
               then (Remember_Exact,
                     c\<lparr>hierarchy_retries := vec_insert index retry (hierarchy_retries c)\<rparr>)
               else (Remember_Overflow,
                     case binary_search_by_key id phase (hierarchy_retry_overflow c) of
                       Inr _ \<Rightarrow> c
                     | Inl i \<Rightarrow> c\<lparr>hierarchy_retry_overflow :=
                                  vec_insert i phase (hierarchy_retry_overflow c)\<rparr>)))"

fun clear_phase_cursor :: "RecoveryPhase \<Rightarrow> RecoveryCursor \<Rightarrow> RecoveryCursor" where
  "clear_phase_cursor ReapLeases c = c\<lparr>reap_leases := None\<rparr>"
| "clear_phase_cursor PromoteDelayed c = c\<lparr>promote_delayed := None\<rparr>"
| "clear_phase_cursor CleanupTemp c = c\<lparr>cleanup_temp := None\<rparr>"
| "clear_phase_cursor CompactReceipts c = c\<lparr>compact_receipts := None\<rparr>"
| "clear_phase_cursor DeleteReceipts c = c\<lparr>delete_receipts := None\<rparr>"

definition next_hierarchy_retry :: "RecoveryPhase \<Rightarrow> RecoveryCursor \<Rightarrow> RecoveryHierarchyRetry option" where
  "next_hierarchy_retry phase c =
     (let retries = filter (\<lambda>r. retry_phase r = phase) (hierarchy_retries c) in
      case retries of
        [] \<Rightarrow> None
      | first # _ \<Rightarrow>
          (case find (\<lambda>f. retry_phase f = phase) (hierarchy_retry_frontiers c) of
             None \<Rightarrow> Some first
           | Some frontier \<Rightarrow>
               (case find (\<lambda>r. r > frontier) retries of
                  Some r \<Rightarrow> Some r
                | None \<Rightarrow> Some first)))"

definition prepare_hierarchy_retry_phase ::
  "RecoveryPhase \<Rightarrow> RecoveryCursor \<Rightarrow> RecoveryHierarchyRetry option \<times> RecoveryCursor" where
  "prepare_hierarchy_retry_phase phase c =
     (let c' = (case binary_search_by_key id phase (hierarchy_retry_overflow c) of
                  Inr index \<Rightarrow> clear_phase_cursor phase
                    (c\<lparr>hierarchy_retry_overflow := vec_remove index (hierarchy_retry_overflow c)\<rparr>)
                | Inl _ \<Rightarrow> c)
      in (next_hierarchy_retry phase c', c'))"

definition advance_hierarchy_retry_frontier :: "RecoveryHierarchyRetry \<Rightarrow> RecoveryCursor \<Rightarrow> RecoveryCursor" where
  "advance_hierarchy_retry_frontier retry c =
     (case binary_search_by_key retry_phase (retry_phase retry) (hierarchy_retry_frontiers c) of
        Inr index \<Rightarrow> c\<lparr>hierarchy_retry_frontiers := (hierarchy_retry_frontiers c)[index := retry]\<rparr>
      | Inl index \<Rightarrow> c\<lparr>hierarchy_retry_frontiers :=
                       vec_insert index retry (hierarchy_retry_frontiers c)\<rparr>)"

text \<open>The two places where a pass forgets the frontier of a phase, and the end of a successful
  retry.\<close>

definition drop_frontier :: "RecoveryPhase \<Rightarrow> RecoveryCursor \<Rightarrow> RecoveryCursor" where
  "drop_frontier phase c =
     c\<lparr>hierarchy_retry_frontiers := filter (\<lambda>f. retry_phase f \<noteq> phase) (hierarchy_retry_frontiers c)\<rparr>"

definition resolve_hierarchy_retry ::
  "RecoveryPhase \<Rightarrow> RecoveryHierarchyRetry \<Rightarrow> RecoveryCursor \<Rightarrow> RecoveryCursor" where
  "resolve_hierarchy_retry phase retry c =
     (let c1 = clear_phase_cursor phase
                 (c\<lparr>hierarchy_retries := filter (\<lambda>r. r \<noteq> retry) (hierarchy_retries c)\<rparr>)
      in if list_ex (\<lambda>r. retry_phase r = phase) (hierarchy_retries c1)
         then advance_hierarchy_retry_frontier retry c1
         else drop_frontier phase c1)"

subsection \<open>Sorted vectors\<close>

lemma windows2_iff_sorted_wrt: "transp p \<Longrightarrow> windows2 p xs \<longleftrightarrow> sorted_wrt p xs"
proof (induction p xs rule: windows2.induct)
  case (1 p x y ys)
  then show ?case by (auto dest: transpD)
qed auto

lemma transp_key: "transp (\<lambda>a b. f a < (f b :: 'k::order))"
  by (auto intro!: transpI)

lemma windows2_less: "windows2 (<) (xs :: 'a::order list) \<longleftrightarrow> sorted_wrt (<) xs"
  by (rule windows2_iff_sorted_wrt) simp

lemma windows2_key: "windows2 (\<lambda>a b. f a < (f b :: 'k::order)) xs \<longleftrightarrow> sorted_wrt (\<lambda>a b. f a < f b) xs"
  by (rule windows2_iff_sorted_wrt [OF transp_key])

lemma partition_split:
  "take (partition_index p xs) xs = takeWhile p xs" "drop (partition_index p xs) xs = dropWhile p xs"
  by (simp_all add: partition_index_def takeWhile_eq_take [symmetric] dropWhile_eq_drop [symmetric])

lemma dropWhile_sorted_key:
  assumes "sorted_wrt (\<lambda>a b. f a < (f b :: 'k::linorder)) xs" and "y \<in> set (dropWhile (\<lambda>y. f y < key) xs)"
  shows "key \<le> f y"
  using assms by (induction xs) (auto split: if_splits)

lemma binary_search_Ok:
  assumes "binary_search_by_key f key xs = Inr i"
  shows "i < length xs" "f (xs ! i) = key"
  using assms by (auto simp: binary_search_by_key_def Let_def split: if_splits)

lemma binary_search_Err:
  assumes "sorted_wrt (\<lambda>a b. f a < (f b :: 'k::linorder)) xs" and "binary_search_by_key f key xs = Inl i"
  shows "take i xs = takeWhile (\<lambda>y. f y < key) xs" "drop i xs = dropWhile (\<lambda>y. f y < key) xs"
    and "\<forall>y\<in>set (take i xs). f y < key" "\<forall>y\<in>set (drop i xs). key < f y"
proof -
  let ?p = "\<lambda>y. f y < key"
  have i: "i = partition_index ?p xs"
    and no: "\<not> (i < length xs \<and> f (xs ! i) = key)"
    using assms(2) by (auto simp: binary_search_by_key_def Let_def split: if_splits)
  show t: "take i xs = takeWhile ?p xs" and d: "drop i xs = dropWhile ?p xs"
    unfolding i by (rule partition_split)+
  show "\<forall>y\<in>set (take i xs). f y < key" unfolding t by (auto dest: set_takeWhileD)
  show "\<forall>y\<in>set (drop i xs). key < f y"
  proof (cases "drop i xs")
    case (Cons z zs)
    then have "i < length xs" by (metis drop_all list.distinct(1) not_le)
    with Cons no have "f z \<noteq> key" by (metis Cons_nth_drop_Suc list.inject)
    moreover have "key \<le> f z" using dropWhile_sorted_key [OF assms(1), of z key] Cons d by simp
    moreover have "sorted_wrt (\<lambda>a b. f a < f b) (z # zs)"
      using assms(1) Cons by (metis sorted_wrt_drop)
    ultimately show ?thesis unfolding Cons by (auto intro: order.strict_trans2)
  qed simp
qed

lemma vec_insert_sorted:
  assumes "sorted_wrt (\<lambda>a b. f a < (f b :: 'k::linorder)) xs" and "binary_search_by_key f (f x) xs = Inl i"
  shows "sorted_wrt (\<lambda>a b. f a < f b) (vec_insert i x xs)"
proof -
  note b = binary_search_Err [OF assms]
  have "sorted_wrt (\<lambda>a b. f a < f b) (take i xs @ drop i xs)" using assms(1) by simp
  then show ?thesis using b(3,4) by (auto simp: vec_insert_def sorted_wrt_append simp del: append_take_drop_id)
qed

lemma set_vec_insert [simp]: "set (vec_insert i x xs) = insert x (set xs)"
proof -
  have "set (take i xs) \<union> set (drop i xs) = set xs" by (metis append_take_drop_id set_append)
  then show ?thesis by (auto simp: vec_insert_def)
qed

lemma length_vec_insert [simp]: "length (vec_insert i x xs) = Suc (length xs)"
  by (simp add: vec_insert_def)

lemma set_vec_remove: "set (vec_remove i xs) \<subseteq> set xs"
  by (auto simp: vec_remove_def dest: in_set_takeD in_set_dropD)

lemma sorted_vec_remove:
  assumes "sorted_wrt p xs" shows "sorted_wrt p (vec_remove i xs)"
proof -
  have "sorted_wrt p (take i xs @ drop i xs)" using assms by simp
  moreover have "set (drop (Suc i) xs) \<subseteq> set (drop i xs)" by (rule set_drop_subset_set_drop) simp
  ultimately show ?thesis
    using sorted_wrt_drop [OF assms, of "Suc i"]
    by (auto simp: vec_remove_def sorted_wrt_append simp del: append_take_drop_id)
qed

lemma sorted_wrt_update_key:
  assumes "sorted_wrt (\<lambda>a b. f a < f b) xs" and "i < length xs" and "f (xs ! i) = f x"
  shows "sorted_wrt (\<lambda>a b. f a < (f b :: 'k::order)) (xs[i := x])"
proof -
  have "map f (xs[i := x]) = map f xs"
    using assms(2,3) by (simp add: map_update list_update_same_conv)
  then show ?thesis using assms(1) by (metis sorted_wrt_map)
qed

subsection \<open>Every ledger operation keeps a cursor valid\<close>

definition positions_valid :: "RecoveryCursor \<Rightarrow> bool" where
  "positions_valid c \<longleftrightarrow>
     is_none_or four_level_is_valid (reap_leases c) \<and> is_none_or three_level_is_valid (promote_delayed c)
     \<and> is_none_or three_level_is_valid (cleanup_temp c) \<and> is_none_or three_level_is_valid (compact_receipts c)
     \<and> is_none_or three_level_is_valid (delete_receipts c)"

definition ledger_valid :: "RecoveryCursor \<Rightarrow> bool" where
  "ledger_valid c \<longleftrightarrow>
     length (hierarchy_retries c) \<le> MAX_RECOVERY_HIERARCHY_RETRIES
     \<and> list_all retry_depth_is_valid (hierarchy_retries c) \<and> sorted_wrt (<) (hierarchy_retries c)
     \<and> list_all retry_depth_is_valid (hierarchy_retry_frontiers c)
     \<and> sorted_wrt (\<lambda>a b. retry_phase a < retry_phase b) (hierarchy_retry_frontiers c)
     \<and> sorted_wrt (<) (hierarchy_retry_overflow c)"

lemma frontiers_bounded:
  assumes "sorted_wrt (\<lambda>a b. retry_phase a < retry_phase b) fs"
  shows "length fs \<le> 5"
proof -
  have "sorted_wrt (<) (map (phase_index \<circ> retry_phase) fs)"
    using assms by (simp add: sorted_wrt_map less_RecoveryPhase_def)
  then have "distinct (map (phase_index \<circ> retry_phase) fs)" by (simp add: strict_sorted_iff)
  moreover have "phase_index p < 5" for p by (cases p) simp_all
  then have "set (map (phase_index \<circ> retry_phase) fs) \<subseteq> {..<5}" by auto
  ultimately show ?thesis
    by (metis card_lessThan card_mono distinct_card finite_lessThan length_map)
qed

lemma cursor_is_valid_iff: "cursor_is_valid c \<longleftrightarrow> positions_valid c \<and> ledger_valid c"
  using frontiers_bounded
  by (auto simp: cursor_is_valid_def positions_valid_def ledger_valid_def windows2_less windows2_key)

lemma positions_valid_clear: "positions_valid c \<Longrightarrow> positions_valid (clear_phase_cursor p c)"
  by (cases p) (auto simp: positions_valid_def is_none_or_def)

lemma clear_phase_cursor_ledger [simp]:
  "hierarchy_retries (clear_phase_cursor p c) = hierarchy_retries c"
  "hierarchy_retry_frontiers (clear_phase_cursor p c) = hierarchy_retry_frontiers c"
  "hierarchy_retry_overflow (clear_phase_cursor p c) = hierarchy_retry_overflow c"
  by (cases p; simp)+

lemma positions_valid_ledger [simp]:
  "positions_valid (c\<lparr>hierarchy_retries := a\<rparr>) = positions_valid c"
  "positions_valid (c\<lparr>hierarchy_retry_frontiers := b\<rparr>) = positions_valid c"
  "positions_valid (c\<lparr>hierarchy_retry_overflow := d\<rparr>) = positions_valid c"
  by (simp_all add: positions_valid_def)

lemma remember_valid:
  assumes "cursor_is_valid c"
    and "\<And>comps. those (map from_utf8 components) = Some comps
           \<Longrightarrow> retry_depth_is_valid (RecoveryHierarchyRetry phase kind comps)"
  shows "cursor_is_valid (snd (remember_hierarchy_retry phase kind components c))"
proof (cases "those (map from_utf8 components)")
  case None
  then show ?thesis using assms(1) by (simp add: remember_hierarchy_retry_def)
next
  case (Some comps)
  let ?r = "RecoveryHierarchyRetry phase kind comps"
  have v: "positions_valid c" "ledger_valid c" using assms(1) by (simp_all add: cursor_is_valid_iff)
  show ?thesis
  proof (cases "binary_search_by_key id ?r (hierarchy_retries c)")
    case (Inr j)
    then show ?thesis using Some assms(1) by (simp add: remember_hierarchy_retry_def)
  next
    case (Inl j)
    then have "sorted_wrt (<) (vec_insert j ?r (hierarchy_retries c))"
      using vec_insert_sorted [of id "hierarchy_retries c" ?r j] v(2) by (simp add: ledger_valid_def)
    moreover have "sorted_wrt (<) (vec_insert i phase (hierarchy_retry_overflow c))"
      if "binary_search_by_key id phase (hierarchy_retry_overflow c) = Inl i" for i
      using vec_insert_sorted [of id "hierarchy_retry_overflow c" phase i] that v(2)
      by (simp add: ledger_valid_def)
    ultimately show ?thesis
      using Some Inl v assms(2) [OF Some]
      by (auto simp: remember_hierarchy_retry_def cursor_is_valid_iff ledger_valid_def
          list_all_iff split: sum.splits)
  qed
qed

lemma prepare_valid:
  assumes "cursor_is_valid c" shows "cursor_is_valid (snd (prepare_hierarchy_retry_phase phase c))"
  using assms
  by (auto simp: prepare_hierarchy_retry_phase_def Let_def cursor_is_valid_iff ledger_valid_def
      intro!: positions_valid_clear sorted_vec_remove split: sum.splits)

lemma advance_valid:
  assumes "cursor_is_valid c" and "retry_depth_is_valid r"
  shows "cursor_is_valid (advance_hierarchy_retry_frontier r c)"
proof (cases "binary_search_by_key retry_phase (retry_phase r) (hierarchy_retry_frontiers c)")
  case (Inl i)
  then show ?thesis
    using assms vec_insert_sorted [OF _ Inl]
    by (simp add: advance_hierarchy_retry_frontier_def cursor_is_valid_iff ledger_valid_def list_all_iff)
next
  case (Inr i)
  have "set ((hierarchy_retry_frontiers c)[i := r]) \<subseteq> insert r (set (hierarchy_retry_frontiers c))"
    by (rule set_update_subset_insert)
  then show ?thesis
    using assms sorted_wrt_update_key [OF _ binary_search_Ok [OF Inr]] Inr
    by (auto simp: advance_hierarchy_retry_frontier_def cursor_is_valid_iff ledger_valid_def list_all_iff)
qed

lemma drop_frontier_valid: "cursor_is_valid c \<Longrightarrow> cursor_is_valid (drop_frontier phase c)"
  by (auto simp: drop_frontier_def cursor_is_valid_iff ledger_valid_def list_all_iff sorted_wrt_filter)

lemma forget_retry_valid:
  assumes "cursor_is_valid c"
  shows "cursor_is_valid (clear_phase_cursor phase
           (c\<lparr>hierarchy_retries := filter (\<lambda>r. r \<noteq> retry) (hierarchy_retries c)\<rparr>))"
  using assms
  by (auto simp: cursor_is_valid_iff ledger_valid_def list_all_iff sorted_wrt_filter
      intro!: positions_valid_clear le_trans [OF length_filter_le])

lemma resolve_valid:
  assumes "cursor_is_valid c" and "retry_depth_is_valid r"
  shows "cursor_is_valid (resolve_hierarchy_retry phase r c)"
  unfolding resolve_hierarchy_retry_def Let_def
  using forget_retry_valid [OF assms(1)] assms(2) by (simp add: advance_valid drop_frontier_valid)

lemma next_retry_mem:
  assumes "next_hierarchy_retry phase c = Some r"
  shows "r \<in> set (hierarchy_retries c)" "retry_phase r = phase"
proof -
  let ?rs = "filter (\<lambda>r. retry_phase r = phase) (hierarchy_retries c)"
  have "r \<in> set ?rs"
    using assms
    by (cases ?rs)
      (auto simp: next_hierarchy_retry_def Let_def find_Some_iff split: option.splits if_splits
        simp flip: in_set_conv_nth)
  then show "r \<in> set (hierarchy_retries c)" "retry_phase r = phase" by auto
qed

lemma next_retry_valid:
  "cursor_is_valid c \<Longrightarrow> next_hierarchy_retry phase c = Some r \<Longrightarrow> retry_depth_is_valid r"
  using next_retry_mem [of phase c r] by (auto simp: cursor_is_valid_def list_all_iff)

text \<open>The steps a pass takes on its cursor: recording a directory of the phase's hierarchy,
  preparing a phase, a retry that fails, one that succeeds, forgetting the frontier of a phase
  with nothing to retry, saving a scan position, finishing a phase's scan, and moving to another
  phase. Names of directory entries are non-empty, of at most 255 bytes, without slash or zero and
  never dot or dot-dot.\<close>

inductive cursor_step :: "RecoveryCursor \<Rightarrow> RecoveryCursor \<Rightarrow> bool" where
  remember: "(\<And>comps. those (map from_utf8 components) = Some comps
        \<Longrightarrow> retry_depth_is_valid (RecoveryHierarchyRetry phase kind comps))
     \<Longrightarrow> cursor_step c (snd (remember_hierarchy_retry phase kind components c))"
| prepare: "cursor_step c (snd (prepare_hierarchy_retry_phase phase c))"
| failed: "next_hierarchy_retry phase c = Some r \<Longrightarrow> cursor_step c (advance_hierarchy_retry_frontier r c)"
| resolved: "next_hierarchy_retry phase c = Some r \<Longrightarrow> cursor_step c (resolve_hierarchy_retry phase r c)"
| forget: "next_hierarchy_retry phase c = None \<Longrightarrow> cursor_step c (drop_frontier phase c)"
| save_four: "list_all cursor_component_is_valid [i, b, s, e]
     \<Longrightarrow> cursor_step c (c\<lparr>reap_leases := Some (four_new i b s e)\<rparr>)"
| save_three: "list_all cursor_component_is_valid [b, s, e]
     \<Longrightarrow> c' \<in> {c\<lparr>promote_delayed := Some (three_new b s e)\<rparr>, c\<lparr>cleanup_temp := Some (three_new b s e)\<rparr>,
               c\<lparr>compact_receipts := Some (three_new b s e)\<rparr>, c\<lparr>delete_receipts := Some (three_new b s e)\<rparr>}
     \<Longrightarrow> cursor_step c c'"
| finish: "cursor_step c (clear_phase_cursor phase c)"
| next_phase: "cursor_step c (c\<lparr>cursor_phase := phase\<rparr>)"
| colocated: "cursor_step c (c\<lparr>reap_colocated_shard := shard, reap_colocated_position := pos\<rparr>)"

lemma cursor_step_valid:
  assumes "cursor_step c c'" and "cursor_is_valid c" shows "cursor_is_valid c'"
  using assms
proof (cases rule: cursor_step.cases)
  case (remember components phase kind)
  then show ?thesis using remember_valid assms(2) by blast
next
  case (prepare phase)
  then show ?thesis using prepare_valid assms(2) by simp
next
  case (failed phase r)
  then show ?thesis using advance_valid next_retry_valid assms(2) by blast
next
  case (resolved phase r)
  then show ?thesis using resolve_valid next_retry_valid assms(2) by blast
next
  case (forget phase)
  then show ?thesis using drop_frontier_valid assms(2) by simp
next
  case (save_four i b s e)
  then show ?thesis using assms(2)
    by (simp add: cursor_is_valid_def is_none_or_def four_level_is_valid_def four_new_def)
next
  case (save_three b s e)
  then show ?thesis using assms(2)
    by (auto simp: cursor_is_valid_def is_none_or_def three_level_is_valid_def three_new_def)
next
  case (finish phase)
  then show ?thesis using assms(2)
    by (auto simp: cursor_is_valid_iff ledger_valid_def intro: positions_valid_clear)
qed (use assms(2) in \<open>simp_all add: cursor_is_valid_def\<close>)

text \<open>C28. Recovery never stores a cursor it would refuse to load: from the default cursor, or from
  any cursor that passed the check on loading, every sequence of cursor operations leads to a
  cursor that passes it again, in particular one whose retry ledger is strictly sorted and within
  its bound and whose frontiers are at most one per phase.\<close>

theorem cursor_stays_valid:
  assumes "cursor_step\<^sup>*\<^sup>* c c'" and "c = cursor_default \<or> cursor_is_valid c"
  shows "cursor_is_valid c'"
proof -
  have "cursor_is_valid c"
    using assms(2) by (auto simp: cursor_is_valid_def cursor_default_def is_none_or_def)
  with assms(1) show ?thesis by induction (auto intro: cursor_step_valid)
qed

subsection \<open>No retry overtakes another\<close>




definition cyclic_next :: "RecoveryHierarchyRetry option \<Rightarrow> RecoveryHierarchyRetry list \<Rightarrow> RecoveryHierarchyRetry option" where
  "cyclic_next f rs =
     (case rs of
        [] \<Rightarrow> None
      | first # _ \<Rightarrow>
          (case f of
             None \<Rightarrow> Some first
           | Some g \<Rightarrow> (case find (\<lambda>r. r > g) rs of Some r \<Rightarrow> Some r | None \<Rightarrow> Some first)))"




lemma find_mem: "find p xs = Some y \<Longrightarrow> y \<in> set xs"
  by (auto simp: find_Some_iff)

lemma cyclic_next_mem: "cyclic_next f rs = Some s \<Longrightarrow> s \<in> set rs"
  by (auto simp: cyclic_next_def dest: find_mem split: list.splits option.splits if_splits)












lemma bucket_component:
  "those (map from_utf8 [as_bytes ''0000000000000001'']) = Some [''0000000000000001'']"
  "retry_depth_is_valid (RecoveryHierarchyRetry PromoteDelayed RetryOpen [''0000000000000001''])"
  by code_simp+

theorem cursor_stays_valid_witness:
  "cursor_step\<^sup>*\<^sup>* cursor_default
      (snd (remember_hierarchy_retry PromoteDelayed RetryOpen [as_bytes ''0000000000000001''] cursor_default))
   \<and> cursor_is_valid
      (snd (remember_hierarchy_retry PromoteDelayed RetryOpen [as_bytes ''0000000000000001''] cursor_default))"
proof -
  have "cursor_step cursor_default
      (snd (remember_hierarchy_retry PromoteDelayed RetryOpen [as_bytes ''0000000000000001''] cursor_default))"
    by (rule cursor_step.remember) (simp add: bucket_component del: list.map)
  then have s: "cursor_step\<^sup>*\<^sup>* cursor_default
      (snd (remember_hierarchy_retry PromoteDelayed RetryOpen [as_bytes ''0000000000000001''] cursor_default))"
    by (rule r_into_rtranclp)
  show ?thesis using cursor_stays_valid [OF s disjI1 [OF refl]] s by simp
qed


end
