(* ===== verification/Steadq_Queue.thy ===== *)
theory Steadq_Queue
  imports Steadq_Verified Steadq_Layout Steadq_Cursors Steadq_Math
begin

text \<open>
  The queue handle of \<^verbatim>\<open>src/crates/steadq-core/src/queue/mod.rs\<close> and the wall watermark of
  \<^verbatim>\<open>src/crates/steadq-core/src/queue/watermark.rs\<close>.

  A method of the handle is a procedure on a \<open>qworld\<close>: the fields of the handle, the dirty set the
  caller has lent to the operation (the \<^verbatim>\<open>Option<&mut DirtySet>\<close> argument of the source), and the
  world of the file-system layer. The interior mutability of the source (\<^verbatim>\<open>RefCell\<close>) is the same
  state. What lies outside the repository is the environment \<open>'s env\<close>: the kernel, SHA-256 and the
  library's duplication of descriptors. Closing descriptors, and with it the release of locks and
  of the advisory inotify watch, is not represented.
\<close>

subsection \<open>The handle and its procedures\<close>

record 's env =
  env_os :: "'s os"
  env_sha :: sha256
  env_clone :: "fd \<Rightarrow> ('s, IoError + fd) sysproc"

record WallFloor =
  wf_unix_ns :: u64
  wf_watermark_bucket :: u64
  wf_watermark_sequence :: u64

record Queue =
  q_root_fd :: fd
  q_root_path :: bytes
  q_format :: FormatRecord
  q_boot_id :: string
  q_boot_id_bytes :: id128
  q_poisoned :: "PoisonReason option"
  q_scan_round :: u64
  q_ready_shard_hint :: "u32 option"
  q_worker_nonce :: id128
  q_options :: OpenOptions
  q_maint_lock_fd :: "fd option"
  q_recovery_cursor :: RecoveryCursor
  q_cached_wall_floor :: "WallFloor option"
  q_cached_watermark_fd :: "fd option"
  q_known_dirs :: "string set"
  q_cached_dest_fd :: "(string \<times> fd) option"
  q_publication_mode :: "PublicationMode option"
  q_deferred_dir_sync :: bool
  q_dirty :: DirtySet
  q_ready_watch :: "fd option"
  q_ready_watch_attempted :: bool

record 's qworld =
  qw_queue :: Queue
  qw_lent :: "DirtySet option"
  qw_sys :: "'s world"

type_synonym ('s, 'a) qproc = "('s qworld, 'a) proc"

definition lift :: "('s, 'a) sysproc \<Rightarrow> ('s, 'a) qproc" where
  "lift m = (\<lambda>q. case m (qw_sys q) of None \<Rightarrow> None | Some (x, w) \<Rightarrow> Some (x, q\<lparr>qw_sys := w\<rparr>))"

definition asks :: "(Queue \<Rightarrow> 'a) \<Rightarrow> ('s, 'a) qproc" where
  "asks f = (\<lambda>q. Some (f (qw_queue q), q))"

definition modifies :: "(Queue \<Rightarrow> Queue) \<Rightarrow> ('s, unit) qproc" where
  "modifies f = (\<lambda>q. Some ((), q\<lparr>qw_queue := f (qw_queue q)\<rparr>))"

definition lent :: "('s, DirtySet option) qproc" where
  "lent = (\<lambda>q. Some (qw_lent q, q))"

definition set_lent :: "DirtySet option \<Rightarrow> ('s, unit) qproc" where
  "set_lent d = (\<lambda>q. Some ((), q\<lparr>qw_lent := d\<rparr>))"

text \<open>Lending a dirty set to an operation, and getting it back.\<close>

definition lending :: "DirtySet option \<Rightarrow> ('s, 'a) qproc \<Rightarrow> ('s, 'a \<times> DirtySet option) qproc" where
  "lending d m =
     io_bind lent (\<lambda>outer. io_bind (set_lent d) (\<lambda>_. io_bind m (\<lambda>x.
       io_bind lent (\<lambda>d'. io_bind (set_lent outer) (\<lambda>_. io_return (x, d'))))))"

definition strictly :: "('s, 'a) qproc \<Rightarrow> ('s, 'a) qproc" where
  "strictly m = io_map fst (lending None m)"

text \<open>The \<^verbatim>\<open>map_err(Error::from)\<close> of the source.\<close>

definition from_io :: "('s, IoError + 'a) sysproc \<Rightarrow> ('s, Error + 'a) qproc" where
  "from_io m = lift (io_map_err error_from_io m)"

subsection \<open>Texts\<close>

fun error_text :: "Error \<Rightarrow> string" where
  "error_text ResourceExhausted = ''resource exhausted''"
| "error_text StateExhausted = ''state exhausted''"
| "error_text IdentityCollision = ''identity collision''"
| "error_text (InvalidInput s) = ''invalid input: '' @ s"
| "error_text (InvalidTicket s) = ''invalid transition ticket: '' @ s"
| "error_text UnsupportedFilesystem = ''unsupported filesystem''"
| "error_text UnsupportedFormat = ''unsupported format''"
| "error_text InvalidClock = ''invalid clock''"
| "error_text MaintenanceBusy = ''maintenance busy''"
| "error_text (QueueCorrupt s) = ''queue corrupt: '' @ s"
| "error_text PayloadCorrupt = ''payload corrupt''"
| "error_text (QueuePoisoned s) = ''queue poisoned: '' @ s"
| "error_text PermissionDenied = ''permission denied''"
| "error_text (IoFailure s) = ''io failure: '' @ s"

fun move_phase_text :: "MovePhase \<Rightarrow> string" where
  "move_phase_text EnsureDest = ''EnsureDest''"
| "move_phase_text PreRename = ''PreRename''"
| "move_phase_text Phase_Rename = ''Rename''"
| "move_phase_text DestinationIdentity = ''DestinationIdentity''"
| "move_phase_text PostLinearization = ''PostLinearization''"
| "move_phase_text DestFsync = ''DestFsync''"
| "move_phase_text SourceFsync = ''SourceFsync''"

subsection \<open>Poisoning\<close>

definition is_poisoned :: "Queue \<Rightarrow> bool" where
  "is_poisoned q = (q_poisoned q \<noteq> None)"

definition check_not_poisoned :: "Queue \<Rightarrow> Error + unit" where
  "check_not_poisoned q =
     (case q_poisoned q of Some reason \<Rightarrow> Err (QueuePoisoned (poison_reason_text reason)) | None \<Rightarrow> Ok ())"

definition poison :: "PoisonReason \<Rightarrow> Queue \<Rightarrow> Queue" where
  "poison reason q = q\<lparr>q_poisoned := (case q_poisoned q of Some r \<Rightarrow> Some r | None \<Rightarrow> Some reason)\<rparr>"

definition queue_layout :: "Queue \<Rightarrow> Layout" where
  "queue_layout q =
     layout_new (fmt_queue_id (q_format q)) (fmt_shard_count (q_format q))
       (fmt_lease_bucket_width_ns (q_format q)) (fmt_delayed_bucket_width_ns (q_format q))
       (fmt_terminal_bucket_width_ns (q_format q)) (q_boot_id q)"

subsection \<open>Witnesses and classification\<close>

record ClaimSourceWitness =
  cw_file_fd :: fd
  cw_device :: u64
  cw_inode :: u64
  cw_evidence :: TicketEvidence

record LeasedSourceWitness =
  lw_directory_fd :: fd
  lw_name :: string
  lw_file_fd :: fd
  lw_device :: u64
  lw_inode :: u64

record VerifiedPayloadReader =
  pr_file_fd :: fd
  pr_payload_start :: u64
  pr_payload_len :: u64

text \<open>The bytes read, instead of their number in a caller's buffer of length \<open>len\<close>.\<close>

definition read_at :: "'s os \<Rightarrow> VerifiedPayloadReader \<Rightarrow> nat \<Rightarrow> u64 \<Rightarrow> ('s, Error + bytes) sysproc" where
  "read_at k r len offset =
     (if offset \<ge> pr_payload_len r \<or> len = 0 then io_return (Ok [])
      else
        let to_read = min len (unat (pr_payload_len r - offset)); abs_offset = pr_payload_start r + offset
        in io_try (io_map_err error_from_io (pread k (pr_file_fd r) to_read abs_offset)) (\<lambda>bs.
             if bs = [] then io_return (Err (QueueCorrupt ''unexpected EOF during payload read''))
             else io_return (Ok bs)))"

datatype LeasedMoveOutcome =
    LeasedMove_Committed
  | LeasedMove_OutcomeUnknown TransitionPhase
  | LeasedMove_SourceGone
  | LeasedMove_SourceChanged
  | LeasedMove_Collision
  | LeasedMove_Failed Error

datatype WitnessPathObservation = Observed_Match | Observed_Gone | Observed_Mismatch

datatype LeaseDirectoryOpenFailure = Directory_Gone | InvalidDirectory | Directory_Io

datatype PresenceFailure = Presence_Absent | Presence_Io

definition is_singly_linked_regular :: "u32 \<Rightarrow> u64 \<Rightarrow> bool" where
  "is_singly_linked_regular mode link_count = (mode AND S_IFMT = S_IFREG \<and> link_count = 1)"

definition device_inode_match :: "u64 \<Rightarrow> u64 \<Rightarrow> u64 \<Rightarrow> u64 \<Rightarrow> bool" where
  "device_inode_match device inode expected_device expected_inode =
     (device = expected_device \<and> inode = expected_inode)"

definition stat_matches_witness :: "Stat \<Rightarrow> u64 \<Rightarrow> u64 \<Rightarrow> bool" where
  "stat_matches_witness stat device inode =
     (is_singly_linked_regular (st_mode stat) (st_nlink stat)
      \<and> device_inode_match (st_dev stat) (st_ino stat) device inode)"

definition observe_witness_path ::
  "'s os \<Rightarrow> fd \<Rightarrow> string \<Rightarrow> u64 \<Rightarrow> u64 \<Rightarrow> ('s, Error + WitnessPathObservation) sysproc" where
  "observe_witness_path k directory_fd name device inode =
     io_bind (fstatat k directory_fd name) (\<lambda>r. io_return (case r of
         Ok stat \<Rightarrow> Ok (if stat_matches_witness stat device inode then Observed_Match else Observed_Mismatch)
       | Err e \<Rightarrow> if raw_os_error e = Some ENOENT then Ok Observed_Gone else Err (error_from_io e)))"

definition lock_open_flags :: "int \<Rightarrow> int" where
  "lock_open_flags access = access + O_CLOEXEC + O_NOFOLLOW"

definition resolver_file_open_flags :: int where
  "resolver_file_open_flags = O_NOFOLLOW + O_CLOEXEC + O_NONBLOCK"

definition classify_lease_directory_open_failure :: "IoError \<Rightarrow> LeaseDirectoryOpenFailure" where
  "classify_lease_directory_open_failure e =
     (if raw_os_error e = Some ENOENT then Directory_Gone
      else if raw_os_error e = Some ENOTDIR then InvalidDirectory else Directory_Io)"

definition classify_presence_failure :: "IoError \<Rightarrow> PresenceFailure" where
  "classify_presence_failure e = (if raw_os_error e = Some ENOENT then Presence_Absent else Presence_Io)"

fun ticket_phase_for_move_outcome_unknown :: "MovePhase \<Rightarrow> TransitionPhase" where
  "ticket_phase_for_move_outcome_unknown SourceFsync = DestinationDirectoryDurable"
| "ticket_phase_for_move_outcome_unknown _ = Linearized"

definition lease_common :: "LeaseInfo \<Rightarrow> CommonFields" where
  "lease_common lease =
     \<lparr>job_id = li_job_id lease, generation = li_generation lease, attempt = li_attempt lease,
      maximum_attempts = li_maximum_attempts lease\<rparr>"

definition next_identity :: "Operation \<Rightarrow> CommonFields \<Rightarrow> Error + CommonFields" where
  "next_identity op src =
     map_err (\<lambda>e. case e of
         IdentityChangeError.Overflow \<Rightarrow> StateExhausted
       | Indeterminate \<Rightarrow> InvalidInput ''operation has an indeterminate generation change'')
       (next_common_fields op src)"

datatype RetryTiming = Retry_Immediate | Retry_Delayed u64 WallFloor

definition preferred_publication_mode :: "int \<Rightarrow> PublicationMode option" where
  "preferred_publication_mode filesystem_type =
     (if filesystem_type = ZFS_SUPER_MAGIC then Some NamedFallback else None)"

definition classify_filesystem_type :: "IoError + int \<Rightarrow> bool \<Rightarrow> Error + int option" where
  "classify_filesystem_type observation allow_unsupported =
     (case observation of
        Ok t \<Rightarrow> if allow_unsupported \<or> supported_filesystem_name t \<noteq> None then Ok (Some t)
                else Err UnsupportedFilesystem
      | Err e \<Rightarrow> if allow_unsupported then Ok None else Err (error_from_io e))"

datatype ActivePathContext =
    Ctx_Ready string
  | Ctx_Leased string string string
  | Ctx_Delayed string string

definition STATE_DIRECTORIES :: "string list" where
  "STATE_DIRECTORIES =
     [''control'', ''ready'', ''leased'', ''delayed'', ''receipts'', ''dead'', ''quarantine'', ''tmp'']"

definition init_synced_directories :: "FormatRecord \<Rightarrow> string set" where
  "init_synced_directories fmt =
     set (STATE_DIRECTORIES
          @ map (\<lambda>shard. ''ready/'' @ shard_hex (word_of_nat shard)) [0..<unat (fmt_shard_count fmt)])"

definition open_relative :: "'s os \<Rightarrow> fd \<Rightarrow> string \<Rightarrow> ('s, IoError + fd) sysproc" where
  "open_relative k root_fd relative =
     io_try (io_return (validate_relative_path relative)) (\<lambda>relative. open_directory_beneath k root_fd relative)"

record EnqueueInput =
  ei_maximum_attempts :: u32
  ei_content_type :: string
  ei_metadata :: "(string \<times> MetadataValue) list"
  ei_producer_id :: "string option"
  ei_trace_context :: "bytes option"
  ei_initial_not_before :: "u64 option"
  ei_payload :: bytes

subsection \<open>The wall watermark\<close>

datatype WatermarkReadError =
    Watermark_NotFound
  | Watermark_Truncated string
  | Watermark_Corrupt string
  | Watermark_Io string

datatype WatermarkSnapshot = Snapshot_Current WatermarkRecord | Snapshot_Replaced

definition WATERMARK_READ_ATTEMPTS :: nat where "WATERMARK_READ_ATTEMPTS = 8"

definition watermark_open_is_not_found :: "IoError \<Rightarrow> bool" where
  "watermark_open_is_not_found e = (io_kind e = Kind_NotFound)"

definition watermark_open_flags :: int where
  "watermark_open_flags = O_NOFOLLOW + O_CLOEXEC"

definition watermark_path_matches_opened :: "Stat \<Rightarrow> Stat \<Rightarrow> WatermarkReadError + bool" where
  "watermark_path_matches_opened opened current =
     (if st_mode current AND S_IFMT \<noteq> S_IFREG then Err (Watermark_Corrupt ''watermark is not a regular file'')
      else if st_nlink current = 0 then Ok False
      else if st_nlink current \<noteq> 1
      then Err (Watermark_Corrupt ''watermark is not a singly-linked regular file'')
      else Ok (device_inode_match (st_dev current) (st_ino current) (st_dev opened) (st_ino opened)))"

definition watermark_should_advance :: "u64 \<Rightarrow> u64 \<Rightarrow> bool" where
  "watermark_should_advance observed_bucket stored_bucket = (observed_bucket > stored_bucket)"

fun watermark_error_text :: "WatermarkError \<Rightarrow> string" where
  "watermark_error_text WE_BadMagic = ''magic mismatch''"
| "watermark_error_text (WE_UnsupportedVersion a b) = version_text a b"
| "watermark_error_text WE_NonzeroReserved = ''nonzero reserved''"
| "watermark_error_text WE_DigestMismatch = ''digest mismatch''"
| "watermark_error_text (WE_WrongSize e a) = wrong_size_text e a"

definition watermark_io :: "('s, IoError + 'a) sysproc \<Rightarrow> ('s, WatermarkReadError + 'a) sysproc" where
  "watermark_io m = io_map_err (\<lambda>e. Watermark_Io (io_text e)) m"

definition watermark_stat_check :: "Stat \<Rightarrow> WatermarkReadError + bool" where
  "watermark_stat_check stat =
     (if st_mode stat AND S_IFMT \<noteq> S_IFREG then Err (Watermark_Corrupt ''watermark is not a regular file'')
      else if st_nlink stat = 0 then Ok False
      else if st_nlink stat \<noteq> 1
      then Err (Watermark_Corrupt ''watermark is not a singly-linked regular file'')
      else if st_size stat < int WATERMARK_SIZE
      then Err (Watermark_Truncated (''expected '' @ decimal WATERMARK_SIZE @ '' bytes, found '' @ int_text (st_size stat)))
      else if st_size stat \<noteq> int WATERMARK_SIZE
      then Err (Watermark_Corrupt (''expected '' @ decimal WATERMARK_SIZE @ '' bytes, found '' @ int_text (st_size stat)))
      else Ok True)"

definition read_opened_wall_watermark ::
  "sha256 \<Rightarrow> 's os \<Rightarrow> fd \<Rightarrow> fd \<Rightarrow> ('s, WatermarkReadError + WatermarkSnapshot) sysproc" where
  "read_opened_wall_watermark sha k control_fd data_fd =
     io_try (watermark_io (fstat k data_fd)) (\<lambda>stat.
     io_try (io_return (watermark_stat_check stat)) (\<lambda>linked.
       if \<not> linked then io_return (Ok Snapshot_Replaced)
       else
         io_try (io_map_err (\<lambda>e. if io_kind e = Kind_UnexpectedEof then Watermark_Truncated (io_text e)
                                 else Watermark_Io (io_text e)) (pread_exact k data_fd WATERMARK_SIZE 0)) (\<lambda>buf.
         io_try (io_return (map_err (\<lambda>e. Watermark_Corrupt (watermark_error_text e)) (watermark_decode sha buf))) (\<lambda>wm.
         io_try (io_map_err (\<lambda>e. if watermark_open_is_not_found e then Watermark_NotFound
                                 else Watermark_Io (io_text e)) (fstatat k control_fd ''wall-watermark'')) (\<lambda>current.
         io_try (io_return (watermark_path_matches_opened stat current)) (\<lambda>same.
           io_return (Ok (if \<not> same then Snapshot_Replaced else Snapshot_Current wm))))))))"

text \<open>One round of the read loop: first the cached descriptor, then a fresh one. \<^const>\<open>None\<close> means
  that the record was replaced meanwhile and another round is due.\<close>

definition watermark_read_cached ::
  "'s env \<Rightarrow> fd \<Rightarrow> ('s, WatermarkReadError + WatermarkRecord option) qproc" where
  "watermark_read_cached e control_fd =
     io_bind (asks q_cached_watermark_fd) (\<lambda>cached. case cached of
       None \<Rightarrow> io_return (Ok None)
     | Some data_fd \<Rightarrow>
         io_try (lift (read_opened_wall_watermark (env_sha e) (env_os e) control_fd data_fd)) (\<lambda>snapshot.
           case snapshot of
             Snapshot_Current wm \<Rightarrow> io_return (Ok (Some wm))
           | Snapshot_Replaced \<Rightarrow>
               io_bind (modifies (\<lambda>q. q\<lparr>q_cached_watermark_fd := None\<rparr>)) (\<lambda>_. io_return (Ok None))))"

definition watermark_read_fresh ::
  "'s env \<Rightarrow> fd \<Rightarrow> ('s, WatermarkReadError + WatermarkRecord option) qproc" where
  "watermark_read_fresh e control_fd =
     io_try (lift (io_map_err (\<lambda>er. if watermark_open_is_not_found er then Watermark_NotFound
                                    else Watermark_Io (io_text er))
               (openat (env_os e) control_fd ''wall-watermark'' watermark_open_flags 0))) (\<lambda>data_fd.
     io_try (lift (read_opened_wall_watermark (env_sha e) (env_os e) control_fd data_fd)) (\<lambda>snapshot.
       case snapshot of
         Snapshot_Current wm \<Rightarrow>
           io_bind (modifies (\<lambda>q. q\<lparr>q_cached_watermark_fd := Some data_fd\<rparr>)) (\<lambda>_. io_return (Ok (Some wm)))
       | Snapshot_Replaced \<Rightarrow> io_return (Ok None)))"

fun watermark_read_rounds ::
  "'s env \<Rightarrow> fd \<Rightarrow> nat \<Rightarrow> ('s, WatermarkReadError + WatermarkRecord option) qproc" where
  "watermark_read_rounds e control_fd 0 = io_return (Ok None)"
| "watermark_read_rounds e control_fd (Suc n) =
     io_try (watermark_read_cached e control_fd) (\<lambda>cached. case cached of
       Some wm \<Rightarrow> io_return (Ok (Some wm))
     | None \<Rightarrow> io_try (watermark_read_fresh e control_fd) (\<lambda>fresh. case fresh of
         Some wm \<Rightarrow> io_return (Ok (Some wm))
       | None \<Rightarrow> watermark_read_rounds e control_fd n))"

definition try_read_wall_watermark ::
  "'s env \<Rightarrow> nat \<Rightarrow> ('s, WatermarkReadError + WatermarkRecord option) qproc" where
  "try_read_wall_watermark e attempts =
     io_bind (asks q_root_fd) (\<lambda>root_fd.
     io_try (lift (watermark_io (open_directory (env_os e) root_fd ''control''))) (\<lambda>control_fd.
       watermark_read_rounds e control_fd attempts))"

definition read_wall_watermark :: "'s env \<Rightarrow> ('s, WatermarkReadError + WatermarkRecord) qproc" where
  "read_wall_watermark e =
     io_try (try_read_wall_watermark e WATERMARK_READ_ATTEMPTS) (\<lambda>wm. io_return (case wm of
         Some watermark \<Rightarrow> Ok watermark
       | None \<Rightarrow> Err (Watermark_Io (''wall watermark changed during ''
                   @ decimal WATERMARK_READ_ATTEMPTS @ '' consecutive reads''))))"

fun watermark_read_error :: "WatermarkReadError \<Rightarrow> Error" where
  "watermark_read_error Watermark_NotFound = QueueCorrupt ''wall watermark missing''"
| "watermark_read_error (Watermark_Truncated msg) = QueueCorrupt (''watermark truncated: '' @ msg)"
| "watermark_read_error (Watermark_Corrupt msg) = QueueCorrupt (''watermark corrupt: '' @ msg)"
| "watermark_read_error (Watermark_Io msg) = IoFailure msg"

definition authenticated_wall_floor_with_attempts :: "'s env \<Rightarrow> nat \<Rightarrow> ('s, Error + WallFloor) qproc" where
  "authenticated_wall_floor_with_attempts e attempts =
     io_try (io_map_err watermark_read_error (try_read_wall_watermark e attempts)) (\<lambda>found. case found of
       None \<Rightarrow> io_return (Err MaintenanceBusy)
     | Some watermark \<Rightarrow>
         io_try (lift (io_map_err (\<lambda>er. IoFailure (''CLOCK_REALTIME: '' @ io_text er)) (clock_realtime_ns (env_os e)))) (\<lambda>clock.
         io_bind (asks (\<lambda>q. fmt_delayed_bucket_width_ns (q_format q))) (\<lambda>width.
         io_try (io_return (ok_or (effective_wall_floor clock (wm_highest_observed_bucket watermark) width)
                   (QueueCorrupt ''watermark computation overflow''))) (\<lambda>unix_ns.
           io_return (Ok \<lparr>wf_unix_ns = unix_ns, wf_watermark_bucket = wm_highest_observed_bucket watermark,
                          wf_watermark_sequence = wm_sequence watermark\<rparr>)))))"

definition authenticated_wall_floor :: "'s env \<Rightarrow> ('s, Error + WallFloor) qproc" where
  "authenticated_wall_floor e = authenticated_wall_floor_with_attempts e WATERMARK_READ_ATTEMPTS"

definition effective_wall_floor_ns_checked :: "'s env \<Rightarrow> ('s, Error + u64) qproc" where
  "effective_wall_floor_ns_checked e =
     io_try (authenticated_wall_floor e) (\<lambda>f. io_return (Ok (wf_unix_ns f)))"

definition with_wall_watermark_write_lock ::
  "'s env \<Rightarrow> (fd \<Rightarrow> ('s, Error + 'a) qproc) \<Rightarrow> ('s, Error + 'a) qproc" where
  "with_wall_watermark_write_lock e action =
     io_bind (asks q_root_fd) (\<lambda>root_fd.
     io_try (from_io (open_directory (env_os e) root_fd ''control'')) (\<lambda>control_fd.
     io_try (from_io (openat (env_os e) control_fd ''wall-watermark.lock'' (lock_open_flags O_RDWR) MODE_0600)) (\<lambda>lock_fd.
     io_try (from_io (try_ofd_write_lock (env_os e) lock_fd)) (\<lambda>locked.
       if \<not> locked then io_return (Err MaintenanceBusy) else action control_fd))))"

text \<open>The decision under the lock: keep the stored record, or the bucket and sequence to write.\<close>

definition watermark_decision ::
  "u64 \<Rightarrow> u64 \<Rightarrow> WallFloor \<Rightarrow> WatermarkRecord \<Rightarrow> Error + (WallFloor + u64 \<times> u64)" where
  "watermark_decision width observed_bucket observed wm =
     (if \<not> watermark_should_advance observed_bucket (wm_highest_observed_bucket wm)
      then res_bind (ok_or (checked_mul (wm_highest_observed_bucket wm) width) StateExhausted) (\<lambda>durable_ns.
             Ok (Inl \<lparr>wf_unix_ns = max (wf_unix_ns observed) durable_ns,
                      wf_watermark_bucket = wm_highest_observed_bucket wm,
                      wf_watermark_sequence = wm_sequence wm\<rparr>))
      else res_bind (ok_or (checked_add (wm_sequence wm) 1) StateExhausted) (\<lambda>new_seq.
             Ok (Inr (observed_bucket, new_seq))))"

definition watermark_temp_name :: "id128 \<Rightarrow> string" where
  "watermark_temp_name rnd = ''.wm.adv.'' @ hex_encode (arr_bytes rnd)"

definition write_watermark :: "'s env \<Rightarrow> fd \<Rightarrow> WatermarkRecord \<Rightarrow> ('s, Error + unit) qproc" where
  "write_watermark e control_fd new_wm =
     (let k = env_os e in
      io_try (from_io (random_128bit k)) (\<lambda>rnd.
      let tmp_name = watermark_temp_name rnd in
      io_try (from_io (create_exclusive k control_fd tmp_name MODE_0600)) (\<lambda>tmp_fd.
      io_bind (lift (io_try (write_all k tmp_fd (watermark_encode (env_sha e) new_wm)) (\<lambda>_.
                     io_try (fsync k tmp_fd) (\<lambda>_. renameat k control_fd tmp_name control_fd ''wall-watermark'')))) (\<lambda>written.
        case written of
          Err er \<Rightarrow> io_bind (lift (unlinkat k control_fd tmp_name)) (\<lambda>_. io_return (Err (error_from_io er)))
        | Ok _ \<Rightarrow>
            lift (io_map_err (\<lambda>er. IoFailure (''watermark directory fsync: '' @ io_text er)) (fsync_dir_fd k control_fd))))))"

definition advance_wall_watermark_locked :: "'s env \<Rightarrow> WallFloor \<Rightarrow> fd \<Rightarrow> ('s, Error + WallFloor) qproc" where
  "advance_wall_watermark_locked e observed control_fd =
     io_bind (asks (\<lambda>q. fmt_delayed_bucket_width_ns (q_format q))) (\<lambda>width.
     io_try (io_return (ok_or (bucket_number (wf_unix_ns observed) width) StateExhausted)) (\<lambda>observed_bucket.
     io_bind (read_wall_watermark e) (\<lambda>current.
     io_try (io_return (map_err watermark_read_error current)) (\<lambda>wm.
     io_try (io_return (watermark_decision width observed_bucket observed wm)) (\<lambda>decision. case decision of
       Inl kept \<Rightarrow> io_return (Ok kept)
     | Inr (new_bucket, new_seq) \<Rightarrow>
         io_try (write_watermark e control_fd \<lparr>wm_highest_observed_bucket = new_bucket, wm_sequence = new_seq\<rparr>) (\<lambda>_.
           io_return (Ok \<lparr>wf_unix_ns = wf_unix_ns observed, wf_watermark_bucket = new_bucket,
                          wf_watermark_sequence = new_seq\<rparr>)))))))"

definition stabilized_wall_floor :: "'s env \<Rightarrow> ('s, Error + WallFloor) qproc" where
  "stabilized_wall_floor e =
     with_wall_watermark_write_lock e (\<lambda>control_fd.
       io_try (authenticated_wall_floor e) (\<lambda>observed.
       io_bind (asks (\<lambda>q. fmt_delayed_bucket_width_ns (q_format q))) (\<lambda>width.
       io_try (io_return (ok_or (bucket_number (wf_unix_ns observed) width) StateExhausted)) (\<lambda>observed_bucket.
         if \<not> watermark_should_advance observed_bucket (wf_watermark_bucket observed) then io_return (Ok observed)
         else advance_wall_watermark_locked e observed control_fd))))"

definition transient_floor_error :: "Error \<Rightarrow> bool" where
  "transient_floor_error er = (er = MaintenanceBusy \<or> er = ResourceExhausted)"

text \<open>A failed floor poisons the handle unless the failure is transient.\<close>

definition poison_on_floor_error :: "('s, Error + 'a) qproc \<Rightarrow> ('s, Error + 'a) qproc" where
  "poison_on_floor_error m =
     io_bind m (\<lambda>r. case r of
       Ok x \<Rightarrow> io_return (Ok x)
     | Err er \<Rightarrow> if transient_floor_error er then io_return (Err er)
                 else io_bind (modifies (poison WatermarkAuthorityLost)) (\<lambda>_. io_return (Err er)))"

definition slow_wall_floor :: "'s env \<Rightarrow> ('s, Error + WallFloor) qproc" where
  "slow_wall_floor e =
     io_try (poison_on_floor_error (stabilized_wall_floor e)) (\<lambda>f.
       io_bind (modifies (\<lambda>q. q\<lparr>q_cached_wall_floor := Some f\<rparr>)) (\<lambda>_. io_return (Ok f)))"

definition wall_floor_for_mutation_with_attempts :: "'s env \<Rightarrow> nat \<Rightarrow> ('s, Error + WallFloor) qproc" where
  "wall_floor_for_mutation_with_attempts e attempts =
     io_bind (asks q_cached_wall_floor) (\<lambda>cache. case cache of
       None \<Rightarrow> slow_wall_floor e
     | Some cached \<Rightarrow>
         io_try (poison_on_floor_error (authenticated_wall_floor_with_attempts e attempts)) (\<lambda>authenticated.
         io_bind (asks (\<lambda>q. fmt_delayed_bucket_width_ns (q_format q))) (\<lambda>width.
         io_try (io_return (ok_or (bucket_number (wf_unix_ns authenticated) width) StateExhausted)) (\<lambda>observed_bucket.
           if observed_bucket = wf_watermark_bucket authenticated
              \<and> wf_watermark_bucket cached = wf_watermark_bucket authenticated
              \<and> wf_watermark_sequence cached = wf_watermark_sequence authenticated
           then
             let f = authenticated\<lparr>wf_unix_ns := max (wf_unix_ns cached) (wf_unix_ns authenticated)\<rparr>
             in io_bind (modifies (\<lambda>q. q\<lparr>q_cached_wall_floor := Some f\<rparr>)) (\<lambda>_. io_return (Ok f))
           else slow_wall_floor e))))"

definition wall_floor_for_mutation :: "'s env \<Rightarrow> ('s, Error + WallFloor) qproc" where
  "wall_floor_for_mutation e = wall_floor_for_mutation_with_attempts e WATERMARK_READ_ATTEMPTS"

subsection \<open>Running methods of the handle\<close>

lemma lift_eq_Some_iff [io_simps]:
  "lift m q = Some (x, q') \<longleftrightarrow> (\<exists>w. m (qw_sys q) = Some (x, w) \<and> q' = q\<lparr>qw_sys := w\<rparr>)"
  by (auto simp: lift_def split: option.splits)

lemma asks_apply [simp, io_simps]: "asks f q = Some (f (qw_queue q), q)"
  by (simp add: asks_def)

lemma modifies_apply [simp, io_simps]: "modifies f q = Some ((), q\<lparr>qw_queue := f (qw_queue q)\<rparr>)"
  by (simp add: modifies_def)

text \<open>What a procedure that only reads the handle keeps of it.\<close>

definition same_handle :: "'s qworld \<Rightarrow> 's qworld \<Rightarrow> bool" where
  "same_handle q q' \<longleftrightarrow>
     q_format (qw_queue q') = q_format (qw_queue q) \<and> q_poisoned (qw_queue q') = q_poisoned (qw_queue q)
     \<and> q_cached_wall_floor (qw_queue q') = q_cached_wall_floor (qw_queue q)
     \<and> q_boot_id (qw_queue q') = q_boot_id (qw_queue q)
     \<and> q_recovery_cursor (qw_queue q') = q_recovery_cursor (qw_queue q)"

lemma preorder_same_handle [intro!, simp]: "preorder_rel same_handle"
  by (auto simp: preorder_rel_def same_handle_def)

lemma keeps_lift: "keeps same_handle (lift m)"
  by (auto simp: keeps_def io_simps same_handle_def)

lemma keeps_asks: "keeps same_handle (asks f)"
  by (auto simp: keeps_def same_handle_def)

lemma keeps_from_io: "keeps same_handle (from_io m)"
  unfolding from_io_def by (rule keeps_lift)

lemma keeps_cache_fd: "keeps same_handle (modifies (\<lambda>q. q\<lparr>q_cached_watermark_fd := x\<rparr>))"
  by (auto simp: keeps_def same_handle_def)

lemma keeps_case_snapshot:
  "(\<And>wm. keeps R (f wm)) \<Longrightarrow> keeps R g \<Longrightarrow> keeps R (case s of Snapshot_Current wm \<Rightarrow> f wm | Snapshot_Replaced \<Rightarrow> g)"
  by (cases s) auto

lemma keeps_let: "keeps R (f x) \<Longrightarrow> keeps R (let y = x in f y)"
  by simp

lemma keeps_case_prod: "(\<And>a b. keeps R (f a b)) \<Longrightarrow> keeps R (case p of (a, b) \<Rightarrow> f a b)"
  by (cases p) auto

lemmas handle_keeps = keeps_intros keeps_lift keeps_asks keeps_from_io keeps_cache_fd keeps_case_snapshot
  keeps_let keeps_case_prod preorder_same_handle

lemma keeps_read_rounds: "keeps same_handle (watermark_read_rounds e fd n)"
proof (induction n)
  case (Suc n)
  then show ?case
    by (auto simp: watermark_read_cached_def watermark_read_fresh_def intro!: handle_keeps)
qed (simp add: keeps_def same_handle_def)

lemma keeps_try_read: "keeps same_handle (try_read_wall_watermark e n)"
  unfolding try_read_wall_watermark_def by (intro handle_keeps keeps_read_rounds)

lemma keeps_authenticated: "keeps same_handle (authenticated_wall_floor_with_attempts e n)"
  unfolding authenticated_wall_floor_with_attempts_def by (intro handle_keeps keeps_try_read)

lemma keeps_stabilized: "keeps same_handle (stabilized_wall_floor e)"
  unfolding stabilized_wall_floor_def with_wall_watermark_write_lock_def authenticated_wall_floor_def
    advance_wall_watermark_locked_def write_watermark_def read_wall_watermark_def
  by (intro handle_keeps keeps_authenticated keeps_try_read)

subsection \<open>The wall floor\<close>

definition floor_ok :: "u64 \<Rightarrow> WallFloor \<Rightarrow> bool" where
  "floor_ok width f \<longleftrightarrow> unat (wf_watermark_bucket f) * unat width \<le> unat (wf_unix_ns f)"

abbreviation (input) delayed_width :: "'s qworld \<Rightarrow> u64" where
  "delayed_width q \<equiv> fmt_delayed_bucket_width_ns (q_format (qw_queue q))"

lemma watermark_decision_kept:
  assumes "watermark_decision width b observed wm = Ok (Inl f)"
  shows "floor_ok width f" "wf_unix_ns observed \<le> wf_unix_ns f"
  using assms
  by (auto simp: watermark_decision_def res_bind_eq_Ok_iff ok_or_eq_Ok_iff checked_mul_eq_Some_iff
      floor_ok_def max_def word_le_nat_alt split: if_splits)

lemma watermark_decision_advances:
  assumes "watermark_decision width b observed wm = Ok (Inr (b', s'))"
  shows "b' = b" "wm_highest_observed_bucket wm < b'" "unat s' = unat (wm_sequence wm) + 1"
  using assms
  by (auto simp: watermark_decision_def res_bind_eq_Ok_iff ok_or_eq_Ok_iff checked_add_eq_Some_iff
      watermark_should_advance_def split: if_splits)

lemma bucket_floor_ok:
  assumes "bucket_number (wf_unix_ns observed) width = Some b"
  shows "floor_ok width \<lparr>wf_unix_ns = wf_unix_ns observed, wf_watermark_bucket = b, wf_watermark_sequence = s\<rparr>"
  using assms by (simp add: floor_ok_def bucket_number_eq_Some_iff)

lemma authenticated_floor_ok:
  assumes "authenticated_wall_floor_with_attempts e n q = Some (Ok f, q')"
  shows "floor_ok (delayed_width q) f"
proof -
  from assms obtain clock b w1 where "effective_wall_floor clock b (delayed_width w1) = Some (wf_unix_ns f)"
    "b = wf_watermark_bucket f" "same_handle q w1"
    using keepsD [OF keeps_try_read [of e n], of q]
    by (auto simp: authenticated_wall_floor_with_attempts_def io_try_eq_Some_iff io_map_err_eq_Some_iff
        io_bind_eq_Some_iff lift_eq_Some_iff map_err_eq_Ok_iff ok_or_eq_Ok_iff same_handle_def
        split: option.splits)
  then show ?thesis by (auto simp: floor_ok_def effective_wall_floor_eq_Some_iff same_handle_def)
qed

text \<open>A covered floor lies in the very bucket of the record it carries.\<close>

definition covered :: "u64 \<Rightarrow> WallFloor \<Rightarrow> bool" where
  "covered width f \<longleftrightarrow> bucket_number (wf_unix_ns f) width = Some (wf_watermark_bucket f)"

lemma covered_iff:
  "covered width f \<longleftrightarrow> width \<noteq> 0 \<and> unat (wf_watermark_bucket f) = unat (wf_unix_ns f) div unat width"
  by (simp add: covered_def bucket_number_eq_Some_iff)

lemma unadvanced_covered:
  assumes "floor_ok width f" and "bucket_number (wf_unix_ns f) width = Some b"
    and "\<not> watermark_should_advance b (wf_watermark_bucket f)"
  shows "covered width f"
proof -
  have w: "width \<noteq> 0" and b: "unat b = unat (wf_unix_ns f) div unat width"
    using assms(2) by (simp_all add: bucket_number_eq_Some_iff)
  have "0 < unat width" using w by (simp add: unat_gt_0)
  then have "unat (wf_watermark_bucket f) \<le> unat (wf_unix_ns f) div unat width"
    using assms(1) by (simp add: floor_ok_def less_eq_div_iff_mult_less_eq)
  moreover have "unat b \<le> unat (wf_watermark_bucket f)"
    using assms(3) by (simp add: watermark_should_advance_def not_less word_le_nat_alt)
  ultimately show ?thesis using w b by (simp add: covered_iff)
qed

lemma kept_covered:
  assumes "bucket_number (wf_unix_ns observed) width = Some b"
    and "watermark_decision width b observed wm = Ok (Inl f)"
  shows "covered width f"
proof -
  have ok: "floor_ok width f" by (rule watermark_decision_kept(1) [OF assms(2)])
  have w: "width \<noteq> 0" and b: "unat b = unat (wf_unix_ns observed) div unat width"
    using assms(1) by (simp_all add: bucket_number_eq_Some_iff)
  have pos: "0 < unat width" using w by (simp add: unat_gt_0)
  from assms(2) obtain d where d: "checked_mul (wm_highest_observed_bucket wm) width = Some d"
    and f: "f = \<lparr>wf_unix_ns = max (wf_unix_ns observed) d, wf_watermark_bucket = wm_highest_observed_bucket wm,
                 wf_watermark_sequence = wm_sequence wm\<rparr>"
    and le: "unat b \<le> unat (wm_highest_observed_bucket wm)"
    by (auto simp: watermark_decision_def res_bind_eq_Ok_iff ok_or_eq_Ok_iff watermark_should_advance_def
        not_less word_le_nat_alt split: if_splits)
  have "unat (wf_unix_ns f) div unat width = unat (wm_highest_observed_bucket wm)"
  proof (cases "wf_unix_ns observed \<le> d")
    case True
    then show ?thesis using d f pos by (simp add: max_def checked_mul_eq_Some_iff)
  next
    case False
    then have "unat (wf_unix_ns f) = unat (wf_unix_ns observed)" by (simp add: f max_def)
    moreover have "unat (wm_highest_observed_bucket wm) \<le> unat (wf_unix_ns f) div unat width"
      using ok pos by (simp add: floor_ok_def less_eq_div_iff_mult_less_eq f)
    ultimately show ?thesis using le b by simp
  qed
  then show ?thesis using w by (simp add: covered_iff f)
qed

lemma advance_covered:
  assumes "advance_wall_watermark_locked e observed fd q = Some (Ok f, q')"
  shows "covered (delayed_width q) f"
proof -
  from assms obtain b wm d q2 where b: "bucket_number (wf_unix_ns observed) (delayed_width q) = Some b"
    and d: "watermark_decision (delayed_width q) b observed wm = Ok d"
    and r: "(case d of Inl kept \<Rightarrow> io_return (Ok kept)
       | Inr (nb, ns) \<Rightarrow>
         io_try (write_watermark e fd \<lparr>wm_highest_observed_bucket = nb, wm_sequence = ns\<rparr>) (\<lambda>_.
           io_return (Ok \<lparr>wf_unix_ns = wf_unix_ns observed, wf_watermark_bucket = nb,
                          wf_watermark_sequence = ns\<rparr>))) q2 = Some (Ok f, q')"
    by (auto simp: advance_wall_watermark_locked_def io_try_eq_Some_iff [of "io_return _"] io_bind_eq_Some_iff
        ok_or_eq_Ok_iff)
  show ?thesis
  proof (cases d)
    case (Inl kept)
    then show ?thesis using kept_covered [OF b] d r by simp
  next
    case (Inr p)
    obtain nb ns where "p = (nb, ns)" by (cases p)
    then show ?thesis
      using watermark_decision_advances(1) [of "delayed_width q" b observed wm nb ns] d b r Inr
      by (auto simp: covered_def io_try_eq_Some_iff)
  qed
qed

lemma same_handle_sys [simp]: "same_handle q (q\<lparr>qw_sys := w\<rparr>)"
  by (simp add: same_handle_def)

lemma with_lock_Ok:
  assumes "with_wall_watermark_write_lock e action q = Some (Ok x, q')"
  obtains fd q1 where "same_handle q q1" and "action fd q1 = Some (Ok x, q')"
  using assms
  by (auto simp: with_wall_watermark_write_lock_def io_try_eq_Some_iff
        io_bind_eq_Some_iff from_io_def lift_eq_Some_iff split: if_splits intro: that [OF same_handle_sys])

lemma stabilized_covered:
  assumes "stabilized_wall_floor e q = Some (Ok f, q')"
  shows "covered (delayed_width q) f"
proof -
  obtain fd q1 where h: "same_handle q q1"
    and run: "io_try (authenticated_wall_floor e) (\<lambda>observed.
       io_bind (asks (\<lambda>q. fmt_delayed_bucket_width_ns (q_format q))) (\<lambda>width.
       io_try (io_return (ok_or (bucket_number (wf_unix_ns observed) width) StateExhausted)) (\<lambda>observed_bucket.
         if \<not> watermark_should_advance observed_bucket (wf_watermark_bucket observed) then io_return (Ok observed)
         else advance_wall_watermark_locked e observed fd))) q1 = Some (Ok f, q')"
    using with_lock_Ok [OF assms [unfolded stabilized_wall_floor_def]] by blast
  from run obtain observed q3 b where a: "authenticated_wall_floor e q1 = Some (Ok observed, q3)"
    and b: "bucket_number (wf_unix_ns observed) (delayed_width q3) = Some b"
    and r: "(if \<not> watermark_should_advance b (wf_watermark_bucket observed) then io_return (Ok observed)
         else advance_wall_watermark_locked e observed fd) q3 = Some (Ok f, q')"
    by (auto simp: io_try_eq_Some_iff io_bind_eq_Some_iff ok_or_eq_Ok_iff)
  have h3: "same_handle q1 q3" by (rule keepsD [OF keeps_authenticated a [unfolded authenticated_wall_floor_def]])
  have ok: "floor_ok (delayed_width q1) observed"
    by (rule authenticated_floor_ok [OF a [unfolded authenticated_wall_floor_def]])
  show ?thesis
    using r unadvanced_covered [OF ok, of b] advance_covered [of e observed fd q3 f q'] b h h3
    by (auto simp: same_handle_def split: if_splits)
qed

lemma poison_on_floor_error_iff:
  "poison_on_floor_error m q = Some (r, q') \<longleftrightarrow>
     (\<exists>q1. m q = Some (r, q1) \<and> q' = (case r of
         Ok _ \<Rightarrow> q1
       | Err er \<Rightarrow> if transient_floor_error er then q1
                   else q1\<lparr>qw_queue := poison WatermarkAuthorityLost (qw_queue q1)\<rparr>))"
proof (cases "m q")
  case None
  then show ?thesis by (simp add: poison_on_floor_error_def io_bind_def)
next
  case (Some p)
  obtain r1 q1 where "p = (r1, q1)" by (cases p)
  with Some show ?thesis
    by (cases r1) (auto simp: poison_on_floor_error_def io_bind_def)
qed

lemma slow_wall_floor_Ok:
  assumes "slow_wall_floor e q = Some (Ok f, q')"
  shows "covered (delayed_width q) f" "q_cached_wall_floor (qw_queue q') = Some f"
    "q_format (qw_queue q') = q_format (qw_queue q)" "q_poisoned (qw_queue q') = q_poisoned (qw_queue q)"
proof -
  from assms obtain q1 where s: "stabilized_wall_floor e q = Some (Ok f, q1)"
    and q': "q' = q1\<lparr>qw_queue := (qw_queue q1)\<lparr>q_cached_wall_floor := Some f\<rparr>\<rparr>"
    by (auto simp: slow_wall_floor_def poison_on_floor_error_iff io_try_eq_Some_iff io_bind_eq_Some_iff)
  show "covered (delayed_width q) f" by (rule stabilized_covered [OF s])
  show "q_cached_wall_floor (qw_queue q') = Some f" by (simp add: q')
  show "q_format (qw_queue q') = q_format (qw_queue q)" "q_poisoned (qw_queue q') = q_poisoned (qw_queue q)"
    using keepsD [OF keeps_stabilized s] by (simp_all add: q' same_handle_def)
qed

lemma covered_max:
  assumes "covered width a" and "covered width b" and "wf_watermark_bucket a = wf_watermark_bucket b"
  shows "covered width (b\<lparr>wf_unix_ns := max (wf_unix_ns a) (wf_unix_ns b)\<rparr>)"
  using assms by (auto simp: covered_def max_def)

text \<open>Every wall floor a mutation may use lies in the bucket of the record it carries, whether it comes from the
  cache, from an authenticated read or from advancing the record under its lock. The handle keeps the
  floor as its cache and is not poisoned.\<close>

lemma wall_floor_covered:
  assumes "wall_floor_for_mutation e q = Some (Ok f, q')"
    and "\<And>c. q_cached_wall_floor (qw_queue q) = Some c \<Longrightarrow> covered (delayed_width q) c"
  shows "covered (delayed_width q) f \<and> q_cached_wall_floor (qw_queue q') = Some f
    \<and> q_format (qw_queue q') = q_format (qw_queue q) \<and> q_poisoned (qw_queue q') = q_poisoned (qw_queue q)"
proof (cases "q_cached_wall_floor (qw_queue q)")
  case None
  then show ?thesis
    using assms(1) slow_wall_floor_Ok [of e q f q']
    by (auto simp: wall_floor_for_mutation_def wall_floor_for_mutation_with_attempts_def)
next
  case (Some c)
  from assms(1) Some obtain au q1 b where a: "authenticated_wall_floor_with_attempts e WATERMARK_READ_ATTEMPTS q = Some (Ok au, q1)"
    and b: "bucket_number (wf_unix_ns au) (delayed_width q1) = Some b"
    and r: "(if b = wf_watermark_bucket au \<and> wf_watermark_bucket c = wf_watermark_bucket au
              \<and> wf_watermark_sequence c = wf_watermark_sequence au
           then
             let f = au\<lparr>wf_unix_ns := max (wf_unix_ns c) (wf_unix_ns au)\<rparr>
             in io_bind (modifies (\<lambda>q. q\<lparr>q_cached_wall_floor := Some f\<rparr>)) (\<lambda>_. io_return (Ok f))
           else slow_wall_floor e) q1 = Some (Ok f, q')"
    by (auto simp: wall_floor_for_mutation_def wall_floor_for_mutation_with_attempts_def poison_on_floor_error_iff
        io_try_eq_Some_iff io_bind_eq_Some_iff ok_or_eq_Ok_iff)
  have h: "same_handle q q1" by (rule keepsD [OF keeps_authenticated a])
  show ?thesis
    using r slow_wall_floor_Ok [of e q1 f q'] covered_max [OF assms(2) [OF Some], of au] b h
    by (auto simp: same_handle_def Let_def covered_def split: if_splits)
qed

lemma poisoned_result:
  assumes "slow_wall_floor e q = Some (Err er, q')"
  shows "q_poisoned (qw_queue q') =
    (if transient_floor_error er then q_poisoned (qw_queue q)
     else Some (case q_poisoned (qw_queue q) of Some r \<Rightarrow> r | None \<Rightarrow> WatermarkAuthorityLost))"
proof -
  from assms obtain q1 where s: "stabilized_wall_floor e q = Some (Err er, q1)"
    and q': "q' = (if transient_floor_error er then q1
                   else q1\<lparr>qw_queue := poison WatermarkAuthorityLost (qw_queue q1)\<rparr>)"
    by (auto simp: slow_wall_floor_def poison_on_floor_error_iff io_try_eq_Some_iff io_bind_eq_Some_iff)
  show ?thesis
    using keepsD [OF keeps_stabilized s] by (auto simp: q' same_handle_def poison_def split: option.splits)
qed

text \<open>C32. A failure to establish the wall floor is never ignored: unless it is reported as transient (the
  maintenance lock is busy or a resource is exhausted), the handle is poisoned and refuses every
  later enqueue, lease and transition, keeping the first reason it was poisoned for; after a failure
  reported as transient the handle is as it was. A directory barrier of an advance that fails after
  its rename is not reported as transient, whatever its error number. Bucket widths of a valid format
  are not zero.\<close>

theorem wall_floor_error_poisons:
  assumes "wall_floor_for_mutation e q = Some (Err er, q')" and "delayed_width q \<noteq> 0"
  shows "if er = MaintenanceBusy \<or> er = ResourceExhausted
    then q_poisoned (qw_queue q') = q_poisoned (qw_queue q)
    else is_poisoned (qw_queue q') \<and> is_ok (check_not_poisoned (qw_queue q')) = False
      \<and> (\<forall>r. q_poisoned (qw_queue q) = Some r \<longrightarrow> q_poisoned (qw_queue q') = Some r)
      \<and> (q_poisoned (qw_queue q) = None \<longrightarrow> q_poisoned (qw_queue q') = Some WatermarkAuthorityLost)"
proof -
  have "q_poisoned (qw_queue q') =
    (if transient_floor_error er then q_poisoned (qw_queue q)
     else Some (case q_poisoned (qw_queue q) of Some r \<Rightarrow> r | None \<Rightarrow> WatermarkAuthorityLost))"
  proof (cases "q_cached_wall_floor (qw_queue q)")
    case None
    then show ?thesis
      using assms(1) poisoned_result [of e q er q']
      by (auto simp: wall_floor_for_mutation_def wall_floor_for_mutation_with_attempts_def)
  next
    case (Some c)
    let ?auth = "authenticated_wall_floor_with_attempts e WATERMARK_READ_ATTEMPTS"
    note run = assms(1) [unfolded wall_floor_for_mutation_def wall_floor_for_mutation_with_attempts_def]
    from run Some consider
      (failed) "poison_on_floor_error ?auth q = Some (Err er, q')"
    | (went) au q1 where "?auth q = Some (Ok au, q1)" "bucket_number (wf_unix_ns au) (delayed_width q1) = None"
    | (slow) au q1 where "?auth q = Some (Ok au, q1)" "slow_wall_floor e q1 = Some (Err er, q')"
      by (auto simp: poison_on_floor_error_iff io_try_eq_Some_iff io_bind_eq_Some_iff Let_def ok_or_def
          split: if_splits option.splits)
    then show ?thesis
    proof cases
      case failed
      then obtain q1 where a: "?auth q = Some (Err er, q1)"
        and q': "q' = (if transient_floor_error er then q1
                   else q1\<lparr>qw_queue := poison WatermarkAuthorityLost (qw_queue q1)\<rparr>)"
        by (auto simp: poison_on_floor_error_iff)
      show ?thesis
        using keepsD [OF keeps_authenticated a] by (auto simp: q' same_handle_def poison_def split: option.splits)
    next
      case (went au q1)
      then show ?thesis
        using keepsD [OF keeps_authenticated went(1)] assms(2) by (simp add: same_handle_def bucket_number_eq_None_iff)
    next
      case (slow au q1)
      then show ?thesis
        using poisoned_result [OF slow(2)] keepsD [OF keeps_authenticated slow(1)] by (simp add: same_handle_def)
    qed
  qed
  then show ?thesis
    by (auto simp: transient_floor_error_def is_poisoned_def check_not_poisoned_def split: option.splits)
qed

subsection \<open>Examples\<close>

definition sample_format :: FormatRecord where
  "sample_format = \<lparr>fmt_queue_id = arr_of (replicate 16 1), fmt_created_at_unix_ns = 0, fmt_shard_count = 1,
     fmt_lease_bucket_width_ns = 60000000000, fmt_delayed_bucket_width_ns = 60000000000,
     fmt_terminal_bucket_width_ns = 60000000000, fmt_max_payload_length = 1000\<rparr>"

definition sample_queue :: Queue where
  "sample_queue = \<lparr>q_root_fd = 3, q_root_path = [], q_format = sample_format,
     q_boot_id = ''00000000-0000-0000-0000-000000000000'', q_boot_id_bytes = arr_of (replicate 16 0),
     q_poisoned = None, q_scan_round = 0, q_ready_shard_hint = None, q_worker_nonce = arr_of (replicate 16 0),
     q_options = open_options_default, q_maint_lock_fd = None, q_recovery_cursor = cursor_default,
     q_cached_wall_floor = None, q_cached_watermark_fd = None, q_known_dirs = {''ready/0000''},
     q_cached_dest_fd = Some (''ready/0000'', 8),
     q_publication_mode = None, q_deferred_dir_sync = False, q_dirty = dirty_set_new,
     q_ready_watch = None, q_ready_watch_attempted = False\<rparr>"

definition sample_qworld :: "'s \<Rightarrow> 's qworld" where
  "sample_qworld s = \<lparr>qw_queue = sample_queue, qw_lent = None, qw_sys = idle_world s\<rparr>"

definition sample_env :: "'s os \<Rightarrow> 's env" where
  "sample_env k = \<lparr>env_os = k, env_sha = (\<lambda>_. arr_of (replicate 32 0)), env_clone = same_fd\<rparr>"

text \<open>A kernel on which nothing works, and one whose watermark file records bucket 0 at time 0, that opens
  unnamed files as descriptor 9 and whose disk is full when descriptor 8 is synced.\<close>

lemma control_names:
  "0 \<notin> set (as_bytes ''control'')" "0 \<notin> set (as_bytes ''wall-watermark'')"
  "0 \<notin> set (as_bytes ''wall-watermark.lock'')"
  "as_bytes ''control'' \<noteq> as_bytes ''.''" "as_bytes ''wall-watermark'' \<noteq> as_bytes ''.''"
  "as_bytes ''wall-watermark.lock'' \<noteq> as_bytes ''.''"
  by code_simp+

lemma idle_clock: "flt_realtime_ns (fault_state (idle_world s)) = None"
  by (simp add: idle_world_def fault_state_new_def)

theorem wall_floor_error_poisons_witness:
  "\<exists>er q'. wall_floor_for_mutation (sample_env (bare_os :: unit os)) (sample_qworld ()) = Some (Err er, q')
    \<and> er = IoFailure [] \<and> q_poisoned (qw_queue q') = Some WatermarkAuthorityLost"
proof -
  have run: "\<exists>q'. wall_floor_for_mutation (sample_env (bare_os :: unit os)) (sample_qworld ()) = Some (Err (IoFailure []), q')"
    by (simp add: wall_floor_for_mutation_def wall_floor_for_mutation_with_attempts_def sample_qworld_def
        sample_queue_def slow_wall_floor_def stabilized_wall_floor_def with_wall_watermark_write_lock_def
        io_try_def io_bind_def from_io_def lift_def io_map_err_def open_directory_def with_name_eq
        control_names bare_os_def sample_env_def error_from_io_def from_raw_os_error_def poison_on_floor_error_def
        transient_floor_error_def errno_defs)
  then obtain q' where q': "wall_floor_for_mutation (sample_env (bare_os :: unit os)) (sample_qworld ()) = Some (Err (IoFailure []), q')"
    by blast
  have "delayed_width (sample_qworld ()) \<noteq> 0" "q_poisoned (qw_queue (sample_qworld ())) = None"
    by (simp_all add: sample_qworld_def sample_queue_def sample_format_def)
  with wall_floor_error_poisons [OF q'] q' show ?thesis by auto
qed

definition watermark_os :: "unit os" where
  "watermark_os =
     (let data = watermark_encode (\<lambda>_. arr_of (replicate 32 0)) \<lparr>wm_highest_observed_bucket = 0, wm_sequence = 0\<rparr> in
      bare_os\<lparr>sys_openat := (\<lambda>_ p _ _ s. (Inr (if p = as_bytes ''.'' then 9 else 4), s)),
        sys_ofd_setlk := (\<lambda>_ _ s. (Inr (), s)),
        sys_fstat := (\<lambda>fd s. (Inr (if fd = 9 then (regular_stat [])\<lparr>st_nlink := 0\<rparr> else regular_stat data), s)),
        sys_fsync := (\<lambda>fd s. (if fd = 8 then Inl ENOSPC else Inr (), s)),
        sys_writev := (\<lambda>_ iovs s. (Inr (length (concat iovs)), s)),
        sys_linkat := (\<lambda>_ _ _ _ _ s. (Inr (), s)), sys_fstatat := (\<lambda>_ _ _ s. (Inr (regular_stat data), s)),
        sys_pread := (\<lambda>_ len off s. (Inr (take len (drop (unat off) data)), s)),
        sys_clock_gettime := (\<lambda>_ s. (Inr \<lparr>tv_sec = 0, tv_nsec = 5\<rparr>, s)),
        sys_getrandom := (\<lambda>n s. (Inr (replicate n 7), s))\<rparr>)"

lemma watermark_os_floor:
  "\<exists>q'. wall_floor_for_mutation (sample_env watermark_os) (sample_qworld ()) =
      Some (Ok \<lparr>wf_unix_ns = 5, wf_watermark_bucket = 0, wf_watermark_sequence = 0\<rparr>, q')
    \<and> qw_queue q' = sample_queue\<lparr>q_cached_watermark_fd := Some 4,
         q_cached_wall_floor := Some \<lparr>wf_unix_ns = 5, wf_watermark_bucket = 0, wf_watermark_sequence = 0\<rparr>\<rparr>
    \<and> qw_sys q' = idle_world () \<and> qw_lent q' = None"
proof -
  define data where "data = watermark_encode (\<lambda>_. arr_of (replicate 32 0)) \<lparr>wm_highest_observed_bucket = 0, wm_sequence = 0\<rparr>"
  let ?k = watermark_os
  note k = watermark_os_def [unfolded Let_def, folded data_def]
  have len: "length data = 64" by (simp add: data_def watermark_encode_fields Let_def)
  have dec: "watermark_decode (\<lambda>_. arr_of (replicate 32 0)) data = Ok \<lparr>wm_highest_observed_bucket = 0, wm_sequence = 0\<rparr>"
    unfolding data_def by (rule watermark_decode_encode)
  have "reader_progress ?k 4 data (\<lambda>_. 0)"
    unfolding reader_progress_def k by (auto intro!: exI)
  from pread_exact_run [OF this, of "idle_world ()" 0 64] idle_idle_world [of "()"]
  have rd: "pread_exact ?k 4 64 0 (idle_world ()) = Some (Ok data, idle_world ())"
    by (auto simp: idle_def len idle_world_def)
  have snap: "read_opened_wall_watermark (\<lambda>_. arr_of (replicate 32 0)) ?k 4 4 (idle_world ()) =
      Some (Ok (Snapshot_Current \<lparr>wm_highest_observed_bucket = 0, wm_sequence = 0\<rparr>), idle_world ())"
    using rd dec
    by (simp add: read_opened_wall_watermark_def io_try_def watermark_io_def io_map_err_def fstat_def fstatat_def
        with_name_eq control_names k watermark_stat_check_def regular_stat_def len S_IFMT_def S_IFREG_def
        watermark_path_matches_opened_def device_inode_match_def)
  have dir: "open_directory ?k fd n (idle_world ()) = Some (Ok 4, idle_world ())"
    if "0 \<notin> set (as_bytes n)" and "as_bytes n \<noteq> as_bytes ''.''" for fd n
    using that by (simp add: open_directory_def with_name_eq k)
  have opn: "openat ?k fd n fl m (idle_world ()) = Some (Ok 4, idle_world ())"
    if "0 \<notin> set (as_bytes n)" and "as_bytes n \<noteq> as_bytes ''.''" for fd n fl m
    using that by (simp add: openat_def with_name_eq k)
  have clk: "clock_realtime_ns ?k (idle_world ()) = Some (Ok 5, idle_world ())"
    by (simp add: clock_realtime_ns_def k io_try_def timespec_to_unix_ns_def timespec_ns_def idle_clock)
  have lk: "try_ofd_write_lock ?k fd (idle_world ()) = Some (Ok True, idle_world ())" for fd
    by (simp add: try_ofd_write_lock_def try_ofd_lock_def io_map_def k)
  let ?q = "sample_qworld () :: unit qworld"
  let ?q1 = "?q\<lparr>qw_queue := sample_queue\<lparr>q_cached_watermark_fd := Some 4\<rparr>\<rparr>"
  have floor0: "effective_wall_floor 5 0 60000000000 = Some 5"
    by (simp add: effective_wall_floor_def checked_mul_u64_def checked_mul_def max_def)
  have cached: "watermark_read_cached (sample_env ?k) 4 ?q = Some (Ok None, ?q)"
    by (simp add: watermark_read_cached_def io_bind_def sample_qworld_def sample_queue_def)
  have fresh: "watermark_read_fresh (sample_env ?k) 4 ?q =
      Some (Ok (Some \<lparr>wm_highest_observed_bucket = 0, wm_sequence = 0\<rparr>), ?q1)"
    by (simp add: watermark_read_fresh_def io_try_def io_bind_def io_map_err_def lift_def sample_qworld_def
        sample_env_def opn snap control_names)
  have read: "try_read_wall_watermark (sample_env ?k) WATERMARK_READ_ATTEMPTS ?q =
      Some (Ok (Some \<lparr>wm_highest_observed_bucket = 0, wm_sequence = 0\<rparr>), ?q1)"
    using cached fresh
    by (simp add: try_read_wall_watermark_def WATERMARK_READ_ATTEMPTS_def numeral_eq_Suc io_try_def io_bind_def
        watermark_io_def io_map_err_def lift_def sample_qworld_def sample_env_def dir control_names)
  have auth: "authenticated_wall_floor (sample_env ?k) ?q =
      Some (Ok \<lparr>wf_unix_ns = 5, wf_watermark_bucket = 0, wf_watermark_sequence = 0\<rparr>, ?q1)"
    using read
    by (simp add: authenticated_wall_floor_def authenticated_wall_floor_with_attempts_def
        io_try_def io_bind_def io_map_err_def lift_def clk floor0 sample_qworld_def sample_queue_def
        sample_env_def sample_format_def)
  have "stabilized_wall_floor (sample_env ?k) ?q =
      Some (Ok \<lparr>wf_unix_ns = 5, wf_watermark_bucket = 0, wf_watermark_sequence = 0\<rparr>, ?q1)"
    using auth
    by (simp add: stabilized_wall_floor_def with_wall_watermark_write_lock_def io_try_def io_bind_def from_io_def
        io_map_err_def lift_def dir opn lk control_names sample_qworld_def sample_queue_def sample_env_def
        sample_format_def bucket_number_def watermark_should_advance_def)
  then show ?thesis
    by (simp add: wall_floor_for_mutation_def wall_floor_for_mutation_with_attempts_def slow_wall_floor_def
        poison_on_floor_error_def io_try_def io_bind_def sample_qworld_def sample_queue_def)
qed

end
