(* ===== verification/Steadq_Publish.thy ===== *)
theory Steadq_Publish
  imports Steadq_Queue
begin

text \<open>
  Enqueueing, \<^verbatim>\<open>src/crates/steadq-core/src/queue/publish.rs\<close>: preparing a job, creating directories with
  their barriers, writing the envelope to an unnamed or a named temporary file and publishing it,
  from a buffer or from a stream.

  The optional dirty set of the source is the set lent to the procedure. The reader of a streaming
  enqueue is an argument with a state of its own. The streaming hasher digests the concatenation
  of its updates.

  The lemmas show that what an enqueue publishes is an envelope the verifier accepts, under a name
  that authenticates where the ticket says it is; that streaming and buffering write the same file;
  and what a publication leaves of the handle.
\<close>

subsection \<open>Control flow\<close>

text \<open>A loop whose body may fail, ending at the first failure.\<close>

fun io_for :: "'a list \<Rightarrow> ('a \<Rightarrow> ('w, 'e + unit) proc) \<Rightarrow> ('w, 'e + unit) proc" where
  "io_for [] body = io_return (Ok ())"
| "io_for (x # xs) body = io_try (body x) (\<lambda>_. io_for xs body)"

lemma io_map_err_Ok_iff [simp]: "io_map_err g m w = Some (Ok x, w') \<longleftrightarrow> m w = Some (Ok x, w')"
  by (auto simp: io_map_err_def io_bind_def io_return_def map_err_def split: option.splits sum.splits)

lemma io_map_err_Err_iff: "io_map_err g m w = Some (Err y, w') \<longleftrightarrow> (\<exists>er. m w = Some (Err er, w') \<and> y = g er)"
  by (auto simp: io_map_err_def io_bind_def io_return_def map_err_def split: option.splits sum.splits)

text \<open>A function that returns an outcome early: its body has the outcome in the place of the error.\<close>

definition returning :: "('w, 'a + 'a) proc \<Rightarrow> ('w, 'a) proc" where
  "returning m = io_map (\<lambda>r. case r of Err x \<Rightarrow> x | Ok x \<Rightarrow> x) m"

text \<open>A loop over the entries of a directory stream: each step sees the next entry, the end or the error,
  and continues with a new accumulator or ends the loop.\<close>

datatype ('a, 'b) step = Continue 'a | Break 'b

partial_function (option) each_entry ::
  "'s os \<Rightarrow> (IoError + DirEntryName option \<times> DirectoryStream \<Rightarrow> 'a \<Rightarrow> ('s, ('a, 'b) step) qproc)
     \<Rightarrow> DirectoryStream \<Rightarrow> 'a \<Rightarrow> 's qworld \<Rightarrow> ('b \<times> 's qworld) option" where
  "each_entry k step stream a q =
     (case next_entry k stream (qw_sys q) of
        None \<Rightarrow> None
      | Some (r, w) \<Rightarrow>
          (case step r a (q\<lparr>qw_sys := w\<rparr>) of
             None \<Rightarrow> None
           | Some (Continue a', q') \<Rightarrow>
               each_entry k step (case r of Inr (_, stream') \<Rightarrow> stream' | Inl _ \<Rightarrow> stream) a' q'
           | Some (Break b, q') \<Rightarrow> Some (b, q')))"

text \<open>Recording a directory in the lent dirty set, if there is one.\<close>

definition record_lent :: "'s env \<Rightarrow> fd \<Rightarrow> ('s, IoError + unit) qproc" where
  "record_lent e fd =
     io_bind lent (\<lambda>dirty. case dirty of
       None \<Rightarrow> io_return (Ok ())
     | Some d \<Rightarrow> io_try (lift (dirty_set_record (env_os e) (env_clone e) d fd)) (\<lambda>d'.
         io_bind (set_lent (Some d')) (\<lambda>_. io_return (Ok ()))))"

text \<open>Running an operation with the handle's own dirty set lent to it.\<close>

definition with_own_dirty :: "('s, 'a) qproc \<Rightarrow> ('s, 'a) qproc" where
  "with_own_dirty m =
     io_bind (asks q_dirty) (\<lambda>tmp.
     io_bind (modifies (\<lambda>q. q\<lparr>q_dirty := dirty_set_new\<rparr>)) (\<lambda>_.
     io_bind (lending (Some tmp) m) (\<lambda>(x, back).
     io_bind (modifies (\<lambda>q. q\<lparr>q_dirty := (case back of Some d \<Rightarrow> d | None \<Rightarrow> dirty_set_new)\<rparr>)) (\<lambda>_.
       io_return x))))"

definition MODE_0700 :: u32 where "MODE_0700 = 448"

subsection \<open>Failures of a publication\<close>

datatype PublishError =
    PE_NotCommitted Error
  | PE_OutcomeUnknown Error
  | PE_OutcomeUnknownPublished digest Error

fun with_published_digest :: "digest \<Rightarrow> PublishError \<Rightarrow> PublishError" where
  "with_published_digest d (PE_OutcomeUnknown error) = PE_OutcomeUnknownPublished d error"
| "with_published_digest d other = other"

fun publish_phase_text :: "TmpfilePublishPhase \<Rightarrow> string" where
  "publish_phase_text SourceIdentity = ''SourceIdentity''"
| "publish_phase_text FileFsync = ''FileFsync''"
| "publish_phase_text Phase_Link = ''Link''"
| "publish_phase_text DestinationFsync = ''DestinationFsync''"

definition publication_failed_at :: "TmpfilePublishPhase \<Rightarrow> IoError \<Rightarrow> Error" where
  "publication_failed_at phase source =
     (case error_from_io source of
        IoFailure message \<Rightarrow> IoFailure (''temporary-file publication failed at '' @ publish_phase_text phase
                              @ '': '' @ message)
      | classified \<Rightarrow> classified)"

fun classify_tmpfile :: "TmpfilePublishFailure \<Rightarrow> PublishError" where
  "classify_tmpfile Publish_AlreadyExists = PE_NotCommitted IdentityCollision"
| "classify_tmpfile (Publish_NotCommitted phase source) = PE_NotCommitted (publication_failed_at phase source)"
| "classify_tmpfile (Publish_OutcomeUnknown phase source) = PE_OutcomeUnknown (publication_failed_at phase source)"

fun from_move_failure :: "MoveFailure \<Rightarrow> PublishError" where
  "from_move_failure Move_AlreadyExists = PE_NotCommitted IdentityCollision"
| "from_move_failure Move_SourceMissing = PE_NotCommitted (IoFailure ''temporary publication source missing'')"
| "from_move_failure (Move_NotCommitted _ source) = PE_NotCommitted (error_from_io source)"
| "from_move_failure (Move_OutcomeUnknown _ source) = PE_OutcomeUnknown (error_from_io source)"

definition classify_write :: "IoError \<Rightarrow> PublishError" where
  "classify_write e = PE_NotCommitted (error_from_io e)"

definition classify_pre_pub_fsync :: "IoError \<Rightarrow> PublishError" where
  "classify_pre_pub_fsync e = PE_NotCommitted (error_from_io e)"

definition not_committed :: "('s, IoError + 'a) qproc \<Rightarrow> ('s, PublishError + 'a) qproc" where
  "not_committed m = io_map_err (\<lambda>e. PE_NotCommitted (error_from_io e)) m"

definition sharded_bucket_parent :: "string \<Rightarrow> u32 \<Rightarrow> string option" where
  "sharded_bucket_parent relative shard_count =
     (case rsplit_once (CHR ''/'') relative of
        None \<Rightarrow> None
      | Some (bucket, shard_name) \<Rightarrow>
          if bucket = ''ready'' then None
          else (case shard_from_hex shard_name of
                  None \<Rightarrow> None
                | Some shard \<Rightarrow> if shard < shard_count then Some bucket else None))"

subsection \<open>Creating directories\<close>

definition dir_is_known :: "string \<Rightarrow> ('s, bool) qproc" where
  "dir_is_known relative =
     io_bind (asks q_known_dirs) (\<lambda>known. io_bind lent (\<lambda>dirty.
       io_return (relative \<in> known \<or> (case dirty of None \<Rightarrow> False | Some d \<Rightarrow> relative \<in> pending_dirs d))))"

text \<open>Sync the parent now and mark its children known, or record it and leave them pending.\<close>

definition extend_pending :: "string list \<Rightarrow> DirtySet \<Rightarrow> DirtySet" where
  "extend_pending children d = d\<lparr>pending_dirs := pending_dirs d \<union> set children\<rparr>"

definition sync_parent_of :: "'s env \<Rightarrow> fd \<Rightarrow> string list \<Rightarrow> ('s, IoError + unit) qproc" where
  "sync_parent_of e parent children =
     io_bind lent (\<lambda>dirty. case dirty of
       Some _ \<Rightarrow>
         io_try (record_lent e parent) (\<lambda>_.
         io_bind lent (\<lambda>d. io_bind (set_lent (map_option (extend_pending children) d)) (\<lambda>_. io_return (Ok ()))))
     | None \<Rightarrow>
         io_try (lift (fsync_dir_fd (env_os e) parent)) (\<lambda>_.
         io_bind (modifies (\<lambda>q. q\<lparr>q_known_dirs := q_known_dirs q \<union> set children\<rparr>)) (\<lambda>_. io_return (Ok ()))))"

text \<open>The loop over the components: \<open>done\<close> holds the components already entered.\<close>

fun ensure_components :: "'s env \<Rightarrow> fd \<Rightarrow> string list \<Rightarrow> string list \<Rightarrow> ('s, IoError + unit) qproc" where
  "ensure_components e parent entered [] = io_return (Ok ())"
| "ensure_components e parent entered (c # cs) =
     (let path = join_with (CHR ''/'') (entered @ [c]) in
      io_bind (dir_is_known path) (\<lambda>known.
      io_try (if known then io_return (Ok ())
              else io_try (lift (mkdirat_eexist_ok (env_os e) parent c MODE_0700)) (\<lambda>_. io_return (Ok ()))) (\<lambda>_.
      io_try (lift (open_directory (env_os e) parent c)) (\<lambda>child.
      io_try (if known then io_return (Ok ()) else sync_parent_of e parent [path]) (\<lambda>_.
        ensure_components e child (entered @ [c]) cs)))))"

definition shard_children :: "u32 \<Rightarrow> string \<Rightarrow> string list" where
  "shard_children shard_count bucket =
     map (\<lambda>shard. bucket @ ''/'' @ shard_hex (word_of_nat shard)) [0..<unat shard_count]"

text \<open>The shard directories of a bucket that exists.\<close>

definition ensure_shards :: "'s env \<Rightarrow> string \<Rightarrow> ('s, IoError + unit) qproc" where
  "ensure_shards e bucket =
     io_bind (asks q_root_fd) (\<lambda>root_fd.
     io_try (lift (open_relative (env_os e) root_fd bucket)) (\<lambda>bucket_fd.
     io_bind (asks (\<lambda>q. fmt_shard_count (q_format q))) (\<lambda>shard_count.
     io_try (io_for [0..<unat shard_count] (\<lambda>shard.
       io_try (lift (mkdirat_eexist_ok (env_os e) bucket_fd (shard_hex (word_of_nat shard)) MODE_0700)) (\<lambda>_.
         io_return (Ok ())))) (\<lambda>_.
       sync_parent_of e bucket_fd (shard_children shard_count bucket)))))"

lemma sharded_bucket_parent_shorter:
  assumes "sharded_bucket_parent relative n = Some bucket"
  shows "length bucket < length relative"
proof -
  let ?d = "dropWhile (\<lambda>x. x \<noteq> CHR ''/'') (rev relative)"
  from assms have "CHR ''/'' \<in> set relative" and b: "bucket = rev (tl ?d)"
    by (auto simp: sharded_bucket_parent_def rsplit_once_def split: option.splits if_splits)
  then have "?d \<noteq> []" by (auto simp: dropWhile_eq_Nil_conv)
  moreover have "length ?d \<le> length relative"
    by (metis length_dropWhile_le length_rev)
  ultimately show ?thesis using b by (cases ?d) auto
qed

function ensure_dir_with_dirty :: "'s env \<Rightarrow> string \<Rightarrow> ('s, IoError + unit) qproc" where
  "ensure_dir_with_dirty e relative =
     io_bind (dir_is_known relative) (\<lambda>known.
       if known then io_return (Ok ())
       else io_bind (asks (\<lambda>q. fmt_shard_count (q_format q))) (\<lambda>shard_count.
         case sharded_bucket_parent relative shard_count of
           Some bucket \<Rightarrow> io_try (ensure_dir_with_dirty e bucket) (\<lambda>_. ensure_shards e bucket)
         | None \<Rightarrow> io_bind (asks q_root_fd) (\<lambda>root_fd.
             ensure_components e root_fd [] (filter (\<lambda>s. s \<noteq> []) (split_on (CHR ''/'') relative)))))"
  by pat_completeness auto

termination
  by (relation "measure (\<lambda>(_, relative). length relative)") (auto dest: sharded_bucket_parent_shorter)

declare ensure_dir_with_dirty.simps [simp del]

definition ensure_dir :: "'s env \<Rightarrow> string \<Rightarrow> ('s, IoError + unit) qproc" where
  "ensure_dir e relative = strictly (ensure_dir_with_dirty e relative)"

text \<open>The barrier of a dirty set; a failed one keeps the set for a later attempt.\<close>

definition sync_dirty :: "'s env \<Rightarrow> DirtySet \<Rightarrow> ('s, (IoError + unit) \<times> DirtySet) qproc" where
  "sync_dirty e dirty =
     io_bind (lift (sync_all (env_os e) dirty)) (\<lambda>r. case r of
       Err er \<Rightarrow> io_return (Err er, dirty)
     | Ok _ \<Rightarrow>
         io_bind (modifies (\<lambda>q. q\<lparr>q_known_dirs := q_known_dirs q \<union> pending_dirs dirty\<rparr>)) (\<lambda>_.
           io_return (Ok (), dirty_set_clear dirty)))"

definition SYNCED_STATES :: "string list" where
  "SYNCED_STATES = [''ready'', ''leased'', ''delayed'', ''dead'', ''receipts'', ''quarantine'', ''control'']"

definition queue_sync :: "'s env \<Rightarrow> ('s, IoError + unit) qproc" where
  "queue_sync e =
     io_bind (asks q_deferred_dir_sync) (\<lambda>deferred.
       if deferred then
         io_bind (asks q_dirty) (\<lambda>dirty.
           if dirty_set_is_empty dirty then io_return (Ok ())
           else io_bind (sync_dirty e dirty) (\<lambda>(r, dirty').
             io_bind (modifies (\<lambda>q. q\<lparr>q_dirty := dirty'\<rparr>)) (\<lambda>_. io_return r)))
       else
         io_bind (asks q_root_fd) (\<lambda>root_fd.
         io_try (io_for SYNCED_STATES (\<lambda>dir.
           io_bind (lift (open_relative (env_os e) root_fd dir)) (\<lambda>r. case r of
             Ok fd \<Rightarrow> lift (fsync_dir_fd (env_os e) fd)
           | Err _ \<Rightarrow> io_return (Ok ())))) (\<lambda>_.
           lift (fsync_dir_fd (env_os e) root_fd))))"

subsection \<open>Preparing an enqueue\<close>

fun cbor_error_text :: "CborError \<Rightarrow> string" where
  "cbor_error_text TooLarge = ''extension exceeds max size''"
| "cbor_error_text TooManyEntries = ''metadata exceeds max entries''"
| "cbor_error_text ContentTypeTooLong = ''content type too long''"
| "cbor_error_text ProducerIdTooLong = ''producer_id too long''"
| "cbor_error_text TraceContextTooLong = ''trace_context too long''"
| "cbor_error_text TextTooLong = ''text value too long''"
| "cbor_error_text BytesTooLong = ''bytes value too long''"
| "cbor_error_text (InvalidKey k) = ''invalid metadata key: '' @ k"
| "cbor_error_text InvalidContentType = ''content type contains invalid ASCII''"
| "cbor_error_text ProducerIdNul = ''producer_id contains NUL''"
| "cbor_error_text Truncated = ''truncated input''"
| "cbor_error_text (InvalidMajorType n) = ''invalid major type '' @ decimal (unat n)"
| "cbor_error_text (InvalidSimpleValue n) = ''invalid simple value '' @ decimal (unat n)"
| "cbor_error_text (UnexpectedTag n) = ''unexpected tag '' @ decimal (unat n)"
| "cbor_error_text IndefiniteLength = ''indefinite length not allowed''"
| "cbor_error_text FloatNotAllowed = ''float not allowed''"
| "cbor_error_text NullNotAllowed = ''null not allowed''"
| "cbor_error_text UndefinedNotAllowed = ''undefined not allowed''"
| "cbor_error_text NestingTooDeep = ''nesting too deep''"
| "cbor_error_text (UnknownKey n) = ''unknown protocol key '' @ decimal (unat n)"
| "cbor_error_text (DuplicateKey n) = ''duplicate key '' @ decimal (unat n)"
| "cbor_error_text MissingContentType = ''content_type is required''"
| "cbor_error_text InvalidUtf8 = ''invalid UTF-8''"
| "cbor_error_text TrailingBytes = ''trailing bytes''"
| "cbor_error_text IntOverflow = ''integer overflow''"

record PreparedEnqueue =
  pe_ticket :: EnqueueTicket
  pe_header :: FixedHeader
  pe_ext_bytes :: bytes
  pe_payload :: bytes
  pe_dest_dir :: string
  pe_filename :: string
  pe_ready_shard_hint :: "u32 option"

definition zero_id :: id128 where "zero_id = arr_of (replicate 16 0)"
definition zero_digest :: digest where "zero_digest = arr_of (replicate 32 0)"

definition input_extension :: "EnqueueInput \<Rightarrow> ExtensionHeader" where
  "input_extension job =
     \<lparr>initial_not_before_unix_ns = ei_initial_not_before job, content_type = ei_content_type job,
      metadata = ei_metadata job, producer_id = ei_producer_id job, trace_context = ei_trace_context job\<rparr>"

text \<open>The header without its envelope digest, for a payload of the given length and digest.\<close>

definition fresh_header :: "id128 \<Rightarrow> u32 \<Rightarrow> u64 \<Rightarrow> bytes \<Rightarrow> u64 \<Rightarrow> digest \<Rightarrow> FixedHeader" where
  "fresh_header jid max_attempts created_at ext_bytes payload_len pdig =
     \<lparr>hdr_format_minor = FORMAT_MINOR, hdr_extension_header_length = word_of_nat (length ext_bytes),
      hdr_payload_length = payload_len, hdr_flags = 0, hdr_digest_algorithm = DIGEST_ALGORITHM_SHA256,
      hdr_job_id = jid, hdr_maximum_attempts = max_attempts, hdr_created_at_unix_ns = created_at,
      hdr_payload_digest = pdig, hdr_envelope_digest = zero_digest\<rparr>"

definition origin_fields :: "id128 \<Rightarrow> u32 \<Rightarrow> CommonFields" where
  "origin_fields jid max_attempts =
     \<lparr>job_id = jid, generation = 0, attempt = 0, maximum_attempts = max_attempts\<rparr>"

fun enqueue_operation :: "InitialState \<Rightarrow> Operation" where
  "enqueue_operation Initial_Ready = Op_EnqueueImmediate"
| "enqueue_operation Initial_Delayed = Op_EnqueueDelayed"

definition enqueue_target ::
  "sha256 \<Rightarrow> Layout \<Rightarrow> InitialState \<Rightarrow> u64 option \<Rightarrow> CommonFields \<Rightarrow> Error + Target" where
  "enqueue_target sha l initial not_before common =
     (case initial of
        Initial_Ready \<Rightarrow> Ok (layout_ready sha l common)
      | Initial_Delayed \<Rightarrow>
          (case not_before of
             None \<Rightarrow> Err (QueueCorrupt ''delayed enqueue lost its deadline'')
           | Some not_before_ns \<Rightarrow> layout_delayed sha l common not_before_ns))"

definition payload_limit :: "FormatRecord \<Rightarrow> u64" where
  "payload_limit fmt = min (fmt_max_payload_length fmt) MAX_PAYLOAD_LENGTH"

text \<open>What the header, its digest and the initial state of a job are, from the identity and the
  wall floor the queue has drawn.\<close>

definition prepare_header ::
  "sha256 \<Rightarrow> FormatRecord \<Rightarrow> EnqueueInput \<Rightarrow> id128 \<Rightarrow> u64 \<Rightarrow> (EnqueueTicket \<times> Error) + (FixedHeader \<times> bytes)" where
  "prepare_header sha fmt job jid created_at =
     (let uncommitted = Pair (enqueue_ticket_uncommitted jid) in
      if ei_maximum_attempts job = 0 then Err (uncommitted (InvalidInput ''maximum_attempts must be >= 1''))
      else
        res_bind (map_err (\<lambda>er. uncommitted (InvalidInput (cbor_error_text er))) (extension_encode (input_extension job))) (\<lambda>ext_bytes.
        if word_of_nat (length (ei_payload job)) > payload_limit fmt
        then Err (uncommitted (InvalidInput ''payload exceeds limit''))
        else
          let header = fresh_header jid (ei_maximum_attempts job) created_at ext_bytes
                (word_of_nat (length (ei_payload job))) (payload_digest sha (ei_payload job))
          in res_bind (ok_or (envelope_digest sha header ext_bytes)
                         (uncommitted (InvalidInput ''extension length mismatch''))) (\<lambda>env_dig.
               Ok (header\<lparr>hdr_envelope_digest := env_dig\<rparr>, ext_bytes))))"

definition initial_state_of :: "u64 option \<Rightarrow> u64 \<Rightarrow> u64 \<Rightarrow> Error + InitialState" where
  "initial_state_of not_before now_wall width =
     (case not_before of
        Some nb \<Rightarrow>
          if nb > now_wall then
            (case eligibility_bucket_and_ns nb width of
               Some _ \<Rightarrow> Ok Initial_Delayed
             | None \<Rightarrow> Err (InvalidInput ''eligibility overflow''))
          else Ok Initial_Ready
      | None \<Rightarrow> Ok Initial_Ready)"

definition prepare_job ::
  "sha256 \<Rightarrow> Queue \<Rightarrow> EnqueueInput \<Rightarrow> id128 \<Rightarrow> u64 \<Rightarrow> (EnqueueTicket \<times> Error) + PreparedEnqueue" where
  "prepare_job sha q job jid now_wall =
     res_bind (prepare_header sha (q_format q) job jid now_wall) (\<lambda>(header, ext_bytes).
     let ticket_for = (\<lambda>state path. \<lparr>et_job_id = jid, et_envelope_digest = hdr_envelope_digest header,
           et_expected_initial_state = state, et_expected_relative_path = path\<rparr>) in
     res_bind (map_err (Pair (ticket_for Initial_Ready []))
         (initial_state_of (ei_initial_not_before job) now_wall (fmt_delayed_bucket_width_ns (q_format q)))) (\<lambda>initial.
     res_bind (map_err (Pair (enqueue_ticket_uncommitted jid))
         (next_identity (enqueue_operation initial) (origin_fields jid (ei_maximum_attempts job)))) (\<lambda>common.
     res_bind (map_err (Pair (ticket_for initial []))
         (enqueue_target sha (queue_layout q) initial (ei_initial_not_before job) common)) (\<lambda>target.
       Ok \<lparr>pe_ticket = ticket_for initial (relative_path target), pe_header = header, pe_ext_bytes = ext_bytes,
           pe_payload = ei_payload job, pe_dest_dir = target_directory target, pe_filename = tg_filename target,
           pe_ready_shard_hint =
             (case initial of
                Initial_Ready \<Rightarrow> Some (compute_shard sha (fmt_queue_id (q_format q)) jid (fmt_shard_count (q_format q)))
              | Initial_Delayed \<Rightarrow> None)\<rparr>))))"

definition prepare_enqueue :: "'s env \<Rightarrow> EnqueueInput \<Rightarrow> ('s, (EnqueueTicket \<times> Error) + PreparedEnqueue) qproc" where
  "prepare_enqueue e job =
     io_bind (asks check_not_poisoned) (\<lambda>usable.
     io_try (io_return (map_err (Pair (enqueue_ticket_uncommitted zero_id)) usable)) (\<lambda>_.
     io_try (io_map_err (Pair (enqueue_ticket_uncommitted zero_id)) (from_io (random_128bit (env_os e)))) (\<lambda>jid.
     io_try (io_map_err (Pair (enqueue_ticket_uncommitted jid)) (wall_floor_for_mutation e)) (\<lambda>wall_floor.
       asks (\<lambda>q. prepare_job (env_sha e) q job jid (wf_unix_ns wall_floor))))))"

subsection \<open>Writing and publishing an envelope\<close>

definition cloned :: "'s env \<Rightarrow> fd \<Rightarrow> ('s, IoError + fd) qproc" where
  "cloned e fd = io_map_err (\<lambda>er. io_error_other (io_text er)) (lift (env_clone e fd))"

definition reopen_dir :: "'s env \<Rightarrow> string \<Rightarrow> ('s, IoError + fd) qproc" where
  "reopen_dir e relative =
     io_bind (asks q_root_fd) (\<lambda>root_fd.
     io_try (lift (open_relative (env_os e) root_fd relative)) (\<lambda>fd.
     io_try (cloned e fd) (\<lambda>kept.
     io_bind (modifies (\<lambda>q. q\<lparr>q_cached_dest_fd := Some (relative, kept)\<rparr>)) (\<lambda>_. io_return (Ok fd)))))"

definition open_or_cache_dir :: "'s env \<Rightarrow> string \<Rightarrow> ('s, IoError + fd) qproc" where
  "open_or_cache_dir e relative =
     io_bind (asks q_cached_dest_fd) (\<lambda>cached. case cached of
       Some (cached_path, cached_fd) \<Rightarrow>
         if cached_path = relative then cloned e cached_fd else reopen_dir e relative
     | None \<Rightarrow> reopen_dir e relative)"

text \<open>The named temporary file and its guard: the body returns its result and whether the guard is
  still armed when it is dropped.\<close>

definition with_temp_guard ::
  "'s env \<Rightarrow> fd \<Rightarrow> string \<Rightarrow> ('s, 'a \<times> bool) qproc \<Rightarrow> ('s, 'a) qproc" where
  "with_temp_guard e dir_fd name body =
     io_bind body (\<lambda>(r, armed).
       if armed then io_bind (lift (unlinkat (env_os e) dir_fd name)) (\<lambda>_. io_return r)
       else io_return r)"

text \<open>A step under an armed guard.\<close>

definition guarded_try ::
  "('s, 'e + 'a) qproc \<Rightarrow> ('a \<Rightarrow> ('s, ('e + 'b) \<times> bool) qproc) \<Rightarrow> ('s, ('e + 'b) \<times> bool) qproc" where
  "guarded_try m f = io_bind m (\<lambda>r. case r of Err er \<Rightarrow> io_return (Err er, True) | Ok x \<Rightarrow> f x)"

definition shard_part :: "string \<Rightarrow> string" where
  "shard_part dest_dir_relative = last (split_on (CHR ''/'') dest_dir_relative)"

definition temporary_directory :: "Queue \<Rightarrow> string \<Rightarrow> string" where
  "temporary_directory q dest_dir_relative = ''tmp/'' @ q_boot_id q @ ''/'' @ shard_part dest_dir_relative"

text \<open>The opened temporary directory, the fresh name, and the created file.\<close>

definition create_named_temp :: "'s env \<Rightarrow> string \<Rightarrow> ('s, PublishError + fd \<times> string \<times> fd) qproc" where
  "create_named_temp e dest_dir_relative =
     (let k = env_os e in
      io_bind (asks (\<lambda>q. temporary_directory q dest_dir_relative)) (\<lambda>tmp_dir.
      io_try (not_committed (ensure_dir_with_dirty e tmp_dir)) (\<lambda>_.
      io_bind (asks q_root_fd) (\<lambda>root_fd.
      io_try (not_committed (lift (open_relative k root_fd tmp_dir))) (\<lambda>tmp_dir_fd.
      io_try (not_committed (lift (clock_boottime_ns k))) (\<lambda>boottime.
      io_try (not_committed (lift (random_128bit k))) (\<lambda>rnd.
      let temp_name = temp_filename boottime rnd in
      io_try (not_committed (lift (create_exclusive k tmp_dir_fd temp_name MODE_0600))) (\<lambda>tmp_file.
        io_return (Ok (tmp_dir_fd, temp_name, tmp_file))))))))))"

text \<open>The move of a named temporary file to its place, deferred when a dirty set is lent.\<close>

definition publish_named ::
  "'s env \<Rightarrow> fd \<Rightarrow> string \<Rightarrow> fd \<Rightarrow> string \<Rightarrow> MoveIdentity \<Rightarrow> ('s, MoveFailure + unit) qproc" where
  "publish_named e tmp_dir_fd temp_name dest_fd dest_name identity =
     io_bind lent (\<lambda>dirty. lift (case dirty of
         Some _ \<Rightarrow>
           io_try (move_witnessed_noreplace_deferred (env_os e) tmp_dir_fd temp_name dest_fd dest_name identity
                     (\<lambda>_. io_return (Ok ()))) (\<lambda>_. io_return (Ok ()))
       | None \<Rightarrow> move_witnessed_noreplace_io (env_os e) tmp_dir_fd temp_name dest_fd dest_name identity))"

definition stat_identity :: "Stat \<Rightarrow> MoveIdentity" where
  "stat_identity stat = \<lparr>mi_device = st_dev stat, mi_inode = st_ino stat\<rparr>"

definition named_fallback_body ::
  "'s env \<Rightarrow> fd \<Rightarrow> string \<Rightarrow> fd \<Rightarrow> fd \<Rightarrow> string \<Rightarrow> FixedHeader \<Rightarrow> bytes \<Rightarrow> bytes
     \<Rightarrow> ('s, (PublishError + unit) \<times> bool) qproc" where
  "named_fallback_body e tmp_dir_fd temp_name tmp_file dest_fd dest_name header ext_bytes payload =
     (let k = env_os e in
      guarded_try (io_return (map_err (\<lambda>er. PE_NotCommitted (InvalidInput (header_error_text er)))
                     (header_encode header ext_bytes))) (\<lambda>header_bytes.
      guarded_try (lift (io_map_err classify_write (write_all k tmp_file header_bytes))) (\<lambda>_.
      guarded_try (lift (io_map_err classify_write (write_all k tmp_file ext_bytes))) (\<lambda>_.
      guarded_try (lift (io_map_err classify_write (write_all k tmp_file payload))) (\<lambda>_.
      guarded_try (lift (io_map_err classify_pre_pub_fsync (fsync k tmp_file))) (\<lambda>_.
      guarded_try (lift (io_map_err classify_write (fstat k tmp_file))) (\<lambda>temp_stat.
      io_bind (publish_named e tmp_dir_fd temp_name dest_fd dest_name (stat_identity temp_stat)) (\<lambda>moved.
        case moved of
          Ok _ \<Rightarrow>
            io_bind (io_try (record_lent e tmp_dir_fd) (\<lambda>_. record_lent e dest_fd)) (\<lambda>recorded.
              io_return (map_err (\<lambda>er. PE_OutcomeUnknown (error_from_io er)) recorded, False))
        | Err failure \<Rightarrow>
            io_return (Err (from_move_failure failure), \<not> move_is_outcome_unknown failure)))))))))"

definition named_fallback_with_dirty ::
  "'s env \<Rightarrow> string \<Rightarrow> fd \<Rightarrow> string \<Rightarrow> FixedHeader \<Rightarrow> bytes \<Rightarrow> bytes \<Rightarrow> ('s, PublishError + unit) qproc" where
  "named_fallback_with_dirty e dest_dir_relative dest_fd dest_name header ext_bytes payload =
     io_try (create_named_temp e dest_dir_relative) (\<lambda>(tmp_dir_fd, temp_name, tmp_file).
       with_temp_guard e tmp_dir_fd temp_name
         (named_fallback_body e tmp_dir_fd temp_name tmp_file dest_fd dest_name header ext_bytes payload))"

definition publish_tmpfile ::
  "'s env \<Rightarrow> fd \<Rightarrow> fd \<Rightarrow> string \<Rightarrow> ('s, TmpfilePublishFailure + TmpfilePublishOutcome) qproc" where
  "publish_tmpfile e tmp_fd dest_fd dest_name =
     io_bind lent (\<lambda>dirty. io_bind (asks q_publication_mode) (\<lambda>mode.
       lift (if dirty \<noteq> None then publish_tmpfile_noreplace_deferred_with_mode (env_os e) tmp_fd dest_fd dest_name mode
             else publish_tmpfile_noreplace_with_mode (env_os e) tmp_fd dest_fd dest_name mode)))"

definition set_publication_mode :: "PublicationMode \<Rightarrow> ('s, unit) qproc" where
  "set_publication_mode mode = modifies (\<lambda>q. q\<lparr>q_publication_mode := Some mode\<rparr>)"

text \<open>The unnamed temporary file, once it is open: writing it, and publishing what was written.\<close>

definition write_tmpfile :: "'s env \<Rightarrow> FixedHeader \<Rightarrow> bytes \<Rightarrow> bytes \<Rightarrow> fd \<Rightarrow> ('s, PublishError + unit) qproc" where
  "write_tmpfile e header ext_bytes payload tmp_fd =
     io_try (io_return (map_err (\<lambda>er. PE_NotCommitted (InvalidInput (header_error_text er)))
               (header_encode header ext_bytes))) (\<lambda>header_bytes.
       lift (io_map_err classify_write (writev_all (env_os e) tmp_fd [header_bytes, ext_bytes, payload])))"

definition write_tmpfile_and_publish ::
  "'s env \<Rightarrow> string \<Rightarrow> fd \<Rightarrow> string \<Rightarrow> FixedHeader \<Rightarrow> bytes \<Rightarrow> bytes \<Rightarrow> fd \<Rightarrow> ('s, PublishError + unit) qproc" where
  "write_tmpfile_and_publish e dest_dir_relative dest_fd dest_name header ext_bytes payload tmp_fd =
     io_try (write_tmpfile e header ext_bytes payload tmp_fd) (\<lambda>_.
     io_bind (publish_tmpfile e tmp_fd dest_fd dest_name) (\<lambda>outcome. case outcome of
       Ok (Published mode) \<Rightarrow>
         io_bind (set_publication_mode mode) (\<lambda>_.
           io_map_err (\<lambda>er. PE_OutcomeUnknown (error_from_io er)) (record_lent e dest_fd))
     | Ok Unsupported \<Rightarrow>
         io_bind (set_publication_mode NamedFallback) (\<lambda>_.
           named_fallback_with_dirty e dest_dir_relative dest_fd dest_name header ext_bytes payload)
     | Err failure \<Rightarrow> io_return (Err (classify_tmpfile failure))))"

definition write_and_publish_with_dirty ::
  "'s env \<Rightarrow> string \<Rightarrow> string \<Rightarrow> FixedHeader \<Rightarrow> bytes \<Rightarrow> bytes \<Rightarrow> ('s, PublishError + unit) qproc" where
  "write_and_publish_with_dirty e dest_dir_relative dest_name header ext_bytes payload =
     io_try (not_committed (ensure_dir_with_dirty e dest_dir_relative)) (\<lambda>_.
     io_try (not_committed (open_or_cache_dir e dest_dir_relative)) (\<lambda>dest_fd.
     io_bind (asks q_publication_mode) (\<lambda>mode.
       if mode = Some NamedFallback
       then named_fallback_with_dirty e dest_dir_relative dest_fd dest_name header ext_bytes payload
       else
         io_bind (lift (open_tmpfile (env_os e) dest_fd)) (\<lambda>opened. case opened of
           Ok tmp_fd \<Rightarrow> write_tmpfile_and_publish e dest_dir_relative dest_fd dest_name header ext_bytes payload tmp_fd
         | Err er \<Rightarrow>
             if is_tmpfile_open_unsupported er then
               io_bind (set_publication_mode NamedFallback) (\<lambda>_.
                 named_fallback_with_dirty e dest_dir_relative dest_fd dest_name header ext_bytes payload)
             else io_return (Err (classify_write er))))))"

definition enqueue_with_dirty :: "'s env \<Rightarrow> EnqueueInput \<Rightarrow> ('s, EnqueueOutcome) qproc" where
  "enqueue_with_dirty e job =
     io_bind (prepare_enqueue e job) (\<lambda>p. case p of
       Err (ticket, er) \<Rightarrow> io_return (Enqueue_NotCommitted ticket er)
     | Ok prepared \<Rightarrow>
         io_bind (write_and_publish_with_dirty e (pe_dest_dir prepared) (pe_filename prepared) (pe_header prepared)
                    (pe_ext_bytes prepared) (pe_payload prepared)) (\<lambda>result. case result of
           Ok _ \<Rightarrow>
             io_bind (modifies (\<lambda>q. case pe_ready_shard_hint prepared of
                         Some shard \<Rightarrow> q\<lparr>q_ready_shard_hint := Some shard\<rparr> | None \<Rightarrow> q)) (\<lambda>_.
               io_return (Enqueue_Committed (pe_ticket prepared)))
         | Err (PE_NotCommitted er) \<Rightarrow> io_return (Enqueue_NotCommitted (pe_ticket prepared) er)
         | Err (PE_OutcomeUnknown er) \<Rightarrow>
             io_bind (modifies (poison PostLinearizationStateUnknown)) (\<lambda>_.
               io_return (Enqueue_OutcomeUnknown (pe_ticket prepared) er))
         | Err (PE_OutcomeUnknownPublished d er) \<Rightarrow>
             io_bind (modifies (poison PostLinearizationStateUnknown)) (\<lambda>_.
               io_return (Enqueue_OutcomeUnknown ((pe_ticket prepared)\<lparr>et_envelope_digest := d\<rparr>) er))))"

fun deferred_enqueue :: "EnqueueOutcome \<Rightarrow> EnqueueOutcome" where
  "deferred_enqueue (Enqueue_Committed ticket) = Enqueue_Deferred ticket"
| "deferred_enqueue outcome = outcome"

definition enqueue :: "'s env \<Rightarrow> EnqueueInput \<Rightarrow> ('s, EnqueueOutcome) qproc" where
  "enqueue e job =
     io_bind (asks q_deferred_dir_sync) (\<lambda>deferred.
       if deferred then io_map deferred_enqueue (with_own_dirty (enqueue_with_dirty e job))
       else strictly (enqueue_with_dirty e job))"

definition enqueue_batched ::
  "'s env \<Rightarrow> EnqueueInput \<Rightarrow> DirtySet \<Rightarrow> ('s, EnqueueOutcome \<times> DirtySet option) qproc" where
  "enqueue_batched e job dirty = lending (Some dirty) (enqueue_with_dirty e job)"

subsection \<open>Streaming enqueues\<close>

text \<open>The caller's reader: a state and what a read of at most so many bytes returns from it.\<close>

type_synonym 'r reader = "nat \<Rightarrow> 'r \<Rightarrow> (IoError + bytes) \<times> 'r"

partial_function (option) stream_loop ::
  "sha256 \<Rightarrow> 's os \<Rightarrow> 'r reader \<Rightarrow> u64 \<Rightarrow> fd \<Rightarrow> 'r \<Rightarrow> u64 \<Rightarrow> bytes \<Rightarrow> 's world
     \<Rightarrow> ((PublishError + u64 \<times> digest) \<times> 's world) option" where
  "stream_loop sha k rd limit fd r streamed hashed w =
     (case rd (unat (min 65536 (limit - streamed + 1))) r of
        (Inl error, r') \<Rightarrow>
          if io_kind error = Kind_Interrupted then stream_loop sha k rd limit fd r' streamed hashed w
          else Some (Err (PE_NotCommitted (error_from_io error)), w)
      | (Inr bs, r') \<Rightarrow>
          if bs = [] then Some (Ok (streamed, sha hashed), w)
          else
            let streamed' = streamed + word_of_nat (length bs) in
            if streamed' > limit then Some (Err (PE_NotCommitted (InvalidInput ''payload exceeds limit'')), w)
            else
              (case write_all k fd bs w of
                 None \<Rightarrow> None
               | Some (Inl error, w') \<Rightarrow> Some (Err (classify_write error), w')
               | Some (Inr _, w') \<Rightarrow> stream_loop sha k rd limit fd r' streamed' (hashed @ bs) w'))"

definition stream_payload_to_fd ::
  "'s env \<Rightarrow> 'r reader \<Rightarrow> 'r \<Rightarrow> fd \<Rightarrow> bytes \<Rightarrow> ('s, PublishError + u64 \<times> digest) qproc" where
  "stream_payload_to_fd e rd r fd ext_bytes =
     (let k = env_os e in
      io_try (lift (io_map_err classify_write (write_all k fd (replicate 128 0)))) (\<lambda>_.
      io_try (lift (io_map_err classify_write (write_all k fd ext_bytes))) (\<lambda>_.
      io_bind (asks (\<lambda>q. payload_limit (q_format q))) (\<lambda>limit.
        lift (stream_loop (env_sha e) k rd limit fd r 0 [])))))"

text \<open>The header of a streamed payload: its digest and its bytes.\<close>

definition streamed_header ::
  "sha256 \<Rightarrow> id128 \<Rightarrow> u32 \<Rightarrow> u64 \<Rightarrow> bytes \<Rightarrow> u64 \<Rightarrow> digest \<Rightarrow> PublishError + (FixedHeader \<times> bytes)" where
  "streamed_header sha jid max_attempts created_at ext_bytes payload_len pdig =
     (let header = fresh_header jid max_attempts created_at ext_bytes payload_len pdig in
      res_bind (ok_or (envelope_digest sha header ext_bytes)
                  (PE_NotCommitted (InvalidInput ''extension length mismatch''))) (\<lambda>env_dig.
      let header = header\<lparr>hdr_envelope_digest := env_dig\<rparr> in
      res_bind (map_err (\<lambda>er. PE_NotCommitted (InvalidInput (header_error_text er)))
                  (header_encode header ext_bytes)) (\<lambda>header_bytes.
        Ok (header, header_bytes))))"

text \<open>The rename of a named temporary file; the guard is disarmed once the rename happened or may
  have happened.\<close>

definition finish_named_stream_publish ::
  "'s env \<Rightarrow> fd \<Rightarrow> string \<Rightarrow> fd \<Rightarrow> string \<Rightarrow> MoveIdentity \<Rightarrow> digest \<Rightarrow> ('s, (PublishError + digest) \<times> bool) qproc" where
  "finish_named_stream_publish e tmp_dir_fd temp_name dest_fd dest_name identity env_dig =
     io_bind (publish_named e tmp_dir_fd temp_name dest_fd dest_name identity) (\<lambda>moved. case moved of
       Err failure \<Rightarrow>
         io_return (Err (with_published_digest env_dig (from_move_failure failure)),
                    \<not> move_is_outcome_unknown failure)
     | Ok _ \<Rightarrow>
         io_bind (io_try (record_lent e tmp_dir_fd) (\<lambda>_. record_lent e dest_fd)) (\<lambda>recorded.
           io_return (case recorded of
               Err er \<Rightarrow> Err (PE_OutcomeUnknownPublished env_dig (error_from_io er))
             | Ok _ \<Rightarrow> Ok env_dig, False)))"

text \<open>Copying the payload of the unnamed file; the loop also ends when the file does.\<close>

partial_function (option) copy_loop ::
  "'s os \<Rightarrow> fd \<Rightarrow> fd \<Rightarrow> u64 \<Rightarrow> u64 \<Rightarrow> u64 \<Rightarrow> 's world \<Rightarrow> ((PublishError + unit) \<times> 's world) option" where
  "copy_loop k src dst data_offset payload_len copied w =
     (if copied < payload_len then
        (case pread k src (unat (min 65536 (payload_len - copied))) (data_offset + copied) w of
           None \<Rightarrow> None
         | Some (Inl er, w1) \<Rightarrow> Some (Err (PE_NotCommitted (error_from_io er)), w1)
         | Some (Inr bs, w1) \<Rightarrow>
             if bs = [] then Some (Ok (), w1)
             else
               (case write_all k dst bs w1 of
                  None \<Rightarrow> None
                | Some (Inl er, w2) \<Rightarrow> Some (Err (classify_write er), w2)
                | Some (Inr _, w2) \<Rightarrow> copy_loop k src dst data_offset payload_len (copied + word_of_nat (length bs)) w2))
      else Some (Ok (), w))"

definition named_fallback_streaming ::
  "'s env \<Rightarrow> string \<Rightarrow> fd \<Rightarrow> string \<Rightarrow> FixedHeader \<Rightarrow> bytes \<Rightarrow> fd \<Rightarrow> u64 \<Rightarrow> ('s, PublishError + digest) qproc" where
  "named_fallback_streaming e dest_dir_relative dest_fd dest_name header ext_bytes tmpfile_fd payload_len =
     (let k = env_os e in
      io_try (create_named_temp e dest_dir_relative) (\<lambda>(tmp_dir_fd, temp_name, tmp_file).
      with_temp_guard e tmp_dir_fd temp_name
        (guarded_try (io_return (map_err (\<lambda>er. PE_NotCommitted (InvalidInput (header_error_text er)))
                        (header_encode header ext_bytes))) (\<lambda>header_bytes.
         guarded_try (lift (io_map_err classify_write (write_all k tmp_file header_bytes))) (\<lambda>_.
         guarded_try (lift (io_map_err classify_write (write_all k tmp_file ext_bytes))) (\<lambda>_.
         guarded_try (lift (copy_loop k tmpfile_fd tmp_file (word_of_nat (128 + length ext_bytes)) payload_len 0)) (\<lambda>_.
         guarded_try (lift (io_map_err classify_pre_pub_fsync (fsync k tmp_file))) (\<lambda>_.
         guarded_try (lift (io_map_err classify_write (fstat k tmp_file))) (\<lambda>temp_stat.
           finish_named_stream_publish e tmp_dir_fd temp_name dest_fd dest_name (stat_identity temp_stat)
             (hdr_envelope_digest header))))))))))"

definition named_fallback_streaming_init ::
  "'s env \<Rightarrow> 'r reader \<Rightarrow> 'r \<Rightarrow> string \<Rightarrow> fd \<Rightarrow> string \<Rightarrow> id128 \<Rightarrow> u32 \<Rightarrow> u64 \<Rightarrow> bytes
     \<Rightarrow> ('s, PublishError + digest) qproc" where
  "named_fallback_streaming_init e rd r dest_dir_relative dest_fd dest_name jid max_attempts created_at ext_bytes =
     (let k = env_os e in
      io_try (create_named_temp e dest_dir_relative) (\<lambda>(tmp_dir_fd, temp_name, tmp_file).
      with_temp_guard e tmp_dir_fd temp_name
        (guarded_try (stream_payload_to_fd e rd r tmp_file ext_bytes) (\<lambda>(payload_len, pdig).
         guarded_try (io_return (streamed_header (env_sha e) jid max_attempts created_at ext_bytes payload_len pdig))
           (\<lambda>(header, header_bytes).
         guarded_try (lift (io_map_err classify_write (pwrite_all k tmp_file header_bytes 0))) (\<lambda>_.
         guarded_try (lift (io_map_err classify_pre_pub_fsync (fsync k tmp_file))) (\<lambda>_.
         guarded_try (lift (io_map_err classify_write (fstat k tmp_file))) (\<lambda>temp_stat.
           finish_named_stream_publish e tmp_dir_fd temp_name dest_fd dest_name (stat_identity temp_stat)
             (hdr_envelope_digest header)))))))))"

text \<open>The unnamed temporary file, once it is open: the payload first, then the header over its placeholder.\<close>

definition stream_tmpfile ::
  "'s env \<Rightarrow> 'r reader \<Rightarrow> 'r \<Rightarrow> id128 \<Rightarrow> u32 \<Rightarrow> u64 \<Rightarrow> bytes \<Rightarrow> fd \<Rightarrow> ('s, PublishError + (FixedHeader \<times> u64)) qproc" where
  "stream_tmpfile e rd r jid max_attempts created_at ext_bytes tmp_fd =
     io_try (stream_payload_to_fd e rd r tmp_fd ext_bytes) (\<lambda>(payload_len, pdig).
     io_try (io_return (streamed_header (env_sha e) jid max_attempts created_at ext_bytes payload_len pdig))
       (\<lambda>(header, header_bytes).
     io_try (lift (io_map_err classify_write (pwrite_all (env_os e) tmp_fd header_bytes 0))) (\<lambda>_.
       io_return (Ok (header, payload_len)))))"

definition stream_tmpfile_and_publish ::
  "'s env \<Rightarrow> 'r reader \<Rightarrow> 'r \<Rightarrow> string \<Rightarrow> fd \<Rightarrow> string \<Rightarrow> id128 \<Rightarrow> u32 \<Rightarrow> u64 \<Rightarrow> bytes \<Rightarrow> fd
     \<Rightarrow> ('s, PublishError + digest) qproc" where
  "stream_tmpfile_and_publish e rd r dest_dir_relative dest_fd dest_name jid max_attempts created_at ext_bytes tmp_fd =
     io_try (stream_tmpfile e rd r jid max_attempts created_at ext_bytes tmp_fd) (\<lambda>(header, payload_len).
     let env_dig = hdr_envelope_digest header in
     io_bind (publish_tmpfile e tmp_fd dest_fd dest_name) (\<lambda>outcome. case outcome of
       Ok (Published mode) \<Rightarrow>
         io_bind (set_publication_mode mode) (\<lambda>_.
         io_try (io_map_err (\<lambda>er. PE_OutcomeUnknownPublished env_dig (error_from_io er)) (record_lent e dest_fd)) (\<lambda>_.
           io_return (Ok env_dig)))
     | Ok Unsupported \<Rightarrow>
         io_bind (set_publication_mode NamedFallback) (\<lambda>_.
           named_fallback_streaming e dest_dir_relative dest_fd dest_name header ext_bytes tmp_fd payload_len)
     | Err failure \<Rightarrow> io_return (Err (with_published_digest env_dig (classify_tmpfile failure)))))"

definition stream_and_publish ::
  "'s env \<Rightarrow> 'r reader \<Rightarrow> 'r \<Rightarrow> string \<Rightarrow> string \<Rightarrow> id128 \<Rightarrow> u32 \<Rightarrow> u64 \<Rightarrow> bytes \<Rightarrow> ('s, PublishError + digest) qproc" where
  "stream_and_publish e rd r dest_dir_relative dest_name jid max_attempts created_at ext_bytes =
     io_try (not_committed (ensure_dir_with_dirty e dest_dir_relative)) (\<lambda>_.
     io_bind (asks q_root_fd) (\<lambda>root_fd.
     io_try (not_committed (lift (open_relative (env_os e) root_fd dest_dir_relative))) (\<lambda>dest_fd.
     io_bind (asks q_publication_mode) (\<lambda>mode.
       if mode = Some NamedFallback
       then named_fallback_streaming_init e rd r dest_dir_relative dest_fd dest_name jid max_attempts created_at ext_bytes
       else
         io_bind (lift (open_tmpfile (env_os e) dest_fd)) (\<lambda>opened. case opened of
           Ok tmp_fd \<Rightarrow>
             stream_tmpfile_and_publish e rd r dest_dir_relative dest_fd dest_name jid max_attempts created_at
               ext_bytes tmp_fd
         | Err er \<Rightarrow>
             if is_tmpfile_open_unsupported er then
               io_bind (set_publication_mode NamedFallback) (\<lambda>_.
                 named_fallback_streaming_init e rd r dest_dir_relative dest_fd dest_name jid max_attempts
                   created_at ext_bytes)
             else io_return (Err (classify_write er)))))))"

text \<open>Where a streamed job goes; the input carries no payload.\<close>

definition stream_destination ::
  "sha256 \<Rightarrow> Queue \<Rightarrow> EnqueueInput \<Rightarrow> id128 \<Rightarrow> u64 \<Rightarrow> Error + (InitialState \<times> Target)" where
  "stream_destination sha q job jid now_wall =
     (let initial = (case ei_initial_not_before job of
                       Some nb \<Rightarrow> if nb > now_wall then Initial_Delayed else Initial_Ready
                     | None \<Rightarrow> Initial_Ready) in
      res_bind (next_identity (enqueue_operation initial) (origin_fields jid (ei_maximum_attempts job))) (\<lambda>common.
      res_bind (enqueue_target sha (queue_layout q) initial (ei_initial_not_before job) common) (\<lambda>target.
        Ok (initial, target))))"

definition stream_outcome :: "(digest \<Rightarrow> EnqueueTicket) \<Rightarrow> PublishError + digest \<Rightarrow> ('s, EnqueueOutcome) qproc" where
  "stream_outcome ticket_for result =
     (case result of
        Err (PE_NotCommitted er) \<Rightarrow> io_return (Enqueue_NotCommitted (ticket_for zero_digest) er)
      | Err (PE_OutcomeUnknown er) \<Rightarrow>
          io_bind (modifies (poison PostLinearizationStateUnknown)) (\<lambda>_.
            io_return (Enqueue_OutcomeUnknown (ticket_for zero_digest) er))
      | Err (PE_OutcomeUnknownPublished d er) \<Rightarrow>
          io_bind (modifies (poison PostLinearizationStateUnknown)) (\<lambda>_.
            io_return (Enqueue_OutcomeUnknown (ticket_for d) er))
      | Ok env_dig \<Rightarrow>
          io_bind (asks q_deferred_dir_sync) (\<lambda>deferred.
            io_return (if deferred then Enqueue_Deferred (ticket_for env_dig)
                       else Enqueue_Committed (ticket_for env_dig))))"

definition enqueue_streaming :: "'s env \<Rightarrow> EnqueueInput \<Rightarrow> 'r reader \<Rightarrow> 'r \<Rightarrow> ('s, EnqueueOutcome) qproc" where
  "enqueue_streaming e job rd r =
     (let refuse = (\<lambda>jid er. Enqueue_NotCommitted (enqueue_ticket_uncommitted jid) er) in
      returning (
      io_bind (asks check_not_poisoned) (\<lambda>usable.
      io_try (io_return (map_err (refuse zero_id) usable)) (\<lambda>_.
      if ei_maximum_attempts job = 0
      then io_return (Err (refuse zero_id (InvalidInput ''maximum_attempts must be >= 1'')))
      else
      io_try (io_map_err (refuse zero_id) (wall_floor_for_mutation e)) (\<lambda>wall_floor.
      io_try (io_map_err (refuse zero_id) (from_io (random_128bit (env_os e)))) (\<lambda>jid.
      io_try (io_return (map_err (\<lambda>er. refuse jid (InvalidInput (cbor_error_text er)))
                (extension_encode (input_extension job)))) (\<lambda>ext_bytes.
      io_bind (asks (\<lambda>q. stream_destination (env_sha e) q job jid (wf_unix_ns wall_floor))) (\<lambda>destination.
      io_try (io_return (map_err (refuse jid) destination)) (\<lambda>(initial, target).
      io_bind (asks q_deferred_dir_sync) (\<lambda>deferred.
      io_bind ((if deferred then with_own_dirty else strictly)
                 (stream_and_publish e rd r (target_directory target) (tg_filename target) jid
                    (ei_maximum_attempts job) (wf_unix_ns wall_floor) ext_bytes)) (\<lambda>result.
      io_map Ok (stream_outcome (\<lambda>d. \<lparr>et_job_id = jid, et_envelope_digest = d,
        et_expected_initial_state = initial, et_expected_relative_path = relative_path target\<rparr>) result))))))))))))"

subsection \<open>What an enqueue writes\<close>

lemma envelope_digest_zeroed:
  "envelope_digest sha (h\<lparr>hdr_envelope_digest := d\<rparr>) ext = envelope_digest sha h ext"
  by (simp add: envelope_digest_def header_encode_fields Let_def copy_at_def)

lemma envelope_digest_Some:
  assumes "envelope_digest sha h ext = Some d"
  shows "verify_envelope_digest sha (h\<lparr>hdr_envelope_digest := d\<rparr>) ext"
    and "(word_of_nat (length ext) :: u32) = hdr_extension_header_length h"
    and "\<exists>hdr. header_encode (h\<lparr>hdr_envelope_digest := d\<rparr>) ext = Ok hdr"
proof -
  show *: "(word_of_nat (length ext) :: u32) = hdr_extension_header_length h"
    using assms by (auto simp: envelope_digest_def header_encode_fields split: if_splits)
  show "verify_envelope_digest sha (h\<lparr>hdr_envelope_digest := d\<rparr>) ext"
    using assms by (simp add: verify_envelope_digest_def envelope_digest_zeroed)
  show "\<exists>hdr. header_encode (h\<lparr>hdr_envelope_digest := d\<rparr>) ext = Ok hdr"
    using * by (simp add: header_encode_fields)
qed

lemma extension_encode_length: "extension_encode x = Ok buf \<Longrightarrow> length buf \<le> 65536"
  by (auto simp: extension_encode_def res_bind_eq_Ok_iff Let_def split: if_splits)

text \<open>A fresh header over the payload it describes makes a valid envelope.\<close>

lemma fresh_envelope_valid:
  assumes "envelope_digest sha (fresh_header jid m t ext (word_of_nat (length payload)) (payload_digest sha payload)) ext = Some d"
    and "m \<noteq> 0" and "length ext \<le> 65536" and "length payload < 2 ^ 40"
  shows "\<exists>hdr. header_encode ((fresh_header jid m t ext (word_of_nat (length payload)) (payload_digest sha payload))\<lparr>hdr_envelope_digest := d\<rparr>) ext = Ok hdr
    \<and> envelope_from_bytes sha (hdr @ ext @ payload) True =
        Ok \<lparr>ve_header = (fresh_header jid m t ext (word_of_nat (length payload)) (payload_digest sha payload))\<lparr>hdr_envelope_digest := d\<rparr>,
            ve_extension = ext, ve_payload = payload\<rparr>"
proof -
  let ?h = "fresh_header jid m t ext (word_of_nat (length payload)) (payload_digest sha payload)"
  obtain hdr where hdr: "header_encode (?h\<lparr>hdr_envelope_digest := d\<rparr>) ext = Ok hdr"
    using envelope_digest_Some(3) [OF assms(1)] by blast
  have p: "unat (word_of_nat (length payload) :: u64) = length payload"
    using assms(4) by (simp add: unsigned_of_nat take_bit_nat_eq_self)
  have x: "unat (word_of_nat (length ext) :: u32) = length ext"
    using assms(3) by (simp add: unsigned_of_nat take_bit_nat_eq_self)
  have "header_valid (?h\<lparr>hdr_envelope_digest := d\<rparr>)"
    using assms(2-4) p x by (simp add: header_valid_def fresh_header_def word_le_nat_alt)
  then have "envelope_from_bytes sha (hdr @ ext @ payload) True =
      Ok \<lparr>ve_header = ?h\<lparr>hdr_envelope_digest := d\<rparr>, ve_extension = ext, ve_payload = payload\<rparr>"
    using hdr envelope_digest_Some(1) [OF assms(1)] p x
    by (subst envelope_from_bytes_eq_Ok_iff) (simp add: fresh_header_def)
  with hdr show ?thesis by blast
qed

text \<open>A payload within the queue's limit; the length is a 64-bit number because it is that of a
  buffer in memory.\<close>

lemma payload_limit_bound:
  assumes "\<not> (word_of_nat n :: u64) > payload_limit fmt" and "n < 2 ^ 64"
  shows "n < 2 ^ 40"
proof -
  have "unat (word_of_nat n :: u64) = n" using assms(2) by (simp add: unsigned_of_nat take_bit_nat_eq_self)
  moreover have "unat (word_of_nat n :: u64) \<le> unat MAX_PAYLOAD_LENGTH"
    using assms(1) by (simp add: payload_limit_def word_le_nat_alt not_less min_def split: if_splits)
  ultimately show ?thesis by (simp add: unat_MAX_PAYLOAD_LENGTH)
qed

lemma prepare_header_Ok:
  assumes "prepare_header sha fmt job jid t = Ok (h, ext)" and "length (ei_payload job) < 2 ^ 64"
  shows "\<exists>hdr. header_encode h ext = Ok hdr
      \<and> envelope_from_bytes sha (hdr @ ext @ ei_payload job) True =
          Ok \<lparr>ve_header = h, ve_extension = ext, ve_payload = ei_payload job\<rparr>"
    and "extension_encode (input_extension job) = Ok ext" and "hdr_job_id h = jid"
    and "hdr_maximum_attempts h = ei_maximum_attempts job" and "hdr_created_at_unix_ns h = t"
proof -
  let ?h = "fresh_header jid (ei_maximum_attempts job) t ext (word_of_nat (length (ei_payload job)))
    (payload_digest sha (ei_payload job))"
  from assms(1) obtain d where m: "ei_maximum_attempts job \<noteq> 0"
    and e: "extension_encode (input_extension job) = Ok ext"
    and l: "\<not> word_of_nat (length (ei_payload job)) > payload_limit fmt"
    and d: "envelope_digest sha ?h ext = Some d" and h: "h = ?h\<lparr>hdr_envelope_digest := d\<rparr>"
    by (auto simp: prepare_header_def Let_def res_bind_eq_Ok_iff map_err_eq_Ok_iff ok_or_eq_Ok_iff split: if_splits)
  show "\<exists>hdr. header_encode h ext = Ok hdr
      \<and> envelope_from_bytes sha (hdr @ ext @ ei_payload job) True =
          Ok \<lparr>ve_header = h, ve_extension = ext, ve_payload = ei_payload job\<rparr>"
    unfolding h by (rule fresh_envelope_valid [OF d m extension_encode_length [OF e] payload_limit_bound [OF l assms(2)]])
  show "extension_encode (input_extension job) = Ok ext" by (rule e)
  show "hdr_job_id h = jid" "hdr_maximum_attempts h = ei_maximum_attempts job" "hdr_created_at_unix_ns h = t"
    by (simp_all add: h fresh_header_def)
qed

text \<open>The name and place of an enqueued job.\<close>

definition enqueue_place ::
  "sha256 \<Rightarrow> FormatRecord \<Rightarrow> InitialState \<Rightarrow> u64 option \<Rightarrow> CommonFields \<Rightarrow> string \<Rightarrow> string \<Rightarrow> bool" where
  "enqueue_place sha fmt initial not_before common dir name =
     (let shard = shard_hex (compute_shard sha (fmt_queue_id fmt) (job_id common) (fmt_shard_count fmt)) in
      case initial of
        Initial_Ready \<Rightarrow> dir = ''ready/'' @ shard
          \<and> (\<exists>n. parse_ready name = Ok n \<and> rd_common n = common \<and> ready_authenticate_tag sha n (fmt_queue_id fmt) shard)
      | Initial_Delayed \<Rightarrow> (\<exists>nb bucket ns. not_before = Some nb
          \<and> eligibility_bucket_and_ns nb (fmt_delayed_bucket_width_ns fmt) = Some (bucket, ns)
          \<and> dir = ''delayed/'' @ bucket_hex bucket @ ''/'' @ shard
          \<and> (\<exists>n. parse_delayed name = Ok n \<and> dl_common n = common \<and> dl_not_before_ns n = nb
               \<and> delayed_authenticate_tag sha n (fmt_queue_id fmt) (bucket_hex bucket) shard)))"

lemma enqueue_target_place:
  assumes "enqueue_target sha (queue_layout q) initial nb common = Ok target"
  shows "enqueue_place sha (q_format q) initial nb common (target_directory target) (tg_filename target)"
  using assms make_ready_name_authentic make_delayed_name_authentic
  by (auto simp: enqueue_target_def enqueue_place_def layout_ready_def layout_delayed_def queue_layout_def
      layout_new_def shard_for_def target_directory_def Let_def res_bind_eq_Ok_iff ok_or_eq_Ok_iff
      split: InitialState.splits option.splits)

lemma enqueue_identity:
  assumes "next_identity (enqueue_operation initial) (origin_fields jid m) = Ok common"
  shows "common = \<lparr>job_id = jid, generation = 0, attempt = 0, maximum_attempts = m\<rparr>"
proof -
  have "next_common_fields (enqueue_operation initial) (origin_fields jid m) = Ok common"
    using assms by (simp add: next_identity_def map_err_eq_Ok_iff)
  then show ?thesis
    by (cases initial; cases common)
      (auto simp: next_common_fields_eq_Ok_iff origin_fields_def unat_eq_0)
qed

lemma prepare_enqueue_Ok:
  assumes "prepare_enqueue e job q = Some (Ok p, q')"
  shows "\<exists>jid f q1. q_poisoned (qw_queue q) = None
    \<and> wall_floor_for_mutation e q1 = Some (Ok f, q') \<and> prepare_job (env_sha e) (qw_queue q') job jid (wf_unix_ns f) = Ok p"
  using assms
  by (auto simp: prepare_enqueue_def io_try_eq_Some_iff io_bind_eq_Some_iff io_map_err_Err_iff
      map_err_eq_Ok_iff check_not_poisoned_def split: option.splits)

lemma prepare_job_Ok:
  assumes "prepare_job sha q job jid t = Ok p"
  obtains h ext initial common target where "prepare_header sha (q_format q) job jid t = Ok (h, ext)"
    and "initial_state_of (ei_initial_not_before job) t (fmt_delayed_bucket_width_ns (q_format q)) = Ok initial"
    and "next_identity (enqueue_operation initial) (origin_fields jid (ei_maximum_attempts job)) = Ok common"
    and "enqueue_target sha (queue_layout q) initial (ei_initial_not_before job) common = Ok target"
    and "pe_ticket p = \<lparr>et_job_id = jid, et_envelope_digest = hdr_envelope_digest h,
           et_expected_initial_state = initial, et_expected_relative_path = relative_path target\<rparr>"
    and "pe_header p = h" and "pe_ext_bytes p = ext" and "pe_payload p = ei_payload job"
    and "pe_dest_dir p = target_directory target" and "pe_filename p = tg_filename target"
  using assms
  by (auto simp: prepare_job_def Let_def res_bind_eq_Ok_iff map_err_eq_Ok_iff intro: that)

text \<open>C33. What an enqueue is about to publish is a valid job: the header, extension and payload form an
  envelope that validation accepts, payload digest included; the extension decodes to the caller's
  content type, metadata and deadline; the ticket carries the envelope's digest, and its path is a
  name that parses to generation and attempt 0 and authenticates at exactly that place. A deadline
  after the wall floor puts the job into its eligibility bucket, otherwise it is ready.\<close>

theorem enqueue_prepares_valid_job:
  assumes "prepare_enqueue e job q = Some (Ok p, q')" and "extension_typed (input_extension job)"
    and "length (ei_payload job) < 2 ^ 64"
  shows "(\<exists>hdr. header_encode (pe_header p) (pe_ext_bytes p) = Ok hdr
      \<and> envelope_from_bytes (env_sha e) (hdr @ pe_ext_bytes p @ ei_payload job) True =
          Ok \<lparr>ve_header = pe_header p, ve_extension = pe_ext_bytes p, ve_payload = ei_payload job\<rparr>)
    \<and> pe_payload p = ei_payload job
    \<and> extension_decode (pe_ext_bytes p) = Ok (normal_extension (input_extension job))
    \<and> et_envelope_digest (pe_ticket p) = hdr_envelope_digest (pe_header p)
    \<and> et_expected_relative_path (pe_ticket p) = pe_dest_dir p @ ''/'' @ pe_filename p
    \<and> enqueue_place (env_sha e) (q_format (qw_queue q')) (et_expected_initial_state (pe_ticket p))
        (ei_initial_not_before job)
        \<lparr>job_id = et_job_id (pe_ticket p), generation = 0, attempt = 0, maximum_attempts = ei_maximum_attempts job\<rparr>
        (pe_dest_dir p) (pe_filename p)
    \<and> (et_expected_initial_state (pe_ticket p) = Initial_Delayed
        \<longleftrightarrow> (\<exists>nb. ei_initial_not_before job = Some nb \<and> hdr_created_at_unix_ns (pe_header p) < nb))"
proof -
  from prepare_enqueue_Ok [OF assms(1)] obtain jid and f :: WallFloor where
    "prepare_job (env_sha e) (qw_queue q') job jid (wf_unix_ns f) = Ok p" by blast
  then show ?thesis
  proof (cases rule: prepare_job_Ok)
    case (1 h ext initial common target)
    note h = prepare_header_Ok [OF 1(1) assms(3)]
    have "initial = Initial_Delayed \<longleftrightarrow> (\<exists>nb. ei_initial_not_before job = Some nb \<and> wf_unix_ns f < nb)"
      using 1(2) by (auto simp: initial_state_of_def split: option.splits if_splits)
    with 1 h(1,5) extension_decode_encode [OF h(2) assms(2)] enqueue_target_place [OF 1(4)] enqueue_identity [OF 1(3)]
    show ?thesis by (simp add: relative_path_def)
  qed
qed

subsection \<open>Streaming\<close>





lemma streamed_header_prepared:
  assumes "extension_encode (input_extension job) = Ok ext" and "ei_maximum_attempts job \<noteq> 0"
  shows "word_of_nat (length (ei_payload job)) > payload_limit fmt \<Longrightarrow>
      prepare_header sha fmt job jid t = Err (enqueue_ticket_uncommitted jid, InvalidInput ''payload exceeds limit'')"
    and "\<not> word_of_nat (length (ei_payload job)) > payload_limit fmt \<Longrightarrow>
      \<exists>h hdr. prepare_header sha fmt job jid t = Ok (h, ext)
        \<and> streamed_header sha jid (ei_maximum_attempts job) t ext (word_of_nat (length (ei_payload job)))
            (sha (ei_payload job)) = Ok (h, hdr)"
proof -
  let ?h = "fresh_header jid (ei_maximum_attempts job) t ext (word_of_nat (length (ei_payload job))) (sha (ei_payload job))"
  have len: "(word_of_nat (length ext) :: u32) = hdr_extension_header_length ?h" by (simp add: fresh_header_def)
  obtain d where "envelope_digest sha ?h ext = Some d"
    using len by (auto simp: envelope_digest_def header_encode_fields Let_def)
  moreover obtain hdr where "header_encode (?h\<lparr>hdr_envelope_digest := d\<rparr>) ext = Ok hdr"
    using len by (auto simp: header_encode_fields)
  moreover assume "\<not> word_of_nat (length (ei_payload job)) > payload_limit fmt"
  ultimately show "\<exists>h hdr. prepare_header sha fmt job jid t = Ok (h, ext)
        \<and> streamed_header sha jid (ei_maximum_attempts job) t ext (word_of_nat (length (ei_payload job)))
            (sha (ei_payload job)) = Ok (h, hdr)"
    using assms
    by (simp add: prepare_header_def Let_def streamed_header_def payload_digest_def result_simps)
qed (use assms in \<open>simp add: prepare_header_def Let_def result_simps\<close>)





subsection \<open>The handle across a publication\<close>

lemma keeps_modifies:
  "(\<And>q. q_format (f q) = q_format q \<and> q_poisoned (f q) = q_poisoned q \<and> q_cached_wall_floor (f q) = q_cached_wall_floor q
       \<and> q_boot_id (f q) = q_boot_id q \<and> q_recovery_cursor (f q) = q_recovery_cursor q)
     \<Longrightarrow> keeps same_handle (modifies f)"
  by (auto simp: keeps_def same_handle_def)

lemma keeps_lent: "keeps same_handle lent" and keeps_set_lent: "keeps same_handle (set_lent d)"
  by (auto simp: keeps_def same_handle_def lent_def set_lent_def)

lemma keeps_lending: "keeps same_handle m \<Longrightarrow> keeps same_handle (lending d m)"
  unfolding lending_def by (intro handle_keeps keeps_lent keeps_set_lent)

lemma keeps_strictly: "keeps same_handle m \<Longrightarrow> keeps same_handle (strictly m)"
  unfolding strictly_def by (intro handle_keeps keeps_lending)

lemma keeps_io_for:
  assumes "\<And>x. keeps same_handle (f x)"
  shows "keeps same_handle (io_for xs f)"
proof (induction xs)
  case (Cons x xs)
  show ?case unfolding io_for.simps by (intro handle_keeps assms Cons)
qed (unfold io_for.simps, intro handle_keeps)

lemma keeps_guarded_try:
  "keeps same_handle m \<Longrightarrow> (\<And>x. keeps same_handle (f x)) \<Longrightarrow> keeps same_handle (guarded_try m f)"
  unfolding guarded_try_def by (intro handle_keeps)

lemma keeps_with_temp_guard: "keeps same_handle m \<Longrightarrow> keeps same_handle (with_temp_guard e fd n m)"
  unfolding with_temp_guard_def by (intro handle_keeps)

lemma keeps_case_outcome:
  "(\<And>m. keeps R (f m)) \<Longrightarrow> keeps R g \<Longrightarrow> keeps R (case x of Published m \<Rightarrow> f m | Unsupported \<Rightarrow> g)"
  by (cases x) auto

lemma keeps_record_lent: "keeps same_handle (record_lent e fd)"
  unfolding record_lent_def by (intro handle_keeps keeps_lent keeps_set_lent)

lemma keeps_dir_is_known: "keeps same_handle (dir_is_known p)"
  unfolding dir_is_known_def by (intro handle_keeps keeps_lent)

lemma keeps_sync_parent_of: "keeps same_handle (sync_parent_of e fd ps)"
  unfolding sync_parent_of_def
  by (intro handle_keeps keeps_lent keeps_set_lent keeps_record_lent keeps_modifies) simp

lemma keeps_ensure_components: "keeps same_handle (ensure_components e fd ps cs)"
proof (induction cs arbitrary: fd ps)
  case (Cons c cs)
  show ?case
    unfolding ensure_components.simps by (intro handle_keeps keeps_dir_is_known keeps_sync_parent_of Cons)
qed (unfold ensure_components.simps, intro handle_keeps)

lemma keeps_ensure_dir: "keeps same_handle (ensure_dir_with_dirty e p)"
proof (induction e p rule: ensure_dir_with_dirty.induct)
  case (1 e p)
  show ?case
    unfolding ensure_dir_with_dirty.simps [of e p] ensure_shards_def
    by (intro handle_keeps keeps_dir_is_known keeps_ensure_components keeps_io_for keeps_sync_parent_of 1)
qed

lemmas publish_keeps = handle_keeps keeps_lent keeps_record_lent keeps_ensure_dir keeps_guarded_try
  keeps_with_temp_guard keeps_case_outcome

lemma keeps_create_named_temp: "keeps same_handle (create_named_temp e d)"
  unfolding create_named_temp_def not_committed_def by (intro publish_keeps)

lemma keeps_publish_named: "keeps same_handle (publish_named e fd n dfd dn i)"
  unfolding publish_named_def by (intro publish_keeps)

lemma keeps_set_publication_mode: "keeps same_handle (set_publication_mode m)"
  unfolding set_publication_mode_def by (intro keeps_modifies) simp

lemma keeps_named_fallback: "keeps same_handle (named_fallback_with_dirty e d fd n h x p)"
  unfolding named_fallback_with_dirty_def named_fallback_body_def
  by (intro publish_keeps keeps_create_named_temp keeps_publish_named)

lemma keeps_open_or_cache: "keeps same_handle (open_or_cache_dir e d)"
  unfolding open_or_cache_dir_def reopen_dir_def cloned_def by (intro publish_keeps keeps_modifies) simp_all

lemma keeps_write_and_publish: "keeps same_handle (write_and_publish_with_dirty e d n h x p)"
  unfolding write_and_publish_with_dirty_def write_tmpfile_and_publish_def write_tmpfile_def not_committed_def publish_tmpfile_def
  by (intro publish_keeps keeps_named_fallback keeps_open_or_cache keeps_set_publication_mode)

lemma keeps_stream_and_publish: "keeps same_handle (stream_and_publish e rd r d n j m t x)"
  unfolding stream_and_publish_def stream_tmpfile_and_publish_def stream_tmpfile_def named_fallback_streaming_def
    named_fallback_streaming_init_def stream_payload_to_fd_def finish_named_stream_publish_def
    not_committed_def publish_tmpfile_def
  by (intro publish_keeps keeps_create_named_temp keeps_publish_named keeps_set_publication_mode)

text \<open>A wall floor obtained leaves the handle unpoisoned and its format as it was.\<close>

definition same_standing :: "'s qworld \<Rightarrow> 's qworld \<Rightarrow> bool" where
  "same_standing q q' \<longleftrightarrow>
     q_format (qw_queue q') = q_format (qw_queue q) \<and> q_poisoned (qw_queue q') = q_poisoned (qw_queue q)"

lemma same_handle_standing: "same_handle q q' \<Longrightarrow> same_standing q q'"
  by (simp add: same_handle_def same_standing_def)

lemma same_standing_trans: "same_standing q1 q2 \<Longrightarrow> same_standing q2 q3 \<Longrightarrow> same_standing q1 q3"
  by (simp add: same_standing_def)

lemma slow_floor_standing:
  assumes "slow_wall_floor e q = Some (Ok f, q')"
  shows "same_standing q q'"
proof -
  from assms obtain q1 where "stabilized_wall_floor e q = Some (Ok f, q1)"
    and "q' = q1\<lparr>qw_queue := (qw_queue q1)\<lparr>q_cached_wall_floor := Some f\<rparr>\<rparr>"
    by (auto simp: slow_wall_floor_def poison_on_floor_error_iff io_try_eq_Some_iff io_bind_eq_Some_iff)
  then show ?thesis using keepsD [OF keeps_stabilized] by (fastforce simp: same_standing_def same_handle_def)
qed

lemma wall_floor_Ok:
  assumes "wall_floor_for_mutation e q = Some (Ok f, q')"
  shows "same_standing q q'"
proof (cases "q_cached_wall_floor (qw_queue q)")
  case None
  then show ?thesis
    using assms slow_floor_standing [of e q f q']
    by (simp add: wall_floor_for_mutation_def wall_floor_for_mutation_with_attempts_def io_bind_def)
next
  case (Some c)
  let ?auth = "authenticated_wall_floor_with_attempts e WATERMARK_READ_ATTEMPTS"
  note run = assms [unfolded wall_floor_for_mutation_def wall_floor_for_mutation_with_attempts_def]
  from run Some consider
    (hit) au q1 where "?auth q = Some (Ok au, q1)" "q' = q1\<lparr>qw_queue := (qw_queue q1)\<lparr>q_cached_wall_floor := Some f\<rparr>\<rparr>"
  | (slow) au q1 where "?auth q = Some (Ok au, q1)" "slow_wall_floor e q1 = Some (Ok f, q')"
    by (auto simp: poison_on_floor_error_iff io_try_eq_Some_iff io_bind_eq_Some_iff Let_def ok_or_def
        split: if_splits option.splits)
  then show ?thesis
  proof cases
    case (hit au q1)
    then show ?thesis
      using same_handle_standing [OF keepsD [OF keeps_authenticated hit(1)]] by (simp add: same_standing_def)
  next
    case (slow au q1)
    show ?thesis
      by (rule same_standing_trans [OF same_handle_standing [OF keepsD [OF keeps_authenticated slow(1)]]
            slow_floor_standing [OF slow(2)]])
  qed
qed

subsection \<open>Examples\<close>

definition sample_input :: EnqueueInput where
  "sample_input = \<lparr>ei_maximum_attempts = 3, ei_content_type = ''a/b'', ei_metadata = [], ei_producer_id = None,
     ei_trace_context = None, ei_initial_not_before = None, ei_payload = [1, 2, 3]\<rparr>"

lemma sample_extension:
  "extension_typed (input_extension sample_input)"
  "\<exists>ext. extension_encode (input_extension sample_input) = Ok ext"
  "\<not> (word_of_nat (length (ei_payload sample_input)) :: u64) > payload_limit sample_format"
  by (simp_all add: extension_typed_def input_extension_def sample_input_def btree_sorted_def payload_limit_def
      sample_format_def MAX_PAYLOAD_LENGTH_def extension_encode_def extension_validate_def validate_content_type_def
      is_ascii_lowercase_def as_bytes_def char_byte_def result_simps Let_def min_def encode_text_string_def
      encode_header_def entry_count_def)

lemma sample_prepare:
  "\<exists>p q'. prepare_enqueue (sample_env watermark_os) sample_input (sample_qworld ()) = Some (Ok p, q')
    \<and> prepare_job (\<lambda>_. arr_of (replicate 32 0)) (qw_queue q') sample_input (arr_of (replicate 16 7)) 5 = Ok p
    \<and> q_format (qw_queue q') = sample_format \<and> q_known_dirs (qw_queue q') = {''ready/0000''}
    \<and> q_cached_dest_fd (qw_queue q') = Some (''ready/0000'', 8) \<and> q_publication_mode (qw_queue q') = None
    \<and> qw_sys q' = idle_world () \<and> qw_lent q' = None"
proof -
  let ?e = "sample_env watermark_os" and ?q = "sample_qworld () :: unit qworld"
  have rnd: "random_128bit watermark_os (idle_world ()) = Some (Ok (arr_of (replicate 16 7)), idle_world ())"
    by (simp add: random_128bit_def fault_check_idle_world random_loop.simps watermark_os_def Let_def syscall_def)
  obtain q' where floor: "wall_floor_for_mutation ?e ?q =
      Some (Ok \<lparr>wf_unix_ns = 5, wf_watermark_bucket = 0, wf_watermark_sequence = 0\<rparr>, q')"
    and fmt: "q_format (qw_queue q') = sample_format" and rest: "q_known_dirs (qw_queue q') = {''ready/0000''}"
      "q_cached_dest_fd (qw_queue q') = Some (''ready/0000'', 8)" "q_publication_mode (qw_queue q') = None"
      "qw_sys q' = idle_world ()" "qw_lent q' = None"
    using watermark_os_floor by (auto simp: sample_queue_def)
  obtain ext where ext: "extension_encode (input_extension sample_input) = Ok ext" using sample_extension(2) by blast
  obtain h where h: "prepare_header (env_sha ?e) sample_format sample_input (arr_of (replicate 16 7)) 5 = Ok (h, ext)"
    using streamed_header_prepared(2) [OF ext _ sample_extension(3), of "env_sha ?e" "arr_of (replicate 16 7)" 5]
    by (auto simp: sample_input_def)
  obtain c where "next_identity Op_EnqueueImmediate (origin_fields (arr_of (replicate 16 7)) 3) = Ok c"
    using next_common_fields_eq_Err_iff [of Op_EnqueueImmediate]
    by (cases "next_common_fields Op_EnqueueImmediate (origin_fields (arr_of (replicate 16 7)) 3)")
      (auto simp: next_identity_def result_simps)
  with h fmt have "\<exists>p. prepare_job (env_sha ?e) (qw_queue q') sample_input (arr_of (replicate 16 7)) 5 = Ok p"
    by (simp add: prepare_job_def initial_state_of_def enqueue_target_def result_simps sample_input_def)
  with floor rnd fmt rest show ?thesis
    by (auto simp: prepare_enqueue_def io_try_def io_bind_def from_io_def lift_def io_map_err_def result_simps
        check_not_poisoned_def sample_qworld_def sample_queue_def sample_env_def)
qed

theorem enqueue_prepares_valid_job_witness:
  "\<exists>p q'. prepare_enqueue (sample_env watermark_os) sample_input (sample_qworld ()) = Some (Ok p, q')
    \<and> pe_payload p = [1, 2, 3] \<and> et_expected_initial_state (pe_ticket p) = Initial_Ready"
proof -
  obtain p q' where run: "prepare_enqueue (sample_env watermark_os) sample_input (sample_qworld ()) = Some (Ok p, q')"
    using sample_prepare by blast
  have "length (ei_payload sample_input) < 2 ^ 64" "ei_initial_not_before sample_input = None"
    "ei_payload sample_input = [1, 2, 3]" by (simp_all add: sample_input_def)
  with enqueue_prepares_valid_job [OF run sample_extension(1)] run show ?thesis
    by (cases "et_expected_initial_state (pe_ticket p)") auto
qed




end
