(* ===== verification/Steadq_Quarantine.thy ===== *)
theory Steadq_Quarantine
  imports Steadq_Publish
begin

text \<open>
  Quarantine, from \<^verbatim>\<open>src/crates/steadq-core/src/quarantine.rs\<close>: moving an object to a random name under
  \<^verbatim>\<open>quarantine/\<close> with a bounded number of attempts, and listing, finding and removing what is there.

  The loop over attempts is a recursion on the attempts left. The listing recurses on the depth
  still allowed, and a directory's entries are a loop over its stream.
\<close>

subsection \<open>Failures\<close>

definition QUARANTINE_NAME_ATTEMPTS :: nat where "QUARANTINE_NAME_ATTEMPTS = 8"
definition MAX_QUARANTINE_LIST_DEPTH :: nat where "MAX_QUARANTINE_LIST_DEPTH = 2"

definition quarantine_destination_collision :: "MoveFailure \<Rightarrow> bool" where
  "quarantine_destination_collision failure = (failure = Move_AlreadyExists)"

datatype QuarantinePreparePhase =
    AttemptBudget | EnsureDirectory | OpenDirectory | RandomName | SourceLock | Prepare_SourceIdentity

datatype QuarantinePublishFailure =
    QP_Preparation QuarantinePreparePhase IoError nat
  | QP_Move id128 string MoveFailure nat
  | QP_CollisionExhausted nat id128 string
  | QP_BudgetExhausted nat id128 string

fun qp_attempts_consumed :: "QuarantinePublishFailure \<Rightarrow> nat" where
  "qp_attempts_consumed (QP_Preparation _ _ n) = n"
| "qp_attempts_consumed (QP_Move _ _ _ n) = n"
| "qp_attempts_consumed (QP_CollisionExhausted n _ _) = n"
| "qp_attempts_consumed (QP_BudgetExhausted n _ _) = n"

fun prepare_phase_text :: "QuarantinePreparePhase \<Rightarrow> string" where
  "prepare_phase_text AttemptBudget = ''AttemptBudget''"
| "prepare_phase_text EnsureDirectory = ''EnsureDirectory''"
| "prepare_phase_text OpenDirectory = ''OpenDirectory''"
| "prepare_phase_text RandomName = ''RandomName''"
| "prepare_phase_text SourceLock = ''SourceLock''"
| "prepare_phase_text Prepare_SourceIdentity = ''SourceIdentity''"

definition id_and_name :: "id128 \<Rightarrow> string \<Rightarrow> string" where
  "id_and_name qid name = ''id='' @ hex_encode (arr_bytes qid) @ '' name='' @ name"

fun quarantine_failure_text :: "QuarantinePublishFailure \<Rightarrow> string" where
  "quarantine_failure_text (QP_Preparation phase source _) =
     ''quarantine not committed at phase='' @ prepare_phase_text phase @ '': '' @ io_text source"
| "quarantine_failure_text (QP_Move qid name (Move_NotCommitted phase source) _) =
     ''quarantine not committed '' @ id_and_name qid name @ '' phase='' @ move_phase_text phase @ '': '' @ io_text source"
| "quarantine_failure_text (QP_Move qid name (Move_OutcomeUnknown phase source) _) =
     ''quarantine outcome unknown '' @ id_and_name qid name @ '' phase='' @ move_phase_text phase @ '': '' @ io_text source"
| "quarantine_failure_text (QP_Move qid name Move_AlreadyExists _) =
     ''quarantine destination collision '' @ id_and_name qid name"
| "quarantine_failure_text (QP_Move qid name Move_SourceMissing _) =
     ''quarantine source missing '' @ id_and_name qid name"
| "quarantine_failure_text (QP_CollisionExhausted attempts qid name) =
     ''quarantine destination collision after '' @ decimal attempts @ '' attempts last_id=''
       @ hex_encode (arr_bytes qid) @ '' last_name='' @ name"
| "quarantine_failure_text (QP_BudgetExhausted attempts qid name) =
     ''quarantine retry budget exhausted after '' @ decimal attempts @ '' attempts last_id=''
       @ hex_encode (arr_bytes qid) @ '' last_name='' @ name"

record QuarantinePublication =
  qpub_quarantine_id :: id128
  qpub_quarantine_name :: string
  qpub_attempts_consumed :: nat

subsection \<open>Publishing to quarantine\<close>

text \<open>The attempts from the given number on, with so many left after it.\<close>

fun quarantine_attempts ::
  "'s env \<Rightarrow> ('s, IoError + id128) qproc \<Rightarrow> fd \<Rightarrow> string \<Rightarrow> QuarantineReason \<Rightarrow> fd \<Rightarrow> nat \<Rightarrow> nat \<Rightarrow> nat
     \<Rightarrow> ('s, QuarantinePublishFailure + QuarantinePublication) qproc" where
  "quarantine_attempts e next_id src_dir_fd filename reason quarantine_dir attempt_limit attempts left =
     io_try (io_map_err (\<lambda>er. QP_Preparation RandomName er (attempts - 1)) next_id) (\<lambda>qid.
     let name = quarantine_filename qid (quarantine_reason_code reason) in
     io_bind (lift (move_verified_noreplace (env_os e) src_dir_fd filename quarantine_dir name)) (\<lambda>moved. case moved of
       Ok _ \<Rightarrow> io_return (Ok \<lparr>qpub_quarantine_id = qid, qpub_quarantine_name = name, qpub_attempts_consumed = attempts\<rparr>)
     | Err failure \<Rightarrow>
         if quarantine_destination_collision failure then
           (case left of
              0 \<Rightarrow> io_return (Err (if attempt_limit = QUARANTINE_NAME_ATTEMPTS
                                  then QP_CollisionExhausted attempts qid name
                                  else QP_BudgetExhausted attempts qid name))
            | Suc left' \<Rightarrow> quarantine_attempts e next_id src_dir_fd filename reason quarantine_dir attempt_limit
                            (attempts + 1) left')
         else io_return (Err (QP_Move qid name failure attempts))))"

declare quarantine_attempts.simps [simp del]

definition publish_quarantine_object_with_ids ::
  "'s env \<Rightarrow> fd \<Rightarrow> string \<Rightarrow> QuarantineReason \<Rightarrow> nat \<Rightarrow> ('s, IoError + id128) qproc
     \<Rightarrow> ('s, QuarantinePublishFailure + QuarantinePublication) qproc" where
  "publish_quarantine_object_with_ids e src_dir_fd filename reason max_move_attempts next_id =
     (let attempt_limit = min max_move_attempts QUARANTINE_NAME_ATTEMPTS in
      if attempt_limit = 0
      then io_return (Err (QP_Preparation AttemptBudget (io_error_other ''no quarantine move attempt budget remains'') 0))
      else
        io_try (io_map_err (\<lambda>er. QP_Preparation EnsureDirectory er 0) (ensure_dir e ''quarantine'')) (\<lambda>_.
        io_bind (asks q_root_fd) (\<lambda>root_fd.
        io_try (lift (io_map_err (\<lambda>er. QP_Preparation OpenDirectory er 0)
                  (open_relative (env_os e) root_fd ''quarantine''))) (\<lambda>quarantine_dir.
          quarantine_attempts e next_id src_dir_fd filename reason quarantine_dir attempt_limit 1 (attempt_limit - 1)))))"

text \<open>The attempts a publication consumed, whether it succeeded or failed.\<close>

definition consumed_attempts :: "QuarantinePublishFailure + QuarantinePublication \<Rightarrow> nat" where
  "consumed_attempts result =
     (case result of Ok publication \<Rightarrow> qpub_attempts_consumed publication | Err er \<Rightarrow> qp_attempts_consumed er)"

definition publish_quarantine_object ::
  "'s env \<Rightarrow> fd \<Rightarrow> string \<Rightarrow> QuarantineReason \<Rightarrow> ('s, QuarantinePublishFailure + QuarantinePublication) qproc" where
  "publish_quarantine_object e src_dir_fd filename reason =
     publish_quarantine_object_with_ids e src_dir_fd filename reason QUARANTINE_NAME_ATTEMPTS
       (lift (random_128bit (env_os e)))"

subsection \<open>Listing, finding and removing\<close>

record QuarantineEntry =
  qe_quarantine_id :: id128
  qe_reason :: u16
  qe_filename :: string
  qe_relative_path :: string

definition quarantine_list_skips :: "IoError \<Rightarrow> bool" where
  "quarantine_list_skips er = (raw_os_error er \<in> {Some ENOTDIR, Some ELOOP, Some ENOENT})"

definition listed_entry :: "string \<Rightarrow> string \<Rightarrow> QuarantineName \<Rightarrow> QuarantineEntry" where
  "listed_entry relative_dir name parsed =
     \<lparr>qe_quarantine_id = qn_quarantine_id parsed, qe_reason = qn_reason parsed, qe_filename = name,
      qe_relative_path = relative_dir @ ''/'' @ name\<rparr>"

text \<open>One entry of a directory; \<open>descend\<close> lists a subdirectory, where the depth allows it.\<close>

definition collect_entry ::
  "'s env \<Rightarrow> fd \<Rightarrow> string
     \<Rightarrow> (fd \<Rightarrow> string \<Rightarrow> QuarantineEntry list \<Rightarrow> ('s, IoError + QuarantineEntry list) qproc) option
     \<Rightarrow> IoError + DirEntryName option \<times> DirectoryStream \<Rightarrow> QuarantineEntry list
     \<Rightarrow> ('s, (QuarantineEntry list, IoError + QuarantineEntry list) step) qproc" where
  "collect_entry e dir_fd relative_dir descend r out =
     (case r of
        Inl er \<Rightarrow> io_return (Break (Err er))
      | Inr (None, _) \<Rightarrow> io_return (Break (Ok out))
      | Inr (Some entry, _) \<Rightarrow>
          (case as_ascii_str entry of
             None \<Rightarrow> io_return (Continue out)
           | Some name \<Rightarrow>
               (case parse_quarantine name of
                  Inr parsed \<Rightarrow> io_return (Continue (out @ [listed_entry relative_dir name parsed]))
                | Inl _ \<Rightarrow>
                    (case descend of
                       None \<Rightarrow> io_return (Continue out)
                     | Some list_below \<Rightarrow>
                         io_bind (lift (open_directory (env_os e) dir_fd name)) (\<lambda>opened. case opened of
                           Ok child_fd \<Rightarrow>
                             io_map (\<lambda>listed. case listed of Ok out' \<Rightarrow> Continue out' | Err er \<Rightarrow> Break (Err er))
                               (list_below child_fd (relative_dir @ ''/'' @ name) out)
                         | Err er \<Rightarrow>
                             io_return (if quarantine_list_skips er then Continue out else Break (Err er)))))))"

definition collect_level ::
  "'s env \<Rightarrow> (fd \<Rightarrow> string \<Rightarrow> QuarantineEntry list \<Rightarrow> ('s, IoError + QuarantineEntry list) qproc) option
     \<Rightarrow> fd \<Rightarrow> string \<Rightarrow> QuarantineEntry list \<Rightarrow> ('s, IoError + QuarantineEntry list) qproc" where
  "collect_level e descend dir_fd relative_dir out =
     io_try (lift (stream_open (env_os e) dir_fd)) (\<lambda>entries.
       each_entry (env_os e) (collect_entry e dir_fd relative_dir descend) entries out)"

fun collect_quarantine_entries ::
  "'s env \<Rightarrow> nat \<Rightarrow> fd \<Rightarrow> string \<Rightarrow> QuarantineEntry list \<Rightarrow> ('s, IoError + QuarantineEntry list) qproc" where
  "collect_quarantine_entries e 0 = collect_level e None"
| "collect_quarantine_entries e (Suc depth) = collect_level e (Some (collect_quarantine_entries e depth))"

definition list_quarantine :: "'s env \<Rightarrow> ('s, IoError + QuarantineEntry list) qproc" where
  "list_quarantine e =
     io_bind (asks q_root_fd) (\<lambda>root_fd.
     io_bind (lift (open_directory (env_os e) root_fd ''quarantine'')) (\<lambda>opened. case opened of
       Ok fd \<Rightarrow> collect_quarantine_entries e MAX_QUARANTINE_LIST_DEPTH fd ''quarantine'' []
     | Err er \<Rightarrow> if io_kind er = Kind_NotFound then io_return (Ok []) else io_return (Err er)))"

definition find_quarantine :: "'s env \<Rightarrow> id128 \<Rightarrow> ('s, IoError + QuarantineEntry option) qproc" where
  "find_quarantine e qid =
     io_try (list_quarantine e) (\<lambda>listed. io_return (Ok (find (\<lambda>entry. qe_quarantine_id entry = qid) listed)))"

definition open_quarantine_parent :: "'s env \<Rightarrow> QuarantineEntry \<Rightarrow> ('s, IoError + fd \<times> string) qproc" where
  "open_quarantine_parent e entry =
     io_try (io_return (ok_or (rsplit_once (CHR ''/'') (qe_relative_path entry))
               (io_error_new Kind_InvalidData ''invalid quarantine path''))) (\<lambda>(dir_rel, name).
     io_bind (asks q_root_fd) (\<lambda>root_fd.
     io_try (lift (open_relative (env_os e) root_fd dir_rel)) (\<lambda>fd. io_return (Ok (fd, name)))))"

fun unlink_phase_text :: "UnlinkPhase \<Rightarrow> string" where
  "unlink_phase_text Phase_Unlink = ''Unlink''"
| "unlink_phase_text DirectoryFsync = ''DirectoryFsync''"

definition remove_quarantine :: "'s env \<Rightarrow> id128 \<Rightarrow> ('s, IoError + bool) qproc" where
  "remove_quarantine e qid =
     io_try (find_quarantine e qid) (\<lambda>found. case found of
       None \<Rightarrow> io_return (Ok False)
     | Some entry \<Rightarrow>
         io_try (open_quarantine_parent e entry) (\<lambda>(dir_fd, name).
         io_bind (lift (unlink_verified (env_os e) dir_fd name)) (\<lambda>unlinked. io_return (case unlinked of
             Ok _ \<Rightarrow> Ok True
           | Err Unlink_SourceMissing \<Rightarrow> Ok False
           | Err (Unlink_NotCommitted phase source) \<Rightarrow>
               Err (io_error_new (io_kind source) (''quarantine removal not committed at phase=''
                 @ unlink_phase_text phase @ '': '' @ io_text source))
           | Err (Unlink_OutcomeUnknown phase source) \<Rightarrow>
               Err (io_error_new (io_kind source) (''quarantine removal outcome unknown at phase=''
                 @ unlink_phase_text phase @ '': '' @ io_text source))))))"

subsection \<open>Directory loops and attempts\<close>

lemma each_entry_induct:
  assumes "each_entry k step stream a q = Some (b, q')"
    and "\<And>r a q stream w b q'. next_entry k stream (qw_sys q) = Some (r, w) \<Longrightarrow> step r a (q\<lparr>qw_sys := w\<rparr>) = Some (Break b, q') \<Longrightarrow> P a q b q'"
    and "\<And>r a q stream w a' q1 b q'. next_entry k stream (qw_sys q) = Some (r, w) \<Longrightarrow> step r a (q\<lparr>qw_sys := w\<rparr>) = Some (Continue a', q1)
        \<Longrightarrow> P a' q1 b q' \<Longrightarrow> P a q b q'"
  shows "P a q b q'"
proof -
  define Q where "Q = (\<lambda>k' step' (stream :: DirectoryStream) a q y. k' = k \<and> step' = step \<longrightarrow> P a q (fst y) (snd y))"
  have "Q k step stream a q (b, q')"
  proof (rule each_entry.raw_induct [of Q, OF _ assms(1)])
    fix f k' step' stream a q y
    assume IH: "\<And>k' step' stream a q y. f k' step' stream a q = Some y \<Longrightarrow> Q k' step' stream a q y"
      and run: "(case next_entry k' stream (qw_sys q) of None \<Rightarrow> None
         | Some (r, w) \<Rightarrow> (case step' r a (q\<lparr>qw_sys := w\<rparr>) of None \<Rightarrow> None
             | Some (Continue a', q') \<Rightarrow> f k' step' (case r of Inl _ \<Rightarrow> stream | Inr (_, stream') \<Rightarrow> stream') a' q'
             | Some (Break b, q') \<Rightarrow> Some (b, q'))) = Some y"
    show "Q k' step' stream a q y"
      using run assms(2,3) IH unfolding Q_def
      by (fastforce split: option.splits prod.splits step.splits)
  qed
  then show ?thesis by (simp add: Q_def)
qed

lemma keeps_each_entry:
  assumes "\<And>r a. keeps same_handle (step r a)"
  shows "keeps same_handle (each_entry k step stream a)"
proof (rule keepsI)
  fix q b q' assume "each_entry k step stream a q = Some (b, q')"
  then show "same_handle q q'"
    by (rule each_entry_induct [where P = "\<lambda>a q b q'. same_handle q q'"])
      (auto dest!: keepsD [OF assms] simp: same_handle_def)
qed

lemma keeps_quarantine_attempts:
  assumes "keeps same_handle next_id"
  shows "keeps same_handle (quarantine_attempts e next_id d f r qd m n left)"
proof (induction left arbitrary: n)
  case 0
  show ?case
    unfolding quarantine_attempts.simps [of e next_id d f r qd m n 0] Let_def by (intro handle_keeps assms) (simp_all add: keeps_return)
next
  case (Suc left)
  show ?case
    unfolding quarantine_attempts.simps [of e next_id d f r qd m n "Suc left"] Let_def
    by (intro handle_keeps assms) (simp_all add: Suc keeps_return)
qed

lemma keeps_publish_quarantine:
  assumes "keeps same_handle next_id"
  shows "keeps same_handle (publish_quarantine_object_with_ids e d f r m next_id)"
  unfolding publish_quarantine_object_with_ids_def Let_def ensure_dir_def
  by (intro handle_keeps keeps_strictly keeps_ensure_dir keeps_quarantine_attempts assms)

text \<open>What every result of a procedure satisfies.\<close>

definition yields :: "('a \<Rightarrow> bool) \<Rightarrow> ('w, 'a) proc \<Rightarrow> bool" where
  "yields P m \<longleftrightarrow> (\<forall>w x w'. m w = Some (x, w') \<longrightarrow> P x)"

lemma yieldsD: "yields P m \<Longrightarrow> m w = Some (x, w') \<Longrightarrow> P x"
  unfolding yields_def by blast

lemma yields_return: "P x \<Longrightarrow> yields P (io_return x)"
  by (simp add: yields_def)

lemma yields_bind: "(\<And>y. yields P (f y)) \<Longrightarrow> yields P (io_bind m f)"
  unfolding yields_def io_bind_eq_Some_iff by blast

lemma yields_try: "(\<And>er. P (Inl (g er))) \<Longrightarrow> (\<And>y. yields P (f y)) \<Longrightarrow> yields P (io_try (io_map_err g m) f)"
  unfolding yields_def io_try_eq_Some_iff io_map_err_Err_iff by blast

lemma yields_try_lift:
  "(\<And>er. P (Inl (g er))) \<Longrightarrow> (\<And>y. yields P (f y)) \<Longrightarrow> yields P (io_try (lift (io_map_err g m)) f)"
  unfolding yields_def io_try_eq_Some_iff lift_eq_Some_iff io_map_err_Err_iff by blast

lemma yields_if: "(b \<Longrightarrow> yields P m) \<Longrightarrow> (\<not> b \<Longrightarrow> yields P n) \<Longrightarrow> yields P (if b then m else n)"
  by simp

lemma yields_case_sum:
  "(\<And>y. yields P (f y)) \<Longrightarrow> (\<And>y. yields P (g y)) \<Longrightarrow> yields P (case s of Inl y \<Rightarrow> f y | Inr y \<Rightarrow> g y)"
  by (cases s) simp_all

lemmas yields_rules = yields_return yields_bind yields_try yields_try_lift yields_if yields_case_sum

lemma quarantine_attempts_consumed:
  "yields (\<lambda>result. n - 1 \<le> consumed_attempts result \<and> consumed_attempts result \<le> n + left)
     (quarantine_attempts e next_id d f r qd m n left)"
proof (induction left arbitrary: n)
  case 0
  show ?case
    unfolding quarantine_attempts.simps [of e next_id d f r qd m n 0] Let_def
    by (intro yields_rules) (simp_all add: consumed_attempts_def yields_rules)
next
  case (Suc left)
  have "yields (\<lambda>result. n - 1 \<le> consumed_attempts result \<and> consumed_attempts result \<le> n + Suc left)
      (quarantine_attempts e next_id d f r qd m (n + 1) left)"
    using Suc [of "n + 1"] by (simp add: yields_def) (meson Suc_leD diff_le_self le_trans)
  then show ?case
    unfolding quarantine_attempts.simps [of e next_id d f r qd m n "Suc left"] Let_def
    by (intro yields_rules) (simp_all add: consumed_attempts_def yields_rules)
qed

lemma publish_quarantine_consumed:
  "yields (\<lambda>result. consumed_attempts result \<le> min m QUARANTINE_NAME_ATTEMPTS) (publish_quarantine_object_with_ids e d f r m next_id)"
proof -
  define k where "k = min m QUARANTINE_NAME_ATTEMPTS"
  have "yields (\<lambda>result. consumed_attempts result \<le> k) (quarantine_attempts e next_id d f r qd k 1 (k - 1))" if "k \<noteq> 0" for qd
    using quarantine_attempts_consumed [of 1 "k - 1"] that by (simp add: yields_def)
  moreover have "consumed_attempts (Err (QP_Preparation s er 0)) \<le> k" for s er
    by (simp add: consumed_attempts_def)
  ultimately show ?thesis
    unfolding publish_quarantine_object_with_ids_def Let_def k_def [symmetric]
    by (intro yields_rules) assumption+
qed
end
