(* ===== verification/Steadq_Inspect.thy ===== *)
theory Steadq_Inspect
  imports Steadq_Quarantine
begin

text \<open>
  Lookups, from \<^verbatim>\<open>src/crates/steadq-core/src/queue/inspect.rs\<close>: what a job's objects are in every state,
  dead-letter administration, the structural check of an object in an active state, and the search for
  the receipt of an acknowledgment.

  The visitor of the directory walk, a closure over the results in the source, takes them as an
  accumulator here. A range of buckets is the list of its members.
\<close>

subsection \<open>Verification on the handle\<close>

definition verify_payload_on_fd :: "'s env \<Rightarrow> fd \<Rightarrow> ('s, Error + unit) qproc" where
  "verify_payload_on_fd e fd =
     lift (io_map_err error_from_verification
       (io_try (verify_job_on_fd (env_sha e) (env_os e) (env_clone e) fd) (\<lambda>_. io_return (Ok ()))))"

definition queue_verify_envelope_on_fd :: "'s env \<Rightarrow> fd \<Rightarrow> ('s, Error + VerifiedJob) qproc" where
  "queue_verify_envelope_on_fd e fd =
     lift (io_map_err error_from_verification (verify_envelope_on_fd (env_sha e) (env_os e) (env_clone e) fd))"

definition quarantine_corrupt_lease :: "'s env \<Rightarrow> fd \<Rightarrow> string \<Rightarrow> fd \<Rightarrow> ('s, MoveFailure + unit) qproc" where
  "quarantine_corrupt_lease e leased_dir_fd leased_name held_fd =
     (let k = env_os e in
      io_try (lift (io_map_err (Move_NotCommitted PreRename) (fstat k held_fd))) (\<lambda>held_stat.
      io_try (lift (io_map_err (Move_NotCommitted PreRename) (fstatat k leased_dir_fd leased_name))) (\<lambda>name_stat.
      if st_dev held_stat \<noteq> st_dev name_stat \<or> st_ino held_stat \<noteq> st_ino name_stat
      then io_return (Err Move_SourceMissing)
      else
        io_try (lift (io_map_err (Move_NotCommitted PreRename) (random_128bit k))) (\<lambda>qid.
        let q_name = quarantine_filename qid (quarantine_reason_code Quarantine_PayloadCorrupt) in
        io_try (io_map_err (Move_NotCommitted PreRename) (ensure_dir e ''quarantine'')) (\<lambda>_.
        io_bind (asks q_root_fd) (\<lambda>root_fd.
        io_try (lift (io_map_err (Move_NotCommitted PreRename) (open_relative k root_fd ''quarantine''))) (\<lambda>q_dir_fd.
          lift (move_witnessed_noreplace k leased_dir_fd leased_name q_dir_fd q_name (stat_identity held_stat)))))))))"

subsection \<open>Walking shard directories\<close>

text \<open>A fold that ends at the first error.\<close>

fun io_fold :: "('a \<Rightarrow> 'b \<Rightarrow> ('w, 'e + 'b) proc) \<Rightarrow> 'a list \<Rightarrow> 'b \<Rightarrow> ('w, 'e + 'b) proc" where
  "io_fold f [] acc = io_return (Ok acc)"
| "io_fold f (x # xs) acc = io_try (f x acc) (\<lambda>acc'. io_fold f xs acc')"

definition open_child_dir :: "'s env \<Rightarrow> fd \<Rightarrow> string \<Rightarrow> ('s, Error + fd option) qproc" where
  "open_child_dir e parent name =
     io_bind (lift (open_directory (env_os e) parent name)) (\<lambda>r. io_return (case r of
         Ok fd \<Rightarrow> Ok (Some fd)
       | Err er \<Rightarrow> if io_kind er = Kind_NotFound \<or> raw_os_error er = Some ENOTDIR then Ok None
                  else Err (error_from_io er)))"

definition names_in :: "'s env \<Rightarrow> fd \<Rightarrow> ('s, Error + string list) qproc" where
  "names_in e dir =
     io_try (from_io (read_dir_entries (env_os e) dir)) (\<lambda>entries.
       io_return (Ok (List.map_filter as_ascii_str entries)))"

record ShardDir =
  sd_fd :: fd
  sd_path :: string

definition sd_child :: "ShardDir \<Rightarrow> string \<Rightarrow> string" where
  "sd_child d name = sd_path d @ ''/'' @ name"

type_synonym ('s, 'a) visitor = "ShardDir \<Rightarrow> string \<Rightarrow> 'a \<Rightarrow> ('s, Error + 'a) qproc"

fun walk_shards :: "'s env \<Rightarrow> string \<Rightarrow> ('s, 'a) visitor \<Rightarrow> nat \<Rightarrow> fd \<Rightarrow> string \<Rightarrow> string \<Rightarrow> 'a \<Rightarrow> ('s, Error + 'a) qproc" where
  "walk_shards e shard visit 0 parent path bucket acc =
     io_try (open_child_dir e parent shard) (\<lambda>opened. case opened of
       Some fd \<Rightarrow> visit \<lparr>sd_fd = fd, sd_path = path @ ''/'' @ shard\<rparr> bucket acc
     | None \<Rightarrow> io_return (Ok acc))"
| "walk_shards e shard visit (Suc depth) parent path bucket acc =
     io_try (names_in e parent) (\<lambda>names.
       io_fold (\<lambda>name acc. io_try (open_child_dir e parent name) (\<lambda>opened. case opened of
           Some child \<Rightarrow> walk_shards e shard visit depth child (path @ ''/'' @ name) name acc
         | None \<Rightarrow> io_return (Ok acc))) names acc)"

definition visit_shard_dirs ::
  "'s env \<Rightarrow> fd \<Rightarrow> string \<Rightarrow> nat \<Rightarrow> string \<Rightarrow> ('s, 'a) visitor \<Rightarrow> 'a \<Rightarrow> ('s, Error + 'a) qproc" where
  "visit_shard_dirs e root state depth shard visit acc =
     io_try (open_child_dir e root state) (\<lambda>opened. case opened of
       Some fd \<Rightarrow> walk_shards e shard visit depth fd state state acc
     | None \<Rightarrow> io_return (Ok acc))"

subsection \<open>Diagnostic lookups\<close>

record Snapshot =
  sn_job_id :: id128
  sn_state :: string
  sn_generation :: u64
  sn_attempt :: u32
  sn_maximum_attempts :: u32
  sn_shard :: u32
  sn_relative_path :: string
  sn_size :: u64

definition snapshot_of :: "string \<Rightarrow> u32 \<Rightarrow> CommonFields \<Rightarrow> string \<Rightarrow> Snapshot" where
  "snapshot_of state shard common path =
     \<lparr>sn_job_id = job_id common, sn_state = state, sn_generation = generation common, sn_attempt = attempt common,
      sn_maximum_attempts = maximum_attempts common, sn_shard = shard, sn_relative_path = path, sn_size = 0\<rparr>"

definition push_snapshot :: "id128 \<Rightarrow> u32 \<Rightarrow> string \<Rightarrow> CommonFields \<Rightarrow> string \<Rightarrow> Snapshot list \<Rightarrow> Snapshot list" where
  "push_snapshot jid shard state common path results =
     (if job_id common = jid then results @ [snapshot_of state shard common path] else results)"

text \<open>What a name in a directory of the given state adds; \<^const>\<open>None\<close> for names of other kinds.\<close>

fun ready_dir_name :: "string \<Rightarrow> (string \<times> CommonFields) option" where
  "ready_dir_name entry =
     (case parse_ready entry of
        Inr p \<Rightarrow> Some (''ready'', rd_common p)
      | Inl _ \<Rightarrow> (case parse_leased entry of Inr p \<Rightarrow> Some (''leased'', ls_common p) | Inl _ \<Rightarrow> None))"

definition leased_dir_name :: "string \<Rightarrow> (string \<times> CommonFields) option" where
  "leased_dir_name entry = (case parse_leased entry of Inr p \<Rightarrow> Some (''leased'', ls_common p) | Inl _ \<Rightarrow> None)"

definition delayed_dir_name :: "string \<Rightarrow> (string \<times> CommonFields) option" where
  "delayed_dir_name entry = (case parse_delayed entry of Inr p \<Rightarrow> Some (''delayed'', dl_common p) | Inl _ \<Rightarrow> None)"

definition dead_dir_name :: "sha256 \<Rightarrow> id128 \<Rightarrow> string \<Rightarrow> string \<Rightarrow> string \<Rightarrow> (string \<times> CommonFields) option" where
  "dead_dir_name sha qid bucket shard entry =
     (case parse_dead entry of
        Inr p \<Rightarrow> if dead_authenticate_tag sha p qid bucket shard then Some (''dead'', dd_common p) else None
      | Inl _ \<Rightarrow> None)"

definition visit_names ::
  "'s env \<Rightarrow> id128 \<Rightarrow> u32 \<Rightarrow> (string \<Rightarrow> string \<Rightarrow> (string \<times> CommonFields) option) \<Rightarrow> ('s, Snapshot list) visitor" where
  "visit_names e jid shard classify dir bucket results =
     io_try (names_in e (sd_fd dir)) (\<lambda>names.
       io_return (Ok (foldl (\<lambda>acc entry. case classify bucket entry of
           Some (state, common) \<Rightarrow> push_snapshot jid shard state common (sd_child dir entry) acc
         | None \<Rightarrow> acc) results names)))"

definition receipt_context :: "FormatRecord \<Rightarrow> string \<Rightarrow> string \<Rightarrow> string \<Rightarrow> ReceiptContext" where
  "receipt_context fmt bucket shard filename =
     \<lparr>ctx_queue_id = fmt_queue_id fmt, ctx_shard_count = fmt_shard_count fmt,
      ctx_terminal_bucket_width_ns = fmt_terminal_bucket_width_ns fmt,
      ctx_max_payload_length = fmt_max_payload_length fmt, ctx_bucket = bucket, ctx_shard = shard,
      ctx_filename = filename\<rparr>"

definition visit_receipt ::
  "'s env \<Rightarrow> FormatRecord \<Rightarrow> id128 \<Rightarrow> u32 \<Rightarrow> ShardDir \<Rightarrow> string \<Rightarrow> string \<Rightarrow> Snapshot list \<Rightarrow> ('s, Error + Snapshot list) qproc" where
  "visit_receipt e fmt jid shard dir bucket entry results =
     (case parse_receipt entry of
        Inl _ \<Rightarrow> io_return (Ok results)
      | Inr parsed \<Rightarrow>
          if job_id (rc_common parsed) \<noteq> jid then io_return (Ok results)
          else
            io_bind (lift (openat (env_os e) (sd_fd dir) entry receipt_read_open_flags 0)) (\<lambda>opened. case opened of
              Err er \<Rightarrow> io_return (if io_kind er = Kind_NotFound then Ok results else Err (error_from_io er))
            | Ok file_fd \<Rightarrow>
                io_bind (lift (verify_receipt_on_fd (env_sha e) (env_os e) (env_clone e) file_fd
                           (receipt_context fmt bucket (shard_hex shard) entry) None)) (\<lambda>verified.
                  io_return (case verified of
                      Ok _ \<Rightarrow> Ok (push_snapshot jid shard ''receipt'' (rc_common parsed) (sd_child dir entry) results)
                    | Err (Verify_Io message) \<Rightarrow> Err (IoFailure message)
                    | Err _ \<Rightarrow> Ok results))))"

definition visit_receipts :: "'s env \<Rightarrow> FormatRecord \<Rightarrow> id128 \<Rightarrow> u32 \<Rightarrow> ('s, Snapshot list) visitor" where
  "visit_receipts e fmt jid shard dir bucket results =
     io_try (names_in e (sd_fd dir)) (\<lambda>names. io_fold (visit_receipt e fmt jid shard dir bucket) names results)"

definition inspect :: "'s env \<Rightarrow> id128 \<Rightarrow> ('s, Error + Snapshot list) qproc" where
  "inspect e jid =
     io_bind (asks q_format) (\<lambda>fmt. io_bind (asks q_root_fd) (\<lambda>root.
     let shard = compute_shard (env_sha e) (fmt_queue_id fmt) jid (fmt_shard_count fmt);
         visit = (\<lambda>state depth. visit_shard_dirs e root state depth (shard_hex shard))
     in
     io_try (visit ''ready'' 0 (visit_names e jid shard (\<lambda>_. ready_dir_name)) []) (\<lambda>r1.
     io_try (visit ''leased'' 2 (visit_names e jid shard (\<lambda>_. leased_dir_name)) r1) (\<lambda>r2.
     io_try (visit ''delayed'' 1 (visit_names e jid shard (\<lambda>_. delayed_dir_name)) r2) (\<lambda>r3.
     io_try (visit ''dead'' 1 (visit_names e jid shard
               (\<lambda>bucket. dead_dir_name (env_sha e) (fmt_queue_id fmt) bucket (shard_hex shard))) r3) (\<lambda>r4.
       visit ''receipts'' 1 (visit_receipts e fmt jid shard) r4))))))"

text \<open>Inspected paths name a file in a directory, so that splitting one never fails.\<close>

definition find_dead :: "'s env \<Rightarrow> id128 \<Rightarrow> ('s, Error + (fd \<times> string) option) qproc" where
  "find_dead e jid =
     io_try (inspect e jid) (\<lambda>snapshots. case find (\<lambda>s. sn_state s = ''dead'') snapshots of
       None \<Rightarrow> io_return (Ok None)
     | Some snapshot \<Rightarrow>
         (case rsplit_once (CHR ''/'') (sn_relative_path snapshot) of
            None \<Rightarrow> io_return (Ok None)
          | Some (dir_rel, name) \<Rightarrow>
              io_bind (asks q_root_fd) (\<lambda>root_fd.
              io_try (from_io (open_relative (env_os e) root_fd dir_rel)) (\<lambda>dir_fd.
                io_return (Ok (Some (dir_fd, name)))))))"

definition dead_snapshot :: "sha256 \<Rightarrow> id128 \<Rightarrow> string \<Rightarrow> string \<Rightarrow> u32 \<Rightarrow> DirEntryName \<Rightarrow> Snapshot option" where
  "dead_snapshot sha qid bucket shard shard_num raw =
     (case as_ascii_str raw of
        None \<Rightarrow> None
      | Some entry \<Rightarrow>
          (case dead_dir_name sha qid bucket shard entry of
             None \<Rightarrow> None
           | Some (state, common) \<Rightarrow>
               Some (snapshot_of state shard_num common (''dead/'' @ bucket @ ''/'' @ shard @ ''/'' @ entry))))"

definition list_dead_shard ::
  "'s env \<Rightarrow> id128 \<Rightarrow> fd \<Rightarrow> string \<Rightarrow> DirEntryName \<Rightarrow> Snapshot list \<Rightarrow> ('s, Error + Snapshot list) qproc" where
  "list_dead_shard e qid bucket_fd bucket raw out =
     (case as_ascii_str raw of
        None \<Rightarrow> io_return (Ok out)
      | Some shard \<Rightarrow>
          (case shard_from_hex shard of
             None \<Rightarrow> io_return (Ok out)
           | Some shard_num \<Rightarrow>
               io_try (open_child_dir e bucket_fd shard) (\<lambda>opened. case opened of
                 None \<Rightarrow> io_return (Ok out)
               | Some shard_fd \<Rightarrow>
                   io_try (from_io (read_dir_entries (env_os e) shard_fd)) (\<lambda>entries.
                     io_return (Ok (out @ List.map_filter (dead_snapshot (env_sha e) qid bucket shard shard_num) entries))))))"

definition list_dead_bucket ::
  "'s env \<Rightarrow> id128 \<Rightarrow> fd \<Rightarrow> DirEntryName \<Rightarrow> Snapshot list \<Rightarrow> ('s, Error + Snapshot list) qproc" where
  "list_dead_bucket e qid dead_fd raw out =
     (case as_ascii_str raw of
        None \<Rightarrow> io_return (Ok out)
      | Some bucket \<Rightarrow>
          io_try (open_child_dir e dead_fd bucket) (\<lambda>opened. case opened of
            None \<Rightarrow> io_return (Ok out)
          | Some bucket_fd \<Rightarrow>
              io_try (from_io (read_dir_entries (env_os e) bucket_fd)) (\<lambda>shards.
                io_fold (list_dead_shard e qid bucket_fd bucket) shards out)))"

definition list_dead :: "'s env \<Rightarrow> ('s, Error + Snapshot list) qproc" where
  "list_dead e =
     io_bind (asks (\<lambda>q. fmt_queue_id (q_format q))) (\<lambda>qid. io_bind (asks q_root_fd) (\<lambda>root_fd.
     io_try (from_io (open_directory (env_os e) root_fd ''dead'')) (\<lambda>dead_fd.
     io_try (from_io (read_dir_entries (env_os e) dead_fd)) (\<lambda>buckets.
     io_try (io_fold (list_dead_bucket e qid dead_fd) buckets []) (\<lambda>out.
       io_return (Ok (sort_key (\<lambda>s. as_bytes (sn_relative_path s)) out)))))))"

definition remove_dead :: "'s env \<Rightarrow> id128 \<Rightarrow> ('s, Error + bool) qproc" where
  "remove_dead e jid =
     io_try (find_dead e jid) (\<lambda>found. case found of
       None \<Rightarrow> io_return (Ok False)
     | Some (dir_fd, name) \<Rightarrow>
         io_bind (lift (unlink_verified (env_os e) dir_fd name)) (\<lambda>unlinked. io_return (case unlinked of
             Ok _ \<Rightarrow> Ok True
           | Err Unlink_SourceMissing \<Rightarrow> Ok False
           | Err (Unlink_NotCommitted phase source) \<Rightarrow>
               Err (case error_from_io source of
                      IoFailure message \<Rightarrow> IoFailure (''dead removal failed at '' @ unlink_phase_text phase @ '': '' @ message)
                    | classified \<Rightarrow> classified)
           | Err (Unlink_OutcomeUnknown phase source) \<Rightarrow>
               Err (IoFailure (''dead removal indeterminate at '' @ unlink_phase_text phase @ '': '' @ io_text source)))))"

subsection \<open>Objects of the active states\<close>

definition raw_read_open_flags :: int where
  "raw_read_open_flags = O_RDONLY + O_NOFOLLOW + O_CLOEXEC + O_NONBLOCK"

definition is_regular :: "Stat \<Rightarrow> bool" where
  "is_regular stat = (st_mode stat AND S_IFMT = S_IFREG)"

definition not_regular :: "string \<Rightarrow> IoError" where
  "not_regular name = io_error_new Kind_InvalidData (name @ '': not a regular file'')"

definition open_regular_read :: "'s os \<Rightarrow> fd \<Rightarrow> string \<Rightarrow> ('s, IoError + fd \<times> Stat) sysproc" where
  "open_regular_read k dir_fd name =
     io_try (io_map_err (\<lambda>er. if raw_os_error er = Some ELOOP then not_regular name else er)
               (openat k dir_fd name raw_read_open_flags 0)) (\<lambda>fd.
     io_try (fstat k fd) (\<lambda>stat.
       if \<not> is_regular stat then io_return (Err (not_regular name)) else io_return (Ok (fd, stat))))"

definition regular_open_error :: "IoError \<Rightarrow> Error" where
  "regular_open_error er =
     (if io_kind er = Kind_InvalidData then QueueCorrupt (io_text er) else error_from_io er)"

definition verify_shard_placement :: "sha256 \<Rightarrow> FormatRecord \<Rightarrow> string \<Rightarrow> id128 \<Rightarrow> bool" where
  "verify_shard_placement sha fmt shard_name jid =
     (case shard_from_hex shard_name of
        Some s \<Rightarrow> s = compute_shard sha (fmt_queue_id fmt) jid (fmt_shard_count fmt)
      | None \<Rightarrow> False)"

text \<open>A refusal of the source: the condition with its message.\<close>

definition require :: "bool \<Rightarrow> 'e \<Rightarrow> 'e + unit" where
  "require b er = (if b then Ok () else Err er)"

lemma require_eq_Ok_iff [simp, result_simps]: "require b er = Ok u \<longleftrightarrow> b"
  by (simp add: require_def)

definition check_bucket :: "string \<Rightarrow> string \<Rightarrow> u64 option \<Rightarrow> Error + unit" where
  "check_bucket state bucket computed =
     res_bind (ok_or computed (QueueCorrupt (''invalid '' @ state @ '' bucket width''))) (\<lambda>expected_bucket.
     require (bucket_hex expected_bucket = bucket)
       (QueueCorrupt (state @ '' bucket mismatch: path '' @ bucket @ '' != expected '' @ bucket_hex expected_bucket)))"

fun active_name :: "sha256 \<Rightarrow> FormatRecord \<Rightarrow> string \<Rightarrow> ActivePathContext \<Rightarrow> Error + (CommonFields \<times> string)" where
  "active_name sha fmt name (Ctx_Ready shard) =
     res_bind (map_err (\<lambda>_. QueueCorrupt ''invalid ready filename'') (parse_ready name)) (\<lambda>p.
     res_bind (require (ready_authenticate_tag sha p (fmt_queue_id fmt) shard) (QueueCorrupt ''name tag mismatch'')) (\<lambda>_.
       Ok (rd_common p, shard)))"
| "active_name sha fmt name (Ctx_Leased boot bucket shard) =
     res_bind (map_err (\<lambda>_. QueueCorrupt ''invalid leased filename'') (parse_leased name)) (\<lambda>p.
     res_bind (require (leased_authenticate_tag sha p (fmt_queue_id fmt) boot bucket shard)
                (QueueCorrupt ''name tag mismatch'')) (\<lambda>_.
     res_bind (check_bucket ''leased'' bucket
                (lease_bucket (ls_boottime_deadline_ns p) (fmt_lease_bucket_width_ns fmt))) (\<lambda>_.
       Ok (ls_common p, shard))))"
| "active_name sha fmt name (Ctx_Delayed bucket shard) =
     res_bind (map_err (\<lambda>_. QueueCorrupt ''invalid delayed filename'') (parse_delayed name)) (\<lambda>p.
     res_bind (require (delayed_authenticate_tag sha p (fmt_queue_id fmt) bucket shard)
                (QueueCorrupt ''name tag mismatch'')) (\<lambda>_.
     res_bind (check_bucket ''delayed'' bucket
                (ceiling_bucket (dl_not_before_ns p) (fmt_delayed_bucket_width_ns fmt))) (\<lambda>_.
       Ok (dl_common p, shard))))"

definition check_active_header :: "sha256 \<Rightarrow> FormatRecord \<Rightarrow> FixedHeader \<Rightarrow> CommonFields \<Rightarrow> string \<Rightarrow> Error + unit" where
  "check_active_header sha fmt header common shard =
     res_bind (require (hdr_job_id header = job_id common)
                (QueueCorrupt ''header job_id does not match filename'')) (\<lambda>_.
     res_bind (require (hdr_maximum_attempts header = maximum_attempts common)
                (QueueCorrupt ''header maximum_attempts does not match filename'')) (\<lambda>_.
     let computed_shard = compute_shard sha (fmt_queue_id fmt) (job_id common) (fmt_shard_count fmt) in
     res_bind (ok_or (shard_from_hex shard) (QueueCorrupt (''invalid shard hex: '' @ shard))) (\<lambda>path_shard.
     require (path_shard = computed_shard)
       (QueueCorrupt (''shard mismatch: path '' @ decimal (unat path_shard) @ '' != computed ''
          @ decimal (unat computed_shard))))))"

definition validate_active_object ::
  "'s env \<Rightarrow> fd \<Rightarrow> string \<Rightarrow> ActivePathContext \<Rightarrow> ('s, Error + FixedHeader) qproc" where
  "validate_active_object e dir_fd name ctx =
     io_try (lift (io_map_err regular_open_error (open_regular_read (env_os e) dir_fd name))) (\<lambda>(file_fd, stat).
     if st_nlink stat \<noteq> 1
     then io_return (Err (QueueCorrupt (name @ '': unexpected link count '' @ decimal (unat (st_nlink stat)))))
     else
       io_try (queue_verify_envelope_on_fd e file_fd) (\<lambda>verified.
       io_bind (asks q_format) (\<lambda>fmt.
       let header = vj_header verified in
       io_return
         (res_bind (require (payload_length_is_valid (hdr_payload_length header) (fmt_max_payload_length fmt))
            (QueueCorrupt (''payload length '' @ decimal (unat (hdr_payload_length header)) @ '' exceeds queue limit ''
               @ decimal (unat (fmt_max_payload_length fmt))))) (\<lambda>_.
          res_bind (active_name (env_sha e) fmt name ctx) (\<lambda>(common, shard).
          res_bind (check_active_header (env_sha e) fmt header common shard) (\<lambda>_.
            Ok header)))))))"

subsection \<open>Receipts\<close>

definition expected_receipt :: "LeaseInfo \<Rightarrow> CommonFields \<Rightarrow> ExpectedReceipt" where
  "expected_receipt lease common =
     \<lparr>exp_common = common, exp_token = li_token lease, exp_envelope_digest = li_envelope_digest lease,
      exp_payload_length = li_payload_length lease\<rparr>"

definition receipt_is_authentic :: "'s env \<Rightarrow> LeaseInfo \<Rightarrow> string \<Rightarrow> string \<Rightarrow> ('s, bool) qproc" where
  "receipt_is_authentic e lease dir name =
     (case next_identity Op_Acknowledge (lease_common lease) of
        Err _ \<Rightarrow> io_return False
      | Ok common \<Rightarrow>
          io_bind (asks q_root_fd) (\<lambda>root_fd.
          io_bind (lift (open_relative (env_os e) root_fd dir)) (\<lambda>opened. case opened of
            Err _ \<Rightarrow> io_return False
          | Ok dir_fd \<Rightarrow>
              (case split_on (CHR ''/'') dir of
                 [_, bucket, shard] \<Rightarrow>
                   io_bind (lift (openat (env_os e) dir_fd name receipt_read_open_flags 0)) (\<lambda>opened. case opened of
                     Err _ \<Rightarrow> io_return False
                   | Ok file_fd \<Rightarrow>
                       io_bind (asks q_format) (\<lambda>fmt.
                       io_map is_ok (lift (verify_receipt_on_fd (env_sha e) (env_os e) (env_clone e) file_fd
                         (receipt_context fmt bucket shard name) (Some (expected_receipt lease common))))))
               | _ \<Rightarrow> io_return False))))"

text \<open>The probe of one bucket: the answer, or \<^const>\<open>None\<close> to go on.\<close>

definition absent :: "IoError \<Rightarrow> bool" where
  "absent er = (io_kind er = Kind_NotFound)"

definition probe_receipt ::
  "'s env \<Rightarrow> FormatRecord \<Rightarrow> fd \<Rightarrow> LeaseInfo \<Rightarrow> CommonFields \<Rightarrow> string \<Rightarrow> u64 \<Rightarrow> ('s, (Error + bool) option) qproc" where
  "probe_receipt e fmt root_fd lease receipt_common shard bucket_num =
     (let bucket = bucket_hex bucket_num;
          receipt_name = make_receipt_name (env_sha e) (fmt_queue_id fmt) bucket shard receipt_common (li_token lease);
          unless_absent = (\<lambda>er. if absent er then None else Some (Err (error_from_io er)))
      in
      io_bind (lift (open_relative (env_os e) root_fd (''receipts/'' @ bucket @ ''/'' @ shard))) (\<lambda>opened. case opened of
        Err er \<Rightarrow> io_return (unless_absent er)
      | Ok dir_fd \<Rightarrow>
          io_bind (lift (openat (env_os e) dir_fd receipt_name receipt_read_open_flags 0)) (\<lambda>opened. case opened of
            Err er \<Rightarrow> io_return (unless_absent er)
          | Ok file_fd \<Rightarrow>
              io_bind (lift (verify_receipt_on_fd (env_sha e) (env_os e) (env_clone e) file_fd
                         (receipt_context fmt bucket shard receipt_name)
                         (Some (expected_receipt lease receipt_common)))) (\<lambda>verified.
                io_return (case verified of
                    Ok _ \<Rightarrow> Some (Ok True)
                  | Err (Verify_Io message) \<Rightarrow> Some (Err (IoFailure message))
                  | Err _ \<Rightarrow> None)))))"

fun probe_receipts :: "('a \<Rightarrow> ('s, (Error + bool) option) qproc) \<Rightarrow> 'a list \<Rightarrow> ('s, Error + bool) qproc" where
  "probe_receipts probe [] = io_return (Ok False)"
| "probe_receipts probe (b # bs) =
     io_bind (probe b) (\<lambda>r. case r of Some answer \<Rightarrow> io_return answer | None \<Rightarrow> probe_receipts probe bs)"

definition retained_buckets :: "u64 \<Rightarrow> u64 \<Rightarrow> u64 list" where
  "retained_buckets now_bucket retention_buckets =
     map word_of_nat [unat (saturating_sub now_bucket (retention_buckets + 2))..<Suc (unat now_bucket)]"

definition check_duplicate_ack_bounded :: "'s env \<Rightarrow> LeaseInfo \<Rightarrow> WallFloor \<Rightarrow> ('s, Error + bool) qproc" where
  "check_duplicate_ack_bounded e lease wall_floor =
     io_bind (asks id) (\<lambda>queue.
     let fmt = q_format queue; width = fmt_terminal_bucket_width_ns fmt in
     (case bucket_number (wf_unix_ns wall_floor) width of
        None \<Rightarrow> io_return (Ok False)
      | Some now_bucket \<Rightarrow>
     (case ceiling_bucket (receipt_retention_ns (q_options queue)) width of
        None \<Rightarrow> io_return (Ok False)
      | Some retention_buckets \<Rightarrow>
     (case next_identity Op_Acknowledge (lease_common lease) of
        Err _ \<Rightarrow> io_return (Ok False)
      | Ok receipt_common \<Rightarrow>
          let shard = shard_hex (compute_shard (env_sha e) (fmt_queue_id fmt) (li_job_id lease) (fmt_shard_count fmt))
          in probe_receipts (probe_receipt e fmt (q_root_fd queue) lease receipt_common shard)
               (retained_buckets now_bucket retention_buckets)))))"

definition duplicate_ack_outcome :: "'s env \<Rightarrow> LeaseInfo \<Rightarrow> WallFloor \<Rightarrow> ('s, AckOutcome) qproc" where
  "duplicate_ack_outcome e lease wall_floor =
     io_map (\<lambda>r. case r of Ok True \<Rightarrow> Ack_AlreadyAcked | Ok False \<Rightarrow> Ack_LeaseLost | Err er \<Rightarrow> Ack_NotCommitted er)
       (check_duplicate_ack_bounded e lease wall_floor)"

definition check_duplicate_ack :: "'s env \<Rightarrow> LeaseInfo \<Rightarrow> ('s, AckOutcome) qproc" where
  "check_duplicate_ack e lease =
     io_bind (authenticated_wall_floor e) (\<lambda>r. case r of
       Ok wall_floor \<Rightarrow> duplicate_ack_outcome e lease wall_floor
     | Err er \<Rightarrow> io_return (Ack_NotCommitted er))"

end
