(* ===== verification/Steadq_Consumer.thy ===== *)
theory Steadq_Consumer
  imports Steadq_Inspect
begin

text \<open>
  What a consumer does with a lease, from \<^verbatim>\<open>src/crates/steadq-core/src/queue/consumer.rs\<close> and the payload
  readers of \<^verbatim>\<open>inspect.rs\<close>: validating the leased source against the handle, reading its payload,
  acknowledging, retrying, burying and renewing.

  A function that returns an outcome early has the outcome in the place of the error. The arm of
  the source that is unreachable because a leased path always parses to a leased location is an
  error here.
\<close>

subsection \<open>The current leased source\<close>

definition is_expected_dev_zero :: "u64 \<Rightarrow> bool" where
  "is_expected_dev_zero dev = (dev = 0)"

definition is_expected_inode_zero :: "u64 \<Rightarrow> bool" where
  "is_expected_inode_zero ino = (ino = 0)"

definition shard_matches :: "u32 \<Rightarrow> u32 \<Rightarrow> bool" where
  "shard_matches path computed = (path = computed)"

definition quoted :: "string \<Rightarrow> string" where
  "quoted s = CHR 0x27 # s @ [CHR 0x27]"

text \<open>What the handle says of its source: the boot id, bucket and shard of its path, and the file's name.\<close>

definition lease_source_path :: "sha256 \<Rightarrow> Queue \<Rightarrow> LeaseInfo \<Rightarrow> Error + (string \<times> u64 \<times> u32) \<times> string \<times> string" where
  "lease_source_path sha queue lease =
     res_bind (require (\<not> is_expected_dev_zero (li_expected_dev lease))
                (QueueCorrupt ''expected_dev is zero (forgeable handle)'')) (\<lambda>_.
     res_bind (require (\<not> is_expected_inode_zero (li_expected_inode lease))
                (QueueCorrupt ''expected_inode is zero (forgeable handle)'')) (\<lambda>_.
     res_bind (parse_leased_path (queue_layout queue) (li_exact_source_path lease)) (\<lambda>(loc, src_name).
     case loc of
       Loc_Leased boot path_bucket path_shard \<Rightarrow>
         res_bind (require (boot = q_boot_id queue)
            (InvalidInput (''source boot_id '' @ quoted boot @ '' does not match queue boot_id '' @ quoted (q_boot_id queue)))) (\<lambda>_.
         res_bind (require (boot = li_boot_id lease)
            (QueueCorrupt ''source boot_id does not match lease handle'')) (\<lambda>_.
         let computed_shard = compute_shard sha (fmt_queue_id (q_format queue)) (li_job_id lease) (fmt_shard_count (q_format queue)) in
         res_bind (require (shard_matches path_shard computed_shard)
            (QueueCorrupt (''source shard '' @ decimal (unat path_shard) @ '' does not match queue-derived shard ''
               @ decimal (unat computed_shard)))) (\<lambda>_.
         res_bind (ok_or (rsplit_once (CHR ''/'') (li_exact_source_path lease)) (QueueCorrupt ''invalid leased path'')) (\<lambda>(src_dir, _).
           Ok ((boot, path_bucket, path_shard), src_dir, src_name)))))
     | _ \<Rightarrow> Err (QueueCorrupt ''invalid leased path''))))"

definition check_source_name ::
  "sha256 \<Rightarrow> FormatRecord \<Rightarrow> LeaseInfo \<Rightarrow> string \<times> u64 \<times> u32 \<Rightarrow> string \<Rightarrow> Error + unit" where
  "check_source_name sha fmt lease place src_name = (case place of (boot, path_bucket, path_shard) \<Rightarrow>
     res_bind (map_err (\<lambda>_. QueueCorrupt ''source filename is not a valid leased name'') (parse_leased src_name)) (\<lambda>parsed.
     let common = ls_common parsed in
     res_bind (require (job_id common = li_job_id lease) (QueueCorrupt ''source job_id mismatch'')) (\<lambda>_.
     res_bind (require (generation common = li_generation lease) (QueueCorrupt ''source generation mismatch'')) (\<lambda>_.
     res_bind (require (attempt common = li_attempt lease) (QueueCorrupt ''source attempt mismatch'')) (\<lambda>_.
     res_bind (require (maximum_attempts common = li_maximum_attempts lease)
                (QueueCorrupt ''source max_attempts mismatch'')) (\<lambda>_.
     res_bind (require (ls_token parsed = li_token lease) (QueueCorrupt ''source token mismatch'')) (\<lambda>_.
     res_bind (require (ls_boottime_deadline_ns parsed = li_expires_boottime_ns lease)
                (QueueCorrupt ''source boottime deadline mismatch'')) (\<lambda>_.
     res_bind (require (ls_wall_deadline_ns parsed = li_expires_wall_ns lease)
                (QueueCorrupt ''source wall deadline mismatch'')) (\<lambda>_.
     res_bind (ok_or (lease_bucket (ls_boottime_deadline_ns parsed) (fmt_lease_bucket_width_ns fmt)) StateExhausted) (\<lambda>expected_bucket.
     res_bind (require (path_bucket = expected_bucket) (QueueCorrupt ''source lease bucket mismatch'')) (\<lambda>_.
       require (leased_authenticate_tag sha parsed (fmt_queue_id fmt) boot (bucket_hex path_bucket) (shard_hex path_shard))
         (QueueCorrupt ''source name tag mismatch''))))))))))))"

definition check_lease_header :: "LeaseInfo \<Rightarrow> FixedHeader \<Rightarrow> Error + unit" where
  "check_lease_header lease header =
     res_bind (require (hdr_job_id header = li_job_id lease) (QueueCorrupt ''header job_id does not match handle'')) (\<lambda>_.
     res_bind (require (hdr_maximum_attempts header = li_maximum_attempts lease)
       (QueueCorrupt (''header maximum_attempts '' @ decimal (unat (hdr_maximum_attempts header)) @ '' does not match handle ''
          @ decimal (unat (li_maximum_attempts lease))))) (\<lambda>_.
     res_bind (require (hdr_envelope_digest header = li_envelope_digest lease)
       (QueueCorrupt ''envelope digest does not match handle'')) (\<lambda>_.
     res_bind (require (hdr_payload_length header = li_payload_length lease)
       (QueueCorrupt ''payload length does not match handle'')) (\<lambda>_.
     res_bind (require (hdr_payload_digest header = li_payload_digest lease)
       (QueueCorrupt ''payload digest does not match handle'')) (\<lambda>_.
       require (\<not> is_extension_too_large (unat (hdr_extension_header_length header)))
         (QueueCorrupt ''extension header too large''))))))"

definition check_source_size :: "Stat \<Rightarrow> FixedHeader \<Rightarrow> Error + unit" where
  "check_source_size stat header =
     res_bind (require (st_size stat \<ge> 0) (QueueCorrupt ''negative file size'')) (\<lambda>_.
     res_bind (ok_or (case checked_add 128 (ucast (hdr_extension_header_length header)) of
                        Some s \<Rightarrow> checked_add s (hdr_payload_length header) | None \<Rightarrow> None)
                 (QueueCorrupt ''size overflow'')) (\<lambda>expected_size.
       require (word_of_int (st_size stat) = expected_size)
         (QueueCorrupt (''source file size mismatch: expected '' @ decimal (unat expected_size) @ '', got ''
            @ int_text (st_size stat)))))"

definition read_lease_envelope :: "'s env \<Rightarrow> LeaseInfo \<Rightarrow> fd \<Rightarrow> Stat \<Rightarrow> ('s, Error + unit) qproc" where
  "read_lease_envelope e lease file_fd opened_stat =
     io_try (from_io (pread_exact (env_os e) file_fd 128 0)) (\<lambda>header_buf.
     io_try (io_return (map_err (\<lambda>er. QueueCorrupt (''header decode: '' @ header_error_text er)) (header_decode header_buf))) (\<lambda>header.
     io_try (io_return (check_lease_header lease header)) (\<lambda>_.
     let ext_len = unat (hdr_extension_header_length header) in
     io_try (if is_extension_present ext_len then from_io (pread_exact (env_os e) file_fd ext_len 128)
             else io_return (Ok (replicate ext_len 0))) (\<lambda>ext_buf.
     if \<not> verify_envelope_digest (env_sha e) header ext_buf
     then io_return (Err (QueueCorrupt ''envelope digest mismatch''))
     else io_return (check_source_size opened_stat header)))))"

definition open_and_validate_current_lease :: "'s env \<Rightarrow> LeaseInfo \<Rightarrow> ('s, Error + LeasedSourceWitness option) qproc" where
  "open_and_validate_current_lease e lease =
     io_bind (asks id) (\<lambda>queue.
     io_try (io_return (lease_source_path (env_sha e) queue lease)) (\<lambda>(place, src_dir, src_name).
     io_bind (lift (open_relative (env_os e) (q_root_fd queue) src_dir)) (\<lambda>opened. case opened of
       Err er \<Rightarrow> io_return (case classify_lease_directory_open_failure er of
           Directory_Gone \<Rightarrow> Ok None
         | InvalidDirectory \<Rightarrow> Err (QueueCorrupt ''intermediate lease path component is not a directory'')
         | Directory_Io \<Rightarrow> Err (error_from_io er))
     | Ok src_dir_fd \<Rightarrow>
     io_bind (lift (fstatat (env_os e) src_dir_fd src_name)) (\<lambda>stated. case stated of
       Err er \<Rightarrow> io_return (case classify_presence_failure er of
           Presence_Absent \<Rightarrow> Ok None | Presence_Io \<Rightarrow> Err (error_from_io er))
     | Ok src_stat \<Rightarrow>
     if \<not> is_singly_linked_regular (st_mode src_stat) (st_nlink src_stat)
     then io_return (Err (QueueCorrupt ''source is not a singly-linked regular file''))
     else
     io_try (io_return (check_source_name (env_sha e) (q_format queue) lease place src_name)) (\<lambda>_.
     io_try (from_io (openat (env_os e) src_dir_fd src_name resolver_file_open_flags 0)) (\<lambda>file_fd.
     io_try (from_io (fstat (env_os e) file_fd)) (\<lambda>opened_stat.
     if \<not> stat_matches_witness opened_stat (li_expected_dev lease) (li_expected_inode lease)
     then io_return (Err (QueueCorrupt ''opened source identity does not match lease handle''))
     else if \<not> stat_matches_witness src_stat (st_dev opened_stat) (st_ino opened_stat)
     then io_return (Err (QueueCorrupt ''source path changed while opening lease''))
     else
     io_try (read_lease_envelope e lease file_fd opened_stat) (\<lambda>_.
       io_return (Ok (Some \<lparr>lw_directory_fd = src_dir_fd, lw_name = src_name, lw_file_fd = file_fd,
                            lw_device = st_dev opened_stat, lw_inode = st_ino opened_stat\<rparr>))))))))))"

subsection \<open>Reading a leased payload\<close>

definition verify_lease_payload :: "'s env \<Rightarrow> LeaseInfo \<Rightarrow> ('s, Error + unit) qproc" where
  "verify_lease_payload e lease =
     io_try (open_and_validate_current_lease e lease) (\<lambda>found. case found of
       Some source \<Rightarrow> verify_payload_on_fd e (lw_file_fd source)
     | None \<Rightarrow> io_return (Err (QueueCorrupt ''lease source not found'')))"

definition indeterminate_quarantine :: "MovePhase \<Rightarrow> IoError \<Rightarrow> Error" where
  "indeterminate_quarantine phase detail =
     QueueCorrupt (''payload is corrupt and quarantine is indeterminate at '' @ move_phase_text phase @ '': '' @ io_text detail)"

definition open_verified_payload_reader :: "'s env \<Rightarrow> LeaseInfo \<Rightarrow> ('s, Error + VerifiedPayloadReader option) qproc" where
  "open_verified_payload_reader e lease =
     io_try (open_and_validate_current_lease e lease) (\<lambda>found. case found of
       None \<Rightarrow> io_return (Ok None)
     | Some source \<Rightarrow>
         io_bind (lift (io_map_err error_from_verification
                    (verify_job_on_fd (env_sha e) (env_os e) (env_clone e) (lw_file_fd source)))) (\<lambda>r. case r of
           Ok verified \<Rightarrow>
             let header = vj_header verified in
             io_return (Ok (Some \<lparr>pr_file_fd = lw_file_fd source,
               pr_payload_start = 128 + ucast (hdr_extension_header_length header),
               pr_payload_len = hdr_payload_length header\<rparr>))
         | Err er \<Rightarrow>
             if er = PayloadCorrupt then
               io_bind (quarantine_corrupt_lease e (lw_directory_fd source) (lw_name source) (lw_file_fd source))
                 (\<lambda>moved. io_return (Err (case moved of
                     Err (Move_OutcomeUnknown phase detail) \<Rightarrow> indeterminate_quarantine phase detail
                   | _ \<Rightarrow> er)))
             else io_return (Err er)))"

text \<open>The caller's closure is an argument with a state of its own.\<close>

partial_function (option) stream_chunks ::
  "'s os \<Rightarrow> VerifiedPayloadReader \<Rightarrow> nat \<Rightarrow> (bytes \<Rightarrow> 'c \<Rightarrow> (Error + unit) \<times> 'c) \<Rightarrow> u64 \<Rightarrow> 'c \<Rightarrow> 's qworld
     \<Rightarrow> (((Error + unit) \<times> 'c) \<times> 's qworld) option" where
  "stream_chunks k reader len f offset c q =
     (case lift (read_at k reader len offset) q of
        None \<Rightarrow> None
      | Some (Inl er, q') \<Rightarrow> Some ((Err er, c), q')
      | Some (Inr bs, q') \<Rightarrow>
          if bs = [] then Some ((Ok (), c), q')
          else (case f bs c of
                  (Inl er, c') \<Rightarrow> Some ((Err er, c'), q')
                | (Inr _, c') \<Rightarrow> stream_chunks k reader len f (offset + word_of_nat (length bs)) c' q'))"

definition stream_lease_payload ::
  "'s env \<Rightarrow> LeaseInfo \<Rightarrow> nat \<Rightarrow> (bytes \<Rightarrow> 'c \<Rightarrow> (Error + unit) \<times> 'c) \<Rightarrow> 'c \<Rightarrow> ('s, (Error + unit) \<times> 'c) qproc" where
  "stream_lease_payload e lease chunk_size f c =
     io_bind (open_verified_payload_reader e lease) (\<lambda>opened. case opened of
       Err er \<Rightarrow> io_return (Err er, c)
     | Ok None \<Rightarrow> io_return (Err (QueueCorrupt ''lease source not found''), c)
     | Ok (Some reader) \<Rightarrow> stream_chunks (env_os e) reader (min (max chunk_size 4096) 1048576) f 0 c)"

subsection \<open>Moving a leased object\<close>

definition observe_leased_source_path :: "'s os \<Rightarrow> LeasedSourceWitness \<Rightarrow> ('s, Error + WitnessPathObservation) sysproc" where
  "observe_leased_source_path k source =
     observe_witness_path k (lw_directory_fd source) (lw_name source) (lw_device source) (lw_inode source)"

fun leased_move_failure :: "MoveFailure \<Rightarrow> LeasedMoveOutcome" where
  "leased_move_failure Move_SourceMissing = LeasedMove_SourceGone"
| "leased_move_failure Move_AlreadyExists = LeasedMove_Collision"
| "leased_move_failure (Move_NotCommitted _ source) = LeasedMove_Failed (error_from_io source)"
| "leased_move_failure (Move_OutcomeUnknown phase _) =
     LeasedMove_OutcomeUnknown (ticket_phase_for_move_outcome_unknown phase)"

definition execute_leased_move_with_dirty ::
  "'s env \<Rightarrow> LeasedSourceWitness \<Rightarrow> fd \<Rightarrow> string \<Rightarrow> ('s, LeasedMoveOutcome) qproc" where
  "execute_leased_move_with_dirty e source destination_directory_fd destination_name =
     (let k = env_os e; identity = \<lparr>mi_device = lw_device source, mi_inode = lw_inode source\<rparr> in
      io_bind (lift (observe_leased_source_path k source)) (\<lambda>observed. case observed of
        Err er \<Rightarrow> io_return (LeasedMove_Failed er)
      | Ok Observed_Gone \<Rightarrow> io_return LeasedMove_SourceGone
      | Ok Observed_Mismatch \<Rightarrow> io_return LeasedMove_SourceChanged
      | Ok Observed_Match \<Rightarrow>
          io_bind lent (\<lambda>dirty.
          io_bind (lift (if dirty \<noteq> None
                         then io_try (move_witnessed_noreplace_deferred k (lw_directory_fd source) (lw_name source)
                                        destination_directory_fd destination_name identity (\<lambda>_. io_return (Ok ())))
                                (\<lambda>_. io_return (Ok ()))
                         else move_witnessed_noreplace k (lw_directory_fd source) (lw_name source)
                                destination_directory_fd destination_name identity)) (\<lambda>result. case result of
            Err failure \<Rightarrow> io_return (leased_move_failure failure)
          | Ok _ \<Rightarrow>
              io_bind (io_try (record_lent e (lw_directory_fd source)) (\<lambda>_. record_lent e destination_directory_fd))
                (\<lambda>recorded. io_return (case recorded of
                   Ok _ \<Rightarrow> LeasedMove_Committed
                 | Err _ \<Rightarrow> LeasedMove_OutcomeUnknown DestinationDirectoryDurable))))))"

definition poisoning :: "PoisonReason \<Rightarrow> 'a \<Rightarrow> ('s, 'a) qproc" where
  "poisoning reason outcome = io_bind (modifies (poison reason)) (\<lambda>_. io_return outcome)"

text \<open>Both consumers of the validated source poison the handle when the source is corrupt.\<close>

definition with_lease_source ::
  "'s env \<Rightarrow> LeaseInfo \<Rightarrow> (Error \<Rightarrow> 'a) \<Rightarrow> ('s, 'a) qproc \<Rightarrow> (LeasedSourceWitness \<Rightarrow> ('s, 'a) qproc) \<Rightarrow> ('s, 'a) qproc" where
  "with_lease_source e lease refused gone body =
     io_bind (open_and_validate_current_lease e lease) (\<lambda>found. case found of
       Ok (Some source) \<Rightarrow> body source
     | Ok None \<Rightarrow> gone
     | Err (QueueCorrupt m) \<Rightarrow> poisoning InternalInvariantViolation (refused (QueueCorrupt m))
     | Err er \<Rightarrow> io_return (refused er))"

definition transition_ticket_for_lease ::
  "Queue \<Rightarrow> LeaseInfo \<Rightarrow> TransitionOperation \<Rightarrow> TicketDestination \<Rightarrow> Error + TransitionTicket" where
  "transition_ticket_for_lease queue lease operation destination =
     ticket_new (fmt_queue_id (q_format queue)) operation Linearized
       \<lparr>ti_job_id = li_job_id lease, ti_generation = li_generation lease, ti_attempt = li_attempt lease,
        ti_maximum_attempts = li_maximum_attempts lease, ti_lease_token = li_token lease,
        ti_evidence = \<lparr>ev_envelope_digest = li_envelope_digest lease, ev_payload_length = li_payload_length lease\<rparr>\<rparr>
       (Source_Leased (li_boot_id lease) (li_expires_boottime_ns lease) (li_expires_wall_ns lease)) destination"

fun leased_transition :: "TransitionTicket \<Rightarrow> LeasedMoveOutcome \<Rightarrow> ('s, TransitionOutcome) qproc" where
  "leased_transition ticket LeasedMove_Committed = io_return Tr_Committed"
| "leased_transition ticket (LeasedMove_OutcomeUnknown phase) =
     poisoning PostLinearizationStateUnknown (Tr_OutcomeUnknown (with_phase ticket phase))"
| "leased_transition ticket LeasedMove_SourceGone = io_return Tr_LeaseLost"
| "leased_transition ticket LeasedMove_SourceChanged =
     poisoning InternalInvariantViolation
       (Tr_NotCommitted (QueueCorrupt ''leased source identity changed before transition''))"
| "leased_transition ticket LeasedMove_Collision = io_return (Tr_NotCommitted (QueueCorrupt ''destination exists''))"
| "leased_transition ticket (LeasedMove_Failed er) = io_return (Tr_NotCommitted er)"

definition move_leased_with_dirty ::
  "'s env \<Rightarrow> LeaseInfo \<Rightarrow> string \<Rightarrow> string \<Rightarrow> TransitionTicket \<Rightarrow> ('s, TransitionOutcome) qproc" where
  "move_leased_with_dirty e lease dest_dir dest_name ticket =
     returning
       (io_try (io_map_err (\<lambda>er. Tr_NotCommitted (error_from_io er)) (ensure_dir_with_dirty e dest_dir)) (\<lambda>_.
        io_bind (asks q_root_fd) (\<lambda>root_fd.
        io_try (io_map_err (\<lambda>er. Tr_NotCommitted (error_from_io er)) (lift (open_relative (env_os e) root_fd dest_dir))) (\<lambda>dest_dir_fd.
        io_map Ok (with_lease_source e lease Tr_NotCommitted (io_return Tr_LeaseLost) (\<lambda>source.
          io_bind (execute_leased_move_with_dirty e source dest_dir_fd dest_name) (leased_transition ticket)))))))"

definition move_leased ::
  "'s env \<Rightarrow> LeaseInfo \<Rightarrow> string \<Rightarrow> string \<Rightarrow> TransitionTicket \<Rightarrow> ('s, TransitionOutcome) qproc" where
  "move_leased e lease dest_dir dest_name ticket = strictly (move_leased_with_dirty e lease dest_dir dest_name ticket)"

subsection \<open>Acknowledging\<close>

definition acked :: "'s env \<Rightarrow> LeaseInfo \<Rightarrow> WallFloor \<Rightarrow> string \<Rightarrow> string \<Rightarrow> TransitionTicket \<Rightarrow> LeasedMoveOutcome \<Rightarrow> ('s, AckOutcome) qproc" where
  "acked e lease wall_floor receipt_dir receipt_name ticket result =
     (let corrupt = (\<lambda>m. poisoning InternalInvariantViolation (Ack_NotCommitted (QueueCorrupt m))) in
      case result of
        LeasedMove_Committed \<Rightarrow> io_return Ack_Acked
      | LeasedMove_OutcomeUnknown phase \<Rightarrow>
          poisoning PostLinearizationStateUnknown (Ack_OutcomeUnknown (with_phase ticket phase))
      | LeasedMove_Collision \<Rightarrow>
          io_bind (receipt_is_authentic e lease receipt_dir receipt_name) (\<lambda>authentic.
            if authentic then corrupt ''source lease and receipt both exist''
            else corrupt ''conflicting object at receipt path'')
      | LeasedMove_SourceGone \<Rightarrow> duplicate_ack_outcome e lease wall_floor
      | LeasedMove_SourceChanged \<Rightarrow> corrupt ''leased source identity changed before acknowledgment''
      | LeasedMove_Failed er \<Rightarrow> io_return (Ack_NotCommitted er))"

definition ack_source ::
  "'s env \<Rightarrow> LeaseInfo \<Rightarrow> WallFloor \<Rightarrow> string \<Rightarrow> string \<Rightarrow> TransitionTicket \<Rightarrow> fd \<Rightarrow> LeasedSourceWitness \<Rightarrow> ('s, AckOutcome) qproc" where
  "ack_source e lease wall_floor receipt_dir receipt_name ticket receipt_dir_fd source =
     io_bind (verify_payload_on_fd e (lw_file_fd source)) (\<lambda>verified. case verified of
       Err er \<Rightarrow>
         (case er of
            PayloadCorrupt \<Rightarrow> poisoning InternalInvariantViolation (Ack_NotCommitted er)
          | QueueCorrupt _ \<Rightarrow> poisoning InternalInvariantViolation (Ack_NotCommitted er)
          | _ \<Rightarrow> io_return (Ack_NotCommitted er))
     | Ok _ \<Rightarrow>
         io_bind (execute_leased_move_with_dirty e source receipt_dir_fd receipt_name)
           (acked e lease wall_floor receipt_dir receipt_name ticket))"

definition ack_inner_with_dirty :: "'s env \<Rightarrow> LeaseInfo \<Rightarrow> ('s, AckOutcome) qproc" where
  "ack_inner_with_dirty e lease =
     returning
       (io_try (io_map_err Ack_NotCommitted (asks check_not_poisoned)) (\<lambda>_.
        io_try (io_map_err Ack_NotCommitted (wall_floor_for_mutation e)) (\<lambda>wall_floor.
        io_try (io_map_err Ack_NotCommitted (io_return (next_identity Op_Acknowledge (lease_common lease)))) (\<lambda>receipt_common.
        io_bind (asks id) (\<lambda>queue.
        io_try (io_map_err Ack_NotCommitted (io_return (ok_or
                  (bucket_number (wf_unix_ns wall_floor) (fmt_terminal_bucket_width_ns (q_format queue))) StateExhausted))) (\<lambda>terminal_bucket.
        let target = receipt_in_bucket (env_sha e) (queue_layout queue) receipt_common (li_token lease) terminal_bucket;
            receipt_dir = target_directory target;
            receipt_name = tg_filename target
        in
        io_try (io_map_err Ack_NotCommitted (io_return
                  (transition_ticket_for_lease queue lease TO_Acknowledge (Dest_Receipt terminal_bucket)))) (\<lambda>ticket.
        io_try (io_map_err (\<lambda>er. Ack_NotCommitted (error_from_io er)) (ensure_dir_with_dirty e receipt_dir)) (\<lambda>_.
        io_try (io_map_err (\<lambda>er. Ack_NotCommitted (error_from_io er))
                  (lift (open_relative (env_os e) (q_root_fd queue) receipt_dir))) (\<lambda>receipt_dir_fd.
        io_map Ok (with_lease_source e lease Ack_NotCommitted (duplicate_ack_outcome e lease wall_floor)
          (ack_source e lease wall_floor receipt_dir receipt_name ticket receipt_dir_fd)))))))))))"

definition ack :: "'s env \<Rightarrow> LeaseInfo \<Rightarrow> ('s, AckOutcome) qproc" where
  "ack e lease = strictly (ack_inner_with_dirty e lease)"

definition ack_batched :: "'s env \<Rightarrow> LeaseInfo \<Rightarrow> DirtySet \<Rightarrow> ('s, AckOutcome \<times> DirtySet option) qproc" where
  "ack_batched e lease dirty = lending (Some dirty) (ack_inner_with_dirty e lease)"

subsection \<open>Burying and retrying\<close>

definition bury_with_wall_floor :: "'s env \<Rightarrow> LeaseInfo \<Rightarrow> DeadReason \<Rightarrow> WallFloor \<Rightarrow> ('s, TransitionOutcome) qproc" where
  "bury_with_wall_floor e lease reason wall_floor =
     returning
       (io_bind (asks id) (\<lambda>queue.
        io_try (io_map_err Tr_NotCommitted (io_return
          (res_bind (next_identity Op_Bury (lease_common lease)) (\<lambda>common.
           res_bind (ok_or (bucket_number (wf_unix_ns wall_floor) (fmt_terminal_bucket_width_ns (q_format queue))) StateExhausted)
             (\<lambda>terminal_bucket.
           let target = dead_in_bucket (env_sha e) (queue_layout queue) common (dead_reason_code reason) terminal_bucket in
           res_bind (transition_ticket_for_lease queue lease TO_Bury (Dest_Dead terminal_bucket (dead_reason_code reason)))
             (\<lambda>ticket. Ok (target, ticket))))))) (\<lambda>(target, ticket).
        io_map Ok (move_leased e lease (target_directory target) (tg_filename target) ticket))))"

definition bury_internal :: "'s env \<Rightarrow> LeaseInfo \<Rightarrow> DeadReason \<Rightarrow> ('s, TransitionOutcome) qproc" where
  "bury_internal e lease reason =
     returning (io_try (io_map_err Tr_NotCommitted (wall_floor_for_mutation e)) (\<lambda>wall_floor.
       io_map Ok (bury_with_wall_floor e lease reason wall_floor)))"

definition bury :: "'s env \<Rightarrow> LeaseInfo \<Rightarrow> DeadReason \<Rightarrow> ('s, TransitionOutcome) qproc" where
  "bury e lease reason =
     returning (io_try (io_map_err Tr_NotCommitted (asks check_not_poisoned)) (\<lambda>_.
       io_map Ok (bury_internal e lease reason)))"

text \<open>When the target is due, a retry goes to ready at once.\<close>

fun retry_plan :: "RetryTiming \<Rightarrow> u64 option \<times> WallFloor option" where
  "retry_plan Retry_Immediate = (None, None)"
| "retry_plan (Retry_Delayed not_before_ns wall_floor) =
     (if not_before_ns \<le> wf_unix_ns wall_floor then (None, Some wall_floor) else (Some not_before_ns, Some wall_floor))"

definition retry_target ::
  "sha256 \<Rightarrow> Queue \<Rightarrow> LeaseInfo \<Rightarrow> u64 option \<Rightarrow> Error + Target \<times> TransitionOperation \<times> TicketDestination" where
  "retry_target sha queue lease delayed_ns =
     (case delayed_ns of
        Some nb \<Rightarrow>
          res_bind (next_identity Op_RetryLater (lease_common lease)) (\<lambda>common.
          res_bind (layout_delayed sha (queue_layout queue) common nb) (\<lambda>target.
            Ok (target, TO_RetryLater, Dest_Delayed nb)))
      | None \<Rightarrow>
          res_bind (next_identity Op_RetryNow (lease_common lease)) (\<lambda>common.
            Ok (layout_ready sha (queue_layout queue) common, TO_RetryNow, Dest_Ready)))"

definition retry :: "'s env \<Rightarrow> LeaseInfo \<Rightarrow> RetryTiming \<Rightarrow> ('s, TransitionOutcome) qproc" where
  "retry e lease timing =
     returning
       (io_try (io_map_err Tr_NotCommitted (asks check_not_poisoned)) (\<lambda>_.
        let (delayed_ns, wall_floor) = retry_plan timing in
        if li_attempt lease \<ge> li_maximum_attempts lease then
          io_try (io_map_err Tr_NotCommitted
                    (case wall_floor of Some floor \<Rightarrow> io_return (Ok floor) | None \<Rightarrow> wall_floor_for_mutation e)) (\<lambda>floor.
            io_map Ok (bury_with_wall_floor e lease Dead_AttemptsExhausted floor))
        else
          io_bind (asks id) (\<lambda>queue.
          io_try (io_map_err Tr_NotCommitted (io_return (retry_target (env_sha e) queue lease delayed_ns)))
            (\<lambda>(target, operation, destination).
          io_try (io_map_err Tr_NotCommitted (io_return (transition_ticket_for_lease queue lease operation destination)))
            (\<lambda>ticket.
          io_map Ok (move_leased e lease (target_directory target) (tg_filename target) ticket))))))"

definition retry_now :: "'s env \<Rightarrow> LeaseInfo \<Rightarrow> ('s, TransitionOutcome) qproc" where
  "retry_now e lease = retry e lease Retry_Immediate"

definition retry_at :: "'s env \<Rightarrow> LeaseInfo \<Rightarrow> u64 \<Rightarrow> ('s, TransitionOutcome) qproc" where
  "retry_at e lease not_before_ns =
     returning (io_try (io_map_err Tr_NotCommitted (wall_floor_for_mutation e)) (\<lambda>wall_floor.
       io_map Ok (retry e lease (Retry_Delayed not_before_ns wall_floor))))"

definition retry_after :: "'s env \<Rightarrow> LeaseInfo \<Rightarrow> u64 \<Rightarrow> ('s, TransitionOutcome) qproc" where
  "retry_after e lease duration_ns =
     returning (io_try (io_map_err Tr_NotCommitted (wall_floor_for_mutation e)) (\<lambda>wall_floor.
       io_try (io_map_err Tr_NotCommitted (io_return (ok_or (retry_wall_deadline (wf_unix_ns wall_floor) duration_ns)
                 (InvalidInput ''deadline overflow'')))) (\<lambda>deadline.
       io_map Ok (retry e lease (Retry_Delayed deadline wall_floor)))))"

fun retry_error_text :: "RetryError \<Rightarrow> string" where
  "retry_error_text ZeroBase = ''base_ms must be positive''"
| "retry_error_text CapTooSmall = ''cap_ms must be >= base_ms''"
| "retry_error_text RetryError.Overflow = ''deadline overflow''"

definition retry_with_policy :: "'s env \<Rightarrow> LeaseInfo \<Rightarrow> RetryPolicy \<Rightarrow> ('s, TransitionOutcome) qproc" where
  "retry_with_policy e lease policy =
     returning
       (io_bind (asks (\<lambda>q. fmt_queue_id (q_format q))) (\<lambda>qid.
        io_try (io_map_err Tr_NotCommitted (io_return
          (map_err (\<lambda>er. InvalidInput (retry_error_text er))
             (res_bind (retry_policy_validate policy) (\<lambda>_.
              retry_delay_ms (env_sha e) qid (li_job_id lease) (li_attempt lease) policy))))) (\<lambda>delay_ms.
        if delay_ms = 0 then io_map Ok (retry_now e lease)
        else
          io_try (io_map_err Tr_NotCommitted (io_return (ok_or (checked_mul_u64 delay_ms 1000000)
                    (InvalidInput ''delay overflow'')))) (\<lambda>delay_ns.
          io_try (io_map_err Tr_NotCommitted (wall_floor_for_mutation e)) (\<lambda>wall_floor.
          io_try (io_map_err Tr_NotCommitted (io_return (ok_or (retry_wall_deadline (wf_unix_ns wall_floor) delay_ns)
                    (InvalidInput ''deadline overflow'')))) (\<lambda>deadline.
          io_map Ok (retry e lease (Retry_Delayed deadline wall_floor))))))))"

subsection \<open>Renewing\<close>

definition renewed :: "LeaseInfo \<Rightarrow> CommonFields \<Rightarrow> u64 \<Rightarrow> u64 \<Rightarrow> Target \<Rightarrow> TransitionOutcome \<Rightarrow> RenewOutcome" where
  "renewed lease common boottime_dl wall_dl target outcome =
     (case outcome of
        Tr_Committed \<Rightarrow> Renew_Renewed (lease\<lparr>li_generation := generation common, li_expires_boottime_ns := boottime_dl,
          li_expires_wall_ns := wall_dl, li_exact_source_path := target_directory target @ ''/'' @ tg_filename target\<rparr>)
      | Tr_LeaseLost \<Rightarrow> Renew_LeaseLost
      | Tr_NotCommitted er \<Rightarrow> Renew_NotCommitted er
      | Tr_OutcomeUnknown t \<Rightarrow> Renew_OutcomeUnknown t)"

definition renew_with_dirty :: "'s env \<Rightarrow> LeaseInfo \<Rightarrow> u64 \<Rightarrow> ('s, RenewOutcome) qproc" where
  "renew_with_dirty e lease lease_duration_ns =
     returning
       (io_try (io_map_err Renew_NotCommitted (asks check_not_poisoned)) (\<lambda>_.
        if \<not> lease_duration_is_valid lease_duration_ns
        then io_return (Err (Renew_NotCommitted (InvalidInput ''lease duration must be 1s to 7d'')))
        else
        io_try (io_map_err Renew_NotCommitted (from_io (clock_boottime_ns (env_os e)))) (\<lambda>boottime_now.
        io_try (io_map_err Renew_NotCommitted (wall_floor_for_mutation e)) (\<lambda>floor.
        io_bind (asks id) (\<lambda>queue.
        io_try (io_map_err Renew_NotCommitted (io_return
          (res_bind (ok_or (checked_add boottime_now lease_duration_ns) (InvalidInput ''deadline overflow'')) (\<lambda>boottime_dl.
           res_bind (ok_or (checked_add (wf_unix_ns floor) lease_duration_ns) (InvalidInput ''deadline overflow'')) (\<lambda>wall_dl.
           res_bind (next_identity Op_Renew (lease_common lease)) (\<lambda>common.
           res_bind (layout_leased (env_sha e) (queue_layout queue) common boottime_dl wall_dl (li_token lease)) (\<lambda>target.
           res_bind (transition_ticket_for_lease queue lease TO_Renew (Dest_Leased (q_boot_id queue) boottime_dl wall_dl)) (\<lambda>ticket.
             Ok (boottime_dl, wall_dl, common, target, ticket)))))))))
          (\<lambda>(boottime_dl, wall_dl, common, target, ticket).
        io_map (\<lambda>outcome. Ok (renewed lease common boottime_dl wall_dl target outcome))
          (move_leased_with_dirty e lease (target_directory target) (tg_filename target) ticket)))))))"

fun deferred_renew :: "RenewOutcome \<Rightarrow> RenewOutcome" where
  "deferred_renew (Renew_Renewed info) = Renew_Deferred info"
| "deferred_renew outcome = outcome"

definition renew :: "'s env \<Rightarrow> LeaseInfo \<Rightarrow> u64 \<Rightarrow> ('s, RenewOutcome) qproc" where
  "renew e lease lease_duration_ns =
     io_bind (asks q_deferred_dir_sync) (\<lambda>deferred.
       if deferred then io_map deferred_renew (with_own_dirty (renew_with_dirty e lease lease_duration_ns))
       else strictly (renew_with_dirty e lease lease_duration_ns))"

end
