(* ===== verification/Steadq_Resolve.thy ===== *)
theory Steadq_Resolve
  imports Steadq_Consumer
begin

text \<open>
  Resolving an outcome that is unknown, from \<^verbatim>\<open>src/crates/steadq-core/src/queue/resolve.rs\<close>: the two paths
  a ticket names, what is found at each, and making it durable.

  The conditions of the source that all lead to a conflict are one conjunction, in its order.
\<close>

subsection \<open>Objects the resolver looks for\<close>

record ResolvedObject =
  ro_directory_fd :: fd
  ro_directory_device :: u64
  ro_directory_inode :: u64
  ro_file_fd :: fd
  ro_device :: u64
  ro_inode :: u64

datatype ResolveObj =
    Obj_Absent
  | Obj_Match ResolvedObject
  | Obj_Conflict
  | Obj_Error Error

datatype ResolverObjectVerifier = Verifier_Job | Verifier_Receipt

datatype ResolverObjectOpenFailure = Open_Absent | Open_Conflict | Open_Io

definition resolver_error_is_not_found :: "IoError \<Rightarrow> bool" where
  "resolver_error_is_not_found er = (raw_os_error er = Some ENOENT)"

fun resolver_object_verifier :: "ObjectKind \<Rightarrow> string \<Rightarrow> ResolverObjectVerifier option" where
  "resolver_object_verifier OK_FullJob state_directory =
     (if state_directory \<in> {''ready'', ''leased'', ''delayed'', ''dead''} then Some Verifier_Job else None)"
| "resolver_object_verifier OK_FullReceipt state_directory =
     (if state_directory = ''receipts'' then Some Verifier_Receipt else None)"
| "resolver_object_verifier OK_CompactReceipt state_directory =
     (if state_directory = ''receipts'' then Some Verifier_Receipt else None)"
| "resolver_object_verifier _ _ = None"

definition resolved_identity_matches :: "u32 \<Rightarrow> u64 \<Rightarrow> u64 \<Rightarrow> u64 \<Rightarrow> u64 \<Rightarrow> bool" where
  "resolved_identity_matches mode device inode expected_device expected_inode =
     (mode AND S_IFMT = S_IFREG \<and> device_inode_match device inode expected_device expected_inode)"

definition classify_resolver_object_open_failure :: "IoError \<Rightarrow> ResolverObjectOpenFailure" where
  "classify_resolver_object_open_failure er =
     (if raw_os_error er = Some ENOENT then Open_Absent
      else if raw_os_error er = Some ELOOP then Open_Conflict else Open_Io)"

record ResolvePath =
  rp_directory :: string
  rp_name :: string
  rp_parts :: "string list"

definition resolve_path_new :: "string \<Rightarrow> Error + ResolvePath" where
  "resolve_path_new path =
     res_bind (map_err (\<lambda>er. InvalidInput (io_text er)) (validate_relative_path path)) (\<lambda>relative.
     res_bind (ok_or (rsplit_once (CHR ''/'') relative) (InvalidInput ''ticket path has no parent directory'')) (\<lambda>(directory, name).
     res_bind (map_err (\<lambda>er. InvalidInput (io_text er)) (validate_relative_path directory)) (\<lambda>directory.
       Ok \<lparr>rp_directory = directory, rp_name = name, rp_parts = path_components relative\<rparr>)))"

subsection \<open>The paths of a ticket\<close>

fun ticket_source_target :: "sha256 \<Rightarrow> Layout \<Rightarrow> id128 \<Rightarrow> CommonFields \<Rightarrow> TicketSource \<Rightarrow> Error + Target" where
  "ticket_source_target sha l token common Source_Ready = Ok (layout_ready sha l common)"
| "ticket_source_target sha l token common (Source_Leased boot boottime_deadline_ns wall_deadline_ns) =
     leased_for_boot sha l common boot boottime_deadline_ns wall_deadline_ns token"

fun ticket_destination_target :: "sha256 \<Rightarrow> Layout \<Rightarrow> id128 \<Rightarrow> CommonFields \<Rightarrow> TicketDestination \<Rightarrow> Error + Target" where
  "ticket_destination_target sha l token common Dest_Ready = Ok (layout_ready sha l common)"
| "ticket_destination_target sha l token common (Dest_Leased boot boottime_deadline_ns wall_deadline_ns) =
     leased_for_boot sha l common boot boottime_deadline_ns wall_deadline_ns token"
| "ticket_destination_target sha l token common (Dest_Delayed not_before_ns) = layout_delayed sha l common not_before_ns"
| "ticket_destination_target sha l token common (Dest_Receipt terminal_bucket) =
     Ok (receipt_in_bucket sha l common token terminal_bucket)"
| "ticket_destination_target sha l token common (Dest_Dead terminal_bucket reason) =
     Ok (dead_in_bucket sha l common reason terminal_bucket)"

definition transition_ticket_paths :: "sha256 \<Rightarrow> Queue \<Rightarrow> TransitionTicket \<Rightarrow> Error + string \<times> string" where
  "transition_ticket_paths sha queue ticket =
     res_bind (validate_for_queue ticket (fmt_queue_id (q_format queue))) (\<lambda>_.
     res_bind (destination_common ticket) (\<lambda>dest_common.
     res_bind (ticket_source_target sha (queue_layout queue) (tt_lease_token ticket) (source_common ticket) (tt_source ticket)) (\<lambda>source.
     res_bind (ticket_destination_target sha (queue_layout queue) (tt_lease_token ticket) dest_common (tt_destination ticket)) (\<lambda>destination.
       Ok (relative_path source, relative_path destination)))))"

subsection \<open>Checking one object\<close>

text \<open>Whether the file's name, in the directory the path names, is the one the ticket predicts.\<close>

definition ready_path_ok :: "sha256 \<Rightarrow> FormatRecord \<Rightarrow> TransitionTicket \<Rightarrow> CommonFields \<Rightarrow> string \<Rightarrow> string \<Rightarrow> bool" where
  "ready_path_ok sha fmt ticket expected shard name =
     (case parse_ready name of
        Inr p \<Rightarrow>
          rd_common p = expected \<and> ready_authenticate_tag sha p (fmt_queue_id fmt) shard
          \<and> verify_shard_placement sha fmt shard (tt_job_id ticket)
      | Inl _ \<Rightarrow>
          (case parse_leased name of
             Inr p \<Rightarrow>
               ls_common p = expected \<and> ls_token p = tt_lease_token ticket
               \<and> (case lease_bucket (ls_boottime_deadline_ns p) (fmt_lease_bucket_width_ns fmt) of
                    None \<Rightarrow> False
                  | Some bucket \<Rightarrow>
                      leased_authenticate_tag sha p (fmt_queue_id fmt) (format_boot_id (ls_boot_id p)) (bucket_hex bucket) shard)
               \<and> verify_shard_placement sha fmt shard (tt_job_id ticket)
           | Inl _ \<Rightarrow> False))"

definition leased_path_ok ::
  "sha256 \<Rightarrow> FormatRecord \<Rightarrow> TransitionTicket \<Rightarrow> CommonFields \<Rightarrow> string \<Rightarrow> string \<Rightarrow> string \<Rightarrow> string \<Rightarrow> bool" where
  "leased_path_ok sha fmt ticket expected boot bucket shard name =
     (case parse_leased name of
        Inl _ \<Rightarrow> False
      | Inr p \<Rightarrow>
          ls_common p = expected \<and> ls_token p = tt_lease_token ticket
          \<and> leased_authenticate_tag sha p (fmt_queue_id fmt) boot bucket shard
          \<and> verify_shard_placement sha fmt shard (tt_job_id ticket))"

definition delayed_path_ok ::
  "sha256 \<Rightarrow> FormatRecord \<Rightarrow> TransitionTicket \<Rightarrow> CommonFields \<Rightarrow> string \<Rightarrow> string \<Rightarrow> string \<Rightarrow> bool" where
  "delayed_path_ok sha fmt ticket expected bucket shard name =
     (case parse_delayed name of
        Inl _ \<Rightarrow> False
      | Inr p \<Rightarrow>
          dl_common p = expected \<and> delayed_authenticate_tag sha p (fmt_queue_id fmt) bucket shard
          \<and> verify_shard_placement sha fmt shard (tt_job_id ticket))"

definition dead_path_ok ::
  "sha256 \<Rightarrow> FormatRecord \<Rightarrow> TransitionTicket \<Rightarrow> CommonFields \<Rightarrow> string \<Rightarrow> string \<Rightarrow> string \<Rightarrow> bool" where
  "dead_path_ok sha fmt ticket expected bucket shard name =
     (case parse_dead name of
        Inl _ \<Rightarrow> False
      | Inr p \<Rightarrow>
          dd_common p = expected \<and> dead_authenticate_tag sha p (fmt_queue_id fmt) bucket shard
          \<and> verify_shard_placement sha fmt shard (tt_job_id ticket))"

definition resolved_path_ok ::
  "sha256 \<Rightarrow> FormatRecord \<Rightarrow> TransitionTicket \<Rightarrow> CommonFields \<Rightarrow> string list \<Rightarrow> string \<Rightarrow> bool" where
  "resolved_path_ok sha fmt ticket expected parts name =
     (let state = parts ! 0 in
      if state = ''ready'' then length parts = 3 \<and> ready_path_ok sha fmt ticket expected (parts ! 1) name
      else if state = ''leased'' then
        length parts = 5 \<and> leased_path_ok sha fmt ticket expected (parts ! 1) (parts ! 2) (parts ! 3) name
      else if state = ''delayed'' then length parts = 4 \<and> delayed_path_ok sha fmt ticket expected (parts ! 1) (parts ! 2) name
      else if state = ''dead'' then length parts = 4 \<and> dead_path_ok sha fmt ticket expected (parts ! 1) (parts ! 2) name
      else False)"

definition resolved_header_ok :: "TransitionTicket \<Rightarrow> CommonFields \<Rightarrow> FixedHeader \<Rightarrow> bool" where
  "resolved_header_ok ticket expected header =
     (hdr_job_id header = tt_job_id ticket \<and> hdr_maximum_attempts header = maximum_attempts expected
      \<and> hdr_envelope_digest header = tt_envelope_digest ticket \<and> hdr_payload_length header = tt_payload_length ticket)"

fun verification_conflict :: "VerificationError \<Rightarrow> ResolveObj" where
  "verification_conflict (Verify_Io er) = Obj_Error (IoFailure er)"
| "verification_conflict (Verify_Corrupt _) = Obj_Conflict"
| "verification_conflict Verify_PayloadCorrupt = Obj_Conflict"

text \<open>What follows the opening of the file, with the object to report on success.\<close>

definition resolve_opened ::
  "'s env \<Rightarrow> FormatRecord \<Rightarrow> ResolverObjectVerifier \<Rightarrow> ResolvePath \<Rightarrow> TransitionTicket \<Rightarrow> CommonFields \<Rightarrow> ResolvedObject
     \<Rightarrow> ('s, ResolveObj) qproc" where
  "resolve_opened e fmt verifier path ticket expected object =
     (let parts = rp_parts path; name = rp_name path; fd = ro_file_fd object in
      io_bind (lift (pread_exact (env_os e) fd 128 0)) (\<lambda>read. case read of
        Err er \<Rightarrow> io_return (if io_kind er = Kind_UnexpectedEof then Obj_Conflict else Obj_Error (error_from_io er))
      | Ok _ \<Rightarrow>
          if verifier = Verifier_Receipt then
            if length parts \<noteq> 4 then io_return Obj_Conflict
            else
              io_map (\<lambda>verified. case verified of Ok _ \<Rightarrow> Obj_Match object | Err er \<Rightarrow> verification_conflict er)
                (lift (verify_receipt_on_fd (env_sha e) (env_os e) (env_clone e) fd
                   (receipt_context fmt (parts ! 1) (parts ! 2) name)
                   (Some \<lparr>exp_common = expected, exp_token = tt_lease_token ticket,
                          exp_envelope_digest = tt_envelope_digest ticket, exp_payload_length = tt_payload_length ticket\<rparr>)))
          else
            io_map (\<lambda>verified. case verified of
                Err er \<Rightarrow> verification_conflict er
              | Ok job \<Rightarrow>
                  if resolved_header_ok ticket expected (vj_header job)
                     \<and> resolved_path_ok (env_sha e) fmt ticket expected parts name
                  then Obj_Match object else Obj_Conflict)
              (lift (verify_job_on_fd (env_sha e) (env_os e) (env_clone e) fd))))"

definition resolve_check_object ::
  "'s env \<Rightarrow> ResolvePath \<Rightarrow> TransitionTicket \<Rightarrow> CommonFields \<Rightarrow> ObjectKind \<Rightarrow> ('s, ResolveObj) qproc" where
  "resolve_check_object e path ticket expected kind =
     (case resolver_object_verifier kind (rp_parts path ! 0) of
        None \<Rightarrow> io_return Obj_Conflict
      | Some verifier \<Rightarrow>
     io_bind (asks id) (\<lambda>queue.
     io_bind (lift (open_directory_beneath (env_os e) (q_root_fd queue) (rp_directory path))) (\<lambda>opened. case opened of
       Err er \<Rightarrow> io_return (case classify_presence_failure er of
           Presence_Absent \<Rightarrow> Obj_Absent | Presence_Io \<Rightarrow> Obj_Error (error_from_io er))
     | Ok dir_fd \<Rightarrow>
     io_bind (lift (fstat (env_os e) dir_fd)) (\<lambda>stated. case stated of
       Err er \<Rightarrow> io_return (Obj_Error (error_from_io er))
     | Ok directory_stat \<Rightarrow>
     io_bind (lift (openat (env_os e) dir_fd (rp_name path) resolver_file_open_flags 0)) (\<lambda>opened. case opened of
       Err er \<Rightarrow> io_return (case classify_resolver_object_open_failure er of
           Open_Absent \<Rightarrow> Obj_Absent | Open_Conflict \<Rightarrow> Obj_Conflict | Open_Io \<Rightarrow> Obj_Error (error_from_io er))
     | Ok file_fd \<Rightarrow>
     io_bind (lift (fstat (env_os e) file_fd)) (\<lambda>stated. case stated of
       Err er \<Rightarrow> io_return (Obj_Error (error_from_io er))
     | Ok stat \<Rightarrow>
         if \<not> is_singly_linked_regular (st_mode stat) (st_nlink stat) then io_return Obj_Conflict
         else resolve_opened e (q_format queue) verifier path ticket expected
                \<lparr>ro_directory_fd = dir_fd, ro_directory_device = st_dev directory_stat,
                 ro_directory_inode = st_ino directory_stat, ro_file_fd = file_fd,
                 ro_device = st_dev stat, ro_inode = st_ino stat\<rparr>))))))"

subsection \<open>Stabilizing and resolving\<close>

definition stabilize_object :: "'s env \<Rightarrow> ResolvePath \<Rightarrow> ResolvedObject \<Rightarrow> ('s, Error + bool) qproc" where
  "stabilize_object e path object =
     (let k = env_os e; not_found = (\<lambda>er. io_return (if resolver_error_is_not_found er then Ok False else Err (error_from_io er))) in
      io_try (from_io (fsync k (ro_file_fd object))) (\<lambda>_.
      io_try (from_io (fsync_dir_fd k (ro_directory_fd object))) (\<lambda>_.
      io_bind (asks q_root_fd) (\<lambda>root_fd.
      io_bind (lift (open_directory_beneath k root_fd (rp_directory path))) (\<lambda>opened. case opened of
        Err er \<Rightarrow> not_found er
      | Ok current_directory \<Rightarrow>
      io_try (from_io (fstat k current_directory)) (\<lambda>directory_stat.
      if \<not> device_inode_match (st_dev directory_stat) (st_ino directory_stat)
             (ro_directory_device object) (ro_directory_inode object)
      then io_return (Ok False)
      else
      io_bind (lift (fstatat k current_directory (rp_name path))) (\<lambda>stated. case stated of
        Err er \<Rightarrow> not_found er
      | Ok current \<Rightarrow>
          io_return (Ok (resolved_identity_matches (st_mode current) (st_dev current) (st_ino current)
            (ro_device object) (ro_inode object))))))))))"

definition stabilized ::
  "'s env \<Rightarrow> ResolvePath \<Rightarrow> ResolvedObject \<Rightarrow> ResolutionOutcome \<Rightarrow> ('s, ResolutionOutcome) qproc" where
  "stabilized e path object outcome =
     io_map (\<lambda>r. case r of Ok True \<Rightarrow> outcome | Ok False \<Rightarrow> ConflictingObject | Err er \<Rightarrow> ResolutionFailed er)
       (stabilize_object e path object)"

fun resolution ::
  "'s env \<Rightarrow> bool \<Rightarrow> ResolvePath \<Rightarrow> ResolvePath \<Rightarrow> ResolveObj \<Rightarrow> ResolveObj \<Rightarrow> ('s, ResolutionOutcome) qproc" where
  "resolution e stabilize source_path destination_path (Obj_Match source) Obj_Absent =
     (if stabilize then stabilized e source_path source SourceStabilized else io_return SourceObserved)"
| "resolution e stabilize source_path destination_path Obj_Absent (Obj_Match destination) =
     (if stabilize then stabilized e destination_path destination DestinationStabilized else io_return DestinationObserved)"
| "resolution e stabilize source_path destination_path Obj_Absent Obj_Absent = io_return NeitherObserved"
| "resolution e stabilize source_path destination_path (Obj_Match _) (Obj_Match _) = io_return BothObserved"
| "resolution e stabilize source_path destination_path Obj_Conflict _ = io_return ConflictingObject"
| "resolution e stabilize source_path destination_path _ Obj_Conflict = io_return ConflictingObject"
| "resolution e stabilize source_path destination_path (Obj_Error er) _ = io_return (ResolutionFailed er)"
| "resolution e stabilize source_path destination_path _ (Obj_Error er) = io_return (ResolutionFailed er)"

definition resolve :: "'s env \<Rightarrow> TransitionTicket \<Rightarrow> bool \<Rightarrow> ('s, ResolutionOutcome) qproc" where
  "resolve e ticket stabilize =
     io_bind (asks id) (\<lambda>queue.
     case res_bind (transition_ticket_paths (env_sha e) queue ticket) (\<lambda>(source, destination).
          res_bind (resolve_path_new source) (\<lambda>source_path.
          res_bind (resolve_path_new destination) (\<lambda>destination_path.
          res_bind (destination_common ticket) (\<lambda>dest_common.
            Ok (source_path, destination_path, dest_common)))))
     of
       Inl er \<Rightarrow> io_return (ResolutionFailed er)
     | Inr (source_path, destination_path, dest_common) \<Rightarrow>
         let (source_kind, destination_kind) = object_kinds ticket in
         io_bind (resolve_check_object e source_path ticket (source_common ticket) source_kind) (\<lambda>src_result.
         io_bind (resolve_check_object e destination_path ticket dest_common destination_kind) (\<lambda>dest_result.
           resolution e stabilize source_path destination_path src_result dest_result)))"

end
