(* ===== verification/Steadq_Lease.thy ===== *)
theory Steadq_Lease
  imports Steadq_Resolve
begin

text \<open>
  Leasing, from \<^verbatim>\<open>src/crates/steadq-core/src/queue/lease.rs\<close>, with the wake hints of
  \<^verbatim>\<open>src/crates/steadq-fs-linux/src/inotify.rs\<close>: the scan of the ready shards, the claim of a candidate by
  a witnessed rename, its validation and delivery, and the waiting loop.

  The body of the scan is one definition per stage of a claim, each of which ends the stage with the
  step the loop takes. The time that passes and the sleeping are an argument.
\<close>

subsection \<open>Waiting\<close>

text \<open>The services of the kernel and of the standard library that only the waiting loop reaches: the
  notification descriptors, and the time since the call began and sleeping, in nanoseconds.\<close>

record 's waits =
  sys_inotify_init1 :: "int \<Rightarrow> 's \<Rightarrow> (int + fd) \<times> 's"
  sys_inotify_add_watch :: "fd \<Rightarrow> bytes \<Rightarrow> u32 \<Rightarrow> 's \<Rightarrow> (int + unit) \<times> 's"
  sys_ppoll :: "fd \<Rightarrow> Timespec \<Rightarrow> 's \<Rightarrow> (int + int \<times> u16) \<times> 's"
  std_elapsed :: "'s \<Rightarrow> nat \<times> 's"
  std_sleep :: "nat \<Rightarrow> 's \<Rightarrow> unit \<times> 's"

definition POLLIN :: u16 where "POLLIN = 1"
definition IN_NONBLOCK :: int where "IN_NONBLOCK = 2048"
definition IN_CLOEXEC :: int where "IN_CLOEXEC = 524288"
definition IN_APPEAR :: u32 where "IN_APPEAR = 0x80 OR 0x100 OR 0x4000"

definition ppoll_woke :: "int \<Rightarrow> u16 \<Rightarrow> bool" where
  "ppoll_woke rc revents = (rc > 0 \<and> revents AND POLLIN \<noteq> 0)"

definition inotify_init :: "'s os \<Rightarrow> 's waits \<Rightarrow> ('s, IoError + fd) sysproc" where
  "inotify_init k n =
     fault_check k ''inotify_init'' [] (syscall k (sys_inotify_init1 n (IN_NONBLOCK + IN_CLOEXEC)))"

definition add_appear_watch :: "'s os \<Rightarrow> 's waits \<Rightarrow> fd \<Rightarrow> bytes \<Rightarrow> ('s, IoError + unit) sysproc" where
  "add_appear_watch k n fd path =
     fault_check k ''inotify_add_watch'' []
       (io_try (io_return (cstr_from_bytes path)) (\<lambda>c_path. syscall k (sys_inotify_add_watch n fd (c_string c_path) IN_APPEAR)))"

definition inotify_is_interrupted :: "IoError \<Rightarrow> bool" where
  "inotify_is_interrupted er = (io_kind er = Kind_Interrupted)"

partial_function (option) drain :: "'s os \<Rightarrow> fd \<Rightarrow> 's world \<Rightarrow> (unit \<times> 's world) option" where
  "drain k fd w =
     (case sys_read k fd 4096 (os_state w) of
        (Inl _, s) \<Rightarrow> Some ((), w\<lparr>os_state := s\<rparr>)
      | (Inr bs, s) \<Rightarrow> if bs = [] then Some ((), w\<lparr>os_state := s\<rparr>) else drain k fd (w\<lparr>os_state := s\<rparr>))"

definition duration_timespec :: "nat \<Rightarrow> Timespec" where
  "duration_timespec ns = \<lparr>tv_sec = int (ns div 1000000000), tv_nsec = int (ns mod 1000000000)\<rparr>"

definition wait_readable :: "'s os \<Rightarrow> 's waits \<Rightarrow> fd \<Rightarrow> nat \<Rightarrow> ('s, IoError + bool) sysproc" where
  "wait_readable k n fd timeout =
     fault_check k ''inotify_wait'' []
       (io_bind (syscall k (sys_ppoll n fd (duration_timespec timeout))) (\<lambda>r. case r of
          Err er \<Rightarrow> io_return (if inotify_is_interrupted er then Ok False else Err er)
        | Ok (rc, revents) \<Rightarrow>
            if \<not> ppoll_woke rc revents then io_return (Ok False)
            else io_bind (drain k fd) (\<lambda>_. io_return (Ok True))))"

text \<open>\<^verbatim>\<open>Path::join\<close> with a relative component.\<close>

definition path_join :: "bytes \<Rightarrow> string \<Rightarrow> bytes" where
  "path_join base c = (if base = [] \<or> last base = 0x2F then base else base @ [0x2F]) @ as_bytes c"

fun add_watches :: "'s os \<Rightarrow> 's waits \<Rightarrow> fd \<Rightarrow> bytes list \<Rightarrow> ('s, IoError + unit) sysproc" where
  "add_watches k n fd [] = io_return (Ok ())"
| "add_watches k n fd (d # ds) = io_try (add_appear_watch k n fd d) (\<lambda>_. add_watches k n fd ds)"

definition ready_watch_dirs :: "Queue \<Rightarrow> bytes list" where
  "ready_watch_dirs q =
     map (\<lambda>shard. path_join (path_join (q_root_path q) ''ready'') (shard_hex (word_of_nat shard)))
       [0..<unat (fmt_shard_count (q_format q))]"

definition ensure_ready_watch :: "'s env \<Rightarrow> 's waits \<Rightarrow> ('s, unit) qproc" where
  "ensure_ready_watch e n =
     io_bind (asks id) (\<lambda>queue.
       if q_ready_watch_attempted queue then io_return ()
       else
         io_bind (modifies (\<lambda>q. q\<lparr>q_ready_watch_attempted := True\<rparr>)) (\<lambda>_.
         io_bind (lift (inotify_init (env_os e) n)) (\<lambda>r. case r of
           Err _ \<Rightarrow> io_return ()
         | Ok fd \<Rightarrow>
             io_bind (lift (add_watches (env_os e) n fd (ready_watch_dirs queue))) (\<lambda>added. case added of
               Err _ \<Rightarrow> io_return ()
             | Ok _ \<Rightarrow> modifies (\<lambda>q. q\<lparr>q_ready_watch := Some fd\<rparr>)))))"

subsection \<open>Reading a claim\<close>

definition corrupt_ready_reason :: "u32 \<Rightarrow> u64 \<Rightarrow> QuarantineReason" where
  "corrupt_ready_reason mode link_count =
     (if mode AND S_IFMT \<noteq> S_IFREG then Quarantine_NonRegularFile
      else if link_count \<noteq> 1 then Quarantine_UnexpectedHardLink
      else Quarantine_EnvelopeCorrupt)"

definition ok_option :: "'e + 'a \<Rightarrow> 'a option" where
  "ok_option r = (case r of Inr x \<Rightarrow> Some x | Inl _ \<Rightarrow> None)"

definition claimed_content_type :: "bytes \<Rightarrow> string option" where
  "claimed_content_type ext_buf =
     (if is_extension_present (length ext_buf)
      then map_option content_type (ok_option (extension_decode ext_buf)) else Some [])"

text \<open>What the structure of a claimed object must be, once its header and extension are read.\<close>

definition claimed_structure :: "sha256 \<Rightarrow> FormatRecord \<Rightarrow> u64 \<Rightarrow> FixedHeader \<Rightarrow> bytes \<Rightarrow> (FixedHeader \<times> string) option" where
  "claimed_structure sha fmt fsize header ext_buf =
     (if \<not> verify_envelope_digest sha header ext_buf then None
      else if ok_option (checked_total_size (length ext_buf) (hdr_payload_length header)) \<noteq> Some fsize then None
      else if \<not> payload_length_is_valid (hdr_payload_length header) (fmt_max_payload_length fmt) then None
      else map_option (Pair header) (claimed_content_type ext_buf))"

definition validate_claimed_object ::
  "'s env \<Rightarrow> fd \<Rightarrow> u64 \<Rightarrow> CommonFields \<Rightarrow> ('s, (FixedHeader \<times> string) option) qproc" where
  "validate_claimed_object e file fsize common =
     io_bind (asks q_format) (\<lambda>fmt.
     io_bind (lift (pread_exact (env_os e) file 128 0)) (\<lambda>read.
     case Option.bind (ok_option read) (\<lambda>header_buf. ok_option (header_decode header_buf)) of
       None \<Rightarrow> io_return None
     | Some header \<Rightarrow>
         let ext_len = unat (hdr_extension_header_length header) in
         if hdr_job_id header \<noteq> job_id common \<or> hdr_maximum_attempts header \<noteq> maximum_attempts common
            \<or> is_extension_too_large ext_len
         then io_return None
         else
           io_bind (lift (pread_exact (env_os e) file ext_len 128)) (\<lambda>read.
             io_return (Option.bind (ok_option read) (claimed_structure (env_sha e) fmt fsize header)))))"

definition claim_transition_ticket ::
  "Queue \<Rightarrow> CommonFields \<Rightarrow> id128 \<Rightarrow> TicketEvidence \<Rightarrow> u64 \<Rightarrow> u64 \<Rightarrow> Error + TransitionTicket" where
  "claim_transition_ticket queue source lease_token evidence boottime_deadline_ns wall_deadline_ns =
     ticket_new (fmt_queue_id (q_format queue)) TO_Claim Linearized
       \<lparr>ti_job_id = job_id source, ti_generation = generation source, ti_attempt = attempt source,
        ti_maximum_attempts = maximum_attempts source, ti_lease_token = lease_token, ti_evidence = evidence\<rparr>
       Source_Ready (Dest_Leased (q_boot_id queue) boottime_deadline_ns wall_deadline_ns)"

definition read_claim_ticket_evidence :: "'s env \<Rightarrow> fd \<Rightarrow> id128 \<Rightarrow> u32 \<Rightarrow> ('s, Error + TicketEvidence) sysproc" where
  "read_claim_ticket_evidence e file_fd expected_job_id expected_maximum_attempts =
     io_try (io_map_err error_from_verification (verify_envelope_on_fd (env_sha e) (env_os e) (env_clone e) file_fd)) (\<lambda>verified.
     let header = vj_header verified in
     io_return
       (res_bind (require (hdr_job_id header = expected_job_id) (QueueCorrupt ''header job_id mismatch'')) (\<lambda>_.
        res_bind (require (hdr_maximum_attempts header = expected_maximum_attempts)
                   (QueueCorrupt ''header maximum_attempts mismatch'')) (\<lambda>_.
          Ok \<lparr>ev_envelope_digest = hdr_envelope_digest header, ev_payload_length = hdr_payload_length header\<rparr>))))"

definition open_claim_source :: "'s env \<Rightarrow> fd \<Rightarrow> string \<Rightarrow> id128 \<Rightarrow> u32 \<Rightarrow> ('s, Error + ClaimSourceWitness option) sysproc" where
  "open_claim_source e directory_fd name expected_job_id expected_maximum_attempts =
     io_bind (openat (env_os e) directory_fd name resolver_file_open_flags 0) (\<lambda>opened. case opened of
       Err er \<Rightarrow> io_return (if raw_os_error er = Some ENOENT then Ok None else Err (error_from_io er))
     | Ok file \<Rightarrow>
         io_try (io_map_err error_from_io (fstat (env_os e) file)) (\<lambda>stat.
         if \<not> is_singly_linked_regular (st_mode stat) (st_nlink stat)
         then io_return (Err (QueueCorrupt ''ready source is not a singly-linked regular file''))
         else
           io_try (read_claim_ticket_evidence e file expected_job_id expected_maximum_attempts) (\<lambda>evidence.
             io_return (Ok (Some \<lparr>cw_file_fd = file, cw_device = st_dev stat, cw_inode = st_ino stat,
                                  cw_evidence = evidence\<rparr>)))))"

subsection \<open>Exhausted jobs\<close>

datatype DeadLetterFailure = DL_Invalid Error | DL_Move MoveFailure

definition move_to_dead ::
  "'s env \<Rightarrow> string \<Rightarrow> string \<Rightarrow> CommonFields \<Rightarrow> DeadReason \<Rightarrow> WallFloor \<Rightarrow> ('s, DeadLetterFailure + unit) qproc" where
  "move_to_dead e ready_dir ready_name common reason wall_floor =
     io_bind (asks id) (\<lambda>queue.
     let not_committed = (\<lambda>phase er. DL_Move (Move_NotCommitted phase er)) in
     io_try (io_return (ok_or (bucket_number (wf_unix_ns wall_floor) (fmt_terminal_bucket_width_ns (q_format queue)))
               (DL_Invalid StateExhausted))) (\<lambda>terminal_bucket.
     io_try (io_return (map_err DL_Invalid (next_identity Op_ExhaustedReadyCleanup common))) (\<lambda>dead_common.
     let target = dead_in_bucket (env_sha e) (queue_layout queue) dead_common (dead_reason_code reason) terminal_bucket;
         dead_dir = target_directory target
     in
     io_try (io_map_err (not_committed EnsureDest) (ensure_dir e dead_dir)) (\<lambda>_.
     io_try (io_map_err (not_committed EnsureDest) (lift (open_relative (env_os e) (q_root_fd queue) dead_dir))) (\<lambda>dead_dir_fd.
     io_try (io_map_err (not_committed PreRename) (lift (open_relative (env_os e) (q_root_fd queue) ready_dir))) (\<lambda>ready_dir_fd.
     io_map (\<lambda>r. case r of
         Ok _ \<Rightarrow> Ok () | Err Move_SourceMissing \<Rightarrow> Ok () | Err failure \<Rightarrow> Err (DL_Move failure))
       (lift (move_verified_noreplace (env_os e) ready_dir_fd ready_name dead_dir_fd (tg_filename target)))))))))"

subsection \<open>Claiming\<close>

text \<open>A scan carries whether it had an error and the wall floor once it was captured. A candidate
  lets the scan go on, or ends it with an outcome and, for a lease, its payload reader.\<close>

type_synonym scan = "bool \<times> WallFloor option"
type_synonym lease_result = "LeaseOutcome \<times> VerifiedPayloadReader option"
type_synonym scan_step = "(scan, lease_result + scan) step"

definition stops :: "LeaseOutcome \<Rightarrow> scan_step" where
  "stops outcome = Break (Inl (outcome, None))"

definition operation_wall_floor :: "'s env \<Rightarrow> WallFloor option \<Rightarrow> ('s, Error + WallFloor) qproc" where
  "operation_wall_floor e wall_floor =
     (case wall_floor of Some floor \<Rightarrow> io_return (Ok floor) | None \<Rightarrow> wall_floor_for_mutation e)"

definition dead_letter_step :: "scan \<Rightarrow> DeadLetterFailure + unit \<Rightarrow> ('s, scan_step) qproc" where
  "dead_letter_step scan r =
     (case r of
        Ok _ \<Rightarrow> io_return (Continue scan)
      | Err (DL_Invalid er) \<Rightarrow> io_return (stops (Lease_NotCommitted er))
      | Err (DL_Move Move_SourceMissing) \<Rightarrow> io_return (Continue scan)
      | Err (DL_Move Move_AlreadyExists) \<Rightarrow>
          poisoning InternalInvariantViolation (stops (Lease_NotCommitted IdentityCollision))
      | Err (DL_Move (Move_NotCommitted phase source)) \<Rightarrow>
          io_return (stops (Lease_NotCommitted (case error_from_io source of
              IoFailure message \<Rightarrow> IoFailure (''dead-letter move failed at '' @ move_phase_text phase @ '': '' @ message)
            | classified \<Rightarrow> classified)))
      | Err (DL_Move (Move_OutcomeUnknown phase source)) \<Rightarrow>
          poisoning PostLinearizationStateUnknown (stops (Lease_NotCommitted
            (IoFailure (''dead-letter move indeterminate at '' @ move_phase_text phase @ '': '' @ io_text source)))))"

definition exhausted_candidate :: "'s env \<Rightarrow> string \<Rightarrow> string \<Rightarrow> CommonFields \<Rightarrow> scan \<Rightarrow> ('s, scan_step) qproc" where
  "exhausted_candidate e ready_dir entry common scan =
     io_bind (operation_wall_floor e (snd scan)) (\<lambda>r. case r of
       Err er \<Rightarrow> io_return (stops (Lease_NotCommitted er))
     | Ok floor \<Rightarrow>
         io_bind (move_to_dead e ready_dir entry common Dead_AttemptsExhausted floor)
           (dead_letter_step (fst scan, Some floor)))"

text \<open>What a claim is about to do, once the clocks and the token are captured.\<close>

record Claim =
  cl_source :: CommonFields
  cl_token :: id128
  cl_boottime_deadline :: u64
  cl_wall_deadline :: u64
  cl_leased_common :: CommonFields
  cl_target :: Target

definition claim_of ::
  "sha256 \<Rightarrow> Queue \<Rightarrow> u64 \<Rightarrow> CommonFields \<Rightarrow> u64 \<Rightarrow> WallFloor \<Rightarrow> id128 \<Rightarrow> scan \<Rightarrow> scan_step + Claim" where
  "claim_of sha queue lease_duration_ns common boottime_claim floor lease_token scan =
     res_bind (ok_or (checked_add boottime_claim lease_duration_ns) (Continue scan)) (\<lambda>boottime_deadline.
     res_bind (ok_or (checked_add (wf_unix_ns floor) lease_duration_ns) (Continue scan)) (\<lambda>wall_deadline.
     res_bind (map_err (\<lambda>_. Continue scan) (next_identity Op_Claim common)) (\<lambda>leased_common.
     res_bind (map_err (\<lambda>_. Continue (True, snd scan))
                (leased_for_boot sha (queue_layout queue) leased_common (q_boot_id queue) boottime_deadline wall_deadline lease_token))
       (\<lambda>target.
       Ok \<lparr>cl_source = common, cl_token = lease_token, cl_boottime_deadline = boottime_deadline,
           cl_wall_deadline = wall_deadline, cl_leased_common = leased_common, cl_target = target\<rparr>))))"

definition claim_ticket :: "Queue \<Rightarrow> Claim \<Rightarrow> TicketEvidence \<Rightarrow> Error + TransitionTicket" where
  "claim_ticket queue c evidence =
     claim_transition_ticket queue (cl_source c) (cl_token c) evidence (cl_boottime_deadline c) (cl_wall_deadline c)"

definition open_leased_dir :: "'s env \<Rightarrow> string \<Rightarrow> scan \<Rightarrow> ('s, scan_step + fd) qproc" where
  "open_leased_dir e leased_dir scan =
     io_bind (ensure_dir_with_dirty e leased_dir) (\<lambda>ensured. case ensured of
       Err er \<Rightarrow> io_return (Err (if error_from_io er = ResourceExhausted
                                 then stops (Lease_NotCommitted ResourceExhausted) else Continue (True, snd scan)))
     | Ok _ \<Rightarrow>
         io_bind (asks q_root_fd) (\<lambda>root_fd.
         io_map_err (\<lambda>er. case classify_lease_directory_open_failure er of
             Directory_Gone \<Rightarrow> Continue scan
           | _ \<Rightarrow> Continue (True, snd scan))
           (lift (open_relative (env_os e) root_fd leased_dir))))"

text \<open>A corrupt object is moved aside, and the scan goes on.\<close>

definition set_aside :: "'s env \<Rightarrow> fd \<Rightarrow> string \<Rightarrow> scan \<Rightarrow> ('s, scan_step) qproc" where
  "set_aside e shard_fd entry scan =
     io_bind (lift (fstatat (env_os e) shard_fd entry)) (\<lambda>stated.
     let reason = (case stated of
           Ok stat \<Rightarrow> corrupt_ready_reason (st_mode stat) (st_nlink stat)
         | Err _ \<Rightarrow> Quarantine_EnvelopeCorrupt)
     in
     io_bind (publish_quarantine_object e shard_fd entry reason) (\<lambda>published. case published of
       Ok _ \<Rightarrow> io_return (Continue scan)
     | Err (QP_Move _ _ Move_SourceMissing _) \<Rightarrow> io_return (Continue scan)
     | Err (QP_Move _ _ (Move_OutcomeUnknown phase source) _) \<Rightarrow>
         poisoning PostLinearizationStateUnknown (stops (Lease_NotCommitted
           (IoFailure (''corrupt ready object quarantine indeterminate at '' @ move_phase_text phase @ '': '' @ io_text source))))
     | Err _ \<Rightarrow> io_return (Continue (True, snd scan))))"

definition claim_source :: "'s env \<Rightarrow> fd \<Rightarrow> string \<Rightarrow> CommonFields \<Rightarrow> scan \<Rightarrow> ('s, scan_step + ClaimSourceWitness) qproc" where
  "claim_source e shard_fd entry common scan =
     io_bind (lift (open_claim_source e shard_fd entry (job_id common) (maximum_attempts common))) (\<lambda>opened. case opened of
       Ok (Some source) \<Rightarrow> io_return (Ok source)
     | Ok None \<Rightarrow> io_return (Err (Continue scan))
     | Err (IoFailure _) \<Rightarrow> io_return (Err (Continue (True, snd scan)))
     | Err (QueueCorrupt _) \<Rightarrow> io_map Err (set_aside e shard_fd entry scan)
     | Err er \<Rightarrow> io_return (Err (stops (Lease_NotCommitted er))))"

definition observed_source :: "'s env \<Rightarrow> fd \<Rightarrow> string \<Rightarrow> ClaimSourceWitness \<Rightarrow> scan \<Rightarrow> ('s, scan_step + unit) qproc" where
  "observed_source e shard_fd entry source scan =
     io_map (\<lambda>r. case r of
         Ok Observed_Match \<Rightarrow> Ok ()
       | Ok Observed_Gone \<Rightarrow> Err (Continue scan)
       | Ok Observed_Mismatch \<Rightarrow>
           Err (stops (Lease_NotCommitted (QueueCorrupt ''ready source identity changed before claim'')))
       | Err _ \<Rightarrow> Err (Continue (True, snd scan)))
       (lift (observe_witness_path (env_os e) shard_fd entry (cw_device source) (cw_inode source)))"

text \<open>The closure of the move reads the evidence again and renews the ticket. The ticket it leaves behind
  is used by every later outcome, so that it is a result of the move along with the move's own: a
  strict move is a deferred one followed by its barriers.\<close>

definition refreshed_ticket :: "'s env \<Rightarrow> Queue \<Rightarrow> Claim \<Rightarrow> fd \<Rightarrow> ('s, IoError + TransitionTicket) sysproc" where
  "refreshed_ticket e queue c file_fd =
     io_map_err (\<lambda>er. io_error_other (error_text er))
       (io_try (read_claim_ticket_evidence e file_fd (job_id (cl_source c)) (maximum_attempts (cl_source c))) (\<lambda>evidence.
          io_return (claim_ticket queue c evidence)))"

definition claim_move ::
  "'s env \<Rightarrow> bool \<Rightarrow> fd \<Rightarrow> string \<Rightarrow> fd \<Rightarrow> string \<Rightarrow> MoveIdentity \<Rightarrow> ('s, IoError + TransitionTicket) sysproc \<Rightarrow> TransitionTicket
     \<Rightarrow> ('s, (MoveFailure + MovedObject) \<times> TransitionTicket) sysproc" where
  "claim_move e strict shard_fd entry leased_dir_fd leased_name identity refresh ticket =
     io_bind (move_witnessed_noreplace_deferred (env_os e) shard_fd entry leased_dir_fd leased_name identity (\<lambda>_. refresh))
       (\<lambda>r. case r of
          Err failure \<Rightarrow> io_return (Err failure, ticket)
        | Ok (object, ticket') \<Rightarrow>
            io_map (\<lambda>barriers. (barriers, ticket'))
              (if strict then move_barriers (env_os e) shard_fd leased_dir_fd True object else io_return (Ok object)))"

definition unknown_claim :: "TransitionTicket \<Rightarrow> TransitionPhase \<Rightarrow> ('s, scan_step) qproc" where
  "unknown_claim ticket phase =
     poisoning PostLinearizationStateUnknown (stops (Lease_OutcomeUnknown (with_phase ticket phase)))"

definition lease_info_of :: "Queue \<Rightarrow> Claim \<Rightarrow> FixedHeader \<Rightarrow> string \<Rightarrow> MovedObject \<Rightarrow> LeaseInfo" where
  "lease_info_of queue c header content object =
     \<lparr>li_job_id = job_id (cl_source c), li_envelope_digest = hdr_envelope_digest header,
      li_generation = generation (cl_leased_common c), li_attempt = attempt (cl_leased_common c),
      li_maximum_attempts = maximum_attempts (cl_source c), li_token = cl_token c, li_boot_id = q_boot_id queue,
      li_expires_boottime_ns = cl_boottime_deadline c, li_expires_wall_ns = cl_wall_deadline c,
      li_content_type = content, li_payload_length = hdr_payload_length header,
      li_payload_digest = hdr_payload_digest header, li_expected_dev = mo_device object,
      li_expected_inode = mo_inode object,
      li_exact_source_path = target_directory (cl_target c) @ ''/'' @ tg_filename (cl_target c)\<rparr>"

definition deliver_claim ::
  "'s env \<Rightarrow> Queue \<Rightarrow> Claim \<Rightarrow> fd \<Rightarrow> fd \<Rightarrow> TransitionTicket \<Rightarrow> MovedObject \<Rightarrow> ('s, scan_step) qproc" where
  "deliver_claim e queue c leased_dir_fd leased_file ticket object =
     io_bind (validate_claimed_object e leased_file (mo_size object) (cl_source c)) (\<lambda>validated. case validated of
       None \<Rightarrow> unknown_claim ticket SourceDirectoryDurable
     | Some (header, content) \<Rightarrow>
         io_bind (verify_payload_on_fd e leased_file) (\<lambda>verified. case verified of
           Ok _ \<Rightarrow>
             io_return (Break (Inl (Lease_Leased (lease_info_of queue c header content object),
               Some \<lparr>pr_file_fd = leased_file, pr_payload_start = 128 + ucast (hdr_extension_header_length header),
                     pr_payload_len = hdr_payload_length header\<rparr>)))
         | Err PayloadCorrupt \<Rightarrow>
             io_bind (quarantine_corrupt_lease e leased_dir_fd (tg_filename (cl_target c)) leased_file) (\<lambda>moved. case moved of
               Ok _ \<Rightarrow> io_return (stops (Lease_NotCommitted PayloadCorrupt))
             | Err failure \<Rightarrow>
                 unknown_claim ticket (case move_phase failure of
                     Some phase \<Rightarrow> ticket_phase_for_move_outcome_unknown phase | None \<Rightarrow> SourceDirectoryDurable))
         | Err _ \<Rightarrow> unknown_claim ticket SourceDirectoryDurable))"

text \<open>In a batch, a committed move is recorded in the lent dirty set before anything else.\<close>

definition settle_claim ::
  "'s env \<Rightarrow> Queue \<Rightarrow> Claim \<Rightarrow> fd \<Rightarrow> fd \<Rightarrow> fd \<Rightarrow> scan \<Rightarrow> (MoveFailure + MovedObject) \<times> TransitionTicket \<Rightarrow> ('s, scan_step) qproc" where
  "settle_claim e queue c shard_fd leased_dir_fd leased_file scan move_result = (case move_result of (result, ticket) \<Rightarrow>
     (case result of
        Ok object \<Rightarrow>
          io_bind (io_try (record_lent e shard_fd) (\<lambda>_. record_lent e leased_dir_fd)) (\<lambda>recorded. case recorded of
            Err _ \<Rightarrow> unknown_claim ticket DestinationDirectoryDurable
          | Ok _ \<Rightarrow> deliver_claim e queue c leased_dir_fd leased_file ticket object)
      | Err Move_SourceMissing \<Rightarrow> io_return (Continue scan)
      | Err (Move_OutcomeUnknown phase _) \<Rightarrow> unknown_claim ticket (ticket_phase_for_move_outcome_unknown phase)
      | Err (Move_NotCommitted _ source) \<Rightarrow>
          io_return (if error_from_io source = ResourceExhausted then stops (Lease_NotCommitted ResourceExhausted)
                     else Continue (True, snd scan))
      | Err Move_AlreadyExists \<Rightarrow> io_return (Continue (True, snd scan))))"

definition claim_candidate ::
  "'s env \<Rightarrow> u64 \<Rightarrow> fd \<Rightarrow> string \<Rightarrow> CommonFields \<Rightarrow> scan \<Rightarrow> ('s, scan_step) qproc" where
  "claim_candidate e lease_duration_ns shard_fd entry common scan =
     returning
       (io_try (io_map_err (\<lambda>er. stops (Lease_NotCommitted er)) (from_io (clock_boottime_ns (env_os e)))) (\<lambda>boottime_claim.
        io_try (io_map_err (\<lambda>er. stops (Lease_NotCommitted er)) (operation_wall_floor e (snd scan))) (\<lambda>floor.
        let scan = (fst scan, Some floor) in
        io_try (io_map_err (\<lambda>er. stops (Lease_NotCommitted er)) (from_io (random_128bit (env_os e)))) (\<lambda>lease_token.
        io_bind (asks id) (\<lambda>queue.
        io_try (io_return (claim_of (env_sha e) queue lease_duration_ns common boottime_claim floor lease_token scan)) (\<lambda>c.
        io_try (open_leased_dir e (target_directory (cl_target c)) scan) (\<lambda>leased_dir_fd.
        io_try (claim_source e shard_fd entry common scan) (\<lambda>source.
        io_try (io_return (map_err (\<lambda>er. stops (Lease_NotCommitted er)) (claim_ticket queue c (cw_evidence source)))) (\<lambda>ticket.
        io_try (observed_source e shard_fd entry source scan) (\<lambda>_.
        io_bind lent (\<lambda>dirty.
        io_bind (lift (claim_move e (dirty = None) shard_fd entry leased_dir_fd (tg_filename (cl_target c))
                   \<lparr>mi_device = cw_device source, mi_inode = cw_inode source\<rparr>
                   (refreshed_ticket e queue c (cw_file_fd source)) ticket)) (\<lambda>moved.
        io_map Ok (settle_claim e queue c shard_fd leased_dir_fd (cw_file_fd source) scan moved)))))))))))))"

subsection \<open>Scanning\<close>

definition ready_candidate :: "sha256 \<Rightarrow> FormatRecord \<Rightarrow> u32 \<Rightarrow> string \<Rightarrow> CommonFields option" where
  "ready_candidate sha fmt shard entry =
     (if strip_suffix ''.sqj'' entry = None then None
      else case parse_ready entry of
        Inl _ \<Rightarrow> None
      | Inr parsed \<Rightarrow>
          if \<not> ready_authenticate_tag sha parsed (fmt_queue_id fmt) (shard_hex shard) then None
          else if compute_shard sha (fmt_queue_id fmt) (job_id (rd_common parsed)) (fmt_shard_count fmt) \<noteq> shard then None
          else Some (rd_common parsed))"

definition lease_entry ::
  "'s env \<Rightarrow> FormatRecord \<Rightarrow> u64 \<Rightarrow> u32 \<Rightarrow> fd \<Rightarrow> IoError + DirEntryName option \<times> DirectoryStream \<Rightarrow> scan \<Rightarrow> ('s, scan_step) qproc" where
  "lease_entry e fmt lease_duration_ns shard shard_fd r scan =
     (case r of
        Inl _ \<Rightarrow> io_return (Break (Inr (True, snd scan)))
      | Inr (None, _) \<Rightarrow> io_return (Break (Inr scan))
      | Inr (Some raw, _) \<Rightarrow>
          (case as_ascii_str raw of
             None \<Rightarrow> io_return (Continue (True, snd scan))
           | Some entry \<Rightarrow>
               (case ready_candidate (env_sha e) fmt shard entry of
                  None \<Rightarrow> io_return (Continue scan)
                | Some common \<Rightarrow>
                    if attempt common \<ge> maximum_attempts common
                    then exhausted_candidate e (ready_shard_dir shard) entry common scan
                    else claim_candidate e lease_duration_ns shard_fd entry common scan)))"

definition lease_shard :: "'s env \<Rightarrow> FormatRecord \<Rightarrow> u64 \<Rightarrow> u32 \<Rightarrow> scan \<Rightarrow> ('s, lease_result + scan) qproc" where
  "lease_shard e fmt lease_duration_ns shard scan =
     io_bind (asks q_root_fd) (\<lambda>root_fd.
     io_bind (lift (open_relative (env_os e) root_fd (ready_shard_dir shard))) (\<lambda>opened. case opened of
       Err _ \<Rightarrow> io_return (Ok (True, snd scan))
     | Ok shard_fd \<Rightarrow>
         io_bind (lift (stream_open (env_os e) shard_fd)) (\<lambda>streamed. case streamed of
           Err _ \<Rightarrow> io_return (Ok (True, snd scan))
         | Ok entries \<Rightarrow>
             each_entry (env_os e) (lease_entry e fmt lease_duration_ns shard shard_fd) entries scan)))"

definition scan_order :: "sha256 \<Rightarrow> Queue \<Rightarrow> u32 list" where
  "scan_order sha queue =
     (let fmt = q_format queue;
          (scheduled_start, stride) = shard_scan_params sha (fmt_queue_id fmt) (q_boot_id_bytes queue)
            (q_worker_nonce queue) (q_scan_round queue) (fmt_shard_count fmt);
          start = (case q_ready_shard_hint queue of Some shard \<Rightarrow> shard | None \<Rightarrow> scheduled_start)
      in map (\<lambda>i. shard_at start stride (word_of_nat i) (fmt_shard_count fmt)) [0..<unat (fmt_shard_count fmt)])"

definition scan_outcome :: "lease_result + scan \<Rightarrow> lease_result" where
  "scan_outcome r =
     (case r of
        Err result \<Rightarrow> result
      | Ok (scan_had_error, _) \<Rightarrow>
          (if scan_had_error then Lease_NotCommitted (IoFailure ''scan completed with errors'') else Lease_Empty, None))"

definition lease_once_with_dirty :: "'s env \<Rightarrow> u64 \<Rightarrow> ('s, lease_result) qproc" where
  "lease_once_with_dirty e lease_duration_ns =
     io_bind (asks id) (\<lambda>queue.
     case check_not_poisoned queue of
       Inl er \<Rightarrow> io_return (Lease_NotCommitted er, None)
     | Inr _ \<Rightarrow>
         if \<not> lease_duration_is_valid lease_duration_ns
         then io_return (Lease_NotCommitted (InvalidInput ''lease duration must be 1s to 7d''), None)
         else
           io_bind (modifies (\<lambda>q. q\<lparr>q_scan_round := q_scan_round q + 1, q_ready_shard_hint := None\<rparr>)) (\<lambda>_.
           io_map scan_outcome
             (io_fold (lease_shard e (q_format queue) lease_duration_ns) (scan_order (env_sha e) queue) (False, None))))"

subsection \<open>Waiting for a job\<close>

fun lease_retryable :: "LeaseOutcome \<Rightarrow> bool" where
  "lease_retryable Lease_Empty = True"
| "lease_retryable (Lease_NotCommitted MaintenanceBusy) = True"
| "lease_retryable _ = False"

definition nap_for :: "'s env \<Rightarrow> 's waits \<Rightarrow> nat \<Rightarrow> ('s, unit) qproc" where
  "nap_for e n nap =
     (let sleep = lift (\<lambda>w. case std_sleep n nap (os_state w) of (_, s) \<Rightarrow> Some ((), w\<lparr>os_state := s\<rparr>)) in
      io_bind (asks q_ready_watch) (\<lambda>watch. case watch of
        Some fd \<Rightarrow>
          io_bind (lift (wait_readable (env_os e) n fd nap)) (\<lambda>r. case r of
            Ok _ \<Rightarrow> io_return ()
          | Err _ \<Rightarrow> io_bind (modifies (\<lambda>q. q\<lparr>q_ready_watch := None\<rparr>)) (\<lambda>_. sleep))
      | None \<Rightarrow> io_bind (ensure_ready_watch e n) (\<lambda>_. sleep)))"

definition elapsed :: "'s waits \<Rightarrow> ('s, nat) qproc" where
  "elapsed n = lift (\<lambda>w. case std_elapsed n (os_state w) of (t, s) \<Rightarrow> Some (t, w\<lparr>os_state := s\<rparr>))"

definition MAX_BACKOFF :: nat where "MAX_BACKOFF = 10000000"

partial_function (option) lease_loop ::
  "'s env \<Rightarrow> 's waits \<Rightarrow> nat \<Rightarrow> u64 \<Rightarrow> nat \<Rightarrow> 's qworld \<Rightarrow> (lease_result \<times> 's qworld) option" where
  "lease_loop e n wait lease_duration_ns backoff q =
     (case lease_once_with_dirty e lease_duration_ns q of
        None \<Rightarrow> None
      | Some (result, q1) \<Rightarrow>
          if wait = 0 \<or> \<not> lease_retryable (fst result) then Some (result, q1)
          else
            (case elapsed n q1 of
               None \<Rightarrow> None
             | Some (t, q2) \<Rightarrow>
                 if t \<ge> wait then Some (result, q2)
                 else
                   (case nap_for e n (min backoff (wait - t)) q2 of
                      None \<Rightarrow> None
                    | Some (_, q3) \<Rightarrow> lease_loop e n wait lease_duration_ns (min (2 * backoff) MAX_BACKOFF) q3)))"

definition lease_inner_with_dirty :: "'s env \<Rightarrow> 's waits \<Rightarrow> u64 \<Rightarrow> u64 \<Rightarrow> ('s, lease_result) qproc" where
  "lease_inner_with_dirty e n max_wait_ns lease_duration_ns = lease_loop e n (unat max_wait_ns) lease_duration_ns 50000"

definition lease_with_payload :: "'s env \<Rightarrow> 's waits \<Rightarrow> u64 \<Rightarrow> u64 \<Rightarrow> ('s, lease_result) qproc" where
  "lease_with_payload e n max_wait_ns lease_duration_ns = strictly (lease_inner_with_dirty e n max_wait_ns lease_duration_ns)"

definition lease :: "'s env \<Rightarrow> 's waits \<Rightarrow> u64 \<Rightarrow> u64 \<Rightarrow> ('s, LeaseOutcome) qproc" where
  "lease e n max_wait_ns lease_duration_ns = io_map fst (lease_with_payload e n max_wait_ns lease_duration_ns)"

definition lease_batched :: "'s env \<Rightarrow> 's waits \<Rightarrow> u64 \<Rightarrow> u64 \<Rightarrow> DirtySet \<Rightarrow> ('s, LeaseOutcome \<times> DirtySet option) qproc" where
  "lease_batched e n max_wait_ns lease_duration_ns dirty =
     io_map (\<lambda>(result, back). (fst result, back)) (lending (Some dirty) (lease_inner_with_dirty e n max_wait_ns lease_duration_ns))"

end
