(* ===== verification/Steadq_Batch.thy ===== *)
theory Steadq_Batch
  imports Steadq_Lease
begin

text \<open>
  Batches, from \<^verbatim>\<open>src/crates/steadq-core/src/queue/batch.rs\<close>: operations that lend the batch's dirty set
  to the queue's, and the commit that flushes it once.
\<close>

subsection \<open>The batch and its outcomes\<close>

record Batch =
  bt_dirty :: DirtySet
  bt_pending_enqueues :: "EnqueueTicket list"
  bt_pending_leases :: nat
  bt_pending_acks :: nat

definition batch_new :: Batch where
  "batch_new = \<lparr>bt_dirty = dirty_set_new, bt_pending_enqueues = [], bt_pending_leases = 0, bt_pending_acks = 0\<rparr>"

datatype BatchEnqueueOutcome =
    BatchEnqueue_Pending EnqueueTicket
  | BatchEnqueue_NotCommitted EnqueueTicket Error
  | BatchEnqueue_OutcomeUnknown EnqueueTicket Error

datatype BatchLeaseOutcome =
    BatchLease_Pending LeaseInfo
  | BatchLease_Empty
  | BatchLease_NotCommitted Error
  | BatchLease_OutcomeUnknown TransitionTicket

datatype BatchAckOutcome =
    BatchAck_Pending
  | BatchAck_NotCommitted Error
  | BatchAck_OutcomeUnknown TransitionTicket

record BatchCommitOutcome =
  bc_committed_enqueues :: "EnqueueTicket list"
  bc_outcome_unknown_enqueues :: "(EnqueueTicket \<times> Error) list"
  bc_committed_leases :: nat
  bc_outcome_unknown_leases :: "Error list"
  bc_committed_acks :: nat
  bc_outcome_unknown_acks :: "Error list"

text \<open>The dirty set the operation gives back to the batch.\<close>

definition with_back :: "Batch \<Rightarrow> DirtySet option \<Rightarrow> Batch" where
  "with_back b back = b\<lparr>bt_dirty := (case back of Some d \<Rightarrow> d | None \<Rightarrow> bt_dirty b)\<rparr>"

definition push_enqueue :: "EnqueueTicket \<Rightarrow> Batch \<Rightarrow> Batch" where
  "push_enqueue ticket b = b\<lparr>bt_pending_enqueues := bt_pending_enqueues b @ [ticket]\<rparr>"

subsection \<open>Operations within a batch\<close>

definition batch_enqueue :: "'s env \<Rightarrow> EnqueueInput \<Rightarrow> Batch \<Rightarrow> ('s, BatchEnqueueOutcome \<times> Batch) qproc" where
  "batch_enqueue e job b =
     io_map (\<lambda>(outcome, back). let b' = with_back b back in
         case outcome of
           Enqueue_Committed ticket \<Rightarrow> (BatchEnqueue_Pending ticket, push_enqueue ticket b')
         | Enqueue_Deferred ticket \<Rightarrow> (BatchEnqueue_Pending ticket, push_enqueue ticket b')
         | Enqueue_NotCommitted ticket er \<Rightarrow> (BatchEnqueue_NotCommitted ticket er, b')
         | Enqueue_OutcomeUnknown ticket er \<Rightarrow> (BatchEnqueue_OutcomeUnknown ticket er, b'))
       (enqueue_batched e job (bt_dirty b))"

definition batch_lease :: "'s env \<Rightarrow> 's waits \<Rightarrow> u64 \<Rightarrow> u64 \<Rightarrow> Batch \<Rightarrow> ('s, BatchLeaseOutcome \<times> Batch) qproc" where
  "batch_lease e n max_wait_ns lease_duration_ns b =
     io_map (\<lambda>(outcome, back). let b' = with_back b back in
         case outcome of
           Lease_Leased info \<Rightarrow> (BatchLease_Pending info, b'\<lparr>bt_pending_leases := bt_pending_leases b' + 1\<rparr>)
         | Lease_Empty \<Rightarrow> (BatchLease_Empty, b')
         | Lease_NotCommitted er \<Rightarrow> (BatchLease_NotCommitted er, b')
         | Lease_OutcomeUnknown ticket \<Rightarrow> (BatchLease_OutcomeUnknown ticket, b'))
       (lease_batched e n max_wait_ns lease_duration_ns (bt_dirty b))"

definition batch_ack :: "'s env \<Rightarrow> LeaseInfo \<Rightarrow> Batch \<Rightarrow> ('s, BatchAckOutcome \<times> Batch) qproc" where
  "batch_ack e info b =
     io_map (\<lambda>(outcome, back). let b' = with_back b back in
         case outcome of
           Ack_Acked \<Rightarrow> (BatchAck_Pending, b'\<lparr>bt_pending_acks := bt_pending_acks b' + 1\<rparr>)
         | Ack_AlreadyAcked \<Rightarrow> (BatchAck_Pending, b')
         | Ack_LeaseLost \<Rightarrow> (BatchAck_NotCommitted (InvalidInput ''lease lost''), b')
         | Ack_NotCommitted er \<Rightarrow> (BatchAck_NotCommitted er, b')
         | Ack_OutcomeUnknown ticket \<Rightarrow> (BatchAck_OutcomeUnknown ticket, b'))
       (ack_batched e info (bt_dirty b))"

definition batch_verify_lease_payload :: "'s env \<Rightarrow> LeaseInfo \<Rightarrow> ('s, Error + unit) qproc" where
  "batch_verify_lease_payload e info = verify_lease_payload e info"

definition commit :: "'s env \<Rightarrow> Batch \<Rightarrow> ('s, BatchCommitOutcome + BatchCommitOutcome) qproc" where
  "commit e b =
     io_bind (sync_dirty e (bt_dirty b)) (\<lambda>(sync_result, _). case sync_result of
       Err er \<Rightarrow>
         let er = error_from_io er in
         poisoning PostLinearizationStateUnknown (Err
           \<lparr>bc_committed_enqueues = [], bc_outcome_unknown_enqueues = map (\<lambda>t. (t, er)) (bt_pending_enqueues b),
            bc_committed_leases = 0, bc_outcome_unknown_leases = replicate (bt_pending_leases b) er,
            bc_committed_acks = 0, bc_outcome_unknown_acks = replicate (bt_pending_acks b) er\<rparr>)
     | Ok _ \<Rightarrow>
         io_return (Ok
           \<lparr>bc_committed_enqueues = bt_pending_enqueues b, bc_outcome_unknown_enqueues = [],
            bc_committed_leases = bt_pending_leases b, bc_outcome_unknown_leases = [],
            bc_committed_acks = bt_pending_acks b, bc_outcome_unknown_acks = []\<rparr>))"

end
