(* ===== verification/Steadq_Recovery.thy ===== *)
theory Steadq_Recovery
  imports Steadq_Inspect
begin

text \<open>
  The frame of recovery, from \<^verbatim>\<open>src/crates/steadq-core/src/recovery.rs\<close> and \<^verbatim>\<open>recovery/walk.rs\<close>: budgets
  and statistics, bounded and streamed enumeration, quarantine within the budget, the retry of one
  remembered directory, the stored cursor, and the steps the walks of all phases share.

  A pass runs on the handle with its statistics; its three limits are one record. A loop body returns
  a count to continue with or ends the phase. The derived JSON code of the cursor is an argument.
\<close>

subsection \<open>Budgets, statistics and the world of a pass\<close>

definition RECOVERY_CURSOR_SCHEMA :: string where "RECOVERY_CURSOR_SCHEMA = ''steadq-recovery-cursor''"
definition RECOVERY_CURSOR_VERSION :: u16 where "RECOVERY_CURSOR_VERSION = 1"
definition RECOVERY_CURSOR_FILE :: string where "RECOVERY_CURSOR_FILE = ''recovery-cursor.json''"
definition RECOVERY_CURSOR_MAX_BYTES :: u64 where "RECOVERY_CURSOR_MAX_BYTES = 16384"
definition MAX_RECOVERY_DIRECTORY_ENTRIES :: u64 where "MAX_RECOVERY_DIRECTORY_ENTRIES = 65536"
definition MAX_RECOVERY_DIRECTORY_NAME_BYTES :: u64 where
  "MAX_RECOVERY_DIRECTORY_NAME_BYTES = MAX_RECOVERY_DIRECTORY_ENTRIES * 255"
definition MAX_RECOVERY_DIRECTORY_ENTRY_CHARGE :: u64 where
  "MAX_RECOVERY_DIRECTORY_ENTRY_CHARGE = MAX_RECOVERY_DIRECTORY_ENTRIES + 1"
definition MAX_RECOVERY_DIRECTORY_NAME_BYTE_CHARGE :: u64 where
  "MAX_RECOVERY_DIRECTORY_NAME_BYTE_CHARGE = MAX_RECOVERY_DIRECTORY_NAME_BYTES + 255"
definition MIN_RECOVERY_PROGRESS_READS :: u64 where "MIN_RECOVERY_PROGRESS_READS = 5"
definition MIN_RECOVERY_PROGRESS_ENTRIES :: u64 where
  "MIN_RECOVERY_PROGRESS_ENTRIES = MAX_RECOVERY_DIRECTORY_ENTRIES * MIN_RECOVERY_PROGRESS_READS + 1"
definition MIN_RECOVERY_PROGRESS_NAME_BYTES :: u64 where
  "MIN_RECOVERY_PROGRESS_NAME_BYTES = MAX_RECOVERY_DIRECTORY_NAME_BYTES * MIN_RECOVERY_PROGRESS_READS + 255"
definition DEFAULT_RECOVERY_DIRECTORY_READS :: u64 where "DEFAULT_RECOVERY_DIRECTORY_READS = 1024"

record WorkBudget =
  wb_max_operations :: u32
  wb_max_duration_ms :: u64

record RecoveryScanBudget =
  sb_max_directories_read :: u64
  sb_max_entries_read :: u64
  sb_max_name_bytes_read :: u64

definition work_budget_default :: WorkBudget where
  "work_budget_default = \<lparr>wb_max_operations = 1000, wb_max_duration_ms = 100\<rparr>"

definition minimum_for_progress :: RecoveryScanBudget where
  "minimum_for_progress =
     \<lparr>sb_max_directories_read = MIN_RECOVERY_PROGRESS_READS, sb_max_entries_read = MIN_RECOVERY_PROGRESS_ENTRIES,
      sb_max_name_bytes_read = MIN_RECOVERY_PROGRESS_NAME_BYTES\<rparr>"

definition scan_budget_default :: RecoveryScanBudget where
  "scan_budget_default = minimum_for_progress\<lparr>sb_max_directories_read := DEFAULT_RECOVERY_DIRECTORY_READS\<rparr>"

definition scan_budget_validate :: "RecoveryScanBudget \<Rightarrow> Error + unit" where
  "scan_budget_validate b =
     res_bind (require (\<not> sb_max_directories_read b < MIN_RECOVERY_PROGRESS_READS)
       (InvalidInput (''recovery max_directories_read must be at least '' @ decimal (unat MIN_RECOVERY_PROGRESS_READS)))) (\<lambda>_.
     res_bind (require (\<not> sb_max_entries_read b < MIN_RECOVERY_PROGRESS_ENTRIES)
       (InvalidInput (''recovery max_entries_read must be at least '' @ decimal (unat MIN_RECOVERY_PROGRESS_ENTRIES)))) (\<lambda>_.
     require (\<not> sb_max_name_bytes_read b < MIN_RECOVERY_PROGRESS_NAME_BYTES)
       (InvalidInput (''recovery max_name_bytes_read must be at least ''
          @ decimal (unat MIN_RECOVERY_PROGRESS_NAME_BYTES)))))"

record RecoveryQuarantine =
  rq_relative_path :: string
  rq_quarantine_id :: id128
  rq_quarantine_name :: string

record RecoveryError =
  re_operation :: string
  re_relative_path :: string
  re_error :: string

record RecoveryStats =
  rs_operations_attempted :: u32
  rs_temp_files_deleted :: u32
  rs_delayed_promoted :: u32
  rs_leases_reaped :: u32
  rs_leases_to_dead :: u32
  rs_buckets_removed :: u32
  rs_shards_removed :: u32
  rs_receipts_compacted :: u32
  rs_receipts_expired :: u32
  rs_quarantined :: "RecoveryQuarantine list"
  rs_budget_exhausted :: bool
  rs_phase_blocked :: bool
  rs_errors :: "RecoveryError list"
  rs_scan_skips :: u32

definition stats_default :: RecoveryStats where
  "stats_default =
     \<lparr>rs_operations_attempted = 0, rs_temp_files_deleted = 0, rs_delayed_promoted = 0, rs_leases_reaped = 0,
      rs_leases_to_dead = 0, rs_buckets_removed = 0, rs_shards_removed = 0, rs_receipts_compacted = 0,
      rs_receipts_expired = 0, rs_quarantined = [], rs_budget_exhausted = False, rs_phase_blocked = False,
      rs_errors = [], rs_scan_skips = 0\<rparr>"

record RecoveryScanStats =
  ss_directories_read :: u64
  ss_entries_read :: u64
  ss_name_bytes_read :: u64

definition scan_stats_default :: RecoveryScanStats where
  "scan_stats_default = \<lparr>ss_directories_read = 0, ss_entries_read = 0, ss_name_bytes_read = 0\<rparr>"

record RecoveryReport =
  rr_stats :: RecoveryStats
  rr_scan :: RecoveryScanStats

datatype RecoveryDirectoryError =
    RD_BudgetExhausted
  | RD_Clock IoError
  | RD_Io IoError

record RecoveryQuarantineCandidate =
  rc_source_directory_fd :: fd
  rc_filename :: string
  rc_relative_path :: string
  rc_reason :: QuarantineReason

text \<open>A pass runs on the handle, its statistics and its scan statistics. The limits of a pass, which the
  source hands to every function, are one record.\<close>

record 's rworld =
  rw_q :: "'s qworld"
  rw_stats :: RecoveryStats
  rw_scan :: RecoveryScanStats

type_synonym ('s, 'a) rproc = "('s rworld, 'a) proc"

record limits =
  lim_work :: WorkBudget
  lim_scan :: RecoveryScanBudget
  lim_deadline_mono :: u64

definition on_queue :: "('s, 'a) qproc \<Rightarrow> ('s, 'a) rproc" where
  "on_queue m = (\<lambda>r. case m (rw_q r) of None \<Rightarrow> None | Some (x, q) \<Rightarrow> Some (x, r\<lparr>rw_q := q\<rparr>))"

definition on_sys :: "('s, 'a) sysproc \<Rightarrow> ('s, 'a) rproc" where
  "on_sys m = on_queue (lift m)"

definition stats_of :: "(RecoveryStats \<Rightarrow> 'a) \<Rightarrow> ('s, 'a) rproc" where
  "stats_of f = (\<lambda>r. Some (f (rw_stats r), r))"

definition tally :: "(RecoveryStats \<Rightarrow> RecoveryStats) \<Rightarrow> ('s, unit) rproc" where
  "tally f = (\<lambda>r. Some ((), r\<lparr>rw_stats := f (rw_stats r)\<rparr>))"

definition scan_of :: "(RecoveryScanStats \<Rightarrow> 'a) \<Rightarrow> ('s, 'a) rproc" where
  "scan_of f = (\<lambda>r. Some (f (rw_scan r), r))"

definition charge :: "(RecoveryScanStats \<Rightarrow> RecoveryScanStats) \<Rightarrow> ('s, unit) rproc" where
  "charge f = (\<lambda>r. Some ((), r\<lparr>rw_scan := f (rw_scan r)\<rparr>))"

definition cursor_of :: "(RecoveryCursor \<Rightarrow> 'a) \<Rightarrow> ('s, 'a) rproc" where
  "cursor_of f = on_queue (asks (\<lambda>q. f (q_recovery_cursor q)))"

definition set_cursor :: "(RecoveryCursor \<Rightarrow> RecoveryCursor) \<Rightarrow> ('s, unit) rproc" where
  "set_cursor f = on_queue (modifies (\<lambda>q. q\<lparr>q_recovery_cursor := f (q_recovery_cursor q)\<rparr>))"

definition budget_spent :: "RecoveryStats \<Rightarrow> RecoveryStats" where
  "budget_spent s = s\<lparr>rs_budget_exhausted := True\<rparr>"

definition attempted :: "RecoveryStats \<Rightarrow> RecoveryStats" where
  "attempted s = s\<lparr>rs_operations_attempted := rs_operations_attempted s + 1\<rparr>"

definition skipped_scan :: "RecoveryStats \<Rightarrow> RecoveryStats" where
  "skipped_scan s = s\<lparr>rs_scan_skips := rs_scan_skips s + 1\<rparr>"

subsection \<open>Recording what happened\<close>

definition record_error :: "string \<Rightarrow> string \<Rightarrow> string \<Rightarrow> RecoveryStats \<Rightarrow> RecoveryStats" where
  "record_error op path er s =
     s\<lparr>rs_errors := rs_errors s @ [\<lparr>re_operation = op, re_relative_path = path, re_error = er\<rparr>]\<rparr>"

definition block_phase :: "string \<Rightarrow> string \<Rightarrow> string \<Rightarrow> RecoveryStats \<Rightarrow> RecoveryStats" where
  "block_phase op path er s = (record_error op path er s)\<lparr>rs_phase_blocked := True\<rparr>"

definition at_phase :: "string \<Rightarrow> IoError \<Rightarrow> string" where
  "at_phase phase source = ''phase='' @ phase @ '': '' @ io_text source"

fun move_failure_record :: "MoveFailure \<Rightarrow> string \<times> string" where
  "move_failure_record (Move_NotCommitted phase source) = (''not_committed'', at_phase (move_phase_text phase) source)"
| "move_failure_record (Move_OutcomeUnknown phase source) = (''outcome_unknown'', at_phase (move_phase_text phase) source)"
| "move_failure_record Move_AlreadyExists = (''collision'', ''phase=Rename: destination already exists'')"
| "move_failure_record Move_SourceMissing = (''source_missing'', ''phase=Rename: source is missing'')"

fun unlink_failure_record :: "UnlinkFailure \<Rightarrow> string \<times> string" where
  "unlink_failure_record (Unlink_NotCommitted phase source) = (''not_committed'', at_phase (unlink_phase_text phase) source)"
| "unlink_failure_record (Unlink_OutcomeUnknown phase source) = (''outcome_unknown'', at_phase (unlink_phase_text phase) source)"
| "unlink_failure_record Unlink_SourceMissing = (''source_missing'', ''phase=Unlink: source is missing'')"

fun remove_phase_text :: "RemoveDirectoryPhase \<Rightarrow> string" where
  "remove_phase_text Phase_Remove = ''Remove''"
| "remove_phase_text ParentFsync = ''ParentFsync''"

fun remove_failure_record :: "RemoveDirectoryFailure \<Rightarrow> string \<times> string" where
  "remove_failure_record (Remove_NotCommitted phase source) = (''not_committed'', at_phase (remove_phase_text phase) source)"
| "remove_failure_record (Remove_OutcomeUnknown phase source) = (''outcome_unknown'', at_phase (remove_phase_text phase) source)"
| "remove_failure_record Remove_SourceMissing = (''source_missing'', ''phase=Remove: directory is missing'')"
| "remove_failure_record Remove_NotEmpty = (''not_empty'', ''phase=Remove: directory is not empty'')"

fun replace_phase_text :: "ReplacePhase \<Rightarrow> string" where
  "replace_phase_text Replace_DestinationIdentity = ''DestinationIdentity''"
| "replace_phase_text Replace_Rename = ''Rename''"
| "replace_phase_text Replace_DirectoryIdentity = ''DirectoryIdentity''"
| "replace_phase_text Replace_DestinationFsync = ''DestinationFsync''"
| "replace_phase_text Replace_SourceFsync = ''SourceFsync''"

fun replace_failure_record :: "ReplaceFailure \<Rightarrow> string \<times> string" where
  "replace_failure_record (Replace_NotCommitted phase source) = (''not_committed'', at_phase (replace_phase_text phase) source)"
| "replace_failure_record (Replace_OutcomeUnknown phase source) = (''outcome_unknown'', at_phase (replace_phase_text phase) source)"
| "replace_failure_record Replace_SourceMissing = (''source_missing'', ''phase=Rename: source is missing'')"
| "replace_failure_record Replace_DestinationChanged =
     (''destination_changed'', ''phase=DestinationIdentity: destination identity changed'')"

definition record_categorized :: "string \<Rightarrow> string \<Rightarrow> string \<times> string \<Rightarrow> RecoveryStats \<Rightarrow> RecoveryStats" where
  "record_categorized op path r = record_error (op @ ''_'' @ fst r) path (snd r)"

definition record_move_failure :: "string \<Rightarrow> string \<Rightarrow> MoveFailure \<Rightarrow> RecoveryStats \<Rightarrow> RecoveryStats" where
  "record_move_failure op path failure = record_categorized op path (move_failure_record failure)"

definition record_unlink_failure :: "string \<Rightarrow> string \<Rightarrow> UnlinkFailure \<Rightarrow> RecoveryStats \<Rightarrow> RecoveryStats" where
  "record_unlink_failure op path failure = record_categorized op path (unlink_failure_record failure)"

definition record_remove_directory_failure ::
  "string \<Rightarrow> string \<Rightarrow> RemoveDirectoryFailure \<Rightarrow> RecoveryStats \<Rightarrow> RecoveryStats" where
  "record_remove_directory_failure op path failure = record_categorized op path (remove_failure_record failure)"

definition record_replace_failure :: "string \<Rightarrow> string \<Rightarrow> ReplaceFailure \<Rightarrow> RecoveryStats \<Rightarrow> RecoveryStats" where
  "record_replace_failure op path failure = record_categorized op path (replace_failure_record failure)"

text \<open>What a failed enumeration does to the statistics, and whether the pass must stop.\<close>

fun record_directory_error ::
  "string \<Rightarrow> string \<Rightarrow> RecoveryDirectoryError \<Rightarrow> RecoveryStats \<Rightarrow> bool \<times> RecoveryStats" where
  "record_directory_error op path RD_BudgetExhausted s = (True, budget_spent s)"
| "record_directory_error op path (RD_Clock er) s =
     (True, budget_spent (block_phase ''clock_monotonic'' path
        (''directory budget clock unavailable during '' @ op @ '': '' @ io_text er) s))"
| "record_directory_error op path (RD_Io er) s = (False, block_phase op path (io_text er) s)"

definition directory_failed :: "string \<Rightarrow> string \<Rightarrow> RecoveryDirectoryError \<Rightarrow> ('s, bool) rproc" where
  "directory_failed op path er =
     (\<lambda>r. let (stop, s) = record_directory_error op path er (rw_stats r) in Some (stop, r\<lparr>rw_stats := s\<rparr>))"

text \<open>The \<^verbatim>\<open>{:?}\<close> form of a raw name.\<close>

definition escape_default :: "u8 \<Rightarrow> string" where
  "escape_default b =
     (if b = 9 then [CHR 0x5C, CHR ''t''] else if b = 13 then [CHR 0x5C, CHR ''r''] else if b = 10 then [CHR 0x5C, CHR ''n'']
      else if b \<in> {0x27, 0x22, 0x5C} then [CHR 0x5C, byte_char b]
      else if 0x20 \<le> b \<and> b \<le> 0x7E then [byte_char b]
      else [CHR 0x5C, CHR ''x''] @ hex_encode [b])"

definition raw_name_for_error :: "DirEntryName \<Rightarrow> string" where
  "raw_name_for_error name = ''b'' @ [CHR 0x22] @ concat (map escape_default name) @ [CHR 0x22]"

definition all_observed_children_absent :: "nat \<Rightarrow> nat \<Rightarrow> bool" where
  "all_observed_children_absent missing observed = (missing = observed)"

subsection \<open>Budgets during a pass\<close>

definition budget_time_exceeded :: "'s os \<Rightarrow> u64 \<Rightarrow> ('s, IoError + bool) sysproc" where
  "budget_time_exceeded k deadline_mono =
     io_try (clock_monotonic_ns k) (\<lambda>now. io_return (Ok (now \<ge> deadline_mono)))"

definition work_budget_exhausted :: "'s env \<Rightarrow> limits \<Rightarrow> ('s, bool) rproc" where
  "work_budget_exhausted e l =
     io_bind (stats_of rs_operations_attempted) (\<lambda>ops.
       if ops \<ge> wb_max_operations (lim_work l) then io_return True
       else io_bind (on_sys (budget_time_exceeded (env_os e) (lim_deadline_mono l))) (\<lambda>r. case r of
           Ok exceeded \<Rightarrow> io_return exceeded
         | Err er \<Rightarrow> io_bind (tally (block_phase ''clock_monotonic'' ''/''
             (''recovery budget clock unavailable: '' @ io_text er))) (\<lambda>_. io_return True)))"

definition has_recovery_budget :: "RecoveryStats \<Rightarrow> bool" where
  "has_recovery_budget s = (\<not> rs_budget_exhausted s)"

definition read_recovery_directory :: "'s env \<Rightarrow> limits \<Rightarrow> fd \<Rightarrow> ('s, RecoveryDirectoryError + DirEntryName list) rproc" where
  "read_recovery_directory e l dir_fd =
     io_bind (scan_of id) (\<lambda>s.
     let b = lim_scan l in
     if ss_directories_read s \<ge> sb_max_directories_read b then io_return (Err RD_BudgetExhausted)
     else if saturating_sub (sb_max_entries_read b) (ss_entries_read s) < MAX_RECOVERY_DIRECTORY_ENTRY_CHARGE
        \<or> saturating_sub (sb_max_name_bytes_read b) (ss_name_bytes_read s) < MAX_RECOVERY_DIRECTORY_NAME_BYTE_CHARGE
     then io_return (Err RD_BudgetExhausted)
     else
       io_bind (charge (\<lambda>s. s\<lparr>ss_directories_read := saturating_add (ss_directories_read s) 1\<rparr>)) (\<lambda>_.
       io_bind (on_sys (read_dir_entries_bounded_until_with_progress (env_os e) dir_fd MAX_RECOVERY_DIRECTORY_ENTRIES
                  MAX_RECOVERY_DIRECTORY_NAME_BYTES (budget_time_exceeded (env_os e) (lim_deadline_mono l)))) (\<lambda>result.
       let progress = (case result of Ok enumeration \<Rightarrow> de_progress enumeration | Err er \<Rightarrow> enumeration_progress er) in
       io_bind (charge (\<lambda>s. s\<lparr>ss_entries_read := saturating_add (ss_entries_read s) (entries_read progress),
                  ss_name_bytes_read := saturating_add (ss_name_bytes_read s) (name_bytes_read progress)\<rparr>)) (\<lambda>_.
         io_return (case result of
             Ok enumeration \<Rightarrow> Ok (de_entries enumeration)
           | Err (Cancelled _) \<Rightarrow> Err RD_BudgetExhausted
           | Err (CancellationCheck er _) \<Rightarrow> Err (RD_Clock er)
           | Err (Enumeration_Io er _) \<Rightarrow> Err (RD_Io er))))))"

text \<open>The loop of a streamed directory: whether the visitor stopped it, and the position to resume at.\<close>

partial_function (option) stream_recovery_loop ::
  "'s env \<Rightarrow> limits \<Rightarrow> (DirEntryName \<Rightarrow> ('s, bool) rproc) \<Rightarrow> DirectoryStream \<Rightarrow> 's rworld
     \<Rightarrow> (((RecoveryDirectoryError + bool) \<times> int) \<times> 's rworld) option" where
  "stream_recovery_loop e l visit stream r =
     (let position = ds_position stream in
      if ss_entries_read (rw_scan r) \<ge> sb_max_entries_read (lim_scan l)
         \<or> ss_name_bytes_read (rw_scan r) \<ge> sb_max_name_bytes_read (lim_scan l)
      then Some ((Err RD_BudgetExhausted, position), r)
      else (case on_sys (budget_time_exceeded (env_os e) (lim_deadline_mono l)) r of
          None \<Rightarrow> None
        | Some (Inl er, r1) \<Rightarrow> Some ((Err (RD_Clock er), position), r1)
        | Some (Inr exceeded, r1) \<Rightarrow>
            if exceeded then Some ((Err RD_BudgetExhausted, position), r1)
            else (case on_sys (next_entry (env_os e) stream) r1 of
                None \<Rightarrow> None
              | Some (Inl er, r2) \<Rightarrow> Some ((Err (RD_Io er), position), r2)
              | Some (Inr (None, _), r2) \<Rightarrow> Some ((Ok False, position), r2)
              | Some (Inr (Some name, stream'), r2) \<Rightarrow>
                  (case visit name (r2\<lparr>rw_scan := (rw_scan r2)\<lparr>
                          ss_entries_read := saturating_add (ss_entries_read (rw_scan r2)) 1,
                          ss_name_bytes_read := saturating_add (ss_name_bytes_read (rw_scan r2))
                                                  (word_of_nat (length name))\<rparr>\<rparr>) of
                     None \<Rightarrow> None
                   | Some (stopped, r3) \<Rightarrow>
                       if stopped then Some ((Ok True, position), r3)
                       else stream_recovery_loop e l visit stream' r3))))"

definition stream_recovery_directory ::
  "'s env \<Rightarrow> limits \<Rightarrow> fd \<Rightarrow> int \<Rightarrow> (DirEntryName \<Rightarrow> ('s, bool) rproc)
     \<Rightarrow> ('s, (RecoveryDirectoryError + bool) \<times> int) rproc" where
  "stream_recovery_directory e l dir_fd position visit =
     io_bind (scan_of ss_directories_read) (\<lambda>read.
       if read \<ge> sb_max_directories_read (lim_scan l) then io_return (Err RD_BudgetExhausted, position)
       else
         io_bind (charge (\<lambda>s. s\<lparr>ss_directories_read := saturating_add (ss_directories_read s) 1\<rparr>)) (\<lambda>_.
         io_bind (on_sys (stream_open_at (env_os e) dir_fd position)) (\<lambda>opened. case opened of
           Err er \<Rightarrow> io_return (Err (RD_Io er), position)
         | Ok stream \<Rightarrow> stream_recovery_loop e l visit stream)))"

subsection \<open>Quarantine and retries\<close>

definition record_quarantine ::
  "RecoveryQuarantineCandidate \<Rightarrow> QuarantinePublishFailure + QuarantinePublication \<Rightarrow> ('s, bool) rproc" where
  "record_quarantine candidate result =
     (case result of
         Ok publication \<Rightarrow>
           io_bind (tally (\<lambda>s. s\<lparr>rs_quarantined := rs_quarantined s @
               [\<lparr>rq_relative_path = rc_relative_path candidate, rq_quarantine_id = qpub_quarantine_id publication,
                 rq_quarantine_name = qpub_quarantine_name publication\<rparr>]\<rparr>)) (\<lambda>_. io_return True)
       | Err (QP_BudgetExhausted _ _ _) \<Rightarrow>
           io_bind (tally (\<lambda>s. budget_spent (record_error ''quarantine_budget_exhausted'' (rc_relative_path candidate)
               ''quarantine collision retries exhausted the remaining operation budget'' s))) (\<lambda>_. io_return False)
       | Err er \<Rightarrow>
           io_bind (tally (record_error ''quarantine'' (rc_relative_path candidate) (quarantine_failure_text er))) (\<lambda>_.
             io_return True))"

definition attempts_charged :: "nat \<Rightarrow> RecoveryStats \<Rightarrow> RecoveryStats" where
  "attempts_charged consumed s = s\<lparr>rs_operations_attempted := saturating_add (rs_operations_attempted s)
     (if consumed < 2 ^ 32 then word_of_nat consumed else -1)\<rparr>"

definition quarantine_recovery_object_with_ids ::
  "'s env \<Rightarrow> limits \<Rightarrow> RecoveryQuarantineCandidate \<Rightarrow> ('s, IoError + id128) qproc \<Rightarrow> ('s, bool) rproc" where
  "quarantine_recovery_object_with_ids e l candidate next_id =
     io_bind (stats_of rs_operations_attempted) (\<lambda>ops.
     let remaining_attempts = saturating_sub (wb_max_operations (lim_work l)) ops in
     if remaining_attempts = 0 then io_bind (tally budget_spent) (\<lambda>_. io_return False)
     else
       io_bind (on_queue (publish_quarantine_object_with_ids e (rc_source_directory_fd candidate) (rc_filename candidate)
                  (rc_reason candidate) (unat remaining_attempts) next_id)) (\<lambda>result.
       io_bind (tally (attempts_charged (consumed_attempts result))) (\<lambda>_. record_quarantine candidate result)))"

definition quarantine_recovery_object :: "'s env \<Rightarrow> limits \<Rightarrow> RecoveryQuarantineCandidate \<Rightarrow> ('s, bool) rproc" where
  "quarantine_recovery_object e l candidate =
     quarantine_recovery_object_with_ids e l candidate (lift (random_128bit (env_os e)))"

definition remember_hierarchy_retry_or_block ::
  "RecoveryPhase \<Rightarrow> RecoveryHierarchyRetryKind \<Rightarrow> bytes list \<Rightarrow> string \<Rightarrow> ('s, bool) rproc" where
  "remember_hierarchy_retry_or_block phase kind components path =
     io_bind (cursor_of (\<lambda>c. fst (remember_hierarchy_retry phase kind components c))) (\<lambda>remembered.
     io_bind (set_cursor (\<lambda>c. snd (remember_hierarchy_retry phase kind components c))) (\<lambda>_.
     case remembered of
       Remember_Exact \<Rightarrow> io_return True
     | Remember_Overflow \<Rightarrow>
         io_bind (tally (block_phase ''hierarchy_retry_overflow'' path
             ''recovery hierarchy retry ledger is full; phase will be fully rescanned'')) (\<lambda>_. io_return True)
     | Remember_Invalid \<Rightarrow>
         io_bind (tally (block_phase ''hierarchy_retry_invalid'' path
             ''recovery hierarchy retry path is not canonical UTF-8'')) (\<lambda>_. io_return False)))"

definition prepare_phase :: "RecoveryPhase \<Rightarrow> ('s, RecoveryHierarchyRetry option) rproc" where
  "prepare_phase phase =
     io_bind (cursor_of (\<lambda>c. fst (prepare_hierarchy_retry_phase phase c))) (\<lambda>rt.
     io_bind (set_cursor (\<lambda>c. snd (prepare_hierarchy_retry_phase phase c))) (\<lambda>_. io_return rt))"

text \<open>The deadline of a retry: an error, or whether the pass may go on.\<close>

definition retry_deadline :: "'s env \<Rightarrow> limits \<Rightarrow> ('s, bool) rproc" where
  "retry_deadline e l =
     io_bind (on_sys (budget_time_exceeded (env_os e) (lim_deadline_mono l))) (\<lambda>r. case r of
       Ok True \<Rightarrow> io_bind (tally budget_spent) (\<lambda>_. io_return False)
     | Ok False \<Rightarrow> io_return True
     | Err er \<Rightarrow>
         io_bind (tally (\<lambda>s. budget_spent (block_phase ''clock_monotonic'' ''/''
             (''recovery retry budget clock unavailable: '' @ io_text er) s))) (\<lambda>_. io_return False))"

datatype RetryOpened = Retry_Stopped | Retry_Absent | Retry_Failed IoError | Retry_Directory "fd option"

fun open_retry_components :: "'s env \<Rightarrow> limits \<Rightarrow> fd \<Rightarrow> fd option \<Rightarrow> string list \<Rightarrow> ('s, RetryOpened) rproc" where
  "open_retry_components e l phase_root_fd current [] = io_return (Retry_Directory current)"
| "open_retry_components e l phase_root_fd current (component # rest) =
     io_bind (retry_deadline e l) (\<lambda>going.
       if \<not> going then io_return Retry_Stopped
       else
         let parent_fd = (case current of Some directory \<Rightarrow> directory | None \<Rightarrow> phase_root_fd) in
         io_bind (on_sys (open_directory (env_os e) parent_fd component)) (\<lambda>opened. case opened of
           Ok directory \<Rightarrow> open_retry_components e l phase_root_fd (Some directory) rest
         | Err er \<Rightarrow> io_return (if raw_os_error er = Some ENOENT then Retry_Absent else Retry_Failed er)))"

definition retry_path :: "RecoveryHierarchyRetry \<Rightarrow> string" where
  "retry_path rt = join_with (CHR ''/'') (map (\<lambda>component. hex_encode (as_bytes component)) (retry_components rt))"

text \<open>A validated retry has a component, so that the directory of the source's \<^verbatim>\<open>expect\<close> is there; without
  one this model enumerates the root of the phase.\<close>

definition enumerate_retry ::
  "'s env \<Rightarrow> limits \<Rightarrow> RecoveryHierarchyRetry \<Rightarrow> fd \<Rightarrow> ('s, bool + unit) rproc" where
  "enumerate_retry e l rt directory =
     io_bind (read_recovery_directory e l directory) (\<lambda>listed. case listed of
       Ok _ \<Rightarrow> io_return (Ok ())
     | Err er \<Rightarrow>
         io_bind (directory_failed ''hierarchy_retry_read'' (retry_path rt) er) (\<lambda>stop.
           if stop then io_return (Err True)
           else io_bind (tally skipped_scan) (\<lambda>_.
             io_bind (set_cursor (advance_hierarchy_retry_frontier rt)) (\<lambda>_. io_return (Err False)))))"

definition retry_one_hierarchy_directory ::
  "'s env \<Rightarrow> limits \<Rightarrow> RecoveryPhase \<Rightarrow> RecoveryHierarchyRetry option \<Rightarrow> fd \<Rightarrow> ('s, bool) rproc" where
  "retry_one_hierarchy_directory e l phase rt phase_root_fd =
     (case rt of
        None \<Rightarrow> io_bind (set_cursor (drop_frontier phase)) (\<lambda>_. io_return False)
      | Some rt \<Rightarrow>
          io_bind (retry_deadline e l) (\<lambda>going.
            if \<not> going then io_return True
            else
              io_bind (open_retry_components e l phase_root_fd None (retry_components rt)) (\<lambda>opened.
              let resolved = io_bind (set_cursor (resolve_hierarchy_retry phase rt)) (\<lambda>_. io_return False) in
              case opened of
                Retry_Stopped \<Rightarrow> io_return True
              | Retry_Failed er \<Rightarrow>
                  io_bind (tally (\<lambda>s. block_phase ''hierarchy_retry_open'' (retry_path rt) (io_text er) (skipped_scan s))) (\<lambda>_.
                  io_bind (set_cursor (advance_hierarchy_retry_frontier rt)) (\<lambda>_. io_return False))
              | Retry_Absent \<Rightarrow> resolved
              | Retry_Directory current \<Rightarrow>
                  if retry_kind rt = RetryEnumerate then
                    io_bind (enumerate_retry e l rt (case current of Some fd \<Rightarrow> fd | None \<Rightarrow> phase_root_fd)) (\<lambda>listed.
                      case listed of Err stop \<Rightarrow> io_return stop | Ok _ \<Rightarrow> resolved)
                  else resolved)))"

subsection \<open>The lock and the stored cursor\<close>

record RecoveryCursorRecord =
  crec_schema :: string
  crec_version :: u16
  crec_queue_id :: string
  crec_cursor :: RecoveryCursor

text \<open>The derived JSON code of a record: what it writes, and what it reads from bytes.\<close>

record cursor_json =
  cj_to_vec :: "RecoveryCursorRecord \<Rightarrow> string + bytes"
  cj_from_slice :: "bytes \<Rightarrow> string + RecoveryCursorRecord"

definition recovery_cursor_open_flags :: int where
  "recovery_cursor_open_flags = O_CLOEXEC OR O_NOFOLLOW OR O_NONBLOCK"

definition recovery_lock_open_flags :: int where
  "recovery_lock_open_flags = O_CLOEXEC OR O_NOFOLLOW OR O_RDWR"

definition cursor_file_metadata_is_valid :: "u32 \<Rightarrow> u64 \<Rightarrow> bool" where
  "cursor_file_metadata_is_valid mode link_count = (mode AND S_IFMT = S_IFREG \<and> link_count = 1)"

definition cursor_record_size_is_valid :: "u64 \<Rightarrow> bool" where
  "cursor_record_size_is_valid len = (1 \<le> len \<and> len \<le> RECOVERY_CURSOR_MAX_BYTES)"

definition cursor_record_version_is_supported :: "RecoveryCursorRecord \<Rightarrow> bool" where
  "cursor_record_version_is_supported r =
     (crec_schema r = RECOVERY_CURSOR_SCHEMA \<and> crec_version r = RECOVERY_CURSOR_VERSION)"

definition cursor_record_bytes_fit :: "nat \<Rightarrow> bool" where
  "cursor_record_bytes_fit len = (len < 2 ^ 64 \<and> cursor_record_size_is_valid (word_of_nat len))"

definition cursor_file_is_absent :: "IoError \<Rightarrow> bool" where
  "cursor_file_is_absent er = (raw_os_error er = Some ENOENT)"

definition random_hex_between :: "string \<Rightarrow> string \<Rightarrow> string \<Rightarrow> bool" where
  "random_hex_between before after name =
     (case strip_prefix before name of
        None \<Rightarrow> False
      | Some rest \<Rightarrow>
          (case strip_suffix after rest of
             None \<Rightarrow> False
           | Some random_hex \<Rightarrow>
               length random_hex = 32
               \<and> list_all (\<lambda>b. (0x30 \<le> b \<and> b \<le> 0x39) \<or> (0x61 \<le> b \<and> b \<le> 0x66)) (as_bytes random_hex)))"

definition compaction_temporary_name :: "string \<Rightarrow> bool" where
  "compaction_temporary_name name = random_hex_between ''.compact-'' ''.tmp'' name"

definition recovery_cursor_temporary_name :: "string \<Rightarrow> bool" where
  "recovery_cursor_temporary_name name = random_hex_between ''.recovery-cursor.'' ''.tmp'' name"

definition recovery_lock_exists :: "IoError \<Rightarrow> bool" where
  "recovery_lock_exists er = (io_kind er = Kind_AlreadyExists)"

definition check_cursor_record :: "id128 \<Rightarrow> RecoveryCursorRecord \<Rightarrow> Error + RecoveryCursor" where
  "check_cursor_record queue_id r =
     res_bind (require (cursor_record_version_is_supported r)
                (QueueCorrupt ''recovery cursor schema or version is unsupported'')) (\<lambda>_.
     res_bind (require (crec_queue_id r = hex_encode (arr_bytes queue_id))
                (QueueCorrupt ''recovery cursor belongs to another queue'')) (\<lambda>_.
     res_bind (require (cursor_is_valid (crec_cursor r))
                (QueueCorrupt ''recovery cursor contains an invalid component'')) (\<lambda>_.
       Ok (crec_cursor r))))"

definition load_recovery_cursor :: "'s env \<Rightarrow> cursor_json \<Rightarrow> fd \<Rightarrow> id128 \<Rightarrow> ('s, Error + RecoveryCursor) qproc" where
  "load_recovery_cursor e js root_fd queue_id =
     io_try (from_io (open_directory (env_os e) root_fd ''control'')) (\<lambda>control_fd.
     io_bind (lift (openat (env_os e) control_fd RECOVERY_CURSOR_FILE recovery_cursor_open_flags 0)) (\<lambda>opened. case opened of
       Err er \<Rightarrow>
         io_return (if cursor_file_is_absent er then Ok cursor_default else Err (error_from_io er))
     | Ok cursor_fd \<Rightarrow>
         io_try (from_io (fstat (env_os e) cursor_fd)) (\<lambda>stat.
         if \<not> cursor_file_metadata_is_valid (st_mode stat) (st_nlink stat)
         then io_return (Err (QueueCorrupt ''recovery cursor is not a singly linked regular file''))
         else if st_size stat < 0 then io_return (Err (QueueCorrupt ''recovery cursor has negative size''))
         else if \<not> cursor_record_size_is_valid (word_of_int (st_size stat))
         then io_return (Err (QueueCorrupt ''recovery cursor size is invalid''))
         else
           io_try (from_io (pread_exact (env_os e) cursor_fd (nat (st_size stat)) 0)) (\<lambda>bs.
           io_return
             (res_bind (map_err (\<lambda>er. QueueCorrupt (''recovery cursor decode: '' @ er)) (cj_from_slice js bs))
               (check_cursor_record queue_id))))))"

subsection \<open>The directory walk\<close>

text \<open>A loop over entries whose body continues with a new count or ends the whole phase.\<close>

fun each_of :: "('x \<Rightarrow> 'a \<Rightarrow> ('w, 'a option) proc) \<Rightarrow> 'x list \<Rightarrow> 'a \<Rightarrow> ('w, 'a option) proc" where
  "each_of body [] a = io_return (Some a)"
| "each_of body (x # xs) a =
     io_bind (body x a) (\<lambda>r. case r of None \<Rightarrow> io_return None | Some a' \<Rightarrow> each_of body xs a')"

datatype Descend =
    Descend_Entries fd "DirEntryName list"
  | Descend_Skip
  | Descend_Stop

record Level =
  lv_phase :: RecoveryPhase
  lv_name :: string
  lv_components :: "bytes list"
  lv_open_operation :: string
  lv_read_operation :: string
  lv_path :: string

datatype Prune = Prune_Removed | Prune_Missing | Prune_Kept | Prune_Stop

text \<open>The three checks of a directory's name return the change to the statistics with the name.\<close>

definition ascii_directory_name :: "string \<Rightarrow> DirEntryName \<Rightarrow> string \<Rightarrow> RecoveryStats \<Rightarrow> string option \<times> RecoveryStats" where
  "ascii_directory_name op entry kind s =
     (case as_ascii_str entry of
        Some name \<Rightarrow> (Some name, s)
      | None \<Rightarrow> (None, record_error op (raw_name_for_error entry) (kind @ '' directory name is not ASCII'') s))"

definition record_noncanonical :: "string \<Rightarrow> string \<Rightarrow> string \<Rightarrow> RecoveryStats \<Rightarrow> RecoveryStats" where
  "record_noncanonical op name kind = record_error op name (kind @ '' directory name is not canonical'')"

definition boot_directory_name :: "string \<Rightarrow> DirEntryName \<Rightarrow> RecoveryStats \<Rightarrow> string option \<times> RecoveryStats" where
  "boot_directory_name op entry s =
     (case ascii_directory_name op entry ''boot'' s of
        (None, s') \<Rightarrow> (None, s')
      | (Some name, s') \<Rightarrow>
          if boot_id_bytes name = None then (None, record_noncanonical op name ''boot'' s') else (Some name, s'))"

definition bucket_directory_name :: "string \<Rightarrow> DirEntryName \<Rightarrow> RecoveryStats \<Rightarrow> (string \<times> u64) option \<times> RecoveryStats" where
  "bucket_directory_name op entry s =
     (case ascii_directory_name op entry ''bucket'' s of
        (None, s') \<Rightarrow> (None, s')
      | (Some name, s') \<Rightarrow>
          (case bucket_from_hex name of
             None \<Rightarrow> (None, record_noncanonical op name ''bucket'' s')
           | Some bucket \<Rightarrow> (Some (name, bucket), s')))"

definition shard_directory_name ::
  "string \<Rightarrow> DirEntryName \<Rightarrow> u32 \<Rightarrow> RecoveryStats \<Rightarrow> (string \<times> u32) option \<times> RecoveryStats" where
  "shard_directory_name op entry shard_count s =
     (case ascii_directory_name op entry ''shard'' s of
        (None, s') \<Rightarrow> (None, s')
      | (Some name, s') \<Rightarrow>
          (case shard_from_hex name of
             None \<Rightarrow> (None, record_noncanonical op name ''shard'' s')
           | Some shard \<Rightarrow>
               if shard \<ge> shard_count
               then (None, record_error op name ''shard directory is outside the queue shard range'' s')
               else (Some (name, shard), s')))"

definition name_checked :: "(RecoveryStats \<Rightarrow> 'a \<times> RecoveryStats) \<Rightarrow> ('s, 'a) rproc" where
  "name_checked f = (\<lambda>r. Some (fst (f (rw_stats r)), r\<lparr>rw_stats := snd (f (rw_stats r))\<rparr>))"

definition remember_level_retry :: "Level \<Rightarrow> RecoveryHierarchyRetryKind \<Rightarrow> ('s, Descend) rproc" where
  "remember_level_retry level kind =
     io_map (\<lambda>remembered. if remembered then Descend_Skip else Descend_Stop)
       (remember_hierarchy_retry_or_block (lv_phase level) kind (lv_components level) (lv_path level))"

definition descend_level :: "'s env \<Rightarrow> limits \<Rightarrow> fd \<Rightarrow> Level \<Rightarrow> ('s, Descend) rproc" where
  "descend_level e l parent_fd level =
     io_bind (on_sys (open_directory (env_os e) parent_fd (lv_name level))) (\<lambda>opened. case opened of
       Err er \<Rightarrow>
         io_bind (tally (\<lambda>s. block_phase (lv_open_operation level) (lv_path level) (io_text er) (skipped_scan s))) (\<lambda>_.
           remember_level_retry level RetryOpen)
     | Ok fd \<Rightarrow>
         io_bind (read_recovery_directory e l fd) (\<lambda>listed. case listed of
           Ok entries \<Rightarrow> io_return (Descend_Entries fd (sort entries))
         | Err er \<Rightarrow>
             io_bind (tally skipped_scan) (\<lambda>_.
             io_bind (directory_failed (lv_read_operation level) (lv_path level) er) (\<lambda>stop.
               if stop then io_return Descend_Stop else remember_level_retry level RetryEnumerate))))"

definition prune_empty_directory :: "'s env \<Rightarrow> limits \<Rightarrow> fd \<Rightarrow> string \<Rightarrow> string \<Rightarrow> string \<Rightarrow> ('s, Prune) rproc" where
  "prune_empty_directory e l parent_fd name op path =
     io_bind (work_budget_exhausted e l) (\<lambda>exhausted.
       if exhausted then io_bind (tally budget_spent) (\<lambda>_. io_return Prune_Stop)
       else
         io_bind (tally attempted) (\<lambda>_.
         io_bind (on_sys (remove_empty_directory_verified (env_os e) parent_fd name)) (\<lambda>removed. case removed of
           Ok _ \<Rightarrow> io_return Prune_Removed
         | Err Remove_SourceMissing \<Rightarrow> io_return Prune_Missing
         | Err Remove_NotEmpty \<Rightarrow> io_return Prune_Kept
         | Err failure \<Rightarrow>
             io_bind (tally (record_remove_directory_failure op path failure)) (\<lambda>_. io_return Prune_Kept))))"

text \<open>The steps every phase shares: passing over what the cursor has passed, stopping at the end of the
  budget, entering a directory, and counting one that was removed.\<close>

definition within_budget :: "'s env \<Rightarrow> limits \<Rightarrow> ('s, 'a option) rproc \<Rightarrow> ('s, 'a option) rproc" where
  "within_budget e l m =
     io_bind (work_budget_exhausted e l) (\<lambda>exhausted.
       if exhausted then io_bind (tally budget_spent) (\<lambda>_. io_return None) else m)"

definition unless_before ::
  "(RecoveryCursor \<Rightarrow> bytes list option) \<Rightarrow> bytes list \<Rightarrow> DirEntryName \<Rightarrow> 'a \<Rightarrow> ('s, 'a option) rproc \<Rightarrow> ('s, 'a option) rproc" where
  "unless_before position parents entry a m =
     io_bind (cursor_of position) (\<lambda>saved.
       if directory_before_cursor saved parents entry then io_return (Some a) else m)"

definition named ::
  "(RecoveryStats \<Rightarrow> 'n option \<times> RecoveryStats) \<Rightarrow> 'a \<Rightarrow> ('n \<Rightarrow> ('s, 'a option) rproc) \<Rightarrow> ('s, 'a option) rproc" where
  "named check a f =
     io_bind (name_checked check) (\<lambda>name. case name of None \<Rightarrow> io_return (Some a) | Some n \<Rightarrow> f n)"

definition entering ::
  "'s env \<Rightarrow> limits \<Rightarrow> fd \<Rightarrow> Level \<Rightarrow> 'a \<Rightarrow> (fd \<Rightarrow> DirEntryName list \<Rightarrow> ('s, 'a option) rproc) \<Rightarrow> ('s, 'a option) rproc" where
  "entering e l parent_fd level a f =
     io_bind (descend_level e l parent_fd level) (\<lambda>d. case d of
       Descend_Entries fd entries \<Rightarrow> f fd entries
     | Descend_Skip \<Rightarrow> io_return (Some a)
     | Descend_Stop \<Rightarrow> io_return None)"

definition pruning ::
  "'s env \<Rightarrow> limits \<Rightarrow> fd \<Rightarrow> string \<Rightarrow> string \<Rightarrow> string \<Rightarrow> (RecoveryStats \<Rightarrow> RecoveryStats) \<Rightarrow> nat \<Rightarrow> ('s, nat option) rproc" where
  "pruning e l parent_fd name op path removed missing =
     io_bind (prune_empty_directory e l parent_fd name op path) (\<lambda>p. case p of
       Prune_Removed \<Rightarrow> io_bind (tally removed) (\<lambda>_. io_return (Some (missing + 1)))
     | Prune_Missing \<Rightarrow> io_return (Some (missing + 1))
     | Prune_Kept \<Rightarrow> io_return (Some missing)
     | Prune_Stop \<Rightarrow> io_return None)"

definition shard_gone :: "RecoveryStats \<Rightarrow> RecoveryStats" where
  "shard_gone s = s\<lparr>rs_shards_removed := rs_shards_removed s + 1\<rparr>"

definition bucket_gone :: "RecoveryStats \<Rightarrow> RecoveryStats" where
  "bucket_gone s = s\<lparr>rs_buckets_removed := rs_buckets_removed s + 1\<rparr>"

text \<open>The start of a phase: its directory, one retry, and the sorted entries of the directory.\<close>

definition open_phase ::
  "'s env \<Rightarrow> limits \<Rightarrow> RecoveryPhase \<Rightarrow> string \<Rightarrow> string \<Rightarrow> (fd \<Rightarrow> ('s, unit) rproc) \<Rightarrow> ('s, unit) rproc" where
  "open_phase e l phase dir open_operation f =
     io_bind (on_queue (asks q_root_fd)) (\<lambda>root_fd.
     io_bind (on_sys (open_directory (env_os e) root_fd dir)) (\<lambda>opened. case opened of
       Err er \<Rightarrow> tally (block_phase open_operation dir (io_text er))
     | Ok fd \<Rightarrow>
         io_bind (prepare_phase phase) (\<lambda>rt.
         io_bind (retry_one_hierarchy_directory e l phase rt fd) (\<lambda>stop.
           if stop then io_return () else f fd))))"

definition reading_phase ::
  "'s env \<Rightarrow> limits \<Rightarrow> fd \<Rightarrow> string \<Rightarrow> string \<Rightarrow> (DirEntryName list \<Rightarrow> ('s, unit) rproc) \<Rightarrow> ('s, unit) rproc" where
  "reading_phase e l fd dir read_operation f =
     io_bind (read_recovery_directory e l fd) (\<lambda>listed. case listed of
       Ok entries \<Rightarrow> f (sort entries)
     | Err er \<Rightarrow> io_map (\<lambda>_. ()) (directory_failed read_operation dir er))"

text \<open>A completed walk forgets its position.\<close>

definition finishing :: "('s, 'a option) rproc \<Rightarrow> ('s, unit) rproc \<Rightarrow> ('s, unit) rproc" where
  "finishing m finish = io_bind m (\<lambda>r. case r of None \<Rightarrow> io_return () | Some _ \<Rightarrow> finish)"

end
