(* ===== verification/Steadq_Phases.thy ===== *)
theory Steadq_Phases
  imports Steadq_Recovery
begin

text \<open>
  The phases of recovery, from \<^verbatim>\<open>src/crates/steadq-core/src/recovery/phases/\<close>: promotion of delayed
  jobs (\<^verbatim>\<open>promote.rs\<close>), reaping of expired leases (\<^verbatim>\<open>reap.rs\<close>), and temporary files, compaction and
  deletion of receipts (\<^verbatim>\<open>retain.rs\<close>).

  Each level of a walk is a definition of its own; the loop over its entries is \<^verbatim>\<open>each_of\<close>. A position
  saved for an entry is rewound when the entry could not be dealt with.
\<close>

subsection \<open>Entries\<close>

text \<open>An entry of a walk that resumes after the cursor: it is skipped, or becomes the new position. The body
  sees how to leave the phase with the previous position.\<close>

definition visit_entry ::
  "'s env \<Rightarrow> limits \<Rightarrow> (RecoveryCursor \<Rightarrow> 'p option) \<Rightarrow> ('p option \<Rightarrow> RecoveryCursor \<Rightarrow> RecoveryCursor)
     \<Rightarrow> ('p \<Rightarrow> bool) \<Rightarrow> 'p \<Rightarrow> string \<Rightarrow> DirEntryName \<Rightarrow> 'a
     \<Rightarrow> (('s, 'a option) rproc \<Rightarrow> string \<Rightarrow> ('s, 'a option) rproc) \<Rightarrow> ('s, 'a option) rproc" where
  "visit_entry e l get put should_skip here op raw_entry a f =
     io_bind (cursor_of get) (\<lambda>previous_entry_cursor.
       if (case previous_entry_cursor of Some cursor \<Rightarrow> should_skip cursor | None \<Rightarrow> False) then io_return (Some a)
       else within_budget e l
         (io_bind (set_cursor (put (Some here))) (\<lambda>_. case as_ascii_str raw_entry of
            None \<Rightarrow>
              io_bind (tally (record_error op (raw_name_for_error raw_entry) ''entry name is not ASCII'')) (\<lambda>_.
                io_return (Some a))
          | Some entry \<Rightarrow>
              f (io_bind (set_cursor (put previous_entry_cursor)) (\<lambda>_. io_return None)) entry)))"

definition quarantining ::
  "'s env \<Rightarrow> limits \<Rightarrow> fd \<Rightarrow> string \<Rightarrow> string \<Rightarrow> QuarantineReason \<Rightarrow> ('s, 'a option) rproc \<Rightarrow> 'a \<Rightarrow> ('s, 'a option) rproc" where
  "quarantining e l shard_fd entry path reason rewind a =
     io_bind (quarantine_recovery_object e l
         \<lparr>rc_source_directory_fd = shard_fd, rc_filename = entry, rc_relative_path = path, rc_reason = reason\<rparr>) (\<lambda>going.
       if going then io_return (Some a) else rewind)"

fun is_queue_corrupt :: "Error \<Rightarrow> bool" where
  "is_queue_corrupt (QueueCorrupt _) = True"
| "is_queue_corrupt _ = False"

text \<open>The structural check before a transition; a corrupt object goes to quarantine.\<close>

definition validating ::
  "'s env \<Rightarrow> limits \<Rightarrow> string \<Rightarrow> fd \<Rightarrow> string \<Rightarrow> string \<Rightarrow> ActivePathContext \<Rightarrow> ('s, 'a option) rproc \<Rightarrow> 'a
     \<Rightarrow> ('s, 'a option) rproc \<Rightarrow> ('s, 'a option) rproc" where
  "validating e l op shard_fd entry path ctx rewind a f =
     io_bind (on_queue (validate_active_object e shard_fd entry ctx)) (\<lambda>valid. case valid of
       Ok _ \<Rightarrow> f
     | Err er \<Rightarrow>
         io_bind (tally (record_error op path (error_text er))) (\<lambda>_.
           if is_queue_corrupt er then quarantining e l shard_fd entry path Quarantine_EnvelopeCorrupt rewind a
           else io_return (Some a)))"

text \<open>The move of an entry: its success is counted, and so is an entry that is no longer there.\<close>

definition moving ::
  "('s, MoveFailure + unit) qproc \<Rightarrow> string \<Rightarrow> string \<Rightarrow> (RecoveryStats \<Rightarrow> RecoveryStats) \<Rightarrow> nat \<Rightarrow> ('s, nat option) rproc" where
  "moving m op path success missing =
     io_bind (tally attempted) (\<lambda>_.
     io_bind (on_queue m) (\<lambda>r. case r of
       Ok _ \<Rightarrow> io_bind (tally success) (\<lambda>_. io_return (Some (missing + 1)))
     | Err failure \<Rightarrow>
         io_bind (tally (record_move_failure op path failure)) (\<lambda>_.
           io_return (Some (if failure = Move_SourceMissing then missing + 1 else missing)))))"

definition overflowed :: "'e \<Rightarrow> MoveFailure" where
  "overflowed _ = Move_NotCommitted PreRename (io_error_other ''generation or attempt overflow'')"

definition unopened :: "IoError \<Rightarrow> MoveFailure" where
  "unopened er = Move_NotCommitted EnsureDest er"

definition path2 :: "string \<Rightarrow> string \<Rightarrow> string" where
  "path2 a b = a @ ''/'' @ b"

subsection \<open>Promotion of delayed jobs\<close>

definition promote_to_ready :: "'s env \<Rightarrow> fd \<Rightarrow> string \<Rightarrow> string \<Rightarrow> CommonFields \<Rightarrow> ('s, MoveFailure + unit) qproc" where
  "promote_to_ready e src_fd shard delayed_name common =
     io_try (io_return (map_err overflowed (next_common_fields Op_Promote common))) (\<lambda>ready_common.
     io_bind (asks id) (\<lambda>queue.
     let ready_name = make_ready_name (env_sha e) (fmt_queue_id (q_format queue)) shard ready_common in
     io_try (io_map_err unopened (lift (open_relative (env_os e) (q_root_fd queue) (path2 ''ready'' shard)))) (\<lambda>dest_fd.
       lift (move_verified_noreplace (env_os e) src_fd delayed_name dest_fd ready_name))))"

definition promoted :: "RecoveryStats \<Rightarrow> RecoveryStats" where
  "promoted s = s\<lparr>rs_delayed_promoted := rs_delayed_promoted s + 1\<rparr>"

definition promote_position :: "RecoveryCursor \<Rightarrow> bytes list option" where
  "promote_position c = map_option three_directories (promote_delayed c)"

definition promote_entry ::
  "'s env \<Rightarrow> limits \<Rightarrow> bytes \<Rightarrow> bytes \<Rightarrow> string \<Rightarrow> string \<Rightarrow> fd \<Rightarrow> DirEntryName \<Rightarrow> nat \<Rightarrow> ('s, nat option) rproc" where
  "promote_entry e l bucket_entry shard_entry bucket_name shard_name shard_fd raw_entry missing =
     visit_entry e l promote_delayed (\<lambda>p c. c\<lparr>promote_delayed := p\<rparr>)
       (\<lambda>cursor. three_should_skip cursor bucket_entry shard_entry raw_entry)
       (three_new bucket_entry shard_entry raw_entry) ''promote_entry_name'' raw_entry missing (\<lambda>rewind entry.
     let path = path2 ''delayed'' (path2 bucket_name (path2 shard_name entry)) in
     if strip_suffix ''.sqj'' entry = None then io_return (Some missing)
     else case parse_delayed entry of
         Inl _ \<Rightarrow>
           io_bind (tally (record_error ''promote_parse'' path ''malformed delayed filename'')) (\<lambda>_.
             quarantining e l shard_fd entry path Quarantine_FilenameParseFailed rewind missing)
       | Inr parsed \<Rightarrow>
           validating e l ''promote_validate'' shard_fd entry path (Ctx_Delayed bucket_name shard_name) rewind missing
             (moving (promote_to_ready e shard_fd shard_name entry (dl_common parsed)) ''promote_delayed'' path promoted missing))"

definition promote_shard ::
  "'s env \<Rightarrow> limits \<Rightarrow> bool \<Rightarrow> bytes \<Rightarrow> string \<Rightarrow> fd \<Rightarrow> DirEntryName \<Rightarrow> nat \<Rightarrow> ('s, nat option) rproc" where
  "promote_shard e l bucket_is_drained bucket_entry bucket_name bucket_fd shard_entry missing =
     unless_before promote_position [bucket_entry] shard_entry missing
     (io_bind (on_queue (asks (\<lambda>q. fmt_shard_count (q_format q)))) (\<lambda>shard_count.
      named (shard_directory_name ''promote_shard_name'' shard_entry shard_count) missing (\<lambda>(shard_name, _).
      let shard_path = path2 ''delayed'' (path2 bucket_name shard_name) in
      entering e l bucket_fd \<lparr>lv_phase = PromoteDelayed, lv_name = shard_name, lv_components = [bucket_entry, shard_entry],
          lv_open_operation = ''promote_shard_open'', lv_read_operation = ''promote_entry_read'', lv_path = shard_path\<rparr>
        missing (\<lambda>shard_fd entries.
      io_bind (each_of (promote_entry e l bucket_entry shard_entry bucket_name shard_name shard_fd) entries 0) (\<lambda>r. case r of
        None \<Rightarrow> io_return None
      | Some missing_entries \<Rightarrow>
          if \<not> bucket_is_drained \<or> \<not> all_observed_children_absent missing_entries (length entries)
          then io_return (Some missing)
          else pruning e l bucket_fd shard_name ''promote_shard_remove'' shard_path shard_gone missing)))))"

definition promote_bucket ::
  "'s env \<Rightarrow> limits \<Rightarrow> u64 \<Rightarrow> fd \<Rightarrow> DirEntryName \<Rightarrow> unit \<Rightarrow> ('s, unit option) rproc" where
  "promote_bucket e l current_wall_bucket delayed_fd bucket_entry u =
     unless_before promote_position [] bucket_entry u
     (within_budget e l
     (named (bucket_directory_name ''promote_bucket_name'' bucket_entry) u (\<lambda>(bucket_name, bucket_num).
      if bucket_num > current_wall_bucket then io_return (Some u)
      else
        let bucket_path = path2 ''delayed'' bucket_name in
        entering e l delayed_fd \<lparr>lv_phase = PromoteDelayed, lv_name = bucket_name, lv_components = [bucket_entry],
            lv_open_operation = ''promote_bucket_open'', lv_read_operation = ''promote_shard_read'', lv_path = bucket_path\<rparr>
          u (\<lambda>bucket_fd shard_dirs.
        let bucket_is_drained = bucket_num < current_wall_bucket in
        io_bind (each_of (promote_shard e l bucket_is_drained bucket_entry bucket_name bucket_fd) shard_dirs 0) (\<lambda>r. case r of
          None \<Rightarrow> io_return None
        | Some missing_shards \<Rightarrow>
            if \<not> bucket_is_drained \<or> \<not> all_observed_children_absent missing_shards (length shard_dirs)
            then io_return (Some u)
            else io_map (map_option (\<lambda>_. u))
              (pruning e l delayed_fd bucket_name ''promote_bucket_remove'' bucket_path bucket_gone 0))))))"

definition promote_delayed_jobs :: "'s env \<Rightarrow> limits \<Rightarrow> WallFloor \<Rightarrow> ('s, unit) rproc" where
  "promote_delayed_jobs e l wall_floor =
     open_phase e l PromoteDelayed ''delayed'' ''promote_root_open'' (\<lambda>delayed_fd.
     reading_phase e l delayed_fd ''delayed'' ''promote_bucket_read'' (\<lambda>bucket_dirs.
     io_bind (on_queue (asks (\<lambda>q. fmt_delayed_bucket_width_ns (q_format q)))) (\<lambda>width.
     case bucket_number (wf_unix_ns wall_floor) width of
       None \<Rightarrow> tally (block_phase ''promote_wall_bucket'' ''delayed'' ''wall floor has no delayed bucket'')
     | Some current_wall_bucket \<Rightarrow>
         finishing (each_of (promote_bucket e l current_wall_bucket delayed_fd) bucket_dirs ())
           (set_cursor (\<lambda>c. c\<lparr>promote_delayed := None\<rparr>)))))"

subsection \<open>Reaping expired leases\<close>

definition reap_to_ready :: "'s env \<Rightarrow> fd \<Rightarrow> u32 \<Rightarrow> string \<Rightarrow> CommonFields \<Rightarrow> ('s, MoveFailure + unit) qproc" where
  "reap_to_ready e src_fd shard leased_name common =
     io_try (io_return (map_err overflowed (next_common_fields Op_ReapExpiredToReady common))) (\<lambda>ready_common.
     io_bind (asks id) (\<lambda>queue.
     let ready_name = tg_filename (layout_ready (env_sha e) (queue_layout queue) ready_common) in
     io_try (io_map_err unopened (lift (open_relative (env_os e) (q_root_fd queue) (ready_shard_dir shard)))) (\<lambda>dest_fd.
       lift (move_verified_noreplace (env_os e) src_fd leased_name dest_fd ready_name))))"

definition reap_colocated_to_ready :: "'s env \<Rightarrow> fd \<Rightarrow> string \<Rightarrow> CommonFields \<Rightarrow> ('s, MoveFailure + unit) qproc" where
  "reap_colocated_to_ready e shard_fd leased_name common =
     io_try (io_return (map_err overflowed (next_common_fields Op_ReapExpiredToReady common))) (\<lambda>ready_common.
     io_bind (asks id) (\<lambda>queue.
     let ready_name = tg_filename (layout_ready (env_sha e) (queue_layout queue) ready_common) in
       lift (move_verified_noreplace (env_os e) shard_fd leased_name shard_fd ready_name)))"

definition reap_to_dead ::
  "'s env \<Rightarrow> fd \<Rightarrow> string \<Rightarrow> CommonFields \<Rightarrow> DeadReason \<Rightarrow> WallFloor \<Rightarrow> ('s, MoveFailure + unit) qproc" where
  "reap_to_dead e src_fd leased_name common reason wall_floor =
     io_bind (asks id) (\<lambda>queue.
     io_try (io_return (ok_or (bucket_number (wf_unix_ns wall_floor) (fmt_terminal_bucket_width_ns (q_format queue)))
               (Move_NotCommitted PreRename (io_error_other ''terminal bucket overflow'')))) (\<lambda>terminal_bucket.
     io_try (io_return (map_err overflowed (next_common_fields Op_ReapExpiredToDead common))) (\<lambda>dead_common.
     let target = dead_in_bucket (env_sha e) (queue_layout queue) dead_common (dead_reason_code reason) terminal_bucket;
         dest_dir = target_directory target
     in
     io_try (io_map_err unopened (ensure_dir e dest_dir)) (\<lambda>_.
     io_try (io_map_err unopened (lift (open_relative (env_os e) (q_root_fd queue) dest_dir))) (\<lambda>dest_fd.
       lift (move_verified_noreplace (env_os e) src_fd leased_name dest_fd (tg_filename target)))))))"

definition reaped :: "RecoveryStats \<Rightarrow> RecoveryStats" where
  "reaped s = s\<lparr>rs_leases_reaped := rs_leases_reaped s + 1\<rparr>"

definition buried :: "RecoveryStats \<Rightarrow> RecoveryStats" where
  "buried s = s\<lparr>rs_leases_to_dead := rs_leases_to_dead s + 1\<rparr>"

definition attempts_exhausted :: "CommonFields \<Rightarrow> bool" where
  "attempts_exhausted c = (attempt c \<ge> maximum_attempts c)"

text \<open>Where an expired lease goes: to dead when its attempts are used up, which needs the wall floor,
  otherwise back to ready.\<close>

definition reap_lease ::
  "'s env \<Rightarrow> WallFloor option \<Rightarrow> fd \<Rightarrow> string \<Rightarrow> string \<Rightarrow> CommonFields \<Rightarrow> ('s, MoveFailure + unit) qproc \<Rightarrow> nat
     \<Rightarrow> ('s, nat option) rproc" where
  "reap_lease e wall_floor shard_fd entry path common to_ready missing =
     (if attempts_exhausted common then
        (case wall_floor of
           None \<Rightarrow>
             io_bind (tally (record_error ''reap_to_dead'' path ''authenticated wall floor unavailable'')) (\<lambda>_.
               io_return (Some missing))
         | Some floor \<Rightarrow>
             moving (reap_to_dead e shard_fd entry common Dead_AttemptsExhausted floor) ''reap_to_dead'' path buried missing)
      else moving to_ready ''reap_to_ready'' path reaped missing)"

definition reap_position :: "RecoveryCursor \<Rightarrow> bytes list option" where
  "reap_position c = map_option four_directories (reap_leases c)"

text \<open>What the source keeps while it is below one boot directory, bucket and shard.\<close>

record reap_place =
  rp_boot_entry :: bytes
  rp_boot_name :: string
  rp_is_current_boot :: bool
  rp_bucket_entry :: bytes
  rp_bucket_name :: string
  rp_bucket_num :: u64

text \<open>The lease with its bucket checked against its deadline.\<close>

definition reap_checked ::
  "'s env \<Rightarrow> limits \<Rightarrow> WallFloor option \<Rightarrow> reap_place \<Rightarrow> fd \<Rightarrow> u32 \<Rightarrow> string \<Rightarrow> string \<Rightarrow> LeasedName \<Rightarrow> nat \<Rightarrow> ('s, nat option) rproc" where
  "reap_checked e l wall_floor pl shard_fd shard entry path parsed missing =
     io_bind (on_queue (asks (\<lambda>q. fmt_lease_bucket_width_ns (q_format q)))) (\<lambda>width.
     case lease_bucket (ls_boottime_deadline_ns parsed) width of
       None \<Rightarrow> io_bind (tally (record_error ''reap_bucket_check'' path ''invalid lease bucket width'')) (\<lambda>_. io_return None)
     | Some expected_lease_bucket \<Rightarrow>
         if rp_bucket_num pl \<noteq> expected_lease_bucket
         then io_bind (tally (record_error ''reap_bucket_check'' path (''bucket mismatch: dir ''
                @ decimal (unat (rp_bucket_num pl)) @ '' != deadline-derived '' @ decimal (unat expected_lease_bucket)))) (\<lambda>_.
                io_return (Some missing))
         else reap_lease e wall_floor shard_fd entry path (ls_common parsed)
                (reap_to_ready e shard_fd shard entry (ls_common parsed)) missing)"

definition reap_entry ::
  "'s env \<Rightarrow> limits \<Rightarrow> u64 \<Rightarrow> WallFloor option \<Rightarrow> reap_place \<Rightarrow> bytes \<Rightarrow> string \<Rightarrow> u32 \<Rightarrow> fd \<Rightarrow> DirEntryName \<Rightarrow> nat
     \<Rightarrow> ('s, nat option) rproc" where
  "reap_entry e l boottime_now wall_floor pl shard_entry shard_name shard shard_fd raw_entry missing =
     visit_entry e l reap_leases (\<lambda>p c. c\<lparr>reap_leases := p\<rparr>)
       (\<lambda>cursor. four_should_skip cursor (rp_boot_entry pl) (rp_bucket_entry pl) shard_entry raw_entry)
       (four_new (rp_boot_entry pl) (rp_bucket_entry pl) shard_entry raw_entry) ''reap_entry_name'' raw_entry missing
       (\<lambda>rewind entry.
     let path = path2 ''leased'' (path2 (rp_boot_name pl) (path2 (rp_bucket_name pl) (path2 shard_name entry))) in
     if strip_suffix ''.sqj'' entry = None then io_return (Some missing)
     else case parse_leased entry of
         Inl _ \<Rightarrow>
           io_bind (tally (record_error ''reap_parse'' path ''malformed leased filename'')) (\<lambda>_.
             quarantining e l shard_fd entry path Quarantine_FilenameParseFailed rewind missing)
       | Inr parsed \<Rightarrow>
           if rp_is_current_boot pl \<and> ls_boottime_deadline_ns parsed > boottime_now then io_return (Some missing)
           else
             validating e l ''reap_validate'' shard_fd entry path
               (Ctx_Leased (rp_boot_name pl) (rp_bucket_name pl) shard_name) rewind missing
               (reap_checked e l wall_floor pl shard_fd shard entry path parsed missing))"

definition reap_shard ::
  "'s env \<Rightarrow> limits \<Rightarrow> u64 \<Rightarrow> WallFloor option \<Rightarrow> reap_place \<Rightarrow> fd \<Rightarrow> DirEntryName \<Rightarrow> nat \<Rightarrow> ('s, nat option) rproc" where
  "reap_shard e l boottime_now wall_floor pl bucket_fd shard_entry missing =
     unless_before reap_position [rp_boot_entry pl, rp_bucket_entry pl] shard_entry missing
     (io_bind (on_queue (asks (\<lambda>q. fmt_shard_count (q_format q)))) (\<lambda>shard_count.
      named (shard_directory_name ''reap_shard_name'' shard_entry shard_count) missing (\<lambda>(shard_name, shard).
      let shard_path = path2 ''leased'' (path2 (rp_boot_name pl) (path2 (rp_bucket_name pl) shard_name)) in
      entering e l bucket_fd \<lparr>lv_phase = ReapLeases, lv_name = shard_name,
          lv_components = [rp_boot_entry pl, rp_bucket_entry pl, shard_entry],
          lv_open_operation = ''reap_shard_open'', lv_read_operation = ''reap_entry_read'', lv_path = shard_path\<rparr>
        missing (\<lambda>shard_fd entries.
      io_bind (each_of (reap_entry e l boottime_now wall_floor pl shard_entry shard_name shard shard_fd) entries 0) (\<lambda>r. case r of
        None \<Rightarrow> io_return None
      | Some missing_entries \<Rightarrow>
          if rp_is_current_boot pl \<or> \<not> all_observed_children_absent missing_entries (length entries)
          then io_return (Some missing)
          else pruning e l bucket_fd shard_name ''reap_shard_remove'' shard_path shard_gone missing)))))"

text \<open>On the current boot a bucket in the future is passed over; a width of zero blocks the phase.\<close>

definition reap_bucket ::
  "'s env \<Rightarrow> limits \<Rightarrow> u64 \<Rightarrow> WallFloor option \<Rightarrow> bytes \<Rightarrow> string \<Rightarrow> bool \<Rightarrow> fd \<Rightarrow> DirEntryName \<Rightarrow> nat \<Rightarrow> ('s, nat option) rproc" where
  "reap_bucket e l boottime_now wall_floor boot_entry boot_name is_current_boot boot_dir_fd bucket_entry missing =
     unless_before reap_position [boot_entry] bucket_entry missing
     (within_budget e l
     (named (bucket_directory_name ''reap_bucket_name'' bucket_entry) missing (\<lambda>(bucket_name, bucket_num).
      let bucket_path = path2 ''leased'' (path2 boot_name bucket_name);
          pl = \<lparr>rp_boot_entry = boot_entry, rp_boot_name = boot_name, rp_is_current_boot = is_current_boot,
                rp_bucket_entry = bucket_entry, rp_bucket_name = bucket_name, rp_bucket_num = bucket_num\<rparr>
      in
      io_bind (on_queue (asks (\<lambda>q. fmt_lease_bucket_width_ns (q_format q)))) (\<lambda>width.
      case (if is_current_boot then map_option (\<lambda>current. \<not> bucket_num > current) (bucket_number boottime_now width)
            else Some True) of
        None \<Rightarrow>
          io_bind (tally (block_phase ''reap_bucket_check'' bucket_path ''invalid lease bucket width'')) (\<lambda>_. io_return None)
      | Some False \<Rightarrow> io_return (Some missing)
      | Some True \<Rightarrow>
          entering e l boot_dir_fd \<lparr>lv_phase = ReapLeases, lv_name = bucket_name, lv_components = [boot_entry, bucket_entry],
              lv_open_operation = ''reap_bucket_open'', lv_read_operation = ''reap_shard_read'', lv_path = bucket_path\<rparr>
            missing (\<lambda>bucket_fd shard_dirs.
          io_bind (each_of (reap_shard e l boottime_now wall_floor pl bucket_fd) shard_dirs 0) (\<lambda>r. case r of
            None \<Rightarrow> io_return None
          | Some missing_shards \<Rightarrow>
              if is_current_boot \<or> \<not> all_observed_children_absent missing_shards (length shard_dirs)
              then io_return (Some missing)
              else pruning e l boot_dir_fd bucket_name ''reap_bucket_remove'' bucket_path bucket_gone missing))))))"

definition reap_boot ::
  "'s env \<Rightarrow> limits \<Rightarrow> u64 \<Rightarrow> WallFloor option \<Rightarrow> fd \<Rightarrow> DirEntryName \<Rightarrow> unit \<Rightarrow> ('s, unit option) rproc" where
  "reap_boot e l boottime_now wall_floor leased_fd boot_dir_entry u =
     unless_before reap_position [] boot_dir_entry u
     (within_budget e l
     (named (boot_directory_name ''reap_boot_name'' boot_dir_entry) u (\<lambda>boot_dir_name.
      io_bind (on_queue (asks q_boot_id)) (\<lambda>boot_id.
      let is_current_boot = (boot_dir_name = boot_id); boot_path = path2 ''leased'' boot_dir_name in
      entering e l leased_fd \<lparr>lv_phase = ReapLeases, lv_name = boot_dir_name, lv_components = [boot_dir_entry],
          lv_open_operation = ''reap_boot_open'', lv_read_operation = ''reap_bucket_read'', lv_path = boot_path\<rparr>
        u (\<lambda>boot_dir_fd bucket_dirs.
      io_bind (each_of (reap_bucket e l boottime_now wall_floor boot_dir_entry boot_dir_name is_current_boot boot_dir_fd)
                 bucket_dirs 0) (\<lambda>r. case r of
        None \<Rightarrow> io_return None
      | Some missing_buckets \<Rightarrow>
          if is_current_boot \<or> \<not> all_observed_children_absent missing_buckets (length bucket_dirs)
          then io_return (Some u)
          else io_map (map_option (\<lambda>_. u))
            (pruning e l leased_fd boot_dir_name ''reap_boot_remove'' boot_path id 0)))))))"

text \<open>One lease in a ready shard; the result says whether the scan stops at it.\<close>

definition reap_colocated_lease ::
  "'s env \<Rightarrow> limits \<Rightarrow> fd \<Rightarrow> string \<Rightarrow> string \<Rightarrow> string \<Rightarrow> LeasedName \<Rightarrow> u64 \<Rightarrow> WallFloor option \<Rightarrow> ('s, bool) rproc" where
  "reap_colocated_lease e l shard_fd shard_name entry path parsed boottime_now wall_floor =
     io_bind (on_queue (asks id)) (\<lambda>queue.
     let boot_id = format_boot_id (ls_boot_id parsed) in
     case lease_bucket (ls_boottime_deadline_ns parsed) (fmt_lease_bucket_width_ns (q_format queue)) of
       None \<Rightarrow> io_bind (tally (record_error ''reap_bucket_check'' path ''invalid lease bucket width'')) (\<lambda>_. io_return False)
     | Some bucket \<Rightarrow>
         if \<not> leased_authenticate_tag (env_sha e) parsed (fmt_queue_id (q_format queue)) boot_id (bucket_hex bucket) shard_name
         then io_bind (tally (record_error ''reap_parse'' path ''name tag mismatch'')) (\<lambda>_. io_return False)
         else if boot_id = q_boot_id queue \<and> ls_boottime_deadline_ns parsed > boottime_now then io_return False
         else
           io_map (\<lambda>r. r = None)
             (validating e l ''reap_validate'' shard_fd entry path (Ctx_Leased boot_id (bucket_hex bucket) shard_name)
               (io_return None) 0
               (within_budget e l
                 (reap_lease e wall_floor shard_fd entry path (ls_common parsed)
                    (reap_colocated_to_ready e shard_fd entry (ls_common parsed)) 0))))"

definition visit_colocated ::
  "'s env \<Rightarrow> limits \<Rightarrow> fd \<Rightarrow> u32 \<Rightarrow> u64 \<Rightarrow> WallFloor option \<Rightarrow> DirEntryName \<Rightarrow> ('s, bool) rproc" where
  "visit_colocated e l shard_fd shard boottime_now wall_floor raw_entry =
     (case as_ascii_str raw_entry of
        None \<Rightarrow> io_return False
      | Some entry \<Rightarrow>
          (case parse_leased entry of
             Inl _ \<Rightarrow> io_return False
           | Inr parsed \<Rightarrow>
               reap_colocated_lease e l shard_fd (shard_hex shard) entry (path2 (ready_shard_dir shard) entry) parsed
                 boottime_now wall_floor))"

definition reap_colocated_in ::
  "'s env \<Rightarrow> limits \<Rightarrow> u64 \<Rightarrow> WallFloor option \<Rightarrow> nat \<Rightarrow> unit \<Rightarrow> ('s, unit option) rproc" where
  "reap_colocated_in e l boottime_now wall_floor n u =
     (let shard = word_of_nat n :: u32; ready_dir = ready_shard_dir shard in
      io_bind (set_cursor (\<lambda>c. c\<lparr>reap_colocated_shard := Some shard\<rparr>)) (\<lambda>_.
      within_budget e l
      (io_bind (cursor_of reap_colocated_position) (\<lambda>saved.
       io_bind (set_cursor (\<lambda>c. c\<lparr>reap_colocated_position := None\<rparr>)) (\<lambda>_.
       io_bind (on_queue (asks q_root_fd)) (\<lambda>root_fd.
       io_bind (on_sys (open_relative (env_os e) root_fd ready_dir)) (\<lambda>opened. case opened of
         Err er \<Rightarrow>
           io_bind (tally (\<lambda>s. record_error ''reap_shard_open'' ready_dir (io_text er) (skipped_scan s))) (\<lambda>_.
             io_return (Some u))
       | Ok shard_fd \<Rightarrow>
           io_bind (stream_recovery_directory e l shard_fd (case saved of Some p \<Rightarrow> p | None \<Rightarrow> 0)
                      (visit_colocated e l shard_fd shard boottime_now wall_floor)) (\<lambda>(result, position).
           io_bind (case result of
               Ok stopped \<Rightarrow> io_return stopped
             | Err er \<Rightarrow> io_bind (tally skipped_scan) (\<lambda>_. directory_failed ''reap_entry_read'' ready_dir er)) (\<lambda>stop.
             if stop then
               io_bind (set_cursor (\<lambda>c. c\<lparr>reap_colocated_position := (if position \<noteq> 0 then Some position else None)\<rparr>)) (\<lambda>_.
                 io_return None)
             else io_return (Some u))))))))))"

definition reap_colocated_ready_leases :: "'s env \<Rightarrow> limits \<Rightarrow> u64 \<Rightarrow> WallFloor option \<Rightarrow> ('s, unit) rproc" where
  "reap_colocated_ready_leases e l boottime_now wall_floor =
     io_bind (cursor_of reap_colocated_shard) (\<lambda>saved.
     io_bind (on_queue (asks (\<lambda>q. fmt_shard_count (q_format q)))) (\<lambda>shard_count.
     let first_shard = (case saved of Some shard \<Rightarrow> shard | None \<Rightarrow> 0) in
     finishing (each_of (reap_colocated_in e l boottime_now wall_floor) [unat first_shard..<unat shard_count] ())
       (set_cursor (\<lambda>c. c\<lparr>reap_colocated_shard := None\<rparr>))))"

definition reap_expired_leases :: "'s env \<Rightarrow> limits \<Rightarrow> u64 \<Rightarrow> WallFloor option \<Rightarrow> ('s, unit) rproc" where
  "reap_expired_leases e l boottime_now wall_floor =
     open_phase e l ReapLeases ''leased'' ''open_leased_dir'' (\<lambda>leased_fd.
     io_bind (cursor_of reap_colocated_shard) (\<lambda>saved.
       if saved \<noteq> None then reap_colocated_ready_leases e l boottime_now wall_floor
       else
         reading_phase e l leased_fd ''leased'' ''read_leased_dirs'' (\<lambda>boot_dirs.
         finishing (each_of (reap_boot e l boottime_now wall_floor leased_fd) boot_dirs ())
           (io_bind (set_cursor (\<lambda>c. c\<lparr>reap_leases := None\<rparr>)) (\<lambda>_.
              reap_colocated_ready_leases e l boottime_now wall_floor)))))"

subsection \<open>Temporary files\<close>

definition temp_position :: "RecoveryCursor \<Rightarrow> bytes list option" where
  "temp_position c = map_option three_directories (cleanup_temp c)"

definition temp_deleted :: "RecoveryStats \<Rightarrow> RecoveryStats" where
  "temp_deleted s = s\<lparr>rs_temp_files_deleted := rs_temp_files_deleted s + 1\<rparr>"

definition temp_should_delete :: "Queue \<Rightarrow> u64 \<Rightarrow> bool \<Rightarrow> string \<Rightarrow> bool" where
  "temp_should_delete queue boottime_now is_current_boot entry =
     (if \<not> is_current_boot then True
      else case parse_temp entry of
          Inr parsed \<Rightarrow>
            saturating_sub boottime_now (tm_created_boottime_ns parsed) > temporary_file_ttl_ns (q_options queue)
        | Inl _ \<Rightarrow> False)"

text \<open>Unlinking an entry: its success is counted, and so is an entry that is no longer there.\<close>

definition unlinking ::
  "'s env \<Rightarrow> fd \<Rightarrow> string \<Rightarrow> string \<Rightarrow> string \<Rightarrow> (RecoveryStats \<Rightarrow> RecoveryStats) \<Rightarrow> nat \<Rightarrow> ('s, nat option) rproc" where
  "unlinking e shard_fd entry op path success missing =
     io_bind (tally attempted) (\<lambda>_.
     io_bind (on_sys (unlink_verified (env_os e) shard_fd entry)) (\<lambda>r. case r of
       Ok _ \<Rightarrow> io_bind (tally success) (\<lambda>_. io_return (Some (missing + 1)))
     | Err failure \<Rightarrow>
         io_bind (tally (record_unlink_failure op path failure)) (\<lambda>_.
           io_return (Some (if failure = Unlink_SourceMissing then missing + 1 else missing)))))"

definition temp_entry ::
  "'s env \<Rightarrow> limits \<Rightarrow> u64 \<Rightarrow> bool \<Rightarrow> bytes \<Rightarrow> bytes \<Rightarrow> string \<Rightarrow> string \<Rightarrow> fd \<Rightarrow> DirEntryName \<Rightarrow> nat \<Rightarrow> ('s, nat option) rproc" where
  "temp_entry e l boottime_now is_current_boot boot_entry shard_entry boot_name shard_name shard_fd raw_entry missing =
     visit_entry e l cleanup_temp (\<lambda>p c. c\<lparr>cleanup_temp := p\<rparr>)
       (\<lambda>cursor. three_should_skip cursor boot_entry shard_entry raw_entry)
       (three_new boot_entry shard_entry raw_entry) ''temp_entry_name'' raw_entry missing (\<lambda>_ entry.
     if strip_suffix ''.tmp'' entry = None then io_return (Some missing)
     else
       io_bind (on_queue (asks (\<lambda>queue. temp_should_delete queue boottime_now is_current_boot entry))) (\<lambda>should_delete.
         if should_delete
         then unlinking e shard_fd entry ''temp_delete'' (path2 ''tmp'' (path2 boot_name (path2 shard_name entry))) temp_deleted missing
         else io_return (Some missing)))"

definition temp_shard ::
  "'s env \<Rightarrow> limits \<Rightarrow> u64 \<Rightarrow> bool \<Rightarrow> bytes \<Rightarrow> string \<Rightarrow> fd \<Rightarrow> DirEntryName \<Rightarrow> nat \<Rightarrow> ('s, nat option) rproc" where
  "temp_shard e l boottime_now is_current_boot boot_entry boot_name boot_dir_fd shard_entry missing =
     unless_before temp_position [boot_entry] shard_entry missing
     (io_bind (on_queue (asks (\<lambda>q. fmt_shard_count (q_format q)))) (\<lambda>shard_count.
      named (shard_directory_name ''temp_shard_name'' shard_entry shard_count) missing (\<lambda>(shard_name, _).
      let shard_path = path2 ''tmp'' (path2 boot_name shard_name) in
      entering e l boot_dir_fd \<lparr>lv_phase = CleanupTemp, lv_name = shard_name, lv_components = [boot_entry, shard_entry],
          lv_open_operation = ''temp_shard_open'', lv_read_operation = ''temp_entry_read'', lv_path = shard_path\<rparr>
        missing (\<lambda>shard_fd entries.
      io_bind (each_of (temp_entry e l boottime_now is_current_boot boot_entry shard_entry boot_name shard_name shard_fd)
                 entries 0) (\<lambda>r. case r of
        None \<Rightarrow> io_return None
      | Some missing_entries \<Rightarrow>
          if is_current_boot \<or> \<not> all_observed_children_absent missing_entries (length entries)
          then io_return (Some missing)
          else pruning e l boot_dir_fd shard_name ''temp_shard_remove'' shard_path shard_gone missing)))))"

definition temp_boot :: "'s env \<Rightarrow> limits \<Rightarrow> u64 \<Rightarrow> fd \<Rightarrow> DirEntryName \<Rightarrow> unit \<Rightarrow> ('s, unit option) rproc" where
  "temp_boot e l boottime_now tmp_fd boot_entry u =
     unless_before temp_position [] boot_entry u
     (within_budget e l
     (named (boot_directory_name ''temp_boot_name'' boot_entry) u (\<lambda>boot_dir_name.
      io_bind (on_queue (asks q_boot_id)) (\<lambda>boot_id.
      let is_current_boot = (boot_dir_name = boot_id); boot_path = path2 ''tmp'' boot_dir_name in
      entering e l tmp_fd \<lparr>lv_phase = CleanupTemp, lv_name = boot_dir_name, lv_components = [boot_entry],
          lv_open_operation = ''temp_boot_open'', lv_read_operation = ''temp_shard_read'', lv_path = boot_path\<rparr>
        u (\<lambda>boot_dir_fd shard_dirs.
      io_bind (each_of (temp_shard e l boottime_now is_current_boot boot_entry boot_dir_name boot_dir_fd) shard_dirs 0) (\<lambda>r.
      case r of
        None \<Rightarrow> io_return None
      | Some missing_shards \<Rightarrow>
          if is_current_boot \<or> \<not> all_observed_children_absent missing_shards (length shard_dirs)
          then io_return (Some u)
          else io_map (map_option (\<lambda>_. u))
            (pruning e l tmp_fd boot_dir_name ''temp_boot_remove'' boot_path id 0)))))))"

definition cleanup_temp_files :: "'s env \<Rightarrow> limits \<Rightarrow> u64 \<Rightarrow> ('s, unit) rproc" where
  "cleanup_temp_files e l boottime_now =
     open_phase e l CleanupTemp ''tmp'' ''temp_root_open'' (\<lambda>tmp_fd.
     reading_phase e l tmp_fd ''tmp'' ''temp_boot_read'' (\<lambda>boot_dirs.
     finishing (each_of (temp_boot e l boottime_now tmp_fd) boot_dirs ())
       (set_cursor (\<lambda>c. c\<lparr>cleanup_temp := None\<rparr>))))"

subsection \<open>Receipts\<close>

datatype ReceiptPrepareError = Prepare_Open IoError | Prepare_Lock IoError

fun prepare_operation :: "ReceiptPrepareError \<Rightarrow> string \<Rightarrow> string" where
  "prepare_operation (Prepare_Open _) p = p @ ''_open''"
| "prepare_operation (Prepare_Lock _) p = p @ ''_lock''"

fun prepare_error_text :: "ReceiptPrepareError \<Rightarrow> string" where
  "prepare_error_text (Prepare_Open er) = io_text er"
| "prepare_error_text (Prepare_Lock er) = io_text er"

definition open_locked_receipt :: "'s os \<Rightarrow> fd \<Rightarrow> string \<Rightarrow> ('s, ReceiptPrepareError + fd option) sysproc" where
  "open_locked_receipt k dir_fd name =
     io_bind (openat k dir_fd name receipt_write_open_flags 0) (\<lambda>opened. case opened of
       Err er \<Rightarrow> io_return (if io_kind er = Kind_NotFound then Ok None else Err (Prepare_Open er))
     | Ok fd \<Rightarrow>
         io_bind (try_ofd_write_lock k fd) (\<lambda>locked. io_return (case locked of
             Ok True \<Rightarrow> Ok (Some fd)
           | Ok False \<Rightarrow> Ok None
           | Err er \<Rightarrow> Err (Prepare_Lock er))))"

fun receipt_quarantine_reason :: "VerificationError \<Rightarrow> QuarantineReason option" where
  "receipt_quarantine_reason (Verify_Io _) = None"
| "receipt_quarantine_reason (Verify_Corrupt _) = Some Quarantine_EnvelopeCorrupt"
| "receipt_quarantine_reason Verify_PayloadCorrupt = Some Quarantine_PayloadCorrupt"

text \<open>A name that does not parse goes to quarantine, as does a receipt that does not verify; the body sees
  the verified receipt.\<close>

definition with_receipt ::
  "'s env \<Rightarrow> limits \<Rightarrow> string \<Rightarrow> string \<Rightarrow> string \<Rightarrow> fd \<Rightarrow> string \<Rightarrow> string \<Rightarrow> ('s, 'a option) rproc \<Rightarrow> 'a
     \<Rightarrow> (VerifiedReceipt \<Rightarrow> ('s, 'a option) rproc) \<Rightarrow> ('s, 'a option) rproc" where
  "with_receipt e l op bucket_name shard_name shard_fd entry path rewind a f =
     (case parse_receipt entry of
        Inl _ \<Rightarrow>
          io_bind (tally (record_error (op @ ''_parse'') path ''receipt filename does not parse'')) (\<lambda>_.
            quarantining e l shard_fd entry path Quarantine_FilenameParseFailed rewind a)
      | Inr _ \<Rightarrow>
          io_bind (on_sys (open_locked_receipt (env_os e) shard_fd entry)) (\<lambda>opened. case opened of
            Err er \<Rightarrow>
              io_bind (tally (record_error (prepare_operation er op) path (prepare_error_text er))) (\<lambda>_. io_return (Some a))
          | Ok None \<Rightarrow> io_return (Some a)
          | Ok (Some receipt_fd) \<Rightarrow>
              io_bind (on_queue (asks q_format)) (\<lambda>fmt.
              io_bind (on_sys (verify_receipt_on_fd (env_sha e) (env_os e) (env_clone e) receipt_fd
                         (receipt_context fmt bucket_name shard_name entry) None)) (\<lambda>verified. case verified of
                Ok receipt \<Rightarrow> f receipt
              | Err er \<Rightarrow>
                  io_bind (tally (record_error (op @ ''_invalid'') path (verification_error_text er))) (\<lambda>_.
                    case receipt_quarantine_reason er of
                      None \<Rightarrow> io_return (Some a)
                    | Some reason \<Rightarrow> quarantining e l shard_fd entry path reason rewind a)))))"

subsection \<open>Compaction of receipts\<close>

definition compact_position :: "RecoveryCursor \<Rightarrow> bytes list option" where
  "compact_position c = map_option three_directories (compact_receipts c)"

definition compacted :: "RecoveryStats \<Rightarrow> RecoveryStats" where
  "compacted s = s\<lparr>rs_receipts_compacted := rs_receipts_compacted s + 1\<rparr>"

definition cleanup_compaction_temp :: "'s env \<Rightarrow> fd \<Rightarrow> string \<Rightarrow> string \<Rightarrow> ('s, unit) rproc" where
  "cleanup_compaction_temp e directory_fd name path =
     io_bind (on_sys (unlink_verified (env_os e) directory_fd name)) (\<lambda>r. case r of
       Ok _ \<Rightarrow> io_return ()
     | Err Unlink_SourceMissing \<Rightarrow> io_return ()
     | Err failure \<Rightarrow> tally (record_unlink_failure ''receipt_compact_temp_cleanup'' path failure))"

definition compact_of :: "VerifiedReceipt \<Rightarrow> FixedHeader \<Rightarrow> u64 \<Rightarrow> CompactReceipt" where
  "compact_of receipt header bucket_start =
     \<lparr>cr_job_id = hdr_job_id header, cr_envelope_digest = hdr_envelope_digest header,
      cr_final_attempt = attempt (rc_common (vr_name receipt)), cr_lease_token = rc_token (vr_name receipt),
      cr_receipt_bucket_start_unix_ns = bucket_start, cr_original_payload_length = hdr_payload_length header\<rparr>"

text \<open>Writing the compact form to a temporary file in the same directory.\<close>

definition write_compaction_temp :: "'s env \<Rightarrow> fd \<Rightarrow> string \<Rightarrow> string \<Rightarrow> bytes \<Rightarrow> ('s, bool) rproc" where
  "write_compaction_temp e shard_fd tmp_name temp_path compact_bytes =
     (let failed = (\<lambda>op phase er. io_bind (tally (record_error op temp_path (at_phase phase er))) (\<lambda>_. io_return False));
          cleaned = (\<lambda>op phase er. io_bind (failed op phase er) (\<lambda>_.
                       io_bind (cleanup_compaction_temp e shard_fd tmp_name temp_path) (\<lambda>_. io_return False)))
      in
      io_bind (on_sys (create_exclusive (env_os e) shard_fd tmp_name MODE_0600)) (\<lambda>created. case created of
        Err er \<Rightarrow> failed ''receipt_compact_temp_create_not_committed'' ''TempCreate'' er
      | Ok tmp_fd \<Rightarrow>
          io_bind (on_sys (write_all (env_os e) tmp_fd compact_bytes)) (\<lambda>written. case written of
            Err er \<Rightarrow> cleaned ''receipt_compact_temp_write_not_committed'' ''TempWrite'' er
          | Ok _ \<Rightarrow>
              io_bind (on_sys (fsync (env_os e) tmp_fd)) (\<lambda>synced. case synced of
                Err er \<Rightarrow> cleaned ''receipt_compact_temp_fsync_not_committed'' ''TempFsync'' er
              | Ok _ \<Rightarrow> io_return True))))"

definition replace_receipt ::
  "'s env \<Rightarrow> fd \<Rightarrow> string \<Rightarrow> string \<Rightarrow> string \<Rightarrow> string \<Rightarrow> VerifiedReceipt \<Rightarrow> ('s, unit) rproc" where
  "replace_receipt e shard_fd tmp_name temp_path entry receipt_path receipt =
     io_bind (on_sys (replace_verified (env_os e) shard_fd tmp_name shard_fd entry
                (Some \<lparr>ri_device = vr_device receipt, ri_inode = vr_inode receipt\<rparr>))) (\<lambda>replaced. case replaced of
       Ok _ \<Rightarrow> tally compacted
     | Err failure \<Rightarrow>
         io_bind (tally (record_replace_failure ''receipt_compact_replace'' receipt_path failure)) (\<lambda>_.
           if \<not> replace_is_outcome_unknown failure \<or> failure = Replace_SourceMissing
           then cleanup_compaction_temp e shard_fd tmp_name temp_path
           else io_return ()))"

definition compact_full_receipt ::
  "'s env \<Rightarrow> string \<Rightarrow> fd \<Rightarrow> string \<Rightarrow> VerifiedReceipt \<Rightarrow> FixedHeader \<Rightarrow> u64 \<Rightarrow> ('s, unit) rproc" where
  "compact_full_receipt e shard_path shard_fd entry receipt header bucket_start =
     (let receipt_path = path2 shard_path entry in
      io_bind (tally attempted) (\<lambda>_.
      io_bind (on_sys (random_128bit (env_os e))) (\<lambda>drawn. case drawn of
        Err er \<Rightarrow> tally (record_error ''receipt_compact_temp_name_not_committed'' receipt_path (at_phase ''TempName'' er))
      | Ok random \<Rightarrow>
          let tmp_name = ''.compact-'' @ hex_encode (arr_bytes random) @ ''.tmp''; temp_path = path2 shard_path tmp_name in
          io_bind (write_compaction_temp e shard_fd tmp_name temp_path
                     (receipt_encode (env_sha e) (compact_of receipt header bucket_start))) (\<lambda>written.
            if written then replace_receipt e shard_fd tmp_name temp_path entry receipt_path receipt else io_return ()))))"

definition compact_entry ::
  "'s env \<Rightarrow> limits \<Rightarrow> bytes \<Rightarrow> bytes \<Rightarrow> string \<Rightarrow> string \<Rightarrow> fd \<Rightarrow> DirEntryName \<Rightarrow> unit \<Rightarrow> ('s, unit option) rproc" where
  "compact_entry e l bucket_entry shard_entry bucket_name shard_name shard_fd raw_entry u =
     visit_entry e l compact_receipts (\<lambda>p c. c\<lparr>compact_receipts := p\<rparr>)
       (\<lambda>cursor. three_should_skip cursor bucket_entry shard_entry raw_entry)
       (three_new bucket_entry shard_entry raw_entry) ''compact_entry_name'' raw_entry u (\<lambda>rewind entry.
     let shard_path = path2 ''receipts'' (path2 bucket_name shard_name); path = path2 shard_path entry in
     if compaction_temporary_name entry then
       io_bind (tally attempted) (\<lambda>_.
       io_bind (on_sys (unlink_verified (env_os e) shard_fd entry)) (\<lambda>r. case r of
         Ok _ \<Rightarrow> io_return (Some u)
       | Err failure \<Rightarrow>
           io_bind (tally (record_unlink_failure ''receipt_compact_stale_temp_cleanup'' path failure)) (\<lambda>_.
             io_return (Some u))))
     else if strip_suffix ''.rct'' entry = None then io_return (Some u)
     else
       with_receipt e l ''receipt_compact'' bucket_name shard_name shard_fd entry path rewind u (\<lambda>receipt.
         case vr_kind receipt of
           Kind_Compact \<Rightarrow> io_return (Some u)
         | Kind_Full job \<Rightarrow>
             io_bind (on_queue (asks (\<lambda>q. fmt_terminal_bucket_width_ns (q_format q)))) (\<lambda>width.
             case checked_mul (vr_bucket_number receipt) width of
               None \<Rightarrow> io_return (Some u)
             | Some bucket_start \<Rightarrow>
                 io_map (\<lambda>_. Some u)
                   (compact_full_receipt e shard_path shard_fd entry receipt (vj_header job) bucket_start))))"

definition compact_shard ::
  "'s env \<Rightarrow> limits \<Rightarrow> bytes \<Rightarrow> string \<Rightarrow> fd \<Rightarrow> DirEntryName \<Rightarrow> unit \<Rightarrow> ('s, unit option) rproc" where
  "compact_shard e l bucket_entry bucket_name bucket_fd shard_entry u =
     unless_before compact_position [bucket_entry] shard_entry u
     (io_bind (on_queue (asks (\<lambda>q. fmt_shard_count (q_format q)))) (\<lambda>shard_count.
      named (shard_directory_name ''compact_shard_name'' shard_entry shard_count) u (\<lambda>(shard_name, _).
      entering e l bucket_fd \<lparr>lv_phase = CompactReceipts, lv_name = shard_name, lv_components = [bucket_entry, shard_entry],
          lv_open_operation = ''compact_shard_open'', lv_read_operation = ''compact_entry_read'',
          lv_path = path2 ''receipts'' (path2 bucket_name shard_name)\<rparr>
        u (\<lambda>shard_fd entries.
          each_of (compact_entry e l bucket_entry shard_entry bucket_name shard_name shard_fd) entries u))))"

definition compact_bucket :: "'s env \<Rightarrow> limits \<Rightarrow> fd \<Rightarrow> DirEntryName \<Rightarrow> unit \<Rightarrow> ('s, unit option) rproc" where
  "compact_bucket e l receipts_fd bucket_entry u =
     unless_before compact_position [] bucket_entry u
     (within_budget e l
     (named (bucket_directory_name ''compact_bucket_name'' bucket_entry) u (\<lambda>(bucket_name, _).
      entering e l receipts_fd \<lparr>lv_phase = CompactReceipts, lv_name = bucket_name, lv_components = [bucket_entry],
          lv_open_operation = ''compact_bucket_open'', lv_read_operation = ''compact_shard_read'',
          lv_path = path2 ''receipts'' bucket_name\<rparr>
        u (\<lambda>bucket_fd shard_dirs. each_of (compact_shard e l bucket_entry bucket_name bucket_fd) shard_dirs u))))"

definition compact_receipts_with_scan_budget :: "'s env \<Rightarrow> limits \<Rightarrow> ('s, unit) rproc" where
  "compact_receipts_with_scan_budget e l =
     open_phase e l CompactReceipts ''receipts'' ''compact_root_open'' (\<lambda>receipts_fd.
     reading_phase e l receipts_fd ''receipts'' ''compact_bucket_read'' (\<lambda>bucket_dirs.
     finishing (each_of (compact_bucket e l receipts_fd) bucket_dirs ())
       (set_cursor (\<lambda>c. c\<lparr>compact_receipts := None\<rparr>))))"

subsection \<open>Deletion of expired receipts\<close>

definition delete_position :: "RecoveryCursor \<Rightarrow> bytes list option" where
  "delete_position c = map_option three_directories (delete_receipts c)"

definition expired :: "RecoveryStats \<Rightarrow> RecoveryStats" where
  "expired s = s\<lparr>rs_receipts_expired := rs_receipts_expired s + 1\<rparr>"

text \<open>Whether the end of a bucket and the retention lie behind the wall floor; an overflow never does.\<close>

definition retention_elapsed :: "u64 \<Rightarrow> u64 \<Rightarrow> u64 \<Rightarrow> u64 \<Rightarrow> bool" where
  "retention_elapsed bucket_num width retention_ns wall_floor =
     (case checked_mul bucket_num width of
        None \<Rightarrow> False
      | Some bucket_start \<Rightarrow>
          (case checked_add bucket_start width of
             None \<Rightarrow> False
           | Some bucket_end \<Rightarrow>
               (case checked_add bucket_end retention_ns of
                  None \<Rightarrow> False
                | Some threshold \<Rightarrow> threshold \<le> wall_floor)))"

definition delete_entry ::
  "'s env \<Rightarrow> limits \<Rightarrow> bytes \<Rightarrow> bytes \<Rightarrow> string \<Rightarrow> string \<Rightarrow> fd \<Rightarrow> DirEntryName \<Rightarrow> nat \<Rightarrow> ('s, nat option) rproc" where
  "delete_entry e l bucket_entry shard_entry bucket_name shard_name shard_fd raw_entry missing =
     visit_entry e l delete_receipts (\<lambda>p c. c\<lparr>delete_receipts := p\<rparr>)
       (\<lambda>cursor. three_should_skip cursor bucket_entry shard_entry raw_entry)
       (three_new bucket_entry shard_entry raw_entry) ''delete_entry_name'' raw_entry missing (\<lambda>rewind entry.
     let path = path2 ''receipts'' (path2 bucket_name (path2 shard_name entry)) in
     if strip_suffix ''.rct'' entry = None then io_return (Some missing)
     else
       with_receipt e l ''receipt_delete'' bucket_name shard_name shard_fd entry path rewind missing (\<lambda>receipt.
         io_bind (on_sys (fstatat (env_os e) shard_fd entry)) (\<lambda>current. case current of
           Err _ \<Rightarrow> io_return (Some missing)
         | Ok stat \<Rightarrow>
             if \<not> receipt_path_identity_matches stat (vr_device receipt) (vr_inode receipt)
             then io_bind (tally (record_error ''receipt_delete_replaced'' path ''receipt pathname changed after verification'')) (\<lambda>_.
                    io_return (Some missing))
             else unlinking e shard_fd entry ''receipt_delete'' path expired missing)))"

definition delete_shard ::
  "'s env \<Rightarrow> limits \<Rightarrow> bytes \<Rightarrow> string \<Rightarrow> fd \<Rightarrow> DirEntryName \<Rightarrow> nat \<Rightarrow> ('s, nat option) rproc" where
  "delete_shard e l bucket_entry bucket_name bucket_fd shard_entry missing =
     unless_before delete_position [bucket_entry] shard_entry missing
     (io_bind (on_queue (asks (\<lambda>q. fmt_shard_count (q_format q)))) (\<lambda>shard_count.
      named (shard_directory_name ''delete_shard_name'' shard_entry shard_count) missing (\<lambda>(shard_name, _).
      let shard_path = path2 ''receipts'' (path2 bucket_name shard_name) in
      entering e l bucket_fd \<lparr>lv_phase = DeleteReceipts, lv_name = shard_name, lv_components = [bucket_entry, shard_entry],
          lv_open_operation = ''delete_shard_open'', lv_read_operation = ''delete_entry_read'', lv_path = shard_path\<rparr>
        missing (\<lambda>shard_fd entries.
      io_bind (each_of (delete_entry e l bucket_entry shard_entry bucket_name shard_name shard_fd) entries 0) (\<lambda>r. case r of
        None \<Rightarrow> io_return None
      | Some missing_entries \<Rightarrow>
          if \<not> all_observed_children_absent missing_entries (length entries) then io_return (Some missing)
          else pruning e l bucket_fd shard_name ''receipt_shard_remove'' shard_path shard_gone missing)))))"

definition delete_bucket ::
  "'s env \<Rightarrow> limits \<Rightarrow> u64 \<Rightarrow> u64 \<Rightarrow> fd \<Rightarrow> DirEntryName \<Rightarrow> unit \<Rightarrow> ('s, unit option) rproc" where
  "delete_bucket e l wall_floor retention_ns receipts_fd bucket_entry u =
     unless_before delete_position [] bucket_entry u
     (within_budget e l
     (named (bucket_directory_name ''delete_bucket_name'' bucket_entry) u (\<lambda>(bucket_name, bucket_num).
      io_bind (on_queue (asks (\<lambda>q. fmt_terminal_bucket_width_ns (q_format q)))) (\<lambda>width.
      if \<not> retention_elapsed bucket_num width retention_ns wall_floor then io_return (Some u)
      else
        let bucket_path = path2 ''receipts'' bucket_name in
        entering e l receipts_fd \<lparr>lv_phase = DeleteReceipts, lv_name = bucket_name, lv_components = [bucket_entry],
            lv_open_operation = ''delete_bucket_open'', lv_read_operation = ''delete_shard_read'', lv_path = bucket_path\<rparr>
          u (\<lambda>bucket_fd shard_dirs.
        io_bind (each_of (delete_shard e l bucket_entry bucket_name bucket_fd) shard_dirs 0) (\<lambda>r. case r of
          None \<Rightarrow> io_return None
        | Some missing_shards \<Rightarrow>
            if \<not> all_observed_children_absent missing_shards (length shard_dirs) then io_return (Some u)
            else io_map (map_option (\<lambda>_. u))
              (pruning e l receipts_fd bucket_name ''receipt_bucket_remove'' bucket_path bucket_gone 0)))))))"

definition delete_expired_receipts :: "'s env \<Rightarrow> limits \<Rightarrow> WallFloor \<Rightarrow> u64 \<Rightarrow> ('s, unit) rproc" where
  "delete_expired_receipts e l wall_floor retention_ns =
     open_phase e l DeleteReceipts ''receipts'' ''delete_root_open'' (\<lambda>receipts_fd.
     reading_phase e l receipts_fd ''receipts'' ''delete_bucket_read'' (\<lambda>bucket_dirs.
     finishing (each_of (delete_bucket e l (wf_unix_ns wall_floor) retention_ns receipts_fd) bucket_dirs ())
       (set_cursor (\<lambda>c. c\<lparr>delete_receipts := None\<rparr>))))"

end
