(* ===== verification/Steadq_Pass.thy ===== *)
theory Steadq_Pass
  imports Steadq_Phases
begin

text \<open>
  A recovery pass, from \<^verbatim>\<open>src/crates/steadq-core/src/recovery.rs\<close>: the lock, the sweep of temporary
  files, loading and storing the cursor, and the loop over the phases.
\<close>

subsection \<open>The lock, the sweep and the stored cursor\<close>

definition acquire_recovery_lock :: "'s env \<Rightarrow> ('s, Error + fd) qproc" where
  "acquire_recovery_lock e =
     (let k = env_os e in
      io_bind (asks q_root_fd) (\<lambda>root_fd.
      io_try (from_io (open_directory k root_fd ''control'')) (\<lambda>control_fd.
      io_bind (lift (create_exclusive k control_fd ''recovery.lock'' MODE_0600)) (\<lambda>created.
      io_try
        (case created of
           Ok fd \<Rightarrow> io_try (from_io (fsync k fd)) (\<lambda>_. io_try (from_io (fsync_dir_fd k control_fd)) (\<lambda>_. io_return (Ok fd)))
         | Err er \<Rightarrow>
             if recovery_lock_exists er then from_io (openat k control_fd ''recovery.lock'' recovery_lock_open_flags 0)
             else io_return (Err (error_from_io er))) (\<lambda>lock_fd.
      io_try (from_io (try_ofd_write_lock k lock_fd)) (\<lambda>locked.
        io_return (if locked then Ok lock_fd else Err MaintenanceBusy)))))))"

definition collect_cursor_temp ::
  "IoError + DirEntryName option \<times> DirectoryStream \<Rightarrow> string list \<Rightarrow> ('s, (string list, IoError + string list) step) qproc" where
  "collect_cursor_temp r names =
     io_return (case r of
         Inl er \<Rightarrow> Break (Err er)
       | Inr (None, _) \<Rightarrow> Break (Ok names)
       | Inr (Some entry, _) \<Rightarrow>
           (case as_ascii_str entry of
              Some name \<Rightarrow> Continue (if recovery_cursor_temporary_name name then names @ [name] else names)
            | None \<Rightarrow> Continue names))"

definition cursor_temporary_files :: "'s env \<Rightarrow> ('s, IoError + fd \<times> string list) qproc" where
  "cursor_temporary_files e =
     io_bind (asks q_root_fd) (\<lambda>root_fd.
     io_try (lift (open_directory (env_os e) root_fd ''control'')) (\<lambda>control_fd.
     io_try (lift (stream_open (env_os e) control_fd)) (\<lambda>stream.
     io_try (each_entry (env_os e) collect_cursor_temp stream []) (\<lambda>names.
       io_return (Ok (control_fd, names))))))"

definition sweep_cursor_temp :: "'s env \<Rightarrow> fd \<Rightarrow> string \<Rightarrow> unit \<Rightarrow> ('s, unit option) rproc" where
  "sweep_cursor_temp e control_fd name u =
     io_bind (on_sys (unlink_verified (env_os e) control_fd name)) (\<lambda>r. case r of
       Ok _ \<Rightarrow> io_return (Some u)
     | Err Unlink_SourceMissing \<Rightarrow> io_return (Some u)
     | Err failure \<Rightarrow>
         io_bind (tally (record_unlink_failure ''recovery_cursor_sweep'' (path2 ''control'' name) failure)) (\<lambda>_.
           io_return (Some u)))"

definition sweep_cursor_temporary_files :: "'s env \<Rightarrow> ('s, unit) rproc" where
  "sweep_cursor_temporary_files e =
     io_bind (on_queue (cursor_temporary_files e)) (\<lambda>found. case found of
       Err er \<Rightarrow> tally (record_error ''recovery_cursor_sweep'' ''control'' (io_text er))
     | Ok (control_fd, names) \<Rightarrow> io_map (\<lambda>_. ()) (each_of (sweep_cursor_temp e control_fd) names ()))"

fun cursor_replace_failure :: "ReplaceFailure \<Rightarrow> string" where
  "cursor_replace_failure (Replace_NotCommitted phase source) =
     ''recovery cursor replacement not committed at '' @ at_phase (replace_phase_text phase) source"
| "cursor_replace_failure (Replace_OutcomeUnknown phase source) =
     ''recovery cursor replacement outcome unknown at '' @ at_phase (replace_phase_text phase) source"
| "cursor_replace_failure Replace_SourceMissing =
     ''recovery cursor replacement not committed at phase=Rename: source is missing''"
| "cursor_replace_failure Replace_DestinationChanged =
     ''recovery cursor replacement not committed at phase=DestinationIdentity: destination identity changed''"

definition cleanup_cursor_temporary_file :: "'s env \<Rightarrow> fd \<Rightarrow> string \<Rightarrow> string \<Rightarrow> ('s, Error) qproc" where
  "cleanup_cursor_temporary_file e control_fd temp_name primary_failure =
     io_bind (lift (unlink_verified (env_os e) control_fd temp_name)) (\<lambda>r. io_return (IoFailure (case r of
         Ok _ \<Rightarrow> primary_failure
       | Err Unlink_SourceMissing \<Rightarrow> primary_failure
       | Err (Unlink_NotCommitted phase source) \<Rightarrow>
           primary_failure @ ''; stale recovery cursor temporary file requires later cleanup at control/'' @ temp_name
             @ '': cleanup not committed at '' @ at_phase (unlink_phase_text phase) source
       | Err (Unlink_OutcomeUnknown phase source) \<Rightarrow>
           primary_failure @ ''; cleanup durability is unknown for stale recovery cursor temporary file control/'' @ temp_name
             @ '': '' @ at_phase (unlink_phase_text phase) source)))"

definition unpublished :: "string \<Rightarrow> IoError \<Rightarrow> string" where
  "unpublished phase er = ''recovery cursor publication not committed at '' @ at_phase phase er"

definition cursor_record :: "Queue \<Rightarrow> RecoveryCursorRecord" where
  "cursor_record queue =
     \<lparr>crec_schema = RECOVERY_CURSOR_SCHEMA, crec_version = RECOVERY_CURSOR_VERSION,
      crec_queue_id = hex_encode (arr_bytes (fmt_queue_id (q_format queue))), crec_cursor = q_recovery_cursor queue\<rparr>"

definition publish_cursor_temp :: "'s env \<Rightarrow> fd \<Rightarrow> string \<Rightarrow> fd \<Rightarrow> bytes \<Rightarrow> ('s, Error + unit) qproc" where
  "publish_cursor_temp e control_fd temp_name temp_fd bs =
     (let k = env_os e; cleaned = (\<lambda>failure. io_map Err (cleanup_cursor_temporary_file e control_fd temp_name failure)) in
      io_bind (lift (write_all k temp_fd bs)) (\<lambda>written. case written of
        Err er \<Rightarrow> cleaned (unpublished ''TempWrite'' er)
      | Ok _ \<Rightarrow>
          io_bind (lift (fsync k temp_fd)) (\<lambda>synced. case synced of
            Err er \<Rightarrow> cleaned (unpublished ''TempFsync'' er)
          | Ok _ \<Rightarrow>
              io_bind (lift (replace_verified k control_fd temp_name control_fd RECOVERY_CURSOR_FILE None)) (\<lambda>replaced.
              case replaced of
                Ok _ \<Rightarrow> io_return (Ok ())
              | Err failure \<Rightarrow>
                  if replace_is_outcome_unknown failure then io_return (Err (IoFailure (cursor_replace_failure failure)))
                  else cleaned (cursor_replace_failure failure)))))"

definition persist_recovery_cursor :: "'s env \<Rightarrow> cursor_json \<Rightarrow> ('s, Error + unit) qproc" where
  "persist_recovery_cursor e js =
     (let k = env_os e; fails = (\<lambda>phase er. IoFailure (unpublished phase er)) in
      io_bind (asks cursor_record) (\<lambda>r.
      io_try (io_return (map_err (\<lambda>er. IoFailure (''recovery cursor encode: '' @ er)) (cj_to_vec js r))) (\<lambda>bs.
      if \<not> cursor_record_bytes_fit (length bs)
      then io_return (Err (InvalidInput ''recovery cursor exceeds maximum encoded size''))
      else
        io_bind (asks q_root_fd) (\<lambda>root_fd.
        io_try (lift (io_map_err (fails ''ControlOpen'') (open_directory k root_fd ''control''))) (\<lambda>control_fd.
        io_try (lift (io_map_err (fails ''TempName'') (random_128bit k))) (\<lambda>random.
        let temp_name = ''.recovery-cursor.'' @ hex_encode (arr_bytes random) @ ''.tmp'' in
        io_try (lift (io_map_err (fails ''TempCreate'') (create_exclusive k control_fd temp_name MODE_0600))) (\<lambda>temp_fd.
          publish_cursor_temp e control_fd temp_name temp_fd bs)))))))"

subsection \<open>A recovery pass\<close>

text \<open>One phase, and the phase after it.\<close>

fun run_phase :: "'s env \<Rightarrow> limits \<Rightarrow> u64 \<Rightarrow> WallFloor option \<Rightarrow> RecoveryPhase \<Rightarrow> ('s, unit) rproc" where
  "run_phase e l boottime_now wall_floor ReapLeases = reap_expired_leases e l boottime_now wall_floor"
| "run_phase e l boottime_now wall_floor PromoteDelayed =
     (case wall_floor of Some floor \<Rightarrow> promote_delayed_jobs e l floor | None \<Rightarrow> io_return ())"
| "run_phase e l boottime_now wall_floor CleanupTemp = cleanup_temp_files e l boottime_now"
| "run_phase e l boottime_now wall_floor CompactReceipts = compact_receipts_with_scan_budget e l"
| "run_phase e l boottime_now wall_floor DeleteReceipts =
     (case wall_floor of
        Some floor \<Rightarrow>
          io_bind (on_queue (asks (\<lambda>q. receipt_retention_ns (q_options q)))) (\<lambda>retention.
            delete_expired_receipts e l floor retention)
      | None \<Rightarrow> io_return ())"

fun next_phase :: "RecoveryPhase \<Rightarrow> RecoveryPhase" where
  "next_phase ReapLeases = PromoteDelayed"
| "next_phase PromoteDelayed = CleanupTemp"
| "next_phase CleanupTemp = CompactReceipts"
| "next_phase CompactReceipts = DeleteReceipts"
| "next_phase DeleteReceipts = ReapLeases"

text \<open>The body of the loop over the phases, and the loop.\<close>

definition phase_round :: "'s env \<Rightarrow> limits \<Rightarrow> u64 \<Rightarrow> WallFloor option \<Rightarrow> RecoveryPhase \<Rightarrow> ('s, unit) rproc" where
  "phase_round e l boottime_now wall_floor phase =
     io_bind (run_phase e l boottime_now wall_floor phase) (\<lambda>_.
     io_bind (stats_of has_recovery_budget) (\<lambda>going.
     io_bind (if going then set_cursor (\<lambda>c. c\<lparr>cursor_phase := next_phase phase\<rparr>) else io_return ()) (\<lambda>_.
     io_bind (work_budget_exhausted e l) (\<lambda>exhausted.
       if exhausted then tally budget_spent else io_return ()))))"

partial_function (option) recover_loop :: "'s env \<Rightarrow> limits \<Rightarrow> u64 \<Rightarrow> WallFloor option \<Rightarrow> 's rworld \<Rightarrow> (unit \<times> 's rworld) option" where
  "recover_loop e l boottime_now wall_floor r =
     (if \<not> has_recovery_budget (rw_stats r) then Some ((), r)
      else
        let phase = cursor_phase (q_recovery_cursor (qw_queue (rw_q r))) in
        (case phase_round e l boottime_now wall_floor phase r of
           None \<Rightarrow> None
         | Some (_, r') \<Rightarrow>
             if phase = DeleteReceipts then Some ((), r') else recover_loop e l boottime_now wall_floor r'))"

definition saturating_mul :: "u64 \<Rightarrow> u64 \<Rightarrow> u64" where
  "saturating_mul a b = (case checked_mul a b of Some c \<Rightarrow> c | None \<Rightarrow> u64_MAX)"

text \<open>The steps before the loop; a failed one ends the pass with its error.\<close>

definition giving_up :: "string \<Rightarrow> string \<Rightarrow> ('e \<Rightarrow> string) \<Rightarrow> ('s, 'e + 'a) qproc \<Rightarrow> ('a \<Rightarrow> ('s, unit) rproc) \<Rightarrow> ('s, unit) rproc" where
  "giving_up op path text m f =
     io_bind (on_queue m) (\<lambda>r. case r of
       Err er \<Rightarrow> tally (record_error op path (text er))
     | Ok x \<Rightarrow> f x)"

definition observed_floor :: "'s env \<Rightarrow> ('s, WallFloor option) rproc" where
  "observed_floor e =
     io_bind (on_queue (stabilized_wall_floor e)) (\<lambda>r. case r of
       Ok floor \<Rightarrow> io_return (Some floor)
     | Err er \<Rightarrow>
         io_bind (tally (record_error ''wall_floor'' ''/''
             (''wall floor unavailable, skipping wall-sensitive recovery actions: '' @ error_text er))) (\<lambda>_. io_return None))"

definition run_phases :: "'s env \<Rightarrow> cursor_json \<Rightarrow> WorkBudget \<Rightarrow> RecoveryScanBudget \<Rightarrow> u64 \<Rightarrow> ('s, unit) rproc" where
  "run_phases e js budget scan_budget boottime_now =
     io_bind (observed_floor e) (\<lambda>wall_floor.
     giving_up ''clock_monotonic'' ''/'' io_text (lift (clock_monotonic_ns (env_os e))) (\<lambda>start_mono.
     let l = \<lparr>lim_work = budget, lim_scan = scan_budget,
              lim_deadline_mono = saturating_add start_mono (saturating_mul (wb_max_duration_ms budget) 1000000)\<rparr>
     in
     io_bind (recover_loop e l boottime_now wall_floor) (\<lambda>_.
     giving_up ''recovery_cursor_persist'' (path2 ''control'' RECOVERY_CURSOR_FILE) error_text
       (persist_recovery_cursor e js) io_return)))"

definition recovery_pass :: "'s env \<Rightarrow> cursor_json \<Rightarrow> WorkBudget \<Rightarrow> RecoveryScanBudget \<Rightarrow> ('s, unit) rproc" where
  "recovery_pass e js budget scan_budget =
     (case scan_budget_validate scan_budget of
        Inl er \<Rightarrow> tally (block_phase ''recovery_scan_budget'' ''/'' (error_text er))
      | Inr _ \<Rightarrow>
          giving_up ''recovery_lock'' ''control/recovery.lock'' error_text (acquire_recovery_lock e) (\<lambda>_.
          io_bind (sweep_cursor_temporary_files e) (\<lambda>_.
          giving_up ''recovery_cursor_reload'' (path2 ''control'' RECOVERY_CURSOR_FILE) error_text
            (io_bind (asks id) (\<lambda>q. load_recovery_cursor e js (q_root_fd q) (fmt_queue_id (q_format q)))) (\<lambda>cursor.
          io_bind (set_cursor (\<lambda>_. cursor)) (\<lambda>_.
          giving_up ''clock_boottime'' ''/'' io_text (lift (clock_boottime_ns (env_os e))) (\<lambda>boottime_now.
            run_phases e js budget scan_budget boottime_now))))))"

definition recover_with_scan_budget ::
  "'s env \<Rightarrow> cursor_json \<Rightarrow> WorkBudget \<Rightarrow> RecoveryScanBudget \<Rightarrow> ('s, RecoveryReport) qproc" where
  "recover_with_scan_budget e js budget scan_budget =
     (\<lambda>q. case recovery_pass e js budget scan_budget
             \<lparr>rw_q = q, rw_stats = stats_default, rw_scan = scan_stats_default\<rparr> of
        None \<Rightarrow> None
      | Some (_, r) \<Rightarrow> Some (\<lparr>rr_stats = rw_stats r, rr_scan = rw_scan r\<rparr>, rw_q r))"

definition recover :: "'s env \<Rightarrow> cursor_json \<Rightarrow> WorkBudget \<Rightarrow> ('s, RecoveryStats) qproc" where
  "recover e js budget = io_map rr_stats (recover_with_scan_budget e js budget scan_budget_default)"


end
