(* ===== verification/Steadq_Limits.thy ===== *)
theory Steadq_Limits
  imports Steadq_Pass
begin

text \<open>
  What a recovery pass keeps: it attempts no more operations and reads no more directories and entries
  than its budgets allow, and when the kernel lists proper names its cursor stays one that can be
  stored and loaded again. Procedures that attempt no operation, that stay within the limits, and that
  do so where the budget has room have a collection of rules each; every step of a walk is in one.
\<close>

subsection \<open>What a pass keeps\<close>

text \<open>Within its limits: the operations attempted, the directories and the entries read never exceed the
  budgets. When the names a directory lists are proper components, the cursor stays valid; the flag
  says whether that is claimed.\<close>

definition pass_ok :: "bool \<Rightarrow> limits \<Rightarrow> 's rworld \<Rightarrow> bool" where
  "pass_ok v l r \<longleftrightarrow>
     rs_operations_attempted (rw_stats r) \<le> wb_max_operations (lim_work l)
     \<and> ss_directories_read (rw_scan r) \<le> sb_max_directories_read (lim_scan l)
     \<and> ss_entries_read (rw_scan r) \<le> sb_max_entries_read (lim_scan l)
     \<and> (v \<longrightarrow> cursor_is_valid (q_recovery_cursor (qw_queue (rw_q r))))"

text \<open>A step within the limits also leaves the format and the poison of the handle alone.\<close>

definition same_base :: "'s rworld \<Rightarrow> 's rworld \<Rightarrow> bool" where
  "same_base r r' \<longleftrightarrow>
     q_format (qw_queue (rw_q r')) = q_format (qw_queue (rw_q r)) \<and> q_poisoned (qw_queue (rw_q r')) = q_poisoned (qw_queue (rw_q r))"

definition pass_safe :: "bool \<Rightarrow> limits \<Rightarrow> 's rworld \<Rightarrow> 's rworld \<Rightarrow> bool" where
  "pass_safe v l r r' \<longleftrightarrow> (pass_ok v l r \<longrightarrow> pass_ok v l r' \<and> same_base r r')"

text \<open>A step that attempts no operation, and one that may attempt one where the budget has room.\<close>

definition pass_free :: "bool \<Rightarrow> limits \<Rightarrow> 's rworld \<Rightarrow> 's rworld \<Rightarrow> bool" where
  "pass_free v l r r' \<longleftrightarrow>
     pass_safe v l r r' \<and> rs_operations_attempted (rw_stats r') = rs_operations_attempted (rw_stats r)"

definition has_room :: "limits \<Rightarrow> 's rworld \<Rightarrow> bool" where
  "has_room l r \<longleftrightarrow> rs_operations_attempted (rw_stats r) < wb_max_operations (lim_work l)"

definition spends :: "bool \<Rightarrow> limits \<Rightarrow> ('s, 'a) rproc \<Rightarrow> bool" where
  "spends v l m \<longleftrightarrow>
     (\<forall>r x r'. pass_ok v l r \<longrightarrow> has_room l r \<longrightarrow> m r = Some (x, r') \<longrightarrow> pass_ok v l r' \<and> same_base r r')"

named_theorems free_intros \<open>procedures that attempt no operation\<close>
named_theorems safe_intros \<open>procedures that stay within the limits\<close>
named_theorems spend_intros \<open>procedures that stay within the limits where there is room\<close>

lemma same_base_refl [simp]: "same_base r r"
  and same_base_trans: "same_base r r1 \<Longrightarrow> same_base r1 r2 \<Longrightarrow> same_base r r2"
  by (simp_all add: same_base_def)

lemma preorder_pass [intro!, simp]: "preorder_rel (pass_safe v l)" "preorder_rel (pass_free v l)"
  by (auto simp: preorder_rel_def pass_safe_def pass_free_def intro: same_base_trans)

lemma free_safe: "keeps (pass_free v l) m \<Longrightarrow> keeps (pass_safe v l) m"
  by (auto simp: keeps_def pass_free_def)

lemma safe_spends: "keeps (pass_safe v l) m \<Longrightarrow> spends v l m"
  by (auto simp: keeps_def pass_safe_def spends_def)

lemma on_queue_eq_Some_iff: "on_queue m r = Some (x, r') \<longleftrightarrow> (\<exists>q. m (rw_q r) = Some (x, q) \<and> r' = r\<lparr>rw_q := q\<rparr>)"
  by (auto simp: on_queue_def split: option.splits)

lemma free_on_queue: "keeps same_handle m \<Longrightarrow> keeps (pass_free v l) (on_queue m)"
  by (auto simp: keeps_def on_queue_eq_Some_iff pass_free_def pass_safe_def pass_ok_def same_base_def same_handle_def)

lemma free_on_sys [free_intros]: "keeps (pass_free v l) (on_sys m)"
  unfolding on_sys_def by (rule free_on_queue [OF keeps_lift])

lemma free_asks [free_intros]: "keeps (pass_free v l) (on_queue (asks f))"
  by (rule free_on_queue [OF keeps_asks])

lemma free_cursor_of [free_intros]: "keeps (pass_free v l) (cursor_of f)"
  unfolding cursor_of_def by (rule free_asks)

lemma free_reads [free_intros]: "keeps (pass_free v l) (stats_of f)" "keeps (pass_free v l) (scan_of g)"
  by (auto simp: keeps_def stats_of_def scan_of_def pass_free_def pass_safe_def)

lemma free_tally: "(\<And>s. rs_operations_attempted (f s) = rs_operations_attempted s) \<Longrightarrow> keeps (pass_free v l) (tally f)"
  by (auto simp: keeps_def tally_def pass_free_def pass_safe_def pass_ok_def same_base_def)

lemma free_name_checked:
  "(\<And>s. rs_operations_attempted (snd (f s)) = rs_operations_attempted s) \<Longrightarrow> keeps (pass_free v l) (name_checked f)"
  by (auto simp: keeps_def name_checked_def pass_free_def pass_safe_def pass_ok_def same_base_def)

lemma free_set_cursor:
  "(\<And>c. v \<Longrightarrow> cursor_is_valid c \<Longrightarrow> cursor_is_valid (f c)) \<Longrightarrow> keeps (pass_free v l) (set_cursor f)"
  by (auto simp: keeps_def set_cursor_def on_queue_eq_Some_iff pass_free_def pass_safe_def pass_ok_def same_base_def)

text \<open>What the recording functions do not touch.\<close>

lemma recorded_operations [simp]:
  "rs_operations_attempted (record_error op p er s) = rs_operations_attempted s"
  "rs_operations_attempted (block_phase op p er s) = rs_operations_attempted s"
  "rs_operations_attempted (budget_spent s) = rs_operations_attempted s"
  "rs_operations_attempted (skipped_scan s) = rs_operations_attempted s"
  "rs_operations_attempted (record_categorized op p x s) = rs_operations_attempted s"
  "rs_operations_attempted (record_move_failure op p mf s) = rs_operations_attempted s"
  "rs_operations_attempted (record_unlink_failure op p uf s) = rs_operations_attempted s"
  "rs_operations_attempted (record_remove_directory_failure op p rf s) = rs_operations_attempted s"
  "rs_operations_attempted (record_replace_failure op p pf s) = rs_operations_attempted s"
  "rs_operations_attempted (shard_gone s) = rs_operations_attempted s"
  "rs_operations_attempted (bucket_gone s) = rs_operations_attempted s"
  by (simp_all add: record_error_def block_phase_def budget_spent_def skipped_scan_def record_categorized_def
      record_move_failure_def record_unlink_failure_def record_remove_directory_failure_def record_replace_failure_def
      shard_gone_def bucket_gone_def)

lemma counted_operations [simp]:
  "rs_operations_attempted (promoted s) = rs_operations_attempted s"
  "rs_operations_attempted (reaped s) = rs_operations_attempted s"
  "rs_operations_attempted (buried s) = rs_operations_attempted s"
  "rs_operations_attempted (temp_deleted s) = rs_operations_attempted s"
  "rs_operations_attempted (compacted s) = rs_operations_attempted s"
  "rs_operations_attempted (expired s) = rs_operations_attempted s"
  by (simp_all add: promoted_def reaped_def buried_def temp_deleted_def compacted_def expired_def)

lemma checked_names_operations [simp]:
  "rs_operations_attempted (snd (boot_directory_name op n s)) = rs_operations_attempted s"
  "rs_operations_attempted (snd (bucket_directory_name op n s)) = rs_operations_attempted s"
  "rs_operations_attempted (snd (shard_directory_name op n c s)) = rs_operations_attempted s"
  by (auto simp: boot_directory_name_def bucket_directory_name_def shard_directory_name_def ascii_directory_name_def
      record_noncanonical_def split: option.splits prod.splits if_splits)

lemma free_directory_failed [free_intros]: "keeps (pass_free v l) (directory_failed op p er)"
proof -
  have "rs_operations_attempted (snd (record_directory_error op p er s)) = rs_operations_attempted s" for s
    by (cases er) simp_all
  then show ?thesis
    by (auto simp: keeps_def directory_failed_def Let_def case_prod_beta pass_free_def pass_safe_def pass_ok_def same_base_def)
qed

subsection \<open>Composition\<close>

lemma safe_bind:
  assumes "keeps (pass_safe v l) m"
    and "\<And>x r r'. pass_ok v l r \<Longrightarrow> m r = Some (x, r') \<Longrightarrow> keeps (pass_safe v l) (f x)"
  shows "keeps (pass_safe v l) (io_bind m f)"
  using assms unfolding keeps_def pass_safe_def io_bind_eq_Some_iff by (blast intro: same_base_trans)

lemma free_bind:
  assumes "keeps (pass_free v l) m" and "\<And>x. keeps (pass_free v l) (f x)"
  shows "keeps (pass_free v l) (io_bind m f)"
  by (rule keeps_bind [OF _ assms]) simp

lemma spends_bind:
  assumes "keeps (pass_free v l) m"
    and "\<And>x r r'. pass_ok v l r \<Longrightarrow> m r = Some (x, r') \<Longrightarrow> spends v l (f x)"
  shows "spends v l (io_bind m f)"
  unfolding spends_def io_bind_eq_Some_iff
proof (intro allI impI, elim exE conjE)
  fix r x r' y r1 assume ok: "pass_ok v l r" "has_room l r" and m: "m r = Some (y, r1)" and f: "f y r1 = Some (x, r')"
  have "pass_ok v l r1" "has_room l r1" "same_base r r1"
    using keepsD [OF assms(1) m] ok by (simp_all add: pass_free_def pass_safe_def has_room_def)
  then show "pass_ok v l r' \<and> same_base r r'" using assms(2) [OF ok(1) m] f unfolding spends_def by (blast intro: same_base_trans)
qed

lemma spends_attempt:
  assumes "\<And>x. keeps (pass_safe v l) (f x)"
  shows "spends v l (io_bind (tally attempted) f)"
  unfolding spends_def io_bind_eq_Some_iff
proof (intro allI impI, elim exE conjE)
  fix r x r' y r1 assume ok: "pass_ok v l r" "has_room l r" and m: "tally attempted r = Some (y, r1)" and f: "f y r1 = Some (x, r')"
  have "pass_ok v l r1" "same_base r r1"
    using m ok by (auto simp: tally_def pass_ok_def has_room_def attempted_def inc_le same_base_def)
  then show "pass_ok v l r' \<and> same_base r r'"
    using keepsD [OF assms f] by (auto simp: pass_safe_def intro: same_base_trans)
qed

lemma spends_cases [spend_intros]:
  "(b \<Longrightarrow> spends v l m) \<Longrightarrow> (\<not> b \<Longrightarrow> spends v l m') \<Longrightarrow> spends v l (if b then m else m')"
  "(\<And>y. s = Inl y \<Longrightarrow> spends v l (f y)) \<Longrightarrow> (\<And>x. s = Inr x \<Longrightarrow> spends v l (g x)) \<Longrightarrow> spends v l (case s of Inl y \<Rightarrow> f y | Inr x \<Rightarrow> g x)"
  "(t = None \<Longrightarrow> spends v l m) \<Longrightarrow> (\<And>x. t = Some x \<Longrightarrow> spends v l (h x)) \<Longrightarrow> spends v l (case t of None \<Rightarrow> m | Some x \<Rightarrow> h x)"
  by (auto split: sum.splits option.splits)

lemma safe_cases [safe_intros]:
  "(b \<Longrightarrow> keeps R m) \<Longrightarrow> (\<not> b \<Longrightarrow> keeps R m') \<Longrightarrow> keeps R (if b then m else m')"
  "(\<And>y. s = Inl y \<Longrightarrow> keeps R (f y)) \<Longrightarrow> (\<And>x. s = Inr x \<Longrightarrow> keeps R (g x)) \<Longrightarrow> keeps R (case s of Inl y \<Rightarrow> f y | Inr x \<Rightarrow> g x)"
  "(t = None \<Longrightarrow> keeps R m) \<Longrightarrow> (\<And>x. t = Some x \<Longrightarrow> keeps R (h x)) \<Longrightarrow> keeps R (case t of None \<Rightarrow> m | Some x \<Rightarrow> h x)"
  by (auto split: sum.splits option.splits)

lemma safe_return [safe_intros]: "keeps (pass_safe v l) (io_return x)"
  and free_return [free_intros]: "keeps (pass_free v l) (io_return x)"
  by (simp_all add: keeps_return)

lemmas free_rules = free_intros free_bind free_tally free_name_checked free_set_cursor safe_cases keeps_case_prod

subsection \<open>Enumeration stays within the scan budget\<close>

text \<open>The kernel lists proper components apart from the two dot entries.\<close>

definition entry_names :: "'s os \<Rightarrow> bool" where
  "entry_names k \<longleftrightarrow>
     (\<forall>dir s name off s'. sys_readdir k dir s = (Inr (Some (name, off)), s') \<longrightarrow> is_dot name \<or> cursor_component_is_valid name)"

definition proper_names :: "bool \<Rightarrow> DirEntryName list \<Rightarrow> bool" where
  "proper_names v names \<longleftrightarrow> (v \<longrightarrow> list_all cursor_component_is_valid names)"

lemma next_raw_proper:
  assumes "v \<longrightarrow> entry_names k" and "next_raw k dir w = Some (Inr (Some (name, off)), w')" and "\<not> is_dot name"
  shows "proper_names v [name]"
  using assms
  by (auto simp: next_raw_def syscall_def entry_names_def proper_names_def map_err_def split: sum.splits prod.splits) blast

lemma unat_saturating_add: "unat (saturating_add a b :: 'a::len word) = min (unat a + unat b) (2 ^ LENGTH('a) - 1)"
proof (cases "unat a + unat b < 2 ^ LENGTH('a)")
  case True
  then have "unat a + unat b \<le> 2 ^ LENGTH('a) - 1" by simp
  with True show ?thesis by (simp add: saturating_add_def unat_plus_if' min_absorb1)
next
  case False
  then have "2 ^ LENGTH('a) - 1 \<le> unat a + unat b" by linarith
  with False show ?thesis by (simp add: saturating_add_def min_absorb2 unsigned_minus_1_eq_mask mask_eq_exp_minus_1)
qed

lemma inc_saturating: "a < m \<Longrightarrow> saturating_add a 1 \<le> m" for a m :: u64
  by (auto simp: word_le_nat_alt word_less_nat_alt unat_saturating_add)

lemma charge_fits:
  assumes "\<not> saturating_sub m a < c" and "unat n \<le> unat c" and "a \<le> m"
  shows "saturating_add a n \<le> m"
  using assms by (auto simp: word_le_nat_alt word_less_nat_alt unat_saturating_sub unat_saturating_add)

definition counted :: "bool \<Rightarrow> u64 \<Rightarrow> DirectoryEnumerationProgressError + DirEntryName list \<times> DirectoryEnumerationProgress \<Rightarrow> bool" where
  "counted v me r =
     (case r of
        Inl er \<Rightarrow> unat (entries_read (enumeration_progress er)) \<le> unat me + 1
      | Inr (es, p) \<Rightarrow> unat (entries_read p) \<le> unat me + 1 \<and> proper_names v es)"

definition counting :: "bool \<Rightarrow> u64 \<Rightarrow> DirEntryName list \<Rightarrow> DirectoryEnumerationProgress \<Rightarrow> bool" where
  "counting v me es p \<longleftrightarrow> unat (entries_read p) = length es \<and> length es \<le> unat me \<and> proper_names v es"

lemma counting_counted:
  assumes "counting v me es p"
  shows "counted v me (Ok (es, p))" "counted v me (Err (Enumeration_Io er p))" "counted v me (Err (Cancelled p))"
    "counted v me (Err (CancellationCheck er p))"
  using assms by (simp_all add: counting_def counted_def)

lemma accept_entry_counts:
  assumes c: "counting v me es p" and "unat me < 2 ^ 32" and "proper_names v [name]"
  shows "accept_entry me mb es b p name = Inl er \<Longrightarrow> counted v me (Inl er)"
    and "accept_entry me mb es b p name = Inr (es', b', p') \<Longrightarrow> counting v me es' p'"
proof -
  have "unat (saturating_add (entries_read p) 1) = length es + 1"
    using assms by (simp add: counting_def unat_saturating_add)
  moreover have "length es + 1 \<le> unat me" if "\<not> me \<le> word_of_nat (length es)"
    using that assms by (simp add: counting_def not_le word_less_nat_alt unsigned_of_nat take_bit_nat_eq_self)
  moreover have "proper_names v (es @ [name])" using assms by (simp add: counting_def proper_names_def)
  ultimately show "accept_entry me mb es b p name = Inl er \<Longrightarrow> counted v me (Inl er)"
    "accept_entry me mb es b p name = Inr (es', b', p') \<Longrightarrow> counting v me es' p'"
    using c by (auto simp: accept_entry_def Let_def counted_def counting_def split: if_splits option.splits)
qed

lemma enumerate_loop_counts:
  fixes k :: "'s os"
  assumes "enumerate_loop k st me mb dir es b p w = Some (r, w')" and v: "v \<longrightarrow> entry_names k"
    and me: "unat me < 2 ^ 32" and "counting v me es p"
  shows "counted v me r"
proof -
  define Q where "Q = (\<lambda>k' (st' :: ('s, IoError + bool) sysproc) me' (mb' :: u64) (dir' :: fd) es (b :: u64)
      (p :: DirectoryEnumerationProgress) (w :: 's world) (y :: (DirectoryEnumerationProgressError
      + DirEntryName list \<times> DirectoryEnumerationProgress) \<times> 's world). k' = k \<and> me' = me \<and> counting v me es p
      \<longrightarrow> counted v me (fst y))"
  have "Q k st me mb dir es b p w (r, w')"
  proof (rule enumerate_loop.raw_induct [of Q, OF _ assms(1)])
    fix f k' st' me' mb dir es b p w y
    assume IH: "\<And>k' st' me' mb dir es b p w y. f k' st' me' mb dir es b p w = Some y \<Longrightarrow> Q k' st' me' mb dir es b p w y"
      and run: "(case st' w of None \<Rightarrow> None | Some (Inl er, w1) \<Rightarrow> Some (Err (CancellationCheck er p), w1)
        | Some (Inr stop, w1) \<Rightarrow> if stop then Some (Err (Cancelled p), w1)
          else (case next_raw k' dir w1 of None \<Rightarrow> None | Some (Inl er, w2) \<Rightarrow> Some (Err (Enumeration_Io er p), w2)
            | Some (Inr None, w2) \<Rightarrow> Some (Ok (es, p), w2)
            | Some (Inr (Some (name, _)), w2) \<Rightarrow>
                if is_dot name then f k' st' me' mb dir es b p w2
                else (case accept_entry me' mb es b p name of Inl er \<Rightarrow> Some (Err er, w2)
                  | Inr (es', b', p') \<Rightarrow> f k' st' me' mb dir es' b' p' w2))) = Some y"
    have "counted v me (fst y)" if k: "k' = k" "me' = me" and c: "counting v me es p"
    proof -
      have IH': "counted v me (fst y)" if "f k st' me mb dir es b p w = Some y" "counting v me es p" for es b p w
        using IH [OF that(1)] that(2) by (simp add: Q_def)
      show ?thesis
        using run counting_counted [OF c] c unfolding k
        by (auto dest: IH' accept_entry_counts [OF c me next_raw_proper [OF v]]
            split: option.splits prod.splits sum.splits if_splits)
    qed
    then show "Q k' st' me' mb dir es b p w y" by (simp add: Q_def)
  qed
  then show ?thesis using assms by (simp add: Q_def)
qed

lemma permuted_proper: "proper_names v (permute_directory_entries s es) = proper_names v es"
  by (simp add: proper_names_def list_all_iff permute_directory_entries_def Let_def)

lemma bounded_enumeration:
  assumes "read_dir_entries_bounded_until_with_progress k fd me mb st w = Some (r, w')" and v: "v \<longrightarrow> entry_names k"
    and me: "unat me < 2 ^ 32"
  shows "(case r of Inl er \<Rightarrow> unat (entries_read (enumeration_progress er)) \<le> unat me + 1
     | Inr en \<Rightarrow> unat (entries_read (de_progress en)) \<le> unat me + 1 \<and> proper_names v (de_entries en))"
proof -
  have "counting v me [] no_progress"
    by (simp add: no_progress_def proper_names_def counting_def)
  then show ?thesis
    using assms(1)
    by (auto simp: read_dir_entries_bounded_until_with_progress_def read_dir_entry_names_impl_def io_try_eq_Some_iff
        io_map_err_Err_iff permuted_proper no_progress_def counted_def
        dest!: enumerate_loop_counts [OF _ v me])
qed

definition progress_of :: "DirectoryEnumerationProgressError + DirectoryEnumeration \<Rightarrow> DirectoryEnumerationProgress" where
  "progress_of res = (case res of Ok enumeration \<Rightarrow> de_progress enumeration | Err er \<Rightarrow> enumeration_progress er)"

definition listing_of :: "DirectoryEnumerationProgressError + DirectoryEnumeration \<Rightarrow> RecoveryDirectoryError + DirEntryName list" where
  "listing_of res = (case res of Ok enumeration \<Rightarrow> Ok (de_entries enumeration)
     | Err (Cancelled _) \<Rightarrow> Err RD_BudgetExhausted
     | Err (CancellationCheck er _) \<Rightarrow> Err (RD_Clock er)
     | Err (Enumeration_Io er _) \<Rightarrow> Err (RD_Io er))"

lemma listing_of_Ok: "listing_of res = Ok entries \<Longrightarrow> \<exists>en. res = Ok en \<and> entries = de_entries en"
  by (auto simp: listing_of_def split: sum.splits DirectoryEnumerationProgressError.splits)

lemma read_recovery_directory_unfold:
  "read_recovery_directory e l fd r =
     (if ss_directories_read (rw_scan r) \<ge> sb_max_directories_read (lim_scan l)
         \<or> saturating_sub (sb_max_entries_read (lim_scan l)) (ss_entries_read (rw_scan r)) < MAX_RECOVERY_DIRECTORY_ENTRY_CHARGE
         \<or> saturating_sub (sb_max_name_bytes_read (lim_scan l)) (ss_name_bytes_read (rw_scan r)) < MAX_RECOVERY_DIRECTORY_NAME_BYTE_CHARGE
      then Some (Err RD_BudgetExhausted, r)
      else (case read_dir_entries_bounded_until_with_progress (env_os e) fd MAX_RECOVERY_DIRECTORY_ENTRIES
          MAX_RECOVERY_DIRECTORY_NAME_BYTES (budget_time_exceeded (env_os e) (lim_deadline_mono l)) (qw_sys (rw_q r)) of
        None \<Rightarrow> None
      | Some (res, w) \<Rightarrow> Some (listing_of res, r\<lparr>rw_q := (rw_q r)\<lparr>qw_sys := w\<rparr>, rw_scan := (rw_scan r)\<lparr>
          ss_directories_read := saturating_add (ss_directories_read (rw_scan r)) 1,
          ss_entries_read := saturating_add (ss_entries_read (rw_scan r)) (entries_read (progress_of res)),
          ss_name_bytes_read := saturating_add (ss_name_bytes_read (rw_scan r)) (name_bytes_read (progress_of res))\<rparr>\<rparr>)))"
  by (simp add: read_recovery_directory_def scan_of_def io_bind_def io_return_def Let_def charge_def on_sys_def on_queue_def
      lift_def progress_of_def listing_of_def split: option.split)

lemma read_recovery_directory_cases:
  assumes "read_recovery_directory e l fd r = Some (x, r')"
  obtains "r' = r" "x = Err RD_BudgetExhausted"
  | res w where "read_dir_entries_bounded_until_with_progress (env_os e) fd MAX_RECOVERY_DIRECTORY_ENTRIES
        MAX_RECOVERY_DIRECTORY_NAME_BYTES (budget_time_exceeded (env_os e) (lim_deadline_mono l)) (qw_sys (rw_q r)) = Some (res, w)"
      and "ss_directories_read (rw_scan r) < sb_max_directories_read (lim_scan l)"
      and "\<not> saturating_sub (sb_max_entries_read (lim_scan l)) (ss_entries_read (rw_scan r)) < MAX_RECOVERY_DIRECTORY_ENTRY_CHARGE"
      and "rw_stats r' = rw_stats r" and "qw_queue (rw_q r') = qw_queue (rw_q r)"
      and "ss_directories_read (rw_scan r') = saturating_add (ss_directories_read (rw_scan r)) 1"
      and "ss_entries_read (rw_scan r') = saturating_add (ss_entries_read (rw_scan r)) (entries_read (progress_of res))"
      and "x = listing_of res"
proof (cases "ss_directories_read (rw_scan r) \<ge> sb_max_directories_read (lim_scan l)
         \<or> saturating_sub (sb_max_entries_read (lim_scan l)) (ss_entries_read (rw_scan r)) < MAX_RECOVERY_DIRECTORY_ENTRY_CHARGE
         \<or> saturating_sub (sb_max_name_bytes_read (lim_scan l)) (ss_name_bytes_read (rw_scan r)) < MAX_RECOVERY_DIRECTORY_NAME_BYTE_CHARGE")
  case True
  then show thesis using assms that(1) unfolding read_recovery_directory_unfold by simp
next
  case False
  then show thesis
    using assms unfolding read_recovery_directory_unfold if_not_P [OF False]
    by (simp add: not_le split: option.split_asm prod.split_asm) (rule that(2); force)
qed

lemma free_read_directory [free_intros]: "keeps (pass_free v l) (read_recovery_directory e l fd)"
proof (rule keepsI)
  fix r x r' assume "read_recovery_directory e l fd r = Some (x, r')"
  then show "pass_free v l r r'"
  proof (cases rule: read_recovery_directory_cases)
    case (2 res w)
    have "unat (entries_read (progress_of res)) \<le> unat MAX_RECOVERY_DIRECTORY_ENTRY_CHARGE"
      using bounded_enumeration [OF 2(1), of False]
      by (auto simp: MAX_RECOVERY_DIRECTORY_ENTRIES_def MAX_RECOVERY_DIRECTORY_ENTRY_CHARGE_def progress_of_def split: sum.splits)
    then show ?thesis
      using 2 charge_fits [OF 2(3)] by (auto simp: pass_free_def pass_safe_def pass_ok_def same_base_def inc_saturating)
  qed (simp add: pass_free_def pass_safe_def)
qed

lemma read_directory_proper:
  assumes "read_recovery_directory e l fd r = Some (Ok entries, r')" and "v \<longrightarrow> entry_names (env_os e)"
  shows "proper_names v entries"
  using assms(1)
proof (cases rule: read_recovery_directory_cases)
  case (2 res w)
  then show ?thesis
    using bounded_enumeration [OF 2(1) assms(2)] listing_of_Ok [of res entries]
    by (auto simp: MAX_RECOVERY_DIRECTORY_ENTRIES_def)
qed simp

subsection \<open>Quarantine within the budget\<close>

lemma stats_of_bind: "io_bind (stats_of f) g r = g (f (rw_stats r)) r"
  by (simp add: io_bind_def stats_of_def)

lemma tally_bind: "io_bind (tally f) g r = g () (r\<lparr>rw_stats := f (rw_stats r)\<rparr>)"
  by (simp add: io_bind_def tally_def)

lemma attempts_fit:
  assumes "consumed \<le> unat (saturating_sub m (rs_operations_attempted s))" and "rs_operations_attempted s \<le> m"
  shows "rs_operations_attempted (attempts_charged consumed s) \<le> m"
proof -
  have "consumed < 2 ^ 32" using le_less_trans [OF assms(1) unsigned_less] by simp
  then show ?thesis
    using assms
    by (auto simp: attempts_charged_def word_le_nat_alt unat_saturating_sub unat_saturating_add unsigned_of_nat take_bit_nat_eq_self)
qed

lemma safe_record_quarantine [safe_intros]: "keeps (pass_safe v l) (record_quarantine c result)"
  unfolding record_quarantine_def
  by (rule free_safe, cases result)
    (auto intro!: free_bind free_tally free_return split: QuarantinePublishFailure.split)

lemma safe_quarantine_with_ids:
  assumes "keeps same_handle next_id"
  shows "keeps (pass_safe v l) (quarantine_recovery_object_with_ids e l c next_id)"
proof (rule keepsI)
  fix r x r' assume run: "quarantine_recovery_object_with_ids e l c next_id r = Some (x, r')"
  let ?remaining = "saturating_sub (wb_max_operations (lim_work l)) (rs_operations_attempted (rw_stats r))"
  let ?publish = "publish_quarantine_object_with_ids e (rc_source_directory_fd c) (rc_filename c) (rc_reason c) (unat ?remaining) next_id"
  show "pass_safe v l r r'"
  proof (cases "?remaining = 0")
    case True
    then show ?thesis
      using run by (auto simp: quarantine_recovery_object_with_ids_def stats_of_bind tally_bind Let_def pass_safe_def pass_ok_def same_base_def)
  next
    case False
    then obtain result q where pub: "?publish (rw_q r) = Some (result, q)"
      and rest: "record_quarantine c result (r\<lparr>rw_q := q, rw_stats := attempts_charged (consumed_attempts result) (rw_stats r)\<rparr>) = Some (x, r')"
      using run
      by (auto simp: quarantine_recovery_object_with_ids_def stats_of_bind Let_def
          io_bind_eq_Some_iff [of "on_queue _"] on_queue_eq_Some_iff tally_bind)
    have "consumed_attempts result \<le> unat ?remaining"
      using yieldsD [OF publish_quarantine_consumed pub] by simp
    moreover have "same_handle (rw_q r) q" by (rule keepsD [OF keeps_publish_quarantine [OF assms] pub])
    ultimately have "pass_safe v l r (r\<lparr>rw_q := q, rw_stats := attempts_charged (consumed_attempts result) (rw_stats r)\<rparr>)"
      by (auto simp: pass_safe_def pass_ok_def same_base_def same_handle_def attempts_fit)
    then show ?thesis using keepsD [OF safe_record_quarantine rest, of v l] by (auto simp: pass_safe_def intro: same_base_trans)
  qed
qed

lemma safe_quarantine [safe_intros]: "keeps (pass_safe v l) (quarantine_recovery_object e l c)"
  unfolding quarantine_recovery_object_def by (rule safe_quarantine_with_ids [OF keeps_lift])

subsection \<open>The steps of a walk\<close>

lemma case_sum_run: "(case s of Inl a \<Rightarrow> f a | Inr b \<Rightarrow> g b) w = Some y
    \<longleftrightarrow> (\<exists>a. s = Inl a \<and> f a w = Some y) \<or> (\<exists>b. s = Inr b \<and> g b w = Some y)"
  by (cases s) simp_all

lemma safe_free_bind:
  assumes "keeps (pass_free v l) m" and "\<And>x. keeps (pass_safe v l) (f x)"
  shows "keeps (pass_safe v l) (io_bind m f)"
  using safe_bind [OF free_safe [OF assms(1)]] assms(2) by blast

lemma keeps_io_map: "keeps R m \<Longrightarrow> keeps R (io_map f m)"
  by (auto simp: keeps_def io_map_eq_Some_iff)

lemma spends_io_map: "spends v l m \<Longrightarrow> spends v l (io_map f m)"
  by (auto simp: spends_def io_map_eq_Some_iff)

lemma free_work_budget [free_intros]: "keeps (pass_free v l) (work_budget_exhausted e l)"
  unfolding work_budget_exhausted_def by (intro free_rules) simp_all

lemma work_budget_room:
  assumes "work_budget_exhausted e l r = Some (False, r')" shows "has_room l r'"
proof -
  have "rs_operations_attempted (rw_stats r) < wb_max_operations (lim_work l)"
  proof (rule ccontr)
    assume "\<not> ?thesis"
    then have "work_budget_exhausted e l r = Some (True, r)"
      by (simp add: work_budget_exhausted_def stats_of_bind not_less)
    with assms show False by simp
  qed
  then show ?thesis using keepsD [OF free_work_budget [of False] assms] by (simp add: pass_free_def has_room_def)
qed

lemma safe_budgeted:
  assumes "keeps (pass_safe v l) n" and "spends v l m"
  shows "keeps (pass_safe v l) (io_bind (work_budget_exhausted e l) (\<lambda>exhausted. if exhausted then n else m))"
proof (rule keepsI)
  fix r x r' assume "io_bind (work_budget_exhausted e l) (\<lambda>exhausted. if exhausted then n else m) r = Some (x, r')"
  then obtain b r1 where b: "work_budget_exhausted e l r = Some (b, r1)" and rest: "(if b then n else m) r1 = Some (x, r')"
    by (auto simp: io_bind_eq_Some_iff)
  have "pass_safe v l r r1" using keepsD [OF free_work_budget b] by (simp add: pass_free_def)
  moreover have "pass_safe v l r1 r'"
  proof (cases b)
    case True
    then show ?thesis using keepsD [OF assms(1)] rest by simp
  next
    case False
    then have "m r1 = Some (x, r')" "has_room l r1" using rest b work_budget_room by auto
    then show ?thesis using assms(2) unfolding spends_def pass_safe_def by blast
  qed
  ultimately show "pass_safe v l r r'" by (auto simp: pass_safe_def intro: same_base_trans)
qed

lemma safe_within_budget [safe_intros]: "spends v l m \<Longrightarrow> keeps (pass_safe v l) (within_budget e l m)"
  unfolding within_budget_def by (rule safe_budgeted) (simp_all add: safe_free_bind free_tally safe_return)

lemma safe_unless_before [safe_intros]:
  "keeps (pass_safe v l) m \<Longrightarrow> keeps (pass_safe v l) (unless_before position parents entry a m)"
  unfolding unless_before_def by (intro safe_free_bind free_cursor_of safe_intros)

lemma proper_sort [simp]: "proper_names v (sort names) = proper_names v names"
  by (simp add: proper_names_def list_all_iff)

lemma named_result: "name_checked check r = Some (Some n, r') \<Longrightarrow> \<exists>s. fst (check s) = Some n"
  by (auto simp: name_checked_def)

lemma safe_named:
  assumes "\<And>s. rs_operations_attempted (snd (check s)) = rs_operations_attempted s"
    and "\<And>n s. fst (check s) = Some n \<Longrightarrow> keeps (pass_safe v l) (f n)"
  shows "keeps (pass_safe v l) (named check a f)"
  unfolding named_def
  by (rule safe_bind [OF free_safe [OF free_name_checked [OF assms(1)]]])
    (auto intro: safe_return dest!: named_result assms(2) split: option.split)

lemma spends_named:
  assumes "\<And>s. rs_operations_attempted (snd (check s)) = rs_operations_attempted s"
    and "\<And>n s. fst (check s) = Some n \<Longrightarrow> keeps (pass_safe v l) (f n)"
  shows "spends v l (named check a f)"
  by (rule safe_spends [OF safe_named [OF assms]])

lemma safe_prune [safe_intros]: "keeps (pass_safe v l) (prune_empty_directory e l fd name op path)"
  unfolding prune_empty_directory_def
  by (rule safe_budgeted, simp add: safe_free_bind free_tally safe_return, rule spends_attempt, rule free_safe,
      rule free_bind, rule free_on_sys)
    (auto intro!: free_rules split: sum.split RemoveDirectoryFailure.split)

lemma safe_pruning [safe_intros]:
  "(\<And>s. rs_operations_attempted (removed s) = rs_operations_attempted s)
   \<Longrightarrow> keeps (pass_safe v l) (pruning e l fd name op path removed missing)"
  unfolding pruning_def
  by (rule safe_bind [OF safe_prune]) (auto intro!: safe_free_bind free_tally safe_return split: Prune.split)

lemma safe_each_of:
  "(\<And>x a. x \<in> set xs \<Longrightarrow> keeps (pass_safe v l) (body x a)) \<Longrightarrow> keeps (pass_safe v l) (each_of body xs a)"
  by (induction xs arbitrary: a) (auto intro!: safe_bind safe_return split: option.split)

lemma safe_finishing [safe_intros]:
  "keeps (pass_safe v l) m \<Longrightarrow> keeps (pass_safe v l) n \<Longrightarrow> keeps (pass_safe v l) (finishing m n)"
  unfolding finishing_def by (intro safe_bind safe_intros)

lemma safe_reading_phase:
  assumes "v \<longrightarrow> entry_names (env_os e)" and "\<And>names. proper_names v names \<Longrightarrow> keeps (pass_safe v l) (f names)"
  shows "keeps (pass_safe v l) (reading_phase e l fd dir op f)"
  unfolding reading_phase_def
  by (rule safe_bind [OF free_safe [OF free_read_directory]])
    (auto intro!: assms(2) keeps_io_map free_safe [OF free_directory_failed] simp: proper_sort
      dest!: read_directory_proper [OF _ assms(1)] split: sum.split)

text \<open>A level whose components are checked names can be remembered in the retry ledger.\<close>

definition level_valid :: "RecoveryPhase \<Rightarrow> bytes list \<Rightarrow> bool" where
  "level_valid phase components \<longleftrightarrow>
     (\<forall>kind names. those (map from_utf8 components) = Some names \<longrightarrow> retry_depth_is_valid (RecoveryHierarchyRetry phase kind names))"

lemma free_remember:
  assumes "level_valid phase components"
  shows "keeps (pass_free v l) (remember_hierarchy_retry_or_block phase kind components path)"
  unfolding remember_hierarchy_retry_or_block_def
  by (intro free_rules remember_valid)
    (use assms in \<open>auto simp: level_valid_def intro!: free_rules split: RememberHierarchyRetry.split\<close>)

lemma free_descend_level:
  assumes "level_valid (lv_phase level) (lv_components level)"
  shows "keeps (pass_free v l) (descend_level e l fd level)"
  unfolding descend_level_def remember_level_retry_def
  by (intro free_intros free_rules keeps_io_map free_remember assms) simp_all

lemma descend_proper:
  assumes "descend_level e l fd level r = Some (Descend_Entries fd' entries, r')" and "v \<longrightarrow> entry_names (env_os e)"
  shows "proper_names v entries"
  using assms(1)
  by (auto simp: descend_level_def remember_level_retry_def io_bind_eq_Some_iff io_map_eq_Some_iff case_sum_run
      dest!: read_directory_proper [OF _ assms(2)] split: if_splits)

lemma safe_entering:
  assumes "v \<longrightarrow> entry_names (env_os e)" and "level_valid (lv_phase level) (lv_components level)"
    and "\<And>fd' names. proper_names v names \<Longrightarrow> keeps (pass_safe v l) (f fd' names)"
  shows "keeps (pass_safe v l) (entering e l fd level a f)"
  unfolding entering_def
  by (rule safe_bind [OF free_safe [OF free_descend_level [OF assms(2)]]])
    (auto intro!: assms(3) safe_return dest!: descend_proper [OF _ assms(1)] split: Descend.split)

subsection \<open>Retries and phases\<close>

lemma prepared_retry_valid:
  assumes "fst (prepare_hierarchy_retry_phase phase c) = Some rt" and "cursor_is_valid c"
  shows "retry_depth_is_valid rt"
proof (rule next_retry_valid [OF prepare_valid [OF assms(2), of phase]])
  show "next_hierarchy_retry phase (snd (prepare_hierarchy_retry_phase phase c)) = Some rt"
    using assms(1) by (simp add: prepare_hierarchy_retry_phase_def Let_def)
qed

lemma prepare_phase_valid:
  assumes "prepare_phase phase r = Some (Some rt, r')" and "pass_ok v l r" and v
  shows "retry_depth_is_valid rt"
proof -
  let ?c = "q_recovery_cursor (qw_queue (rw_q r))"
  have "fst (prepare_hierarchy_retry_phase phase ?c) = Some rt"
    using assms(1) by (auto simp: prepare_phase_def io_bind_eq_Some_iff cursor_of_def on_queue_eq_Some_iff asks_def)
  moreover have "cursor_is_valid ?c" using assms(2,3) by (simp add: pass_ok_def)
  ultimately show ?thesis by (rule prepared_retry_valid)
qed

lemma free_prepare_phase [free_intros]: "keeps (pass_free v l) (prepare_phase phase)"
  unfolding prepare_phase_def by (intro free_rules prepare_valid)

lemma free_retry_deadline [free_intros]: "keeps (pass_free v l) (retry_deadline e l')"
  unfolding retry_deadline_def
  by (intro free_bind free_on_sys) (auto intro!: free_rules split: sum.split bool.split)

lemma free_open_retry_components [free_intros]: "keeps (pass_free v l) (open_retry_components e l' fd current cs)"
  by (induction cs arbitrary: current) (auto intro!: free_intros free_rules simp: Let_def)

lemma free_retry_one:
  assumes "\<And>rt. t = Some rt \<Longrightarrow> v \<Longrightarrow> retry_depth_is_valid rt"
  shows "keeps (pass_free v l) (retry_one_hierarchy_directory e l phase t fd)"
proof -
  have resolved: "keeps (pass_free v l) (io_bind (set_cursor (resolve_hierarchy_retry phase rt)) (\<lambda>_. io_return False))"
    and advanced: "keeps (pass_free v l) (set_cursor (advance_hierarchy_retry_frontier rt))" if "t = Some rt" for rt
    using assms [OF that] by (auto intro!: free_rules resolve_valid advance_valid)
  show ?thesis
    unfolding retry_one_hierarchy_directory_def enumerate_retry_def Let_def
    by (auto intro!: free_intros free_rules resolved advanced drop_frontier_valid split: option.split RetryOpened.split)
qed

lemma safe_open_phase:
  assumes "\<And>fd. keeps (pass_safe v l) (f fd)"
  shows "keeps (pass_safe v l) (open_phase e l phase dir op f)"
proof -
  have start: "keeps (pass_safe v l) (io_bind (prepare_phase phase) (\<lambda>rt.
      io_bind (retry_one_hierarchy_directory e l phase rt fd) (\<lambda>stop. if stop then io_return () else f fd)))" for fd
    by (rule safe_bind [OF free_safe [OF free_prepare_phase]], rule safe_free_bind, rule free_retry_one)
      (auto intro: safe_return assms dest: prepare_phase_valid)
  show ?thesis
    unfolding open_phase_def
    by (rule safe_free_bind [OF free_asks], rule safe_free_bind [OF free_on_sys], rule safe_cases)
      (simp_all add: free_safe free_tally start)
qed

subsection \<open>Streamed directories\<close>

lemma stream_loop_safe:
  fixes e :: "'s env"
  assumes "stream_recovery_loop e l visit stream r = Some (x, r')" and visit: "\<And>name. keeps (pass_safe v l) (visit name)"
  shows "pass_safe v l r r'"
proof -
  define good where "good = (\<lambda>x. pass_ok v l x \<and> same_base r x)"
  define Q where "Q = (\<lambda>e' l' visit' (stream :: DirectoryStream) (r :: 's rworld) (y :: ((RecoveryDirectoryError + bool) \<times> int) \<times> 's rworld).
    e' = e \<and> l' = l \<and> visit' = visit \<and> good r \<longrightarrow> good (snd y))"
  have "Q e l visit stream r (x, r')"
  proof (rule stream_recovery_loop.raw_induct [of Q, OF _ assms(1)])
    fix f e' l' visit' stream r y
    assume IH: "\<And>e' l' visit' stream r y. f e' l' visit' stream r = Some y \<Longrightarrow> Q e' l' visit' stream r y"
      and run: "(let position = ds_position stream in
      if ss_entries_read (rw_scan r) \<ge> sb_max_entries_read (lim_scan l')
         \<or> ss_name_bytes_read (rw_scan r) \<ge> sb_max_name_bytes_read (lim_scan l')
      then Some ((Err RD_BudgetExhausted, position), r)
      else (case on_sys (budget_time_exceeded (env_os e') (lim_deadline_mono l')) r of
          None \<Rightarrow> None
        | Some (Inl er, r1) \<Rightarrow> Some ((Err (RD_Clock er), position), r1)
        | Some (Inr exceeded, r1) \<Rightarrow>
            if exceeded then Some ((Err RD_BudgetExhausted, position), r1)
            else (case on_sys (next_entry (env_os e') stream) r1 of
                None \<Rightarrow> None
              | Some (Inl er, r2) \<Rightarrow> Some ((Err (RD_Io er), position), r2)
              | Some (Inr (None, _), r2) \<Rightarrow> Some ((Ok False, position), r2)
              | Some (Inr (Some name, stream'), r2) \<Rightarrow>
                  (case visit' name (r2\<lparr>rw_scan := (rw_scan r2)\<lparr>
                          ss_entries_read := saturating_add (ss_entries_read (rw_scan r2)) 1,
                          ss_name_bytes_read := saturating_add (ss_name_bytes_read (rw_scan r2))
                                                  (word_of_nat (length name))\<rparr>\<rparr>) of
                     None \<Rightarrow> None
                   | Some (stopped, r3) \<Rightarrow>
                       if stopped then Some ((Ok True, position), r3)
                       else f e' l' visit' stream' r3)))) = Some y"
    have "good (snd y)" if same: "e' = e" "l' = l" "visit' = visit" and ok: "good r"
    proof -
      have sys: "good r2 \<and> rw_scan r2 = rw_scan r1" if "on_sys m r1 = Some (z, r2)" "good r1" for m :: "('s, 'z) sysproc" and z r1 r2
        using that by (auto simp: on_sys_def on_queue_eq_Some_iff lift_eq_Some_iff good_def pass_ok_def same_base_def)
      have entry: "good (r2\<lparr>rw_scan := (rw_scan r2)\<lparr>ss_entries_read := saturating_add (ss_entries_read (rw_scan r2)) 1,
          ss_name_bytes_read := n\<rparr>\<rparr>)" if "good r2" "ss_entries_read (rw_scan r2) < sb_max_entries_read (lim_scan l)" for r2 n
        using that by (simp add: good_def pass_ok_def same_base_def inc_saturating)
      have visited: "good r3" if "visit name r2 = Some (z, r3)" "good r2" for name z r2 r3
        using keepsD [OF visit that(1)] that(2) by (auto simp: good_def pass_safe_def intro: same_base_trans)
      have again: "good (snd y)" if "f e l visit st r3 = Some y" "good r3" for st r3
        using IH [OF that(1)] that(2) by (simp add: Q_def)
      show ?thesis
        using run ok unfolding same Let_def
        by (auto simp: not_le dest!: sys split: if_split_asm option.split_asm prod.split_asm sum.split_asm
            dest: again visited [OF _ entry])
    qed
    then show "Q e' l' visit' stream r y" by (simp add: Q_def)
  qed
  then show ?thesis by (simp add: Q_def good_def pass_safe_def)
qed

lemma free_charge_directory:
  assumes "ss_directories_read (rw_scan r) < sb_max_directories_read (lim_scan l)" and "pass_ok v l r"
  shows "pass_ok v l (r\<lparr>rw_scan := (rw_scan r)\<lparr>ss_directories_read := saturating_add (ss_directories_read (rw_scan r)) 1\<rparr>\<rparr>)"
  using assms by (simp add: pass_ok_def inc_saturating)

lemma same_base_scan [simp]: "same_base (r\<lparr>rw_scan := s\<rparr>) r' = same_base r r'"
  by (simp add: same_base_def)

lemma scan_of_bind: "io_bind (scan_of f) g r = g (f (rw_scan r)) r"
  by (simp add: io_bind_def scan_of_def)

lemma charge_bind: "io_bind (charge f) g r = g () (r\<lparr>rw_scan := f (rw_scan r)\<rparr>)"
  by (simp add: io_bind_def charge_def)

lemma safe_stream_directory:
  assumes "\<And>name. keeps (pass_safe v l) (visit name)"
  shows "keeps (pass_safe v l) (stream_recovery_directory e l fd position visit)"
proof (rule keepsI)
  fix r x r' assume run: "stream_recovery_directory e l fd position visit r = Some (x, r')"
  have loop: "keeps (pass_safe v l) (stream_recovery_loop e l visit stream)" for stream
    by (rule keepsI) (rule stream_loop_safe [OF _ assms])
  have rest: "keeps (pass_safe v l) (io_bind (on_sys (stream_open_at (env_os e) fd position)) (\<lambda>opened. case opened of
           Err er \<Rightarrow> io_return (Err (RD_Io er), position)
         | Ok stream \<Rightarrow> stream_recovery_loop e l visit stream))"
    by (rule safe_free_bind [OF free_on_sys], rule safe_cases) (simp_all add: safe_return loop)
  show "pass_safe v l r r'"
  proof (cases "ss_directories_read (rw_scan r) \<ge> sb_max_directories_read (lim_scan l)")
    case True
    then show ?thesis using run by (simp add: stream_recovery_directory_def scan_of_bind pass_safe_def)
  next
    case False
    then have "pass_safe v l (r\<lparr>rw_scan := (rw_scan r)\<lparr>ss_directories_read := saturating_add (ss_directories_read (rw_scan r)) 1\<rparr>\<rparr>) r'"
      using run keepsD [OF rest] by (simp add: stream_recovery_directory_def scan_of_bind charge_bind)
    with False show ?thesis using free_charge_directory [of r l v] by (simp add: pass_safe_def not_le)
  qed
qed

subsection \<open>Entries\<close>

lemma safe_quarantining [safe_intros]:
  "keeps (pass_safe v l) rewind \<Longrightarrow> keeps (pass_safe v l) (quarantining e l fd entry path reason rewind a)"
  unfolding quarantining_def by (intro safe_bind safe_intros)

lemma keeps_validate_active: "keeps same_handle (validate_active_object e fd name ctx)"
  unfolding validate_active_object_def queue_verify_envelope_on_fd_def Let_def by (intro handle_keeps keeps_case_prod)

lemma spends_validating:
  assumes "keeps (pass_safe v l) rewind" and "spends v l f"
  shows "spends v l (validating e l op fd entry path ctx rewind a f)"
  unfolding validating_def
  by (rule spends_bind [OF free_on_queue [OF keeps_validate_active]])
    (auto intro!: assms safe_spends safe_free_bind safe_quarantining safe_return free_tally split: sum.split)

lemma safe_validating:
  assumes "keeps (pass_safe v l) rewind" and "keeps (pass_safe v l) f"
  shows "keeps (pass_safe v l) (validating e l op fd entry path ctx rewind a f)"
  unfolding validating_def
  by (rule safe_free_bind [OF free_on_queue [OF keeps_validate_active]])
    (auto intro!: assms safe_free_bind safe_quarantining safe_return free_tally split: sum.split)

lemma spends_moving:
  assumes "keeps same_handle m" and "\<And>s. rs_operations_attempted (success s) = rs_operations_attempted s"
  shows "spends v l (moving m op path success missing)"
  unfolding moving_def
  by (rule spends_attempt, rule safe_free_bind [OF free_on_queue [OF assms(1)]], rule free_safe)
    (auto intro!: free_rules assms(2) split: sum.split)

lemma spends_unlinking:
  assumes "\<And>s. rs_operations_attempted (success s) = rs_operations_attempted s"
  shows "spends v l (unlinking e fd entry op path success missing)"
  unfolding unlinking_def
  by (rule spends_attempt, rule safe_free_bind [OF free_on_sys], rule free_safe) (auto intro!: free_rules assms split: sum.split)

lemma keeps_transitions:
  "keeps same_handle (promote_to_ready e fd sh n c)" "keeps same_handle (reap_to_ready e fd s n c)"
  "keeps same_handle (reap_colocated_to_ready e fd n c)" "keeps same_handle (reap_to_dead e fd n c reason w)"
  unfolding promote_to_ready_def reap_to_ready_def reap_colocated_to_ready_def reap_to_dead_def Let_def ensure_dir_def
  by (intro handle_keeps keeps_strictly keeps_ensure_dir)+

lemma spends_with_receipt:
  assumes "keeps (pass_safe v l) rewind" and "\<And>receipt. spends v l (f receipt)"
  shows "spends v l (with_receipt e l op b s fd entry path rewind a f)"
  unfolding with_receipt_def
  by (intro spends_cases spends_bind free_intros free_tally safe_spends [OF safe_return] safe_spends [OF safe_quarantining] assms)
    simp_all

text \<open>The position of a phase in the cursor: what is read from a valid cursor, and any valid position, can be
  written back.\<close>

locale cursor_slot =
  fixes get :: "RecoveryCursor \<Rightarrow> 'p option"
    and put :: "'p option \<Rightarrow> RecoveryCursor \<Rightarrow> RecoveryCursor"
    and valid :: "'p \<Rightarrow> bool"
  assumes saves: "cursor_is_valid c \<Longrightarrow> is_none_or valid p \<Longrightarrow> cursor_is_valid (put p c)"
    and saved: "cursor_is_valid c \<Longrightarrow> is_none_or valid (get c)"
begin

lemma free_put: "(v \<Longrightarrow> is_none_or valid p) \<Longrightarrow> keeps (pass_free v l) (set_cursor (put p))"
  by (intro free_set_cursor saves)

lemma free_forget: "keeps (pass_free v l) (set_cursor (put None))"
  by (rule free_put) (simp add: is_none_or_def)

lemma safe_visit_entry:
  assumes here: "v \<Longrightarrow> valid here"
    and body: "\<And>rewind entry. keeps (pass_safe v l) rewind \<Longrightarrow> spends v l (f rewind entry)"
  shows "keeps (pass_safe v l) (visit_entry e l get put skip here op raw a f)"
  unfolding visit_entry_def
proof (rule safe_bind [OF free_safe [OF free_cursor_of]])
  fix previous r r' assume ok: "pass_ok v l r" and "cursor_of get r = Some (previous, r')"
  then have "v \<Longrightarrow> is_none_or valid previous"
    by (auto simp: cursor_of_def on_queue_eq_Some_iff asks_def pass_ok_def intro: saved)
  then have "keeps (pass_safe v l) (io_bind (set_cursor (put previous)) (\<lambda>_. io_return None))"
    by (intro safe_free_bind free_put safe_return)
  moreover have "is_none_or valid (Some here)" if v using here that by (simp add: is_none_or_def)
  ultimately show "keeps (pass_safe v l) (if (case previous of None \<Rightarrow> False | Some cursor \<Rightarrow> skip cursor) then io_return (Some a)
      else within_budget e l
         (io_bind (set_cursor (put (Some here))) (\<lambda>_. case as_ascii_str raw of
            None \<Rightarrow> io_bind (tally (record_error op (raw_name_for_error raw) ''entry name is not ASCII'')) (\<lambda>_. io_return (Some a))
          | Some entry \<Rightarrow> f (io_bind (set_cursor (put previous)) (\<lambda>_. io_return None)) entry)))"
    by (intro safe_cases safe_return safe_within_budget spends_bind spends_cases free_put free_tally body
        safe_spends [OF safe_return]) simp_all
qed

end

interpretation promote_slot: cursor_slot promote_delayed "\<lambda>p c. c\<lparr>promote_delayed := p\<rparr>" three_level_is_valid
  by unfold_locales (auto simp: cursor_is_valid_def)

interpretation reap_slot: cursor_slot reap_leases "\<lambda>p c. c\<lparr>reap_leases := p\<rparr>" four_level_is_valid
  by unfold_locales (auto simp: cursor_is_valid_def)

interpretation temp_slot: cursor_slot cleanup_temp "\<lambda>p c. c\<lparr>cleanup_temp := p\<rparr>" three_level_is_valid
  by unfold_locales (auto simp: cursor_is_valid_def)

interpretation compact_slot: cursor_slot compact_receipts "\<lambda>p c. c\<lparr>compact_receipts := p\<rparr>" three_level_is_valid
  by unfold_locales (auto simp: cursor_is_valid_def)

interpretation delete_slot: cursor_slot delete_receipts "\<lambda>p c. c\<lparr>delete_receipts := p\<rparr>" three_level_is_valid
  by unfold_locales (auto simp: cursor_is_valid_def)

subsection \<open>Names of directories\<close>

definition is_bucket :: "bytes \<Rightarrow> bool" where "is_bucket entry \<longleftrightarrow> bucket_from_hex (from_bytes entry) \<noteq> None"
definition is_shard :: "bytes \<Rightarrow> bool" where "is_shard entry \<longleftrightarrow> shard_from_hex (from_bytes entry) \<noteq> None"
definition is_boot :: "bytes \<Rightarrow> bool" where "is_boot entry \<longleftrightarrow> boot_id_bytes (from_bytes entry) \<noteq> None"

lemma checked_names:
  "fst (bucket_directory_name op entry s) = Some n \<Longrightarrow> is_bucket entry"
  "fst (shard_directory_name op entry count s) = Some n' \<Longrightarrow> is_shard entry"
  "fst (boot_directory_name op entry s) = Some n'' \<Longrightarrow> is_boot entry"
  by (auto simp: bucket_directory_name_def shard_directory_name_def boot_directory_name_def ascii_directory_name_def
      as_ascii_str_def is_bucket_def is_shard_def is_boot_def split: option.splits if_splits)

lemma those_from_utf8: "those (map from_utf8 components) = Some names \<Longrightarrow> names = map from_bytes components"
  by (induction components arbitrary: names) (auto simp: from_utf8_def split: if_splits option.splits)

lemma level_validI:
  assumes "\<And>kind. retry_depth_is_valid (RecoveryHierarchyRetry phase kind (map from_bytes components))"
  shows "level_valid phase components"
  using assms by (auto simp: level_valid_def dest!: those_from_utf8)

lemma bucket_levels:
  assumes "is_bucket b" and "phase \<in> {PromoteDelayed, CompactReceipts, DeleteReceipts}"
  shows "level_valid phase [b]" and "is_shard s \<Longrightarrow> level_valid phase [b, s]"
  using assms by (auto intro!: level_validI simp: retry_depth_is_valid_def is_bucket_def is_shard_def)

lemma temp_levels:
  assumes "is_boot i" shows "level_valid CleanupTemp [i]" and "is_shard s \<Longrightarrow> level_valid CleanupTemp [i, s]"
  using assms by (auto intro!: level_validI simp: retry_depth_is_valid_def is_boot_def is_shard_def)

lemma reap_levels:
  assumes "is_boot i"
  shows "level_valid ReapLeases [i]" and "is_bucket b \<Longrightarrow> level_valid ReapLeases [i, b]"
    and "is_bucket b \<Longrightarrow> is_shard s \<Longrightarrow> level_valid ReapLeases [i, b, s]"
  using assms by (auto intro!: level_validI simp: retry_depth_is_valid_def is_boot_def is_bucket_def is_shard_def)

lemma positions_valid_new:
  assumes "v \<Longrightarrow> cursor_component_is_valid a" "v \<Longrightarrow> cursor_component_is_valid b" "v \<Longrightarrow> cursor_component_is_valid c"
  shows "v \<Longrightarrow> three_level_is_valid (three_new a b c)"
    and "(v \<Longrightarrow> cursor_component_is_valid d) \<Longrightarrow> v \<Longrightarrow> four_level_is_valid (four_new a b c d)"
  using assms by (simp_all add: three_level_is_valid_def three_new_def four_level_is_valid_def four_new_def)

lemma proper_member: "proper_names v names \<Longrightarrow> x \<in> set names \<Longrightarrow> v \<Longrightarrow> cursor_component_is_valid x"
  by (auto simp: proper_names_def list_all_iff)

lemmas safe_asks = free_safe [OF free_asks]
lemmas safe_tally = free_safe [OF free_tally]

lemmas walk_rules = safe_unless_before safe_within_budget safe_spends safe_bind safe_asks safe_tally safe_named safe_entering safe_each_of
  safe_pruning safe_cases safe_return keeps_case_prod keeps_io_map

lemmas spend_rules = spends_cases spends_bind free_asks free_tally spends_validating spends_moving spends_unlinking
  spends_with_receipt safe_spends [OF safe_return] safe_spends [OF safe_quarantining] keeps_transitions

subsection \<open>Promotion\<close>

lemma safe_promote_entry:
  assumes "v \<Longrightarrow> cursor_component_is_valid b" "v \<Longrightarrow> cursor_component_is_valid s" "v \<Longrightarrow> cursor_component_is_valid raw"
  shows "keeps (pass_safe v l) (promote_entry e l b s bn sn fd raw missing)"
  unfolding promote_entry_def Let_def
  by (intro promote_slot.safe_visit_entry positions_valid_new assms spend_rules) simp_all

lemma safe_promote_shard:
  assumes k: "v \<longrightarrow> entry_names (env_os e)" and "is_bucket b" "v \<Longrightarrow> cursor_component_is_valid b" "v \<Longrightarrow> cursor_component_is_valid s"
  shows "keeps (pass_safe v l) (promote_shard e l drained b bn fd s missing)"
  unfolding promote_shard_def Let_def
  by (intro walk_rules k safe_promote_entry)
    (auto intro: bucket_levels assms proper_member dest: checked_names)

lemma safe_promote_bucket:
  assumes k: "v \<longrightarrow> entry_names (env_os e)" and "v \<Longrightarrow> cursor_component_is_valid b"
  shows "keeps (pass_safe v l) (promote_bucket e l current fd b u)"
  unfolding promote_bucket_def Let_def
  by (intro walk_rules k safe_promote_shard)
    (auto intro: bucket_levels assms proper_member dest: checked_names)

lemma safe_promote_delayed:
  assumes k: "v \<longrightarrow> entry_names (env_os e)"
  shows "keeps (pass_safe v l) (promote_delayed_jobs e l floor)"
  unfolding promote_delayed_jobs_def
  by (intro safe_open_phase safe_reading_phase safe_finishing walk_rules k safe_promote_bucket free_safe [OF promote_slot.free_forget])
    (auto intro: proper_member)

subsection \<open>Reaping\<close>

lemma spends_reap_lease:
  "keeps same_handle to_ready \<Longrightarrow> spends v l (reap_lease e w fd entry path c to_ready missing)"
  unfolding reap_lease_def by (intro spend_rules) simp_all

lemma spends_reap_checked: "spends v l (reap_checked e l w pl fd sh entry path parsed missing)"
  unfolding reap_checked_def by (intro spend_rules spends_reap_lease) simp_all

lemma safe_reap_entry:
  assumes "v \<Longrightarrow> cursor_component_is_valid (rp_boot_entry pl)" "v \<Longrightarrow> cursor_component_is_valid (rp_bucket_entry pl)"
    "v \<Longrightarrow> cursor_component_is_valid s" "v \<Longrightarrow> cursor_component_is_valid raw"
  shows "keeps (pass_safe v l) (reap_entry e l now w pl s sn sh fd raw missing)"
  unfolding reap_entry_def Let_def
  by (intro reap_slot.safe_visit_entry positions_valid_new assms spend_rules spends_reap_checked) simp_all

lemma safe_reap_shard:
  assumes k: "v \<longrightarrow> entry_names (env_os e)" and "is_boot (rp_boot_entry pl)" "is_bucket (rp_bucket_entry pl)"
    "v \<Longrightarrow> cursor_component_is_valid (rp_boot_entry pl)" "v \<Longrightarrow> cursor_component_is_valid (rp_bucket_entry pl)"
    "v \<Longrightarrow> cursor_component_is_valid s"
  shows "keeps (pass_safe v l) (reap_shard e l now w pl fd s missing)"
  unfolding reap_shard_def Let_def
  by (intro walk_rules k safe_reap_entry)
    (auto intro: reap_levels assms proper_member dest: checked_names)

lemma keeps_case_bool: "keeps R m \<Longrightarrow> keeps R n \<Longrightarrow> keeps R (case b of True \<Rightarrow> m | False \<Rightarrow> n)"
  by (cases b) simp_all

lemma safe_reap_bucket:
  assumes k: "v \<longrightarrow> entry_names (env_os e)" and "is_boot i" "v \<Longrightarrow> cursor_component_is_valid i"
    "v \<Longrightarrow> cursor_component_is_valid b"
  shows "keeps (pass_safe v l) (reap_bucket e l now w i bn current fd b missing)"
  unfolding reap_bucket_def Let_def
  by (intro walk_rules k safe_reap_shard keeps_case_bool)
    (auto intro: reap_levels assms proper_member dest: checked_names)

lemma safe_reap_boot:
  assumes k: "v \<longrightarrow> entry_names (env_os e)" and "v \<Longrightarrow> cursor_component_is_valid i"
  shows "keeps (pass_safe v l) (reap_boot e l now w fd i u)"
  unfolding reap_boot_def Let_def
  by (intro walk_rules k safe_reap_bucket)
    (auto intro: reap_levels assms proper_member dest: checked_names)

lemma safe_reap_colocated_lease: "keeps (pass_safe v l) (reap_colocated_lease e l fd sn entry path parsed now w)"
  unfolding reap_colocated_lease_def Let_def
  by (intro walk_rules safe_validating spends_reap_lease keeps_transitions) simp_all

lemma safe_visit_colocated: "keeps (pass_safe v l) (visit_colocated e l fd sh now w raw)"
  unfolding visit_colocated_def by (intro walk_rules safe_reap_colocated_lease)

lemma free_colocated:
  "keeps (pass_free v l) (set_cursor (\<lambda>c. c\<lparr>reap_colocated_shard := a\<rparr>))"
  "keeps (pass_free v l) (set_cursor (\<lambda>c. c\<lparr>reap_colocated_position := b\<rparr>))"
  by (intro free_set_cursor; simp add: cursor_is_valid_def)+

lemma safe_reap_colocated_in: "keeps (pass_safe v l) (reap_colocated_in e l now w n u)"
  unfolding reap_colocated_in_def Let_def
  by (intro walk_rules free_safe [OF free_colocated(1)] free_safe [OF free_colocated(2)] free_safe [OF free_cursor_of]
      free_safe [OF free_on_sys] free_safe [OF free_directory_failed] safe_stream_directory safe_visit_colocated) simp_all

lemma safe_reap_colocated: "keeps (pass_safe v l) (reap_colocated_ready_leases e l now w)"
  unfolding reap_colocated_ready_leases_def Let_def
  by (intro walk_rules safe_finishing safe_reap_colocated_in free_safe [OF free_colocated(1)] free_safe [OF free_cursor_of])

lemma safe_reap_expired:
  assumes k: "v \<longrightarrow> entry_names (env_os e)"
  shows "keeps (pass_safe v l) (reap_expired_leases e l now w)"
  unfolding reap_expired_leases_def
  by (intro safe_open_phase safe_reading_phase safe_finishing walk_rules k safe_reap_boot free_safe [OF reap_slot.free_forget]
      free_safe [OF free_cursor_of] safe_reap_colocated)
    (auto intro: proper_member)

subsection \<open>Temporary files and receipts\<close>

lemma safe_temp_entry:
  assumes "v \<Longrightarrow> cursor_component_is_valid i" "v \<Longrightarrow> cursor_component_is_valid s" "v \<Longrightarrow> cursor_component_is_valid raw"
  shows "keeps (pass_safe v l) (temp_entry e l now current i s bn sn fd raw missing)"
  unfolding temp_entry_def
  by (intro temp_slot.safe_visit_entry positions_valid_new assms spend_rules) simp_all

lemma safe_temp_shard:
  assumes k: "v \<longrightarrow> entry_names (env_os e)" and "is_boot i" "v \<Longrightarrow> cursor_component_is_valid i" "v \<Longrightarrow> cursor_component_is_valid s"
  shows "keeps (pass_safe v l) (temp_shard e l now current i bn fd s missing)"
  unfolding temp_shard_def Let_def
  by (intro walk_rules k safe_temp_entry) (auto intro: temp_levels assms proper_member dest: checked_names)

lemma safe_temp_boot:
  assumes k: "v \<longrightarrow> entry_names (env_os e)" and "v \<Longrightarrow> cursor_component_is_valid i"
  shows "keeps (pass_safe v l) (temp_boot e l now fd i u)"
  unfolding temp_boot_def Let_def
  by (intro walk_rules k safe_temp_shard) (auto intro: temp_levels assms proper_member dest: checked_names)

lemma safe_cleanup_temp:
  assumes k: "v \<longrightarrow> entry_names (env_os e)" shows "keeps (pass_safe v l) (cleanup_temp_files e l now)"
  unfolding cleanup_temp_files_def
  by (intro safe_open_phase safe_reading_phase safe_finishing walk_rules k safe_temp_boot free_safe [OF temp_slot.free_forget])
    (auto intro: proper_member)

lemma free_compaction_cleanup [free_intros]: "keeps (pass_free v l) (cleanup_compaction_temp e fd n p)"
  unfolding cleanup_compaction_temp_def
  by (rule free_bind [OF free_on_sys]) (auto intro!: free_rules split: sum.split UnlinkFailure.split)

lemma free_write_compaction [free_intros]: "keeps (pass_free v l) (write_compaction_temp e fd n p bs)"
  unfolding write_compaction_temp_def Let_def by (intro free_intros free_rules) simp_all

lemma free_replace_receipt [free_intros]: "keeps (pass_free v l) (replace_receipt e fd n p entry rp receipt)"
  unfolding replace_receipt_def by (intro free_intros free_rules) simp_all

lemma spends_compact_full: "spends v l (compact_full_receipt e p fd entry receipt header start)"
  unfolding compact_full_receipt_def Let_def
  by (rule spends_attempt, rule free_safe) (intro free_intros free_rules; simp)

lemma spends_stale_temp: "spends v l (io_bind (tally attempted) (\<lambda>_.
       io_bind (on_sys m) (\<lambda>r. case r of
         Ok _ \<Rightarrow> io_return (Some u)
       | Err failure \<Rightarrow> io_bind (tally (record_unlink_failure op path failure)) (\<lambda>_. io_return (Some u)))))"
  by (rule spends_attempt, rule free_safe) (intro free_intros free_rules; simp)

lemma spends_case_kind:
  "spends v l m \<Longrightarrow> (\<And>job. spends v l (f job)) \<Longrightarrow> spends v l (case k of Kind_Compact \<Rightarrow> m | Kind_Full job \<Rightarrow> f job)"
  by (cases k) simp_all

lemma safe_compact_entry:
  assumes "v \<Longrightarrow> cursor_component_is_valid b" "v \<Longrightarrow> cursor_component_is_valid s" "v \<Longrightarrow> cursor_component_is_valid raw"
  shows "keeps (pass_safe v l) (compact_entry e l b s bn sn fd raw u)"
  unfolding compact_entry_def Let_def
  by (intro compact_slot.safe_visit_entry positions_valid_new assms spends_stale_temp spends_case_kind spends_io_map
      spends_compact_full spend_rules)

lemma safe_compact_shard:
  assumes k: "v \<longrightarrow> entry_names (env_os e)" and "is_bucket b" "v \<Longrightarrow> cursor_component_is_valid b" "v \<Longrightarrow> cursor_component_is_valid s"
  shows "keeps (pass_safe v l) (compact_shard e l b bn fd s u)"
  unfolding compact_shard_def
  by (intro walk_rules k safe_compact_entry) (auto intro: bucket_levels assms proper_member dest: checked_names)

lemma safe_compact_bucket:
  assumes k: "v \<longrightarrow> entry_names (env_os e)" and "v \<Longrightarrow> cursor_component_is_valid b"
  shows "keeps (pass_safe v l) (compact_bucket e l fd b u)"
  unfolding compact_bucket_def
  by (intro walk_rules k safe_compact_shard) (auto intro: bucket_levels assms proper_member dest: checked_names)

lemma safe_compact_receipts:
  assumes k: "v \<longrightarrow> entry_names (env_os e)" shows "keeps (pass_safe v l) (compact_receipts_with_scan_budget e l)"
  unfolding compact_receipts_with_scan_budget_def
  by (intro safe_open_phase safe_reading_phase safe_finishing walk_rules k safe_compact_bucket free_safe [OF compact_slot.free_forget])
    (auto intro: proper_member)

lemma safe_delete_entry:
  assumes "v \<Longrightarrow> cursor_component_is_valid b" "v \<Longrightarrow> cursor_component_is_valid s" "v \<Longrightarrow> cursor_component_is_valid raw"
  shows "keeps (pass_safe v l) (delete_entry e l b s bn sn fd raw missing)"
  unfolding delete_entry_def Let_def
  by (intro delete_slot.safe_visit_entry positions_valid_new assms spend_rules free_on_sys) simp_all

lemma safe_delete_shard:
  assumes k: "v \<longrightarrow> entry_names (env_os e)" and "is_bucket b" "v \<Longrightarrow> cursor_component_is_valid b" "v \<Longrightarrow> cursor_component_is_valid s"
  shows "keeps (pass_safe v l) (delete_shard e l b bn fd s missing)"
  unfolding delete_shard_def Let_def
  by (intro walk_rules k safe_delete_entry) (auto intro: bucket_levels assms proper_member dest: checked_names)

lemma safe_delete_bucket:
  assumes k: "v \<longrightarrow> entry_names (env_os e)" and "v \<Longrightarrow> cursor_component_is_valid b"
  shows "keeps (pass_safe v l) (delete_bucket e l floor retention fd b u)"
  unfolding delete_bucket_def Let_def
  by (intro walk_rules k safe_delete_shard) (auto intro: bucket_levels assms proper_member dest: checked_names)

lemma safe_delete_receipts:
  assumes k: "v \<longrightarrow> entry_names (env_os e)" shows "keeps (pass_safe v l) (delete_expired_receipts e l w retention)"
  unfolding delete_expired_receipts_def
  by (intro safe_open_phase safe_reading_phase safe_finishing walk_rules k safe_delete_bucket free_safe [OF delete_slot.free_forget])
    (auto intro: proper_member)

subsection \<open>The pass\<close>

lemma safe_run_phase:
  assumes "v \<longrightarrow> entry_names (env_os e)" shows "keeps (pass_safe v l) (run_phase e l now w phase)"
  by (cases phase)
    (auto intro!: safe_reap_expired safe_promote_delayed safe_cleanup_temp safe_compact_receipts safe_delete_receipts
      safe_bind safe_asks safe_return assms split: option.split)

lemma safe_phase_round:
  assumes k: "v \<longrightarrow> entry_names (env_os e)" shows "keeps (pass_safe v l) (phase_round e l now w phase)"
  unfolding phase_round_def
  by (intro safe_bind safe_run_phase k safe_cases free_safe [OF free_reads(1)] free_safe [OF free_set_cursor]
      free_safe [OF free_work_budget] safe_tally safe_return)
    (simp_all add: cursor_is_valid_def)

lemma recover_loop_safe:
  fixes e :: "'s env"
  assumes "recover_loop e l now w r = Some (x, r')" and k: "v \<longrightarrow> entry_names (env_os e)"
  shows "pass_safe v l r r'"
proof -
  define good where "good = (\<lambda>x. pass_ok v l x \<and> same_base r x)"
  define Q where "Q = (\<lambda>e' l' (now' :: u64) (w' :: WallFloor option) (r :: 's rworld) (y :: unit \<times> 's rworld).
    e' = e \<and> l' = l \<and> good r \<longrightarrow> good (snd y))"
  have "Q e l now w r (x, r')"
  proof (rule recover_loop.raw_induct [of Q, OF _ assms(1)])
    fix f e' l' now' w' r y
    assume IH: "\<And>e' l' now' w' r y. f e' l' now' w' r = Some y \<Longrightarrow> Q e' l' now' w' r y"
      and run: "(if \<not> has_recovery_budget (rw_stats r) then Some ((), r)
      else
        let phase = cursor_phase (q_recovery_cursor (qw_queue (rw_q r))) in
        (case phase_round e' l' now' w' phase r of
           None \<Rightarrow> None
         | Some (_, r') \<Rightarrow>
             if phase = DeleteReceipts then Some ((), r') else f e' l' now' w' r')) = Some y"
    have "good (snd y)" if same: "e' = e" "l' = l" and ok: "good r"
    proof -
      have "good r1" if "phase_round e l now' w' phase r = Some (z, r1)" for phase z r1
        using keepsD [OF safe_phase_round [OF k] that] ok by (auto simp: good_def pass_safe_def intro: same_base_trans)
      moreover have "good (snd y)" if "f e l now' w' r1 = Some y" "good r1" for r1
        using IH [OF that(1)] that(2) by (simp add: Q_def)
      ultimately show ?thesis
        using run ok unfolding same Let_def by (auto split: if_split_asm option.split_asm)
    qed
    then show "Q e' l' now' w' r y" by (simp add: Q_def)
  qed
  then show ?thesis by (simp add: Q_def good_def pass_safe_def)
qed

lemma check_cursor_record_valid: "check_cursor_record i r = Ok c \<Longrightarrow> cursor_is_valid c"
  by (auto simp: check_cursor_record_def res_bind_def require_def split: if_splits)

lemma cursor_default_valid: "cursor_is_valid cursor_default"
  by (simp add: cursor_is_valid_def cursor_default_def is_none_or_def)

lemma loaded_cursor_valid:
  assumes "load_recovery_cursor e js root i q = Some (Ok c, q')" shows "cursor_is_valid c"
proof -
  have checked: "cursor_is_valid c" if "res_bind m (check_cursor_record i) = Ok c" for m
    using that check_cursor_record_valid by (auto simp: res_bind_def split: sum.splits)
  show ?thesis
    using assms
    by (auto simp: load_recovery_cursor_def io_try_eq_Some_iff io_bind_eq_Some_iff case_sum_run cursor_default_valid
        dest: checked split: if_splits)
qed

lemma safe_giving_up:
  assumes "keeps same_handle m" and "\<And>x q q'. m q = Some (Ok x, q') \<Longrightarrow> keeps (pass_safe v l) (f x)"
  shows "keeps (pass_safe v l) (giving_up op path text m f)"
  unfolding giving_up_def
  by (rule safe_bind [OF free_safe [OF free_on_queue [OF assms(1)]]])
    (auto intro!: safe_tally assms(2) simp: on_queue_eq_Some_iff split: sum.split)

lemma keeps_recovery_lock: "keeps same_handle (acquire_recovery_lock e)"
  unfolding acquire_recovery_lock_def Let_def by (intro handle_keeps)

lemma keeps_load_cursor: "keeps same_handle (load_recovery_cursor e js root i)"
  unfolding load_recovery_cursor_def by (intro handle_keeps)

lemma keeps_persist_cursor: "keeps same_handle (persist_recovery_cursor e js)"
  unfolding persist_recovery_cursor_def publish_cursor_temp_def cleanup_cursor_temporary_file_def Let_def
  by (intro handle_keeps)

lemma keeps_cursor_temps: "keeps same_handle (cursor_temporary_files e)"
  unfolding cursor_temporary_files_def collect_cursor_temp_def
  by (intro handle_keeps keeps_each_entry)

lemma safe_sweep: "keeps (pass_safe v l) (sweep_cursor_temporary_files e)"
proof -
  have "keeps (pass_safe v l) (sweep_cursor_temp e fd name u)" for fd name u
    unfolding sweep_cursor_temp_def
    by (rule safe_free_bind [OF free_on_sys]) (auto intro!: safe_return safe_free_bind free_tally split: sum.split UnlinkFailure.split)
  then show ?thesis
    unfolding sweep_cursor_temporary_files_def
    by (intro safe_free_bind [OF free_on_queue [OF keeps_cursor_temps]] safe_cases safe_tally keeps_case_prod keeps_io_map safe_each_of)
      simp_all
qed

lemma pass_safe_limits:
  "lim_work l = lim_work l' \<Longrightarrow> lim_scan l = lim_scan l' \<Longrightarrow> pass_safe v l = pass_safe v l'"
  by (simp add: pass_safe_def pass_ok_def same_base_def fun_eq_iff)

lemma safe_run_phases:
  assumes k: "v \<longrightarrow> entry_names (env_os e)"
  shows "keeps (pass_safe v \<lparr>lim_work = b, lim_scan = sb, lim_deadline_mono = d\<rparr>) (run_phases e js b sb now)"
proof -
  let ?l = "\<lparr>lim_work = b, lim_scan = sb, lim_deadline_mono = d\<rparr>"
  have loop: "keeps (pass_safe v ?l) (recover_loop e \<lparr>lim_work = b, lim_scan = sb, lim_deadline_mono = d'\<rparr> now w)" for d' w
    unfolding pass_safe_limits [of ?l "\<lparr>lim_work = b, lim_scan = sb, lim_deadline_mono = d'\<rparr>", simplified]
    by (rule keepsI) (rule recover_loop_safe [OF _ k])
  have floor: "keeps (pass_safe v ?l) (observed_floor e)"
    unfolding observed_floor_def
    by (intro safe_free_bind [OF free_on_queue [OF keeps_stabilized]] safe_cases safe_return safe_bind safe_tally) simp_all
  show ?thesis
    unfolding run_phases_def Let_def
    by (intro safe_bind [OF floor] safe_giving_up safe_bind [OF loop] keeps_lift keeps_persist_cursor safe_return)
qed

lemma safe_recovery_pass:
  assumes k: "v \<longrightarrow> entry_names (env_os e)"
  shows "keeps (pass_safe v \<lparr>lim_work = b, lim_scan = sb, lim_deadline_mono = 0\<rparr>) (recovery_pass e js b sb)"
  unfolding recovery_pass_def
  by (intro safe_cases safe_tally safe_giving_up safe_bind [OF safe_sweep] safe_bind [OF free_safe [OF free_set_cursor]] keeps_recovery_lock
      keeps_lift keeps_bind keeps_asks keeps_load_cursor safe_run_phases k)
    (auto simp: io_bind_eq_Some_iff dest: loaded_cursor_valid)

lemma recovery_within_limits:
  assumes "recover_with_scan_budget e js b sb q = Some (report, q')" and k: "v \<longrightarrow> entry_names (env_os e)"
    and "v \<longrightarrow> cursor_is_valid (q_recovery_cursor (qw_queue q))"
  shows "pass_ok v \<lparr>lim_work = b, lim_scan = sb, lim_deadline_mono = 0\<rparr> \<lparr>rw_q = q', rw_stats = rr_stats report, rw_scan = rr_scan report\<rparr>"
    and "q_format (qw_queue q') = q_format (qw_queue q)" and "q_poisoned (qw_queue q') = q_poisoned (qw_queue q)"
proof -
  let ?l = "\<lparr>lim_work = b, lim_scan = sb, lim_deadline_mono = 0\<rparr>"
  let ?r = "\<lparr>rw_q = q, rw_stats = stats_default, rw_scan = scan_stats_default\<rparr>"
  obtain x r where run: "recovery_pass e js b sb ?r = Some (x, r)" and r: "q' = rw_q r" "rr_stats report = rw_stats r" "rr_scan report = rw_scan r"
    using assms(1) by (auto simp: recover_with_scan_budget_def split: option.splits)
  have "pass_ok v ?l ?r" using assms(3) by (simp add: pass_ok_def stats_default_def scan_stats_default_def)
  then have ok: "pass_ok v ?l r" and base: "same_base ?r r"
    using keepsD [OF safe_recovery_pass [OF k] run] by (simp_all add: pass_safe_def)
  show "pass_ok v ?l \<lparr>rw_q = q', rw_stats = rr_stats report, rw_scan = rr_scan report\<rparr>"
    using ok by (simp add: r pass_ok_def)
  show "q_format (qw_queue q') = q_format (qw_queue q)" "q_poisoned (qw_queue q') = q_poisoned (qw_queue q)"
    using base by (simp_all add: r same_base_def)
qed

subsection \<open>The loop over the phases ends\<close>

lemma work_budget_frame:
  assumes "work_budget_exhausted e l r = Some (b, r')"
  shows "q_recovery_cursor (qw_queue (rw_q r')) = q_recovery_cursor (qw_queue (rw_q r))"
    and "\<not> has_recovery_budget (rw_stats r) \<Longrightarrow> \<not> has_recovery_budget (rw_stats r')"
  using assms
  by (auto simp: work_budget_exhausted_def stats_of_bind io_bind_eq_Some_iff on_sys_def on_queue_eq_Some_iff lift_eq_Some_iff
      case_sum_run tally_def has_recovery_budget_def block_phase_def record_error_def split: if_splits)

lemma phase_round_progress:
  assumes "phase_round e l now w phase r = Some (x, r')"
  shows "\<not> has_recovery_budget (rw_stats r') \<or> cursor_phase (q_recovery_cursor (qw_queue (rw_q r'))) = next_phase phase"
proof -
  obtain r1 r2 r3 b where r2: "(if has_recovery_budget (rw_stats r1) then set_cursor (\<lambda>c. c\<lparr>cursor_phase := next_phase phase\<rparr>) else io_return ()) r1 = Some ((), r2)"
    and b: "work_budget_exhausted e l r2 = Some (b, r3)" and r': "(if b then tally budget_spent else io_return ()) r3 = Some (x, r')"
    using assms by (auto simp: phase_round_def io_bind_eq_Some_iff [of "run_phase e l now w phase"] stats_of_bind
        io_bind_eq_Some_iff [of "if _ then _ else _"] io_bind_eq_Some_iff [of "work_budget_exhausted e l"])
  have "\<not> has_recovery_budget (rw_stats r2) \<or> cursor_phase (q_recovery_cursor (qw_queue (rw_q r2))) = next_phase phase"
    using r2 by (auto simp: set_cursor_def on_queue_eq_Some_iff modifies_def split: if_splits)
  then have "\<not> has_recovery_budget (rw_stats r3) \<or> cursor_phase (q_recovery_cursor (qw_queue (rw_q r3))) = next_phase phase"
    using work_budget_frame [OF b] by auto
  then show ?thesis using r' by (auto simp: tally_def budget_spent_def has_recovery_budget_def split: if_splits)
qed

lemma recover_loop_ends:
  assumes "\<And>phase r. P r \<Longrightarrow> \<exists>x r'. phase_round e l now w phase r = Some (x, r') \<and> P r'" and "P r"
  shows "\<exists>x r'. recover_loop e l now w r = Some (x, r') \<and> P r'"
  using assms(2)
proof (induction "5 - phase_index (cursor_phase (q_recovery_cursor (qw_queue (rw_q r))))" arbitrary: r rule: less_induct)
  case less
  let ?phase = "cursor_phase (q_recovery_cursor (qw_queue (rw_q r)))"
  obtain x r' where round: "phase_round e l now w ?phase r = Some (x, r')" and P: "P r'" using assms(1) [OF less.prems] by blast
  have "\<exists>x r''. recover_loop e l now w r' = Some (x, r'') \<and> P r''" if "?phase \<noteq> DeleteReceipts"
  proof (cases "has_recovery_budget (rw_stats r')")
    case True
    then have "cursor_phase (q_recovery_cursor (qw_queue (rw_q r'))) = next_phase ?phase"
      using phase_round_progress [OF round] by simp
    moreover have "phase_index ?phase < phase_index (next_phase ?phase)" "phase_index (next_phase ?phase) < 5"
      using that by (cases ?phase; simp)+
    ultimately show ?thesis using less.hyps [of r'] P by simp
  next
    case False
    then show ?thesis using P by (subst recover_loop.simps) simp
  qed
  then show ?case using round less.prems P by (subst recover_loop.simps) (auto simp: Let_def)
qed

lemma budget_time_returns: "\<exists>c r'. on_sys (budget_time_exceeded k d) r = Some (c, r')"
  by (simp add: on_sys_def on_queue_def lift_def budget_time_exceeded_def clock_monotonic_ns_def fault_check_def io_try_def io_bind_def
      io_return_def syscall_def case_prod_beta split: sum.split option.split)

lemma inc_exact: "unat (saturating_add a 1) = unat a + 1" if "a < m" for a m :: u64
  using that unsigned_less [of m, where ?'a = nat] by (simp add: unat_saturating_add word_less_nat_alt)

lemma stream_loop_ends:
  assumes entry: "\<And>stream r. \<exists>x r'. on_sys (next_entry (env_os e) stream) r = Some (x, r')"
    and visit: "\<And>name r. \<exists>b r'. visit name r = Some (b, r') \<and> rw_scan r' = rw_scan r"
  shows "\<exists>y. stream_recovery_loop e l visit stream r = Some y"
proof (induction "unat (sb_max_entries_read (lim_scan l)) - unat (ss_entries_read (rw_scan r))" arbitrary: stream r rule: less_induct)
  case less
  show ?case
  proof (cases "ss_entries_read (rw_scan r) \<ge> sb_max_entries_read (lim_scan l)
         \<or> ss_name_bytes_read (rw_scan r) \<ge> sb_max_name_bytes_read (lim_scan l)")
    case True
    then show ?thesis by (subst stream_recovery_loop.simps) (auto simp: Let_def)
  next
    case False
    obtain c r1 where c: "on_sys (budget_time_exceeded (env_os e) (lim_deadline_mono l)) r = Some (c, r1)"
      using budget_time_returns by blast
    obtain n r2 where n: "on_sys (next_entry (env_os e) stream) r1 = Some (n, r2)" using entry by blast
    have scan: "rw_scan r2 = rw_scan r" using c n by (auto simp: on_sys_def on_queue_eq_Some_iff)
    have lt: "ss_entries_read (rw_scan r) < sb_max_entries_read (lim_scan l)" using False by (simp add: not_le)
    have again: "\<exists>y. stream_recovery_loop e l visit stream' r3 = Some y"
      if "ss_entries_read (rw_scan r3) = saturating_add (ss_entries_read (rw_scan r)) 1" for stream' r3
      by (rule less) (use lt that inc_exact [OF lt] in \<open>simp add: word_less_nat_alt\<close>)
    show ?thesis
    proof (cases "\<exists>name stream'. c = Inr False \<and> n = Inr (Some name, stream')")
      case True
      then obtain name stream' where cn: "c = Inr False" "n = Inr (Some name, stream')" by blast
      let ?r = "r2\<lparr>rw_scan := (rw_scan r2)\<lparr>ss_entries_read := saturating_add (ss_entries_read (rw_scan r2)) 1,
          ss_name_bytes_read := saturating_add (ss_name_bytes_read (rw_scan r2)) (word_of_nat (length name))\<rparr>\<rparr>"
      obtain b r3 where v: "visit name ?r = Some (b, r3)" "rw_scan r3 = rw_scan ?r" using visit by blast
      show ?thesis
        using False c n cn v(1) again [of r3 stream'] v(2) scan
        by (subst stream_recovery_loop.simps) (simp add: Let_def)
    next
      case f: False
      show ?thesis
        using False c n f by (subst stream_recovery_loop.simps) (auto simp: Let_def split: sum.split option.split)
    qed
  qed
qed

lemma stream_open_returns: "\<exists>x r'. on_sys (stream_open_at k fd position) r = Some (x, r')"
  by (simp add: on_sys_def on_queue_def lift_def stream_open_at_def reopen_directory_def open_directory_def stream_from_owned_at_def
      with_name_eq fault_check_def io_try_def io_bind_def io_return_def syscall_def case_prod_beta split: sum.split option.split)

subsection \<open>Claims\<close>


text \<open>C36. What a recovery pass stores can be loaded again. When the kernel lists proper names, a pass that
  starts with a valid cursor ends with one whose record the next load accepts as it is: no sequence
  of interrupted walks, retries, quarantines and rewinds leaves a position or a retry that would make
  the stored cursor corrupt.\<close>

theorem recovery_cursor_reloads:
  assumes "recover_with_scan_budget e js budget scan_budget q = Some (report, q')" and "entry_names (env_os e)"
    and "cursor_is_valid (q_recovery_cursor (qw_queue q))"
  shows "check_cursor_record (fmt_queue_id (q_format (qw_queue q))) (cursor_record (qw_queue q'))
    = Ok (q_recovery_cursor (qw_queue q'))"
proof -
  have "cursor_is_valid (q_recovery_cursor (qw_queue q'))"
    using recovery_within_limits(1) [OF assms(1), of True] assms(2,3) by (simp add: pass_ok_def)
  then show ?thesis
    using recovery_within_limits(2) [OF assms(1), of False]
    by (simp add: check_cursor_record_def cursor_record_def cursor_record_version_is_supported_def res_bind_def require_def)
qed

text \<open>A growing directory cannot hold up a pass. The scan of a ready shard ends within the entries of the
  scan budget, even when the directory never ends, as long as reading an entry and visiting it return.\<close>

lemma streamed_scan_terminates:
  assumes "\<And>stream r. \<exists>x r'. on_sys (next_entry (env_os e) stream) r = Some (x, r')"
    and "\<And>name r. \<exists>stopped r'. visit name r = Some (stopped, r') \<and> rw_scan r' = rw_scan r"
  shows "\<exists>x r'. stream_recovery_directory e l dir_fd position visit r = Some (x, r')"
proof -
  obtain opened r1 where "on_sys (stream_open_at (env_os e) dir_fd position) (r\<lparr>rw_scan := (rw_scan r)\<lparr>ss_directories_read :=
      saturating_add (ss_directories_read (rw_scan r)) 1\<rparr>\<rparr>) = Some (opened, r1)"
    using stream_open_returns by blast
  then show ?thesis
    using stream_loop_ends [OF assms, where r = r1 and l = l]
    by (cases opened) (auto simp: stream_recovery_directory_def scan_of_bind charge_bind io_bind_def [of "on_sys _"] io_return_def)
qed

subsection \<open>Resuming a walk\<close>

text \<open>What has been passed is skipped without any effect: on sorted entries the loop starts at the first one
  that has not been passed.\<close>

lemma each_of_resumes:
  assumes "sorted xs" and "\<And>x y. P x \<Longrightarrow> x \<le> y \<Longrightarrow> P y" and "\<And>x. \<not> P x \<Longrightarrow> body x a r = Some (Some a, r)"
  shows "each_of body xs a r = each_of body (filter P xs) a r"
  using assms(1)
proof (induction xs)
  case (Cons x xs)
  show ?case
  proof (cases "P x")
    case True
    then have "filter P xs = xs" using Cons.prems assms(2) by (auto simp: filter_id_conv)
    with True show ?thesis by simp
  next
    case False
    then show ?thesis using Cons assms(3) by (simp add: io_bind_def)
  qed
qed simp

abbreviation (input) cursor_at :: "'s rworld \<Rightarrow> RecoveryCursor" where
  "cursor_at r \<equiv> q_recovery_cursor (qw_queue (rw_q r))"

lemma cursor_of_bind: "io_bind (cursor_of f) g r = g (f (cursor_at r)) r"
  by (simp add: io_bind_def cursor_of_def on_queue_def)

lemma unless_before_skips:
  "directory_before_cursor (position (cursor_at r)) parents entry \<Longrightarrow> unless_before position parents entry a m r = Some (Some a, r)"
  by (simp add: unless_before_def cursor_of_bind)

lemma visit_entry_skips:
  "get (cursor_at r) = Some c \<Longrightarrow> should_skip c \<Longrightarrow> visit_entry e l get put should_skip here op raw a f r = Some (Some a, r)"
  by (simp add: visit_entry_def cursor_of_bind)

text \<open>An entry that is dealt with leaves the position at it.\<close>

definition same_cursor :: "'s rworld \<Rightarrow> 's rworld \<Rightarrow> bool" where
  "same_cursor r r' \<longleftrightarrow> cursor_at r' = cursor_at r"

lemma preorder_same_cursor [intro!, simp]: "preorder_rel same_cursor"
  by (auto simp: preorder_rel_def same_cursor_def)

lemma same_cursor_on_queue: "keeps same_handle m \<Longrightarrow> keeps same_cursor (on_queue m)"
  by (auto simp: keeps_def on_queue_eq_Some_iff same_cursor_def same_handle_def)

lemma same_cursor_tally: "keeps same_cursor (tally f)"
  by (auto simp: keeps_def tally_def same_cursor_def)

lemma same_cursor_stats_of: "keeps same_cursor (stats_of f)"
  by (auto simp: keeps_def stats_of_def same_cursor_def)

lemma same_cursor_quarantine: "keeps same_cursor (quarantine_recovery_object e l c)"
  unfolding quarantine_recovery_object_def quarantine_recovery_object_with_ids_def record_quarantine_def Let_def
  by (intro keeps_intros preorder_same_cursor same_cursor_stats_of same_cursor_tally same_cursor_on_queue
      keeps_publish_quarantine keeps_lift)
    (auto intro!: keeps_intros same_cursor_tally split: sum.split QuarantinePublishFailure.split)

lemma same_cursor_budget: "keeps same_cursor (work_budget_exhausted e l)"
  unfolding work_budget_exhausted_def on_sys_def
  by (intro keeps_intros preorder_same_cursor same_cursor_stats_of same_cursor_on_queue keeps_lift)
    (auto intro!: keeps_intros same_cursor_tally split: sum.split)

text \<open>A step of an entry that goes on keeps the position the entry was given.\<close>

definition stays :: "('s, 'a option) rproc \<Rightarrow> bool" where
  "stays m \<longleftrightarrow> (\<forall>r x r'. m r = Some (Some x, r') \<longrightarrow> same_cursor r r')"

lemma stays_bind:
  assumes "keeps same_cursor m" and "\<And>x. stays (f x)" shows "stays (io_bind m f)"
  using assms unfolding stays_def keeps_def io_bind_eq_Some_iff same_cursor_def by metis

lemma stays_return: "stays (io_return x)"
  by (auto simp: stays_def same_cursor_def)

lemma stays_stops: "stays (io_bind m (\<lambda>_. io_return None))"
  by (auto simp: stays_def io_bind_eq_Some_iff)

lemma stays_if: "stays m \<Longrightarrow> stays n \<Longrightarrow> stays (if b then m else n)"
  by simp

lemma visit_entry_stays:
  assumes "\<And>m entry. stays m \<Longrightarrow> stays (f m entry)" and "\<And>p c. get (put p c) = p"
    and "\<not> (case get (cursor_at r) of Some c \<Rightarrow> should_skip c | None \<Rightarrow> False)"
    and "visit_entry e l get put should_skip here op raw a f r = Some (Some x, r')"
  shows "get (cursor_at r') = Some here"
proof -
  let ?body = "case as_ascii_str raw of
      None \<Rightarrow> io_bind (tally (record_error op (raw_name_for_error raw) ''entry name is not ASCII'')) (\<lambda>_. io_return (Some a))
    | Some entry \<Rightarrow> f (io_bind (set_cursor (put (get (cursor_at r)))) (\<lambda>_. io_return None)) entry"
  have "stays ?body"
    by (auto intro!: assms(1) stays_stops stays_bind stays_return same_cursor_tally split: option.split)
  moreover obtain r1 where "?body (r1\<lparr>rw_q := (rw_q r1)\<lparr>qw_queue := (qw_queue (rw_q r1))\<lparr>q_recovery_cursor := put (Some here) (cursor_at r1)\<rparr>\<rparr>\<rparr>)
      = Some (Some x, r')"
    using assms(3,4)
    by (auto simp: visit_entry_def cursor_of_bind within_budget_def io_bind_eq_Some_iff [of "work_budget_exhausted e l"]
        io_bind_eq_Some_iff [of "tally budget_spent"] io_bind_eq_Some_iff [of "set_cursor _"] set_cursor_def on_queue_eq_Some_iff
        split: if_splits)
  ultimately show ?thesis using assms(2) by (auto simp: stays_def same_cursor_def)
qed

lemma stays_quarantining: "stays rewind \<Longrightarrow> stays (quarantining e l fd entry path reason rewind a)"
  unfolding quarantining_def
  by (intro stays_bind same_cursor_quarantine stays_if stays_return)

lemma stays_validating:
  assumes "stays rewind" and "stays f" shows "stays (validating e l op fd entry path ctx rewind a f)"
  unfolding validating_def
  by (rule stays_bind [OF same_cursor_on_queue [OF keeps_validate_active]])
    (auto intro!: assms stays_bind same_cursor_tally stays_quarantining stays_return split: sum.split)

lemma stays_moving: "keeps same_handle m \<Longrightarrow> stays (moving m op path success missing)"
  unfolding moving_def
  by (intro stays_bind same_cursor_tally same_cursor_on_queue)
    (auto intro!: stays_bind same_cursor_tally stays_return split: sum.split)

text \<open>C37. An interrupted promotion resumes where it stopped. With a position saved, the walk over the sorted
  buckets does exactly what it does on the buckets from the saved one on, within the saved bucket
  on the shards from the saved one on, and within the saved shard on the entries after the saved
  entry: what has been dealt with is passed over without any effect. Every entry after the position
  is visited, and when the walk goes on past it the position is that entry.\<close>

theorem promotion_resumes_after_cursor:
  assumes "promote_delayed (cursor_at r) = Some c" and "sorted buckets" and "sorted shards" and "sorted entries"
  shows "each_of (promote_bucket e l now delayed_fd) buckets u r
      = each_of (promote_bucket e l now delayed_fd) (filter (\<lambda>b. three_first c \<le> b) buckets) u r
    \<and> each_of (promote_shard e l drained (three_first c) bucket_name bucket_fd) shards n r
      = each_of (promote_shard e l drained (three_first c) bucket_name bucket_fd) (filter (\<lambda>s. three_second c \<le> s) shards) n r
    \<and> each_of (promote_entry e l (three_first c) (three_second c) bucket_name shard_name shard_fd) entries n r
      = each_of (promote_entry e l (three_first c) (three_second c) bucket_name shard_name shard_fd)
          (filter (\<lambda>x. three_resume_after c < x) entries) n r
    \<and> ((three_first c, three_second c, three_resume_after c) < (b, s, x)
        \<longrightarrow> promote_entry e l b s bucket_name shard_name shard_fd x n r = Some (Some n', r')
        \<longrightarrow> promote_delayed (cursor_at r') = Some (three_new b s x))"
proof (intro conjI impI)
  show "each_of (promote_bucket e l now delayed_fd) buckets u r
      = each_of (promote_bucket e l now delayed_fd) (filter (\<lambda>b. three_first c \<le> b) buckets) u r"
    by (rule each_of_resumes [OF assms(2)])
      (auto simp: promote_bucket_def promote_position_def assms(1) directory_before_cursor_def three_directories_def intro!: unless_before_skips)
  show "each_of (promote_shard e l drained (three_first c) bucket_name bucket_fd) shards n r
      = each_of (promote_shard e l drained (three_first c) bucket_name bucket_fd) (filter (\<lambda>s. three_second c \<le> s) shards) n r"
    by (rule each_of_resumes [OF assms(3)])
      (auto simp: promote_shard_def promote_position_def assms(1) directory_before_cursor_def three_directories_def intro!: unless_before_skips)
  show "each_of (promote_entry e l (three_first c) (three_second c) bucket_name shard_name shard_fd) entries n r
      = each_of (promote_entry e l (three_first c) (three_second c) bucket_name shard_name shard_fd)
          (filter (\<lambda>x. three_resume_after c < x) entries) n r"
    by (rule each_of_resumes [OF assms(4)])
      (auto simp: promote_entry_def three_should_skip_def not_less intro!: visit_entry_skips [where get = promote_delayed, OF assms(1)])
  assume less: "(three_first c, three_second c, three_resume_after c) < (b, s, x)"
    and run: "promote_entry e l b s bucket_name shard_name shard_fd x n r = Some (Some n', r')"
  show "promote_delayed (cursor_at r') = Some (three_new b s x)"
  proof (rule visit_entry_stays [OF _ _ _ run [unfolded promote_entry_def]])
    show "\<not> (case promote_delayed (cursor_at r) of Some c \<Rightarrow> three_should_skip c b s x | None \<Rightarrow> False)"
      using less by (simp only: assms(1) option.case three_should_skip_def not_le)
  qed (auto simp: Let_def intro!: stays_quarantining stays_validating stays_moving stays_bind same_cursor_tally keeps_transitions
      stays_return split: sum.split)
qed

subsection \<open>No early promotion\<close>







lemma promoted_frames [simp]:
  "rs_delayed_promoted (record_error a b c s) = rs_delayed_promoted s" "rs_delayed_promoted (budget_spent s) = rs_delayed_promoted s"
  "rs_delayed_promoted (attempts_charged n s) = rs_delayed_promoted s" "rs_delayed_promoted (block_phase a b c s) = rs_delayed_promoted s"
  by (simp_all add: record_error_def budget_spent_def attempts_charged_def block_phase_def)









subsection \<open>Examples\<close>

text \<open>A queue whose directories cannot be opened apart from the control directory and its lock.\<close>

definition blocked_os :: "unit os" where
  "blocked_os = bare_os\<lparr>sys_openat := (\<lambda>_ p _ _ s. (if p = as_bytes ''control'' \<or> p = as_bytes ''recovery.lock'' then Inr 4 else Inl ENOENT, s)),
     sys_ofd_setlk := (\<lambda>_ _ s. (Inr (), s)), sys_fsync := (\<lambda>_ s. (Inr (), s)),
     sys_clock_gettime := (\<lambda>_ s. (Inr \<lparr>tv_sec = 0, tv_nsec = 5\<rparr>, s)), sys_getrandom := (\<lambda>n s. (Inr (replicate n 7), s))\<rparr>"

lemma blocked_entries: "entry_names blocked_os"
  by (simp add: entry_names_def blocked_os_def bare_os_def)

lemma blocked_open:
  "n \<in> {''leased'', ''delayed'', ''tmp'', ''receipts''} \<Longrightarrow>
     open_directory blocked_os fd n (idle_world ()) = Some (Err (from_raw_os_error blocked_os ENOENT), idle_world ())"
proof -
  have "0 \<notin> set (as_bytes n) \<and> as_bytes n \<noteq> as_bytes ''control'' \<and> as_bytes n \<noteq> as_bytes ''recovery.lock''"
    if "n \<in> {''leased'', ''delayed'', ''tmp'', ''receipts''}"
    using that by (elim insertE emptyE; simp only:; code_simp)
  then show "n \<in> {''leased'', ''delayed'', ''tmp'', ''receipts''} \<Longrightarrow> ?thesis"
    by (simp add: open_directory_def with_name_eq blocked_os_def)
qed

abbreviation (input) idle_at :: "unit rworld \<Rightarrow> bool" where
  "idle_at r \<equiv> qw_sys (rw_q r) = idle_world ()"

lemma blocked_phase:
  assumes "idle_at r" and "dir \<in> {''leased'', ''delayed'', ''tmp'', ''receipts''}"
  shows "\<exists>r'. open_phase (sample_env blocked_os) l phase dir op f r = Some ((), r') \<and> idle_at r'"
  using assms(1) blocked_open [OF assms(2), of "q_root_fd (qw_queue (rw_q r))"]
  by (simp add: open_phase_def io_bind_def on_queue_def asks_def on_sys_def lift_def sample_env_def tally_def)

lemma blocked_clock:
  "clock_monotonic_ns blocked_os (idle_world ()) = Some (Ok 5, idle_world ())"
  "clock_boottime_ns blocked_os (idle_world ()) = Some (Ok 5, idle_world ())"
  by (simp_all add: clock_monotonic_ns_def clock_boottime_ns_def blocked_os_def timespec_ns_def io_try_def io_bind_def io_return_def
      map_err_def fault_state_new_def idle_world_def fault_check_def check_names_def syscall_def)

lemma blocked_budget: "idle_at r \<Longrightarrow> \<exists>b r'. work_budget_exhausted (sample_env blocked_os) l r = Some (b, r') \<and> idle_at r'"
  by (auto simp: work_budget_exhausted_def stats_of_def io_bind_def on_sys_def on_queue_def lift_def sample_env_def
      budget_time_exceeded_def io_try_def io_return_def blocked_clock)

lemma blocked_round:
  assumes "idle_at r"
  shows "\<exists>x r'. phase_round (sample_env blocked_os) l now None phase r = Some (x, r') \<and> idle_at r'"
proof -
  have "\<exists>r1. run_phase (sample_env blocked_os) l now None phase r = Some ((), r1) \<and> idle_at r1"
    by (cases phase) (auto intro!: blocked_phase [OF assms] simp: reap_expired_leases_def cleanup_temp_files_def
        compact_receipts_with_scan_budget_def io_return_def assms)
  then obtain r1 where 1: "run_phase (sample_env blocked_os) l now None phase r = Some ((), r1)" "idle_at r1" by blast
  have "\<exists>r2. (if has_recovery_budget (rw_stats r1) then set_cursor (\<lambda>c. c\<lparr>cursor_phase := next_phase phase\<rparr>) else io_return ()) r1
      = Some ((), r2) \<and> idle_at r2"
    using 1(2) by (cases "has_recovery_budget (rw_stats r1)") (simp_all add: set_cursor_def on_queue_def modifies_def io_return_def)
  then obtain r2 where 2: "(if has_recovery_budget (rw_stats r1) then set_cursor (\<lambda>c. c\<lparr>cursor_phase := next_phase phase\<rparr>) else io_return ()) r1
      = Some ((), r2)" "idle_at r2" by blast
  obtain b r3 where 3: "work_budget_exhausted (sample_env blocked_os) l r2 = Some (b, r3)" "idle_at r3"
    using blocked_budget [OF 2(2)] by blast
  show ?thesis
    using 1 2 3 by (simp add: phase_round_def io_bind_def [of "run_phase _ _ _ _ _"] stats_of_bind io_bind_def [of "if _ then _ else _"]
        io_bind_def [of "work_budget_exhausted _ _"] tally_def io_return_def)
qed

definition sample_json :: cursor_json where
  "sample_json = \<lparr>cj_to_vec = (\<lambda>_. Err []), cj_from_slice = (\<lambda>_. Err [])\<rparr>"

lemma blocked_names:
  "0 \<notin> set (as_bytes ''control'')" "0 \<notin> set (as_bytes ''recovery.lock'')" "0 \<notin> set (as_bytes RECOVERY_CURSOR_FILE)"
  "0 \<notin> set (as_bytes ''.'')" "RECOVERY_CURSOR_FILE \<noteq> ''control''" "RECOVERY_CURSOR_FILE \<noteq> ''recovery.lock''"
  "as_bytes ''.'' \<noteq> as_bytes ''control''" "as_bytes ''.'' \<noteq> as_bytes ''recovery.lock''"
  "as_bytes ''wall-watermark.lock'' \<noteq> as_bytes ''control''" "as_bytes ''wall-watermark.lock'' \<noteq> as_bytes ''recovery.lock''"
  by code_simp+

lemma blocked_opens:
  "openat blocked_os fd ''recovery.lock'' fl m (idle_world ()) = Some (Ok 4, idle_world ())"
  "open_directory blocked_os fd ''control'' (idle_world ()) = Some (Ok 4, idle_world ())"
  "open_directory blocked_os fd ''.'' (idle_world ()) = Some (Err (from_raw_os_error blocked_os ENOENT), idle_world ())"
  "openat blocked_os fd RECOVERY_CURSOR_FILE fl m (idle_world ()) = Some (Err (from_raw_os_error blocked_os ENOENT), idle_world ())"
  "openat blocked_os fd ''wall-watermark.lock'' fl m (idle_world ()) = Some (Err (from_raw_os_error blocked_os ENOENT), idle_world ())"
  by (simp_all add: open_directory_def openat_def with_name_eq blocked_os_def blocked_names control_names map_err_def)

lemma blocked_lock: "idle_at r \<Longrightarrow> \<exists>r'. giving_up op p t (acquire_recovery_lock (sample_env blocked_os)) f r = f 4 r' \<and> idle_at r'"
proof -
  have "fsync blocked_os 4 (idle_world ()) = Some (Ok (), idle_world ())"
    "fsync_dir_fd blocked_os 4 (idle_world ()) = Some (Ok (), idle_world ())"
    "try_ofd_write_lock blocked_os 4 (idle_world ()) = Some (Ok True, idle_world ())"
    by (simp_all add: fsync_def fsync_dir_fd_def try_ofd_write_lock_def try_ofd_lock_def blocked_os_def map_err_def io_map_def io_try_def io_bind_def io_return_def)
  then show "idle_at r \<Longrightarrow> ?thesis"
    by (simp add: giving_up_def acquire_recovery_lock_def sample_env_def create_exclusive_def blocked_opens from_io_def
        io_bind_def io_try_def io_return_def io_map_err_def map_err_def lift_def asks_def on_queue_def)
      (rule exI, rule conjI, rule refl, simp)
qed

lemma blocked_sweep: "idle_at r \<Longrightarrow> \<exists>r'. sweep_cursor_temporary_files (sample_env blocked_os) r = Some ((), r') \<and> idle_at r'"
  by (simp add: sweep_cursor_temporary_files_def cursor_temporary_files_def stream_open_def reopen_directory_def blocked_opens sample_env_def
      io_bind_def io_try_def io_return_def lift_def asks_def on_queue_def tally_def)

lemma blocked_load: "idle_at r \<Longrightarrow> \<exists>r'. giving_up op p t (io_bind (asks id) (\<lambda>q. load_recovery_cursor (sample_env blocked_os) js (q_root_fd q) (fmt_queue_id (q_format q)))) g r
     = g cursor_default r' \<and> idle_at r'"
  by (simp add: giving_up_def load_recovery_cursor_def from_io_def io_map_err_def map_err_def blocked_opens sample_env_def cursor_file_is_absent_def
      from_raw_os_error_def io_bind_def io_try_def io_return_def lift_def asks_def on_queue_def tally_def)
    (rule exI, rule conjI, rule refl, simp)

lemma blocked_clocks:
  "idle_at r \<Longrightarrow> \<exists>r'. giving_up op p t (lift (clock_boottime_ns blocked_os)) h r = h 5 r' \<and> idle_at r'"
  "idle_at r \<Longrightarrow> \<exists>r'. giving_up op p t (lift (clock_monotonic_ns blocked_os)) h r = h 5 r' \<and> idle_at r'"
  by (simp add: giving_up_def blocked_clock io_bind_def lift_def on_queue_def, rule exI, rule conjI, rule refl, simp)+

lemma blocked_watermark:
  "qw_sys q = idle_world () \<Longrightarrow> \<exists>er q'. with_wall_watermark_write_lock (sample_env blocked_os) action q = Some (Err er, q') \<and> qw_sys q' = idle_world ()"
  by (simp add: with_wall_watermark_write_lock_def from_io_def io_map_err_def map_err_def blocked_opens
      sample_env_def io_bind_def io_try_def io_return_def lift_def asks_def)

lemma blocked_floor: "idle_at r \<Longrightarrow> \<exists>r'. observed_floor (sample_env blocked_os) r = Some (None, r') \<and> idle_at r'"
proof -
  assume "idle_at r"
  then obtain er q' where "stabilized_wall_floor (sample_env blocked_os) (rw_q r) = Some (Err er, q')" "qw_sys q' = idle_world ()"
    unfolding stabilized_wall_floor_def using blocked_watermark by blast
  then show ?thesis by (simp add: observed_floor_def io_bind_def on_queue_def tally_def io_return_def)
qed

lemma blocked_persist: "\<exists>r'. giving_up op p t (persist_recovery_cursor (sample_env blocked_os) sample_json) io_return r = Some ((), r')"
  by (simp add: giving_up_def persist_recovery_cursor_def sample_json_def Let_def map_err_def asks_def io_bind_def io_try_def io_return_def
      on_queue_def tally_def)

lemma blocked_run: "idle_at r \<Longrightarrow> \<exists>r'. run_phases (sample_env blocked_os) sample_json b sb now r = Some ((), r')"
proof -
  let ?loop = "\<lambda>start. recover_loop (sample_env blocked_os) \<lparr>lim_work = b, lim_scan = sb,
      lim_deadline_mono = saturating_add start (saturating_mul (wb_max_duration_ms b) 1000000)\<rparr> now None"
  let ?rest = "\<lambda>start. io_bind (?loop start) (\<lambda>_. giving_up ''recovery_cursor_persist'' (path2 ''control'' RECOVERY_CURSOR_FILE) error_text
      (persist_recovery_cursor (sample_env blocked_os) sample_json) io_return)"
  assume "idle_at r"
  then obtain r1 where r1: "observed_floor (sample_env blocked_os) r = Some (None, r1)" "idle_at r1" using blocked_floor by blast
  obtain r2 where r2: "giving_up ''clock_monotonic'' ''/'' io_text (lift (clock_monotonic_ns blocked_os)) ?rest r1 = ?rest 5 r2" "idle_at r2"
    using blocked_clocks(2) [OF r1(2)] by blast
  obtain x r3 where r3: "?loop 5 r2 = Some (x, r3)"
    using recover_loop_ends [of idle_at, OF blocked_round r2(2)] by blast
  have "\<exists>r'. ?rest 5 r2 = Some ((), r')" using blocked_persist by (simp add: io_bind_def r3)
  then show ?thesis
    using r1(1) r2(1) by (simp add: run_phases_def io_bind_def [of "observed_floor _"] Let_def sample_env_def)
qed

lemma blocked_recovery:
  "\<exists>report q'. recover_with_scan_budget (sample_env blocked_os) sample_json work_budget_default minimum_for_progress (sample_qworld ()) = Some (report, q')"
proof -
  let ?e = "sample_env blocked_os" and ?b = work_budget_default and ?sb = minimum_for_progress
  let ?r = "\<lparr>rw_q = sample_qworld (), rw_stats = stats_default, rw_scan = scan_stats_default\<rparr>"
  let ?clock = "giving_up ''clock_boottime'' ''/'' io_text (lift (clock_boottime_ns blocked_os)) (run_phases ?e sample_json ?b ?sb)"
  let ?set = "\<lambda>cursor. io_bind (set_cursor (\<lambda>_. cursor)) (\<lambda>_. ?clock)"
  let ?load = "giving_up ''recovery_cursor_reload'' (path2 ''control'' RECOVERY_CURSOR_FILE) error_text
      (io_bind (asks id) (\<lambda>q. load_recovery_cursor ?e sample_json (q_root_fd q) (fmt_queue_id (q_format q)))) ?set"
  let ?sweep = "\<lambda>_. io_bind (sweep_cursor_temporary_files ?e) (\<lambda>_. ?load)"
  have clock: "\<exists>r'. ?clock r = Some ((), r')" if "idle_at r" for r
    using blocked_clocks(1) [OF that] blocked_run by (metis (no_types, lifting))
  have set: "\<exists>r'. ?set cursor r = Some ((), r')" if "idle_at r" for r cursor
    using clock that by (simp add: io_bind_def [of "set_cursor _"] set_cursor_def on_queue_def modifies_def)
  have load: "\<exists>r'. ?load r = Some ((), r')" if idle: "idle_at r" for r
  proof -
    obtain r' where "?load r = ?set cursor_default r'" "idle_at r'" using blocked_load [OF idle, where g = ?set] by blast
    then show ?thesis using set by simp
  qed
  have sweep: "\<exists>r'. ?sweep x r = Some ((), r')" if "idle_at r" for r x
    using blocked_sweep [OF that] load by (auto simp: io_bind_def [of "sweep_cursor_temporary_files _"])
  have "\<exists>r'. giving_up ''recovery_lock'' ''control/recovery.lock'' error_text (acquire_recovery_lock ?e) ?sweep ?r = Some ((), r')"
  proof -
    have "idle_at ?r" by (simp add: sample_qworld_def)
    then obtain r' where "giving_up ''recovery_lock'' ''control/recovery.lock'' error_text (acquire_recovery_lock ?e) ?sweep ?r = ?sweep 4 r'" "idle_at r'"
      using blocked_lock [where f = ?sweep] by blast
    then show ?thesis using sweep by simp
  qed
  moreover have "scan_budget_validate ?sb = Ok ()" by (simp add: scan_budget_validate_def minimum_for_progress_def require_def res_bind_def)
  ultimately show ?thesis
    by (auto simp: recover_with_scan_budget_def recovery_pass_def sample_env_def)
qed


theorem recovery_cursor_reloads_witness:
  "\<exists>report q'. recover_with_scan_budget (sample_env blocked_os) sample_json work_budget_default minimum_for_progress (sample_qworld ())
      = Some (report, q')
    \<and> check_cursor_record (fmt_queue_id (q_format (qw_queue (sample_qworld ())))) (cursor_record (qw_queue q'))
      = Ok (q_recovery_cursor (qw_queue q'))"
proof -
  obtain report q' where run: "recover_with_scan_budget (sample_env blocked_os) sample_json work_budget_default minimum_for_progress
      (sample_qworld ()) = Some (report, q')" using blocked_recovery by blast
  have "entry_names (env_os (sample_env blocked_os))" by (simp add: sample_env_def blocked_entries)
  moreover have "cursor_is_valid (q_recovery_cursor (qw_queue (sample_qworld ())))" by code_simp
  ultimately show ?thesis using run recovery_cursor_reloads [OF run] by blast
qed


theorem promotion_resumes_after_cursor_witness:
  "each_of (promote_entry (sample_env bare_os) \<lparr>lim_work = work_budget_default, lim_scan = minimum_for_progress, lim_deadline_mono = 5\<rparr>
      [1] [2] ''a'' ''b'' 3) [[4], [5]] 0
     \<lparr>rw_q = (sample_qworld ())\<lparr>qw_queue := sample_queue\<lparr>q_recovery_cursor := cursor_default\<lparr>promote_delayed := Some (three_new [1] [2] [7])\<rparr>\<rparr>\<rparr>,
      rw_stats = stats_default, rw_scan = scan_stats_default\<rparr>
    = Some (Some 0,
     \<lparr>rw_q = (sample_qworld ())\<lparr>qw_queue := sample_queue\<lparr>q_recovery_cursor := cursor_default\<lparr>promote_delayed := Some (three_new [1] [2] [7])\<rparr>\<rparr>\<rparr>,
      rw_stats = stats_default, rw_scan = scan_stats_default\<rparr>)"
proof -
  let ?c = "three_new [1] [2] [7]"
  let ?r = "\<lparr>rw_q = (sample_qworld ())\<lparr>qw_queue := sample_queue\<lparr>q_recovery_cursor := cursor_default\<lparr>promote_delayed := Some ?c\<rparr>\<rparr>\<rparr>,
      rw_stats = stats_default, rw_scan = scan_stats_default\<rparr>"
  have c: "promote_delayed (cursor_at ?r) = Some ?c" by simp
  have s: "sorted [[4 :: u8], [5]]" by simp
  have f: "filter (\<lambda>x. three_resume_after ?c < x) [[4], [5]] = []" by (simp add: three_new_def)
  have p: "three_first ?c = [1]" "three_second ?c = [2]" by (simp_all add: three_new_def)
  show ?thesis
    using promotion_resumes_after_cursor [OF c s s s] unfolding f p by (simp add: io_return_def)
qed






end
