(* ===== verification/Steadq_Session.thy ===== *)
theory Steadq_Session
  imports Steadq_Batch Steadq_Limits
begin

text \<open>
  Sessions with a handle: any sequence of the public operations of \<^verbatim>\<open>src/crates/steadq-core/src/queue/\<close>,
  with whatever replies the system gives. The theory shows that every operation that answers with an
  unknown outcome has poisoned its handle, that a poisoned handle refuses every operation of producers
  and consumers, alone or in a batch, and that nothing removes the poison, recovery included.

  \<^verbatim>\<open>poisons_on U m\<close> says of a procedure that it keeps the poison of the handle and that its results in
  \<^verbatim>\<open>U\<close> are only returned with the handle poisoned; the rules of the collection compose it.
\<close>

subsection \<open>An unknown outcome poisons the handle\<close>

text \<open>Whenever the procedure returns a result of the given kind, the handle is poisoned.\<close>

definition poisons_on :: "('a \<Rightarrow> bool) \<Rightarrow> ('s, 'a) qproc \<Rightarrow> bool" where
  "poisons_on U m \<longleftrightarrow> (\<forall>q x q'. m q = Some (x, q') \<longrightarrow> U x \<longrightarrow> is_poisoned (qw_queue q'))"

named_theorems poisons_intros \<open>which results leave the handle poisoned\<close>

lemma poisons_onD: "poisons_on U m \<Longrightarrow> m q = Some (x, q') \<Longrightarrow> U x \<Longrightarrow> is_poisoned (qw_queue q')"
  by (auto simp: poisons_on_def)

lemma poisons_on_weaken: "poisons_on V m \<Longrightarrow> (\<And>x. U x \<Longrightarrow> V x) \<Longrightarrow> poisons_on U m"
  by (auto simp: poisons_on_def)

lemma poisons_on_never: "(\<And>x. \<not> U x) \<Longrightarrow> poisons_on U m"
  by (simp add: poisons_on_def)

lemma poisons_on_return [poisons_intros]: "\<not> U x \<Longrightarrow> poisons_on U (io_return x)"
  by (simp add: poisons_on_def)

lemma poisons_on_bind [poisons_intros]: "(\<And>x. poisons_on U (f x)) \<Longrightarrow> poisons_on U (io_bind m f)"
  by (auto simp: poisons_on_def io_bind_eq_Some_iff)

lemma poisons_on_try:
  assumes "poisons_on (\<lambda>r. case r of Inl e \<Rightarrow> U (Inl e) | Inr _ \<Rightarrow> False) m" and "\<And>x. poisons_on U (f x)"
  shows "poisons_on U (io_try m f)"
  using assms by (fastforce simp: poisons_on_def io_try_eq_Some_iff)

lemma poisons_on_try_map_err [poisons_intros]:
  assumes "\<And>e. \<not> U (Inl (g e))" and "\<And>x. poisons_on U (f x)"
  shows "poisons_on U (io_try (io_map_err g m) f)"
proof (rule poisons_on_try [OF _ assms(2)])
  have "\<not> (case map_err g r of Inl e \<Rightarrow> U (Inl e) | Inr _ \<Rightarrow> False)" for r
    using assms(1) by (cases r) (auto simp: map_err_def)
  then show "poisons_on (\<lambda>r. case r of Inl e \<Rightarrow> U (Inl e) | Inr _ \<Rightarrow> False) (io_map_err g m)"
    by (auto simp: poisons_on_def io_map_err_eq_Some_iff)
qed

lemma poisons_on_map [poisons_intros]: "poisons_on (\<lambda>x. U (g x)) m \<Longrightarrow> poisons_on U (io_map g m)"
  by (auto simp: poisons_on_def io_map_eq_Some_iff)

lemma poisons_on_returning [poisons_intros]:
  "poisons_on (\<lambda>r. case r of Inl x \<Rightarrow> U x | Inr x \<Rightarrow> U x) m \<Longrightarrow> poisons_on U (returning m)"
  unfolding returning_def by (intro poisons_on_map) (auto simp: poisons_on_def split: sum.splits)

lemma poisons_on_poisoning [poisons_intros]: "poisons_on U (poisoning r x)"
  by (auto simp: poisons_on_def poisoning_def io_bind_eq_Some_iff is_poisoned_def poison_def split: option.splits)

lemma poisons_on_lending: "poisons_on U m \<Longrightarrow> poisons_on (\<lambda>(x, _). U x) (lending d m)"
  by (fastforce simp: poisons_on_def lending_def io_bind_eq_Some_iff lent_def set_lent_def)

lemma poisons_on_strictly [poisons_intros]: "poisons_on U m \<Longrightarrow> poisons_on U (strictly m)"
  unfolding strictly_def by (intro poisons_on_map, drule poisons_on_lending [where d = None])
    (auto simp: poisons_on_def)

lemma poisons_on_own_dirty [poisons_intros]: "poisons_on U m \<Longrightarrow> poisons_on U (with_own_dirty m)"
proof -
  assume "poisons_on U m"
  then have l: "is_poisoned (qw_queue q')" if "lending d m q = Some ((x, b), q')" and "U x" for d q x b q'
    using poisons_onD [OF poisons_on_lending that(1)] that(2) by auto
  show "poisons_on U (with_own_dirty m)"
    by (auto simp: poisons_on_def with_own_dirty_def io_bind_eq_Some_iff dest!: l) (simp_all add: is_poisoned_def)
qed

lemma poisons_on_if [poisons_intros]:
  "(b \<Longrightarrow> poisons_on U m) \<Longrightarrow> (\<not> b \<Longrightarrow> poisons_on U m') \<Longrightarrow> poisons_on U (if b then m else m')"
  by simp

lemma poisons_on_let [poisons_intros]: "poisons_on U (f x) \<Longrightarrow> poisons_on U (let y = x in f y)"
  by simp

lemma poisons_on_case_sum [poisons_intros]:
  "(\<And>x. r = Inl x \<Longrightarrow> poisons_on U (f x)) \<Longrightarrow> (\<And>x. r = Inr x \<Longrightarrow> poisons_on U (g x))
     \<Longrightarrow> poisons_on U (case r of Inl x \<Rightarrow> f x | Inr x \<Rightarrow> g x)"
  by (cases r) auto

lemma poisons_on_case_option [poisons_intros]:
  "(r = None \<Longrightarrow> poisons_on U m) \<Longrightarrow> (\<And>x. r = Some x \<Longrightarrow> poisons_on U (g x))
     \<Longrightarrow> poisons_on U (case r of None \<Rightarrow> m | Some x \<Rightarrow> g x)"
  by (cases r) auto

lemma poisons_on_case_prod [poisons_intros]:
  "(\<And>a b. poisons_on U (f a b)) \<Longrightarrow> poisons_on U (case p of (a, b) \<Rightarrow> f a b)"
  by (cases p) auto

text \<open>The outcomes that leave it open whether the operation happened.\<close>

fun enqueue_unknown :: "EnqueueOutcome \<Rightarrow> bool" where
  "enqueue_unknown (Enqueue_OutcomeUnknown _ _) = True" | "enqueue_unknown _ = False"
fun lease_unknown :: "LeaseOutcome \<Rightarrow> bool" where
  "lease_unknown (Lease_OutcomeUnknown _) = True" | "lease_unknown _ = False"
fun ack_unknown :: "AckOutcome \<Rightarrow> bool" where
  "ack_unknown (Ack_OutcomeUnknown _) = True" | "ack_unknown _ = False"
fun transition_unknown :: "TransitionOutcome \<Rightarrow> bool" where
  "transition_unknown (Tr_OutcomeUnknown _) = True" | "transition_unknown _ = False"
fun renew_unknown :: "RenewOutcome \<Rightarrow> bool" where
  "renew_unknown (Renew_OutcomeUnknown _) = True" | "renew_unknown _ = False"

lemma poisons_on_leased_transition: "poisons_on transition_unknown (leased_transition t r)"
  by (cases r) (auto intro!: poisons_intros)

lemma poisons_on_duplicate_ack: "poisons_on ack_unknown (duplicate_ack_outcome e l f)"
  unfolding duplicate_ack_outcome_def by (intro poisons_intros poisons_on_never) (auto split: sum.splits bool.splits)

lemma poisons_on_acked: "poisons_on ack_unknown (acked e l f d n t r)"
  unfolding acked_def Let_def by (cases r) (auto intro!: poisons_intros poisons_on_duplicate_ack)

lemma poisons_on_lease_source:
  assumes "\<And>er. \<not> U (refused er)" and "poisons_on U gone" and "\<And>s. poisons_on U (body s)"
  shows "poisons_on U (with_lease_source e l refused gone body)"
  unfolding with_lease_source_def
proof (rule poisons_on_bind)
  fix found
  show "poisons_on U (case found of Inl (QueueCorrupt m) \<Rightarrow> poisoning InternalInvariantViolation (refused (QueueCorrupt m))
      | Inl er \<Rightarrow> io_return (refused er) | Inr None \<Rightarrow> gone | Inr (Some s) \<Rightarrow> body s)"
    using assms by (auto intro!: poisons_intros split: sum.splits option.splits Error.splits)
qed

lemma poisons_on_ack_source: "poisons_on ack_unknown (ack_source e l f d n t fd s)"
  unfolding ack_source_def by (rule poisons_on_bind) (auto intro!: poisons_intros poisons_on_acked split: Error.splits)

lemma poisons_on_ack_inner: "poisons_on ack_unknown (ack_inner_with_dirty e l)"
  unfolding ack_inner_with_dirty_def Let_def
  by (intro poisons_intros) (simp_all add: poisons_on_lease_source poisons_on_duplicate_ack poisons_on_ack_source)

lemma poisons_on_move_leased_dirty: "poisons_on transition_unknown (move_leased_with_dirty e l d n t)"
  unfolding move_leased_with_dirty_def
  by (intro poisons_intros) (auto intro!: poisons_on_lease_source poisons_intros poisons_on_leased_transition)

lemma poisons_on_move_leased: "poisons_on transition_unknown (move_leased e l d n t)"
  unfolding move_leased_def by (intro poisons_intros poisons_on_move_leased_dirty)

lemma poisons_on_bury_floor: "poisons_on transition_unknown (bury_with_wall_floor e l r f)"
  unfolding bury_with_wall_floor_def by (intro poisons_intros) (simp_all add: poisons_on_move_leased)

lemma poisons_on_retry: "poisons_on transition_unknown (retry e l t)"
  unfolding retry_def Let_def by (intro poisons_intros) (simp_all add: poisons_on_move_leased poisons_on_bury_floor)

lemma poisons_on_renew_dirty: "poisons_on renew_unknown (renew_with_dirty e l d)"
proof -
  have "poisons_on (\<lambda>r. renew_unknown (renewed l c b w t r)) (move_leased_with_dirty e l d' n ticket)" for c b w t d' n ticket
    using poisons_on_move_leased_dirty [of e l d' n ticket]
    by (auto simp: poisons_on_def renewed_def split: TransitionOutcome.splits)
  then show ?thesis
    unfolding renew_with_dirty_def by (intro poisons_intros) simp_all
qed

lemma poisons_on_case_publish [poisons_intros]:
  "(\<And>er. p = PE_NotCommitted er \<Longrightarrow> poisons_on U (f er)) \<Longrightarrow> (\<And>er. p = PE_OutcomeUnknown er \<Longrightarrow> poisons_on U (g er))
     \<Longrightarrow> (\<And>d er. p = PE_OutcomeUnknownPublished d er \<Longrightarrow> poisons_on U (h d er))
     \<Longrightarrow> poisons_on U (case p of PE_NotCommitted er \<Rightarrow> f er | PE_OutcomeUnknown er \<Rightarrow> g er
       | PE_OutcomeUnknownPublished d er \<Rightarrow> h d er)"
  by (cases p) auto

lemma poisons_on_modifies_poison: "poisons_on U (io_bind (modifies (poison r)) (\<lambda>_. io_return x))"
  using poisons_on_poisoning [of U r x] by (simp add: poisoning_def)

lemma poisons_on_enqueue_dirty: "poisons_on enqueue_unknown (enqueue_with_dirty e job)"
  unfolding enqueue_with_dirty_def by (intro poisons_on_modifies_poison poisons_intros) simp_all

lemma poisons_on_stream_outcome: "poisons_on enqueue_unknown (stream_outcome t r)"
  unfolding stream_outcome_def by (intro poisons_on_modifies_poison poisons_intros) simp_all

lemma poisons_on_case_try [poisons_intros]:
  assumes "\<And>er. \<not> U (Inl (g er))" and "\<And>x. r = Inr x \<Longrightarrow> poisons_on U (f x)"
  shows "poisons_on U (io_try (io_return (map_err g r)) f)"
  using assms by (cases r) (simp_all add: map_err_def io_try_def poisons_on_def)

lemma poisons_on_refused [poisons_intros]: "\<not> U (Err x) \<Longrightarrow> poisons_on U (io_return (Err x))"
  by (rule poisons_on_return)

lemma poisons_on_enqueue_streaming: "poisons_on enqueue_unknown (enqueue_streaming e job rd r)"
  unfolding enqueue_streaming_def Let_def
  by (intro poisons_intros) (simp_all add: poisons_on_stream_outcome)

lemma poisons_on_enqueue: "poisons_on enqueue_unknown (enqueue e job)"
proof -
  have "enqueue_unknown (deferred_enqueue r) = enqueue_unknown r" for r
    by (cases r) simp_all
  then show ?thesis
    unfolding enqueue_def using poisons_on_enqueue_dirty [of e job] by (intro poisons_intros) simp_all
qed

lemma poisons_on_renew: "poisons_on renew_unknown (renew e l d)"
proof -
  have "renew_unknown (deferred_renew r) = renew_unknown r" for r
    by (cases r) simp_all
  then show ?thesis
    unfolding renew_def using poisons_on_renew_dirty [of e l d] by (intro poisons_intros) simp_all
qed

lemma poisons_on_retries:
  "poisons_on transition_unknown (retry_now e l)"
  "poisons_on transition_unknown (retry_at e l nb)"
  "poisons_on transition_unknown (retry_after e l ns)"
  "poisons_on transition_unknown (retry_with_policy e l p)"
proof -
  show now: "poisons_on transition_unknown (retry_now e l)"
    unfolding retry_now_def by (rule poisons_on_retry)
  show "poisons_on transition_unknown (retry_at e l nb)"
    unfolding retry_at_def by (intro poisons_intros) (simp_all add: poisons_on_retry)
  show "poisons_on transition_unknown (retry_after e l ns)"
    unfolding retry_after_def by (intro poisons_intros) (simp_all add: poisons_on_retry)
  show "poisons_on transition_unknown (retry_with_policy e l p)"
    unfolding retry_with_policy_def by (intro poisons_intros) (simp_all add: poisons_on_retry now)
qed

lemma poisons_on_bury: "poisons_on transition_unknown (bury e l r)"
  unfolding bury_def bury_internal_def by (intro poisons_intros) (simp_all add: poisons_on_bury_floor)

text \<open>Leasing: an outcome reaches the caller through the steps of the scan.\<close>

fun step_unknown :: "scan_step \<Rightarrow> bool" where
  "step_unknown (Break (Inl (outcome, _))) = lease_unknown outcome"
| "step_unknown _ = False"

lemma step_unknown_stops [simp]: "step_unknown (stops outcome) = lease_unknown outcome"
  by (simp add: stops_def)

lemma poisons_on_dead_letter: "poisons_on step_unknown (dead_letter_step s r)"
  by (auto simp: dead_letter_step_def intro!: poisons_intros split: sum.splits DeadLetterFailure.splits MoveFailure.splits)

lemma poisons_on_exhausted: "poisons_on step_unknown (exhausted_candidate e d n c s)"
  unfolding exhausted_candidate_def by (intro poisons_intros) (simp_all add: poisons_on_dead_letter)

lemma poisons_on_set_aside: "poisons_on step_unknown (set_aside e fd n s)"
  unfolding set_aside_def Let_def
  by (intro poisons_on_bind) (auto intro!: poisons_intros split: sum.splits QuarantinePublishFailure.splits MoveFailure.splits)

lemma poisons_on_deliver: "poisons_on step_unknown (deliver_claim e q c fd f t ob)"
  unfolding deliver_claim_def unknown_claim_def
  by (intro poisons_intros) (auto intro!: poisons_intros split: Error.splits)

lemma poisons_on_settle: "poisons_on step_unknown (settle_claim e q c fd lfd f s m)"
  unfolding settle_claim_def unknown_claim_def
  by (cases m) (auto intro!: poisons_intros poisons_on_deliver split: sum.splits MoveFailure.splits)

text \<open>A stage of a claim may end the scan.\<close>

abbreviation (input) stage_unknown :: "scan_step + 'a \<Rightarrow> bool" where
  "stage_unknown r \<equiv> (case r of Inl x \<Rightarrow> step_unknown x | Inr _ \<Rightarrow> False)"

lemma poisons_on_try_stage:
  assumes "poisons_on (\<lambda>r. stage_unknown r) m"
    and "\<And>x. poisons_on (\<lambda>r. case r of Inl x \<Rightarrow> step_unknown x | Inr x \<Rightarrow> step_unknown x) (f x)"
  shows "poisons_on (\<lambda>r. case r of Inl x \<Rightarrow> step_unknown x | Inr x \<Rightarrow> step_unknown x) (io_try m f)"
  using assms by (intro poisons_on_try) (auto simp: poisons_on_def split: sum.splits)

lemma poisons_on_leased_dir: "poisons_on (\<lambda>r. stage_unknown r) (open_leased_dir e d s)"
proof -
  have "\<not> stage_unknown (map_err (\<lambda>er. case classify_lease_directory_open_failure er of
      Directory_Gone \<Rightarrow> Continue s | _ \<Rightarrow> Continue (True, snd s)) r)" for r :: "IoError + fd"
    by (cases r) (auto simp: map_err_def split: LeaseDirectoryOpenFailure.splits)
  then show ?thesis
    unfolding open_leased_dir_def
    by (intro poisons_intros) (auto simp: poisons_on_def io_map_err_eq_Some_iff)
qed

lemma poisons_on_claim_source: "poisons_on (\<lambda>r. stage_unknown r) (claim_source e fd n c s)"
  unfolding claim_source_def
  by (rule poisons_on_bind) (auto intro!: poisons_intros simp: poisons_on_set_aside split: sum.splits option.splits Error.splits)

lemma poisons_on_observed: "poisons_on (\<lambda>r. stage_unknown r) (observed_source e fd n w s)"
  unfolding observed_source_def
  by (intro poisons_intros poisons_on_never) (auto split: sum.splits WitnessPathObservation.splits)

lemma poisons_on_pure_stage: "(\<And>x. r = Inl x \<Longrightarrow> \<not> step_unknown x) \<Longrightarrow> poisons_on (\<lambda>r. stage_unknown r) (io_return r)"
  by (cases r) (auto simp: poisons_on_def)

lemma claim_of_refused: "claim_of sha q d c b f t s = Inl x \<Longrightarrow> \<not> step_unknown x"
  by (auto simp: claim_of_def res_bind_def ok_or_def map_err_def split: sum.splits option.splits)

lemma poisons_on_failed_stage: "(\<And>er. \<not> step_unknown (g er)) \<Longrightarrow> poisons_on (\<lambda>r. stage_unknown r) (io_map_err g m)"
proof -
  assume "\<And>er. \<not> step_unknown (g er)"
  then have "\<not> stage_unknown (map_err g r)" for r
    by (cases r) (simp_all add: map_err_def)
  then show ?thesis
    by (auto simp: poisons_on_def io_map_err_eq_Some_iff)
qed

lemma poisons_on_candidate: "poisons_on step_unknown (claim_candidate e d fd n c s)"
  unfolding claim_candidate_def Let_def
  by (intro poisons_on_returning poisons_on_try_stage poisons_on_leased_dir poisons_on_claim_source poisons_on_observed
      poisons_on_bind poisons_on_map poisons_on_pure_stage poisons_on_failed_stage)
    (auto simp: map_err_def claim_of_refused poisons_on_settle split: sum.splits)

lemma poisons_on_entry: "poisons_on step_unknown (lease_entry e fmt d sh fd r s)"
  unfolding lease_entry_def
  by (intro poisons_intros) (simp_all add: poisons_on_exhausted poisons_on_candidate)

abbreviation (input) result_unknown :: "lease_result + scan \<Rightarrow> bool" where
  "result_unknown r \<equiv> (case r of Inl (outcome, _) \<Rightarrow> lease_unknown outcome | Inr _ \<Rightarrow> False)"

lemma poisons_on_each_entry:
  assumes "\<And>r s. poisons_on step_unknown (step r s)"
  shows "poisons_on (\<lambda>r. result_unknown r) (each_entry k step stream s)"
proof -
  have "result_unknown b \<longrightarrow> is_poisoned (qw_queue q')" if "each_entry k step stream s q = Some (b, q')" for q b q'
    using that
    by (rule each_entry_induct [where P = "\<lambda>a q b q'. result_unknown b \<longrightarrow> is_poisoned (qw_queue q')"])
      (auto dest!: poisons_onD [OF assms] split: sum.splits)
  then show ?thesis by (auto simp: poisons_on_def)
qed

lemma poisons_on_shard: "poisons_on (\<lambda>r. result_unknown r) (lease_shard e fmt d sh s)"
  unfolding lease_shard_def
  by (intro poisons_on_bind poisons_on_case_sum poisons_on_return poisons_on_each_entry) (simp_all add: poisons_on_entry)

lemma poisons_on_shards: "poisons_on (\<lambda>r. result_unknown r) (io_fold (lease_shard e fmt d) shs s)"
proof (induction shs arbitrary: s)
  case (Cons sh shs)
  have "poisons_on (\<lambda>r. case r of Inl e \<Rightarrow> result_unknown (Inl e) | Inr _ \<Rightarrow> False) (lease_shard e fmt d sh s)"
    using poisons_on_shard [of e fmt d sh s] by (simp add: poisons_on_def split: sum.splits)
  then show ?case
    using Cons.IH by (auto intro: poisons_on_try)
qed (simp add: poisons_on_def)

lemma poisons_on_lease_once: "poisons_on (\<lambda>r. lease_unknown (fst r)) (lease_once_with_dirty e d)"
proof -
  have "poisons_on (\<lambda>r. lease_unknown (fst (scan_outcome r))) (io_fold (lease_shard e fmt d) shs s)" for fmt shs s
    using poisons_on_shards [of e fmt d shs s]
    by (auto simp: poisons_on_def scan_outcome_def split: sum.splits prod.splits if_splits)
  then show ?thesis
    unfolding lease_once_with_dirty_def by (intro poisons_intros) simp_all
qed

lemma lease_loop_result:
  assumes "lease_loop e (n :: 's waits) wait d backoff q = Some (r, q')"
  shows "\<exists>q1 q2. lease_once_with_dirty e d q1 = Some (r, q2) \<and> qw_queue q' = qw_queue q2"
proof -
  define Q where "Q = (\<lambda>(e :: 's env) (n :: 's waits) (wait :: nat) d (backoff :: nat) (q :: 's qworld) (y :: lease_result \<times> 's qworld).
    \<exists>q1 q2. lease_once_with_dirty e d q1 = Some (fst y, q2) \<and> qw_queue (snd y) = qw_queue q2)"
  have "Q e n wait d backoff q (r, q')"
  proof (rule lease_loop.raw_induct [of Q, OF _ assms])
    fix f and e :: "'s env" and n :: "'s waits" and wait d backoff q y
    assume IH: "\<And>e n wait d backoff q y. f e n wait d backoff q = Some y \<Longrightarrow> Q e n wait d backoff q y"
      and run: "(case lease_once_with_dirty e d q of None \<Rightarrow> None
      | Some (result, q1) \<Rightarrow> if wait = 0 \<or> \<not> lease_retryable (fst result) then Some (result, q1)
          else case elapsed n q1 of None \<Rightarrow> None
            | Some (t, q2) \<Rightarrow> if wait \<le> t then Some (result, q2)
                else case nap_for e n (min backoff (wait - t)) q2 of None \<Rightarrow> None
                  | Some (x, xa) \<Rightarrow> f e n wait d (min (2 * backoff) MAX_BACKOFF) xa) = Some y"
    show "Q e n wait d backoff q y"
    proof (cases "lease_once_with_dirty e d q")
      case None
      with run show ?thesis by simp
    next
      case (Some p)
      with run IH show ?thesis
        by (cases p) (auto simp: Q_def elapsed_def lift_eq_Some_iff split: option.splits prod.splits if_splits, blast+)
    qed
  qed
  then show ?thesis by (simp add: Q_def)
qed
lemma poisons_on_lease_loop: "poisons_on (\<lambda>r. lease_unknown (fst r)) (lease_inner_with_dirty e n w d)"
  unfolding poisons_on_def lease_inner_with_dirty_def
  by (metis lease_loop_result poisons_onD [OF poisons_on_lease_once])

lemma poisons_on_lease: "poisons_on (\<lambda>r. lease_unknown (fst r)) (lease_with_payload e n w d)"
  unfolding lease_with_payload_def by (intro poisons_intros poisons_on_lease_loop)

subsection \<open>A poisoned handle\<close>

definition stays_poisoned :: "'s qworld \<Rightarrow> 's qworld \<Rightarrow> bool" where
  "stays_poisoned q q' \<longleftrightarrow> (is_poisoned (qw_queue q) \<longrightarrow> is_poisoned (qw_queue q'))"

lemma preorder_stays_poisoned [intro!, simp]: "preorder_rel stays_poisoned"
  by (auto simp: preorder_rel_def stays_poisoned_def)

lemma keeps_stays_poisoned: "keeps same_handle m \<Longrightarrow> keeps stays_poisoned m"
  by (fastforce simp: keeps_def same_handle_def stays_poisoned_def is_poisoned_def)

lemma keeps_modifies_poison: "keeps stays_poisoned (modifies (poison r))"
  by (auto simp: keeps_def stays_poisoned_def is_poisoned_def poison_def split: option.splits)

lemma keeps_modifies_floor: "keeps stays_poisoned (modifies (\<lambda>q. q\<lparr>q_cached_wall_floor := x\<rparr>))"
  by (auto simp: keeps_def stays_poisoned_def is_poisoned_def)

lemma keeps_floor: "keeps stays_poisoned (wall_floor_for_mutation e)"
  unfolding wall_floor_for_mutation_def wall_floor_for_mutation_with_attempts_def slow_wall_floor_def poison_on_floor_error_def
  by (intro keeps_intros keeps_let preorder_stays_poisoned keeps_modifies_poison keeps_modifies_floor
      keeps_stays_poisoned [OF keeps_stabilized] keeps_stays_poisoned [OF keeps_authenticated] keeps_stays_poisoned [OF keeps_asks])

lemma check_poisoned: "is_poisoned q \<Longrightarrow> check_not_poisoned q = Err (QueuePoisoned (poison_reason_text (the (q_poisoned q))))"
  by (auto simp: is_poisoned_def check_not_poisoned_def)

abbreviation (input) poisoned_error :: "'s qworld \<Rightarrow> Error" where
  "poisoned_error q \<equiv> QueuePoisoned (poison_reason_text (the (q_poisoned (qw_queue q))))"

lemma strictly_idle: "(\<And>q'. qw_queue q' = qw_queue q \<Longrightarrow> m q' = Some (x, q')) \<Longrightarrow> strictly m q = Some (x, q)"
  by (simp add: strictly_def lending_def io_map_def io_bind_def lent_def set_lent_def)

lemma own_dirty_idle:
  assumes "\<And>q'. q_poisoned (qw_queue q') = q_poisoned (qw_queue q) \<Longrightarrow> m q' = Some (x, q')"
  shows "with_own_dirty m q = Some (x, q)"
  using assms by (simp add: with_own_dirty_def lending_def io_bind_def lent_def set_lent_def)

lemma returning_refused: "m q = Some (Err x, q') \<Longrightarrow> returning m q = Some (x, q')"
  by (simp add: returning_def io_map_def)

lemma try_refused:
  "check_not_poisoned (qw_queue q) = Err er \<Longrightarrow> io_try (io_map_err g (asks check_not_poisoned)) f q = Some (Err (g er), q)"
  by (simp add: io_try_def io_map_err_def map_err_def)

lemma poisoned_ack:
  "is_poisoned (qw_queue q) \<Longrightarrow> ack_inner_with_dirty e l q = Some (Ack_NotCommitted (poisoned_error q), q)"
  unfolding ack_inner_with_dirty_def by (intro returning_refused try_refused check_poisoned)

lemma poisoned_retry: "is_poisoned (qw_queue q) \<Longrightarrow> retry e l t q = Some (Tr_NotCommitted (poisoned_error q), q)"
  unfolding retry_def by (intro returning_refused try_refused check_poisoned)

lemma poisoned_bury: "is_poisoned (qw_queue q) \<Longrightarrow> bury e l r q = Some (Tr_NotCommitted (poisoned_error q), q)"
  unfolding bury_def by (intro returning_refused try_refused check_poisoned)

lemma poisoned_renew_dirty:
  "is_poisoned (qw_queue q) \<Longrightarrow> renew_with_dirty e l d q = Some (Renew_NotCommitted (poisoned_error q), q)"
  unfolding renew_with_dirty_def by (intro returning_refused try_refused check_poisoned)

lemma poisoned_enqueue_dirty:
  "is_poisoned (qw_queue q) \<Longrightarrow> enqueue_with_dirty e job q =
     Some (Enqueue_NotCommitted (enqueue_ticket_uncommitted zero_id) (poisoned_error q), q)"
  by (simp add: enqueue_with_dirty_def prepare_enqueue_def check_poisoned map_err_def io_try_def)

lemma poisoned_streaming:
  "is_poisoned (qw_queue q) \<Longrightarrow> enqueue_streaming e job rd r q =
     Some (Enqueue_NotCommitted (enqueue_ticket_uncommitted zero_id) (poisoned_error q), q)"
  unfolding enqueue_streaming_def Let_def
  by (rule returning_refused) (simp add: check_poisoned map_err_def io_try_def)

lemma poisoned_lease_once:
  "is_poisoned (qw_queue q) \<Longrightarrow> lease_once_with_dirty e d q = Some ((Lease_NotCommitted (poisoned_error q), None), q)"
  by (simp add: lease_once_with_dirty_def check_poisoned)

lemma poisoned_lease_inner:
  "is_poisoned (qw_queue q) \<Longrightarrow> lease_inner_with_dirty e n w d q = Some ((Lease_NotCommitted (poisoned_error q), None), q)"
  by (simp add: lease_inner_with_dirty_def lease_loop.simps poisoned_lease_once)

lemma poisoned_cong: "qw_queue q' = qw_queue q \<Longrightarrow> is_poisoned (qw_queue q) \<Longrightarrow> is_poisoned (qw_queue q')"
  by simp

text \<open>The handle refuses, and nothing at all changes.\<close>

lemma poisoned_refuses:
  assumes "is_poisoned (qw_queue q)"
  shows "enqueue e job q = Some (Enqueue_NotCommitted (enqueue_ticket_uncommitted zero_id) (poisoned_error q), q)"
    and "lease_with_payload e n w d q = Some ((Lease_NotCommitted (poisoned_error q), None), q)"
    and "ack e l q = Some (Ack_NotCommitted (poisoned_error q), q)"
    and "renew e l d q = Some (Renew_NotCommitted (poisoned_error q), q)"
    and "retry_now e l q = Some (Tr_NotCommitted (poisoned_error q), q)"
proof -
  show "lease_with_payload e n w d q = Some ((Lease_NotCommitted (poisoned_error q), None), q)"
    unfolding lease_with_payload_def using assms by (intro strictly_idle) (simp add: poisoned_lease_inner)
  show "ack e l q = Some (Ack_NotCommitted (poisoned_error q), q)"
    unfolding ack_def using assms by (intro strictly_idle) (simp add: poisoned_ack)
  show "retry_now e l q = Some (Tr_NotCommitted (poisoned_error q), q)"
    unfolding retry_now_def using assms by (simp add: poisoned_retry)
  have "with_own_dirty (renew_with_dirty e l d) q = Some (Renew_NotCommitted (poisoned_error q), q)"
    using assms by (intro own_dirty_idle) (simp add: poisoned_renew_dirty is_poisoned_def)
  moreover have "strictly (renew_with_dirty e l d) q = Some (Renew_NotCommitted (poisoned_error q), q)"
    using assms by (intro strictly_idle) (simp add: poisoned_renew_dirty)
  ultimately show "renew e l d q = Some (Renew_NotCommitted (poisoned_error q), q)"
    by (simp add: renew_def io_map_def)
  have "with_own_dirty (enqueue_with_dirty e job) q =
      Some (Enqueue_NotCommitted (enqueue_ticket_uncommitted zero_id) (poisoned_error q), q)"
    using assms by (intro own_dirty_idle) (simp add: poisoned_enqueue_dirty is_poisoned_def)
  moreover have "strictly (enqueue_with_dirty e job) q =
      Some (Enqueue_NotCommitted (enqueue_ticket_uncommitted zero_id) (poisoned_error q), q)"
    using assms by (intro strictly_idle) (simp add: poisoned_enqueue_dirty)
  ultimately show "enqueue e job q = Some (Enqueue_NotCommitted (enqueue_ticket_uncommitted zero_id) (poisoned_error q), q)"
    by (simp add: enqueue_def io_map_def)
qed
lemma returning_eq_Some_iff: "returning m q = Some (u, q') \<longleftrightarrow> m q = Some (Err u, q') \<or> m q = Some (Ok u, q')"
proof -
  have "u = (case r of Err x \<Rightarrow> x | Ok x \<Rightarrow> x) \<longleftrightarrow> r = Err u \<or> r = Ok u" for r
    by (cases r) auto
  then show ?thesis by (simp add: returning_def io_map_eq_Some_iff) blast
qed

lemma io_map_Ok_iff [simp]: "io_map Ok m q = Some (Ok x, q') \<longleftrightarrow> m q = Some (x, q')" and
  io_map_Err_iff [simp]: "\<not> io_map Ok m q = Some (Err y, q')"
  by (auto simp: io_map_eq_Some_iff)

lemmas outcome_simps = returning_eq_Some_iff io_try_eq_Some_iff io_bind_eq_Some_iff io_map_err_Err_iff

lemma poisoned_floor:
  "wall_floor_for_mutation e q = Some (r, q') \<Longrightarrow> is_poisoned (qw_queue q) \<Longrightarrow> is_poisoned (qw_queue q')"
  using keepsD [OF keeps_floor] by (auto simp: stays_poisoned_def)

lemma floor_then_retry:
  assumes "wall_floor_for_mutation e q = Some (Ok f, q1)" and "retry e l t q1 = Some (u, q')" and "is_poisoned (qw_queue q)"
  shows "is_poisoned (qw_queue q') \<and> (\<exists>er. u = Tr_NotCommitted er)"
  using assms(2) poisoned_retry [OF poisoned_floor [OF assms(1,3)]] poisoned_floor [OF assms(1,3)] by auto

lemma retries_refused:
  assumes "is_poisoned (qw_queue q)"
  shows "retry_at e l nb q = Some (u, q') \<Longrightarrow> is_poisoned (qw_queue q') \<and> (\<exists>er. u = Tr_NotCommitted er)"
    and "retry_after e l ns q = Some (u, q') \<Longrightarrow> is_poisoned (qw_queue q') \<and> (\<exists>er. u = Tr_NotCommitted er)"
    and "retry_with_policy e l p q = Some (u, q') \<Longrightarrow> is_poisoned (qw_queue q') \<and> (\<exists>er. u = Tr_NotCommitted er)"
  using assms
  by (auto simp: retry_at_def retry_after_def retry_with_policy_def retry_now_def outcome_simps poisoned_retry
      dest: poisoned_floor floor_then_retry split: if_splits)

subsection \<open>Sessions\<close>

text \<open>What a caller may ask of a handle, and the replies. A batch is a value the caller holds between its
  operations.\<close>

datatype 'r request =
    Ask_Enqueue EnqueueInput
  | Ask_Enqueue_Streaming EnqueueInput "'r reader" 'r
  | Ask_Lease u64 u64
  | Ask_Ack LeaseInfo
  | Ask_Retry_Now LeaseInfo
  | Ask_Retry_At LeaseInfo u64
  | Ask_Retry_After LeaseInfo u64
  | Ask_Retry_With_Policy LeaseInfo RetryPolicy
  | Ask_Bury LeaseInfo DeadReason
  | Ask_Renew LeaseInfo u64
  | Ask_Batch_Enqueue EnqueueInput Batch
  | Ask_Batch_Lease u64 u64 Batch
  | Ask_Batch_Ack LeaseInfo Batch
  | Ask_Commit Batch
  | Ask_Sync
  | Ask_Recover cursor_json WorkBudget RecoveryScanBudget
  | Ask_Remove_Dead id128
  | Ask_Remove_Quarantine id128
  | Ask_List_Dead
  | Ask_List_Quarantine
  | Ask_Resolve TransitionTicket bool
  | Ask_Verify LeaseInfo
  | Ask_Inspect id128

datatype reply =
    Reply_Enqueue EnqueueOutcome
  | Reply_Lease lease_result
  | Reply_Ack AckOutcome
  | Reply_Transition TransitionOutcome
  | Reply_Renew RenewOutcome
  | Reply_Batch_Enqueue "BatchEnqueueOutcome \<times> Batch"
  | Reply_Batch_Lease "BatchLeaseOutcome \<times> Batch"
  | Reply_Batch_Ack "BatchAckOutcome \<times> Batch"
  | Reply_Commit "BatchCommitOutcome + BatchCommitOutcome"
  | Reply_Sync "IoError + unit"
  | Reply_Recover RecoveryReport
  | Reply_Remove_Dead "Error + bool"
  | Reply_Remove_Quarantine "IoError + bool"
  | Reply_List_Dead "Error + Snapshot list"
  | Reply_List_Quarantine "IoError + QuarantineEntry list"
  | Reply_Resolve ResolutionOutcome
  | Reply_Verify "Error + unit"
  | Reply_Inspect "Error + Snapshot list"

fun perform :: "'s env \<Rightarrow> 's waits \<Rightarrow> 'r request \<Rightarrow> ('s, reply) qproc" where
  "perform e n (Ask_Enqueue job) = io_map Reply_Enqueue (enqueue e job)"
| "perform e n (Ask_Enqueue_Streaming job rd r) = io_map Reply_Enqueue (enqueue_streaming e job rd r)"
| "perform e n (Ask_Lease w d) = io_map Reply_Lease (lease_with_payload e n w d)"
| "perform e n (Ask_Ack l) = io_map Reply_Ack (ack e l)"
| "perform e n (Ask_Retry_Now l) = io_map Reply_Transition (retry_now e l)"
| "perform e n (Ask_Retry_At l t) = io_map Reply_Transition (retry_at e l t)"
| "perform e n (Ask_Retry_After l d) = io_map Reply_Transition (retry_after e l d)"
| "perform e n (Ask_Retry_With_Policy l p) = io_map Reply_Transition (retry_with_policy e l p)"
| "perform e n (Ask_Bury l r) = io_map Reply_Transition (bury e l r)"
| "perform e n (Ask_Renew l d) = io_map Reply_Renew (renew e l d)"
| "perform e n (Ask_Batch_Enqueue job b) = io_map Reply_Batch_Enqueue (batch_enqueue e job b)"
| "perform e n (Ask_Batch_Lease w d b) = io_map Reply_Batch_Lease (batch_lease e n w d b)"
| "perform e n (Ask_Batch_Ack l b) = io_map Reply_Batch_Ack (batch_ack e l b)"
| "perform e n (Ask_Commit b) = io_map Reply_Commit (commit e b)"
| "perform e n Ask_Sync = io_map Reply_Sync (queue_sync e)"
| "perform e n (Ask_Recover js b sb) = io_map Reply_Recover (recover_with_scan_budget e js b sb)"
| "perform e n (Ask_Remove_Dead j) = io_map Reply_Remove_Dead (remove_dead e j)"
| "perform e n (Ask_Remove_Quarantine i) = io_map Reply_Remove_Quarantine (remove_quarantine e i)"
| "perform e n Ask_List_Dead = io_map Reply_List_Dead (list_dead e)"
| "perform e n Ask_List_Quarantine = io_map Reply_List_Quarantine (list_quarantine e)"
| "perform e n (Ask_Resolve t s) = io_map Reply_Resolve (resolve e t s)"
| "perform e n (Ask_Verify l) = io_map Reply_Verify (verify_lease_payload e l)"
| "perform e n (Ask_Inspect j) = io_map Reply_Inspect (inspect e j)"

text \<open>The operations of producers and consumers, alone or in a batch.\<close>

fun job_operation :: "'r request \<Rightarrow> bool" where
  "job_operation (Ask_Enqueue _) = True"
| "job_operation (Ask_Enqueue_Streaming _ _ _) = True"
| "job_operation (Ask_Lease _ _) = True"
| "job_operation (Ask_Ack _) = True"
| "job_operation (Ask_Retry_Now _) = True"
| "job_operation (Ask_Retry_At _ _) = True"
| "job_operation (Ask_Retry_After _ _) = True"
| "job_operation (Ask_Retry_With_Policy _ _) = True"
| "job_operation (Ask_Bury _ _) = True"
| "job_operation (Ask_Renew _ _) = True"
| "job_operation (Ask_Batch_Enqueue _ _) = True"
| "job_operation (Ask_Batch_Lease _ _ _) = True"
| "job_operation (Ask_Batch_Ack _ _) = True"
| "job_operation _ = False"

fun batch_enqueue_unknown :: "BatchEnqueueOutcome \<Rightarrow> bool" where
  "batch_enqueue_unknown (BatchEnqueue_OutcomeUnknown _ _) = True" | "batch_enqueue_unknown _ = False"
fun batch_lease_unknown :: "BatchLeaseOutcome \<Rightarrow> bool" where
  "batch_lease_unknown (BatchLease_OutcomeUnknown _) = True" | "batch_lease_unknown _ = False"
fun batch_ack_unknown :: "BatchAckOutcome \<Rightarrow> bool" where
  "batch_ack_unknown (BatchAck_OutcomeUnknown _) = True" | "batch_ack_unknown _ = False"

fun reply_unknown :: "reply \<Rightarrow> bool" where
  "reply_unknown (Reply_Enqueue u) = enqueue_unknown u"
| "reply_unknown (Reply_Lease r) = lease_unknown (fst r)"
| "reply_unknown (Reply_Ack u) = ack_unknown u"
| "reply_unknown (Reply_Transition u) = transition_unknown u"
| "reply_unknown (Reply_Renew u) = renew_unknown u"
| "reply_unknown (Reply_Batch_Enqueue r) = batch_enqueue_unknown (fst r)"
| "reply_unknown (Reply_Batch_Lease r) = batch_lease_unknown (fst r)"
| "reply_unknown (Reply_Batch_Ack r) = batch_ack_unknown (fst r)"
| "reply_unknown (Reply_Commit r) = (\<not> is_ok r)"
| "reply_unknown _ = False"

fun reply_refused :: "reply \<Rightarrow> bool" where
  "reply_refused (Reply_Enqueue (Enqueue_NotCommitted _ _)) = True"
| "reply_refused (Reply_Lease (Lease_NotCommitted _, None)) = True"
| "reply_refused (Reply_Ack (Ack_NotCommitted _)) = True"
| "reply_refused (Reply_Transition (Tr_NotCommitted _)) = True"
| "reply_refused (Reply_Renew (Renew_NotCommitted _)) = True"
| "reply_refused (Reply_Batch_Enqueue (BatchEnqueue_NotCommitted _ _, _)) = True"
| "reply_refused (Reply_Batch_Lease (BatchLease_NotCommitted _, _)) = True"
| "reply_refused (Reply_Batch_Ack (BatchAck_NotCommitted _, _)) = True"
| "reply_refused _ = False"

subsection \<open>Batches and a poisoned handle\<close>

lemma poisons_on_batch_enqueue: "poisons_on (\<lambda>r. batch_enqueue_unknown (fst r)) (batch_enqueue e job b)"
  unfolding batch_enqueue_def enqueue_batched_def
  by (rule poisons_on_map, rule poisons_on_weaken [OF poisons_on_lending [OF poisons_on_enqueue_dirty]])
    (auto simp: Let_def split: EnqueueOutcome.splits)

lemma poisons_on_batch_lease: "poisons_on (\<lambda>r. batch_lease_unknown (fst r)) (batch_lease e n w d b)"
  unfolding batch_lease_def lease_batched_def
  by (rule poisons_on_map, rule poisons_on_map, rule poisons_on_weaken [OF poisons_on_lending [OF poisons_on_lease_loop]])
    (auto simp: Let_def split: LeaseOutcome.splits)

lemma poisons_on_batch_ack: "poisons_on (\<lambda>r. batch_ack_unknown (fst r)) (batch_ack e l b)"
  unfolding batch_ack_def ack_batched_def
  by (rule poisons_on_map, rule poisons_on_weaken [OF poisons_on_lending [OF poisons_on_ack_inner]])
    (auto simp: Let_def split: AckOutcome.splits)

lemma poisons_on_commit: "poisons_on (\<lambda>r. \<not> is_ok r) (commit e b)"
  unfolding commit_def by (intro poisons_intros) (simp_all add: is_ok_def)

lemma perform_unknown_poisons: "poisons_on reply_unknown (perform e n r)"
proof -
  note known = poisons_on_enqueue poisons_on_enqueue_streaming poisons_on_lease poisons_on_retries poisons_on_bury poisons_on_renew
    poisons_on_strictly [OF poisons_on_ack_inner] poisons_on_batch_enqueue poisons_on_batch_lease poisons_on_batch_ack poisons_on_commit
  show ?thesis
    by (cases r; simp only: perform.simps; rule poisons_on_map; simp add: known ack_def poisons_on_never)
qed

lemma lending_idle:
  "(\<And>q'. qw_queue q' = qw_queue q \<Longrightarrow> m q' = Some (x, q')) \<Longrightarrow> \<exists>d' q'. lending d m q = Some ((x, d'), q') \<and> qw_queue q' = qw_queue q"
  by (simp add: lending_def lent_def set_lent_def io_bind_def io_return_def)

lemma poisoned_batch:
  assumes "is_poisoned (qw_queue q)"
  shows "batch_enqueue e job b q = Some (u, q') \<Longrightarrow> is_poisoned (qw_queue q') \<and> reply_refused (Reply_Batch_Enqueue u)"
    and "batch_lease e n w d b q = Some (v, q') \<Longrightarrow> is_poisoned (qw_queue q') \<and> reply_refused (Reply_Batch_Lease v)"
    and "batch_ack e l b q = Some (x, q') \<Longrightarrow> is_poisoned (qw_queue q') \<and> reply_refused (Reply_Batch_Ack x)"
proof -
  show "batch_enqueue e job b q = Some (u, q') \<Longrightarrow> is_poisoned (qw_queue q') \<and> reply_refused (Reply_Batch_Enqueue u)"
    using lending_idle [of q "enqueue_with_dirty e job" "Enqueue_NotCommitted (enqueue_ticket_uncommitted zero_id) (poisoned_error q)" "Some (bt_dirty b)"] assms
    by (auto simp: batch_enqueue_def enqueue_batched_def io_map_eq_Some_iff poisoned_enqueue_dirty is_poisoned_def Let_def)
  show "batch_lease e n w d b q = Some (v, q') \<Longrightarrow> is_poisoned (qw_queue q') \<and> reply_refused (Reply_Batch_Lease v)"
    using lending_idle [of q "lease_inner_with_dirty e n w d" "(Lease_NotCommitted (poisoned_error q), None)" "Some (bt_dirty b)"] assms
    by (auto simp: batch_lease_def lease_batched_def io_map_eq_Some_iff poisoned_lease_inner is_poisoned_def Let_def)
  show "batch_ack e l b q = Some (x, q') \<Longrightarrow> is_poisoned (qw_queue q') \<and> reply_refused (Reply_Batch_Ack x)"
    using lending_idle [of q "ack_inner_with_dirty e l" "Ack_NotCommitted (poisoned_error q)" "Some (bt_dirty b)"] assms
    by (auto simp: batch_ack_def ack_batched_def io_map_eq_Some_iff poisoned_ack is_poisoned_def Let_def)
qed

text \<open>The requests that only look leave the handle as it was.\<close>

lemma keeps_validate_lease: "keeps same_handle (open_and_validate_current_lease e l)"
  unfolding open_and_validate_current_lease_def read_lease_envelope_def Let_def by (intro handle_keeps)

lemma keeps_verify_lease: "keeps same_handle (verify_lease_payload e l)"
  unfolding verify_lease_payload_def verify_payload_on_fd_def by (intro handle_keeps keeps_validate_lease)

lemma keeps_resolve_check: "keeps same_handle (resolve_check_object e p t c k)"
  unfolding resolve_check_object_def resolve_opened_def Let_def by (intro handle_keeps)

lemma keeps_stabilized_object: "keeps same_handle (stabilized e p ob u)"
  unfolding stabilized_def stabilize_object_def Let_def by (intro handle_keeps)

lemma keeps_resolution: "keeps same_handle (resolution e s sp dp a b)"
  by (induction e s sp dp a b rule: resolution.induct; unfold resolution.simps; intro handle_keeps keeps_stabilized_object)

lemma keeps_resolve: "keeps same_handle (resolve e t s)"
  unfolding resolve_def by (intro handle_keeps keeps_resolve_check keeps_resolution)

lemma keeps_io_fold: "(\<And>x a. keeps same_handle (f x a)) \<Longrightarrow> keeps same_handle (io_fold f xs a)"
proof (induction xs arbitrary: a)
  case (Cons x xs)
  show ?case unfolding io_fold.simps by (intro handle_keeps Cons)
qed (unfold io_fold.simps, intro handle_keeps)

lemma keeps_child_dir: "keeps same_handle (open_child_dir e fd n)" and keeps_names_in: "keeps same_handle (names_in e fd)"
  unfolding open_child_dir_def names_in_def by (intro handle_keeps)+

lemma keeps_walk:
  assumes "\<And>d b a. keeps same_handle (visit d b a)"
  shows "keeps same_handle (walk_shards e sh visit depth fd p b a)"
proof (induction depth arbitrary: fd p b a)
  case 0
  show ?case unfolding walk_shards.simps by (intro handle_keeps keeps_child_dir assms)
next
  case (Suc depth)
  show ?case unfolding walk_shards.simps by (intro handle_keeps keeps_child_dir keeps_names_in keeps_io_fold Suc)
qed

lemma keeps_visit: "(\<And>d b a. keeps same_handle (visit d b a)) \<Longrightarrow> keeps same_handle (visit_shard_dirs e fd st n sh visit a)"
  unfolding visit_shard_dirs_def by (intro handle_keeps keeps_child_dir keeps_walk)

lemma keeps_visit_names: "keeps same_handle (visit_names e j sh c d b a)"
  unfolding visit_names_def by (intro handle_keeps keeps_names_in)

lemma keeps_visit_receipts: "keeps same_handle (visit_receipts e fmt j sh d b a)"
  unfolding visit_receipts_def visit_receipt_def by (intro handle_keeps keeps_names_in keeps_io_fold)

lemma keeps_inspect: "keeps same_handle (inspect e j)"
  unfolding inspect_def Let_def by (intro handle_keeps keeps_visit keeps_visit_names keeps_visit_receipts)

lemma reads_poisoned: "keeps same_handle m \<Longrightarrow> m q = Some (x, q') \<Longrightarrow> is_poisoned (qw_queue q) \<Longrightarrow> is_poisoned (qw_queue q')"
  by (drule (1) keepsD) (simp add: same_handle_def is_poisoned_def)

lemma keeps_find_dead: "keeps same_handle (find_dead e j)"
  unfolding find_dead_def Let_def by (intro handle_keeps keeps_inspect)

lemma keeps_remove_dead: "keeps same_handle (remove_dead e j)"
  unfolding remove_dead_def by (intro handle_keeps keeps_find_dead)

lemma keeps_list_dead: "keeps same_handle (list_dead e)"
  unfolding list_dead_def list_dead_bucket_def list_dead_shard_def by (intro handle_keeps keeps_io_fold keeps_child_dir)

lemma keeps_collect:
  assumes "\<And>f. descend = Some f \<Longrightarrow> (\<And>fd d out. keeps same_handle (f fd d out))"
  shows "keeps same_handle (collect_level e descend fd d out)"
  unfolding collect_level_def
proof (intro handle_keeps keeps_each_entry)
  fix r a show "keeps same_handle (collect_entry e fd d descend r a)"
    using assms unfolding collect_entry_def
    by (auto intro!: handle_keeps split: sum.split option.split prod.split)
qed

lemma keeps_collect_entries: "keeps same_handle (collect_quarantine_entries e depth fd d out)"
  by (induction depth arbitrary: fd d out) (auto intro!: keeps_collect)

lemma keeps_list_quarantine: "keeps same_handle (list_quarantine e)"
  unfolding list_quarantine_def by (intro handle_keeps keeps_collect_entries)

lemma keeps_remove_quarantine: "keeps same_handle (remove_quarantine e i)"
  unfolding remove_quarantine_def find_quarantine_def open_quarantine_parent_def by (intro handle_keeps keeps_list_quarantine)

lemma keeps_sync_dirty: "keeps same_handle (sync_dirty e d)"
  unfolding sync_dirty_def by (intro handle_keeps keeps_modifies) simp_all

lemma keeps_queue_sync: "keeps same_handle (queue_sync e)"
  unfolding queue_sync_def by (intro handle_keeps keeps_sync_dirty keeps_modifies keeps_io_for) simp_all

lemma poisoned_commit: "commit e b q = Some (u, q') \<Longrightarrow> is_poisoned (qw_queue q) \<Longrightarrow> is_poisoned (qw_queue q')"
proof -
  have "keeps stays_poisoned (commit e b)"
    unfolding commit_def poisoning_def Let_def
    by (intro keeps_intros keeps_stays_poisoned [OF keeps_sync_dirty] keeps_modifies_poison preorder_stays_poisoned keeps_case_prod)
  then show "commit e b q = Some (u, q') \<Longrightarrow> is_poisoned (qw_queue q) \<Longrightarrow> is_poisoned (qw_queue q')"
    by (auto dest: keepsD simp: stays_poisoned_def)
qed

lemma poisoned_recovery:
  "recover_with_scan_budget e js b sb q = Some (u, q') \<Longrightarrow> is_poisoned (qw_queue q) \<Longrightarrow> is_poisoned (qw_queue q')"
  using recovery_within_limits(3) [of e js b sb q u q' False] by (simp add: is_poisoned_def)

lemma poisoned_perform:
  assumes "perform e n r q = Some (u, q')" and "is_poisoned (qw_queue q)"
  shows "is_poisoned (qw_queue q') \<and> (job_operation r \<longrightarrow> reply_refused u)"
  using assms
  by (cases r)
    (auto simp: io_map_eq_Some_iff poisoned_refuses poisoned_streaming poisoned_bury
      dest: retries_refused poisoned_batch poisoned_commit poisoned_recovery
        reads_poisoned [OF keeps_queue_sync] reads_poisoned [OF keeps_remove_dead] reads_poisoned [OF keeps_remove_quarantine]
        reads_poisoned [OF keeps_list_dead] reads_poisoned [OF keeps_list_quarantine]
        reads_poisoned [OF keeps_resolve] reads_poisoned [OF keeps_verify_lease] reads_poisoned [OF keeps_inspect])

inductive session :: "'s env \<Rightarrow> 's waits \<Rightarrow> 's qworld \<Rightarrow> ('r request \<times> reply) list \<Rightarrow> 's qworld \<Rightarrow> bool" for e n where
  idle: "session e n q [] q"
| ask: "perform e n r q = Some (u, q1) \<Longrightarrow> session e n q1 trace q' \<Longrightarrow> session e n q ((r, u) # trace) q'"

inductive_cases session_ConsE: "session e n q (p # trace) q'"

lemma session_appendE:
  assumes "session e n q (xs @ ys) q'"
  obtains q1 where "session e n q xs q1" and "session e n q1 ys q'"
  using assms by (induction xs arbitrary: q) (auto intro: session.intros elim!: session_ConsE)

lemma poisoned_session:
  assumes "session e n q trace q'" and "is_poisoned (qw_queue q)"
  shows "is_poisoned (qw_queue q') \<and> list_all (\<lambda>(r, u). job_operation r \<longrightarrow> reply_refused u) trace"
  using assms by (induction rule: session.induct) (auto dest: poisoned_perform)

text \<open>C39. After an outcome is unknown, a handle takes no more part in the life of jobs: in any session with a
  handle, whatever the caller asks and whatever the system does, once one request (or the commit of a
  batch) was answered with an unknown outcome, every later enqueue, lease, acknowledgment,
  retry, burial and renewal, alone or in a batch, is refused as not committed, and the handle stays
  poisoned through everything else. What is left to the caller is to look, to sync and to commit
  what a batch already holds, and the maintenance that does not check the poison: recovery and the
  removal of dead and quarantined jobs.\<close>

theorem no_job_operation_after_unknown:
  assumes "session e n q (before @ (r, u) # after) q'" and "reply_unknown u"
  shows "list_all (\<lambda>(r', u'). job_operation r' \<longrightarrow> reply_refused u') after \<and> is_poisoned (qw_queue q')"
proof -
  from assms(1) obtain q1 where "session e n q1 ((r, u) # after) q'" by (elim session_appendE)
  then obtain q2 where run: "perform e n r q1 = Some (u, q2)" and rest: "session e n q2 after q'" by (elim session_ConsE) auto
  have "is_poisoned (qw_queue q2)" by (rule poisons_onD [OF perform_unknown_poisons run assms(2)])
  then show ?thesis using poisoned_session [OF rest] by blast
qed

subsection \<open>Examples\<close>

lemma advance_past: "advance_iovs (length (concat iovs)) iovs = []" if "list_all (\<lambda>b. b \<noteq> []) iovs"
  using that by (induction iovs) auto

lemma sample_writev_loop:
  assumes "list_all (\<lambda>b. b \<noteq> []) iovs"
  shows "writev_loop watermark_os fd iovs (idle_world ()) = Some (Ok (), idle_world ())"
proof (cases "iovs = []")
  case True
  then show ?thesis by (subst writev_loop.simps) simp
next
  case False
  with assms have n: "length (concat iovs) \<noteq> 0" by (cases iovs) auto
  have stop: "writev_loop watermark_os fd [] (idle_world ()) = Some (Ok (), idle_world ())"
    by (subst writev_loop.simps) simp
  have w: "sys_writev watermark_os fd iovs = Pair (Ok (length (concat iovs)))"
    by (simp add: watermark_os_def Let_def)
  show ?thesis
    using False n stop [unfolded idle_world_def] advance_past [OF assms]
    by (subst writev_loop.simps) (simp add: w syscall_def idle_world_def del: length_concat concat_eq_Nil_conv Nil_eq_concat_conv)
qed

lemma sample_writev:
  "writev_all watermark_os fd bufs (idle_world ()) = Some (Ok (), idle_world ())"
  using sample_writev_loop [of "filter (\<lambda>b. b \<noteq> []) bufs" fd]
  by (simp add: writev_all_def io_return_def list_all_iff)

lemma graphic_byte: "is_ascii_graphic c \<Longrightarrow> char_byte c \<noteq> 0"
proof
  assume g: "is_ascii_graphic c" and z: "char_byte c = 0"
  have "(of_char c :: nat) < 256" by simp
  moreover have "unat (word_of_nat (of_char c) :: 8 word) = 0" using z by (simp add: char_byte_def)
  ultimately show False using g by (simp add: is_ascii_graphic_def unsigned_of_nat take_bit_nat_eq_self)
qed

lemma safe_no_nul: "safe_component n \<Longrightarrow> 0 \<notin> set (as_bytes n)"
  using graphic_byte by (force simp: safe_component_def as_bytes_def)
lemma full_disk_publish:
  assumes "qw_sys q = idle_world ()" and "qw_lent q = None" and "0 \<notin> set (as_bytes name)" and "q_publication_mode (qw_queue q) = None"
  shows "publish_tmpfile (sample_env watermark_os) 9 8 name q =
     Some (Err (Publish_OutcomeUnknown DestinationFsync (from_raw_os_error watermark_os ENOSPC)), q)"
proof -
  have "fstat watermark_os 9 (idle_world ()) = Some (Ok ((regular_stat [])\<lparr>st_nlink := 0\<rparr>), idle_world ())"
    by (simp add: fstat_def watermark_os_def Let_def)
  moreover have "fsync watermark_os 9 (idle_world ()) = Some (Ok (), idle_world ())"
    "fsync watermark_os 8 (idle_world ()) = Some (Err (from_raw_os_error watermark_os ENOSPC), idle_world ())"
    by (simp_all add: fsync_def watermark_os_def Let_def)
  moreover have "linkat_empty_path watermark_os 9 8 name (idle_world ()) = Some (Ok (), idle_world ())"
    using assms(3) by (simp add: linkat_empty_path_def with_name_eq watermark_os_def Let_def)
  moreover have "unnamed_file_identity ((regular_stat [])\<lparr>st_nlink := 0\<rparr>) = Ok (stat_identity (regular_stat []))"
    by (simp add: unnamed_file_identity_def regular_stat_def S_IFMT_def S_IFREG_def stat_identity_def)
  ultimately show ?thesis
    using assms
    by (simp add: publish_tmpfile_def sample_env_def lift_def lent_def io_bind_def publish_tmpfile_noreplace_with_mode_def
        publish_tmpfile_noreplace_impl_def io_try_def io_map_err_def map_err_def link_tmpfile_noreplace_def
        try_direct_tmpfile_link_def fsync_dir_fd_def)
qed

lemma sample_destination:
  assumes "prepare_job sha queue sample_input jid t = Ok p" and "q_format queue = sample_format"
  shows "pe_dest_dir p = ''ready/0000'' \<and> safe_component (pe_filename p)
    \<and> (\<exists>hdr. header_encode (pe_header p) (pe_ext_bytes p) = Ok hdr)"
proof -
  from assms(1) obtain h ext initial common target where
    h: "prepare_header sha (q_format queue) sample_input jid t = Ok (h, ext)"
    and i: "initial_state_of (ei_initial_not_before sample_input) t (fmt_delayed_bucket_width_ns (q_format queue)) = Ok initial"
    and t: "enqueue_target sha (queue_layout queue) initial (ei_initial_not_before sample_input) common = Ok target"
    and p: "pe_header p = h" "pe_ext_bytes p = ext" "pe_dest_dir p = target_directory target"
      "pe_filename p = tg_filename target" by (rule prepare_job_Ok)
  have "compute_shard sha q j 1 = 0" for q j
    using compute_shard_less [of 1 sha q j] by (simp add: is_power_of_two_def)
  moreover have "initial = Initial_Ready" using i by (simp add: initial_state_of_def sample_input_def)
  moreover have "fmt_hex 4 0 = ''0000''" by code_simp
  ultimately show ?thesis
    using t prepare_header_Ok(1) [OF h] assms(2)
    by (auto simp: p enqueue_target_def layout_ready_def shard_for_def queue_layout_def layout_new_def sample_format_def
        target_directory_def ready_shard_dir_def shard_hex_def hex_u16_def made_names_safe(1) sample_input_def Let_def)
qed

lemma full_disk_enqueue:
  "\<exists>t q'. enqueue (sample_env watermark_os) sample_input (sample_qworld ()) = Some (Enqueue_OutcomeUnknown t ResourceExhausted, q')"
proof -
  let ?e = "sample_env watermark_os"
  obtain p q' where prep: "prepare_enqueue ?e sample_input (sample_qworld ()) = Some (Ok p, q')"
    and job: "prepare_job (\<lambda>_. arr_of (replicate 32 0)) (qw_queue q') sample_input (arr_of (replicate 16 7)) 5 = Ok p"
    and q': "q_format (qw_queue q') = sample_format" "q_known_dirs (qw_queue q') = {''ready/0000''}"
      "q_cached_dest_fd (qw_queue q') = Some (''ready/0000'', 8)" "q_publication_mode (qw_queue q') = None"
      "qw_sys q' = idle_world ()" "qw_lent q' = None"
    using sample_prepare by blast
  obtain hdr where dest: "pe_dest_dir p = ''ready/0000''" "safe_component (pe_filename p)"
    and hdr: "header_encode (pe_header p) (pe_ext_bytes p) = Ok hdr"
    using sample_destination [OF job q'(1)] by blast
  obtain queue where q: "q' = \<lparr>qw_queue = queue, qw_lent = None, qw_sys = idle_world ()\<rparr>" using q'(5,6) by (cases q') simp
  have full: "error_from_io (from_raw_os_error watermark_os ENOSPC) = ResourceExhausted"
    by (simp add: error_from_io_def from_raw_os_error_def)
  have opened: "open_tmpfile watermark_os 8 (idle_world ()) = Some (Ok 9, idle_world ())"
    by (simp add: open_tmpfile_def watermark_os_def Let_def)
  note published = full_disk_publish [OF q'(5,6) safe_no_nul [OF dest(2)] q'(4)]
  have "write_and_publish_with_dirty ?e (pe_dest_dir p) (pe_filename p) (pe_header p) (pe_ext_bytes p) (pe_payload p) q' =
      Some (Err (PE_OutcomeUnknown ResourceExhausted), q')"
    using published q' opened sample_writev
    by (simp add: q full publication_failed_at_def write_and_publish_with_dirty_def dest(1) ensure_dir_with_dirty.simps dir_is_known_def
        open_or_cache_dir_def cloned_def not_committed_def write_tmpfile_and_publish_def write_tmpfile_def hdr sample_env_def same_fd_def
        io_try_def io_bind_def io_return_def io_map_err_def map_err_def lift_def asks_def lent_def)
  with prep obtain q1 where "enqueue_with_dirty ?e sample_input (sample_qworld ()) =
      Some (Enqueue_OutcomeUnknown (pe_ticket p) ResourceExhausted, q1)"
    by (auto simp: enqueue_with_dirty_def io_bind_def modifies_def io_return_def)
  moreover have same: "(sample_qworld ())\<lparr>qw_lent := None\<rparr> = sample_qworld ()"
    and "qw_lent (sample_qworld ()) = None" "q_deferred_dir_sync (qw_queue (sample_qworld ())) = False"
    by (simp_all add: sample_qworld_def sample_queue_def)
  ultimately show ?thesis
    by (auto simp: same enqueue_def strictly_def lending_def lent_def set_lent_def asks_def io_map_def io_bind_def io_return_def)
qed

definition no_waits :: "'s waits" where
  "no_waits = \<lparr>sys_inotify_init1 = (\<lambda>_ s. (Inl EINVAL, s)), sys_inotify_add_watch = (\<lambda>_ _ _ s. (Inl EINVAL, s)),
     sys_ppoll = (\<lambda>_ _ s. (Inl EINVAL, s)), std_elapsed = (\<lambda>s. (0, s)), std_sleep = (\<lambda>_ s. ((), s))\<rparr>"

theorem no_job_operation_after_unknown_witness:
  "\<exists>t u q'. session (sample_env watermark_os) (no_waits :: unit waits) (sample_qworld ())
      [(Ask_Enqueue sample_input, Reply_Enqueue (Enqueue_OutcomeUnknown t ResourceExhausted)),
       (Ask_Enqueue sample_input :: unit request, u)] q' \<and> reply_refused u"
proof -
  let ?e = "sample_env watermark_os"
  obtain t q1 where first: "enqueue ?e sample_input (sample_qworld ()) = Some (Enqueue_OutcomeUnknown t ResourceExhausted, q1)"
    using full_disk_enqueue by blast
  have "is_poisoned (qw_queue q1)" using poisons_onD [OF poisons_on_enqueue first] by simp
  let ?r = "Ask_Enqueue sample_input :: unit request" and ?n = "no_waits :: unit waits"
  obtain u q2 where second: "perform ?e ?n ?r q1 = Some (u, q2)"
    using poisoned_refuses(1) [OF \<open>is_poisoned (qw_queue q1)\<close>] by (simp add: io_map_eq_Some_iff)
  have run: "session ?e ?n (sample_qworld ())
      ([] @ (?r, Reply_Enqueue (Enqueue_OutcomeUnknown t ResourceExhausted)) # [(?r, u)]) q2"
    using first by (auto intro!: session.intros second simp del: perform.simps) (simp add: io_map_eq_Some_iff)
  have "reply_refused u" using no_job_operation_after_unknown [OF run] by simp
  with run show ?thesis by auto
qed

end
