(* ===== verification/Spec2Isabelle.thy ===== *)
theory Spec2Isabelle
  imports Steadq_Math Steadq_Names Steadq_Format Steadq_Cbor Steadq_Engine Steadq_Simulator Steadq_Session
begin

text \<open>
  SteadQ is a durable job queue whose whole state is a directory tree: a job is a file, its state is
  the directory that holds it, and every transition is one rename or link followed by directory
  barriers. This development models the crates of the repository from the bottom up and proves
  what each layer promises to the next.

  \<^bold>\<open>The parts and how they interact.\<close> The pure crates fix integers, names and records. The
  file-system layer wraps the kernel. The move engine performs one transition with its barriers
  and reports whether it linearized. The queue handle composes these: it keeps time behind the
  wall watermark, prepares jobs, moves them, verifies what it reads, and poisons itself when it no
  longer knows the outcome of a transition.

  \<^bold>\<open>Theories and sources\<close> (all paths under \<^verbatim>\<open>src/crates/\<close>).

  \<^item> \<^verbatim>\<open>Steadq_Prelude\<close>: results, checked words, byte codecs and the string functions of Rust.
  \<^item> \<^verbatim>\<open>Steadq_Math\<close>: \<^verbatim>\<open>steadq-math/src/lib.rs\<close>. Bucket arithmetic and retry policy at 64 bits: no
    job is scheduled early or a bucket late, retry delays stay within the exponential backoff.
  \<^item> \<^verbatim>\<open>Steadq_Hex\<close>, \<^verbatim>\<open>Steadq_Shards\<close>, \<^verbatim>\<open>Steadq_Names\<close>: \<^verbatim>\<open>steadq-names/src/lib.rs\<close>. Hexadecimal
    codecs, shard placement and scan order, the seven filename formats and their tags: parsers
    accept exactly what printers write, and a tag that authenticates in two places is a hash
    collision.
  \<^item> \<^verbatim>\<open>Steadq_Format\<close>, \<^verbatim>\<open>Steadq_Cbor\<close>: \<^verbatim>\<open>steadq-format/src/lib.rs\<close>, \<^verbatim>\<open>cbor.rs\<close>. The records on disk
    and the canonical extension header: round trips, and exactly which files are accepted.
  \<^item> \<^verbatim>\<open>Steadq_State_Machine\<close>: \<^verbatim>\<open>steadq-core/src/state_machine.rs\<close>, the transition table.
  \<^item> \<^verbatim>\<open>Steadq_Tickets\<close>: \<^verbatim>\<open>steadq-core/src/errors.rs\<close>: errors, outcomes, tickets and their JSON form, and
    the arithmetic of generations and attempts along any history.
  \<^item> \<^verbatim>\<open>Steadq_Io\<close>, \<^verbatim>\<open>Steadq_Fault\<close>, \<^verbatim>\<open>Steadq_Fs\<close>: \<^verbatim>\<open>steadq-fs-linux/src/lib.rs\<close>. Procedures, fault
    injection, and every wrapper of a system call with its transfer loops.
  \<^item> \<^verbatim>\<open>Steadq_Posix\<close>: the interface \<open>posix\<close>, what the code relies on from the kernel, with an executable
    reference kernel that satisfies it.
  \<^item> \<^verbatim>\<open>Steadq_Engine\<close>: \<^verbatim>\<open>steadq-core/src/queue/engine.rs\<close>. Moves, publications, unlinks and
    replacements: each linearizes at one point, its result says on which side it ended, and an
    object that was durable stays durable somewhere.
  \<^item> \<^verbatim>\<open>Steadq_Simulator\<close>: \<^verbatim>\<open>steadq-testkit/src/simulator.rs\<close>, \<^verbatim>\<open>oracle.rs\<close>, \<^verbatim>\<open>verification.rs\<close>. The crash
    simulator and the oracle that the tests compare the queue with.
  \<^item> \<^verbatim>\<open>Steadq_Layout\<close>: \<^verbatim>\<open>steadq-core/src/queue/layout.rs\<close>, \<^verbatim>\<open>options.rs\<close>. Where each object lives.
  \<^item> \<^verbatim>\<open>Steadq_Cursors\<close>: \<^verbatim>\<open>queue/cursors.rs\<close> and the retry ledger of \<^verbatim>\<open>recovery.rs\<close>.
  \<^item> \<^verbatim>\<open>Steadq_Verified\<close>: \<^verbatim>\<open>queue/verified.rs\<close>. Verification on a descriptor decides what the in-memory
    validation decides on the file's bytes.
  \<^item> \<^verbatim>\<open>Steadq_Queue\<close>: \<^verbatim>\<open>queue/mod.rs\<close>, \<^verbatim>\<open>watermark.rs\<close>. The handle, poisoning, and the wall floor.
  \<^item> \<^verbatim>\<open>Steadq_Publish\<close>: \<^verbatim>\<open>queue/publish.rs\<close>. Enqueues of every kind: what is prepared is a valid job under
    an authentic name, and streaming a payload writes the file the buffered enqueue writes.
  \<^item> \<^verbatim>\<open>Steadq_Quarantine\<close>, \<^verbatim>\<open>Steadq_Inspect\<close>: \<^verbatim>\<open>quarantine.rs\<close>, \<^verbatim>\<open>queue/inspect.rs\<close>. Setting objects
    aside, lookups, the duplicate check, administration.
  \<^item> \<^verbatim>\<open>Steadq_Consumer\<close>, \<^verbatim>\<open>Steadq_Resolve\<close>, \<^verbatim>\<open>Steadq_Lease\<close>, \<^verbatim>\<open>Steadq_Batch\<close>: \<^verbatim>\<open>queue/consumer.rs\<close>,
    \<^verbatim>\<open>resolve.rs\<close>, \<^verbatim>\<open>lease.rs\<close> with \<^verbatim>\<open>steadq-fs-linux/src/inotify.rs\<close>, \<^verbatim>\<open>batch.rs\<close>. What a worker does
    with a job, and what becomes of an unknown outcome.
  \<^item> \<^verbatim>\<open>Steadq_Session\<close>: sequences of calls on one handle. After an unknown outcome nothing commits.
  \<^item> \<^verbatim>\<open>Steadq_Recovery\<close>, \<^verbatim>\<open>Steadq_Phases\<close>, \<^verbatim>\<open>Steadq_Pass\<close>: \<^verbatim>\<open>recovery.rs\<close>, \<^verbatim>\<open>recovery/walk.rs\<close>,
    \<^verbatim>\<open>recovery/phases/\<close>. Budgets, the walks of the five phases, and the pass that runs them under its
    lock and stores its cursor.

  \<^bold>\<open>How code is modelled.\<close> A Rust function that touches the kernel is a procedure: a function from
  a world to an optional pair of a result and a world, \<^const>\<open>None\<close> when a loop does not end. The
  question mark operator is \<open>io_try\<close>. The kernel, SHA-256 and the duplication of descriptors are
  arguments; what is assumed of them are hypotheses of the theorems, each met by an example.
  Integers keep their width, and errors are values.

  \<^bold>\<open>Bounds and fuel.\<close> No definition uses fuel. Loops over kernel calls are partial functions; where
  a theorem says that one returns, the kernel is assumed to make progress (a bounded number of
  interruptions between two transfers).

  \<^bold>\<open>Not modelled.\<close> Two procedures never interleave: the model is of one process between the calls of
  others. Closing a descriptor, and with it the release of a lock, has no effect here. Creating and
  opening a queue, the consistency check of \<^verbatim>\<open>quarantine.rs\<close>, copies to a path of the host, and
  dropping a batch without a commit are left out. Derived serde code, the command line, the C
  interface, the build tasks and the fuzz targets are not part of the model: they print, parse
  arguments or cross a foreign interface, over the library modelled here.
\<close>

end
